(* ===== verification/Prelude.thy ===== *)
theory Prelude
  imports Complex_Main "HOL-Library.Sublist" "HOL-Library.Char_ord"
    "HOL-Library.List_Lexorder" "HOL-Library.Product_Lexorder"
    "HOL-Library.Multiset"
begin

text \<open>
  Shared vocabulary of the development: Python exceptions as values, results, validators as
  lists of checks whose first failure decides, the stable sorts and counters of the Python
  standard library, and the lemma collections the component theories extend.
\<close>

named_theorems state_simps \<open>how an operation acts on each part of the state\<close>
named_theorems inv_intros \<open>preservation of the invariants by the operations\<close>

subsection \<open>Exceptions and results\<close>

datatype exn =
    ValueError string
  | KeyError string
  | TypeError string
  | AttributeError string
  | RuntimeError string
  | IntegrityError
  | GitHubError string
  | AdmissionDenied string
  | RecoveryUncertain string
  | CalledProcessError string string string
  | FileNotFoundError string
  | OSError string
  | OtherError string

type_synonym 'a res = "exn + 'a"
type_synonym time = rat

text \<open>
  \<open>str(exc)\<close>. A \<open>CalledProcessError\<close> carries its message, its standard output and its standard
  error; the text of an integrity error is SQLite's for the partial unique index.
\<close>

fun exn_text :: "exn \<Rightarrow> string" where
  "exn_text (ValueError m) = m"
| "exn_text (KeyError k) = CHR 0x27 # k @ [CHR 0x27]"
| "exn_text (TypeError m) = m"
| "exn_text (AttributeError m) = m"
| "exn_text (RuntimeError m) = m"
| "exn_text IntegrityError = ''UNIQUE constraint failed: jobs.worker''"
| "exn_text (GitHubError m) = m"
| "exn_text (AdmissionDenied m) = m"
| "exn_text (RecoveryUncertain m) = m"
| "exn_text (CalledProcessError m out err) = m"
| "exn_text (FileNotFoundError m) = m"
| "exn_text (OSError m) = m"
| "exn_text (OtherError m) = m"

fun exn_class :: "exn \<Rightarrow> string" where
  "exn_class (ValueError m) = ''ValueError''"
| "exn_class (KeyError k) = ''KeyError''"
| "exn_class (TypeError m) = ''TypeError''"
| "exn_class (AttributeError m) = ''AttributeError''"
| "exn_class (RuntimeError m) = ''RuntimeError''"
| "exn_class IntegrityError = ''IntegrityError''"
| "exn_class (GitHubError m) = ''GitHubError''"
| "exn_class (AdmissionDenied m) = ''AdmissionDenied''"
| "exn_class (RecoveryUncertain m) = ''RecoveryUncertain''"
| "exn_class (CalledProcessError m out err) = ''CalledProcessError''"
| "exn_class (FileNotFoundError m) = ''FileNotFoundError''"
| "exn_class (OSError m) = ''OSError''"
| "exn_class (OtherError m) = ''Exception''"

text \<open>\<open>except RuntimeError\<close> and \<open>except OSError\<close> also catch the subclasses.\<close>

fun is_runtime_error :: "exn \<Rightarrow> bool" where
  "is_runtime_error (RuntimeError _) = True"
| "is_runtime_error (GitHubError _) = True"
| "is_runtime_error (AdmissionDenied _) = True"
| "is_runtime_error (RecoveryUncertain _) = True"
| "is_runtime_error _ = False"

fun is_os_error :: "exn \<Rightarrow> bool" where
  "is_os_error (FileNotFoundError _) = True"
| "is_os_error (OSError _) = True"
| "is_os_error _ = False"

fun is_called_process_error :: "exn \<Rightarrow> bool" where
  "is_called_process_error (CalledProcessError _ _ _) = True"
| "is_called_process_error _ = False"

definition res_bind :: "'a res \<Rightarrow> ('a \<Rightarrow> 'b res) \<Rightarrow> 'b res" where
  "res_bind m f = (case m of Inl e \<Rightarrow> Inl e | Inr x \<Rightarrow> f x)"

lemma res_bind_simps [simp]:
  "res_bind (Inl e) f = Inl e"
  "res_bind (Inr x) f = f x"
  by (simp_all add: res_bind_def)

lemma res_bind_Inr_iff: "res_bind m f = Inr y \<longleftrightarrow> (\<exists>x. m = Inr x \<and> f x = Inr y)"
  by (cases m) auto

subsection \<open>Validators: the first failing check decides\<close>

text \<open>
  A validator of the source is a sequence of \<open>if ...: raise ValueError(...)\<close> statements.
  A check is the exception it raises, or \<open>None\<close>; a validator is the list of its checks in the
  order of the source.
\<close>

type_synonym check = "exn option"

definition ensure :: "bool \<Rightarrow> exn \<Rightarrow> check" where
  "ensure b e = (if b then None else Some e)"

fun first_exn :: "check list \<Rightarrow> check" where
  "first_exn [] = None"
| "first_exn (None # cs) = first_exn cs"
| "first_exn (Some e # cs) = Some e"

lemma ensure_None [simp]: "ensure b e = None \<longleftrightarrow> b"
  by (simp add: ensure_def)

lemma ensure_Some [simp]: "ensure b e = Some x \<longleftrightarrow> \<not> b \<and> x = e"
  by (auto simp: ensure_def)

lemma first_exn_None_iff: "first_exn cs = None \<longleftrightarrow> (\<forall>c \<in> set cs. c = None)"
  by (induction cs rule: first_exn.induct) auto

lemma first_exn_Cons: "first_exn (c # cs) = (case c of None \<Rightarrow> first_exn cs | Some e \<Rightarrow> Some e)"
  by (cases c) auto

lemma first_exn_append:
  "first_exn (xs @ ys) = (case first_exn xs of None \<Rightarrow> first_exn ys | Some e \<Rightarrow> Some e)"
  by (induction xs rule: first_exn.induct) auto

lemma first_exn_Some_mem: "first_exn cs = Some e \<Longrightarrow> Some e \<in> set cs"
  by (induction cs rule: first_exn.induct) auto

text \<open>A \<open>for\<close> loop of checks over a list is the checks of its items in order.\<close>

definition check_all :: "('a \<Rightarrow> check) \<Rightarrow> 'a list \<Rightarrow> check" where
  "check_all f xs = first_exn (map f xs)"

lemma check_all_None_iff: "check_all f xs = None \<longleftrightarrow> (\<forall>x \<in> set xs. f x = None)"
  by (simp add: check_all_def first_exn_None_iff)

lemma check_all_simps [simp]:
  "check_all f [] = None"
  "check_all f (x # xs) = (case f x of None \<Rightarrow> check_all f xs | Some e \<Rightarrow> Some e)"
  by (simp_all add: check_all_def first_exn_Cons split: option.split)

subsection \<open>Sorting and counting as Python does\<close>

text \<open>
  \<open>sorted(xs, key=k)\<close> is stable, as \<open>sort_key\<close> is; with \<open>reverse=True\<close> Python keeps the order of
  equal elements, which is the reversal of a sort of the reversed list.
\<close>

definition sorted_desc :: "('a \<Rightarrow> 'b::linorder) \<Rightarrow> 'a list \<Rightarrow> 'a list" where
  "sorted_desc k xs = rev (sort_key k (rev xs))"

lemma mset_sorted_desc [simp]: "mset (sorted_desc k xs) = mset xs"
  by (simp add: sorted_desc_def mset_rev)

lemma set_sorted_desc [simp]: "set (sorted_desc k xs) = set xs"
  by (simp add: sorted_desc_def)

lemma sorted_sorted_desc: "sorted (rev (map k (sorted_desc k xs)))"
  by (simp add: sorted_desc_def rev_map)

text \<open>\<open>dict.fromkeys(xs)\<close>: the distinct elements in first-seen order.\<close>

fun uniq :: "'a list \<Rightarrow> 'a list" where
  "uniq [] = []"
| "uniq (x # xs) = x # filter (\<lambda>y. y \<noteq> x) (uniq xs)"

lemma set_uniq [simp]: "set (uniq xs) = set xs"
  by (induction xs) auto

lemma distinct_uniq [simp]: "distinct (uniq xs)"
  by (induction xs) auto

definition count_if :: "('a \<Rightarrow> bool) \<Rightarrow> 'a list \<Rightarrow> nat" where
  "count_if p xs = length (filter p xs)"

lemma count_if_simps [simp]:
  "count_if p [] = 0"
  "count_if p (x # xs) = (if p x then Suc (count_if p xs) else count_if p xs)"
  "count_if p (xs @ ys) = count_if p xs + count_if p ys"
  by (simp_all add: count_if_def)

lemma count_if_le: "count_if p xs \<le> length xs"
  by (simp add: count_if_def)

lemma count_if_mono: "(\<And>x. x \<in> set xs \<Longrightarrow> p x \<Longrightarrow> q x) \<Longrightarrow> count_if p xs \<le> count_if q xs"
  by (induction xs) auto

lemma count_if_zero_iff: "count_if p xs = 0 \<longleftrightarrow> (\<forall>x \<in> set xs. \<not> p x)"
  by (auto simp: count_if_def filter_empty_conv)

lemma count_if_filter_le: "count_if p (filter q xs) \<le> count_if p xs"
  by (induction xs) auto

subsection \<open>Tables: lists of rows with a key\<close>

text \<open>
  A SQLite table is the list of its rows in insertion order; \<open>UPDATE ... WHERE key=?\<close> rewrites the
  rows with that key in place, \<open>DELETE\<close> filters, \<open>SELECT\<close> finds.
\<close>

definition find_row :: "('r \<Rightarrow> 'k) \<Rightarrow> 'k \<Rightarrow> 'r list \<Rightarrow> 'r option" where
  "find_row key k rows = List.find (\<lambda>r. key r = k) rows"

definition update_row :: "('r \<Rightarrow> 'k) \<Rightarrow> 'k \<Rightarrow> ('r \<Rightarrow> 'r) \<Rightarrow> 'r list \<Rightarrow> 'r list" where
  "update_row key k f rows = map (\<lambda>r. if key r = k then f r else r) rows"

lemma find_row_simps [simp]:
  "find_row key k [] = None"
  "find_row key k (r # rows) = (if key r = k then Some r else find_row key k rows)"
  by (simp_all add: find_row_def)

lemma find_row_append:
  "find_row key k (xs @ ys)
     = (case find_row key k xs of None \<Rightarrow> find_row key k ys | Some r \<Rightarrow> Some r)"
  by (induction xs) auto

lemma find_row_None_iff: "find_row key k rows = None \<longleftrightarrow> k \<notin> key ` set rows"
  by (induction rows) auto

lemma find_row_Some: "find_row key k rows = Some r \<Longrightarrow> r \<in> set rows \<and> key r = k"
  by (induction rows) (auto split: if_splits)

lemma find_row_distinct:
  "distinct (map key rows) \<Longrightarrow> r \<in> set rows \<Longrightarrow> find_row key (key r) rows = Some r"
  by (induction rows) (auto simp: image_iff)

lemma update_row_simps [simp]:
  "update_row key k f [] = []"
  "update_row key k f (r # rows) = (if key r = k then f r else r) # update_row key k f rows"
  "update_row key k f (xs @ ys) = update_row key k f xs @ update_row key k f ys"
  by (simp_all add: update_row_def)

lemma map_key_update_row:
  "(\<And>r. key (f r) = key r) \<Longrightarrow> map key (update_row key k f rows) = map key rows"
  by (induction rows) auto

lemma find_row_update_row:
  "(\<And>r. key (f r) = key r) \<Longrightarrow>
   find_row key k' (update_row key k f rows)
     = (if k' = k then map_option f (find_row key k rows) else find_row key k' rows)"
  by (induction rows) auto

lemma update_row_absent: "k \<notin> key ` set rows \<Longrightarrow> update_row key k f rows = rows"
  by (induction rows) auto

lemma set_update_row_subset: "set (update_row key k f rows) \<subseteq> set rows \<union> f ` set rows"
  by (induction rows) auto

lemma length_update_row [simp]: "length (update_row key k f rows) = length rows"
  by (simp add: update_row_def)

subsection \<open>Loops that may raise\<close>

fun map_res :: "('a \<Rightarrow> 'b res) \<Rightarrow> 'a list \<Rightarrow> 'b list res" where
  "map_res f [] = Inr []"
| "map_res f (x # xs) =
     (case f x of
        Inl e \<Rightarrow> Inl e
      | Inr y \<Rightarrow> (case map_res f xs of Inl e \<Rightarrow> Inl e | Inr ys \<Rightarrow> Inr (y # ys)))"

lemma map_res_Inr: "map_res f xs = Inr ys \<Longrightarrow> list_all2 (\<lambda>x y. f x = Inr y) xs ys"
  by (induction xs arbitrary: ys) (auto split: sum.splits)

lemma map_res_total: "(\<And>x. x \<in> set xs \<Longrightarrow> f x = Inr (g x)) \<Longrightarrow> map_res f xs = Inr (map g xs)"
  by (induction xs) auto

fun fold_res :: "('a \<Rightarrow> 's \<Rightarrow> 's res) \<Rightarrow> 'a list \<Rightarrow> 's \<Rightarrow> 's res" where
  "fold_res f [] s = Inr s"
| "fold_res f (x # xs) s = (case f x s of Inl e \<Rightarrow> Inl e | Inr s1 \<Rightarrow> fold_res f xs s1)"

end
