(* ===== verification/PyText.thy ===== *)
theory PyText
  imports Prelude
begin

text \<open>
  Python \<open>str\<close> operations the sources use, on strings of Latin-1 code points (a \<open>char\<close> is one
  code point below 256; wider code points are outside the model, so \<open>length\<close> is \<open>len\<close>).
\<close>

definition cp :: "char \<Rightarrow> nat" where
  "cp c = of_char c"

definition newline :: char where
  "newline = CHR 0x0A"

text \<open>\<open>str.isspace\<close> on Latin-1, which is also the regex class \<open>\s\<close>.\<close>

definition is_space :: "char \<Rightarrow> bool" where
  "is_space c \<longleftrightarrow> cp c \<in> {9, 10, 11, 12, 13, 28, 29, 30, 31, 32, 133, 160}"

definition is_dig :: "char \<Rightarrow> bool" where
  "is_dig c \<longleftrightarrow> 48 \<le> cp c \<and> cp c \<le> 57"

definition is_lower_az :: "char \<Rightarrow> bool" where
  "is_lower_az c \<longleftrightarrow> 97 \<le> cp c \<and> cp c \<le> 122"

definition is_upper_az :: "char \<Rightarrow> bool" where
  "is_upper_az c \<longleftrightarrow> 65 \<le> cp c \<and> cp c \<le> 90"

text \<open>The regex class \<open>\w\<close> on Latin-1: letters, digits (and the numeric signs) and the underscore.\<close>

definition is_word :: "char \<Rightarrow> bool" where
  "is_word c \<longleftrightarrow> is_dig c \<or> is_lower_az c \<or> is_upper_az c \<or> cp c = 95
     \<or> cp c \<in> {170, 178, 179, 181, 185, 186, 188, 189, 190}
     \<or> (192 \<le> cp c \<and> cp c \<noteq> 215 \<and> cp c \<noteq> 247)"

definition lower_char :: "char \<Rightarrow> char" where
  "lower_char c =
     (if is_upper_az c \<or> (192 \<le> cp c \<and> cp c \<le> 222 \<and> cp c \<noteq> 215)
      then char_of (cp c + 32) else c)"

definition lower :: "string \<Rightarrow> string" where
  "lower = map lower_char"

definition lstrip :: "string \<Rightarrow> string" where
  "lstrip = dropWhile is_space"

definition rstrip_if :: "(char \<Rightarrow> bool) \<Rightarrow> string \<Rightarrow> string" where
  "rstrip_if p s = rev (dropWhile p (rev s))"

definition strip :: "string \<Rightarrow> string" where
  "strip s = lstrip (rstrip_if is_space s)"

text \<open>\<open>not s.strip()\<close>\<close>

definition blank :: "string \<Rightarrow> bool" where
  "blank s \<longleftrightarrow> strip s = []"

lemma dropWhile_Nil_iff: "dropWhile p xs = [] \<longleftrightarrow> list_all p xs"
  by (induction xs) auto

lemma dropWhile_all_iff: "(\<forall>x \<in> set (dropWhile p xs). p x) \<longleftrightarrow> (\<forall>x \<in> set xs. p x)"
  by (induction xs) auto

lemma blank_iff: "blank s \<longleftrightarrow> list_all is_space s"
  by (simp add: blank_def strip_def lstrip_def rstrip_if_def dropWhile_Nil_iff list_all_iff
      dropWhile_all_iff)

fun in_text :: "'a list \<Rightarrow> 'a list \<Rightarrow> bool" where
  "in_text n [] \<longleftrightarrow> n = []"
| "in_text n (c # cs) \<longleftrightarrow> prefix n (c # cs) \<or> in_text n cs"

text \<open>The position of the first occurrence, as \<open>str.index\<close> finds it.\<close>

fun index_of :: "'a list \<Rightarrow> 'a list \<Rightarrow> nat option" where
  "index_of n [] = (if n = [] then Some 0 else None)"
| "index_of n (c # cs) =
     (if prefix n (c # cs) then Some 0 else map_option Suc (index_of n cs))"

lemma in_text_sublist: "in_text n s \<longleftrightarrow> sublist n s"
  by (induction s) (auto simp: sublist_Cons_right)

lemma index_of_None_iff: "index_of n s = None \<longleftrightarrow> \<not> in_text n s"
  by (induction s) auto

lemma index_of_append:
  assumes "\<not> in_text n (s @ butlast n)" and "n \<noteq> []"
  shows "index_of n (s @ n @ r) = Some (length s)"
  using assms
proof (induction s)
  case Nil
  then show ?case by (cases n) auto
next
  case (Cons c s)
  have "\<not> prefix n (c # s @ n @ r)"
  proof
    assume p: "prefix n (c # s @ n @ r)"
    then have "n = take (length n) (c # s @ n @ r)"
      by (metis append_eq_conv_conj prefixE)
    also have "\<dots> = take (length n) (c # s @ butlast n)"
      using Cons.prems(2) by (cases n rule: rev_cases) (auto simp: take_Cons')
    finally have "prefix n (c # s @ butlast n)"
      by (metis take_is_prefix)
    with Cons.prems(1) show False by simp
  qed
  then show ?case using Cons by simp
qed

definition starts_with :: "string \<Rightarrow> string \<Rightarrow> bool" where
  "starts_with p s \<longleftrightarrow> prefix p s"

definition ends_with :: "string \<Rightarrow> string \<Rightarrow> bool" where
  "ends_with p s \<longleftrightarrow> suffix p s"

text \<open>\<open>s[-n:]\<close> for a positive \<open>n\<close>.\<close>

definition last_n :: "nat \<Rightarrow> 'a list \<Rightarrow> 'a list" where
  "last_n n s = drop (length s - n) s"

fun join :: "string \<Rightarrow> string list \<Rightarrow> string" where
  "join sep [] = []"
| "join sep [s] = s"
| "join sep (s # t # ss) = s @ sep @ join sep (t # ss)"

text \<open>\<open>s.split(c)\<close> for a one-character separator.\<close>

fun split_on :: "char \<Rightarrow> string \<Rightarrow> string list" where
  "split_on c [] = [[]]"
| "split_on c (x # xs) =
     (if x = c then [] # split_on c xs
      else case split_on c xs of [] \<Rightarrow> [[x]] | w # ws \<Rightarrow> (x # w) # ws)"

text \<open>\<open>s.split()\<close>: the maximal runs of non-space characters.\<close>

fun words :: "string \<Rightarrow> string list" where
  "words [] = []"
| "words (c # cs) =
     (if is_space c then words cs
      else case words cs of
        [] \<Rightarrow> [c # takeWhile (\<lambda>x. \<not> is_space x) cs]
      | w # ws \<Rightarrow> (if cs \<noteq> [] \<and> \<not> is_space (hd cs) then (c # w) # ws else [c] # w # ws))"

subsection \<open>Decimal numerals\<close>

definition digit_char :: "nat \<Rightarrow> char" where
  "digit_char d = char_of (48 + d)"

fun str_nat :: "nat \<Rightarrow> string" where
  "str_nat n = (if n < 10 then [digit_char n] else str_nat (n div 10) @ [digit_char (n mod 10)])"

declare str_nat.simps [simp del]

lemma str_nat_digit: "n < 10 \<Longrightarrow> str_nat n = [digit_char n]"
  by (subst str_nat.simps) simp

definition str_int :: "int \<Rightarrow> string" where
  "str_int i = (if i < 0 then CHR ''-'' # str_nat (nat (- i)) else str_nat (nat i))"

definition nat_of_digits :: "string \<Rightarrow> nat" where
  "nat_of_digits s = foldl (\<lambda>n c. 10 * n + (cp c - 48)) 0 s"

lemma cp_digit_char [simp]: "d < 10 \<Longrightarrow> cp (digit_char d) = 48 + d"
  by (simp add: cp_def digit_char_def)

lemma digit_chars [simp]:
  "digit_char 0 = CHR ''0''" "digit_char (Suc 0) = CHR ''1''" "digit_char 1 = CHR ''1''"
  "digit_char 2 = CHR ''2''" "digit_char 3 = CHR ''3''" "digit_char 4 = CHR ''4''"
  "digit_char 5 = CHR ''5''" "digit_char 6 = CHR ''6''" "digit_char 7 = CHR ''7''"
  "digit_char 8 = CHR ''8''" "digit_char 9 = CHR ''9''"
  by code_simp+

lemma is_dig_digit_char [simp]: "d < 10 \<Longrightarrow> is_dig (digit_char d)"
  by (simp add: is_dig_def)

lemma nat_of_digits_append [simp]:
  "nat_of_digits (s @ [c]) = 10 * nat_of_digits s + (cp c - 48)"
  by (simp add: nat_of_digits_def)

lemma nat_of_digits_str_nat [simp]: "nat_of_digits (str_nat n) = n"
proof (induction n rule: str_nat.induct)
  case (1 n)
  show ?case
  proof (cases "n < 10")
    case True
    then show ?thesis by (subst str_nat.simps) (simp add: nat_of_digits_def)
  next
    case False
    with 1 show ?thesis by (subst str_nat.simps) simp
  qed
qed

lemma str_nat_digits: "list_all is_dig (str_nat n)"
proof (induction n rule: str_nat.induct)
  case (1 n)
  then show ?case by (subst str_nat.simps) auto
qed

lemma str_nat_nonempty [simp]: "str_nat n \<noteq> []"
  by (subst str_nat.simps) simp

lemma str_nat_inj [simp]: "str_nat m = str_nat n \<longleftrightarrow> m = n"
  by (metis nat_of_digits_str_nat)

lemma not_dash_dig: "\<not> is_dig CHR ''-''"
  by (simp add: is_dig_def cp_def)

lemma str_nat_not_dash: "str_nat n \<noteq> CHR ''-'' # s"
  using str_nat_digits [of n] not_dash_dig by auto

lemma str_int_inj [simp]: "str_int i = str_int j \<longleftrightarrow> i = j"
  using str_nat_not_dash [of "nat i"] str_nat_not_dash [of "nat j"]
  by (auto simp: str_int_def dest: sym)

lemma str_nat_head: "n < 10 \<or> 0 < nat_of_digits [hd (str_nat n)]"
proof (induction n rule: str_nat.induct)
  case (1 n)
  show ?case
  proof (cases "n < 10")
    case False
    then have *: "str_nat n = str_nat (n div 10) @ [digit_char (n mod 10)]"
      by (subst str_nat.simps) simp
    have "0 < nat_of_digits [hd (str_nat (n div 10))]"
    proof (cases "n div 10 < 10")
      case True
      then have "str_nat (n div 10) = [digit_char (n div 10)]"
        by (subst str_nat.simps) simp
      with False True show ?thesis by (simp add: nat_of_digits_def)
    next
      case False
      with 1 \<open>\<not> n < 10\<close> show ?thesis by simp
    qed
    with * show ?thesis by simp
  qed simp
qed

text \<open>
  Settings keys of the source are a fixed prefix and a number (\<open>'retry:' + str(issue)\<close>); distinct
  numbers give distinct keys.
\<close>

lemma prefixed_int_inj [simp]: "p @ str_int i = p @ str_int j \<longleftrightarrow> i = j"
  by simp

subsection \<open>Lines\<close>

text \<open>\<open>str.splitlines()\<close> on Latin-1; a carriage return and a newline together are one break.\<close>

definition is_break :: "char \<Rightarrow> bool" where
  "is_break c \<longleftrightarrow> cp c \<in> {10, 11, 12, 13, 28, 29, 30, 133}"

fun lines_from :: "string \<Rightarrow> string \<Rightarrow> string list" where
  "lines_from acc [] = (if acc = [] then [] else [rev acc])"
| "lines_from acc [c] = (if is_break c then [rev acc] else [rev (c # acc)])"
| "lines_from acc (c # d # cs) =
     (if cp c = 13 \<and> cp d = 10 then rev acc # lines_from [] cs
      else if is_break c then rev acc # lines_from [] (d # cs)
      else lines_from (c # acc) (d # cs))"

definition splitlines :: "string \<Rightarrow> string list" where
  "splitlines s = lines_from [] s"

end
