(* ===== verification/Json.thy ===== *)
theory Json
  imports PyText "HOL-Library.AList"
begin

text \<open>
  JSON values as Python holds them, the dictionary operations and type tests the sources apply to
  them, \<open>json.dumps\<close> (compact separators) and \<open>json.loads\<close>. The rendering of a float is a
  parameter of \<open>dumps\<close>; \<open>NaN\<close> and the infinities, and code points above 255, are outside the
  model. The parser works with fuel; \<open>loads\<close> gives it the length of its input, and
  \<open>loads_dumps\<close> shows that to be enough for every printed value without floats.
\<close>

datatype json =
    JNull
  | JBool bool
  | JInt int
  | JFloat rat
  | JStr string
  | JList "json list"
  | JObj "(string \<times> json) list"

subsection \<open>Type tests, truth and dictionary access\<close>

fun truthy :: "json \<Rightarrow> bool" where
  "truthy JNull = False"
| "truthy (JBool b) = b"
| "truthy (JInt i) = (i \<noteq> 0)"
| "truthy (JFloat r) = (r \<noteq> 0)"
| "truthy (JStr s) = (s \<noteq> [])"
| "truthy (JList l) = (l \<noteq> [])"
| "truthy (JObj l) = (l \<noteq> [])"

fun is_str :: "json \<Rightarrow> bool" where
  "is_str (JStr _) = True" | "is_str _ = False"

fun is_list :: "json \<Rightarrow> bool" where
  "is_list (JList _) = True" | "is_list _ = False"

fun is_obj :: "json \<Rightarrow> bool" where
  "is_obj (JObj _) = True" | "is_obj _ = False"

text \<open>\<open>type(x) is int\<close>, against \<open>isinstance(x, int)\<close>, which also accepts a bool.\<close>

fun type_is_int :: "json \<Rightarrow> bool" where
  "type_is_int (JInt _) = True" | "type_is_int _ = False"

fun type_is_bool :: "json \<Rightarrow> bool" where
  "type_is_bool (JBool _) = True" | "type_is_bool _ = False"

fun isinstance_int :: "json \<Rightarrow> bool" where
  "isinstance_int (JInt _) = True" | "isinstance_int (JBool _) = True" | "isinstance_int _ = False"

fun num_of :: "json \<Rightarrow> rat option" where
  "num_of (JInt i) = Some (of_int i)"
| "num_of (JFloat r) = Some r"
| "num_of (JBool b) = Some (if b then 1 else 0)"
| "num_of _ = None"

fun str_of :: "json \<Rightarrow> string" where
  "str_of (JStr s) = s" | "str_of _ = []"

fun items_of :: "json \<Rightarrow> json list" where
  "items_of (JList l) = l" | "items_of _ = []"

fun fields_of :: "json \<Rightarrow> (string \<times> json) list" where
  "fields_of (JObj kvs) = kvs" | "fields_of _ = []"

fun int_of :: "json \<Rightarrow> int" where
  "int_of (JInt i) = i" | "int_of (JBool b) = (if b then 1 else 0)" | "int_of _ = 0"

definition keys_of :: "json \<Rightarrow> string set" where
  "keys_of j = fst ` set (fields_of j)"

text \<open>\<open>d.get(k)\<close>, \<open>d.get(k, default)\<close>, \<open>d[k] = v\<close> (in place, else appended).\<close>

definition jget :: "json \<Rightarrow> string \<Rightarrow> json option" where
  "jget j k = map_of (fields_of j) k"

definition jget_or :: "json \<Rightarrow> string \<Rightarrow> json \<Rightarrow> json" where
  "jget_or j k d = (case jget j k of None \<Rightarrow> d | Some v \<Rightarrow> v)"

definition jset :: "string \<Rightarrow> json \<Rightarrow> json \<Rightarrow> json" where
  "jset k v j = JObj (AList.update k v (fields_of j))"

lemma jget_jset [simp]: "jget (jset k v j) k' = (if k' = k then Some v else jget j k')"
  by (simp add: jget_def jset_def update_conv)

lemma jget_or_jset [simp]:
  "jget_or (jset k v j) k' d = (if k' = k then v else jget_or j k' d)"
  by (simp add: jget_or_def)

lemma jget_None_iff: "jget j k = None \<longleftrightarrow> k \<notin> keys_of j"
  by (simp add: jget_def keys_of_def map_of_eq_None_iff)

lemma jget_keys: "k \<in> keys_of j \<Longrightarrow> \<exists>v. jget j k = Some v"
  using jget_None_iff [of j k] by auto

text \<open>Python's \<open>==\<close> on decoded values: numbers compare by value, dictionaries by content.\<close>

fun py_eq :: "json \<Rightarrow> json \<Rightarrow> bool" where
  "py_eq JNull y = (y = JNull)"
| "py_eq (JStr s) y = (y = JStr s)"
| "py_eq (JList xs) y =
     (case y of JList ys \<Rightarrow> list_all2 py_eq xs ys | _ \<Rightarrow> False)"
| "py_eq (JObj kvs) y =
     (case y of JObj kws \<Rightarrow>
        fst ` set kvs = fst ` set kws
        \<and> list_all (\<lambda>(k, v). case map_of kws k of None \<Rightarrow> False | Some w \<Rightarrow> py_eq v w) kvs
      | _ \<Rightarrow> False)"
| "py_eq x y = (num_of x = num_of y \<and> num_of y \<noteq> None)"

subsection \<open>Printing\<close>

definition quote :: char where "quote = CHR 0x22"
definition backslash :: char where "backslash = CHR 0x5C"

definition hex_digit :: "nat \<Rightarrow> char" where
  "hex_digit d = (if d < 10 then char_of (48 + d) else char_of (87 + d))"

definition escape :: "char \<Rightarrow> string" where
  "escape c =
     (if c = quote then [backslash, quote]
      else if c = backslash then [backslash, backslash]
      else if cp c = 10 then [backslash, CHR ''n'']
      else if cp c = 13 then [backslash, CHR ''r'']
      else if cp c = 9 then [backslash, CHR ''t'']
      else if cp c = 12 then [backslash, CHR ''f'']
      else if cp c = 8 then [backslash, CHR ''b'']
      else if cp c < 32 \<or> 126 < cp c
        then [backslash, CHR ''u'', CHR ''0'', CHR ''0'',
              hex_digit (cp c div 16), hex_digit (cp c mod 16)]
      else [c])"

definition dump_str :: "string \<Rightarrow> string" where
  "dump_str s = quote # concat (map escape s) @ [quote]"

fun dumps :: "(rat \<Rightarrow> string) \<Rightarrow> json \<Rightarrow> string" where
  "dumps rf JNull = ''null''"
| "dumps rf (JBool b) = (if b then ''true'' else ''false'')"
| "dumps rf (JInt i) = str_int i"
| "dumps rf (JFloat r) = rf r"
| "dumps rf (JStr s) = dump_str s"
| "dumps rf (JList xs) = ''['' @ join '','' (map (dumps rf) xs) @ '']''"
| "dumps rf (JObj kvs) =
     ''{'' @ join '','' (map (\<lambda>(k, v). dump_str k @ '':'' @ dumps rf v) kvs) @ ''}''"

subsection \<open>Parsing\<close>

definition is_ws :: "char \<Rightarrow> bool" where
  "is_ws c \<longleftrightarrow> cp c \<in> {9, 10, 13, 32}"

definition skip_ws :: "string \<Rightarrow> string" where
  "skip_ws = dropWhile is_ws"

definition hex_val :: "char \<Rightarrow> nat option" where
  "hex_val c =
     (if 48 \<le> cp c \<and> cp c \<le> 57 then Some (cp c - 48)
      else if 97 \<le> cp c \<and> cp c \<le> 102 then Some (cp c - 87)
      else if 65 \<le> cp c \<and> cp c \<le> 70 then Some (cp c - 55) else None)"

definition unescape :: "char \<Rightarrow> char option" where
  "unescape e =
     (if e = quote \<or> e = backslash \<or> e = CHR ''/'' then Some e
      else if e = CHR ''n'' then Some (char_of (10::nat))
      else if e = CHR ''r'' then Some (char_of (13::nat))
      else if e = CHR ''t'' then Some (char_of (9::nat))
      else if e = CHR ''f'' then Some (char_of (12::nat))
      else if e = CHR ''b'' then Some (char_of (8::nat)) else None)"

definition hex4 :: "char \<Rightarrow> char \<Rightarrow> char \<Rightarrow> char \<Rightarrow> char option" where
  "hex4 a b c d =
     (case (hex_val a, hex_val b, hex_val c, hex_val d) of
        (Some w, Some x, Some y, Some z) \<Rightarrow>
          (if w = 0 \<and> x = 0 then Some (char_of (16 * y + z)) else None)
      | _ \<Rightarrow> None)"

definition cons_fst :: "'a \<Rightarrow> ('a list \<times> 'b) option \<Rightarrow> ('a list \<times> 'b) option" where
  "cons_fst x = map_option (\<lambda>(xs, r). (x # xs, r))"

fun pstr :: "string \<Rightarrow> (string \<times> string) option" where
  "pstr [] = None"
| "pstr (c # cs) =
     (if c = quote then Some ([], cs)
      else if c = backslash then
        (case cs of
           [] \<Rightarrow> None
         | e # es \<Rightarrow>
             (if e = CHR ''u'' then
                (case es of
                   w # x # y # z # rest \<Rightarrow>
                     (case hex4 w x y z of None \<Rightarrow> None | Some u \<Rightarrow> cons_fst u (pstr rest))
                 | _ \<Rightarrow> None)
              else case unescape e of None \<Rightarrow> None | Some u \<Rightarrow> cons_fst u (pstr es)))
      else if cp c < 32 then None
      else cons_fst c (pstr cs))"

text \<open>The fraction and the exponent of a number, if the text continues with one.\<close>

definition pfrac :: "string \<Rightarrow> (string \<times> string) option" where
  "pfrac s =
     (case s of [] \<Rightarrow> None
      | d # r \<Rightarrow> if d = CHR ''.'' \<and> takeWhile is_dig r \<noteq> []
                then Some (takeWhile is_dig r, dropWhile is_dig r) else None)"

definition pexp :: "string \<Rightarrow> (int \<times> string) option" where
  "pexp s =
     (case s of [] \<Rightarrow> None
      | e # r \<Rightarrow>
          if e = CHR ''e'' \<or> e = CHR ''E'' then
            (let sg = (r \<noteq> [] \<and> (hd r = CHR ''+'' \<or> hd r = CHR ''-''));
                 rr = (if sg then tl r else r)
             in if takeWhile is_dig rr = [] then None
                else Some ((if sg \<and> hd r = CHR ''-'' then - 1 else 1)
                             * int (nat_of_digits (takeWhile is_dig rr)),
                           dropWhile is_dig rr))
          else None)"

definition pnum :: "string \<Rightarrow> (json \<times> string) option" where
  "pnum s =
     (let neg = (s \<noteq> [] \<and> hd s = CHR ''-''); s1 = (if neg then tl s else s);
          ds = takeWhile is_dig s1; r1 = dropWhile is_dig s1;
          sgn = (if neg then - 1 else 1 :: int)
      in if ds = [] then None
         else if hd ds = CHR ''0'' \<and> length ds > 1 then Some (JInt 0, tl s1)
         else
           (let fr = pfrac r1; r2 = (case fr of None \<Rightarrow> r1 | Some p \<Rightarrow> snd p); ex = pexp r2
            in if fr = None \<and> ex = None then Some (JInt (sgn * int (nat_of_digits ds)), r1)
               else
                 (let fd = (case fr of None \<Rightarrow> [] | Some p \<Rightarrow> fst p);
                      m = of_int (sgn * int (nat_of_digits (ds @ fd))) / 10 ^ length fd;
                      e = (case ex of None \<Rightarrow> 0 | Some p \<Rightarrow> fst p)
                  in Some (JFloat (if 0 \<le> e then m * 10 ^ nat e else m / 10 ^ nat (- e)),
                           case ex of None \<Rightarrow> r2 | Some p \<Rightarrow> snd p))))"

fun pval :: "nat \<Rightarrow> string \<Rightarrow> (json \<times> string) option"
and pitems :: "nat \<Rightarrow> string \<Rightarrow> (json list \<times> string) option"
and pfields :: "nat \<Rightarrow> string \<Rightarrow> ((string \<times> json) list \<times> string) option" where
  "pval 0 s = None"
| "pval (Suc n) s =
     (case skip_ws s of
        [] \<Rightarrow> None
      | c # cs \<Rightarrow>
          (if c = quote then map_option (\<lambda>(t, r). (JStr t, r)) (pstr cs)
           else if c = CHR ''['' then
             (case skip_ws cs of
                d # r \<Rightarrow> (if d = CHR '']'' then Some (JList [], r)
                          else map_option (\<lambda>(xs, r). (JList xs, r)) (pitems n cs))
              | [] \<Rightarrow> None)
           else if c = CHR ''{'' then
             (case skip_ws cs of
                d # r \<Rightarrow> (if d = CHR ''}'' then Some (JObj [], r)
                          else map_option
                            (\<lambda>(kvs, r). (JObj (fold (\<lambda>(k, v). AList.update k v) kvs []), r))
                            (pfields n cs))
              | [] \<Rightarrow> None)
           else if prefix ''null'' (c # cs) then Some (JNull, drop 4 (c # cs))
           else if prefix ''true'' (c # cs) then Some (JBool True, drop 4 (c # cs))
           else if prefix ''false'' (c # cs) then Some (JBool False, drop 5 (c # cs))
           else pnum (c # cs)))"
| "pitems 0 s = None"
| "pitems (Suc n) s =
     (case pval n s of
        None \<Rightarrow> None
      | Some (x, r) \<Rightarrow>
          (case skip_ws r of
             [] \<Rightarrow> None
           | d # r' \<Rightarrow> (if d = CHR '','' then cons_fst x (pitems n r')
                       else if d = CHR '']'' then Some ([x], r') else None)))"
| "pfields 0 s = None"
| "pfields (Suc n) s =
     (case skip_ws s of
        [] \<Rightarrow> None
      | q # cs \<Rightarrow>
          (if q \<noteq> quote then None
           else case pstr cs of
             None \<Rightarrow> None
           | Some (k, r) \<Rightarrow>
               (case skip_ws r of
                  [] \<Rightarrow> None
                | d # r1 \<Rightarrow>
                    (if d \<noteq> CHR '':'' then None
                     else case pval n r1 of
                       None \<Rightarrow> None
                     | Some (v, r2) \<Rightarrow>
                         (case skip_ws r2 of
                            [] \<Rightarrow> None
                          | e # r3 \<Rightarrow>
                              (if e = CHR '','' then cons_fst (k, v) (pfields n r3)
                               else if e = CHR ''}'' then Some ([(k, v)], r3) else None))))))"

text \<open>\<open>json.loads\<close>: \<open>None\<close> is its \<open>ValueError\<close>.\<close>

definition loads :: "string \<Rightarrow> json option" where
  "loads s =
     (case pval (Suc (length s)) s of
        None \<Rightarrow> None
      | Some (j, r) \<Rightarrow> if skip_ws r = [] then Some j else None)"

subsection \<open>What is printed is read back\<close>

lemmas ascii_simps = cp_def quote_def backslash_def

lemma hex_val_digit: "d < 16 \<Longrightarrow> hex_val (hex_digit d) = Some d"
  by (auto simp: hex_val_def hex_digit_def cp_def)

lemma hex4_escape:
  "hex4 CHR ''0'' CHR ''0'' (hex_digit (cp c div 16)) (hex_digit (cp c mod 16)) = Some c"
proof -
  have lt: "cp c < 256" by (simp add: cp_def)
  then have "cp c div 16 < 16" by simp
  then show ?thesis
    by (simp add: hex4_def hex_val_digit) (simp add: hex_val_def cp_def)
qed

lemma char_of_cp: "cp c = n \<Longrightarrow> char_of n = c"
  by (auto simp: cp_def)

lemma pstr_escape: "pstr (escape c @ t) = cons_fst c (pstr t)"
proof -
  consider "c = quote" | "c = backslash" | "cp c \<in> {8, 9, 10, 12, 13}"
    | "c \<noteq> quote" "c \<noteq> backslash" "cp c \<notin> {8, 9, 10, 12, 13}" "cp c < 32 \<or> 126 < cp c"
    | "c \<noteq> quote" "c \<noteq> backslash" "32 \<le> cp c" "cp c \<le> 126"
    by (meson not_le)
  then show ?thesis
  proof cases
    case 3
    then show ?thesis
      by (auto simp: escape_def unescape_def ascii_simps) (metis char_of_char)+
  next
    case 4
    then show ?thesis by (simp add: escape_def hex4_escape) (simp add: ascii_simps)
  qed (auto simp: escape_def unescape_def, (simp add: ascii_simps)+)
qed

lemma pstr_dump: "pstr (concat (map escape s) @ quote # r) = Some (s, r)"
  by (induction s) (simp_all add: pstr_escape cons_fst_def)

text \<open>What may follow a printed value: the end, a comma, a closing bracket or a blank.\<close>

definition terminated :: "string \<Rightarrow> bool" where
  "terminated r \<longleftrightarrow> r = [] \<or> hd r \<in> set '',]} ''"

lemma terminated_number:
  assumes "terminated r"
  shows "takeWhile is_dig r = []" "pfrac r = None" "pexp r = None"
  using assms by (cases r; auto simp: terminated_def is_dig_def cp_def pfrac_def pexp_def)+

lemma takeWhile_str_nat: "takeWhile is_dig r = [] \<Longrightarrow> takeWhile is_dig (str_nat n @ r) = str_nat n"
  using str_nat_digits [of n] by (simp add: list_all_iff takeWhile_append2)

lemma dropWhile_str_nat: "takeWhile is_dig r = [] \<Longrightarrow> dropWhile is_dig (str_nat n @ r) = r"
  using str_nat_digits [of n]
  by (cases r) (auto simp: list_all_iff dropWhile_append2 split: if_splits)

lemma str_nat_no_leading_zero: "hd (str_nat n) = CHR ''0'' \<Longrightarrow> length (str_nat n) \<le> 1"
proof -
  assume h: "hd (str_nat n) = CHR ''0''"
  then have "n < 10"
    using str_nat_head [of n] by (simp add: nat_of_digits_def cp_def)
  then show ?thesis by (subst str_nat.simps) simp
qed

lemma hd_str_nat_not_dash: "hd (str_nat n @ r) \<noteq> CHR ''-''"
  using str_nat_not_dash [of n "tl (str_nat n)"]
  by (metis hd_append2 list.collapse str_nat_nonempty)

lemma pnum_str_int:
  assumes "terminated r"
  shows "pnum (str_int i @ r) = Some (JInt i, r)"
proof -
  note r = terminated_number [OF assms]
  note w = takeWhile_str_nat [OF r(1)] dropWhile_str_nat [OF r(1)]
  show ?thesis
  proof (cases "i < 0")
    case True
    then show ?thesis
      using str_nat_no_leading_zero [of "nat (- i)"] r(2,3)
      by (auto simp: pnum_def str_int_def w Let_def)
  next
    case False
    then show ?thesis
      using str_nat_no_leading_zero [of "nat i"] hd_str_nat_not_dash [of "nat i" r] r(2,3)
      by (auto simp: pnum_def str_int_def w Let_def simp del: hd_append2)
  qed
qed

fun jsize :: "json \<Rightarrow> nat" where
  "jsize (JList xs) = Suc (sum_list (map (\<lambda>x. Suc (jsize x)) xs))"
| "jsize (JObj kvs) = Suc (sum_list (map (\<lambda>(k, v). Suc (jsize v)) kvs))"
| "jsize _ = 1"

text \<open>No floats, and dictionaries with distinct keys, as Python's are.\<close>

fun plain :: "json \<Rightarrow> bool" where
  "plain (JFloat _) = False"
| "plain (JList xs) = list_all plain xs"
| "plain (JObj kvs) = (distinct (map fst kvs) \<and> list_all (\<lambda>(k, v). plain v) kvs)"
| "plain _ = True"

lemma str_int_head: "\<exists>c cs. str_int i = c # cs \<and> (is_dig c \<or> c = CHR ''-'')"
  using str_nat_digits [of "nat i"]
  by (cases "str_nat (nat i)") (auto simp: str_int_def)

lemma dumps_head:
  "plain j \<Longrightarrow> \<exists>c cs. dumps rf j = c # cs \<and> \<not> is_ws c \<and> c \<noteq> CHR '']''"
proof (cases j)
  case (JInt i)
  then show ?thesis
    using str_int_head [of i] by (auto simp: is_ws_def ascii_simps is_dig_def)
qed (auto simp: dump_str_def is_ws_def ascii_simps)

lemma join_length: "sum_list (map (\<lambda>s. Suc (length s)) ss) \<le> Suc (length (join [c] ss))"
  by (induction "[c]" ss rule: join.induct) auto

lemma sum_list_le:
  "(\<And>x. x \<in> set xs \<Longrightarrow> f x \<le> g x) \<Longrightarrow> sum_list (map f xs) \<le> (sum_list (map g xs) :: nat)"
  by (induction xs) (auto intro: add_mono)

lemma jsize_le_dumps: "plain j \<Longrightarrow> jsize j \<le> length (dumps rf j)"
proof (induction j)
  case (JInt i)
  then show ?case using str_int_head [of i] by auto
next
  case (JList xs)
  have "sum_list (map (\<lambda>x. Suc (jsize x)) xs) \<le> sum_list (map (\<lambda>x. Suc (length (dumps rf x))) xs)"
    using JList by (intro sum_list_le) (auto simp: list_all_iff)
  also have "\<dots> \<le> Suc (length (join '','' (map (dumps rf) xs)))"
    using join_length [of "map (dumps rf) xs"] by (simp add: o_def)
  finally show ?case by simp
next
  case (JObj kvs)
  have "sum_list (map (\<lambda>(k, v). Suc (jsize v)) kvs)
        \<le> sum_list (map (\<lambda>kv. Suc (length (case kv of (k, v) \<Rightarrow> dump_str k @ '':'' @ dumps rf v))) kvs)"
    using JObj by (intro sum_list_le) (fastforce simp: list_all_iff)
  also have "\<dots> \<le> Suc (length (join '','' (map (\<lambda>(k, v). dump_str k @ '':'' @ dumps rf v) kvs)))"
    using join_length [of "map (\<lambda>(k, v). dump_str k @ '':'' @ dumps rf v) kvs"]
    by (simp add: o_def)
  finally show ?case by simp
qed (auto simp: dump_str_def)

lemma skip_ws_Cons [simp]: "\<not> is_ws c \<Longrightarrow> skip_ws (c # cs) = c # cs"
  by (simp add: skip_ws_def)

lemma not_ws_simps [simp]:
  "\<not> is_ws CHR '',''" "\<not> is_ws CHR '']''" "\<not> is_ws CHR ''}''" "\<not> is_ws CHR '':''" "\<not> is_ws quote"
  by (simp_all add: is_ws_def ascii_simps)

lemma terminated_simps [simp]:
  "terminated (CHR '','' # r)" "terminated (CHR '']'' # r)" "terminated (CHR ''}'' # r)"
  "terminated []"
  by (simp_all add: terminated_def)

lemma pitems_dumps:
  assumes "\<And>x n r. x \<in> set xs \<Longrightarrow> jsize x \<le> n \<Longrightarrow> terminated r \<Longrightarrow> pval n (dumps rf x @ r) = Some (x, r)"
    and "xs \<noteq> []" and "sum_list (map (\<lambda>x. Suc (jsize x)) xs) \<le> n"
  shows "pitems n (join '','' (map (dumps rf) xs) @ CHR '']'' # r) = Some (xs, r)"
  using assms
proof (induction xs arbitrary: n)
  case Nil
  then show ?case by simp
next
  case (Cons x xs)
  from Cons.prems(3) obtain m where n: "n = Suc m" and m: "jsize x \<le> m"
    by (cases n) auto
  show ?case
  proof (cases xs)
    case Nil
    then show ?thesis using n m Cons.prems(1) by simp
  next
    case (Cons y ys)
    have "pitems m (join '','' (map (dumps rf) xs) @ CHR '']'' # r) = Some (xs, r)"
      using Cons.IH Cons.prems n Cons by auto
    then show ?thesis using n m Cons Cons.prems(1) by (simp add: cons_fst_def)
  qed
qed

lemma pfields_dumps:
  assumes "\<And>k x n r. (k, x) \<in> set kvs \<Longrightarrow> jsize x \<le> n \<Longrightarrow> terminated r \<Longrightarrow>
      pval n (dumps rf x @ r) = Some (x, r)"
    and "kvs \<noteq> []" and "sum_list (map (\<lambda>(k, x). Suc (jsize x)) kvs) \<le> n"
  shows "pfields n (join '','' (map (\<lambda>(k, v). dump_str k @ '':'' @ dumps rf v) kvs)
           @ CHR ''}'' # r) = Some (kvs, r)"
  using assms
proof (induction kvs arbitrary: n)
  case Nil
  then show ?case by simp
next
  case (Cons kx kvs)
  obtain k x where kx: "kx = (k, x)" by (cases kx)
  from Cons.prems(3) kx obtain m where n: "n = Suc m" and m: "jsize x \<le> m"
    by (cases n) auto
  note val = Cons.prems(1) [of k x m]
  have str: "pstr (concat (map escape k) @ quote # t) = Some (k, t)" for t
    by (rule pstr_dump)
  show ?case
  proof (cases kvs)
    case Nil
    then show ?thesis using n m val kx by (simp add: dump_str_def str)
  next
    case (Cons ky ks)
    have "pfields m (join '','' (map (\<lambda>(k, v). dump_str k @ '':'' @ dumps rf v) kvs)
           @ CHR ''}'' # r) = Some (kvs, r)"
    proof (rule Cons.IH)
      show "sum_list (map (\<lambda>(k, x). Suc (jsize x)) kvs) \<le> m"
        using Cons.prems(3) n kx by simp
    qed (use Cons.prems(1) Cons in auto)
    then show ?thesis
      using n m val kx Cons by (simp add: dump_str_def str cons_fst_def)
  qed
qed

lemma fold_update_distinct:
  "distinct (map fst kvs) \<Longrightarrow> set (map fst kvs) \<inter> set (map fst acc) = {} \<Longrightarrow>
   fold (\<lambda>(k, v). AList.update k v) kvs acc = acc @ kvs"
proof (induction kvs arbitrary: acc)
  case (Cons kv kvs)
  obtain k v where kv: "kv = (k, v)" by (cases kv)
  have "AList.update k v acc = acc @ [(k, v)]"
    using Cons.prems kv by (induction acc) auto
  with Cons kv show ?case by auto
qed simp

lemma number_head:
  assumes "is_dig c \<or> c = CHR ''-''"
  shows "\<not> is_ws c" "c \<noteq> quote" "c \<noteq> CHR ''[''" "c \<noteq> CHR ''{''" "c \<noteq> CHR ''n''"
    "c \<noteq> CHR ''t''" "c \<noteq> CHR ''f''"
  using assms by (auto simp: is_ws_def is_dig_def ascii_simps)

lemma pval_number:
  "is_dig c \<or> c = CHR ''-'' \<Longrightarrow> pval (Suc m) (c # t) = pnum (c # t)"
  using number_head [of c] number_head(5-7) [of c, symmetric] by simp

theorem pval_dumps:
  "plain j \<Longrightarrow> jsize j \<le> n \<Longrightarrow> terminated r \<Longrightarrow> pval n (dumps rf j @ r) = Some (j, r)"
proof (induction j arbitrary: n r)
  case (JInt i)
  then obtain m where n: "n = Suc m" by (cases n) auto
  obtain c cs where c: "str_int i = c # cs" "is_dig c \<or> c = CHR ''-''"
    using str_int_head by blast
  have "pnum (c # cs @ r) = Some (JInt i, r)"
    using pnum_str_int [OF JInt.prems(3), of i] c(1) by simp
  with n c show ?case using pval_number [OF c(2), of m "cs @ r"] by (simp del: pval.simps)
next
  case (JStr s)
  then obtain m where "n = Suc m" by (cases n) auto
  then show ?case by (simp add: dump_str_def pstr_dump)
next
  case (JList xs)
  then obtain m where n: "n = Suc m" "sum_list (map (\<lambda>x. Suc (jsize x)) xs) \<le> m"
    by (cases n) auto
  show ?case
  proof (cases xs)
    case Nil
    then show ?thesis using n by (simp add: is_ws_def ascii_simps)
  next
    case (Cons x ys)
    obtain c cs where c: "join '','' (map (dumps rf) xs) = c # cs" "\<not> is_ws c" "c \<noteq> CHR '']''"
      using dumps_head [of x rf] JList.prems(1) Cons by (cases ys) auto
    have "pitems m (join '','' (map (dumps rf) xs) @ CHR '']'' # r) = Some (xs, r)"
      using JList n Cons by (intro pitems_dumps) (auto simp: list_all_iff)
    then show ?thesis using n c by (simp add: is_ws_def ascii_simps)
  qed
next
  case (JObj kvs)
  then obtain m where n: "n = Suc m" "sum_list (map (\<lambda>(k, v). Suc (jsize v)) kvs) \<le> m"
    by (cases n) auto
  show ?case
  proof (cases kvs)
    case Nil
    then show ?thesis using n by (simp add: is_ws_def ascii_simps)
  next
    case (Cons kx ks)
    let ?t = "join '','' (map (\<lambda>(k, v). dump_str k @ '':'' @ dumps rf v) kvs)"
    have c: "\<exists>cs. ?t = quote # cs"
      using Cons by (cases kx; cases ks) (auto simp: dump_str_def)
    have "pfields m (?t @ CHR ''}'' # r) = Some (kvs, r)"
      using JObj n Cons by (intro pfields_dumps) (fastforce simp: list_all_iff)+
    moreover have "fold (\<lambda>(k, v). AList.update k v) kvs [] = kvs"
      using JObj.prems(1) by (subst fold_update_distinct) auto
    ultimately show ?thesis using n c by (auto simp: is_ws_def ascii_simps)
  qed
qed (auto simp: is_ws_def ascii_simps gr0_conv_Suc Suc_le_eq)

theorem loads_dumps: "plain j \<Longrightarrow> loads (dumps rf j) = Some j"
  using pval_dumps [of j "Suc (length (dumps rf j))" "[]" rf] jsize_le_dumps [of j rf]
  by (simp add: loads_def skip_ws_def)

subsection \<open>A character that is not printed\<close>

text \<open>Texts without a greater-than sign print without one: no printed token contains it.\<close>

abbreviation gt :: char where "gt \<equiv> CHR ''>''"

fun no_gt :: "json \<Rightarrow> bool" where
  "no_gt (JStr s) = (gt \<notin> set s)"
| "no_gt (JList xs) = list_all no_gt xs"
| "no_gt (JObj kvs) = list_all (\<lambda>(k, v). gt \<notin> set k \<and> no_gt v) kvs"
| "no_gt (JFloat _) = False"
| "no_gt _ = True"

lemma hex_digit_no_gt: "d < 16 \<Longrightarrow> hex_digit d \<noteq> gt"
proof -
  assume "d < 16"
  then have "hex_val (hex_digit d) = Some d" by (rule hex_val_digit)
  moreover have "hex_val gt = None" by code_simp
  ultimately show ?thesis by auto
qed

lemma escape_no_gt: "c \<noteq> gt \<Longrightarrow> gt \<notin> set (escape c)"
proof -
  assume "c \<noteq> gt"
  have "cp c < 256" by (simp add: cp_def)
  then have "hex_digit (cp c div 16) \<noteq> gt" "hex_digit (cp c mod 16) \<noteq> gt"
    by (intro hex_digit_no_gt; simp)+
  with \<open>c \<noteq> gt\<close> show ?thesis by (auto simp: escape_def quote_def backslash_def)
qed

lemma dump_str_no_gt: "gt \<notin> set s \<Longrightarrow> gt \<notin> set (dump_str s)"
proof -
  assume "gt \<notin> set s"
  then have "\<forall>c \<in> set s. gt \<notin> set (escape c)" using escape_no_gt by metis
  then show ?thesis by (simp add: dump_str_def quote_def)
qed

lemma join_no_char: "c \<notin> set sep \<Longrightarrow> \<forall>s \<in> set ss. c \<notin> set s \<Longrightarrow> c \<notin> set (join sep ss)"
  by (induction sep ss rule: join.induct) auto

lemma str_int_no_gt: "gt \<notin> set (str_int i)"
proof -
  have "gt \<notin> set (str_nat n)" for n
    using str_nat_digits [of n] by (auto simp: list_all_iff is_dig_def cp_def)
  then show ?thesis by (simp add: str_int_def)
qed

lemma dumps_no_gt: "no_gt j \<Longrightarrow> gt \<notin> set (dumps rf j)"
proof (induction j)
  case (JList xs)
  have "gt \<notin> set (join '','' (map (dumps rf) xs))"
    using JList by (intro join_no_char) (auto simp: list_all_iff)
  then show ?case by simp
next
  case (JObj kvs)
  have "gt \<notin> set (join '','' (map (\<lambda>(k, v). dump_str k @ '':'' @ dumps rf v) kvs))"
  proof (rule join_no_char)
    show "\<forall>s \<in> set (map (\<lambda>(k, v). dump_str k @ '':'' @ dumps rf v) kvs). gt \<notin> set s"
    proof
      fix s assume "s \<in> set (map (\<lambda>(k, v). dump_str k @ '':'' @ dumps rf v) kvs)"
      then obtain k v where kv: "(k, v) \<in> set kvs" "s = dump_str k @ '':'' @ dumps rf v" by auto
      with JObj.prems have "gt \<notin> set k" "no_gt v" by (auto simp: list_all_iff)
      moreover have "gt \<notin> set (dumps rf v)"
        by (rule JObj.IH [OF kv(1)]) (use \<open>no_gt v\<close> in \<open>auto\<close>)
      ultimately show "gt \<notin> set s" using kv(2) dump_str_no_gt by simp
    qed
  qed simp
  then show ?case by simp
qed (auto simp: str_int_no_gt dump_str_no_gt)

end
