(* ===== verification/Effects.thy ===== *)
theory Effects
  imports Json
begin

text \<open>
  Programs with exceptions over a state that survives them: \<open>try\<close>/\<open>except\<close>, early returns out of
  a loop, and the operating system the sources call. The operating system is a parameter: a state
  \<open>'w\<close> of the outside world and a record \<open>os\<close> of what the programs ask of it (run a command, read
  and write files, look at paths and processes, read the clock). Everything above these calls is
  translated: how a git failure becomes an exception, what is read back, which calls follow.
\<close>

subsection \<open>Programs\<close>

type_synonym ('s, 'a) prog = "'s \<Rightarrow> 'a res \<times> 's"

definition ret :: "'a \<Rightarrow> ('s, 'a) prog" where
  "ret x = (\<lambda>s. (Inr x, s))"

definition raise :: "exn \<Rightarrow> ('s, 'a) prog" where
  "raise e = (\<lambda>s. (Inl e, s))"

definition doing :: "('s, 'a) prog \<Rightarrow> ('a \<Rightarrow> ('s, 'b) prog) \<Rightarrow> ('s, 'b) prog" where
  "doing m f = (\<lambda>s. case m s of (Inl e, s1) \<Rightarrow> (Inl e, s1) | (Inr x, s1) \<Rightarrow> f x s1)"

definition and_then :: "('s, 'a) prog \<Rightarrow> ('s, 'b) prog \<Rightarrow> ('s, 'b) prog" where
  "and_then m n = doing m (\<lambda>_. n)"

text \<open>Statements in order: \<open>steps [a, b, c]\<close>.\<close>

fun steps :: "('s, unit) prog list \<Rightarrow> ('s, unit) prog" where
  "steps [] = ret ()"
| "steps [m] = m"
| "steps (m # n # ms) = and_then m (steps (n # ms))"

text \<open>\<open>except E as exc: h\<close> for the exceptions the predicate selects.\<close>

definition except_if :: "(exn \<Rightarrow> bool) \<Rightarrow> ('s, 'a) prog \<Rightarrow> (exn \<Rightarrow> ('s, 'a) prog) \<Rightarrow> ('s, 'a) prog" where
  "except_if p m h = (\<lambda>s. case m s of
      (Inl e, s1) \<Rightarrow> (if p e then h e s1 else (Inl e, s1)) | (Inr x, s1) \<Rightarrow> (Inr x, s1))"

definition except_any :: "('s, 'a) prog \<Rightarrow> (exn \<Rightarrow> ('s, 'a) prog) \<Rightarrow> ('s, 'a) prog" where
  "except_any = except_if (\<lambda>_. True)"

text \<open>\<open>try: m except: h else: f\<close>: the handler does not cover the continuation.\<close>

definition try_else ::
  "('s, 'a) prog \<Rightarrow> (exn \<Rightarrow> ('s, 'b) prog) \<Rightarrow> ('a \<Rightarrow> ('s, 'b) prog) \<Rightarrow> ('s, 'b) prog" where
  "try_else m h f = (\<lambda>s. case m s of (Inl e, s1) \<Rightarrow> h e s1 | (Inr x, s1) \<Rightarrow> f x s1)"

definition only_if :: "bool \<Rightarrow> ('s, unit) prog \<Rightarrow> ('s, unit) prog" where
  "only_if b m = (if b then m else ret ())"

definition of_res :: "'a res \<Rightarrow> ('s, 'a) prog" where
  "of_res r = (\<lambda>s. (r, s))"

definition ask :: "('s \<Rightarrow> 'a) \<Rightarrow> ('s, 'a) prog" where
  "ask f = (\<lambda>s. (Inr (f s), s))"

text \<open>\<open>for x in xs: body\<close>, and with a body that returns \<open>True\<close> to leave the loop.\<close>

fun for_each :: "('x \<Rightarrow> ('s, unit) prog) \<Rightarrow> 'x list \<Rightarrow> ('s, unit) prog" where
  "for_each body [] = ret ()"
| "for_each body (x # xs) = and_then (body x) (for_each body xs)"

fun for_until :: "('x \<Rightarrow> ('s, bool) prog) \<Rightarrow> 'x list \<Rightarrow> ('s, bool) prog" where
  "for_until body [] = ret False"
| "for_until body (x # xs) =
     doing (body x) (\<lambda>stop. if stop then ret True else for_until body xs)"

text \<open>A loop that collects or updates a value of its own.\<close>

fun fold_prog :: "('x \<Rightarrow> 'a \<Rightarrow> ('s, 'a) prog) \<Rightarrow> 'x list \<Rightarrow> 'a \<Rightarrow> ('s, 'a) prog" where
  "fold_prog body [] a = ret a"
| "fold_prog body (x # xs) a = doing (body x a) (fold_prog body xs)"

lemma prog_simps [simp]:
  "ret x s = (Inr x, s)" "raise e s = (Inl e, s)"
  "of_res r s = (r, s)" "ask h s = (Inr (h s), s)"
  by (simp_all add: ret_def raise_def of_res_def ask_def)

lemma doing_simps [simp]: "doing (ret x) f = f x" "doing (raise e) g = raise e"
  by (simp_all add: ret_def raise_def doing_def)

lemma doing_assoc: "doing (doing m f) g = doing m (\<lambda>x. doing (f x) g)"
  by (rule ext) (simp add: doing_def split: prod.split sum.split)

lemma doing_ret: "doing m ret = m"
  by (rule ext) (auto simp: doing_def ret_def split: prod.split sum.split)

lemma except_any_total:
  "(\<And>e t. \<exists>x u. h e t = (Inr x, u)) \<Longrightarrow> \<exists>x u. except_any m h s = (Inr x, u)"
  by (auto simp: except_any_def except_if_def split: prod.split sum.split)

subsection \<open>What a program keeps\<close>

text \<open>
  \<open>keeps P m\<close>: whatever way \<open>m\<close> ends, returning or raising, \<open>P\<close> still holds of the state. The
  rules follow the shape of a program; in a continuation the value read is known to be one the
  earlier program produced in a state where \<open>P\<close> held.
\<close>

named_theorems keeps_intros \<open>what the constructs of a program keep\<close>

definition keeps :: "('s \<Rightarrow> bool) \<Rightarrow> ('s, 'a) prog \<Rightarrow> bool" where
  "keeps P m \<longleftrightarrow> (\<forall>s. P s \<longrightarrow> P (snd (m s)))"

lemma keepsI: "(\<And>s r s'. P s \<Longrightarrow> m s = (r, s') \<Longrightarrow> P s') \<Longrightarrow> keeps P m"
  unfolding keeps_def by (metis prod.collapse)

lemma keepsD: "keeps P m \<Longrightarrow> P s \<Longrightarrow> m s = (r, s') \<Longrightarrow> P s'"
  unfolding keeps_def by (metis snd_conv)

lemma keeps_basic [keeps_intros]:
  "keeps P (ret x)" "keeps P (raise e)" "keeps P (of_res r)" "keeps P (ask f)"
  by (simp_all add: keeps_def)

lemma keeps_doing_known:
  assumes "keeps P m" and "\<And>x s s'. P s \<Longrightarrow> m s = (Inr x, s') \<Longrightarrow> keeps P (f x)"
  shows "keeps P (doing m f)"
proof (rule keepsI)
  fix s r s'
  assume "P s" and run: "doing m f s = (r, s')"
  obtain q t where q: "m s = (q, t)" by (cases "m s")
  then have "P t" using keepsD [OF assms(1) \<open>P s\<close>] by simp
  show "P s'"
  proof (cases q)
    case (Inl e)
    with run q \<open>P t\<close> show ?thesis by (simp add: doing_def)
  next
    case (Inr x)
    with assms(2) [OF \<open>P s\<close>] q have "keeps P (f x)" by simp
    moreover have "f x t = (r, s')" using run q Inr by (simp add: doing_def)
    ultimately show ?thesis using keepsD \<open>P t\<close> by metis
  qed
qed

lemma keeps_doing [keeps_intros]:
  "keeps P m \<Longrightarrow> (\<And>x. keeps P (f x)) \<Longrightarrow> keeps P (doing m f)"
  by (rule keeps_doing_known)

lemma keeps_and_then [keeps_intros]: "keeps P m \<Longrightarrow> keeps P n \<Longrightarrow> keeps P (and_then m n)"
  by (simp add: and_then_def keeps_doing)

lemma keeps_except_if [keeps_intros]:
  "keeps P m \<Longrightarrow> (\<And>e. keeps P (h e)) \<Longrightarrow> keeps P (except_if q m h)"
  by (fastforce simp: keeps_def except_if_def split: prod.split sum.split dest: spec)

lemma keeps_except_any [keeps_intros]:
  "keeps P m \<Longrightarrow> (\<And>e. keeps P (h e)) \<Longrightarrow> keeps P (except_any m h)"
  by (simp add: except_any_def keeps_except_if)

lemma keeps_try_else [keeps_intros]:
  "keeps P m \<Longrightarrow> (\<And>e. keeps P (h e)) \<Longrightarrow> (\<And>x. keeps P (f x)) \<Longrightarrow> keeps P (try_else m h f)"
  by (fastforce simp: keeps_def try_else_def split: prod.split sum.split dest: spec)

lemma keeps_if [keeps_intros]:
  "(b \<Longrightarrow> keeps P m) \<Longrightarrow> (\<not> b \<Longrightarrow> keeps P n) \<Longrightarrow> keeps P (if b then m else n)"
  by simp

lemma keeps_only_if [keeps_intros]: "(b \<Longrightarrow> keeps P m) \<Longrightarrow> keeps P (only_if b m)"
  by (simp add: only_if_def keeps_basic)

lemma keeps_option [keeps_intros]:
  "(x = None \<Longrightarrow> keeps P m) \<Longrightarrow> (\<And>y. x = Some y \<Longrightarrow> keeps P (f y)) \<Longrightarrow> keeps P (case_option m f x)"
  by (cases x) auto

lemma keeps_sum [keeps_intros]:
  "(\<And>e. x = Inl e \<Longrightarrow> keeps P (f e)) \<Longrightarrow> (\<And>y. x = Inr y \<Longrightarrow> keeps P (g y)) \<Longrightarrow> keeps P (case_sum f g x)"
  by (cases x) auto

lemma keeps_prod [keeps_intros]: "(\<And>a b. x = (a, b) \<Longrightarrow> keeps P (f a b)) \<Longrightarrow> keeps P (case_prod f x)"
  by (cases x) auto

lemma keeps_list [keeps_intros]:
  "(x = [] \<Longrightarrow> keeps P m) \<Longrightarrow> (\<And>y ys. x = y # ys \<Longrightarrow> keeps P (f y ys)) \<Longrightarrow> keeps P (case_list m f x)"
  by (cases x) auto

lemma keeps_Let [keeps_intros]: "(\<And>x. x = v \<Longrightarrow> keeps P (f x)) \<Longrightarrow> keeps P (Let v f)"
  by simp

lemma keeps_for_each [keeps_intros]:
  "(\<And>x. x \<in> set xs \<Longrightarrow> keeps P (body x)) \<Longrightarrow> keeps P (for_each body xs)"
  by (induction xs) (auto intro: keeps_intros)

lemma keeps_for_until [keeps_intros]:
  "(\<And>x. x \<in> set xs \<Longrightarrow> keeps P (body x)) \<Longrightarrow> keeps P (for_until body xs)"
  by (induction xs) (auto intro!: keeps_intros)

lemma keeps_fold_prog [keeps_intros]:
  "(\<And>x a. x \<in> set xs \<Longrightarrow> keeps P (body x a)) \<Longrightarrow> keeps P (fold_prog body xs a)"
  by (induction xs arbitrary: a) (auto intro!: keeps_intros)

lemma keeps_steps [keeps_intros]:
  "keeps P (steps [])"
  "keeps P m \<Longrightarrow> keeps P (steps [m])"
  "keeps P m \<Longrightarrow> keeps P (steps (n # ms)) \<Longrightarrow> keeps P (steps (m # n # ms))"
  by (auto intro!: keeps_intros)

lemma keeps_exn [keeps_intros]:
  "(\<And>m. x = ValueError m \<Longrightarrow> keeps P (f1 m)) \<Longrightarrow> (\<And>m. x = KeyError m \<Longrightarrow> keeps P (f2 m)) \<Longrightarrow>
   (\<And>m. x = TypeError m \<Longrightarrow> keeps P (f3 m)) \<Longrightarrow> (\<And>m. x = AttributeError m \<Longrightarrow> keeps P (f4 m)) \<Longrightarrow>
   (\<And>m. x = RuntimeError m \<Longrightarrow> keeps P (f5 m)) \<Longrightarrow> (x = IntegrityError \<Longrightarrow> keeps P f6) \<Longrightarrow>
   (\<And>m. x = GitHubError m \<Longrightarrow> keeps P (f7 m)) \<Longrightarrow> (\<And>m. x = AdmissionDenied m \<Longrightarrow> keeps P (f8 m)) \<Longrightarrow>
   (\<And>m. x = RecoveryUncertain m \<Longrightarrow> keeps P (f9 m)) \<Longrightarrow>
   (\<And>m a b. x = CalledProcessError m a b \<Longrightarrow> keeps P (f10 m a b)) \<Longrightarrow>
   (\<And>m. x = FileNotFoundError m \<Longrightarrow> keeps P (f11 m)) \<Longrightarrow> (\<And>m. x = OSError m \<Longrightarrow> keeps P (f12 m)) \<Longrightarrow>
   (\<And>m. x = OtherError m \<Longrightarrow> keeps P (f13 m)) \<Longrightarrow>
   keeps P (case_exn f1 f2 f3 f4 f5 f6 f7 f8 f9 f10 f11 f12 f13 x)"
  by (cases x) auto

text \<open>\<open>gives Q m\<close>: whatever \<open>m\<close> returns satisfies \<open>Q\<close>.\<close>

named_theorems gives_intros \<open>what the constructs of a program return\<close>

definition gives :: "('a \<Rightarrow> bool) \<Rightarrow> ('s, 'a) prog \<Rightarrow> bool" where
  "gives Q m \<longleftrightarrow> (\<forall>s x s'. m s = (Inr x, s') \<longrightarrow> Q x)"

lemma givesD: "gives Q m \<Longrightarrow> m s = (Inr x, s') \<Longrightarrow> Q x"
  by (auto simp: gives_def)

lemma gives_basic [gives_intros]:
  "Q x \<Longrightarrow> gives Q (ret x)" "gives Q (raise e)"
  by (simp_all add: gives_def)

lemma gives_doing_known:
  "gives R m \<Longrightarrow> (\<And>x. R x \<Longrightarrow> gives Q (f x)) \<Longrightarrow> gives Q (doing m f)"
  by (fastforce simp: gives_def doing_def split: prod.splits sum.splits)

lemma gives_doing [gives_intros]: "(\<And>x. gives Q (f x)) \<Longrightarrow> gives Q (doing m f)"
  by (rule gives_doing_known [of "\<lambda>_. True"]) (simp_all add: gives_def)

lemma gives_and_then [gives_intros]: "gives Q n \<Longrightarrow> gives Q (and_then m n)"
  by (simp add: and_then_def gives_doing)

lemma gives_try_else [gives_intros]:
  "(\<And>e. gives Q (h e)) \<Longrightarrow> (\<And>x. gives Q (f x)) \<Longrightarrow> gives Q (try_else m h f)"
  by (fastforce simp: gives_def try_else_def split: prod.splits sum.splits)

lemma gives_if [gives_intros]:
  "(b \<Longrightarrow> gives Q m) \<Longrightarrow> (\<not> b \<Longrightarrow> gives Q n) \<Longrightarrow> gives Q (if b then m else n)"
  by simp

lemma gives_option [gives_intros]:
  "(x = None \<Longrightarrow> gives Q m) \<Longrightarrow> (\<And>y. x = Some y \<Longrightarrow> gives Q (f y)) \<Longrightarrow> gives Q (case_option m f x)"
  by (cases x) auto

lemma gives_list [gives_intros]:
  "(x = [] \<Longrightarrow> gives Q m) \<Longrightarrow> (\<And>y ys. x = y # ys \<Longrightarrow> gives Q (f y ys)) \<Longrightarrow> gives Q (case_list m f x)"
  by (cases x) auto

lemma gives_prod [gives_intros]: "(\<And>a b. x = (a, b) \<Longrightarrow> gives Q (f a b)) \<Longrightarrow> gives Q (case_prod f x)"
  by (cases x) auto

lemma gives_Let [gives_intros]: "(\<And>x. x = v \<Longrightarrow> gives Q (f x)) \<Longrightarrow> gives Q (Let v f)"
  by simp

subsection \<open>The operating system\<close>

record proc_result =
  returncode :: int
  stdout :: string
  stderr :: string

record 'w os =
  clock :: "'w \<Rightarrow> time"
  exec :: "string option \<Rightarrow> string list \<Rightarrow> 'w \<Rightarrow> proc_result res \<times> 'w"
  popen :: "string list \<Rightarrow> 'w \<Rightarrow> int res \<times> 'w"
  kill :: "bool \<Rightarrow> int \<Rightarrow> 'w \<Rightarrow> unit res \<times> 'w"
  exists_path :: "string \<Rightarrow> 'w \<Rightarrow> bool"
  is_file :: "string \<Rightarrow> 'w \<Rightarrow> bool"
  is_dir :: "string \<Rightarrow> 'w \<Rightarrow> bool"
  resolve :: "string \<Rightarrow> 'w \<Rightarrow> string"
  listdir :: "string \<Rightarrow> 'w \<Rightarrow> string list res"
  read_text :: "string \<Rightarrow> 'w \<Rightarrow> string res"
  write_text :: "string \<Rightarrow> string \<Rightarrow> 'w \<Rightarrow> unit res \<times> 'w"
  mkdir :: "string \<Rightarrow> 'w \<Rightarrow> unit res \<times> 'w"
  rename :: "string \<Rightarrow> string \<Rightarrow> 'w \<Rightarrow> unit res \<times> 'w"
  sleep :: "time \<Rightarrow> 'w \<Rightarrow> unit res \<times> 'w"
  uuid_hex :: "'w \<Rightarrow> string res \<times> 'w"
  jitter :: "'w \<Rightarrow> string \<Rightarrow> time"
  float_text :: "rat \<Rightarrow> string"
  session_row :: "string \<Rightarrow> 'w \<Rightarrow> string option"

text \<open>Reading: an observation of the world that may raise.\<close>

definition look :: "('s \<Rightarrow> 'a res) \<Rightarrow> ('s, 'a) prog" where
  "look f = (\<lambda>s. (f s, s))"

lemma keeps_look [keeps_intros]: "keeps P (look f)"
  by (simp add: keeps_def look_def)

definition dumps_now :: "'w os \<Rightarrow> json \<Rightarrow> string" where
  "dumps_now X j = dumps (float_text X) j"

text \<open>\<open>json.dumps\<close> with its default separators, used in messages.\<close>

fun dumps_std :: "(rat \<Rightarrow> string) \<Rightarrow> json \<Rightarrow> string" where
  "dumps_std rf (JList xs) = ''['' @ join '', '' (map (dumps_std rf) xs) @ '']''"
| "dumps_std rf (JObj kvs) =
     ''{'' @ join '', '' (map (\<lambda>(k, v). dump_str k @ '': '' @ dumps_std rf v) kvs) @ ''}''"
| "dumps_std rf j = dumps rf j"

text \<open>\<open>json.loads(path.read_text())\<close>\<close>

definition load_json :: "'w os \<Rightarrow> string \<Rightarrow> ('w, json) prog" where
  "load_json X path =
     doing (look (read_text X path)) (\<lambda>t. case loads t of
        None \<Rightarrow> raise (ValueError ''Expecting value'') | Some j \<Rightarrow> ret j)"

text \<open>\<open>d[k]\<close> and \<open>d[k1][k2]\<close>\<close>

definition jitem :: "json \<Rightarrow> string \<Rightarrow> json res" where
  "jitem j k =
     (case j of
        JObj kvs \<Rightarrow> (case map_of kvs k of None \<Rightarrow> Inl (KeyError k) | Some v \<Rightarrow> Inr v)
      | _ \<Rightarrow> Inl (TypeError ''not subscriptable''))"

definition jpath :: "json \<Rightarrow> string list \<Rightarrow> json res" where
  "jpath j ks = fold (\<lambda>k r. res_bind r (\<lambda>v. jitem v k)) ks (Inr j)"

text \<open>\<open>int(text)\<close>; the underscores Python allows between digits are outside the model.\<close>

definition int_of_text :: "string \<Rightarrow> int option" where
  "int_of_text t =
     (let s = strip t;
          ds = (if s \<noteq> [] \<and> hd s \<in> set ''+-'' then tl s else s)
      in if ds = [] \<or> \<not> list_all is_dig ds then None
         else Some ((if hd s = CHR ''-'' then - 1 else 1) * int (nat_of_digits ds)))"

definition parse_int :: "string \<Rightarrow> ('s, int) prog" where
  "parse_int t = (case int_of_text t of
     None \<Rightarrow> raise (ValueError ''invalid literal for int() with base 10'') | Some i \<Rightarrow> ret i)"

lemma keeps_load_json [keeps_intros]: "keeps P (load_json X path)"
  unfolding load_json_def by (intro keeps_intros)

lemma keeps_parse_int [keeps_intros]: "keeps P (parse_int t)"
  unfolding parse_int_def by (intro keeps_intros)

subsection \<open>Paths\<close>

definition slash :: "string \<Rightarrow> string \<Rightarrow> string" where
  "slash p q = p @ ''/'' @ q"

definition base_name :: "string \<Rightarrow> string" where
  "base_name p = last (split_on CHR ''/'' p)"

definition parent_dir :: "string \<Rightarrow> string" where
  "parent_dir p = join ''/'' (butlast (split_on CHR ''/'' p))"

subsection \<open>Programs over a database and the outside world\<close>

text \<open>A call of the outside world, a read and a write of the database.\<close>

definition io :: "('w, 'a) prog \<Rightarrow> ('s \<times> 'w, 'a) prog" where
  "io m = (\<lambda>(s, w). case m w of (r, w1) \<Rightarrow> (r, (s, w1)))"

definition get :: "('s \<Rightarrow> 'a) \<Rightarrow> ('s \<times> 'w, 'a) prog" where
  "get f = ask (\<lambda>(s, w). f s)"

definition get_res :: "('s \<Rightarrow> 'a res) \<Rightarrow> ('s \<times> 'w, 'a) prog" where
  "get_res f = look (\<lambda>(s, w). f s)"

definition see :: "('w \<Rightarrow> 'a) \<Rightarrow> ('s \<times> 'w, 'a) prog" where
  "see f = ask (\<lambda>(s, w). f w)"

text \<open>A transaction that raises leaves the database as it was.\<close>

definition transact :: "('s \<Rightarrow> ('s \<times> 'a) res) \<Rightarrow> ('s \<times> 'w, 'a) prog" where
  "transact f = (\<lambda>(s, w). case f s of Inl e \<Rightarrow> (Inl e, (s, w)) | Inr (s1, x) \<Rightarrow> (Inr x, (s1, w)))"

definition put :: "('s \<Rightarrow> 's) \<Rightarrow> ('s \<times> 'w, unit) prog" where
  "put f = transact (\<lambda>s. Inr (f s, ()))"

definition attempt :: "('s \<Rightarrow> 's res) \<Rightarrow> ('s \<times> 'w, unit) prog" where
  "attempt f = transact (\<lambda>s. res_bind (f s) (\<lambda>s1. Inr (s1, ())))"

text \<open>A state operation that takes the time of its call.\<close>

definition timed :: "'w os \<Rightarrow> (time \<Rightarrow> ('s \<times> 'w, 'a) prog) \<Rightarrow> ('s \<times> 'w, 'a) prog" where
  "timed X f = doing (see (clock X)) f"

text \<open>A property of the database alone, and what the calls above keep of it.\<close>

definition on_db :: "('s \<Rightarrow> bool) \<Rightarrow> 's \<times> 'w \<Rightarrow> bool" where
  "on_db I p \<longleftrightarrow> I (fst p)"

lemma keeps_io [keeps_intros]: "keeps (on_db I) (io m)"
  by (simp add: keeps_def on_db_def io_def split: prod.split)

lemma keeps_get [keeps_intros]: "keeps P (get f)" "keeps P (get_res g)" "keeps P (see h)"
  unfolding get_def get_res_def see_def by (intro keeps_intros)+

lemma keeps_timed [keeps_intros]: "(\<And>now. keeps P (f now)) \<Longrightarrow> keeps P (timed X f)"
  unfolding timed_def by (intro keeps_intros)

lemma keeps_transact:
  "(\<And>s s' x. I s \<Longrightarrow> f s = Inr (s', x) \<Longrightarrow> I s') \<Longrightarrow> keeps (on_db I) (transact f)"
  by (auto simp: keeps_def on_db_def transact_def split: prod.split sum.split)

lemma keeps_put: "(\<And>s. I s \<Longrightarrow> I (f s)) \<Longrightarrow> keeps (on_db I) (put f)"
  unfolding put_def by (rule keeps_transact) auto

lemma keeps_attempt: "(\<And>s s'. I s \<Longrightarrow> f s = Inr s' \<Longrightarrow> I s') \<Longrightarrow> keeps (on_db I) (attempt f)"
  unfolding attempt_def
  by (rule keeps_transact) (auto simp: res_bind_def split: sum.splits)

end
