(* ===== verification/SchedState.thy ===== *)
theory SchedState
  imports Json
begin

text \<open>
  agent_pool/state.py: the durable scheduler state. The SQLite database is a record of tables
  (lists of rows in insertion order) and the settings table a map from keys to decoded JSON
  values. An operation takes the database and the clock reading it uses and returns the new
  database; a raised exception leaves the database as it was (every operation runs in one
  transaction).
\<close>

subsection \<open>Rows\<close>

datatype job_status = Working | PrOpen | Blocked | Done

fun status_name :: "job_status \<Rightarrow> string" where
  "status_name Working = ''working''"
| "status_name PrOpen = ''pr-open''"
| "status_name Blocked = ''blocked''"
| "status_name Done = ''done''"

definition parse_status :: "string \<Rightarrow> job_status option" where
  "parse_status s =
     (if s = ''working'' then Some Working else if s = ''pr-open'' then Some PrOpen
      else if s = ''blocked'' then Some Blocked else if s = ''done'' then Some Done else None)"

lemma parse_status_name [simp]: "parse_status (status_name st) = Some st"
  by (cases st) (simp_all add: parse_status_def)

record job_row =
  j_issue :: int
  j_worker :: string
  j_group :: string
  j_status :: job_status
  j_attempt :: int
  j_repairs :: int
  j_branch :: "string option"
  j_pr :: "int option"
  j_pid :: "int option"
  j_process_start :: "string option"
  j_session :: "string option"
  j_started :: "time option"
  j_updated :: time
  j_error :: "string option"
  j_clone :: "string option"
  j_prompt :: "string option"
  j_log :: "string option"

record event =
  e_kind :: string
  e_issue :: "int option"
  e_attempt :: "int option"
  e_at :: time
  e_key :: "string option"
  e_payload :: json

record review_row =
  r_run_id :: string
  r_slot :: int
  r_attempted_sha :: "string option"
  r_completed_sha :: "string option"
  r_status :: string
  r_attempt :: int
  r_started :: time
  r_finished :: "time option"
  r_error :: "string option"
  r_report :: "string option"

record candidate_row =
  c_key :: string
  c_run_id :: string
  c_title :: string
  c_outcome :: string
  c_disposition :: string
  c_issue :: "int option"
  c_reason :: "string option"
  c_revisit :: "string option"
  c_assessed :: int
  c_assessment :: "json option"
  c_created :: time
  c_updated :: time
  c_payload :: json

record qa_report_row =
  q_run_id :: string
  q_sha :: "string option"
  q_status :: string
  q_received :: time
  q_count :: int
  q_summary :: "string option"

record qa_finding_row =
  f_key :: string
  f_kind :: string
  f_module :: string
  f_severity :: string
  f_confidence :: string
  f_title :: string
  f_status :: string
  f_issue :: "int option"
  f_fix_sha :: "string option"
  f_cycles :: int
  f_occurrences :: int
  f_first_run :: string
  f_last_run :: string
  f_sha :: "string option"
  f_payload :: json
  f_created :: time
  f_updated :: time

record lease =
  l_owner :: string
  l_model :: string
  l_grps :: "string list"
  l_clone :: "string option"
  l_invocation :: "string option"
  l_probe :: bool
  l_started :: "time option"
  l_granted :: time
  l_updated :: time

datatype group_mode = Normal | Probing | BlockedMode

record group_row =
  g_name :: string
  g_target :: int
  g_mode :: group_mode
  g_cooldown_until :: "time option"
  g_cooldown_len :: time
  g_window_start :: time
  g_loaded :: "time option"
  g_useful :: int
  g_congested_at :: "time option"

record outcome =
  o_invocation :: string
  o_owner :: string
  o_grps :: "string list"
  o_category :: string
  o_useful :: bool
  o_at :: time

record db =
  settings :: "string \<Rightarrow> json option"
  jobs :: "job_row list"
  events :: "event list"
  reviews :: "review_row list"
  candidates :: "candidate_row list"
  improvements :: "(string \<times> int) list"
  qa_reports :: "qa_report_row list"
  qa_findings :: "qa_finding_row list"
  leases :: "lease list"
  groups :: "group_row list"
  outcomes :: "outcome list"
  workspace_capacity :: "int option"

definition empty_db :: "int option \<Rightarrow> db" where
  "empty_db cap =
     \<lparr>settings = Map.empty, jobs = [], events = [], reviews = [], candidates = [],
      improvements = [], qa_reports = [], qa_findings = [], leases = [], groups = [],
      outcomes = [], workspace_capacity = cap\<rparr>"

subsection \<open>Settings\<close>

definition sget :: "string \<Rightarrow> json \<Rightarrow> db \<Rightarrow> json" where
  "sget k d s = (case settings s k of None \<Rightarrow> d | Some v \<Rightarrow> v)"

definition sset :: "string \<Rightarrow> json \<Rightarrow> db \<Rightarrow> db" where
  "sset k v s = s\<lparr>settings := (settings s)(k \<mapsto> v)\<rparr>"

text \<open>
  The contract of the settings table its clients rely on: a value written is read back, and a
  write leaves every other key alone.
\<close>

locale settings_store =
  fixes get :: "string \<Rightarrow> json \<Rightarrow> 's \<Rightarrow> json"
    and put :: "string \<Rightarrow> json \<Rightarrow> 's \<Rightarrow> 's"
  assumes get_put_same: "get k d (put k v s) = v"
    and get_put_other: "k' \<noteq> k \<Longrightarrow> get k' d (put k v s) = get k' d s"
begin

lemma get_put: "get k' d (put k v s) = (if k' = k then v else get k' d s)"
  by (simp add: get_put_same get_put_other)

lemma get_put_twice:
  "k \<noteq> k' \<Longrightarrow> get k d (put k' v' (put k v s)) = v \<and> get k' d (put k' v' (put k v s)) = v'"
  by (simp add: get_put)

end

interpretation settings: settings_store sget sset
  by unfold_locales (simp_all add: sget_def sset_def)

declare settings.get_put [simp]

lemma sset_frame [simp]:
  "jobs (sset k v s) = jobs s" "events (sset k v s) = events s"
  "reviews (sset k v s) = reviews s" "candidates (sset k v s) = candidates s"
  "improvements (sset k v s) = improvements s" "qa_reports (sset k v s) = qa_reports s"
  "qa_findings (sset k v s) = qa_findings s" "leases (sset k v s) = leases s"
  "groups (sset k v s) = groups s" "outcomes (sset k v s) = outcomes s"
  "workspace_capacity (sset k v s) = workspace_capacity s"
  by (simp_all add: sset_def)

definition paused :: "db \<Rightarrow> bool" where
  "paused s \<longleftrightarrow> truthy (sget ''paused'' (JBool False) s) \<or> truthy (sget ''integrity_error'' JNull s)"

definition pause :: "string \<Rightarrow> db \<Rightarrow> db" where
  "pause reason s = sset ''paused'' (JBool True) (sset ''pause_reason'' (JStr reason) s)"

definition resume :: "db \<Rightarrow> db res" where
  "resume s =
     (if truthy (sget ''integrity_error'' JNull s)
      then Inl (RuntimeError ''Resolve and clear integrity_error before resuming'')
      else Inr (sset ''pause_reason'' JNull (sset ''paused'' (JBool False) s)))"

definition integrity :: "string \<Rightarrow> db \<Rightarrow> db" where
  "integrity reason s = pause reason (sset ''integrity_error'' (JStr reason) s)"

definition capacity :: "db \<Rightarrow> int" where
  "capacity s =
     (case workspace_capacity s of
        Some c \<Rightarrow> c
      | None \<Rightarrow>
          (let merges = int_of (sget ''merges'' (JInt 0) s)
           in if 15 \<le> merges then 20 else if 5 \<le> merges then 10 else 5))"

subsection \<open>The work ledger\<close>

definition has_event_key :: "string \<Rightarrow> db \<Rightarrow> bool" where
  "has_event_key k s \<longleftrightarrow> Some k \<in> e_key ` set (events s)"

definition mk_event ::
  "string \<Rightarrow> int option \<Rightarrow> int option \<Rightarrow> time \<Rightarrow> string option \<Rightarrow> json \<Rightarrow> event" where
  "mk_event kind issue attempt now key payload =
     \<lparr>e_kind = kind, e_issue = issue, e_attempt = attempt, e_at = now, e_key = key,
      e_payload = payload\<rparr>"

text \<open>\<open>INSERT OR IGNORE\<close>: a row whose source key is already recorded is dropped.\<close>

definition add_event :: "event \<Rightarrow> db \<Rightarrow> db" where
  "add_event e s =
     (if e_key e \<noteq> None \<and> e_key e \<in> e_key ` set (events s) then s
      else s\<lparr>events := events s @ [e]\<rparr>)"

definition record_event ::
  "time \<Rightarrow> json \<Rightarrow> int option \<Rightarrow> int option \<Rightarrow> json option \<Rightarrow> string option \<Rightarrow> db \<Rightarrow> db res" where
  "record_event now kind issue attempt payload key s =
     (if \<not> is_str kind \<or> str_of kind = [] then Inl (ValueError ''Event kind required'')
      else Inr (add_event
        (mk_event (str_of kind) issue attempt now key
          (case payload of Some p \<Rightarrow> (if truthy p then p else JObj []) | None \<Rightarrow> JObj [])) s))"

definition list_events :: "int option \<Rightarrow> int \<Rightarrow> db \<Rightarrow> event list res" where
  "list_events issue limit s =
     (if limit < 1 \<or> 1000 < limit then Inl (ValueError ''Event limit must be between 1 and 1000'')
      else Inr (take (nat limit)
        (rev (filter (\<lambda>e. case issue of None \<Rightarrow> True | Some i \<Rightarrow> e_issue e = Some i) (events s)))))"

subsection \<open>Jobs\<close>

definition live :: "job_row \<Rightarrow> bool" where
  "live j \<longleftrightarrow> j_status j = Working \<or> j_status j = PrOpen"

text \<open>The partial unique index \<open>live_worker\<close>: no two live jobs share a worker.\<close>

definition live_unique :: "job_row list \<Rightarrow> bool" where
  "live_unique js \<longleftrightarrow> distinct (map j_worker (filter live js))"

definition job :: "int \<Rightarrow> db \<Rightarrow> job_row option" where
  "job issue s = find_row j_issue issue (jobs s)"

definition list_jobs :: "job_status list \<Rightarrow> db \<Rightarrow> job_row list" where
  "list_jobs statuses s =
     sort_key j_issue
       (if statuses = [] then jobs s else filter (\<lambda>j. j_status j \<in> set statuses) (jobs s))"

definition new_job :: "time \<Rightarrow> int \<Rightarrow> string \<Rightarrow> string \<Rightarrow> job_row" where
  "new_job now issue worker grp =
     \<lparr>j_issue = issue, j_worker = worker,
      j_group = (if grp = [] then ''issue-'' @ str_int issue else grp),
      j_status = Working, j_attempt = 1, j_repairs = 0, j_branch = None, j_pr = None,
      j_pid = None, j_process_start = None, j_session = None, j_started = Some now,
      j_updated = now, j_error = None, j_clone = None, j_prompt = None, j_log = None\<rparr>"

definition reserve :: "time \<Rightarrow> int \<Rightarrow> string \<Rightarrow> string \<Rightarrow> int list \<Rightarrow> db \<Rightarrow> db \<times> job_row option" where
  "reserve now issue worker grp deps s =
     (if paused s then (s, None)
      else if \<exists>d \<in> set deps. case job d s of None \<Rightarrow> True | Some j \<Rightarrow> j_status j \<noteq> Done
        then (s, None)
      else if capacity s \<le> int (length (list_jobs [Working, PrOpen] s)) then (s, None)
      else
        (let j = new_job now issue worker grp
         in if job issue s \<noteq> None \<or> \<not> live_unique (jobs s @ [j]) then (s, None)
            else
              (let s1 = s\<lparr>jobs := jobs s @ [j]\<rparr>;
                   s2 = add_event (mk_event ''reserved'' (Some issue) (Some 1) now None
                          (JObj [(''worker'', JStr worker)])) s1
               in (s2, job issue s2))))"

datatype job_field =
    FWorker string | FGroup string | FStatus string | FAttempt int | FRepairs int
  | FBranch "string option" | FPr "int option" | FPid "int option"
  | FProcessStart "string option" | FSession "string option" | FStarted "time option"
  | FError "string option" | FClone "string option" | FPrompt "string option"
  | FLog "string option" | FOther string

fun allowed_field :: "job_field \<Rightarrow> bool" where
  "allowed_field (FOther _) = False" | "allowed_field _ = True"

fun status_field_ok :: "job_field \<Rightarrow> bool" where
  "status_field_ok (FStatus st) = (parse_status st \<noteq> None)" | "status_field_ok _ = True"

fun set_field :: "job_field \<Rightarrow> job_row \<Rightarrow> job_row" where
  "set_field (FWorker w) j = j\<lparr>j_worker := w\<rparr>"
| "set_field (FGroup g) j = j\<lparr>j_group := g\<rparr>"
| "set_field (FStatus st) j =
     (case parse_status st of None \<Rightarrow> j | Some x \<Rightarrow> j\<lparr>j_status := x\<rparr>)"
| "set_field (FAttempt n) j = j\<lparr>j_attempt := n\<rparr>"
| "set_field (FRepairs n) j = j\<lparr>j_repairs := n\<rparr>"
| "set_field (FBranch x) j = j\<lparr>j_branch := x\<rparr>"
| "set_field (FPr x) j = j\<lparr>j_pr := x\<rparr>"
| "set_field (FPid x) j = j\<lparr>j_pid := x\<rparr>"
| "set_field (FProcessStart x) j = j\<lparr>j_process_start := x\<rparr>"
| "set_field (FSession x) j = j\<lparr>j_session := x\<rparr>"
| "set_field (FStarted x) j = j\<lparr>j_started := x\<rparr>"
| "set_field (FError x) j = j\<lparr>j_error := x\<rparr>"
| "set_field (FClone x) j = j\<lparr>j_clone := x\<rparr>"
| "set_field (FPrompt x) j = j\<lparr>j_prompt := x\<rparr>"
| "set_field (FLog x) j = j\<lparr>j_log := x\<rparr>"
| "set_field (FOther x) j = j"

definition set_fields :: "time \<Rightarrow> job_field list \<Rightarrow> job_row \<Rightarrow> job_row" where
  "set_fields now fs j = (fold set_field fs j)\<lparr>j_updated := now\<rparr>"

definition named_status :: "job_field list \<Rightarrow> job_status option" where
  "named_status fs =
     (case List.find (\<lambda>f. case f of FStatus _ \<Rightarrow> True | _ \<Rightarrow> False) fs of
        Some (FStatus st) \<Rightarrow> parse_status st | _ \<Rightarrow> None)"

definition update_job :: "time \<Rightarrow> int \<Rightarrow> job_field list \<Rightarrow> db \<Rightarrow> db res" where
  "update_job now issue fs s =
     (if fs = [] \<or> \<not> list_all allowed_field fs then Inl (ValueError ''Invalid job fields'')
      else if \<not> list_all status_field_ok fs then Inl (ValueError ''Invalid status'')
      else
        (let js = update_row j_issue issue (set_fields now fs) (jobs s)
         in if \<not> live_unique js then Inl IntegrityError
            else
              (let s1 = s\<lparr>jobs := js\<rparr>
               in Inr (case (job issue s, named_status fs) of
                    (Some prev, Some st) \<Rightarrow>
                      (if st \<noteq> j_status prev
                       then add_event (mk_event (''status:'' @ status_name st) (Some issue)
                              (Some (j_attempt prev)) now None
                              (JObj [(''from'', JStr (status_name (j_status prev)))])) s1
                       else s1)
                  | _ \<Rightarrow> s1))))"

definition repair_causes :: "string list" where
  "repair_causes = [''merge-conflict'', ''ci-failure'', ''publish-error'']"

definition redispatch_causes :: "string list" where
  "redispatch_causes =
     [''worker-failure'', ''quota-requeue'', ''timeout-requeue'', ''kill-requeue'']"

text \<open>\<open>payload = {'cause': cause}; payload.update(detail)\<close>\<close>

definition cause_payload :: "string \<Rightarrow> (string \<times> json) list \<Rightarrow> json" where
  "cause_payload cause detail =
     JObj (fold (\<lambda>(k, v). AList.update k v) detail [(''cause'', JStr cause)])"

definition repair ::
  "time \<Rightarrow> int \<Rightarrow> string \<Rightarrow> (string \<times> json) list \<Rightarrow> db \<Rightarrow> (db \<times> bool) res" where
  "repair now issue cause detail s =
     (if cause \<notin> set repair_causes then Inl (ValueError ''Invalid repair cause'')
      else case job issue s of
        Some j \<Rightarrow>
          (if j_repairs j < 3 \<and> live j then
             (let s1 = s\<lparr>jobs := update_row j_issue issue
                    (\<lambda>j. j\<lparr>j_repairs := j_repairs j + 1, j_status := Working, j_updated := now\<rparr>)
                    (jobs s)\<rparr>
              in Inr (add_event (mk_event ''repair'' (Some issue) (Some (j_attempt j)) now
                        (Some (''repair:'' @ str_int issue @ '':'' @ str_int (j_attempt j)
                               @ '':'' @ str_int (j_repairs j + 1)))
                        (cause_payload cause detail)) s1, True))
           else if j_status j \<noteq> Done then
             Inr (s\<lparr>jobs := update_row j_issue issue
                    (\<lambda>j. j\<lparr>j_status := Blocked, j_error := Some ''Repair limit exhausted'',
                           j_updated := now\<rparr>) (jobs s)\<rparr>, False)
           else Inr (s, False))
      | None \<Rightarrow> Inr (s, False))"

definition complete :: "time \<Rightarrow> int \<Rightarrow> db \<Rightarrow> db" where
  "complete now issue s =
     (case job issue s of
        Some j \<Rightarrow>
          (if j_status j = Done then s
           else
             (let s1 = s\<lparr>jobs := update_row j_issue issue
                    (\<lambda>j. j\<lparr>j_status := Done, j_pid := None, j_updated := now\<rparr>) (jobs s)\<rparr>;
                  s2 = add_event (mk_event ''merged-and-closed'' (Some issue)
                         (Some (j_attempt j)) now None (JObj [])) s1;
                  s3 = sset ''merges'' (JInt (int_of (sget ''merges'' (JInt 0) s2) + 1)) s2
              in sset (''retry:'' @ str_int issue) JNull
                   (sset (''recovery:'' @ str_int issue) JNull s3)))
      | None \<Rightarrow> s)"

definition retry ::
  "time \<Rightarrow> int \<Rightarrow> string \<Rightarrow> (string \<times> json) list \<Rightarrow> db \<Rightarrow> (db \<times> bool) res" where
  "retry now issue cause detail s =
     (if cause \<notin> set redispatch_causes then Inl (ValueError ''Invalid redispatch cause'')
      else case job issue s of
        Some j \<Rightarrow>
          (if j_status j = Blocked then
             (let js = update_row j_issue issue
                    (\<lambda>j. j\<lparr>j_status := Working, j_attempt := j_attempt j + 1, j_repairs := 0,
                           j_pid := None, j_error := None, j_updated := now\<rparr>) (jobs s)
              in if \<not> live_unique js then Inr (s, False)
                 else
                   (let a = j_attempt j + 1;
                        s1 = add_event (mk_event ''retry-reserved'' (Some issue) (Some a) now
                               None (JObj [])) (s\<lparr>jobs := js\<rparr>)
                    in Inr (add_event (mk_event ''redispatch'' (Some issue) (Some a) now
                              (Some (''redispatch:'' @ str_int issue @ '':'' @ str_int a))
                              (cause_payload cause detail)) s1, True)))
           else Inr (s, False))
      | None \<Rightarrow> Inr (s, False))"

end
