(* ===== verification/SchedLanes.thy ===== *)
theory SchedLanes
  imports SchedState
begin

text \<open>
  agent_pool/state.py, second half: the tables of the architecture-review lane (reviews,
  candidates, improvements) and of the QA findings lane (reports, findings). A candidate and a
  finding are the JSON objects their validators accepted (agent_pool/review.py, qa_lane/report.py);
  \<open>fstr\<close> reads a field of such an object.
\<close>

definition fstr :: "string \<Rightarrow> json \<Rightarrow> string" where
  "fstr k j = str_of (jget_or j k JNull)"

definition fopt :: "string \<Rightarrow> json \<Rightarrow> string option" where
  "fopt k j = (case jget_or j k JNull of JStr s \<Rightarrow> Some s | _ \<Rightarrow> None)"

subsection \<open>Reviews\<close>

text \<open>\<open>ORDER BY started DESC LIMIT 1\<close>: the latest row, the first recorded one of a tie.\<close>

definition latest_by :: "('r \<Rightarrow> 'k::linorder) \<Rightarrow> 'r list \<Rightarrow> 'r option" where
  "latest_by key rows = (case sorted_desc key rows of [] \<Rightarrow> None | r # _ \<Rightarrow> Some r)"

definition review :: "string option \<Rightarrow> db \<Rightarrow> review_row option" where
  "review run_id s =
     (case run_id of
        Some k \<Rightarrow> (if k = [] then latest_by r_started (reviews s) else find_row r_run_id k (reviews s))
      | None \<Rightarrow> latest_by r_started (reviews s))"

definition running_review :: "db \<Rightarrow> review_row option" where
  "running_review s = latest_by r_started (filter (\<lambda>r. r_status r = ''running'') (reviews s))"

definition begin_review ::
  "time \<Rightarrow> string \<Rightarrow> int \<Rightarrow> string option \<Rightarrow> int \<Rightarrow> db \<Rightarrow> db res" where
  "begin_review now run_id slot sha attempt s =
     (if find_row r_run_id run_id (reviews s) \<noteq> None then Inl IntegrityError
      else Inr (s\<lparr>reviews := reviews s @
        [\<lparr>r_run_id = run_id, r_slot = slot, r_attempted_sha = sha, r_completed_sha = None,
          r_status = ''running'', r_attempt = attempt, r_started = now, r_finished = None,
          r_error = None, r_report = None\<rparr>]\<rparr>))"

definition coalesce :: "'a option \<Rightarrow> 'a option \<Rightarrow> 'a option" where
  "coalesce x y = (case x of None \<Rightarrow> y | Some _ \<Rightarrow> x)"

definition finish_review ::
  "time \<Rightarrow> string \<Rightarrow> string \<Rightarrow> string option \<Rightarrow> string option \<Rightarrow> string option \<Rightarrow> db \<Rightarrow> db" where
  "finish_review now run_id status error completed_sha report s =
     sset ''review:last_finished_at'' (JFloat now)
       (s\<lparr>reviews := update_row r_run_id run_id
            (\<lambda>r. r\<lparr>r_status := status, r_finished := Some now, r_error := error,
                   r_completed_sha := coalesce completed_sha (r_completed_sha r),
                   r_report := coalesce report (r_report r)\<rparr>) (reviews s)\<rparr>)"

text \<open>A NULL \<open>finished\<close> sorts below every time, so it comes last in descending order.\<close>

definition time_rank :: "time option \<Rightarrow> bool \<times> time" where
  "time_rank t = (case t of None \<Rightarrow> (False, 0) | Some x \<Rightarrow> (True, x))"

definition last_completed_sha :: "db \<Rightarrow> string option" where
  "last_completed_sha s =
     Option.bind (latest_by (\<lambda>r. time_rank (r_finished r))
       (filter (\<lambda>r. r_completed_sha r \<noteq> None) (reviews s))) r_completed_sha"

subsection \<open>Candidates\<close>

definition candidate :: "string \<Rightarrow> db \<Rightarrow> candidate_row option" where
  "candidate k s = find_row c_key k (candidates s)"

definition list_candidates :: "string option \<Rightarrow> db \<Rightarrow> candidate_row list" where
  "list_candidates disposition s =
     sort_key c_created
       (case disposition of
          None \<Rightarrow> candidates s
        | Some d \<Rightarrow> (if d = [] then candidates s
                    else filter (\<lambda>c. c_disposition c = d) (candidates s)))"

definition new_candidate :: "time \<Rightarrow> string \<Rightarrow> json \<Rightarrow> candidate_row" where
  "new_candidate now run_id item =
     \<lparr>c_key = fstr ''key'' item, c_run_id = run_id, c_title = fstr ''title'' item,
      c_outcome = fstr ''outcome'' item, c_disposition = ''pending'', c_issue = None,
      c_reason = None, c_revisit = None, c_assessed = 0, c_assessment = None,
      c_created = now, c_updated = now, c_payload = item\<rparr>"

definition reopened :: "time \<Rightarrow> string \<Rightarrow> json \<Rightarrow> candidate_row \<Rightarrow> candidate_row" where
  "reopened now run_id item c =
     c\<lparr>c_disposition := ''pending'', c_run_id := run_id, c_title := fstr ''title'' item,
       c_outcome := fstr ''outcome'' item, c_reason := None, c_revisit := None, c_assessed := 0,
       c_assessment := None, c_payload := item, c_updated := now\<rparr>"

definition record_candidate ::
  "time \<Rightarrow> string \<Rightarrow> json \<Rightarrow> db \<times> (string \<times> string) list \<Rightarrow> db \<times> (string \<times> string) list" where
  "record_candidate now run_id item st =
     (case st of (s, skipped) \<Rightarrow>
        (case candidate (fstr ''key'' item) s of
           Some c \<Rightarrow>
             (if c_disposition c \<in> {''deferred'', ''rejected''} \<and> \<not> py_eq (c_payload c) item
              then (s\<lparr>candidates := update_row c_key (fstr ''key'' item)
                        (reopened now run_id item) (candidates s)\<rparr>, skipped)
              else (s, AList.update (fstr ''key'' item) (c_disposition c) skipped))
         | None \<Rightarrow> (s\<lparr>candidates := candidates s @ [new_candidate now run_id item]\<rparr>, skipped)))"

definition record_candidates ::
  "time \<Rightarrow> string \<Rightarrow> json list \<Rightarrow> db \<Rightarrow> db \<times> (string \<times> string) list" where
  "record_candidates now run_id items s = fold (record_candidate now run_id) items (s, [])"

definition disposition_candidate ::
  "time \<Rightarrow> string \<Rightarrow> string \<Rightarrow> string \<Rightarrow> string option \<Rightarrow> int option \<Rightarrow> string list \<Rightarrow> db
     \<Rightarrow> (db \<times> bool) res" where
  "disposition_candidate now k decision reason revisit issue sources s =
     (if decision \<notin> {''accepted'', ''deferred'', ''rejected''}
      then Inl (ValueError ''Invalid disposition'')
      else
        (let hit = (\<lambda>c. c_key c = k \<and> c_disposition c \<in> set sources)
         in Inr (s\<lparr>candidates := map (\<lambda>c. if hit c
                     then c\<lparr>c_disposition := decision, c_reason := Some (take 4000 reason),
                            c_revisit := revisit, c_issue := coalesce issue (c_issue c),
                            c_updated := now\<rparr> else c) (candidates s)\<rparr>,
                 list_ex hit (candidates s))))"

definition map_improvement :: "string \<Rightarrow> int \<Rightarrow> db \<Rightarrow> db" where
  "map_improvement improvement issue s =
     (if (improvement, issue) \<in> set (improvements s) then s
      else s\<lparr>improvements := improvements s @ [(improvement, issue)]\<rparr>)"

definition improvement_issues :: "string \<Rightarrow> db \<Rightarrow> int list" where
  "improvement_issues improvement s =
     sort (map snd (filter (\<lambda>r. fst r = improvement) (improvements s)))"

definition issue_done :: "db \<Rightarrow> int \<Rightarrow> bool" where
  "issue_done s i = (case job i s of None \<Rightarrow> False | Some j \<Rightarrow> j_status j = Done)"

definition accepted_open :: "candidate_row \<Rightarrow> bool" where
  "accepted_open c \<longleftrightarrow> c_disposition c = ''accepted'' \<and> c_assessed c = 0"

definition unresolved_accepted :: "db \<Rightarrow> candidate_row list" where
  "unresolved_accepted s =
     filter (\<lambda>c. accepted_open c
       \<and> (improvement_issues (c_key c) s = []
          \<or> list_ex (\<lambda>i. \<not> issue_done s i) (improvement_issues (c_key c) s))) (candidates s)"

definition pending_assessments :: "db \<Rightarrow> candidate_row list" where
  "pending_assessments s =
     filter (\<lambda>c. accepted_open c
       \<and> improvement_issues (c_key c) s \<noteq> []
       \<and> \<not> list_ex (\<lambda>i. \<not> issue_done s i) (improvement_issues (c_key c) s)) (candidates s)"

definition record_assessment :: "time \<Rightarrow> string \<Rightarrow> json \<Rightarrow> db \<Rightarrow> db" where
  "record_assessment now k assessment s =
     s\<lparr>candidates := update_row c_key k
        (\<lambda>c. c\<lparr>c_assessed := 1, c_assessment := Some assessment, c_updated := now\<rparr>) (candidates s)\<rparr>"

record review_overview =
  ro_latest :: "review_row option"
  ro_running :: json
  ro_stage :: json
  ro_last_slot :: json
  ro_active_improvement :: json
  ro_pending_candidates :: nat
  ro_pending_assessments :: nat
  ro_rollout_failure :: json

definition review_summary :: "db \<Rightarrow> review_overview" where
  "review_summary s =
     \<lparr>ro_latest = review None s, ro_running = sget ''reviewer'' JNull s,
      ro_stage = sget ''review:stage'' JNull s, ro_last_slot = sget ''review:last_slot'' JNull s,
      ro_active_improvement = sget ''review:active_improvement'' JNull s,
      ro_pending_candidates = length (list_candidates (Some ''pending'') s),
      ro_pending_assessments = length (pending_assessments s),
      ro_rollout_failure = sget ''review:rollout_failure'' JNull s\<rparr>"

subsection \<open>QA reports and findings\<close>

definition qa_report :: "string \<Rightarrow> db \<Rightarrow> qa_report_row option" where
  "qa_report run_id s = find_row q_run_id run_id (qa_reports s)"

text \<open>\<open>INSERT OR REPLACE\<close>: the old row of the key goes, the new one is appended.\<close>

definition record_qa_report ::
  "time \<Rightarrow> string \<Rightarrow> string option \<Rightarrow> string \<Rightarrow> int \<Rightarrow> string option \<Rightarrow> db \<Rightarrow> db" where
  "record_qa_report now run_id sha status n summary s =
     s\<lparr>qa_reports := filter (\<lambda>r. q_run_id r \<noteq> run_id) (qa_reports s) @
        [\<lparr>q_run_id = run_id, q_sha = sha, q_status = status, q_received = now, q_count = n,
          q_summary = summary\<rparr>]\<rparr>"

definition qa_finding :: "string \<Rightarrow> db \<Rightarrow> qa_finding_row option" where
  "qa_finding k s = find_row f_key k (qa_findings s)"

definition list_qa_findings :: "string list \<Rightarrow> db \<Rightarrow> qa_finding_row list" where
  "list_qa_findings statuses s =
     sort_key f_created
       (if statuses = [] then qa_findings s
        else filter (\<lambda>f. f_status f \<in> set statuses) (qa_findings s))"

definition observed_payload :: "json \<Rightarrow> json \<Rightarrow> json" where
  "observed_payload finding report =
     jset ''_report_status'' (jget_or report ''status'' (JStr ''completed''))
       (jset ''_rig'' (jget_or report ''rig'' JNull)
         (jset ''_sha'' (jget_or report ''sha'' JNull)
           (jset ''_run_id'' (jget_or report ''run_id'' JNull) finding)))"

definition reobserved :: "time \<Rightarrow> json \<Rightarrow> json \<Rightarrow> qa_finding_row \<Rightarrow> qa_finding_row" where
  "reobserved now finding report f =
     f\<lparr>f_kind := fstr ''kind'' finding, f_module := fstr ''module'' finding,
       f_severity := fstr ''severity'' finding, f_confidence := fstr ''confidence'' finding,
       f_title := fstr ''title'' finding, f_sha := fopt ''sha'' report,
       f_last_run := fstr ''run_id'' report, f_payload := observed_payload finding report,
       f_occurrences := f_occurrences f + 1, f_updated := now\<rparr>"

definition upsert_qa_finding :: "time \<Rightarrow> json \<Rightarrow> json \<Rightarrow> string \<Rightarrow> db \<Rightarrow> db" where
  "upsert_qa_finding now finding report status s =
     (if qa_finding (fstr ''key'' finding) s \<noteq> None
      then s\<lparr>qa_findings := update_row f_key (fstr ''key'' finding)
               (reobserved now finding report) (qa_findings s)\<rparr>
      else s\<lparr>qa_findings := qa_findings s @
        [\<lparr>f_key = fstr ''key'' finding, f_kind = fstr ''kind'' finding,
          f_module = fstr ''module'' finding, f_severity = fstr ''severity'' finding,
          f_confidence = fstr ''confidence'' finding, f_title = fstr ''title'' finding,
          f_status = status, f_issue = None, f_fix_sha = None, f_cycles = 0, f_occurrences = 1,
          f_first_run = fstr ''run_id'' report, f_last_run = fstr ''run_id'' report,
          f_sha = fopt ''sha'' report, f_payload = observed_payload finding report,
          f_created = now, f_updated = now\<rparr>]\<rparr>)"

datatype finding_field =
    QStatus string | QIssue "int option" | QFixSha "string option" | QCycles int
  | QTitle string | QSha "string option" | QOther string

fun finding_field_ok :: "finding_field \<Rightarrow> bool" where
  "finding_field_ok (QOther _) = False" | "finding_field_ok _ = True"

fun set_finding_field :: "finding_field \<Rightarrow> qa_finding_row \<Rightarrow> qa_finding_row" where
  "set_finding_field (QStatus x) f = f\<lparr>f_status := x\<rparr>"
| "set_finding_field (QIssue x) f = f\<lparr>f_issue := x\<rparr>"
| "set_finding_field (QFixSha x) f = f\<lparr>f_fix_sha := x\<rparr>"
| "set_finding_field (QCycles x) f = f\<lparr>f_cycles := x\<rparr>"
| "set_finding_field (QTitle x) f = f\<lparr>f_title := x\<rparr>"
| "set_finding_field (QSha x) f = f\<lparr>f_sha := x\<rparr>"
| "set_finding_field (QOther x) f = f"

definition set_qa_finding :: "time \<Rightarrow> string \<Rightarrow> finding_field list \<Rightarrow> db \<Rightarrow> db res" where
  "set_qa_finding now k fs s =
     (if fs = [] \<or> \<not> list_all finding_field_ok fs
      then Inl (ValueError ''Invalid finding fields'')
      else Inr (s\<lparr>qa_findings := update_row f_key k
             (\<lambda>f. (fold set_finding_field fs f)\<lparr>f_updated := now\<rparr>) (qa_findings s)\<rparr>))"

definition qa_count :: "string list \<Rightarrow> db \<Rightarrow> nat" where
  "qa_count statuses s = count_if (\<lambda>f. f_status f \<in> set statuses) (qa_findings s)"

definition pending_verifications :: "db \<Rightarrow> qa_finding_row list" where
  "pending_verifications s = list_qa_findings [''fix-merged''] s"

record qa_overview =
  qo_findings :: "(string \<times> nat) list"
  qo_pending_verifications :: nat
  qo_reports :: nat
  qo_published_at :: json
  qo_publish_error :: json

definition qa_summary :: "db \<Rightarrow> qa_overview" where
  "qa_summary s =
     \<lparr>qo_findings = map (\<lambda>st. (st, qa_count [st] s)) (sort (uniq (map f_status (qa_findings s)))),
      qo_pending_verifications = length (pending_verifications s),
      qo_reports = length (qa_reports s), qo_published_at = sget ''qa:published_at'' JNull s,
      qo_publish_error = sget ''qa:publish_error'' JNull s\<rparr>"

end
