(* ===== verification/Areas.thy ===== *)
theory Areas
  imports SchedState
begin

text \<open>
  agent_pool/areas.py: the product areas with their investment weights, the area of a managed
  issue (from its metadata, its labels or the words of its text) and the rolling allocation. A
  GitHub issue is a record of the fields the sources read; \<open>no_issue\<close> is the empty dictionary.
  The descriptions of the areas are prose for the planner and are left out.
\<close>

record issue =
  i_number :: int
  i_state :: string
  i_title :: string
  i_body :: "string option"
  i_labels :: "string list"

definition no_issue :: issue where
  "no_issue = \<lparr>i_number = 0, i_state = [], i_title = [], i_body = None, i_labels = []\<rparr>"

definition body_of :: "issue \<Rightarrow> string" where
  "body_of i = (case i_body i of None \<Rightarrow> [] | Some b \<Rightarrow> b)"

definition task_prefix :: string where
  "task_prefix = ''<!-- dcs-task:''"

definition definitions :: "(string \<times> nat) list" where
  "definitions =
     [(''engineering'', 15), (''control-runtime'', 15), (''high-availability'', 15),
      (''field-connectivity'', 10), (''operations'', 10), (''alarms-diagnostics'', 10),
      (''library'', 10), (''deployment-lifecycle'', 5), (''verification'', 5),
      (''delivery-platform'', 5)]"

definition is_area :: "string \<Rightarrow> bool" where
  "is_area a \<longleftrightarrow> a \<in> fst ` set definitions"

definition weight :: "string \<Rightarrow> nat" where
  "weight a = (case map_of definitions a of None \<Rightarrow> 0 | Some w \<Rightarrow> w)"

text \<open>\<open>value in DEFINITIONS\<close>: a list or an object is unhashable.\<close>

definition in_definitions :: "json \<Rightarrow> bool res" where
  "in_definitions v =
     (case v of
        JList _ \<Rightarrow> Inl (TypeError ''unhashable type'')
      | JObj _ \<Rightarrow> Inl (TypeError ''unhashable type'')
      | JStr a \<Rightarrow> Inr (is_area a)
      | _ \<Rightarrow> Inr False)"

definition validate_area :: "json \<Rightarrow> json res" where
  "validate_area v =
     res_bind (in_definitions v)
       (\<lambda>ok. if ok then Inr v else Inl (ValueError (''Invalid product area: '' @ str_of v)))"

definition area_label :: "string \<Rightarrow> string res" where
  "area_label a = res_bind (validate_area (JStr a)) (\<lambda>_. Inr (''area:'' @ a))"

subsection \<open>Inference from the text\<close>

definition keyword_areas :: "(string \<times> string list) list" where
  "keyword_areas =
     [(''high-availability'', [''standby'', ''failover'', ''promot'', ''demot'', ''checkpoint'',
         ''reconverg'', ''tracking'', ''fencing'', ''ownership'']),
      (''alarms-diagnostics'', [''alarm'', ''acknowledg'', ''latch'', ''shelv'', ''suppress'',
         ''first-out'', ''diagnostic'']),
      (''field-connectivity'', [''ethercat'', ''fieldbus'', ''cyclic'', ''driver'', ''fanout'',
         ''physical i/o'', ''wago'']),
      (''operations'', [''monitor'', ''operator'', ''history page'', ''cursor'', ''fetch'',
         ''dashboard'']),
      (''library'', [''pump'', ''filter'', ''aeration'', ''dosing'', ''equipment module'']),
      (''deployment-lifecycle'', [''release'', ''upgrade'', ''migration'', ''compatib''])]"

definition module_areas :: "(string \<times> string) list" where
  "module_areas =
     [(''agent_pool'', ''delivery-platform''), (''ci'', ''delivery-platform''),
      (''qa_lane'', ''verification''), (''qa-hardware'', ''verification''),
      (''dcs-build'', ''engineering''), (''model'', ''engineering''),
      (''dcs-controller'', ''control-runtime''), (''dcs-runtime'', ''control-runtime''),
      (''dcs-monitor'', ''operations''), (''dcs-blocks'', ''library''),
      (''reference-plant'', ''library''), (''dcs-assembly'', ''field-connectivity''),
      (''dcs-ethercat'', ''field-connectivity''), (''dcs-sim-net'', ''field-connectivity'')]"

definition infer :: "string \<Rightarrow> string list \<Rightarrow> string" where
  "infer modname texts =
     (let text = lower (join '' '' (modname # texts)) in
      case List.find (\<lambda>(area, needles). list_ex (\<lambda>n. in_text n text) needles) keyword_areas of
        Some (area, _) \<Rightarrow> area
      | None \<Rightarrow>
          (let tail = lower (last (split_on CHR ''/'' (rstrip_if (\<lambda>c. c = CHR ''/'') (strip modname))))
           in case map_of module_areas tail of Some area \<Rightarrow> area | None \<Rightarrow> ''control-runtime''))"

subsection \<open>The area of an issue\<close>

text \<open>\<open>json.loads(body[len(PREFIX):body.index(' -->')])\<close>\<close>

definition task_json :: "string \<Rightarrow> json option" where
  "task_json body =
     (case index_of '' -->'' body of
        None \<Rightarrow> None
      | Some k \<Rightarrow> loads (drop (length task_prefix) (take k body)))"

definition label_areas :: "issue \<Rightarrow> string list" where
  "label_areas i = filter is_area (map (drop 5) (filter (starts_with ''area:'') (i_labels i)))"

definition single :: "'a list \<Rightarrow> 'a option" where
  "single xs = (case xs of [x] \<Rightarrow> Some x | _ \<Rightarrow> None)"

definition issue_area :: "issue \<Rightarrow> string option res" where
  "issue_area i =
     (let valid = label_areas i; body = body_of i in
      if starts_with task_prefix body then
        (case task_json body of
           None \<Rightarrow> Inr (single valid)
         | Some m \<Rightarrow>
             (if \<not> is_obj m then Inl (AttributeError ''get'')
              else case in_definitions (jget_or m ''area'' JNull) of
                Inl e \<Rightarrow> Inr (single valid)
              | Inr True \<Rightarrow> Inr (Some (str_of (jget_or m ''area'' JNull)))
              | Inr False \<Rightarrow>
                  (case single valid of
                     Some a \<Rightarrow> Inr (Some a)
                   | None \<Rightarrow>
                       (case jget_or m ''group'' JNull of
                          JStr g \<Rightarrow> Inr (Some (infer g [i_title i, body]))
                        | _ \<Rightarrow> Inr None))))
      else Inr (single valid))"

subsection \<open>The rolling allocation\<close>

record allocation =
  recent :: "string list"
  active_areas :: "string list"
  open_areas :: "string list"
  ready :: "string list"

text \<open>A \<open>Counter\<close> is the list of its counted elements.\<close>

definition issue_at :: "issue list \<Rightarrow> int \<Rightarrow> issue" where
  "issue_at issues n =
     (case find_row i_number n (rev issues) of None \<Rightarrow> no_issue | Some i \<Rightarrow> i)"

definition somes :: "'a option list \<Rightarrow> 'a list" where
  "somes xs = concat (map (\<lambda>x. case x of None \<Rightarrow> [] | Some y \<Rightarrow> [y]) xs)"

definition from_inventory :: "issue list \<Rightarrow> job_row list \<Rightarrow> nat \<Rightarrow> allocation res" where
  "from_inventory issues js window =
     res_bind (map_res (\<lambda>i. res_bind (issue_area i) (\<lambda>a. Inr (i, a))) issues) (\<lambda>ias.
     (let opened = filter (\<lambda>(i, a). a \<noteq> None \<and> i_state i = ''OPEN'') ias;
          area_of = (\<lambda>j. issue_area (issue_at issues (j_issue j)))
      in res_bind (map_res area_of
           (take window (sorted_desc j_updated (filter (\<lambda>j. j_status j = Done) js)))) (\<lambda>fin.
         res_bind (map_res area_of (filter live js)) (\<lambda>act.
         Inr \<lparr>recent = somes fin, active_areas = somes act, open_areas = somes (map snd opened),
              ready = somes (map snd (filter (\<lambda>(i, a). ''agent:ready'' \<in> set (i_labels i)) opened))\<rparr>))))"

definition score :: "allocation \<Rightarrow> string \<Rightarrow> rat res" where
  "score al area =
     res_bind (validate_area (JStr area)) (\<lambda>_.
       Inr (of_nat (count_list (recent al) area + count_list (active_areas al) area)
            / of_nat (weight area)))"

definition note_area :: "allocation \<Rightarrow> string \<Rightarrow> allocation res" where
  "note_area al area =
     res_bind (validate_area (JStr area)) (\<lambda>_. Inr (al\<lparr>active_areas := active_areas al @ [area]\<rparr>))"

definition allocation_summary :: "allocation \<Rightarrow> (string \<times> nat \<times> nat \<times> nat \<times> nat \<times> nat) list" where
  "allocation_summary al =
     map (\<lambda>(a, w). (a, w, count_list (recent al) a, count_list (active_areas al) a,
            count_list (open_areas al) a, count_list (ready al) a)) definitions"

subsection \<open>Lemmas\<close>

lemma weights_total: "sum_list (map snd definitions) = 100"
  by (simp add: definitions_def)

lemma weight_pos: "is_area a \<Longrightarrow> 0 < weight a"
  by (auto simp: is_area_def weight_def definitions_def)

lemma validate_area_str:
  "validate_area (JStr a) = (if is_area a then Inr (JStr a)
     else Inl (ValueError (''Invalid product area: '' @ a)))"
  by (simp add: validate_area_def in_definitions_def)

lemma infer_is_area: "is_area (infer modname texts)"
proof -
  have kw: "\<forall>(a, ns) \<in> set keyword_areas. is_area a"
    by (simp add: keyword_areas_def is_area_def definitions_def)
  have md: "\<forall>(t, a) \<in> set module_areas. is_area a"
    by (simp add: module_areas_def is_area_def definitions_def)
  have dflt: "is_area ''control-runtime''" by (simp add: is_area_def definitions_def)
  have found: "is_area a" if "List.find p keyword_areas = Some (a, ns)" for p a ns
    using that kw by (auto simp: find_Some_iff) (metis case_prodD nth_mem)
  have mapped: "is_area a" if "map_of module_areas t = Some a" for t a
    using that md by (auto dest!: map_of_SomeD)
  show ?thesis
    using found mapped dflt by (auto simp: infer_def Let_def split: option.split prod.split)
qed

lemma label_areas_valid: "a \<in> set (label_areas i) \<Longrightarrow> is_area a"
  by (simp add: label_areas_def)

lemma single_mem: "single xs = Some x \<Longrightarrow> x \<in> set xs"
  by (auto simp: single_def split: list.splits)

end
