(* ===== verification/GitHub.thy ===== *)
theory GitHub
  imports Effects SchedLanes Areas
begin

text \<open>
  agent_pool/github.py: the GitHub CLI adapter. \<open>gh\<close> itself is a command the operating system
  runs; translated are its invocation, how its output is read, and the merge decision.
\<close>

subsection \<open>The command\<close>

definition gh_run :: "'w os \<Rightarrow> string list \<Rightarrow> ('w, string) prog" where
  "gh_run X args =
     doing (exec X None (''gh'' # args)) (\<lambda>r.
       if returncode r \<noteq> 0
       then raise (GitHubError (if strip (stderr r) \<noteq> [] then strip (stderr r) else strip (stdout r)))
       else ret (stdout r))"

definition gh_text :: "'w os \<Rightarrow> string list \<Rightarrow> ('w, string) prog" where
  "gh_text X args = doing (gh_run X args) (\<lambda>out. ret (strip out))"

definition gh_json :: "'w os \<Rightarrow> string list \<Rightarrow> ('w, json) prog" where
  "gh_json X args =
     doing (gh_run X args) (\<lambda>out. case loads out of
       None \<Rightarrow> raise (GitHubError ''Invalid GitHub JSON response'') | Some j \<Rightarrow> ret j)"

definition api :: "'w os \<Rightarrow> string \<Rightarrow> ('w, json) prog" where
  "api X endpoint = gh_json X [''api'', endpoint]"

subsection \<open>Issues\<close>

text \<open>The fields of a decoded issue the sources read.\<close>

definition label_names :: "json \<Rightarrow> string list" where
  "label_names j = map (fstr ''name'') (items_of (jget_or j ''labels'' JNull))"

definition issue_of_json :: "json \<Rightarrow> issue" where
  "issue_of_json j =
     \<lparr>i_number = int_of (jget_or j ''number'' JNull), i_state = fstr ''state'' j,
      i_title = fstr ''title'' j, i_body = fopt ''body'' j, i_labels = label_names j\<rparr>"

definition issue_fields :: string where
  "issue_fields = ''number,title,body,labels,state,url''"

definition gh_issues :: "'w os \<Rightarrow> string \<Rightarrow> string \<Rightarrow> ('w, json list) prog" where
  "gh_issues X repo state =
     doing (gh_json X [''issue'', ''list'', ''--repo'', repo, ''--state'', state, ''--limit'', ''1000'',
                       ''--json'', issue_fields]) (\<lambda>j. ret (items_of j))"

definition gh_issue :: "'w os \<Rightarrow> string \<Rightarrow> int \<Rightarrow> ('w, json) prog" where
  "gh_issue X repo n =
     gh_json X [''issue'', ''view'', str_int n, ''--repo'', repo, ''--json'', issue_fields]"

text \<open>A named temporary file holding a text for the command.\<close>

definition temp_file :: "'w os \<Rightarrow> string \<Rightarrow> ('w, string) prog" where
  "temp_file X body =
     doing (uuid_hex X) (\<lambda>u. let f = ''/tmp/tmp'' @ u in
       and_then (write_text X f body) (ret f))"

text \<open>\<open>int(url.rstrip('/').split('/')[-1])\<close>\<close>

definition url_number :: "string \<Rightarrow> ('w, int) prog" where
  "url_number url = parse_int (last (split_on CHR ''/'' (rstrip_if (\<lambda>c. c = CHR ''/'') url)))"

definition label_args :: "string \<Rightarrow> string list \<Rightarrow> string list" where
  "label_args option labels = concat (map (\<lambda>l. [option, l]) labels)"

definition issue_marker :: "string \<Rightarrow> string" where
  "issue_marker key = ''<!-- dcs-agent-key:'' @ key @ '' -->''"

definition new_issue :: "'w os \<Rightarrow> string \<Rightarrow> string \<Rightarrow> string \<Rightarrow> string list \<Rightarrow> ('w, int) prog" where
  "new_issue X repo title body labels =
     doing (temp_file X body) (\<lambda>f.
     doing (gh_text X ([''issue'', ''create'', ''--repo'', repo, ''--title'', title, ''--body-file'', f]
                       @ label_args ''--label'' labels)) url_number)"

definition create_issue ::
  "'w os \<Rightarrow> string \<Rightarrow> string \<Rightarrow> string \<Rightarrow> string list \<Rightarrow> string option \<Rightarrow> ('w, int) prog" where
  "create_issue X repo title body labels key =
     (case key of
        None \<Rightarrow> new_issue X repo title body labels
      | Some k \<Rightarrow>
          (if k = [] then new_issue X repo title body labels
           else doing (gh_issues X repo ''all'') (\<lambda>rows.
             case List.find (\<lambda>i. in_text (issue_marker k) (body_of (issue_of_json i))) rows of
               Some i \<Rightarrow> ret (i_number (issue_of_json i))
             | None \<Rightarrow> new_issue X repo title (body @ [newline, newline] @ issue_marker k) labels)))"

definition update_issue ::
  "'w os \<Rightarrow> string \<Rightarrow> int \<Rightarrow> string option \<Rightarrow> string option \<Rightarrow> string list \<Rightarrow> string list
     \<Rightarrow> ('w, string) prog" where
  "update_issue X repo n title body add_labels remove_labels =
     (let args = [''issue'', ''edit'', str_int n, ''--repo'', repo]
            @ (case title of None \<Rightarrow> [] | Some t \<Rightarrow> [''--title'', t])
            @ label_args ''--add-label'' add_labels @ label_args ''--remove-label'' remove_labels
      in case body of
           None \<Rightarrow> gh_text X args
         | Some b \<Rightarrow> doing (temp_file X b) (\<lambda>f. gh_text X (args @ [''--body-file'', f])))"

definition comment :: "'w os \<Rightarrow> string \<Rightarrow> int \<Rightarrow> string \<Rightarrow> ('w, string) prog" where
  "comment X repo n body =
     doing (temp_file X body) (\<lambda>f.
       gh_text X [''issue'', ''comment'', str_int n, ''--repo'', repo, ''--body-file'', f])"

subsection \<open>Pull requests\<close>

definition pr_fields :: string where
  "pr_fields = ''number,headRefName,headRefOid,baseRefName,state,url''"

definition gh_prs :: "'w os \<Rightarrow> string \<Rightarrow> ('w, json) prog" where
  "gh_prs X repo =
     gh_json X [''pr'', ''list'', ''--repo'', repo, ''--state'', ''open'', ''--limit'', ''1000'',
                ''--json'', pr_fields]"

definition find_pr :: "'w os \<Rightarrow> string \<Rightarrow> string \<Rightarrow> ('w, json option) prog" where
  "find_pr X repo branch =
     doing (gh_json X [''pr'', ''list'', ''--repo'', repo, ''--head'', branch, ''--state'', ''all'',
                       ''--limit'', ''100'', ''--json'', pr_fields]) (\<lambda>rows.
       case filter (\<lambda>r. jget r ''headRefName'' = Some (JStr branch)) (items_of rows) of
         [] \<Rightarrow> ret None
       | [r] \<Rightarrow> ret (Some r)
       | _ \<Rightarrow> raise (GitHubError (''Multiple PRs for branch '' @ branch)))"

definition create_pr :: "'w os \<Rightarrow> string \<Rightarrow> string \<Rightarrow> string \<Rightarrow> string \<Rightarrow> ('w, int) prog" where
  "create_pr X repo branch title body =
     doing (find_pr X repo branch) (\<lambda>existing. case existing of
       Some r \<Rightarrow> doing (of_res (jitem r ''number'')) (\<lambda>n. ret (int_of n))
     | None \<Rightarrow> doing (temp_file X body) (\<lambda>f.
         doing (gh_text X [''pr'', ''create'', ''--repo'', repo, ''--base'', ''main'', ''--head'', branch,
                           ''--title'', title, ''--body-file'', f]) url_number))"

definition repo_path :: "string \<Rightarrow> string \<Rightarrow> string" where
  "repo_path repo rest = ''repos/'' @ repo @ ''/'' @ rest"

definition gh_pr :: "'w os \<Rightarrow> string \<Rightarrow> int \<Rightarrow> ('w, json) prog" where
  "gh_pr X repo n = api X (repo_path repo (''pulls/'' @ str_int n))"

definition main_sha :: "'w os \<Rightarrow> string \<Rightarrow> ('w, string) prog" where
  "main_sha X repo =
     doing (api X (repo_path repo ''git/ref/heads/main'')) (\<lambda>j.
     doing (of_res (jpath j [''object'', ''sha''])) (\<lambda>v. ret (str_of v)))"

definition includes_main :: "'w os \<Rightarrow> string \<Rightarrow> string \<Rightarrow> string \<Rightarrow> ('w, bool) prog" where
  "includes_main X repo head base =
     doing (api X (repo_path repo (''compare/'' @ base @ ''...'' @ head))) (\<lambda>c. ret
       (jget_or c ''status'' JNull \<in> {JStr ''ahead'', JStr ''identical''}
        \<and> jget_or (jget_or c ''merge_base_commit'' (JObj [])) ''sha'' JNull = JStr base))"

subsection \<open>Check runs\<close>

text \<open>
  The pages \<open>gh api --paginate\<close> prints one after another, read by \<open>raw_decode\<close>. Every page takes
  at least one character, so the length of the text is fuel enough.
\<close>

fun decode_pages :: "nat \<Rightarrow> string \<Rightarrow> json list option" where
  "decode_pages n raw =
     (if lstrip raw = [] then Some []
      else case n of 0 \<Rightarrow> None
      | Suc m \<Rightarrow>
          (case pval (Suc (length (lstrip raw))) (lstrip raw) of
             None \<Rightarrow> None
           | Some (page, rest) \<Rightarrow> map_option (\<lambda>ps. page # ps) (decode_pages m rest)))"

declare decode_pages.simps [simp del]

definition check_run_state :: "json \<Rightarrow> json" where
  "check_run_state c =
     (if jget c ''status'' = Some (JStr ''completed'') then jget_or c ''conclusion'' JNull
      else JStr ''pending'')"

definition note_check :: "string \<Rightarrow> json \<Rightarrow> (string \<times> json) list \<Rightarrow> (string \<times> json) list" where
  "note_check sha c states =
     (if jget c ''head_sha'' \<noteq> Some (JStr sha) then states
      else AList.update (fstr ''name'' c) (check_run_state c) states)"

definition states_of_pages :: "string \<Rightarrow> json list \<Rightarrow> (string \<times> json) list" where
  "states_of_pages sha pages =
     fold (note_check sha)
       (sort_key (\<lambda>c. int_of (jget_or c ''id'' JNull))
         (concat (map (\<lambda>p. items_of (jget_or p ''check_runs'' (JList []))) pages))) []"

definition check_states :: "'w os \<Rightarrow> string \<Rightarrow> string \<Rightarrow> ('w, (string \<times> json) list) prog" where
  "check_states X repo sha =
     doing (gh_text X [''api'', ''--paginate'',
              repo_path repo (''commits/'' @ sha @ ''/check-runs?per_page=100'')]) (\<lambda>raw.
       case decode_pages (length raw) raw of
         None \<Rightarrow> raise (ValueError ''Expecting value'')
       | Some pages \<Rightarrow> ret (states_of_pages sha pages))"

definition all_success :: "string list \<Rightarrow> (string \<times> json) list \<Rightarrow> bool" where
  "all_success required states \<longleftrightarrow>
     required \<noteq> [] \<and> list_all (\<lambda>n. map_of states n = Some (JStr ''success'')) required"

definition checks_pass :: "'w os \<Rightarrow> string \<Rightarrow> json \<Rightarrow> string list \<Rightarrow> ('w, bool) prog" where
  "checks_pass X repo pr required =
     doing (of_res (if is_obj pr then jpath pr [''head'', ''sha''] else Inr pr)) (\<lambda>sha.
     doing (check_states X repo (str_of sha)) (\<lambda>states. ret (all_success required states)))"

subsection \<open>Merging\<close>

definition mergeable :: "json \<Rightarrow> ('w, bool) prog" where
  "mergeable pr =
     (if jget_or pr ''state'' JNull \<noteq> JStr ''open'' \<or> truthy (jget_or pr ''draft'' JNull) then ret False
      else doing (of_res (jpath pr [''base'', ''ref''])) (\<lambda>r. ret (r = JStr ''main'')))"

definition unchanged :: "'w os \<Rightarrow> string \<Rightarrow> string \<Rightarrow> string \<Rightarrow> json \<Rightarrow> ('w, bool) prog" where
  "unchanged X repo head base current =
     doing (of_res (jpath current [''head'', ''sha''])) (\<lambda>h.
       if h \<noteq> JStr head then ret False
       else doing (main_sha X repo) (\<lambda>m. ret (m = base \<and> jget_or current ''state'' JNull = JStr ''open'')))"

definition submit_merge :: "'w os \<Rightarrow> string \<Rightarrow> int \<Rightarrow> string \<Rightarrow> ('w, bool) prog" where
  "submit_merge X repo n head =
     doing (gh_text X [''pr'', ''merge'', str_int n, ''--repo'', repo, ''--squash'',
                       ''--match-head-commit'', head]) (\<lambda>_.
     doing (gh_pr X repo n) (\<lambda>p. ret (truthy (jget_or p ''merged'' JNull))))"

definition merge_checked ::
  "'w os \<Rightarrow> string \<Rightarrow> int \<Rightarrow> string list \<Rightarrow> json \<Rightarrow> string \<Rightarrow> string \<Rightarrow> ('w, bool) prog" where
  "merge_checked X repo n required first head base =
     doing (includes_main X repo head base) (\<lambda>inc.
       if \<not> inc then ret False
       else doing (checks_pass X repo first required) (\<lambda>ok.
         if \<not> ok then ret False
         else doing (gh_pr X repo n) (\<lambda>current.
           doing (unchanged X repo head base current) (\<lambda>same.
             if \<not> same then ret False else submit_merge X repo n head))))"

definition merge :: "'w os \<Rightarrow> string \<Rightarrow> int \<Rightarrow> string list \<Rightarrow> ('w, bool) prog" where
  "merge X repo n required =
     doing (gh_pr X repo n) (\<lambda>first.
       if truthy (jget_or first ''merged'' JNull) then ret True
       else doing (mergeable first) (\<lambda>ok.
         if \<not> ok then ret False
         else doing (of_res (jpath first [''head'', ''sha''])) (\<lambda>h.
           doing (main_sha X repo) (\<lambda>base.
             merge_checked X repo n required first (str_of h) base))))"

subsection \<open>The merge fails closed\<close>

text \<open>
  A property of the world that only the merge command can break. It is kept by every command of
  \<open>merge\<close> before the submission.
\<close>

definition is_merge_command :: "string list \<Rightarrow> bool" where
  "is_merge_command args \<longleftrightarrow> prefix [''gh'', ''pr'', ''merge''] args"

definition only_merge_breaks :: "'w os \<Rightarrow> ('w \<Rightarrow> bool) \<Rightarrow> bool" where
  "only_merge_breaks X P \<longleftrightarrow>
     (\<forall>cwd args. \<not> is_merge_command args \<longrightarrow> keeps P (exec X cwd args))"

lemma keeps_gh_run:
  "only_merge_breaks X P \<Longrightarrow> \<not> is_merge_command (''gh'' # args) \<Longrightarrow> keeps P (gh_run X args)"
  unfolding gh_run_def only_merge_breaks_def by (intro keeps_intros) blast

lemma keeps_api: "only_merge_breaks X P \<Longrightarrow> keeps P (api X e)"
  unfolding api_def gh_json_def
  by (intro keeps_intros keeps_gh_run) (auto simp: is_merge_command_def)

lemma keeps_gh_pr: "only_merge_breaks X P \<Longrightarrow> keeps P (gh_pr X repo n)"
  unfolding gh_pr_def by (rule keeps_api)

lemma keeps_main_sha: "only_merge_breaks X P \<Longrightarrow> keeps P (main_sha X repo)"
  unfolding main_sha_def by (intro keeps_intros keeps_api)

lemma keeps_includes_main: "only_merge_breaks X P \<Longrightarrow> keeps P (includes_main X repo h b)"
  unfolding includes_main_def by (intro keeps_intros keeps_api)

lemma keeps_check_states: "only_merge_breaks X P \<Longrightarrow> keeps P (check_states X repo sha)"
  unfolding check_states_def gh_text_def
  by (intro keeps_intros keeps_gh_run) (auto simp: is_merge_command_def)

lemma keeps_checks_pass: "only_merge_breaks X P \<Longrightarrow> keeps P (checks_pass X repo pr required)"
  unfolding checks_pass_def by (intro keeps_intros keeps_check_states)

lemma keeps_unchanged: "only_merge_breaks X P \<Longrightarrow> keeps P (unchanged X repo h b c)"
  unfolding unchanged_def by (intro keeps_intros keeps_main_sha)

lemma keeps_mergeable: "keeps P (mergeable pr)"
  unfolding mergeable_def by (intro keeps_intros)

lemmas keeps_github = keeps_gh_pr keeps_main_sha keeps_includes_main keeps_checks_pass
  keeps_unchanged

text \<open>What \<open>merge\<close> has seen before it submits: the head's checks, and the base inside the head.\<close>

definition seen_green :: "'w os \<Rightarrow> string \<Rightarrow> string list \<Rightarrow> string \<Rightarrow> bool" where
  "seen_green X repo required head \<longleftrightarrow>
     (\<exists>w w' states. check_states X repo head w = (Inr states, w') \<and> all_success required states)"

definition seen_current :: "'w os \<Rightarrow> string \<Rightarrow> string \<Rightarrow> bool" where
  "seen_current X repo head \<longleftrightarrow>
     (\<exists>base w1 w1' w2 w2' w3 w3' n pr.
        includes_main X repo head base w1 = (Inr True, w1') \<and> gh_pr X repo n w2 = (Inr pr, w2')
        \<and> unchanged X repo head base pr w3 = (Inr True, w3'))"

lemma doing_Inr:
  assumes "doing m f s = (Inr y, s')"
  obtains x t where "m s = (Inr x, t)" and "f x t = (Inr y, s')"
  using assms by (auto simp: doing_def split: prod.splits sum.splits)

lemma jpath_is_obj: "jpath j (k # ks) = Inr v \<Longrightarrow> is_obj j"
proof -
  have "fold (\<lambda>k r. res_bind r (\<lambda>v. jitem v k)) ks (Inl e) = Inl e" for ks e
    by (induction ks) simp_all
  then show "jpath j (k # ks) = Inr v \<Longrightarrow> is_obj j"
    by (cases j) (auto simp: jpath_def jitem_def)
qed

lemma checks_pass_True:
  assumes "checks_pass X repo pr required w = (Inr True, w')"
    and "jpath pr [''head'', ''sha''] = Inr h"
  shows "seen_green X repo required (str_of h)"
proof -
  have "doing (check_states X repo (str_of h)) (\<lambda>states. ret (all_success required states)) w
      = (Inr True, w')"
    using assms jpath_is_obj [OF assms(2)] by (simp add: checks_pass_def doing_def)
  then obtain states t where "check_states X repo (str_of h) w = (Inr states, t)"
    and "all_success required states"
    by (auto elim!: doing_Inr)
  then show ?thesis unfolding seen_green_def by blast
qed

text \<open>
  C7: a merge is submitted only after the pull request's head was seen to contain the current
  main, every required check of that head was seen to have succeeded, and the head and main were
  read again unchanged: whatever only the merge command could break is unbroken otherwise, also
  when a command fails midway.
\<close>

theorem merge_fails_closed:
  assumes "only_merge_breaks X P" and "P w" and "\<not> P (snd (merge X repo n required w))"
  shows "\<exists>head. seen_green X repo required head \<and> seen_current X repo head"
proof (rule ccontr)
  assume none: "\<not> ?thesis"
  note quiet = keeps_github [OF assms(1)]
  have submit: "keeps P (merge_checked X repo n required first (str_of h) base)"
    if h: "jpath first [''head'', ''sha''] = Inr h" for first h base
  proof -
    have "keeps P (doing (unchanged X repo (str_of h) base current)
        (\<lambda>same. if \<not> same then ret False else submit_merge X repo n (str_of h)))"
      if inc: "includes_main X repo (str_of h) base w1 = (Inr True, w1')"
        and ok: "checks_pass X repo first required w2 = (Inr True, w2')"
        and cur: "gh_pr X repo n w3 = (Inr current, w3')" for current w1 w1' w2 w2' w3 w3'
    proof (rule keeps_doing_known [OF quiet(5)])
      fix same w4 w4'
      assume same_read: "unchanged X repo (str_of h) base current w4 = (Inr same, w4')"
      have "\<not> same"
      proof
        assume same
        then have "unchanged X repo (str_of h) base current w4 = (Inr True, w4')"
          using same_read by simp
        with inc cur have "seen_current X repo (str_of h)"
          unfolding seen_current_def by blast
        with none checks_pass_True [OF ok h] show False by blast
      qed
      then show "keeps P (if \<not> same then ret False else submit_merge X repo n (str_of h))"
        by (simp add: keeps_basic)
    qed
    then show ?thesis
      unfolding merge_checked_def
      by (intro keeps_doing_known [OF quiet(3)] keeps_if keeps_basic
          keeps_doing_known [OF quiet(4)] keeps_doing_known [OF quiet(1)]) auto
  qed
  have "keeps P (merge X repo n required)"
    unfolding merge_def
    by (intro keeps_doing_known [OF quiet(1)] keeps_if keeps_basic keeps_doing_known [OF keeps_mergeable]
        keeps_doing_known [OF keeps_basic(3)] keeps_doing_known [OF quiet(2)] submit) simp
  then show False using assms(2,3) by (simp add: keeps_def)
qed

subsection \<open>A concrete GitHub\<close>

text \<open>A scripted \<open>gh\<close> whose world is the log of the commands it was given.\<close>

definition demo_reply :: "string list \<Rightarrow> string" where
  "demo_reply args =
     (let j = (\<lambda>kvs. dumps (\<lambda>_. []) (JObj kvs)); e = args ! 2 in
      if is_merge_command args then []
      else if ends_with ''pulls/7'' e then
        j [(''state'', JStr ''open''), (''head'', JObj [(''sha'', JStr ''h'')]),
           (''base'', JObj [(''ref'', JStr ''main'')])]
      else if ends_with ''heads/main'' e then j [(''object'', JObj [(''sha'', JStr ''b'')])]
      else if ends_with ''b...h'' e then
        j [(''status'', JStr ''ahead''), (''merge_base_commit'', JObj [(''sha'', JStr ''b'')])]
      else j [(''check_runs'', JList [JObj [(''id'', JInt 1), (''head_sha'', JStr ''h''),
              (''name'', JStr ''ci''), (''status'', JStr ''completed''),
              (''conclusion'', JStr ''success'')]])])"

definition demo_gh :: "string list list os" where
  "demo_gh =
     \<lparr>clock = (\<lambda>_. 0), exec = (\<lambda>_ args w. (Inr \<lparr>returncode = 0, stdout = demo_reply args, stderr = []\<rparr>, w @ [args])),
      popen = (\<lambda>_ w. (Inr 1, w)), kill = (\<lambda>_ _ w. (Inr (), w)), exists_path = (\<lambda>_ _. False),
      is_file = (\<lambda>_ _. False), is_dir = (\<lambda>_ _. False), resolve = (\<lambda>p _. p),
      listdir = (\<lambda>_ _. Inr []), read_text = (\<lambda>p _. Inl (FileNotFoundError p)),
      write_text = (\<lambda>_ _ w. (Inr (), w)), mkdir = (\<lambda>_ w. (Inr (), w)),
      rename = (\<lambda>_ _ w. (Inr (), w)), sleep = (\<lambda>_ w. (Inr (), w)), uuid_hex = (\<lambda>w. (Inr [], w)),
      jitter = (\<lambda>_ _. 0), float_text = (\<lambda>_. []), session_row = (\<lambda>_ _. None)\<rparr>"

definition no_merge_sent :: "string list list \<Rightarrow> bool" where
  "no_merge_sent sent \<longleftrightarrow> list_all (\<lambda>args. \<not> is_merge_command args) sent"

lemma demo_gh_only_merge: "only_merge_breaks demo_gh no_merge_sent"
  by (simp add: only_merge_breaks_def keeps_def demo_gh_def no_merge_sent_def)

lemma demo_gh_merges: "\<not> no_merge_sent (snd (merge demo_gh ''o/r'' 7 [''ci''] []))"
  by code_simp

lemma merge_fails_closed_witness:
  "no_merge_sent [] \<and> \<not> no_merge_sent (snd (merge demo_gh ''o/r'' 7 [''ci''] []))
   \<and> (\<exists>head. seen_green demo_gh ''o/r'' [''ci''] head \<and> seen_current demo_gh ''o/r'' head)"
proof -
  have start: "no_merge_sent []" by (simp add: no_merge_sent_def)
  show ?thesis
    using merge_fails_closed [OF demo_gh_only_merge start demo_gh_merges] start demo_gh_merges
    by blast
qed

end
