(* ===== verification/Runtime.thy ===== *)
theory Runtime
  imports GitHub "HOL-Library.Multiset"
begin

text \<open>
  agent_pool/runtime.py: managed checkouts, durable invocation records, the snapshot of a process
  tree and the runner's watchdog. Files, git and processes are calls of the operating system
  (\<open>os\<close>); reaping the children the supervisor itself started has no effect on what is modelled.
\<close>

record runtime =
  pool_root :: string
  state_root :: string
  rt_repository :: string
  rt_timeout :: time
  launch_spacing :: time

definition rt_stall_seconds :: int where "rt_stall_seconds = 1200"
definition rt_error_stall_seconds :: int where "rt_error_stall_seconds = 180"

subsection \<open>Processes\<close>

text \<open>The part after the last closing parenthesis and a blank; \<open>rfind\<close> gives -1 without one.\<close>

definition after_comm :: "string \<Rightarrow> string" where
  "after_comm stat =
     (let r = takeWhile (\<lambda>c. c \<noteq> CHR '')'') (rev stat) in
      if CHR '')'' \<in> set stat then drop 1 (rev r) else drop 1 stat)"

definition nth_field :: "string list \<Rightarrow> nat \<Rightarrow> string res" where
  "nth_field parts n =
     (if n < length parts then Inr (parts ! n) else Inl (OtherError ''list index out of range''))"

definition proc_stat :: "int \<Rightarrow> string" where
  "proc_stat pid = ''/proc/'' @ str_int pid @ ''/stat''"

definition process_identity :: "'w os \<Rightarrow> int \<Rightarrow> ('w, string option) prog" where
  "process_identity X pid =
     except_if (\<lambda>e. case e of FileNotFoundError _ \<Rightarrow> True | _ \<Rightarrow> False)
       (doing (look (read_text X (proc_stat pid))) (\<lambda>stat.
        doing (of_res (nth_field (words (after_comm stat)) 0)) (\<lambda>st.
          if st = ''Z'' then ret None
          else doing (look (read_text X ''/proc/sys/kernel/random/boot_id'')) (\<lambda>boot.
            doing (of_res (nth_field (words (after_comm stat)) 19)) (\<lambda>start.
              ret (Some (strip boot @ '':'' @ start)))))))
       (\<lambda>_. ret None)"

definition pid_of :: "json \<Rightarrow> ('w, int) prog" where
  "pid_of m = doing (of_res (jitem m ''pid'')) (\<lambda>v. ret (int_of v))"

definition is_alive :: "'w os \<Rightarrow> json \<Rightarrow> ('w, bool) prog" where
  "is_alive X m =
     (if \<not> truthy (jget_or m ''identity'' JNull) then ret False
      else doing (pid_of m) (\<lambda>pid.
        doing (process_identity X pid) (\<lambda>id.
          ret (map_option JStr id = Some (jget_or m ''identity'' JNull)))))"

subsection \<open>Git and checkouts\<close>

definition run_git :: "'w os \<Rightarrow> string \<Rightarrow> string list \<Rightarrow> ('w, string) prog" where
  "run_git X cwd args =
     doing (exec X None (''git'' # ''-C'' # cwd # args)) (\<lambda>r.
       if returncode r \<noteq> 0
       then raise (CalledProcessError
              (''Command git '' @ join '' '' args @ '' returned non-zero exit status ''
               @ str_int (returncode r) @ ''.'') (stdout r) (stderr r))
       else ret (strip (stdout r)))"

definition managed_name :: "string \<Rightarrow> bool" where
  "managed_name s \<longleftrightarrow>
     s \<noteq> [] \<and> list_all (\<lambda>c. is_lower_az c \<or> is_upper_az c \<or> is_dig c \<or> c \<in> set ''_-'') s"

definition required_owner_keys :: "string list" where
  "required_owner_keys = [''pid'', ''identity'', ''receipt'', ''invocation'', ''cwd'']"

definition recover_one :: "'w os \<Rightarrow> string \<Rightarrow> json list \<Rightarrow> ('w, json list) prog" where
  "recover_one X path records =
     doing (load_json X path) (\<lambda>record.
       if \<not> is_obj record then raise (AttributeError ''keys'')
       else if \<not> list_all (\<lambda>k. k \<in> keys_of record) required_owner_keys
       then raise (RuntimeError (''Incomplete process owner record: '' @ path))
       else doing (ask (resolve X (fstr ''invocation'' record))) (\<lambda>a.
         doing (ask (resolve X (parent_dir path))) (\<lambda>b.
           if a \<noteq> b then raise (RuntimeError (''Inconsistent process owner record: '' @ path))
           else ret (records @ [record]))))"

definition owner_files :: "'w os \<Rightarrow> runtime \<Rightarrow> ('w, string list) prog" where
  "owner_files X rt =
     doing (look (listdir X (state_root rt))) (\<lambda>names.
     ask (\<lambda>w. filter (\<lambda>f. exists_path X f w)
       (map (\<lambda>n. slash (slash (state_root rt) n) ''owner.json'') (sort names))))"

definition recover :: "'w os \<Rightarrow> runtime \<Rightarrow> string list \<Rightarrow> ('w, json list) prog" where
  "recover X rt known_invocations =
     doing (ask (\<lambda>w. map (\<lambda>p. resolve X p w) known_invocations)) (\<lambda>known.
     doing (owner_files X rt) (\<lambda>files.
     fold_prog (\<lambda>path records.
       doing (ask (resolve X (parent_dir path))) (\<lambda>dir.
         if dir \<in> set known then ret records else recover_one X path records)) files []))"

definition metadata_path :: "json \<Rightarrow> string" where
  "metadata_path m = str_of (jget_or m ''metadata'' (JStr ''/nonexistent''))"

definition child_alive :: "'w os \<Rightarrow> json \<Rightarrow> ('w, bool) prog" where
  "child_alive X m =
     doing (ask (is_file X (metadata_path m))) (\<lambda>there.
       if \<not> there then ret False
       else doing (load_json X (metadata_path m)) (is_alive X))"

definition lost_receipt :: json where
  "lost_receipt =
     JObj [(''status'', JStr ''lost''), (''exit_code'', JNull),
           (''error'', JStr ''Runner disappeared without a completion receipt; inspect preserved work'')]"

definition poll :: "'w os \<Rightarrow> json \<Rightarrow> ('w, json option) prog" where
  "poll X m =
     doing (pid_of m) (\<lambda>_.
     doing (of_res (jitem m ''receipt'')) (\<lambda>receipt.
     doing (ask (exists_path X (str_of receipt))) (\<lambda>there.
       if there then doing (load_json X (str_of receipt)) (\<lambda>j. ret (Some j))
       else doing (is_alive X m) (\<lambda>alive.
         ret (if alive then None else Some lost_receipt)))))"

definition owns :: "'w os \<Rightarrow> json \<Rightarrow> ('w, bool) prog" where
  "owns X record =
     doing (poll X record) (\<lambda>receipt.
       if receipt = None then ret True else child_alive X record)"

definition clone_owned :: "'w os \<Rightarrow> runtime \<Rightarrow> string \<Rightarrow> ('w, bool) prog" where
  "clone_owned X rt path =
     doing (ask (resolve X path)) (\<lambda>target.
     doing (recover X rt []) (\<lambda>records.
     for_until (\<lambda>record.
       if jget record ''cwd'' = Some (JStr target) then owns X record else ret False) records))"

definition clone_source :: "runtime \<Rightarrow> string" where
  "clone_source rt =
     (let s = rt_repository rt in
      if list_ex (\<lambda>p. starts_with p s) [''/'', ''https://'', ''git@'', ''file://''] then s
      else ''https://github.com/'' @ s @ ''.git'')"

definition checked_exec :: "'w os \<Rightarrow> string list \<Rightarrow> ('w, string) prog" where
  "checked_exec X argv =
     doing (exec X None argv) (\<lambda>r.
       if returncode r \<noteq> 0
       then raise (CalledProcessError (''Command '' @ join '' '' argv @ '' failed'') (stdout r) (stderr r))
       else ret (stdout r))"

definition quarantine :: "'w os \<Rightarrow> runtime \<Rightarrow> string \<Rightarrow> string \<Rightarrow> ('w, unit) prog" where
  "quarantine X rt clone name =
     doing (run_git X clone [''status'', ''--porcelain'']) (\<lambda>dirty.
       only_if (dirty \<noteq> [])
         (doing (uuid_hex X) (\<lambda>u.
            rename X clone (slash (pool_root rt) (name @ ''-quarantine-'' @ u)))))"

definition prepare_clone :: "'w os \<Rightarrow> runtime \<Rightarrow> string \<Rightarrow> string option \<Rightarrow> ('w, string) prog" where
  "prepare_clone X rt name branch =
     (if \<not> managed_name name then raise (ValueError ''Invalid managed clone name'')
      else
        (let clone = slash (pool_root rt) name in
         doing (clone_owned X rt clone) (\<lambda>owned.
           if owned then raise (RuntimeError ''Cannot prepare a checkout owned by a live invocation'')
           else and_then
             (doing (ask (exists_path X clone)) (\<lambda>there. only_if there (quarantine X rt clone name)))
             (and_then
               (doing (ask (exists_path X clone)) (\<lambda>there. only_if (\<not> there)
                  (doing (checked_exec X [''git'', ''clone'', clone_source rt, clone]) (\<lambda>_. ret ()))))
               (doing (run_git X clone [''fetch'', ''origin'', ''main'']) (\<lambda>_.
                case branch of
                  Some b \<Rightarrow>
                    doing (run_git X clone [''check-ref-format'', ''--branch'', b]) (\<lambda>_.
                    doing (run_git X clone [''switch'', ''-c'', b, ''origin/main'']) (\<lambda>_. ret clone))
                | None \<Rightarrow>
                    doing (run_git X clone [''switch'', ''--detach'', ''origin/main'']) (\<lambda>_. ret clone)))))))"

definition inspect_result :: "'w os \<Rightarrow> string \<Rightarrow> string \<Rightarrow> ('w, bool \<times> bool) prog" where
  "inspect_result X cwd expected_branch =
     doing (run_git X cwd [''branch'', ''--show-current'']) (\<lambda>branch.
       if branch \<noteq> expected_branch then raise (ValueError ''Worker changed the assigned branch'')
       else doing (run_git X cwd [''rev-parse'', ''HEAD'']) (\<lambda>head.
         doing (run_git X cwd [''rev-parse'', ''origin/main'']) (\<lambda>base.
         doing (run_git X cwd [''diff'', ''--name-only'', ''origin/main...HEAD'']) (\<lambda>diff.
         doing (run_git X cwd [''status'', ''--porcelain'']) (\<lambda>status.
           ret (diff \<noteq> [], status = []))))))"

subsection \<open>Starting and stopping an invocation\<close>

text \<open>\<open>atomic_json\<close>: written beside the target and renamed over it.\<close>

definition atomic_json :: "'w os \<Rightarrow> string \<Rightarrow> json \<Rightarrow> ('w, unit) prog" where
  "atomic_json X path v =
     doing (uuid_hex X) (\<lambda>u. let tmp = path @ ''.tmp-'' @ u in
       and_then (write_text X tmp (dumps_now X v)) (rename X tmp path))"

definition is_opencode :: "string \<Rightarrow> bool" where
  "is_opencode model \<longleftrightarrow> starts_with ''opencode/'' model"

definition agent_command ::
  "string \<Rightarrow> string \<Rightarrow> string \<Rightarrow> string \<Rightarrow> string \<Rightarrow> string option \<Rightarrow> string list" where
  "agent_command model key cwd prompt_path invocation session =
     (if is_opencode model then
        [''opencode'', ''run'', ''--model'', model, ''--auto'', ''--print-logs'', ''--title'', key,
         ''--dir'', cwd]
        @ (case session of None \<Rightarrow> [] | Some t \<Rightarrow> if t = [] then [] else [''--session'', t])
      else
        [''devin'', ''-p'', ''--model'', model, ''--permission-mode'', ''dangerous'',
         ''--respect-workspace-trust'', ''false'', ''--prompt-file'', prompt_path, ''--export'',
         slash invocation ''conversation.json'']
        @ (case session of None \<Rightarrow> [] | Some t \<Rightarrow> if t = [] then [] else [''--resume'', t]))"

definition spec_of ::
  "runtime \<Rightarrow> string \<Rightarrow> string \<Rightarrow> string \<Rightarrow> string \<Rightarrow> string option \<Rightarrow> time option \<Rightarrow> string
     \<Rightarrow> (string \<times> json) list" where
  "spec_of rt key cwd invocation prompt_path session timeout model =
     [(''key'', JStr key),
      (''command'', JList (map JStr (agent_command model key cwd prompt_path invocation session))),
      (''cwd'', JStr cwd),
      (''timeout'', JFloat (case timeout of None \<Rightarrow> rt_timeout rt
                           | Some t \<Rightarrow> if t = 0 then rt_timeout rt else t)),
      (''stall_seconds'', if is_opencode model then JInt rt_stall_seconds else JNull),
      (''error_stall_seconds'', if is_opencode model then JInt rt_error_stall_seconds else JNull),
      (''stdin'', if is_opencode model then JStr prompt_path else JNull),
      (''receipt'', JStr (slash invocation ''receipt.json'')),
      (''log'', JStr (slash invocation ''output.log'')),
      (''metadata'', JStr (slash invocation ''process.json''))]"

text \<open>No two live invocations share a key or a checkout.\<close>

definition reject_owned :: "'w os \<Rightarrow> runtime \<Rightarrow> string \<Rightarrow> string \<Rightarrow> ('w, unit) prog" where
  "reject_owned X rt key cwd =
     doing (recover X rt []) (\<lambda>records.
     for_each (\<lambda>previous.
       only_if (jget previous ''key'' = Some (JStr key) \<or> jget previous ''cwd'' = Some (JStr cwd))
         (doing (owns X previous) (\<lambda>owned.
            only_if owned
              (raise (RuntimeError ''An invocation already owns this worker or checkout'')))))
       records)"

definition wait_spacing :: "'w os \<Rightarrow> runtime \<Rightarrow> ('w, unit) prog" where
  "wait_spacing X rt =
     (let path = slash (state_root rt) ''last-spawn.json'' in
      only_if (launch_spacing rt \<noteq> 0)
        (doing (ask (exists_path X path)) (\<lambda>there.
         doing (if there then load_json X path else ret (JInt 0)) (\<lambda>last.
         doing (ask (clock X)) (\<lambda>now.
           (let delay = min (launch_spacing rt)
                  (max 0 ((case num_of last of None \<Rightarrow> 0 | Some t \<Rightarrow> t) + launch_spacing rt - now))
            in only_if (delay \<noteq> 0) (sleep X delay)))))))"

definition under :: "string \<Rightarrow> string \<Rightarrow> bool" where
  "under base p \<longleftrightarrow> p = base \<or> starts_with (base @ ''/'') p"

definition start_runner ::
  "'w os \<Rightarrow> runtime \<Rightarrow> string \<Rightarrow> (string \<times> json) list \<Rightarrow> ('w, json) prog" where
  "start_runner X rt invocation spec =
     doing (popen X [''python'', ''runtime.py'', ''--runner'', slash invocation ''spec.json'']) (\<lambda>pid.
     doing (process_identity X pid) (\<lambda>id.
     doing (ask (clock X)) (\<lambda>now.
       (let m = JObj (spec @ [(''pid'', JInt pid),
                  (''identity'', case id of None \<Rightarrow> JNull | Some t \<Rightarrow> JStr t),
                  (''started_at'', JFloat now), (''invocation'', JStr invocation)])
        in and_then (atomic_json X (slash invocation ''owner.json'') m)
             (and_then (atomic_json X (slash (state_root rt) ''last-spawn.json'') (JFloat now))
               (ret m))))))"

definition spawn ::
  "'w os \<Rightarrow> runtime \<Rightarrow> string \<Rightarrow> string \<Rightarrow> string \<Rightarrow> string option \<Rightarrow> time option \<Rightarrow> string
     \<Rightarrow> ('w, json) prog" where
  "spawn X rt key cwd0 prompt session timeout model =
     (if \<not> managed_name key then raise (ValueError ''Invalid invocation key'')
      else doing (ask (resolve X cwd0)) (\<lambda>cwd.
        if \<not> under (pool_root rt) cwd
        then raise (ValueError ''Agent directory must be a managed checkout'')
        else and_then (reject_owned X rt key cwd)
          (doing (uuid_hex X) (\<lambda>u.
             (let invocation = slash (state_root rt) (key @ ''-'' @ u);
                  prompt_path = slash invocation ''prompt.txt'';
                  spec = spec_of rt key cwd invocation prompt_path session timeout model
              in and_then (mkdir X invocation)
                 (and_then (write_text X prompt_path prompt)
                 (and_then (atomic_json X (slash invocation ''spec.json'') (JObj spec))
                 (and_then (wait_spacing X rt) (start_runner X rt invocation spec)))))))))"

definition terminate :: "'w os \<Rightarrow> json \<Rightarrow> ('w, unit) prog" where
  "terminate X m =
     doing (is_alive X m) (\<lambda>alive.
       if alive then doing (pid_of m) (kill X False)
       else doing (ask (is_file X (metadata_path m))) (\<lambda>there.
         only_if there
           (doing (load_json X (metadata_path m)) (\<lambda>child.
            doing (is_alive X child) (\<lambda>up.
              only_if up (doing (pid_of child) (kill X True)))))))"

text \<open>The agent's own session of an invocation: devin's list by directory and time, or the row
  of opencode's database with the key as its title.\<close>

definition devin_session :: "'w os \<Rightarrow> string \<Rightarrow> int option \<Rightarrow> json \<Rightarrow> ('w, json option) prog" where
  "devin_session X directory since sessions =
     (if \<not> is_list sessions then raise (ValueError ''Unexpected Devin session list'')
      else ask (\<lambda>w.
        latest_by (\<lambda>s. case num_of (jget_or s ''last_activity_at'' JNull) of None \<Rightarrow> 0 | Some t \<Rightarrow> t)
          (filter (\<lambda>s. is_obj s \<and> is_str (jget_or s ''id'' JNull)
              \<and> resolve X (str_of (jget_or s ''working_directory'' (JStr []))) w = directory
              \<and> (case num_of (jget_or s ''last_activity_at'' JNull) of None \<Rightarrow> False
                 | Some t \<Rightarrow> (case since of None \<Rightarrow> True | Some n \<Rightarrow> of_int n \<le> t)))
            (items_of sessions))))"

definition session_id ::
  "'w os \<Rightarrow> string \<Rightarrow> time option \<Rightarrow> string \<Rightarrow> string option \<Rightarrow> ('w, string option) prog" where
  "session_id X cwd since model key =
     (if is_opencode model then
        (case key of None \<Rightarrow> ret None
         | Some k \<Rightarrow> if k = [] then ret None else ask (session_row X k))
      else doing (exec X (Some cwd) [''devin'', ''list'', ''--format'', ''json'']) (\<lambda>r.
        if returncode r \<noteq> 0
        then raise (CalledProcessError ''devin list failed'' (stdout r) (stderr r))
        else (case loads (stdout r) of
            None \<Rightarrow> raise (ValueError ''Expecting value'')
          | Some sessions \<Rightarrow>
              doing (ask (resolve X cwd)) (\<lambda>dir.
              doing (devin_session X dir (map_option (\<lambda>t. \<lfloor>t\<rfloor>) since) sessions) (\<lambda>best.
                ret (map_option (fstr ''id'') best))))))"

end
