(* ===== verification/PyRegex.thy ===== *)
theory PyRegex
  imports PyText
begin

text \<open>
  The subset of Python's \<open>re\<close> the sources use, as an executable backtracking matcher: a match
  returns every way to match in the engine's order of preference (greedy repeats first), and the
  engine takes the first. Positions are pairs of the reversed text before and the text after.
\<close>

datatype rx =
    Chr "char \<Rightarrow> bool"
  | Empty
  | Seq rx rx
  | Alt rx rx
  | Rep rx nat "nat option"
  | Grp nat rx
  | Bol
  | Eol
  | BolM
  | EolM
  | NotAhead rx
  | WordB

type_synonym mstate = "string \<times> string \<times> (nat \<times> string) list"

text \<open>
  Greedy repetition: try one more round first; beyond the required minimum a round that consumes
  nothing is not tried. The number of rounds is bounded by the text, which makes it structural.
\<close>

primrec iter :: "(mstate \<Rightarrow> mstate list) \<Rightarrow> nat \<Rightarrow> nat \<Rightarrow> mstate \<Rightarrow> mstate list" where
  "iter m 0 lo s = (if lo = 0 then [s] else [])"
| "iter m (Suc n) lo s =
     concat (map (iter m n (lo - 1))
       (filter (\<lambda>s'. 0 < lo \<or> length (fst (snd s')) < length (fst (snd s))) (m s)))
     @ (if lo = 0 then [s] else [])"

primrec rx_match :: "rx \<Rightarrow> mstate \<Rightarrow> mstate list" where
  "rx_match (Chr p) s =
     (case fst (snd s) of [] \<Rightarrow> []
      | c # cs \<Rightarrow> if p c then [(c # fst s, cs, snd (snd s))] else [])"
| "rx_match Empty s = [s]"
| "rx_match (Seq a b) s = concat (map (rx_match b) (rx_match a s))"
| "rx_match (Alt a b) s = rx_match a s @ rx_match b s"
| "rx_match (Rep a lo hi) s =
     iter (rx_match a) (case hi of None \<Rightarrow> lo + length (fst (snd s)) | Some h \<Rightarrow> h) lo s"
| "rx_match (Grp i a) s =
     map (\<lambda>s'. (fst s', fst (snd s'),
            (i, rev (take (length (fst s') - length (fst s)) (fst s'))) # snd (snd s')))
         (rx_match a s)"
| "rx_match Bol s = (if fst s = [] then [s] else [])"
| "rx_match Eol s = (if fst (snd s) = [] \<or> fst (snd s) = [newline] then [s] else [])"
| "rx_match BolM s = (if fst s = [] \<or> hd (fst s) = newline then [s] else [])"
| "rx_match EolM s = (if fst (snd s) = [] \<or> hd (fst (snd s)) = newline then [s] else [])"
| "rx_match (NotAhead a) s = (if rx_match a s = [] then [s] else [])"
| "rx_match WordB s =
     (if (fst s \<noteq> [] \<and> is_word (hd (fst s))) \<noteq> (fst (snd s) \<noteq> [] \<and> is_word (hd (fst (snd s)))) then [s] else [])"

type_synonym hit = "string \<times> (nat \<times> string) list \<times> string \<times> string"

text \<open>A hit: the matched text, the groups, the reversed text before it and the text after it.\<close>

definition hit_of :: "string \<Rightarrow> mstate \<Rightarrow> hit" where
  "hit_of pre s = (rev (take (length (fst s) - length pre) (fst s)), snd (snd s), pre, fst (snd s))"

definition re_match :: "rx \<Rightarrow> string \<Rightarrow> hit option" where
  "re_match r t = (case rx_match r ([], t, []) of [] \<Rightarrow> None | s # _ \<Rightarrow> Some (hit_of [] s))"

definition re_fullmatch :: "rx \<Rightarrow> string \<Rightarrow> bool" where
  "re_fullmatch r t \<longleftrightarrow> (\<exists>s \<in> set (rx_match r ([], t, [])). fst (snd s) = [])"

fun re_search_from :: "rx \<Rightarrow> string \<Rightarrow> string \<Rightarrow> hit option" where
  "re_search_from r pre rest =
     (case rx_match r (pre, rest, []) of
        s # _ \<Rightarrow> Some (hit_of pre s)
      | [] \<Rightarrow> (case rest of [] \<Rightarrow> None | c # cs \<Rightarrow> re_search_from r (c # pre) cs))"

declare re_search_from.simps [simp del]

definition re_search :: "rx \<Rightarrow> string \<Rightarrow> hit option" where
  "re_search r t = re_search_from r [] t"

text \<open>
  \<open>finditer\<close>: the non-overlapping hits from left to right. Every pattern it is used with consumes
  at least one character, so the length of the text bounds the number of hits.
\<close>

fun re_find_from :: "nat \<Rightarrow> rx \<Rightarrow> string \<Rightarrow> string \<Rightarrow> hit list" where
  "re_find_from 0 r pre rest = []"
| "re_find_from (Suc n) r pre rest =
     (case re_search_from r pre rest of
        None \<Rightarrow> []
      | Some h \<Rightarrow> h # re_find_from n r (rev (fst h) @ fst (snd (snd h))) (snd (snd (snd h))))"

definition re_finditer :: "rx \<Rightarrow> string \<Rightarrow> hit list" where
  "re_finditer r t = re_find_from (Suc (length t)) r [] t"

definition group :: "nat \<Rightarrow> hit \<Rightarrow> string option" where
  "group i h = map_of (fst (snd h)) i"

subsection \<open>Building patterns\<close>

definition lit :: "string \<Rightarrow> rx" where
  "lit s = foldr (\<lambda>c r. Seq (Chr (\<lambda>x. x = c)) r) s Empty"

definition seqs :: "rx list \<Rightarrow> rx" where
  "seqs rs = foldr Seq rs Empty"

definition alts :: "rx list \<Rightarrow> rx" where
  "alts rs = (case rs of [] \<Rightarrow> Chr (\<lambda>_. False) | r # rest \<Rightarrow> foldl Alt r rest)"

definition opt :: "rx \<Rightarrow> rx" where
  "opt r = Rep r 0 (Some 1)"

definition one_of :: "string \<Rightarrow> rx" where
  "one_of cs = Chr (\<lambda>c. c \<in> set cs)"

definition not_of :: "string \<Rightarrow> rx" where
  "not_of cs = Chr (\<lambda>c. c \<notin> set cs)"

definition spaces :: rx where "spaces = Rep (Chr is_space) 0 None"
definition spaces1 :: rx where "spaces1 = Rep (Chr is_space) 1 None"

subsection \<open>Classes of characters\<close>

text \<open>
  A bounded repeat of a class matches the prefixes of the longest run of the class, longest first;
  the anchored key patterns of the sources are decided by that.
\<close>

lemma rev_upt_Suc: "rev [0..<Suc (Suc k)] = map Suc (rev [0..<Suc k]) @ [0]"
proof -
  have "rev [0..<Suc (Suc k)] = rev (0 # map Suc [0..<Suc k])"
    by (simp only: map_Suc_upt upt_conv_Cons [of 0 "Suc (Suc k)"] zero_less_Suc)
  then show ?thesis by (simp only: rev.simps rev_map)
qed

lemma iter_class:
  "iter (rx_match (Chr p)) n 0 (pre, rest, caps)
     = map (\<lambda>k. (rev (take k rest) @ pre, drop k rest, caps))
         (rev [0..<Suc (min n (length (takeWhile p rest)))])"
proof (induction n arbitrary: pre rest)
  case 0
  then show ?case by simp
next
  case (Suc n)
  show ?case
  proof (cases rest)
    case Nil
    then show ?thesis by simp
  next
    case (Cons c cs)
    show ?thesis
    proof (cases "p c")
      case True
      have "min (Suc n) (length (takeWhile p rest)) = Suc (min n (length (takeWhile p cs)))"
        using True Cons by simp
      then show ?thesis
        using True Cons Suc.IH [of "c # pre" cs]
        by (simp only: rev_upt_Suc) (simp del: upt_Suc add: o_def)
    next
      case False
      with Cons show ?thesis by simp
    qed
  qed
qed

text \<open>The words over a class, with a first character of its own and an optional final newline.\<close>

definition class_word :: "(char \<Rightarrow> bool) \<Rightarrow> (char \<Rightarrow> bool) \<Rightarrow> nat \<Rightarrow> string \<Rightarrow> bool" where
  "class_word p q n t \<longleftrightarrow>
     (\<exists>c cs. (t = c # cs \<or> t = c # cs @ [newline]) \<and> p c \<and> list_all q cs \<and> length cs \<le> n)"

lemma re_match_None_iff: "re_match r t = None \<longleftrightarrow> rx_match r ([], t, []) = []"
  by (simp add: re_match_def split: list.split)

lemma takeWhile_drop_Nil_or:
  assumes "k \<le> length (takeWhile q rest)"
  shows "list_all q (take k rest)"
  using assms
  by (metis list_all_iff set_takeWhileD takeWhile_eq_take take_take min.absorb1 in_set_takeD)

lemma anchored_class_match:
  assumes nl: "\<not> q newline"
  shows "re_match (seqs [Bol, Chr p, Rep (Chr q) 0 (Some n), Eol]) t \<noteq> None
         \<longleftrightarrow> class_word p q n t"
proof (cases t)
  case Nil
  then show ?thesis by (simp add: re_match_def seqs_def class_word_def)
next
  case (Cons c cs)
  let ?m = "min n (length (takeWhile q cs))"
  have "re_match (seqs [Bol, Chr p, Rep (Chr q) 0 (Some n), Eol]) t \<noteq> None
        \<longleftrightarrow> p c \<and> (\<exists>k \<le> ?m. drop k cs = [] \<or> drop k cs = [newline])"
    unfolding re_match_None_iff
    using Cons
    by (auto simp: seqs_def iter_class less_Suc_eq_le Bex_def simp del: upt_Suc)
  also have "\<dots> \<longleftrightarrow> class_word p q n t"
  proof
    assume "p c \<and> (\<exists>k \<le> ?m. drop k cs = [] \<or> drop k cs = [newline])"
    then obtain k where k: "p c" "k \<le> ?m" "drop k cs = [] \<or> drop k cs = [newline]" by blast
    have all: "list_all q (take k cs)"
      using k(2) by (intro takeWhile_drop_Nil_or) simp
    have "cs = take k cs \<or> cs = take k cs @ [newline]"
      using k(3) by (metis append_Nil2 append_take_drop_id)
    with k(1,2) all Cons show "class_word p q n t"
      unfolding class_word_def
      by (intro exI [of _ c] exI [of _ "take k cs"]) auto
  next
    assume "class_word p q n t"
    then obtain ds where ds: "cs = ds \<or> cs = ds @ [newline]" "p c" "list_all q ds" "length ds \<le> n"
      using Cons by (auto simp: class_word_def)
    have "length ds \<le> length (takeWhile q cs)"
      using ds(1,3) takeWhile_eq_all_conv [of q ds]
      by (auto simp: takeWhile_append2 list_all_iff simp del: takeWhile_eq_all_conv)
    then have "length ds \<le> ?m" using ds(4) by simp
    moreover have "drop (length ds) cs = [] \<or> drop (length ds) cs = [newline]"
      using ds(1) by auto
    ultimately show "p c \<and> (\<exists>k \<le> ?m. drop k cs = [] \<or> drop k cs = [newline])"
      using ds(2) by blast
  qed
  finally show ?thesis .
qed

text \<open>Every way a repeat of a class can match: between its bounds, a prefix of the class's run.\<close>

lemma iter_class_mem:
  "s' \<in> set (iter (rx_match (Chr p)) n lo (pre, rest, caps)) \<longleftrightarrow>
     (\<exists>k. lo \<le> k \<and> k \<le> n \<and> k \<le> length (takeWhile p rest)
        \<and> s' = (rev (take k rest) @ pre, drop k rest, caps))"
proof (induction n arbitrary: lo pre rest)
  case 0
  then show ?case by auto
next
  case (Suc n)
  show ?case
  proof (cases "\<exists>c cs. rest = c # cs \<and> p c")
    case True
    then obtain c cs where c: "rest = c # cs" "p c" by blast
    have "s' \<in> set (iter (rx_match (Chr p)) (Suc n) lo (pre, rest, caps)) \<longleftrightarrow>
        s' \<in> set (iter (rx_match (Chr p)) n (lo - 1) (c # pre, cs, caps))
        \<or> (lo = 0 \<and> s' = (pre, rest, caps))"
      using c by auto
    also have "\<dots> \<longleftrightarrow> (\<exists>k. lo - 1 \<le> k \<and> k \<le> n \<and> k \<le> length (takeWhile p cs)
        \<and> s' = (rev (take k cs) @ c # pre, drop k cs, caps)) \<or> (lo = 0 \<and> s' = (pre, rest, caps))"
      unfolding Suc.IH by (rule refl)
    also have "\<dots> \<longleftrightarrow> (\<exists>k. lo \<le> k \<and> k \<le> Suc n \<and> k \<le> length (takeWhile p rest)
        \<and> s' = (rev (take k rest) @ pre, drop k rest, caps))" (is "?L \<or> ?Z \<longleftrightarrow> ?R")
    proof
      assume "?L \<or> ?Z"
      then show ?R
      proof
        assume ?L
        then obtain k where "lo - 1 \<le> k" "k \<le> n" "k \<le> length (takeWhile p cs)"
          "s' = (rev (take k cs) @ c # pre, drop k cs, caps)" by blast
        with c show ?R by (intro exI [of _ "Suc k"]) auto
      next
        assume ?Z
        with c show ?R by (intro exI [of _ 0]) auto
      qed
    next
      assume ?R
      then obtain k where k: "lo \<le> k" "k \<le> Suc n" "k \<le> length (takeWhile p rest)"
        "s' = (rev (take k rest) @ pre, drop k rest, caps)" by blast
      show "?L \<or> ?Z"
      proof (cases k)
        case 0
        with k show ?thesis by simp
      next
        case (Suc j)
        with k c have ?L by (intro exI [of _ j]) auto
        then show ?thesis ..
      qed
    qed
    finally show ?thesis .
  next
    case False
    then show ?thesis by (cases rest) auto
  qed
qed

end
