(* ===== verification/Planning.thy ===== *)
theory Planning
  imports Areas PyRegex SchedLanes
begin

text \<open>
  agent_pool/planning.py: validation of a planner proposal, its dependency order, the metadata
  comment of a published issue and the inventory handed to the planner. A proposal is the decoded
  JSON the planner wrote. The iteration order of a Python set decides only which field an error
  message names; the model uses the order of the set literal. The prose of the prompt is left out.
\<close>

subsection \<open>Keys\<close>

definition key_head :: "char \<Rightarrow> bool" where
  "key_head c \<longleftrightarrow> is_lower_az c \<or> is_dig c"

definition key_tail :: "char \<Rightarrow> bool" where
  "key_tail c \<longleftrightarrow> is_lower_az c \<or> is_dig c \<or> c = CHR ''-''"

definition key_rx :: "nat \<Rightarrow> rx" where
  "key_rx n = seqs [Bol, Chr key_head, Rep (Chr key_tail) 0 (Some n), Eol]"

definition key_ok :: "string \<Rightarrow> bool" where
  "key_ok k \<longleftrightarrow> re_match (key_rx 99) k \<noteq> None"

lemma key_ok_iff: "key_ok k \<longleftrightarrow> class_word key_head key_tail 99 k"
  unfolding key_ok_def key_rx_def
  by (rule anchored_class_match)
    (simp add: key_tail_def is_lower_az_def is_dig_def newline_def cp_def)

lemma key_tail_not_gt: "\<not> key_tail CHR ''>''" "\<not> key_head CHR ''>''"
  by (simp_all add: key_tail_def key_head_def is_lower_az_def is_dig_def cp_def)

lemma key_ok_no_gt: "key_ok k \<Longrightarrow> CHR ''>'' \<notin> set k"
  using key_tail_not_gt
  by (auto simp: key_ok_iff class_word_def list_all_iff newline_def)

subsection \<open>Dependency order\<close>

definition item_key :: "json \<Rightarrow> string" where
  "item_key item = str_of (jget_or item ''key'' JNull)"

text \<open>The dependencies of an item that are proposal keys.\<close>

definition str_deps :: "json \<Rightarrow> string list" where
  "str_deps item = map str_of (filter is_str (items_of (jget_or item ''dependencies'' JNull)))"

function order_from :: "json list \<Rightarrow> string list \<Rightarrow> json list option" where
  "order_from remaining resolved =
     (if remaining = [] then Some []
      else
        (let is_ready = (\<lambda>i. set (str_deps i) \<subseteq> set resolved);
             ready_now = filter is_ready remaining
         in if ready_now = [] then None
            else map_option ((@) ready_now)
                   (order_from (filter (\<lambda>i. \<not> is_ready i) remaining)
                               (resolved @ map item_key ready_now))))"
  by pat_completeness auto
termination
proof (relation "measure (\<lambda>(rem, _). length rem)", goal_cases)
  case (2 remaining resolved p ready_now)
  then obtain x where "x \<in> set remaining" "p x" by (auto simp: filter_empty_conv)
  then show ?case by (auto intro: length_filter_less)
qed simp

declare order_from.simps [simp del]

definition ordered_issues :: "json list \<Rightarrow> json list res" where
  "ordered_issues issues =
     (case order_from issues [] of
        None \<Rightarrow> Inl (ValueError ''Proposal dependencies contain a cycle'')
      | Some xs \<Rightarrow> Inr xs)"

subsection \<open>Validation\<close>

definition text_keys :: "string list" where
  "text_keys = [''key'', ''title'', ''scope'', ''acceptance'', ''tests'', ''milestone'', ''group'', ''area'']"

definition required_keys :: "string list" where
  "required_keys = text_keys @ [''dependencies'', ''priority'']"

definition blank_text :: "json \<Rightarrow> bool" where
  "blank_text j \<longleftrightarrow> \<not> is_str j \<or> blank (str_of j)"

text \<open>A list of tests is accepted in place of the string and joined.\<close>

definition join_tests :: "json \<Rightarrow> json" where
  "join_tests item =
     (let tests = jget_or item ''tests'' JNull in
      if is_list tests \<and> items_of tests \<noteq> [] \<and> list_all (\<lambda>t. \<not> blank_text t) (items_of tests)
      then jset ''tests'' (JStr (join [newline] (map (\<lambda>t. strip (str_of t)) (items_of tests)))) item
      else item)"

definition oversized :: "json \<Rightarrow> nat \<Rightarrow> bool" where
  "oversized j n \<longleftrightarrow> n < length (str_of j)"

definition dep_ok :: "json \<Rightarrow> bool" where
  "dep_ok d = (case d of JInt n \<Rightarrow> 0 < n | JStr t \<Rightarrow> key_ok t | _ \<Rightarrow> False)"

definition fields_exact :: "json \<Rightarrow> string list \<Rightarrow> string list \<Rightarrow> bool" where
  "fields_exact item need extra \<longleftrightarrow>
     is_obj item \<and> list_all (\<lambda>k. k \<in> set need \<union> set extra) (map fst (fields_of item))
     \<and> list_all (\<lambda>k. k \<in> set (map fst (fields_of item))) need"

definition check_item :: "string list \<Rightarrow> json \<Rightarrow> check" where
  "check_item seen item =
     (let f = (\<lambda>k. jget_or item k JNull) in first_exn
       [check_all (\<lambda>k. ensure (\<not> blank_text (f k) \<and> \<not> oversized (f k) 12000)
                        (ValueError (''Missing or oversized text: '' @ k))) text_keys,
        ensure (\<not> oversized (f ''title'') 200 \<and> \<not> oversized (f ''key'') 100)
          (ValueError ''Title/key too long''),
        ensure (key_ok (item_key item) \<and> item_key item \<notin> set seen)
          (ValueError ''Duplicate or invalid task key''),
        ensure (jget item ''improvement'' = None
                \<or> (is_str (f ''improvement'') \<and> key_ok (str_of (f ''improvement''))))
          (ValueError ''Invalid improvement key''),
        ensure (type_is_int (f ''priority'') \<and> int_of (f ''priority'') \<in> {0..3})
          (ValueError ''Invalid priority''),
        (case validate_area (f ''area'') of Inl e \<Rightarrow> Some e | Inr _ \<Rightarrow> None),
        ensure (is_list (f ''dependencies'') \<and> list_all dep_ok (items_of (f ''dependencies'')))
          (ValueError ''Dependencies must be existing issue numbers or proposal keys'')])"

fun check_items :: "string list \<Rightarrow> json list \<Rightarrow> json list res" where
  "check_items seen [] = Inr []"
| "check_items seen (item # items) =
     (if \<not> fields_exact item required_keys [''improvement'']
      then Inl (ValueError ''Invalid issue fields'')
      else
        (let item1 = join_tests item in
         case check_item seen item1 of
           Some e \<Rightarrow> Inl e
         | None \<Rightarrow>
             (case check_items (seen @ [item_key item1]) items of
                Inl e \<Rightarrow> Inl e | Inr rest \<Rightarrow> Inr (item1 # rest))))"

definition check_disposition :: "json \<Rightarrow> check" where
  "check_disposition entry =
     (let f = (\<lambda>k. jget_or entry k JNull); revisit = f ''revisit'' in first_exn
       [ensure (fields_exact entry [''key'', ''decision'', ''reason''] [''revisit''])
          (ValueError ''Invalid disposition fields''),
        ensure (is_str (f ''key'') \<and> key_ok (str_of (f ''key'')))
          (ValueError ''Invalid disposition key''),
        ensure (f ''decision'' \<in> {JStr ''accept'', JStr ''defer'', JStr ''reject''})
          (ValueError ''Disposition must be accept, defer, or reject''),
        ensure (\<not> blank_text (f ''reason'') \<and> \<not> oversized (f ''reason'') 4000)
          (ValueError ''Disposition reason missing or oversized''),
        ensure (f ''decision'' \<noteq> JStr ''defer'' \<or> \<not> blank_text revisit)
          (ValueError ''Deferred candidates require a concrete revisit condition''),
        ensure (revisit = JNull \<or> (is_str revisit \<and> \<not> oversized revisit 2000))
          (ValueError ''Revisit condition oversized'')])"

definition dispositions_of :: "json \<Rightarrow> json" where
  "dispositions_of proposal =
     (let d = jget_or proposal ''dispositions'' JNull in if truthy d then d else JList [])"

definition unknown_deps :: "string list \<Rightarrow> json \<Rightarrow> string list" where
  "unknown_deps seen item = filter (\<lambda>d. d \<notin> set seen) (str_deps item)"

definition validate :: "json \<Rightarrow> json res" where
  "validate proposal =
     (if \<not> fields_exact proposal [''issues''] [''dispositions'']
      then Inl (ValueError ''Expected an object with issues and optional dispositions'')
      else if \<not> is_list (jget_or proposal ''issues'' JNull)
              \<or> 20 < length (items_of (jget_or proposal ''issues'' JNull))
      then Inl (ValueError ''At most twenty issues per proposal'')
      else res_bind (check_items [] (items_of (jget_or proposal ''issues'' JNull))) (\<lambda>items.
        (let seen = map item_key items in
         case check_all (\<lambda>i. ensure (unknown_deps seen i = [])
                (ValueError (''Dependencies reference unknown proposal keys: ''
                             @ join '', '' (unknown_deps seen i)))) items of
           Some e \<Rightarrow> Inl e
         | None \<Rightarrow> res_bind (ordered_issues items) (\<lambda>_.
             (let ds = dispositions_of proposal in
              if \<not> is_list ds \<or> 20 < length (items_of ds)
              then Inl (ValueError ''Invalid dispositions list'')
              else case check_all check_disposition (items_of ds) of
                Some e \<Rightarrow> Inl e
              | None \<Rightarrow> Inr (jset ''issues'' (JList items) proposal))))))"

subsection \<open>The published issue\<close>

definition issue_number_dep :: "json \<Rightarrow> bool" where
  "issue_number_dep d = (case d of JInt n \<Rightarrow> 1 \<le> n | _ \<Rightarrow> False)"

definition item_meta :: "json \<Rightarrow> json" where
  "item_meta item =
     (let f = (\<lambda>k. jget_or item k JNull) in
      JObj ([(''key'', f ''key''), (''group'', f ''group''), (''area'', f ''area''),
             (''dependencies'', f ''dependencies''), (''priority'', f ''priority'')]
            @ (if truthy (f ''improvement'') then [(''improvement'', f ''improvement'')] else [])))"

definition sections :: "(string \<times> string) list" where
  "sections = [(''Scope'', ''scope''), (''Acceptance criteria'', ''acceptance''),
               (''Required tests'', ''tests''), (''Milestone'', ''milestone'')]"

definition para :: string where "para = [newline, newline]"

definition body :: "(rat \<Rightarrow> string) \<Rightarrow> json \<Rightarrow> string res" where
  "body rf item =
     (if \<not> list_all issue_number_dep (items_of (jget_or item ''dependencies'' JNull))
      then Inl (ValueError ''Persisted issue dependencies must be issue numbers'')
      else res_bind (validate_area (jget_or item ''area'' JNull)) (\<lambda>_.
        Inr (join para
          ((task_prefix @ dumps rf (item_meta item) @ '' -->'')
           # map (\<lambda>(title, k). ''## '' @ title @ para @ str_of (jget_or item k JNull)) sections))))"

definition metadata :: "string \<Rightarrow> json res" where
  "metadata text =
     (if \<not> starts_with task_prefix text then Inl (ValueError ''Not a managed issue'')
      else case task_json text of
        None \<Rightarrow> Inl (ValueError ''json'')
      | Some v \<Rightarrow>
          (let g = jget_or v ''group'' JNull; deps = jget_or v ''dependencies'' JNull in
           if \<not> is_obj v then Inl (AttributeError ''get'')
           else if \<not> is_str g \<or> str_of g = [] \<or> \<not> is_list deps
           then Inl (ValueError ''Invalid issue metadata'')
           else if \<not> list_all issue_number_dep (items_of deps)
           then Inl (ValueError ''Invalid dependencies'')
           else case (case jget v ''area'' of None \<Rightarrow> Inr JNull | Some a \<Rightarrow> validate_area a) of
             Inl e \<Rightarrow> Inl e
           | Inr _ \<Rightarrow>
               (if jget v ''improvement'' \<noteq> None \<and> \<not> is_str (jget_or v ''improvement'' JNull)
                then Inl (ValueError ''Invalid improvement metadata'') else Inr v)))"

text \<open>\<open>except (ValueError, KeyError)\<close>: any other exception propagates.\<close>

definition caught :: "exn \<Rightarrow> bool" where
  "caught e = (case e of ValueError _ \<Rightarrow> True | KeyError _ \<Rightarrow> True | _ \<Rightarrow> False)"

record inventory_row =
  n_number :: int
  n_state :: string
  n_title :: string
  n_key :: json
  n_metadata :: "json option"
  n_body :: "string option"
  n_labels :: "string list option"

definition planner_row :: "issue \<Rightarrow> inventory_row res" where
  "planner_row i =
     res_bind (case metadata (body_of i) of
                 Inl e \<Rightarrow> if caught e then Inr (JObj []) else Inl e
               | Inr m \<Rightarrow> Inr m) (\<lambda>m.
       (let open_row = i_state i = ''OPEN'' in
        Inr \<lparr>n_number = i_number i, n_state = i_state i, n_title = i_title i,
             n_key = jget_or m ''key'' JNull,
             n_metadata = (if open_row then Some m else None),
             n_body = (if open_row then Some (take 3000 (body_of i)) else None),
             n_labels = (if open_row then Some (filter
                (\<lambda>l. starts_with ''agent:'' l \<or> starts_with ''priority:'' l \<or> starts_with ''area:'' l)
                (i_labels i)) else None)\<rparr>))"

definition planner_inventory :: "issue list \<Rightarrow> inventory_row list res" where
  "planner_inventory issues = map_res planner_row issues"

subsection \<open>The dependency order is a topological order\<close>

text \<open>Every proposal key an item depends on belongs to an item earlier in the list.\<close>

fun topological :: "string list \<Rightarrow> json list \<Rightarrow> bool" where
  "topological resolved [] \<longleftrightarrow> True"
| "topological resolved (i # is) \<longleftrightarrow>
     set (str_deps i) \<subseteq> set resolved \<and> topological (resolved @ [item_key i]) is"

lemma topological_mono:
  "topological r is \<Longrightarrow> set r \<subseteq> set r' \<Longrightarrow> topological r' is"
proof (induction "is" arbitrary: r r')
  case (Cons i js)
  then have "set (r @ [item_key i]) \<subseteq> set (r' @ [item_key i])" by auto
  with Cons show ?case by auto
qed simp

lemma topological_append:
  "topological r (xs @ ys) \<longleftrightarrow> topological r xs \<and> topological (r @ map item_key xs) ys"
  by (induction xs arbitrary: r) auto

lemma topological_ready:
  "\<forall>i \<in> set xs. set (str_deps i) \<subseteq> set r \<Longrightarrow> topological r xs"
proof (induction xs arbitrary: r)
  case (Cons x xs)
  then have "topological r xs" by simp
  then have "topological (r @ [item_key x]) xs" by (rule topological_mono) auto
  with Cons.prems show ?case by simp
qed simp

lemma order_from_sound:
  "order_from remaining resolved = Some xs \<Longrightarrow>
     mset xs = mset remaining \<and> topological resolved xs"
proof (induction remaining resolved arbitrary: xs rule: order_from.induct)
  case (1 remaining resolved)
  let ?p = "\<lambda>i. set (str_deps i) \<subseteq> set resolved"
  show ?case
  proof (cases "remaining = []")
    case True
    with 1(2) show ?thesis by (simp add: order_from.simps)
  next
    case False
    from False 1(2) have ne: "filter ?p remaining \<noteq> []"
      by (subst (asm) order_from.simps) (auto simp: Let_def split: if_splits)
    with False 1(2) obtain ys where
      ys: "order_from (filter (\<lambda>i. \<not> ?p i) remaining) (resolved @ map item_key (filter ?p remaining))
             = Some ys" "xs = filter ?p remaining @ ys"
      by (subst (asm) order_from.simps) (auto simp: Let_def)
    have IH: "mset ys = mset (filter (\<lambda>i. \<not> ?p i) remaining)
        \<and> topological (resolved @ map item_key (filter ?p remaining)) ys"
      by (rule 1(1) [OF False refl refl ne ys(1)])
    have "mset xs = mset (filter ?p remaining) + mset (filter (\<lambda>i. \<not> ?p i) remaining)"
      using ys(2) IH by simp
    also have "\<dots> = mset remaining" by (simp flip: multiset_partition)
    finally show ?thesis
      using ys(2) IH by (auto simp: topological_append intro!: topological_ready)
  qed
qed

lemma order_from_stuck:
  "order_from remaining resolved = None \<Longrightarrow>
     \<exists>S. S \<subseteq> set remaining \<and> S \<noteq> {}
       \<and> (\<forall>i \<in> S. \<exists>d \<in> set (str_deps i). d \<notin> set resolved \<union> item_key ` (set remaining - S))"
proof (induction remaining resolved rule: order_from.induct)
  case (1 remaining resolved)
  let ?p = "\<lambda>i. set (str_deps i) \<subseteq> set resolved"
  from 1(2) have ne: "remaining \<noteq> []" by (auto simp: order_from.simps)
  show ?case
  proof (cases "filter ?p remaining = []")
    case True
    then show ?thesis
      using ne by (intro exI [of _ "set remaining"]) (auto simp: filter_empty_conv)
  next
    case False
    from ne False 1(2) have "order_from (filter (\<lambda>i. \<not> ?p i) remaining)
        (resolved @ map item_key (filter ?p remaining)) = None"
      by (subst (asm) order_from.simps) (auto simp: Let_def)
    from 1(1) [OF ne refl refl False this] obtain S where
      S: "S \<subseteq> set (filter (\<lambda>i. \<not> ?p i) remaining)" "S \<noteq> {}"
        "\<forall>i \<in> S. \<exists>d \<in> set (str_deps i). d \<notin> set (resolved @ map item_key (filter ?p remaining))
            \<union> item_key ` (set (filter (\<lambda>i. \<not> ?p i) remaining) - S)" by blast
    have "set remaining - S = set (filter ?p remaining) \<union> (set (filter (\<lambda>i. \<not> ?p i) remaining) - S)"
      using S(1) by auto
    then have split: "item_key ` (set remaining - S) = item_key ` set (filter ?p remaining)
        \<union> item_key ` (set (filter (\<lambda>i. \<not> ?p i) remaining) - S)"
      by (simp only: image_Un)
    have "\<forall>i \<in> S. \<exists>d \<in> set (str_deps i). d \<notin> set resolved \<union> item_key ` (set remaining - S)"
      using S(3) unfolding split by simp
    moreover have "S \<subseteq> set remaining" using S(1) by auto
    ultimately show ?thesis using S(2) by blast
  qed
qed

definition stuck :: "json list \<Rightarrow> json set \<Rightarrow> bool" where
  "stuck items S \<longleftrightarrow> S \<subseteq> set items \<and> S \<noteq> {}
     \<and> (\<forall>i \<in> S. \<exists>d \<in> set (str_deps i). d \<notin> item_key ` (set items - S))"

text \<open>
  C26: ordering a proposal by its dependencies always ends; when it succeeds the result is a
  permutation of the issues in which every proposal key an issue depends on stands earlier, and it
  fails only when some nonempty set of issues is stuck: each of them needs a key that no issue
  outside the set provides (a cycle, once unknown keys are excluded).
\<close>

theorem ordered_issues_topological:
  "case ordered_issues items of
     Inr xs \<Rightarrow> mset xs = mset items \<and> topological [] xs
   | Inl e \<Rightarrow> \<exists>S. stuck items S"
proof (cases "order_from items []")
  case None
  from order_from_stuck [OF this] obtain S where "stuck items S"
    unfolding stuck_def by auto
  with None show ?thesis by (auto simp: ordered_issues_def)
next
  case (Some xs)
  from order_from_sound [OF this] show ?thesis using Some by (simp add: ordered_issues_def)
qed

subsection \<open>What validation guarantees\<close>

lemma check_items_Cons:
  "check_items seen (item # items) = Inr out \<longleftrightarrow>
     fields_exact item required_keys [''improvement''] \<and> check_item seen (join_tests item) = None
     \<and> (\<exists>rest. check_items (seen @ [item_key (join_tests item)]) items = Inr rest
              \<and> out = join_tests item # rest)"
  unfolding check_items.simps Let_def
  by (cases "check_item seen (join_tests item)";
      cases "check_items (seen @ [item_key (join_tests item)]) items") auto

declare check_items.simps(2) [simp del]

lemma check_item_None:
  assumes "check_item seen i = None"
  shows "key_ok (item_key i)" "item_key i \<notin> set seen"
    "list_all dep_ok (items_of (jget_or i ''dependencies'' JNull))"
    "\<exists>v. validate_area (jget_or i ''area'' JNull) = Inr v"
    "\<not> blank_text (jget_or i ''group'' JNull)"
proof -
  note all = assms [unfolded check_item_def Let_def first_exn_None_iff, simplified ball_simps set_simps]
  show "key_ok (item_key i)" "item_key i \<notin> set seen"
    "list_all dep_ok (items_of (jget_or i ''dependencies'' JNull))"
    using all by simp_all
  show "\<exists>v. validate_area (jget_or i ''area'' JNull) = Inr v"
    using all by (cases "validate_area (jget_or i ''area'' JNull)") simp_all
  have "check_all (\<lambda>k. ensure (\<not> blank_text (jget_or i k JNull) \<and> \<not> oversized (jget_or i k JNull) 12000)
      (ValueError (''Missing or oversized text: '' @ k))) text_keys = None"
    using all by blast
  moreover have "''group'' \<in> set text_keys" by (simp add: text_keys_def)
  ultimately show "\<not> blank_text (jget_or i ''group'' JNull)"
    unfolding check_all_None_iff ensure_None by blast
qed

lemma check_items_shape:
  "check_items seen items = Inr out \<Longrightarrow>
     distinct (map item_key out) \<and> set (map item_key out) \<inter> set seen = {}
     \<and> list_all (\<lambda>i. key_ok (item_key i)
          \<and> list_all dep_ok (items_of (jget_or i ''dependencies'' JNull))
          \<and> (\<exists>a. jget_or i ''area'' JNull = JStr a \<and> is_area a)
          \<and> is_str (jget_or i ''group'' JNull) \<and> str_of (jget_or i ''group'' JNull) \<noteq> []) out
     \<and> length out = length items"
proof (induction seen items arbitrary: out rule: check_items.induct)
  case (2 seen item items)
  let ?i = "join_tests item"
  from 2(2) obtain rest where shape: "fields_exact item required_keys [''improvement'']"
    and chk: "check_item seen ?i = None"
    and rest: "check_items (seen @ [item_key ?i]) items = Inr rest" "out = ?i # rest"
    unfolding check_items_Cons by blast
  have IH: "distinct (map item_key rest) \<and> set (map item_key rest) \<inter> set (seen @ [item_key ?i]) = {}
     \<and> list_all (\<lambda>i. key_ok (item_key i)
          \<and> list_all dep_ok (items_of (jget_or i ''dependencies'' JNull))
          \<and> (\<exists>a. jget_or i ''area'' JNull = JStr a \<and> is_area a)
          \<and> is_str (jget_or i ''group'' JNull) \<and> str_of (jget_or i ''group'' JNull) \<noteq> []) rest
     \<and> length rest = length items"
    using 2(1) [OF _ refl chk rest(1)] shape by blast
  note c = check_item_None [OF chk]
  have "\<exists>a. jget_or ?i ''area'' JNull = JStr a \<and> is_area a"
    using c(4) by (auto simp: validate_area_def in_definitions_def split: json.splits if_splits)
  moreover have "is_str (jget_or ?i ''group'' JNull)" "str_of (jget_or ?i ''group'' JNull) \<noteq> []"
    using c(5) by (auto simp: blank_text_def blank_def strip_def lstrip_def rstrip_if_def)
  ultimately show ?case using IH c rest(2) by auto
qed simp

definition valid_items :: "json \<Rightarrow> json list" where
  "valid_items proposal = items_of (jget_or proposal ''issues'' JNull)"

text \<open>
  A validated proposal has at most twenty issues with distinct well-formed keys, known areas
  and groups that are not empty; every dependency is a positive issue number or the key of an
  issue of the same proposal, and the issues can be ordered so that dependencies come first.
\<close>

lemma validate_sound:
  assumes "validate proposal = Inr p"
  shows "length (valid_items p) \<le> 20 \<and> distinct (map item_key (valid_items p))
    \<and> list_all (\<lambda>i. key_ok (item_key i) \<and> (\<exists>a. jget_or i ''area'' JNull = JStr a \<and> is_area a)
         \<and> str_of (jget_or i ''group'' JNull) \<noteq> []
         \<and> list_all dep_ok (items_of (jget_or i ''dependencies'' JNull))
         \<and> set (str_deps i) \<subseteq> set (map item_key (valid_items p))) (valid_items p)
    \<and> (\<exists>xs. ordered_issues (valid_items p) = Inr xs)"
proof -
  from assms obtain items where
    items: "check_items [] (items_of (jget_or proposal ''issues'' JNull)) = Inr items"
    and len: "length (items_of (jget_or proposal ''issues'' JNull)) \<le> 20"
    and known: "check_all (\<lambda>i. ensure (unknown_deps (map item_key items) i = [])
                (ValueError (''Dependencies reference unknown proposal keys: ''
                             @ join '', '' (unknown_deps (map item_key items) i)))) items = None"
    and ord: "\<exists>xs. ordered_issues items = Inr xs" and p: "p = jset ''issues'' (JList items) proposal"
    by (auto simp: validate_def Let_def res_bind_Inr_iff split: if_splits option.splits)
  have "valid_items p = items" by (simp add: valid_items_def p)
  moreover have "\<forall>i \<in> set items. set (str_deps i) \<subseteq> set (map item_key items)"
    using known by (auto simp: check_all_None_iff unknown_deps_def filter_empty_conv)
  ultimately show ?thesis
    using check_items_shape [OF items] len ord by (auto simp: list_all_iff)
qed

subsection \<open>The metadata comment is read back\<close>

lemma index_of_comment:
  assumes "gt \<notin> set t"
  shows "index_of '' -->'' (task_prefix @ t @ '' -->'' @ rest) = Some (length task_prefix + length t)"
proof -
  have "gt \<notin> set ((task_prefix @ t) @ butlast '' -->'')"
    using assms by (simp add: task_prefix_def)
  moreover have "gt \<in> set '' -->''" by simp
  ultimately have "\<not> in_text '' -->'' ((task_prefix @ t) @ butlast '' -->'')"
    unfolding in_text_sublist using set_mono_sublist by blast
  from index_of_append [OF this, of rest] show ?thesis by simp
qed

lemma task_json_comment:
  assumes "plain m" and "no_gt m"
  shows "task_json (task_prefix @ dumps rf m @ '' -->'' @ rest) = Some m"
  using index_of_comment [OF dumps_no_gt [OF assms(2)], of rf rest] loads_dumps [OF assms(1), of rf]
  by (simp add: task_json_def)

text \<open>The fields of an issue item that go into its metadata comment.\<close>

definition publishable :: "json \<Rightarrow> bool" where
  "publishable item \<longleftrightarrow>
     (let f = (\<lambda>k. jget_or item k JNull) in
      is_str (f ''key'') \<and> gt \<notin> set (str_of (f ''key''))
      \<and> is_str (f ''group'') \<and> str_of (f ''group'') \<noteq> [] \<and> gt \<notin> set (str_of (f ''group''))
      \<and> type_is_int (f ''priority'') \<and> is_list (f ''dependencies'')
      \<and> (f ''improvement'' = JNull \<or> (is_str (f ''improvement'') \<and> gt \<notin> set (str_of (f ''improvement'')))))"

lemma is_area_no_gt: "is_area a \<Longrightarrow> gt \<notin> set a"
  by (auto simp: is_area_def definitions_def)

lemma body_Inr:
  assumes "body rf item = Inr t"
  shows "\<exists>rest. t = task_prefix @ dumps rf (item_meta item) @ '' -->'' @ rest"
    and "list_all issue_number_dep (items_of (jget_or item ''dependencies'' JNull))"
    and "\<exists>a. jget_or item ''area'' JNull = JStr a \<and> is_area a"
proof -
  have join_head: "\<exists>r. join sep (x # xs) = x @ r" for sep x xs
    by (cases xs) auto
  show "list_all issue_number_dep (items_of (jget_or item ''dependencies'' JNull))"
    using assms by (auto simp: body_def split: if_splits)
  obtain v where v: "validate_area (jget_or item ''area'' JNull) = Inr v"
    and t: "t = join para ((task_prefix @ dumps rf (item_meta item) @ '' -->'')
           # map (\<lambda>(title, k). ''## '' @ title @ para @ str_of (jget_or item k JNull)) sections)"
    using assms by (auto simp: body_def res_bind_Inr_iff split: if_splits)
  show "\<exists>a. jget_or item ''area'' JNull = JStr a \<and> is_area a"
    using v by (auto simp: validate_area_def in_definitions_def split: json.splits if_splits)
  show "\<exists>rest. t = task_prefix @ dumps rf (item_meta item) @ '' -->'' @ rest"
    unfolding t
    using join_head [of para "task_prefix @ dumps rf (item_meta item) @ '' -->''"] by auto
qed


subsection \<open>Concrete proposals\<close>

definition demo_item :: "string \<Rightarrow> json" where
  "demo_item grp =
     JObj [(''key'', JStr ''a1''), (''title'', JStr ''t''), (''scope'', JStr ''s''),
           (''acceptance'', JStr ''x''), (''tests'', JStr ''y''), (''dependencies'', JList []),
           (''priority'', JInt 1), (''milestone'', JStr ''m''), (''group'', JStr grp),
           (''area'', JStr ''library'')]"

definition demo_proposal :: "string \<Rightarrow> json" where
  "demo_proposal grp = JObj [(''issues'', JList [demo_item grp])]"

lemma demo_validates: "validate (demo_proposal ''u -->'') = Inr (demo_proposal ''u -->'')"
  by code_simp



end
