(* ===== verification/SchedInvariant.thy ===== *)
theory SchedInvariant
  imports SchedState
begin

text \<open>
  What the job operations of agent_pool/state.py promise together: how each of them acts on the
  tables, the step relation of the scheduler's writes, the invariant every reachable database
  satisfies, and the contracts of \<open>reserve\<close>, \<open>repair\<close>, \<open>retry\<close> and \<open>complete\<close>.
\<close>

subsection \<open>The ledger is append-only\<close>

definition event_keys :: "db \<Rightarrow> string list" where
  "event_keys s = map the (filter (\<lambda>k. k \<noteq> None) (map e_key (events s)))"

lemma mem_event_keys: "k \<in> set (event_keys s) \<longleftrightarrow> Some k \<in> e_key ` set (events s)"
proof -
  have "k \<in> set (map the (filter (\<lambda>k. k \<noteq> None) ks)) \<longleftrightarrow> Some k \<in> set ks" for ks
    by (induction ks) auto
  from this [of "map e_key (events s)"] show ?thesis by (simp add: event_keys_def)
qed

lemma add_event_frame [simp]:
  "settings (add_event e s) = settings s" "jobs (add_event e s) = jobs s"
  "leases (add_event e s) = leases s" "groups (add_event e s) = groups s"
  "outcomes (add_event e s) = outcomes s" "reviews (add_event e s) = reviews s"
  "candidates (add_event e s) = candidates s" "improvements (add_event e s) = improvements s"
  "qa_reports (add_event e s) = qa_reports s" "qa_findings (add_event e s) = qa_findings s"
  "workspace_capacity (add_event e s) = workspace_capacity s"
  "sget k d (add_event e s) = sget k d s"
  by (simp_all add: add_event_def sget_def)

lemma events_add_event:
  "events (add_event e s) = events s \<or> events (add_event e s) = events s @ [e]"
  by (simp add: add_event_def)

lemma events_add_event_None [simp]:
  "e_key e = None \<Longrightarrow> events (add_event e s) = events s @ [e]"
  by (simp add: add_event_def)

lemma event_keys_add_event:
  "distinct (event_keys s) \<Longrightarrow> distinct (event_keys (add_event e s))"
  using mem_event_keys [of "the (e_key e)" s]
  by (cases "e_key e") (auto simp: add_event_def event_keys_def)

lemma mk_event_sel [simp]:
  "e_kind (mk_event kind i a now key p) = kind" "e_issue (mk_event kind i a now key p) = i"
  "e_attempt (mk_event kind i a now key p) = a" "e_at (mk_event kind i a now key p) = now"
  "e_key (mk_event kind i a now key p) = key" "e_payload (mk_event kind i a now key p) = p"
  by (simp_all add: mk_event_def)

lemma jobs_upd_frame [simp]:
  "events (s\<lparr>jobs := js\<rparr>) = events s" "settings (s\<lparr>jobs := js\<rparr>) = settings s"
  "sget k d (s\<lparr>jobs := js\<rparr>) = sget k d s"
  by (simp_all add: sget_def)

subsection \<open>Keys and live workers under updates\<close>

lemma set_field_issue [simp]: "j_issue (set_field f j) = j_issue j"
  by (cases f) (auto split: option.split)

lemma fold_set_field_issue [simp]: "j_issue (fold set_field fs j) = j_issue j"
  by (induction fs arbitrary: j) auto

lemma set_fields_issue [simp]: "j_issue (set_fields now fs j) = j_issue j"
  by (simp add: set_fields_def)

lemma live_unique_update:
  assumes "live_unique js"
    and "\<And>j. j \<in> set js \<Longrightarrow> j_worker (f j) = j_worker j"
    and "\<And>j. j \<in> set js \<Longrightarrow> key j = k \<Longrightarrow> live (f j) \<Longrightarrow> live j"
  shows "live_unique (update_row key k f js)"
  using assms
proof (induction js)
  case (Cons j js)
  have sub: "j_worker ` set (filter live (update_row key k f js)) \<subseteq> j_worker ` set (filter live js)"
  proof
    fix w assume "w \<in> j_worker ` set (filter live (update_row key k f js))"
    then obtain r where r: "r \<in> set js" "w = j_worker (if key r = k then f r else r)"
      "live (if key r = k then f r else r)"
      by (auto simp: update_row_def)
    with Cons.prems(2,3) show "w \<in> j_worker ` set (filter live js)"
      by (cases "key r = k") auto
  qed
  have IH: "live_unique (update_row key k f js)"
    using Cons by (auto simp: live_unique_def split: if_splits)
  show ?case
    using IH sub Cons.prems by (auto simp: live_unique_def split: if_splits)
qed (simp add: live_unique_def)

lemma live_unique_append:
  "live_unique (js @ [j]) \<longleftrightarrow>
     live_unique js \<and> (live j \<longrightarrow> j_worker j \<notin> j_worker ` set (filter live js))"
  by (auto simp: live_unique_def)

subsection \<open>The steps of the scheduler\<close>

text \<open>
  One write of the scheduler. The supervisor writes settings other than the merge counter, which
  only \<open>complete\<close> writes, and never writes \<open>attempt\<close> directly; a repair count it writes is one it
  read from a job (supervisor.recover_job puts the old budget back after a retry), so it is
  between 0 and 3. Kinds of ledger rows owned by an operation are not recorded from outside.
\<close>

definition owned_kinds :: "string list" where
  "owned_kinds = [''merged-and-closed'', ''repair'', ''redispatch'', ''retry-reserved'', ''reserved'']"

fun client_field :: "job_field \<Rightarrow> bool" where
  "client_field (FRepairs n) = (0 \<le> n \<and> n \<le> 3)"
| "client_field (FAttempt _) = False"
| "client_field _ = True"

inductive sched_step :: "db \<Rightarrow> db \<Rightarrow> bool" where
  step_set: "k \<noteq> ''merges'' \<Longrightarrow> sched_step s (sset k v s)"
| step_record:
    "record_event now (JStr kind) issue attempt payload key s = Inr s' \<Longrightarrow>
     kind \<notin> set owned_kinds \<Longrightarrow> sched_step s s'"
| step_reserve: "reserve now issue worker grp deps s = (s', r) \<Longrightarrow> sched_step s s'"
| step_update:
    "update_job now issue fs s = Inr s' \<Longrightarrow> list_all client_field fs \<Longrightarrow> sched_step s s'"
| step_repair: "repair now issue cause detail s = Inr (s', b) \<Longrightarrow> sched_step s s'"
| step_complete: "sched_step s (complete now issue s)"
| step_retry: "retry now issue cause detail s = Inr (s', b) \<Longrightarrow> sched_step s s'"

inductive sched_reach :: "int option \<Rightarrow> db \<Rightarrow> bool" for cap where
  reach_init: "sched_reach cap (empty_db cap)"
| reach_step: "sched_reach cap s \<Longrightarrow> sched_step s s' \<Longrightarrow> sched_reach cap s'"

subsection \<open>The invariant\<close>

definition merged_rows :: "db \<Rightarrow> nat" where
  "merged_rows s = count_if (\<lambda>e. e_kind e = ''merged-and-closed'') (events s)"

text \<open>The identity of a repair row: issue, attempt and the number of the repair.\<close>

definition repair_key :: "int \<Rightarrow> int \<Rightarrow> int \<Rightarrow> string" where
  "repair_key issue a n = ''repair:'' @ str_int issue @ '':'' @ str_int a @ '':'' @ str_int n"

definition repair_row_ok :: "event \<Rightarrow> bool" where
  "repair_row_ok e \<longleftrightarrow>
     (e_kind e = ''repair'' \<longrightarrow>
        (\<exists>i a n. e_issue e = Some i \<and> e_attempt e = Some a \<and> 1 \<le> n \<and> n \<le> 3
           \<and> e_key e = Some (repair_key i a n)))"

definition db_ok :: "db \<Rightarrow> bool" where
  "db_ok s \<longleftrightarrow>
     distinct (map j_issue (jobs s)) \<and> live_unique (jobs s)
     \<and> (\<forall>j \<in> set (jobs s). 0 \<le> j_repairs j \<and> j_repairs j \<le> 3 \<and> 1 \<le> j_attempt j)
     \<and> distinct (event_keys s) \<and> (\<forall>e \<in> set (events s). repair_row_ok e)
     \<and> sget ''merges'' (JInt 0) s = JInt (int (merged_rows s))"


lemma db_ok_add_event:
  assumes "db_ok s" and "e_kind e \<noteq> ''merged-and-closed''" and "repair_row_ok e"
  shows "db_ok (add_event e s)"
proof -
  have "events (add_event e s) = events s \<or> events (add_event e s) = events s @ [e]"
    by (rule events_add_event)
  then have "merged_rows (add_event e s) = merged_rows s"
    and "\<forall>x \<in> set (events (add_event e s)). repair_row_ok x"
    using assms by (auto simp: merged_rows_def db_ok_def)
  with assms(1) show ?thesis
    by (auto simp: db_ok_def event_keys_add_event)
qed

lemma merged_rows_frame [simp]:
  "merged_rows (sset k v s) = merged_rows s" "merged_rows (s\<lparr>jobs := js\<rparr>) = merged_rows s"
  "event_keys (sset k v s) = event_keys s" "event_keys (s\<lparr>jobs := js\<rparr>) = event_keys s"
  by (simp_all add: merged_rows_def event_keys_def)

lemma db_ok_sset [inv_intros]: "db_ok s \<Longrightarrow> k \<noteq> ''merges'' \<Longrightarrow> db_ok (sset k v s)"
  by (simp add: db_ok_def)

definition job_ok :: "job_row \<Rightarrow> bool" where
  "job_ok j \<longleftrightarrow> 0 \<le> j_repairs j \<and> j_repairs j \<le> 3 \<and> 1 \<le> j_attempt j"

lemma db_ok_update_jobs:
  assumes "db_ok s" and "live_unique (update_row j_issue issue f (jobs s))"
    and "\<And>j. j_issue (f j) = j_issue j"
    and "\<And>j. j \<in> set (jobs s) \<Longrightarrow> j_issue j = issue \<Longrightarrow> job_ok j \<Longrightarrow> job_ok (f j)"
  shows "db_ok (s\<lparr>jobs := update_row j_issue issue f (jobs s)\<rparr>)"
proof -
  have "map j_issue (update_row j_issue issue f (jobs s)) = map j_issue (jobs s)"
    using assms(3) by (rule map_key_update_row)
  moreover have "job_ok j" if "j \<in> set (update_row j_issue issue f (jobs s))" for j
    using that assms(1,4) by (auto simp: update_row_def db_ok_def job_ok_def split: if_splits)
  ultimately show ?thesis
    using assms(1,2) by (simp add: db_ok_def job_ok_def)
qed

lemma job_in: "job issue s = Some j \<Longrightarrow> j \<in> set (jobs s) \<and> j_issue j = issue"
  unfolding job_def by (rule find_row_Some)

lemma job_unique:
  "db_ok s \<Longrightarrow> job issue s = Some j \<Longrightarrow> r \<in> set (jobs s) \<Longrightarrow> j_issue r = issue \<Longrightarrow> r = j"
  using find_row_distinct [of j_issue "jobs s" r] by (simp add: db_ok_def job_def)

subsection \<open>Every operation keeps the invariant\<close>

lemma db_ok_record [inv_intros]:
  assumes "db_ok s" and "record_event now kind issue attempt payload key s = Inr s'"
    and "str_of kind \<notin> set owned_kinds"
  shows "db_ok s'"
proof -
  obtain p where "s' = add_event (mk_event (str_of kind) issue attempt now key p) s"
    using assms(2) by (auto simp: record_event_def split: if_splits)
  with assms(1,3) show ?thesis
    by (simp add: db_ok_add_event repair_row_ok_def owned_kinds_def)
qed

lemma db_ok_reserve [inv_intros]:
  assumes "db_ok s" and "reserve now issue worker grp deps s = (s', r)"
  shows "db_ok s'"
proof (cases "s' = s")
  case False
  let ?j = "new_job now issue worker grp"
  have *: "job issue s = None" "live_unique (jobs s @ [?j])"
    "s' = add_event (mk_event ''reserved'' (Some issue) (Some 1) now None
            (JObj [(''worker'', JStr worker)])) (s\<lparr>jobs := jobs s @ [?j]\<rparr>)"
    using assms(2) False by (auto simp: reserve_def Let_def split: if_splits)
  have "db_ok (s\<lparr>jobs := jobs s @ [?j]\<rparr>)"
    using assms(1) *(1,2) by (auto simp: db_ok_def new_job_def job_def find_row_None_iff)
  with *(3) show ?thesis
    by (auto intro!: db_ok_add_event simp: repair_row_ok_def)
qed (use assms(1) in simp)

lemma fold_client_field_ok:
  "list_all client_field fs \<Longrightarrow> job_ok j \<Longrightarrow> job_ok (fold set_field fs j)"
proof (induction fs arbitrary: j)
  case (Cons f fs)
  then have "job_ok (set_field f j)"
    by (cases f) (auto simp: job_ok_def split: option.split)
  with Cons show ?case by simp
qed simp

lemma db_ok_update_job [inv_intros]:
  assumes "db_ok s" and "update_job now issue fs s = Inr s'" and "list_all client_field fs"
  shows "db_ok s'"
proof -
  let ?js = "update_row j_issue issue (set_fields now fs) (jobs s)"
  have live: "live_unique ?js"
    using assms(2) by (auto simp: update_job_def Let_def split: if_splits)
  have "job_ok j \<Longrightarrow> job_ok (set_fields now fs j)" for j
    using fold_client_field_ok [OF assms(3)] by (simp add: set_fields_def job_ok_def)
  with assms(1) live have ok: "db_ok (s\<lparr>jobs := ?js\<rparr>)"
    by (intro db_ok_update_jobs) simp_all
  have "s' = s\<lparr>jobs := ?js\<rparr> \<or> (\<exists>st a p. s' = add_event
      (mk_event (''status:'' @ status_name st) (Some issue) a now None p) (s\<lparr>jobs := ?js\<rparr>))"
    using assms(2)
    by (auto simp: update_job_def Let_def split: if_splits option.splits)
  with ok show ?thesis
    by (auto intro!: db_ok_add_event simp: repair_row_ok_def)
qed

lemma db_ok_repair [inv_intros]:
  assumes "db_ok s" and "repair now issue cause detail s = Inr (s', b)"
  shows "db_ok s'"
proof (cases "job issue s")
  case None
  then show ?thesis using assms by (auto simp: repair_def split: if_splits)
next
  case (Some j)
  let ?up = "\<lambda>j. j\<lparr>j_repairs := j_repairs j + 1, j_status := Working, j_updated := now\<rparr>"
  let ?park = "\<lambda>j. j\<lparr>j_status := Blocked, j_error := Some ''Repair limit exhausted'',
                        j_updated := now\<rparr>"
  have uniq: "r = j" if "r \<in> set (jobs s)" "j_issue r = issue" for r
    using job_unique [OF assms(1) Some that] .
  have bounds: "0 \<le> j_repairs j"
    using assms(1) job_in [OF Some] by (auto simp: db_ok_def)
  consider "j_repairs j < 3 \<and> live j" | "\<not> (j_repairs j < 3 \<and> live j)" "j_status j \<noteq> Done"
    | "\<not> (j_repairs j < 3 \<and> live j)" "j_status j = Done" by blast
  then show ?thesis
  proof cases
    case 1
    let ?s1 = "s\<lparr>jobs := update_row j_issue issue ?up (jobs s)\<rparr>"
    have "live_unique (update_row j_issue issue ?up (jobs s))"
      using assms(1) 1 uniq by (intro live_unique_update) (auto simp: db_ok_def)
    then have "db_ok ?s1"
      using assms(1) 1 uniq by (intro db_ok_update_jobs) (auto simp: job_ok_def)
    with assms(2) Some 1 bounds show ?thesis
      by (auto simp: repair_def Let_def repair_row_ok_def repair_key_def split: if_splits
          intro!: db_ok_add_event exI [of _ "j_repairs j + 1"])
  next
    case 2
    have "live_unique (update_row j_issue issue ?park (jobs s))"
      using assms(1) by (intro live_unique_update) (auto simp: db_ok_def live_def)
    then have "db_ok (s\<lparr>jobs := update_row j_issue issue ?park (jobs s)\<rparr>)"
      using assms(1) by (intro db_ok_update_jobs) (auto simp: job_ok_def)
    with assms(2) Some 2 show ?thesis by (auto simp: repair_def split: if_splits)
  next
    case 3
    with assms Some show ?thesis by (auto simp: repair_def split: if_splits)
  qed
qed

lemma db_ok_complete [inv_intros]:
  assumes "db_ok s" shows "db_ok (complete now issue s)"
proof (cases "\<exists>j. job issue s = Some j \<and> j_status j \<noteq> Done")
  case False
  then show ?thesis using assms by (auto simp: complete_def split: option.split)
next
  case True
  then obtain j where j: "job issue s = Some j" "j_status j \<noteq> Done" by blast
  let ?f = "\<lambda>j. j\<lparr>j_status := Done, j_pid := None, j_updated := now\<rparr>"
  let ?s1 = "s\<lparr>jobs := update_row j_issue issue ?f (jobs s)\<rparr>"
  have "live_unique (update_row j_issue issue ?f (jobs s))"
    using assms by (intro live_unique_update) (auto simp: db_ok_def live_def)
  then have ok: "db_ok ?s1"
    using assms by (intro db_ok_update_jobs) (auto simp: job_ok_def)
  let ?e = "mk_event ''merged-and-closed'' (Some issue) (Some (j_attempt j)) now None (JObj [])"
  have "merged_rows (add_event ?e ?s1) = merged_rows s + 1"
    by (simp add: merged_rows_def)
  with ok show ?thesis
    using j by (auto simp: complete_def Let_def db_ok_def merged_rows_def event_keys_def
        repair_row_ok_def)
qed

lemma db_ok_retry [inv_intros]:
  assumes "db_ok s" and "retry now issue cause detail s = Inr (s', b)"
  shows "db_ok s'"
proof (cases "s' = s")
  case False
  let ?f = "\<lambda>j. j\<lparr>j_status := Working, j_attempt := j_attempt j + 1, j_repairs := 0,
                     j_pid := None, j_error := None, j_updated := now\<rparr>"
  let ?js = "update_row j_issue issue ?f (jobs s)"
  have live: "live_unique ?js"
    using assms(2) False by (auto simp: retry_def Let_def split: if_splits option.splits)
  then have "db_ok (s\<lparr>jobs := ?js\<rparr>)"
    using assms(1) by (intro db_ok_update_jobs) (auto simp: job_ok_def)
  with assms(2) False show ?thesis
    by (auto simp: retry_def Let_def repair_row_ok_def split: if_splits option.splits
        intro!: db_ok_add_event)
qed (use assms(1) in simp)

lemma db_ok_step: "sched_step s s' \<Longrightarrow> db_ok s \<Longrightarrow> db_ok s'"
  by (induction rule: sched_step.induct) (auto intro: inv_intros)

lemma db_ok_empty: "db_ok (empty_db cap)"
  by (simp add: db_ok_def empty_db_def live_unique_def event_keys_def merged_rows_def sget_def)

lemma db_ok_reach: "sched_reach cap s \<Longrightarrow> db_ok s"
  by (induction rule: sched_reach.induct) (auto intro: db_ok_empty db_ok_step)


text \<open>
  C1: in every database the scheduler can reach by its writes, issue numbers are unique, no two
  live jobs share a worker, every repair count is within the budget 0..3, attempts start at 1, no
  ledger key is recorded twice, and the merge counter equals the number of merged-and-closed rows.
\<close>

theorem sched_reach_invariant:
  assumes "sched_reach cap s"
  shows "distinct (map j_issue (jobs s))
    \<and> distinct (map j_worker (filter live (jobs s)))
    \<and> (\<forall>j \<in> set (jobs s). 0 \<le> j_repairs j \<and> j_repairs j \<le> 3 \<and> 1 \<le> j_attempt j)
    \<and> distinct (event_keys s)
    \<and> sget ''merges'' (JInt 0) s
       = JInt (int (length (filter (\<lambda>e. e_kind e = ''merged-and-closed'') (events s))))"
  using db_ok_reach [OF assms]
  by (simp add: db_ok_def live_unique_def merged_rows_def count_if_def)

lemma reach_reserve: "sched_reach cap s \<Longrightarrow> sched_reach cap (fst (reserve now i w g d s))"
  by (rule reach_step, assumption) (metis step_reserve prod.collapse)

lemma reach_complete: "sched_reach cap s \<Longrightarrow> sched_reach cap (complete now i s)"
  by (rule reach_step, assumption) (rule step_complete)

theorem sched_reach_invariant_witness:
  "let s = complete 9 4 (fst (reserve 5 4 ''w1'' ''ui'' [] (empty_db None)))
   in sget ''merges'' (JInt 0) s = JInt 1
      \<and> int (length (filter (\<lambda>e. e_kind e = ''merged-and-closed'') (events s))) = 1
      \<and> map j_issue (jobs s) = [4]"
proof -
  let ?s = "complete 9 4 (fst (reserve 5 4 ''w1'' ''ui'' [] (empty_db None)))"
  have run: "sget ''merges'' (JInt 0) ?s = JInt 1 \<and> map j_issue (jobs ?s) = [4]"
    by (simp add: reserve_def complete_def empty_db_def paused_def sget_def capacity_def
        list_jobs_def job_def new_job_def live_unique_def add_event_def sset_def Let_def)
  have "sched_reach None ?s"
    by (intro reach_complete reach_reserve reach_init)
  from run sched_reach_invariant [OF this] show ?thesis by (simp add: Let_def)
qed

subsection \<open>The repair budget in the ledger\<close>

lemma str_int_no_colon: "CHR '':'' \<notin> set (str_int i)"
proof -
  have "CHR '':'' \<notin> set (str_nat n)" for n
    using str_nat_digits [of n] by (auto simp: list_all_iff is_dig_def cp_def)
  then show ?thesis by (simp add: str_int_def)
qed

lemma distinct_keyed_rows:
  assumes "distinct (event_keys s)" and "\<forall>e \<in> set (filter P (events s)). e_key e \<noteq> None"
  shows "distinct (map e_key (filter P (events s)))"
proof -
  have "distinct (map the (filter (\<lambda>k. k \<noteq> None) (map e_key es))) \<Longrightarrow>
        \<forall>e \<in> set (filter P es). e_key e \<noteq> None \<Longrightarrow> distinct (map e_key (filter P es))"
    for es :: "event list"
  proof (induction es)
    case (Cons e es)
    have "e_key e \<notin> e_key ` set es" if "e_key e \<noteq> None"
      using that Cons.prems(1) by (auto simp: image_iff)
    with Cons show ?case by (auto split: if_splits)
  qed simp
  with assms show ?thesis by (simp add: event_keys_def)
qed

lemma repair_rows_keyed:
  assumes "db_ok s"
  shows "length (filter (\<lambda>e. e_kind e = ''repair'' \<and> e_issue e = Some i \<and> e_attempt e = Some a)
                  (events s)) \<le> 3"
proof -
  let ?es = "filter (\<lambda>e. e_kind e = ''repair'' \<and> e_issue e = Some i \<and> e_attempt e = Some a) (events s)"
  have keyed: "\<forall>e \<in> set ?es. \<exists>n. 1 \<le> n \<and> n \<le> 3 \<and> e_key e = Some (repair_key i a n)"
  proof
    fix e assume "e \<in> set ?es"
    then have e: "e \<in> set (events s)" "e_kind e = ''repair''" "e_issue e = Some i"
      "e_attempt e = Some a" by auto
    with assms have "repair_row_ok e" by (simp add: db_ok_def)
    with e show "\<exists>n. 1 \<le> n \<and> n \<le> 3 \<and> e_key e = Some (repair_key i a n)"
      by (auto simp: repair_row_ok_def)
  qed
  have "distinct (event_keys s)" using assms by (simp add: db_ok_def)
  moreover have "\<forall>e \<in> set ?es. e_key e \<noteq> None" using keyed by blast
  ultimately have "distinct (map e_key ?es)" by (rule distinct_keyed_rows)
  moreover have "set (map e_key ?es) \<subseteq> (\<lambda>n. Some (repair_key i a n)) ` {1..3}"
    using keyed by fastforce
  ultimately have "length (map e_key ?es) \<le> card ((\<lambda>n. Some (repair_key i a n)) ` {1..3})"
    using card_mono [OF _ \<open>set (map e_key ?es) \<subseteq> _\<close>] distinct_card [of "map e_key ?es"] by simp
  also have "\<dots> \<le> card {1..3::int}" by (rule card_image_le) simp
  finally show ?thesis by simp
qed

lemma repair_accepted:
  assumes "job issue s = Some j" and "cause \<in> set repair_causes" and "j_repairs j < 3" and "live j"
  shows "\<exists>s'. repair now issue cause detail s = Inr (s', True)
    \<and> jobs s' = update_row j_issue issue
        (\<lambda>j. j\<lparr>j_repairs := j_repairs j + 1, j_status := Working, j_updated := now\<rparr>) (jobs s)
    \<and> settings s' = settings s
    \<and> (Some (repair_key issue (j_attempt j) (j_repairs j + 1)) \<notin> e_key ` set (events s) \<longrightarrow>
         events s' = events s @ [mk_event ''repair'' (Some issue) (Some (j_attempt j)) now
           (Some (repair_key issue (j_attempt j) (j_repairs j + 1))) (cause_payload cause detail)])"
  using assms by (simp add: repair_def Let_def repair_key_def add_event_def)

text \<open>
  No attempt of an issue is ever repaired more than three times: the ledger of a reachable
  database holds at most three repair rows per issue and attempt.
\<close>

lemma repair_rows_bounded:
  "sched_reach cap s \<Longrightarrow>
   length (filter (\<lambda>e. e_kind e = ''repair'' \<and> e_issue e = Some i \<and> e_attempt e = Some a)
             (events s)) \<le> 3"
  by (rule repair_rows_keyed [OF db_ok_reach])

subsection \<open>Contracts of the operations\<close>

lemma list_jobs_live: "length (list_jobs [Working, PrOpen] s) = length (filter live (jobs s))"
proof -
  have "(\<lambda>j. j_status j \<in> set [Working, PrOpen]) = live"
    by (auto simp: live_def)
  then show ?thesis by (simp add: list_jobs_def)
qed

definition reservable :: "int \<Rightarrow> string \<Rightarrow> int list \<Rightarrow> db \<Rightarrow> bool" where
  "reservable issue worker deps s \<longleftrightarrow>
     \<not> paused s
     \<and> (\<forall>d \<in> set deps. \<exists>j. job d s = Some j \<and> j_status j = Done)
     \<and> int (length (filter live (jobs s))) < capacity s
     \<and> job issue s = None
     \<and> (\<forall>j \<in> set (jobs s). live j \<longrightarrow> j_worker j \<noteq> worker)"

lemma deps_done_iff:
  "(\<exists>d \<in> set deps. case job d s of None \<Rightarrow> True | Some j \<Rightarrow> j_status j \<noteq> Done)
     \<longleftrightarrow> \<not> (\<forall>d \<in> set deps. \<exists>j. job d s = Some j \<and> j_status j = Done)"
  by (auto split: option.splits)

lemma reserve_spec:
  assumes "db_ok s"
  shows "reserve now issue worker grp deps s =
    (if reservable issue worker deps s
     then (let s' = s\<lparr>jobs := jobs s @ [new_job now issue worker grp],
                       events := events s @ [mk_event ''reserved'' (Some issue) (Some 1) now None
                                              (JObj [(''worker'', JStr worker)])]\<rparr>
           in (s', Some (new_job now issue worker grp)))
     else (s, None))"
proof -
  let ?j = "new_job now issue worker grp"
  have lu: "live_unique (jobs s @ [?j])
      \<longleftrightarrow> (\<forall>j \<in> set (jobs s). live j \<longrightarrow> j_worker j \<noteq> worker)"
    using assms by (auto simp: live_unique_append db_ok_def new_job_def live_def)
  have find: "job issue s = None \<Longrightarrow>
      job issue (s\<lparr>jobs := jobs s @ [?j], events := es\<rparr>) = Some ?j" for es
    by (simp add: job_def find_row_append new_job_def)
  show ?thesis
  proof (cases "reservable issue worker deps s")
    case True
    then show ?thesis
      using find lu unfolding reserve_def deps_done_iff list_jobs_live reservable_def
      by (simp add: Let_def add_event_def)
  next
    case False
    then show ?thesis
      unfolding reserve_def deps_done_iff list_jobs_live Let_def lu reservable_def
      by (auto simp: not_le)
  qed
qed

text \<open>
  C15: a reservation succeeds exactly when the scheduler is not paused, every dependency is a job
  that is done, fewer jobs are live than the capacity, the issue has no job yet and no live job
  holds the worker; then it adds one working job (attempt 1, no repairs) and one ledger row, and
  otherwise it changes nothing.
\<close>

theorem reserve_contract:
  assumes "db_ok s"
  shows "reserve now issue worker grp deps s =
    (if reservable issue worker deps s
     then (let s' = s\<lparr>jobs := jobs s @ [new_job now issue worker grp],
                       events := events s @ [mk_event ''reserved'' (Some issue) (Some 1) now None
                                              (JObj [(''worker'', JStr worker)])]\<rparr>
           in (s', Some (new_job now issue worker grp)))
     else (s, None))"
  using assms by (rule reserve_spec)

theorem reserve_contract_witness:
  "reserve 5 4 ''w1'' ''ui'' [] (empty_db None) =
    (if reservable 4 ''w1'' [] (empty_db None)
     then (let s = empty_db None; s' = s\<lparr>jobs := jobs s @ [new_job 5 4 ''w1'' ''ui''],
                       events := events s @ [mk_event ''reserved'' (Some 4) (Some 1) 5 None
                                              (JObj [(''worker'', JStr ''w1'')])]\<rparr>
           in (s', Some (new_job 5 4 ''w1'' ''ui'')))
     else (empty_db None, None)) \<and> reservable 4 ''w1'' [] (empty_db None)"
proof
  show "reservable 4 ''w1'' [] (empty_db None)"
    by (simp add: reservable_def empty_db_def paused_def sget_def capacity_def job_def)
qed (simp only: reserve_contract [OF db_ok_empty] Let_def)

lemma update_row_find:
  assumes "db_ok s" and "job issue s = Some j" and "\<And>j. j_issue (f j) = j_issue j"
  shows "find_row j_issue issue (update_row j_issue issue f (jobs s)) = Some (f j)"
  using assms(2,3) by (simp add: find_row_update_row job_def)

lemma repair_spec:
  assumes "job issue s = Some j" and "cause \<in> set repair_causes"
  shows "\<exists>s'. repair now issue cause detail s = Inr (s', j_repairs j < 3 \<and> live j)
    \<and> settings s' = settings s
    \<and> (if j_repairs j < 3 \<and> live j
       then job issue s' = Some (j\<lparr>j_repairs := j_repairs j + 1, j_status := Working, j_updated := now\<rparr>)
       else events s' = events s
            \<and> (if j_status j = Done then s' = s
               else job issue s' = Some (j\<lparr>j_status := Blocked,
                      j_error := Some ''Repair limit exhausted'', j_updated := now\<rparr>)))"
  using assms by (simp add: repair_def job_def Let_def find_row_update_row)

text \<open>
  A repair of a live job with budget left sets it working and counts one repair; in every
  other case it refuses, and a job that is not done is then parked as blocked with the error
  "Repair limit exhausted" while the ledger keeps no row of that transition.
\<close>

lemma repair_contract:
  assumes "job issue s = Some j" and "cause \<in> set repair_causes"
  shows "\<exists>s'. repair now issue cause detail s = Inr (s', j_repairs j < 3 \<and> live j)
    \<and> settings s' = settings s
    \<and> (if j_repairs j < 3 \<and> live j
       then job issue s' = Some (j\<lparr>j_repairs := j_repairs j + 1, j_status := Working, j_updated := now\<rparr>)
       else events s' = events s
            \<and> (if j_status j = Done then s' = s
               else job issue s' = Some (j\<lparr>j_status := Blocked,
                      j_error := Some ''Repair limit exhausted'', j_updated := now\<rparr>)))"
  using assms by (rule repair_spec)

text \<open>
  C25: a done job is final for the scheduler's own operations: reserving, repairing, retrying or
  completing it again leaves the whole database as it was, so a merge is counted once.
\<close>

theorem done_is_final:
  assumes "db_ok s" and "job issue s = Some j" and "j_status j = Done"
    and "cause \<in> set repair_causes" and "why \<in> set redispatch_causes"
  shows "reserve now issue worker grp deps s = (s, None)
    \<and> repair now issue cause detail s = Inr (s, False)
    \<and> retry now issue why detail s = Inr (s, False)
    \<and> complete now issue s = s"
  using assms
  by (simp add: reserve_spec reservable_def repair_def retry_def complete_def live_def)

theorem done_is_final_witness:
  "let s = complete 9 4 (fst (reserve 5 4 ''w1'' ''ui'' [] (empty_db None)))
   in complete 10 4 s = s \<and> retry 10 4 ''quota-requeue'' [] s = Inr (s, False)"
proof -
  define s where "s = complete 9 4 (fst (reserve 5 4 ''w1'' ''ui'' [] (empty_db None)))"
  have ok: "db_ok s"
    unfolding s_def by (rule db_ok_reach [OF reach_complete [OF reach_reserve [OF reach_init]]])
  have st: "map_option j_status (job 4 s) = Some Done"
    by (simp add: s_def reserve_def complete_def empty_db_def paused_def sget_def capacity_def
        list_jobs_def job_def new_job_def live_unique_def add_event_def sset_def Let_def)
  then obtain j where "job 4 s = Some j" "j_status j = Done" by blast
  with done_is_final [OF ok, of 4 j "''ci-failure''" "''quota-requeue''"] show ?thesis
    unfolding s_def [symmetric] by (simp add: Let_def repair_causes_def redispatch_causes_def)
qed

lemma events_add_event_ex: "\<exists>es. events (add_event e s) = events s @ es \<and> length es \<le> 1"
  using events_add_event [of e s] by (metis append_Nil2 le_numeral_extra(4) length_Cons list.size(3) One_nat_def zero_le)

lemma events_sset [simp]: "events (sset k v s) = events s" by simp

lemma sched_step_appends:
  "sched_step s s' \<Longrightarrow> \<exists>es. events s' = events s @ es \<and> length es \<le> 2"
proof (induction rule: sched_step.induct)
  case (step_record now kind issue attempt payload key s s')
  then show ?case
    using events_add_event_ex by (fastforce simp: record_event_def split: if_splits)
next
  case (step_reserve now issue worker grp deps s s' r)
  then show ?case by (auto simp: reserve_def Let_def split: if_splits)
next
  case (step_update now issue fs s s')
  then show ?case by (auto simp: update_job_def Let_def split: if_splits option.splits)
next
  case (step_repair now issue cause detail s s' b)
  then show ?case
    by (auto simp: repair_def Let_def add_event_def split: if_splits option.splits)
next
  case (step_complete now issue s)
  then show ?case by (auto simp: complete_def Let_def split: option.split)
next
  case (step_retry now issue cause detail s s' b)
  then show ?case
    by (auto simp: retry_def Let_def add_event_def split: if_splits option.splits)
qed simp

text \<open>
  The work ledger is append-only: a step of the scheduler keeps every recorded row in place
  and adds at most two (the redispatch of a blocked job adds its reservation and its cause).
\<close>

lemma ledger_append_only:
  "sched_step s s' \<Longrightarrow> \<exists>es. events s' = events s @ es \<and> length es \<le> 2"
  by (rule sched_step_appends)

definition redispatchable :: "job_row \<Rightarrow> db \<Rightarrow> bool" where
  "redispatchable j s \<longleftrightarrow>
     j_status j = Blocked \<and> (\<forall>r \<in> set (jobs s). live r \<longrightarrow> j_worker r \<noteq> j_worker j)"

text \<open>
  A redispatch of a blocked job whose worker is not held by another live job starts the next
  attempt with a fresh repair budget and no error, and records both its reservation and its cause;
  otherwise nothing changes.
\<close>

lemma retry_contract:
  assumes "db_ok s" and "job issue s = Some j" and "cause \<in> set redispatch_causes"
  shows "\<exists>s'. retry now issue cause detail s = Inr (s', redispatchable j s)
    \<and> (if redispatchable j s
       then job issue s' = Some (j\<lparr>j_status := Working, j_attempt := j_attempt j + 1,
                j_repairs := 0, j_pid := None, j_error := None, j_updated := now\<rparr>)
            \<and> (\<exists>es. events s' = events s @ mk_event ''retry-reserved'' (Some issue)
                    (Some (j_attempt j + 1)) now None (JObj []) # es)
       else s' = s)"
proof -
  let ?f = "\<lambda>j. j\<lparr>j_status := Working, j_attempt := j_attempt j + 1, j_repairs := 0,
                   j_pid := None, j_error := None, j_updated := now\<rparr>"
  let ?js = "update_row j_issue issue ?f (jobs s)"
  obtain xs ys where split: "jobs s = xs @ j # ys" "j_issue j = issue"
    using job_in [OF assms(2)] by (auto dest: split_list)
  have none: "issue \<notin> j_issue ` set xs" "issue \<notin> j_issue ` set ys"
    using assms(1) split by (auto simp: db_ok_def image_iff)
  have js: "?js = xs @ ?f j # ys"
    using split none by (simp add: update_row_absent)
  have lu: "live_unique ?js \<longleftrightarrow> (\<forall>r \<in> set (jobs s). live r \<longrightarrow> j_worker r \<noteq> j_worker j)"
    if "j_status j = Blocked"
  proof -
    have old: "live_unique (xs @ j # ys)" using assms(1) split(1) by (simp add: db_ok_def)
    have "\<not> live j" "live (?f j)" using that by (simp_all add: live_def)
    with old show ?thesis
      unfolding js unfolding split(1) live_unique_def by (auto simp: image_iff live_def)
  qed
  have find: "find_row j_issue issue ?js = Some (?f j)"
    using assms(2) by (simp add: find_row_update_row job_def)
  show ?thesis
  proof (cases "j_status j = Blocked \<and> live_unique ?js")
    case True
    with lu have "redispatchable j s" by (simp add: redispatchable_def)
    with True show ?thesis
      using assms(2,3) find by (auto simp: retry_def Let_def job_def add_event_def)
  next
    case False
    with lu have "\<not> redispatchable j s" by (auto simp: redispatchable_def)
    moreover from False have "retry now issue cause detail s = Inr (s, False)"
      using assms(2,3) by (auto simp: retry_def Let_def)
    ultimately show ?thesis by simp
  qed
qed

end
