(* ===== verification/Classify.thy ===== *)
theory Classify
  imports PyRegex Json
begin

text \<open>
  agent_pool/admission.py, first part: how the receipt and the transcript of a finished
  invocation are classified, and how a provider's delay hint is read. Durations are exact
  rationals (the source multiplies by the float 0.001); the tail is the lower-cased end of the
  transcript. \<open>show\<close> is Python's \<open>str\<close> on values that are not strings.
\<close>

definition auth_words :: "string list" where
  "auth_words = [''authentication failed'', ''authentication error'', ''unauthorized'',
     ''invalid api key'', ''invalid token'', ''http 401'', ''401 unauthorized'']"

definition credit_words :: "string list" where
  "credit_words = [''insufficient credits'', ''credit balance'', ''payment required'',
     ''http 402'', ''billing'']"

definition rate_words :: "string list" where
  "rate_words = [''rate limit'', ''ratelimit'', ''quota exceeded'', ''too many requests'',
     ''http 429'', ''429 too many'']"

definition endpoint_words :: "string list" where
  "endpoint_words = [''endpoint is unavailable'', ''unexpected server error'',
     ''internal server error'', ''bad gateway'', ''service unavailable'',
     ''connection refused'', ''econnrefused'', ''http 500'', ''http 502'',
     ''http 503'', ''http 504'']"

definition has_word :: "string list \<Rightarrow> string \<Rightarrow> bool" where
  "has_word ws tail \<longleftrightarrow> list_ex (\<lambda>w. in_text w tail) ws"

definition hint_units :: "(string \<times> rat) list" where
  "hint_units =
     [('''', 1), (''s'', 1), (''sec'', 1), (''secs'', 1), (''second'', 1), (''seconds'', 1),
      (''ms'', 1 / 1000), (''millisecond'', 1 / 1000), (''milliseconds'', 1 / 1000),
      (''m'', 60), (''min'', 60), (''mins'', 60), (''minute'', 60), (''minutes'', 60),
      (''h'', 3600), (''hr'', 3600), (''hrs'', 3600), (''hour'', 3600), (''hours'', 3600)]"

definition max_hint_delay :: int where
  "max_hint_delay = 7200"

subsection \<open>The hint patterns\<close>

text \<open>A literal under \<open>re.IGNORECASE\<close>.\<close>

definition ilit :: "string \<Rightarrow> rx" where
  "ilit s = foldr (\<lambda>c r. Seq (Chr (\<lambda>x. lower_char x = c)) r) s Empty"

definition letters :: rx where
  "letters = Rep (Chr (\<lambda>c. is_lower_az c \<or> is_upper_az c)) 0 None"
definition digits :: "nat \<Rightarrow> rx" where "digits n = Rep (Chr is_dig) 1 (Some n)"
definition sep_opt :: rx where "sep_opt = opt (one_of ''-_ '')"
definition field_end :: rx where
  "field_end = NotAhead (Chr (\<lambda>c. is_word c \<or> c = CHR ''-''))"

definition retry_after_rx :: rx where
  "retry_after_rx = seqs
     [ilit ''retry'', sep_opt, ilit ''after'', opt (Grp 1 (Seq sep_opt (ilit ''ms''))), field_end,
      opt (one_of [CHR 0x22, CHR 0x27]), spaces, one_of '':='', spaces, opt (one_of [CHR 0x22]),
      Grp 2 (digits 9), spaces, Grp 3 letters]"

definition retry_after_prose_rx :: rx where
  "retry_after_prose_rx = seqs
     [ilit ''retry'', sep_opt, ilit ''after'', field_end, spaces1, opt (one_of [CHR 0x22]),
      Grp 1 (digits 9), spaces, Grp 2 letters]"

definition reset_unit_rx :: rx where
  "reset_unit_rx = alts
     [Seq (ilit ''hour'') (opt (ilit ''s'')), Seq (ilit ''minute'') (opt (ilit ''s'')),
      Seq (ilit ''second'') (opt (ilit ''s''))]"

definition reset_after_rx :: rx where
  "reset_after_rx = seqs
     [ilit ''your limit will reset in'', spaces1,
      Grp 1 (seqs [digits 4, spaces, reset_unit_rx,
        Rep (seqs [Rep (Chr (\<lambda>c. c = CHR '','' \<or> is_space c)) 1 None,
                   opt (Seq (ilit ''and'') spaces1), digits 4, spaces, reset_unit_rx])
          0 (Some 2)])]"

definition reset_part_rx :: rx where
  "reset_part_rx = seqs [Grp 1 (Rep (Chr is_dig) 1 None), spaces, Grp 2 reset_unit_rx]"

subsection \<open>Reading a delay\<close>

definition clamp :: "rat option \<Rightarrow> rat \<Rightarrow> int option" where
  "clamp seconds cap =
     (case seconds of None \<Rightarrow> None
      | Some x \<Rightarrow> Some (min (max 1 \<lceil>x\<rceil>) (max 1 (if 0 \<le> cap then \<lfloor>cap\<rfloor> else \<lceil>cap\<rceil>))))"

definition hint_seconds :: "string \<Rightarrow> string \<Rightarrow> rat \<Rightarrow> rat option" where
  "hint_seconds val unit scale =
     (case map_of hint_units (lower unit) of
        None \<Rightarrow> None
      | Some factor \<Rightarrow> Some (of_nat (nat_of_digits val) * factor * scale))"

definition gtext :: "nat \<Rightarrow> hit \<Rightarrow> string" where
  "gtext i h = (case group i h of None \<Rightarrow> [] | Some t \<Rightarrow> t)"

definition quota_signal :: "string \<Rightarrow> bool" where
  "quota_signal tail \<longleftrightarrow> has_word rate_words tail \<or> re_search reset_after_rx tail \<noteq> None"

definition header_delay :: "string \<Rightarrow> rat option" where
  "header_delay tail =
     (case re_search retry_after_rx tail of
        None \<Rightarrow> None
      | Some h \<Rightarrow> hint_seconds (gtext 2 h) (gtext 3 h) (if gtext 1 h \<noteq> [] then 1 / 1000 else 1))"

definition prose_delay :: "string \<Rightarrow> rat option" where
  "prose_delay tail =
     (case re_search retry_after_prose_rx tail of
        None \<Rightarrow> None | Some h \<Rightarrow> hint_seconds (gtext 1 h) (gtext 2 h) 1)"

definition reset_seconds :: "string \<Rightarrow> nat" where
  "reset_seconds t =
     sum_list (map (\<lambda>h. nat_of_digits (gtext 1 h)
         * (if starts_with ''hour'' (lower (gtext 2 h)) then 3600
            else if starts_with ''minute'' (lower (gtext 2 h)) then 60 else 1))
       (re_finditer reset_part_rx t))"

definition retry_delay :: "string \<Rightarrow> rat \<Rightarrow> bool \<Rightarrow> int option" where
  "retry_delay tail max_delay rate_context =
     (case header_delay tail of
        Some d \<Rightarrow> clamp (Some d) max_delay
      | None \<Rightarrow>
          (case (if rate_context then prose_delay tail else None) of
             Some d \<Rightarrow> clamp (Some d) max_delay
           | None \<Rightarrow>
               (case re_finditer reset_after_rx tail of
                  [] \<Rightarrow> None
                | h # hs \<Rightarrow>
                    clamp (Some (of_nat (max 1 (reset_seconds (gtext 1 (last (h # hs)))))))
                      max_delay)))"

subsection \<open>Classification\<close>

datatype category =
    Success | Failure | Timeout | Stall | Rate | Endpoint | Auth | Credits

fun category_name :: "category \<Rightarrow> string" where
  "category_name Success = ''success''" | "category_name Failure = ''failure''"
| "category_name Timeout = ''timeout''" | "category_name Stall = ''stall''"
| "category_name Rate = ''rate''" | "category_name Endpoint = ''endpoint''"
| "category_name Auth = ''auth''" | "category_name Credits = ''credits''"

definition tail_of :: "string option \<Rightarrow> string" where
  "tail_of text = lower (last_n 16000 (case text of None \<Rightarrow> [] | Some t \<Rightarrow> t))"

definition exit_code :: "json \<Rightarrow> json" where
  "exit_code receipt =
     jget_or receipt ''returncode'' (jget_or receipt ''exit_code'' (JInt (- 1)))"

definition error_text :: "(json \<Rightarrow> string) \<Rightarrow> json \<Rightarrow> string" where
  "error_text show receipt =
     (case jget_or receipt ''error'' JNull of
        JStr t \<Rightarrow> t | j \<Rightarrow> if truthy j then show j else [])"

definition classify ::
  "(json \<Rightarrow> string) \<Rightarrow> json \<Rightarrow> string option \<Rightarrow> rat \<Rightarrow> category \<times> int option" where
  "classify show receipt text max_delay =
     (let tail = tail_of text in
      if jget receipt ''status'' = Some (JStr ''timeout'') then
        (if in_text ''stream error'' tail \<and> quota_signal tail
         then (Rate, retry_delay tail max_delay True)
         else if in_text ''stream error'' tail \<and> has_word endpoint_words tail
         then (Endpoint, None)
         else (Timeout, None))
      else if py_eq (exit_code receipt) (JInt 0) then (Success, None)
      else if has_word auth_words tail then (Auth, None)
      else if has_word credit_words tail then (Credits, None)
      else
        (let rate = quota_signal tail; hint = retry_delay tail max_delay rate in
         if rate then (Rate, hint)
         else if has_word endpoint_words tail then (Endpoint, hint)
         else if in_text ''treating as hang'' (lower (error_text show receipt)) then (Stall, None)
         else (Failure, None)))"

subsection \<open>Lemmas\<close>

lemma clamp_bounds:
  "clamp x cap = Some d \<Longrightarrow> 1 \<le> d \<and> d \<le> max 1 (if 0 \<le> cap then \<lfloor>cap\<rfloor> else \<lceil>cap\<rceil>)"
  by (auto simp: clamp_def split: option.splits)

lemma retry_delay_clamped:
  "retry_delay tail cap rc = Some d \<Longrightarrow> \<exists>x. clamp (Some x) cap = Some d"
  by (auto simp: retry_delay_def split: option.splits list.splits if_splits)

lemma classify_hint:
  "classify show receipt text cap = (c, Some d) \<Longrightarrow> \<exists>rc. retry_delay (tail_of text) cap rc = Some d"
  by (auto simp: classify_def Let_def split: if_splits)

text \<open>
  Every delay the classifier reports is at least one second and at most the configured
  ceiling, whatever duration the transcript claims.
\<close>

lemma classify_delay_bounded:
  assumes "classify show receipt text (of_int cap) = (c, Some d)" and "1 \<le> cap"
  shows "1 \<le> d \<and> d \<le> cap"
proof -
  obtain x where "clamp (Some x) (of_int cap) = Some d"
    using classify_hint [OF assms(1)] retry_delay_clamped by blast
  from clamp_bounds [OF this] assms(2) show ?thesis by simp
qed

text \<open>
  A category that penalises a quota group is never read off a clean exit, nor is a delay hint
  ever a rate event by itself: \<open>Rate\<close> needs a quota signal in the tail and a failed invocation,
  credentials outrank it, and a timed-out invocation is \<open>Rate\<close> or \<open>Endpoint\<close> only when the tail
  carries the provider's stream error.
\<close>

lemma classify_sound:
  assumes "classify show receipt text cap = (c, hint)"
  shows "(c = Success \<longleftrightarrow> jget receipt ''status'' \<noteq> Some (JStr ''timeout'')
              \<and> py_eq (exit_code receipt) (JInt 0))
    \<and> (c = Rate \<longrightarrow> quota_signal (tail_of text))
    \<and> (jget receipt ''status'' = Some (JStr ''timeout'') \<longrightarrow>
         c = Timeout \<or> (c \<in> {Rate, Endpoint} \<and> in_text ''stream error'' (tail_of text)))
    \<and> (hint \<noteq> None \<longrightarrow> c \<in> {Rate, Endpoint})
    \<and> (c \<in> {Failure, Stall, Endpoint, Rate} \<longrightarrow> jget receipt ''status'' \<noteq> Some (JStr ''timeout'') \<longrightarrow>
         \<not> has_word auth_words (tail_of text) \<and> \<not> has_word credit_words (tail_of text))"
  using assms by (auto simp: classify_def Let_def split: if_splits)

end
