(* ===== verification/Admission.thy ===== *)
theory Admission
  imports SchedInvariant Classify
begin

text \<open>
  agent_pool/admission.py, class Admission: the durable inference-capacity ledger. Quota groups
  come from the configuration as an ordered list; their state rows are created on first use. The
  clock reading, the jitter drawn for each group and the rendering of a float are arguments.
  \<open>instr(grps, '"name"')\<close> over the JSON text of a lease's groups is membership of the name.
\<close>

record qgroup =
  qg_models :: "string list"
  qg_initial :: int
  qg_ceiling :: int
  qg_external :: int
  qg_minimum :: int

record adm =
  quiet :: time
  cooldown :: time
  max_cooldown :: time
  hint_ceiling :: time
  max_quota_requeues :: int
  max_quota_requeue_resets :: int
  quota_requeue_delay :: time
  qgroups :: "(string \<times> qgroup) list"

subsection \<open>Construction\<close>

definition derive_groups :: "string list \<Rightarrow> (string \<Rightarrow> int option) \<Rightarrow> (string \<times> qgroup) list" where
  "derive_groups models caps =
     map (\<lambda>m. let initial = (case caps m of None \<Rightarrow> 4 | Some c \<Rightarrow> c) in
            (m, \<lparr>qg_models = [m], qg_initial = initial,
                 qg_ceiling = max (initial * 3) (initial + 1), qg_external = 0, qg_minimum = 1\<rparr>))
       (uniq models)"

definition num_or :: "json \<Rightarrow> string \<Rightarrow> time \<Rightarrow> time" where
  "num_or j k d = (case jget j k of None \<Rightarrow> d | Some v \<Rightarrow> (case num_of v of None \<Rightarrow> d | Some x \<Rightarrow> x))"

definition int_or :: "json \<Rightarrow> string \<Rightarrow> int \<Rightarrow> int" where
  "int_or j k d = (case jget j k of None \<Rightarrow> d | Some v \<Rightarrow> int_of v)"

definition mk_adm ::
  "json \<Rightarrow> (string \<times> qgroup) list \<Rightarrow> string list \<Rightarrow> (string \<Rightarrow> int option) \<Rightarrow> adm" where
  "mk_adm sched configured models caps =
     \<lparr>quiet = num_or sched ''quiet_seconds'' 2700,
      cooldown = num_or sched ''cooldown_seconds'' 600,
      max_cooldown = num_or sched ''max_cooldown_seconds'' 7200,
      hint_ceiling = max (num_or sched ''max_cooldown_seconds'' 7200) (of_int max_hint_delay),
      max_quota_requeues = int_or sched ''max_quota_requeues'' 4,
      max_quota_requeue_resets = int_or sched ''max_quota_requeue_resets'' 2,
      quota_requeue_delay = num_or sched ''quota_requeue_delay_seconds'' 900,
      qgroups = (if configured \<noteq> [] then configured else derive_groups models caps)\<rparr>"

definition group_names :: "adm \<Rightarrow> string \<Rightarrow> string list" where
  "group_names a model = map fst (filter (\<lambda>g. model \<in> set (qg_models (snd g))) (qgroups a))"

definition gcfg :: "adm \<Rightarrow> string \<Rightarrow> qgroup option" where
  "gcfg a name = map_of (qgroups a) name"

subsection \<open>Group rows\<close>

definition group_init :: "adm \<Rightarrow> string \<Rightarrow> qgroup \<Rightarrow> group_row" where
  "group_init a name c =
     \<lparr>g_name = name, g_target = qg_initial c, g_mode = Normal, g_cooldown_until = None,
      g_cooldown_len = cooldown a, g_window_start = 0, g_loaded = None, g_useful = 0,
      g_congested_at = None\<rparr>"

definition grow_of :: "string \<Rightarrow> db \<Rightarrow> group_row option" where
  "grow_of name s = find_row g_name name (groups s)"

text \<open>\<open>_group\<close>: the row, created from the configuration on first use; the row it returns.\<close>

definition ensure_group :: "adm \<Rightarrow> string \<Rightarrow> db \<Rightarrow> (db \<times> group_row) res" where
  "ensure_group a name s =
     (case grow_of name s of
        Some g \<Rightarrow> Inr (s, g)
      | None \<Rightarrow>
          (case gcfg a name of
             None \<Rightarrow> Inl (KeyError name)
           | Some c \<Rightarrow> Inr (s\<lparr>groups := groups s @ [group_init a name c]\<rparr>, group_init a name c)))"

definition set_group :: "string \<Rightarrow> (group_row \<Rightarrow> group_row) \<Rightarrow> db \<Rightarrow> db" where
  "set_group name f s = s\<lparr>groups := update_row g_name name f (groups s)\<rparr>"

definition active :: "string \<Rightarrow> db \<Rightarrow> int" where
  "active name s = int (count_if (\<lambda>l. name \<in> set (l_grps l)) (leases s))"

definition active_probes :: "string \<Rightarrow> db \<Rightarrow> int" where
  "active_probes name s = int (count_if (\<lambda>l. name \<in> set (l_grps l) \<and> l_probe l) (leases s))"

subsection \<open>Reserve\<close>

definition effective :: "adm \<Rightarrow> string \<Rightarrow> group_row \<Rightarrow> int" where
  "effective a name g =
     max 0 (g_target g - (case gcfg a name of None \<Rightarrow> 0 | Some c \<Rightarrow> qg_external c))"

definition cooling :: "time \<Rightarrow> group_row \<Rightarrow> bool" where
  "cooling now g = (case g_cooldown_until g of None \<Rightarrow> False | Some u \<Rightarrow> now < u)"

text \<open>
  The loop over the covering groups: \<open>Some probe\<close> when every group admits, \<open>None\<close> at the first
  that denies; a group at its adaptive target is marked loaded.
\<close>

fun admit_groups :: "adm \<Rightarrow> time \<Rightarrow> string list \<Rightarrow> bool \<Rightarrow> db \<Rightarrow> (db \<times> bool option) res" where
  "admit_groups a now [] probe s = Inr (s, Some probe)"
| "admit_groups a now (name # names) probe s =
     (case ensure_group a name s of
        Inl e \<Rightarrow> Inl e
      | Inr (s1, g) \<Rightarrow>
          (if g_mode g = BlockedMode \<or> cooling now g then Inr (s1, None)
           else if g_mode g = Probing then
             (if 1 \<le> active_probes name s1 \<or> max 1 (effective a name g) \<le> active name s1
              then Inr (s1, None)
              else admit_groups a now names True s1)
           else if effective a name g \<le> active name s1
             then Inr (set_group name (\<lambda>g. g\<lparr>g_loaded := Some now\<rparr>) s1, None)
           else admit_groups a now names probe s1))"

definition growing :: "adm \<Rightarrow> time \<Rightarrow> group_row \<Rightarrow> bool" where
  "growing a now g \<longleftrightarrow>
     g_mode g = Normal \<and> 1 \<le> g_useful g
     \<and> (case g_loaded g of None \<Rightarrow> False | Some l \<Rightarrow> g_window_start g \<le> l)
     \<and> quiet a \<le> now - g_window_start g"

definition grow_group :: "adm \<Rightarrow> time \<Rightarrow> string \<Rightarrow> db \<Rightarrow> db" where
  "grow_group a now name s =
     (case (grow_of name s, gcfg a name) of
        (Some g, Some c) \<Rightarrow>
          (if growing a now g
           then set_group name (\<lambda>r. r\<lparr>g_target := min (qg_ceiling c) (g_target g + 1),
                  g_window_start := now, g_useful := 0, g_loaded := None\<rparr>) s
           else s)
      | _ \<Rightarrow> s)"

definition lease_of :: "string \<Rightarrow> db \<Rightarrow> lease option" where
  "lease_of owner s = find_row l_owner owner (leases s)"

definition adm_reserve ::
  "adm \<Rightarrow> time \<Rightarrow> string \<Rightarrow> string \<Rightarrow> string option \<Rightarrow> int \<Rightarrow> db \<Rightarrow> (db \<times> bool) res" where
  "adm_reserve a now owner model clone limit s =
     (if paused s then Inr (s, False)
      else if lease_of owner s \<noteq> None then Inr (s, True)
      else if clone \<noteq> None \<and> clone \<in> l_clone ` set (leases s) then Inr (s, False)
      else if limit \<le> int (length (leases s)) then Inr (s, False)
      else
        (case admit_groups a now (group_names a model) False s of
           Inl e \<Rightarrow> Inl e
         | Inr (s1, None) \<Rightarrow> Inr (s1, False)
         | Inr (s1, Some probe) \<Rightarrow>
             (let s2 = fold (grow_group a now) (group_names a model) s1
              in Inr (s2\<lparr>leases := leases s2 @
                   [\<lparr>l_owner = owner, l_model = model, l_grps = group_names a model,
                     l_clone = clone, l_invocation = None, l_probe = probe, l_started = None,
                     l_granted = now, l_updated = now\<rparr>]\<rparr>, True))))"

definition attach :: "time \<Rightarrow> string \<Rightarrow> string option \<Rightarrow> time option \<Rightarrow> db \<Rightarrow> db" where
  "attach now owner invocation started s =
     s\<lparr>leases := update_row l_owner owner
        (\<lambda>l. l\<lparr>l_invocation := invocation, l_started := started, l_updated := now\<rparr>) (leases s)\<rparr>"

definition release :: "string \<Rightarrow> db \<Rightarrow> db" where
  "release owner s = s\<lparr>leases := filter (\<lambda>l. l_owner l \<noteq> owner) (leases s)\<rparr>"

definition reconcile :: "string list \<Rightarrow> db \<Rightarrow> db" where
  "reconcile owners s =
     (if owners \<noteq> [] then s\<lparr>leases := filter (\<lambda>l. l_owner l \<in> set owners) (leases s)\<rparr>
      else s\<lparr>leases := []\<rparr>)"

subsection \<open>Finish\<close>

text \<open>\<open>retry_after or fallback\<close>: zero and an absent hint both fall through.\<close>

definition or_time :: "time option \<Rightarrow> time \<Rightarrow> time" where
  "or_time t d = (case t of None \<Rightarrow> d | Some x \<Rightarrow> if x = 0 then d else x)"

definition outranked :: "group_row \<Rightarrow> lease \<Rightarrow> bool" where
  "outranked g l \<longleftrightarrow>
     g_mode g = BlockedMode
     \<or> (case g_congested_at g of None \<Rightarrow> False | Some c \<Rightarrow> l_granted l \<le> c)"

definition is_probe :: "lease option \<Rightarrow> bool" where
  "is_probe l = (case l of None \<Rightarrow> False | Some x \<Rightarrow> l_probe x)"

definition feedback ::
  "adm \<Rightarrow> time \<Rightarrow> time \<Rightarrow> category \<Rightarrow> time option \<Rightarrow> lease option \<Rightarrow> group_row \<Rightarrow> qgroup option
     \<Rightarrow> group_row" where
  "feedback a now jit cat hint l g c =
     (if cat = Rate \<or> cat = Endpoint then
        (if g_mode g = Normal then
           g\<lparr>g_target := max (case c of None \<Rightarrow> 1 | Some q \<Rightarrow> qg_minimum q) \<lceil>of_int (g_target g) / (2::rat)\<rceil>,
             g_mode := Probing, g_cooldown_until := Some (now + or_time hint (g_cooldown_len g) + jit),
             g_window_start := now, g_congested_at := Some now, g_useful := 0, g_loaded := None\<rparr>
         else
           g\<lparr>g_cooldown_until := Some (max (or_time (g_cooldown_until g) 0)
                 (now + or_time hint (or_time (Some (g_cooldown_len g)) (cooldown a)) + jit)),
             g_cooldown_len := (if is_probe l
                then min (max_cooldown a) (max (g_cooldown_len g) (cooldown a) * 2)
                else g_cooldown_len g),
             g_congested_at := Some now\<rparr>)
      else if cat = Auth \<or> cat = Credits then
        g\<lparr>g_mode := BlockedMode, g_cooldown_until := None, g_congested_at := Some now\<rparr>
      else if cat = Success \<and> is_probe l then
        (case l of
           Some x \<Rightarrow> (if outranked g x then g
              else g\<lparr>g_mode := Normal, g_cooldown_until := None, g_cooldown_len := cooldown a,
                     g_congested_at := None\<rparr>)
         | None \<Rightarrow> g)
      else if cat = Failure \<and> is_probe l \<and> g_mode g = Probing then
        g\<lparr>g_cooldown_until := Some (max (or_time (g_cooldown_until g) 0)
              (now + or_time (Some (g_cooldown_len g)) (cooldown a) + jit))\<rparr>
      else g)"

text \<open>\<open>self.groups[name]\<close> is read only for the congestion of a normal group.\<close>

definition needs_config :: "category \<Rightarrow> group_row \<Rightarrow> bool" where
  "needs_config cat g \<longleftrightarrow> (cat = Rate \<or> cat = Endpoint) \<and> g_mode g = Normal"

fun finish_groups ::
  "adm \<Rightarrow> time \<Rightarrow> (string \<Rightarrow> time) \<Rightarrow> category \<Rightarrow> time option \<Rightarrow> lease option \<Rightarrow> string list
     \<Rightarrow> db \<Rightarrow> db res" where
  "finish_groups a now jit cat hint l [] s = Inr s"
| "finish_groups a now jit cat hint l (name # names) s =
     (case ensure_group a name s of
        Inl e \<Rightarrow> Inl e
      | Inr (s1, g) \<Rightarrow>
          (if needs_config cat g \<and> gcfg a name = None then Inl (KeyError name)
           else finish_groups a now jit cat hint l names
                  (set_group name (\<lambda>r. feedback a now (jit name) cat hint l r (gcfg a name)) s1)))"

record meta =
  m_invocation :: "string option"
  m_model :: "string option"
  m_owner :: "string option"

definition nonempty :: "string option \<Rightarrow> string option" where
  "nonempty t = (case t of None \<Rightarrow> None | Some x \<Rightarrow> if x = [] then None else Some x)"

definition or_else :: "'a option \<Rightarrow> 'a option \<Rightarrow> 'a option" where
  "or_else x y = (case x of None \<Rightarrow> y | Some _ \<Rightarrow> x)"

definition job_owner_issue :: "string \<Rightarrow> int option" where
  "job_owner_issue owner =
     (let d = drop 4 owner in
      if starts_with ''job:'' owner \<and> d \<noteq> [] \<and> list_all is_dig d
      then Some (int (nat_of_digits d)) else None)"

definition finish ::
  "(time \<Rightarrow> string) \<Rightarrow> adm \<Rightarrow> time \<Rightarrow> (string \<Rightarrow> time) \<Rightarrow> string \<Rightarrow> meta \<Rightarrow> category \<Rightarrow> rat option
     \<Rightarrow> db \<Rightarrow> db res" where
  "finish rf a now jit owner meta cat retry_after s =
     (let hint = map_option of_int (clamp retry_after (hint_ceiling a));
          l = lease_of owner s;
          invocation = or_else (nonempty (m_invocation meta))
                         (nonempty (Option.bind l l_invocation));
          known = (case invocation of None \<Rightarrow> False
                   | Some i \<Rightarrow> i \<in> o_invocation ` set (outcomes s))
      in if known then Inr (release owner s)
         else
           (let names = (case l of Some x \<Rightarrow> l_grps x
                         | None \<Rightarrow> group_names a (case m_model meta of None \<Rightarrow> [] | Some m \<Rightarrow> m));
                oid = (case invocation of Some i \<Rightarrow> i | None \<Rightarrow> owner @ ''@'' @ rf now);
                s1 = release owner s
            in if oid \<in> o_invocation ` set (outcomes s1) then Inl IntegrityError
               else
                 (let s2 = s1\<lparr>outcomes := outcomes s1 @
                        [\<lparr>o_invocation = oid, o_owner = owner, o_grps = names,
                          o_category = category_name cat, o_useful = False, o_at = now\<rparr>]\<rparr>;
                      s3 = add_event (mk_event (''invocation:'' @ category_name cat)
                             (job_owner_issue owner) None now (Some (''outcome:'' @ oid))
                             (JObj [(''owner'', JStr owner),
                                    (''quota_groups'', JList (map JStr names))])) s2
                  in finish_groups a now jit cat hint l names s3)))"

subsection \<open>Useful, reset, summary\<close>

definition latest_outcome :: "string \<Rightarrow> db \<Rightarrow> outcome option" where
  "latest_outcome owner s =
     (case sorted_desc o_at (filter (\<lambda>r. o_owner r = owner) (outcomes s)) of
        [] \<Rightarrow> None | r # _ \<Rightarrow> Some r)"

fun credit_groups :: "adm \<Rightarrow> string list \<Rightarrow> db \<Rightarrow> db res" where
  "credit_groups a [] s = Inr s"
| "credit_groups a (name # names) s =
     (case ensure_group a name s of
        Inl e \<Rightarrow> Inl e
      | Inr (s1, g) \<Rightarrow>
          credit_groups a names (set_group name (\<lambda>r. r\<lparr>g_useful := g_useful r + 1\<rparr>) s1))"

definition useful :: "adm \<Rightarrow> meta \<Rightarrow> db \<Rightarrow> db res" where
  "useful a meta s =
     (let by_inv = Option.bind (nonempty (m_invocation meta))
            (\<lambda>i. find_row o_invocation i (outcomes s));
          row = (case by_inv of Some r \<Rightarrow> Some r
                 | None \<Rightarrow> Option.bind (nonempty (m_owner meta)) (\<lambda>w. latest_outcome w s))
      in case row of
           None \<Rightarrow> Inr s
         | Some r \<Rightarrow>
             (if o_useful r then Inr s
              else credit_groups a (o_grps r)
                (s\<lparr>outcomes := update_row o_invocation (o_invocation r)
                     (\<lambda>r. r\<lparr>o_useful := True\<rparr>) (outcomes s)\<rparr>)))"

definition reset :: "adm \<Rightarrow> time \<Rightarrow> string \<Rightarrow> db \<Rightarrow> db res" where
  "reset a now name s =
     (if gcfg a name = None then Inl (ValueError (''Unknown quota group: '' @ name))
      else case ensure_group a name s of
        Inl e \<Rightarrow> Inl e
      | Inr (s1, g) \<Rightarrow>
          Inr (set_group name (\<lambda>r. r\<lparr>g_mode := Normal, g_cooldown_until := None,
                 g_cooldown_len := cooldown a, g_window_start := now, g_congested_at := None,
                 g_useful := 0, g_loaded := None\<rparr>) s1))"

record group_overview =
  go_name :: string
  go_target :: int
  go_mode :: group_mode
  go_active :: int
  go_external :: int
  go_cooldown_until :: "time option"
  go_useful :: int
  go_loaded :: "time option"
  go_window_start :: time

definition row_overview :: "adm \<Rightarrow> db \<Rightarrow> group_row \<Rightarrow> group_overview" where
  "row_overview a s g =
     \<lparr>go_name = g_name g, go_target = g_target g, go_mode = g_mode g,
      go_active = active (g_name g) s,
      go_external = (case gcfg a (g_name g) of None \<Rightarrow> 0 | Some c \<Rightarrow> qg_external c),
      go_cooldown_until = g_cooldown_until g, go_useful = g_useful g, go_loaded = g_loaded g,
      go_window_start = g_window_start g\<rparr>"

definition summary_groups :: "adm \<Rightarrow> db \<Rightarrow> group_overview list" where
  "summary_groups a s =
     map (row_overview a s) (sort_key g_name (groups s))
     @ map (\<lambda>(name, c). row_overview a s (group_init a name c))
         (filter (\<lambda>nc. fst nc \<notin> g_name ` set (groups s)) (qgroups a))"

definition summary_outcomes :: "db \<Rightarrow> (string \<times> nat \<times> nat) list" where
  "summary_outcomes s =
     (let cats = uniq (map o_category (outcomes s));
          row = (\<lambda>c. (c, count_if (\<lambda>r. o_category r = c) (outcomes s),
                        count_if (\<lambda>r. o_category r = c \<and> o_useful r) (outcomes s)))
      in sort_key (\<lambda>r. (- int (fst (snd r)), fst r)) (map row cats))"

record adm_summary =
  as_groups :: "group_overview list"
  as_outcomes :: "(string \<times> nat \<times> nat) list"
  as_leases :: nat
  as_paused :: bool

definition summary :: "adm \<Rightarrow> db \<Rightarrow> adm_summary" where
  "summary a s = \<lparr>as_groups = summary_groups a s, as_outcomes = summary_outcomes s,
                  as_leases = length (leases s), as_paused = paused s\<rparr>"

end
