(* ===== verification/Scheduling.thy ===== *)
theory Scheduling
  imports Planning Admission
begin

text \<open>
  agent_pool/scheduling.py: the eligibility of an issue for dispatch, the read model shared by
  dispatch and explanation, when planning is due, and the operator's view of provider limits.
\<close>

definition meta_deps :: "json \<Rightarrow> int list" where
  "meta_deps m = map int_of (items_of (jget_or m ''dependencies'' JNull))"

definition missing_deps :: "json \<Rightarrow> int list \<Rightarrow> int list" where
  "missing_deps m done_ns = sort (uniq (filter (\<lambda>d. d \<notin> set done_ns) (meta_deps m)))"

text \<open>\<open>meta.get('area') or areas.issue_area(issue)\<close>\<close>

definition area_or_inferred :: "json \<Rightarrow> issue \<Rightarrow> string option res" where
  "area_or_inferred m i =
     (let a = jget_or m ''area'' JNull in
      if truthy a then Inr (Some (str_of a)) else issue_area i)"

definition falsy_text :: "string option \<Rightarrow> bool" where
  "falsy_text t = (case t of None \<Rightarrow> True | Some x \<Rightarrow> x = [])"

definition job_for :: "job_row list \<Rightarrow> int \<Rightarrow> job_row option" where
  "job_for js n = find_row j_issue n (rev js)"

definition eligibility ::
  "issue \<Rightarrow> job_row list \<Rightarrow> int list \<Rightarrow> string option \<Rightarrow> (string \<times> json option) res" where
  "eligibility i js done_ns active_improvement =
     (if i_state i \<noteq> ''OPEN'' then Inr (''closed'', None)
      else case job_for js (i_number i) of
        Some j \<Rightarrow> Inr (status_name (j_status j), None)
      | None \<Rightarrow>
          (if ''agent:ready'' \<notin> set (i_labels i) then Inr (''not-ready'', None)
           else case metadata (body_of i) of
             Inl e \<Rightarrow> if caught e then Inr (''invalid-metadata'', None) else Inl e
           | Inr m \<Rightarrow>
               res_bind (area_or_inferred m i) (\<lambda>a.
                 if falsy_text a then Inr (''missing-area'', Some m)
                 else if missing_deps m done_ns \<noteq> [] then Inr (''dependency'', Some m)
                 else
                   (let improvement = str_of (jget_or m ''improvement'' JNull) in
                    if improvement \<noteq> [] \<and> \<not> falsy_text active_improvement
                       \<and> Some improvement \<noteq> active_improvement
                    then Inr (''improvement-lane'', Some m)
                    else Inr (''ready'', Some m)))))"

record work_row =
  w_issue :: int
  w_reason :: string
  w_priority :: json
  w_area :: "string option"
  w_missing :: "int list"

text \<open>An empty metadata dictionary is falsy, as \<open>None\<close> is.\<close>

definition meta_or_none :: "json option \<Rightarrow> json option" where
  "meta_or_none m = (case m of None \<Rightarrow> None | Some x \<Rightarrow> if truthy x then Some x else None)"

definition work_row_of ::
  "job_row list \<Rightarrow> int list \<Rightarrow> string option \<Rightarrow> issue \<Rightarrow> work_row option res" where
  "work_row_of js done_ns active_improvement i =
     res_bind (eligibility i js done_ns active_improvement) (\<lambda>(reason, m).
       if reason = ''closed'' then Inr None
       else res_bind (case meta_or_none m of Some x \<Rightarrow> area_or_inferred x i | None \<Rightarrow> issue_area i)
         (\<lambda>a. Inr (Some
           \<lparr>w_issue = i_number i, w_reason = reason,
            w_priority = (case meta_or_none m of Some x \<Rightarrow> jget_or x ''priority'' JNull | None \<Rightarrow> JNull),
            w_area = a,
            w_missing = (case m of Some x \<Rightarrow> if reason = ''dependency'' then missing_deps x done_ns else []
                         | None \<Rightarrow> [])\<rparr>)))"

definition closed_numbers :: "issue list \<Rightarrow> int list" where
  "closed_numbers issues = map i_number (filter (\<lambda>i. i_state i = ''CLOSED'') issues)"

definition inventory :: "issue list \<Rightarrow> job_row list \<Rightarrow> string option \<Rightarrow> work_row list res" where
  "inventory issues js active_improvement =
     res_bind (map_res (work_row_of js (closed_numbers issues) active_improvement) issues)
       (\<lambda>rows. Inr (somes rows))"

definition due_for_planning :: "time \<Rightarrow> time \<Rightarrow> nat \<Rightarrow> nat \<Rightarrow> bool \<Rightarrow> bool" where
  "due_for_planning now last_plan ready_count armed_retries forced =
     (let elapsed = now - last_plan in
      forced \<or> 7200 \<le> elapsed \<or> (900 \<le> elapsed \<and> ready_count + armed_retries < 6))"

definition limiting_reason :: "time \<Rightarrow> group_overview \<Rightarrow> string option" where
  "limiting_reason now g =
     (if go_mode g = BlockedMode then Some ''provider-blocked''
      else if (case go_cooldown_until g of None \<Rightarrow> False | Some u \<Rightarrow> u \<noteq> 0 \<and> now < u)
        then Some ''cooldown''
      else if go_mode g = Probing then Some ''single-probe''
      else if go_target g - go_external g \<le> go_active g then Some ''target-full''
      else None)"

record explanation =
  x_counts :: "(string \<times> nat) list"
  x_armed :: "int list"
  x_groups :: "(string \<times> int \<times> int \<times> group_mode \<times> string option \<times> time option) list"
  x_issues :: "work_row list"

definition explain ::
  "issue list \<Rightarrow> job_row list \<Rightarrow> group_overview list \<Rightarrow> int list \<Rightarrow> string option \<Rightarrow> time
     \<Rightarrow> string list option \<Rightarrow> explanation res" where
  "explain issues js overview retry_issues active_improvement now configured =
     res_bind (inventory issues js active_improvement) (\<lambda>rows. Inr
       \<lparr>x_counts = map (\<lambda>r. (r, count_if (\<lambda>w. w_reason w = r) rows)) (sort (uniq (map w_reason rows))),
        x_armed = sort retry_issues,
        x_groups = map (\<lambda>g. (go_name g, go_target g, go_active g, go_mode g,
                             limiting_reason now g, go_cooldown_until g))
          (filter (\<lambda>g. case configured of None \<Rightarrow> True | Some ns \<Rightarrow> go_name g \<in> set ns) overview),
        x_issues = sort_key w_issue rows\<rparr>)"

subsection \<open>What makes an issue dispatchable\<close>

text \<open>
  An issue is classified as ready exactly when it is open, has no job, carries the ready
  label, has valid metadata with a known or inferred area, all its dependencies are closed issues,
  and it does not belong to another improvement than the active one.
\<close>

lemma eligibility_ready_iff:
  "eligibility i js done_ns act = Inr (''ready'', Some m) \<longleftrightarrow>
     i_state i = ''OPEN'' \<and> job_for js (i_number i) = None \<and> ''agent:ready'' \<in> set (i_labels i)
     \<and> metadata (body_of i) = Inr m
     \<and> (\<exists>a. area_or_inferred m i = Inr (Some a) \<and> a \<noteq> [])
     \<and> set (meta_deps m) \<subseteq> set done_ns
     \<and> (str_of (jget_or m ''improvement'' JNull) = [] \<or> falsy_text act
        \<or> act = Some (str_of (jget_or m ''improvement'' JNull)))"
proof -
  have miss: "missing_deps m' done_ns = [] \<longleftrightarrow> set (meta_deps m') \<subseteq> set done_ns" for m'
  proof -
    have "missing_deps m' done_ns = [] \<longleftrightarrow> set (missing_deps m' done_ns) = {}" by simp
    also have "\<dots> \<longleftrightarrow> set (meta_deps m') \<subseteq> set done_ns" by (auto simp: missing_deps_def)
    finally show ?thesis .
  qed
  have names: "status_name st \<noteq> ''ready''" for st by (cases st) simp_all
  show ?thesis
    using names
    by (auto simp: eligibility_def Let_def miss res_bind_Inr_iff falsy_text_def
        split: option.splits sum.splits if_splits)
qed

text \<open>
  C34: the explanation the operator sees agrees with admission: a group it shows without a
  limiting reason is one the admission ledger would admit at that moment, and a group shown as
  blocked, cooling or full is one it would deny.
\<close>

definition limit_matches :: "adm \<Rightarrow> time \<Rightarrow> string \<Rightarrow> db \<Rightarrow> group_row \<Rightarrow> bool" where
  "limit_matches a now name s g \<longleftrightarrow>
     (case limiting_reason now (row_overview a s g) of
        None \<Rightarrow> g_mode g = Normal \<and> \<not> cooling now g \<and> active name s < effective a name g
      | Some r \<Rightarrow> r = ''single-probe'' \<or> g_mode g = BlockedMode \<or> cooling now g
                \<or> effective a name g \<le> active name s)"



end
