(* ===== verification/MergeResolution.thy ===== *)
theory MergeResolution
  imports PyRegex
begin

text \<open>
  agent_pool/merge_resolution.py: the mechanical union of two append-only edits of a document.
  The merge stages git shows (base, ours, theirs) and the worktree text are arguments; the
  regeneration of Cargo.lock by cargo is a call of other programs and only its registration is
  modelled.
\<close>

subsection \<open>Keyed regions\<close>

definition row_rx :: rx where
  "row_rx = seqs
     [Bol, lit ''|'', spaces, lit ''`'', Grp 1 (Rep (not_of ''`|'') 1 None), lit ''`'', spaces,
      lit ''|'', Rep (Chr (\<lambda>c. c \<noteq> newline)) 0 None, lit ''|'', spaces, Eol]"

definition heading_rx :: rx where
  "heading_rx = seqs [Bol, Rep (one_of ''#'') 1 (Some 6), Chr is_space]"

definition landed_rx :: rx where
  "landed_rx = seqs [Bol, Rep (one_of ''#'') 2 (Some 6), spaces1, lit ''Landed'', spaces1,
                     Chr (\<lambda>c. \<not> is_space c)]"

definition keyed_row :: "string \<Rightarrow> string option" where
  "keyed_row line =
     (case re_match row_rx line of
        None \<Rightarrow> None | Some h \<Rightarrow> Some (strip (case group 1 h of None \<Rightarrow> [] | Some k \<Rightarrow> k)))"

definition is_heading :: "string \<Rightarrow> bool" where
  "is_heading line \<longleftrightarrow> re_match heading_rx line \<noteq> None"

definition is_landed :: "string \<Rightarrow> bool" where
  "is_landed line \<longleftrightarrow> re_match landed_rx line \<noteq> None"

type_synonym entry = "string \<times> string list"

fun row_entries :: "string list \<Rightarrow> entry list res" where
  "row_entries [] = Inr []"
| "row_entries (l # ls) =
     (case keyed_row l of
        None \<Rightarrow> Inl (RuntimeError ''appended residue holds a non-keyed line'')
      | Some k \<Rightarrow> res_bind (row_entries ls) (\<lambda>es. Inr ((k, [l]) # es)))"

definition row_keys :: "string list \<Rightarrow> string set" where
  "row_keys ls = {k. Some k \<in> set (map keyed_row ls)}"

text \<open>The loop over the lines, with the entries so far; a body line joins the last entry.\<close>

fun landed_from :: "entry list \<Rightarrow> string list \<Rightarrow> entry list res" where
  "landed_from es [] = Inr es"
| "landed_from es (l # ls) =
     (if is_heading l then
        (if \<not> is_landed l then Inl (RuntimeError ''appended residue holds a non-Landed heading'')
         else landed_from (es @ [(strip l, [l])]) ls)
      else if es = [] then Inl (RuntimeError ''appended residue opens with no Landed heading'')
      else landed_from (butlast es @ [(fst (last es), snd (last es) @ [l])]) ls)"

definition landed_entries :: "string list \<Rightarrow> entry list res" where
  "landed_entries ls = landed_from [] ls"

definition landed_keys :: "string list \<Rightarrow> string set" where
  "landed_keys ls = {strip l | l. l \<in> set ls \<and> is_landed l}"

text \<open>Membership tests computed from the lists of lines.\<close>

lemma row_keys_code [code]:
  "row_keys ls = set (concat (map (\<lambda>l. case keyed_row l of None \<Rightarrow> [] | Some k \<Rightarrow> [k]) ls))"
  by (induction ls) (auto simp: row_keys_def split: option.splits)

lemma landed_keys_code [code]: "landed_keys ls = set (map strip (filter is_landed ls))"
  by (auto simp: landed_keys_def)

record region =
  rg_label :: string
  rg_entries :: "string list \<Rightarrow> entry list res"
  rg_keys :: "string list \<Rightarrow> string set"

definition release_contract_region :: region where
  "release_contract_region =
     \<lparr>rg_label = ''row'', rg_entries = row_entries, rg_keys = row_keys\<rparr>"

definition qa_plan_region :: region where
  "qa_plan_region =
     \<lparr>rg_label = ''section'', rg_entries = landed_entries, rg_keys = landed_keys\<rparr>"

subsection \<open>Pure insertions\<close>

definition carries_conflict_markers :: "string list \<Rightarrow> bool" where
  "carries_conflict_markers ls \<longleftrightarrow> list_ex (starts_with ''<<<<<<<'') ls"

fun common_prefix :: "'a list \<Rightarrow> 'a list \<Rightarrow> nat" where
  "common_prefix (x # xs) (y # ys) = (if x = y then Suc (common_prefix xs ys) else 0)"
| "common_prefix _ _ = 0"

definition pure_insertion :: "'a list \<Rightarrow> 'a list \<Rightarrow> (nat \<times> 'a list) option" where
  "pure_insertion base side =
     (let p = common_prefix base side;
          s = common_prefix (rev (drop p base)) (rev (drop p side));
          inserted = drop p (take (length side - s) side)
      in if p + s \<noteq> length base then None
         else if inserted = [] then None else Some (p, inserted))"

subsection \<open>The union\<close>

definition add_entry :: "string \<Rightarrow> string set \<Rightarrow> entry \<Rightarrow> entry list \<Rightarrow> entry list res" where
  "add_entry label base_keys e acc =
     (if fst e \<in> base_keys
      then Inl (RuntimeError (''conflict append holds existing '' @ label @ '' '' @ fst e))
      else case map_of acc (fst e) of
        Some old \<Rightarrow> if old \<noteq> snd e then Inl (RuntimeError (''conflict entries diverge for '' @ fst e))
                    else Inr acc
      | None \<Rightarrow> Inr (acc @ [e]))"

definition add_side :: "region \<Rightarrow> string set \<Rightarrow> string list \<Rightarrow> entry list \<Rightarrow> entry list res" where
  "add_side rg base_keys inserted acc =
     res_bind (rg_entries rg inserted)
       (\<lambda>es. fold_res (add_entry (rg_label rg) base_keys) es acc)"

definition union_lines :: "entry list \<Rightarrow> string list" where
  "union_lines acc = concat (map snd (sort_key fst acc))"

definition resolve_lines ::
  "region \<Rightarrow> string \<Rightarrow> string list \<Rightarrow> string list \<Rightarrow> string list \<Rightarrow> string list res" where
  "resolve_lines rg path base ours theirs =
     (case (pure_insertion base ours, pure_insertion base theirs) of
        (Some (k1, ins1), Some (k2, ins2)) \<Rightarrow>
          (if k1 \<noteq> k2 then Inl (RuntimeError ''conflict sides appended at different anchors'')
           else res_bind (add_side rg (rg_keys rg base) ins1 []) (\<lambda>u1.
                res_bind (add_side rg (rg_keys rg base) ins2 u1) (\<lambda>u.
                Inr (take k1 base @ union_lines u @ drop k1 base))))
      | _ \<Rightarrow> Inl (RuntimeError (''conflict side is not a pure append of '' @ path)))"

definition resolve_keyed_append ::
  "region \<Rightarrow> string \<Rightarrow> string \<Rightarrow> string \<Rightarrow> string \<Rightarrow> string \<Rightarrow> string res" where
  "resolve_keyed_append rg path text base ours theirs =
     (if \<not> carries_conflict_markers (splitlines text)
      then Inl (RuntimeError (path @ '' carries no conflict hunk''))
      else res_bind
        (resolve_lines rg path (splitlines base) (splitlines ours) (splitlines theirs))
        (\<lambda>ls. Inr (join [newline] ls @ (if ends_with [newline] text then [newline] else []))))"

definition release_contract_path :: string where
  "release_contract_path = ''docs/release-contract.md''"

definition qa_plan_path :: string where
  "qa_plan_path = ''docs/lenovo-hardware-qa-plan.md''"

definition mechanical_resolvers :: "(string \<times> string) list" where
  "mechanical_resolvers =
     [(''Cargo.lock'', ''cargo-lockfile''), (release_contract_path, ''release-contract-union''),
      (qa_plan_path, ''qa-plan-landed-union'')]"

definition resolvers_for :: "string list \<Rightarrow> (string \<times> string) list option" where
  "resolvers_for paths =
     (if paths = [] \<or> \<not> list_all (\<lambda>p. map_of mechanical_resolvers p \<noteq> None) paths then None
      else Some (map (\<lambda>p. (p, the (map_of mechanical_resolvers p))) (uniq paths)))"

subsection \<open>A pure insertion is exactly that\<close>

lemma common_prefix_le: "common_prefix xs ys \<le> length xs" "common_prefix xs ys \<le> length ys"
  by (induction xs ys rule: common_prefix.induct) auto

lemma common_prefix_take: "take (common_prefix xs ys) xs = take (common_prefix xs ys) ys"
  by (induction xs ys rule: common_prefix.induct) auto

lemma common_prefix_eq: "common_prefix (xs @ zs) (xs @ ws) = length xs + common_prefix zs ws"
  by (induction xs) auto

lemma pure_insertion_sound:
  assumes "pure_insertion base side = Some (k, ins)"
  shows "side = take k base @ ins @ drop k base \<and> ins \<noteq> [] \<and> k \<le> length base"
proof -
  define p where "p = common_prefix base side"
  define s where "s = common_prefix (rev (drop p base)) (rev (drop p side))"
  have d: "k = p" "p + s = length base" "ins = drop p (take (length side - s) side)" "ins \<noteq> []"
    using assms unfolding pure_insertion_def Let_def p_def [symmetric] s_def [symmetric]
    by (auto split: if_splits)
  have pre: "take p side = take p base" "p \<le> length base" "p \<le> length side"
    using common_prefix_take [of base side] common_prefix_le [of base side] by (simp_all add: p_def)
  have s_le: "s \<le> length side - p"
    using common_prefix_le(2) [of "rev (drop p base)" "rev (drop p side)"] by (simp add: s_def)
  have s_eq: "s = length (drop p base)" using d(2) pre(2) by simp
  have "take s (rev (drop p base)) = take s (rev (drop p side))"
    unfolding s_def by (rule common_prefix_take)
  then have "rev (drop p base) = take s (rev (drop p side))" by (simp add: s_eq)
  then have "drop p base = rev (take s (rev (drop p side)))" by (metis rev_rev_ident)
  also have "\<dots> = drop (length side - p - s) (drop p side)"
    by (simp add: rev_take)
  also have "\<dots> = drop (length side - s) side"
    using s_le pre(3) by (simp add: add.commute)
  finally have suf: "drop p base = drop (length side - s) side" .
  have "side = take p side @ drop p (take (length side - s) side) @ drop (length side - s) side"
  proof -
    have "p \<le> length side - s" using s_le pre(3) by simp
    then have "take (length side - s) side = take p side @ drop p (take (length side - s) side)"
      by (metis append_take_drop_id min.absorb1 take_take)
    then show ?thesis by (metis append.assoc append_take_drop_id)
  qed
  with d pre suf show ?thesis by simp
qed

lemma pure_insertion_complete:
  assumes "ins \<noteq> []"
  shows "\<exists>k ins'. pure_insertion (xs @ ys) (xs @ ins @ ys) = Some (k, ins')"
proof -
  let ?base = "xs @ ys" and ?side = "xs @ ins @ ys"
  define p where "p = common_prefix ?base ?side"
  define s where "s = common_prefix (rev (drop p ?base)) (rev (drop p ?side))"
  have p: "length xs \<le> p" "p \<le> length ?base"
    using common_prefix_eq [of xs ys "ins @ ys"] common_prefix_le(1) [of ?base ?side]
    by (simp_all add: p_def)
  define j where "j = p - length xs"
  have j: "j \<le> length ys" "drop p ?base = drop j ys" using p by (auto simp: j_def)
  have "drop p ?side = drop j (ins @ ys)" using p(1) by (simp add: j_def)
  moreover have "drop j (ins @ ys) = drop j ins @ drop (j - length ins) ys" by simp
  moreover have "drop (j - length ins) ys = take (j - (j - length ins)) (drop (j - length ins) ys) @ drop j ys"
    by (metis append_take_drop_id diff_le_self drop_drop le_add_diff_inverse2)
  ultimately obtain zs where zs: "drop p ?side = zs @ drop j ys" by (metis append.assoc)
  have "s = length (drop j ys) + common_prefix (rev []) (rev zs)"
    unfolding s_def zs j(2) rev_append
    using common_prefix_eq [of "rev (drop j ys)" "[]" "rev zs"] by simp
  then have s: "s = length ?base - p" using j(1) p by (simp add: j_def)
  have "length ?side - s = p + length ins" using s p by simp
  then have "length (drop p (take (length ?side - s) ?side)) = length ins" using p by simp
  then have "drop p (take (length ?side - s) ?side) \<noteq> []"
    using assms by (metis length_0_conv)
  then show ?thesis
    using s p unfolding pure_insertion_def Let_def p_def [symmetric] s_def [symmetric] by simp
qed

subsection \<open>The contract of a keyed region\<close>

text \<open>
  What the union relies on: the entries a parser finds in a residue are the residue, line by line,
  and their keys are the keys the region reads off the same lines; keys of a text are those of its
  parts.
\<close>

locale keyed_region =
  fixes entries :: "string list \<Rightarrow> entry list res"
    and keys :: "string list \<Rightarrow> string set"
  assumes entries_lines: "entries ls = Inr es \<Longrightarrow> concat (map snd es) = ls"
    and entries_keys: "entries ls = Inr es \<Longrightarrow> fst ` set es = keys ls"
    and keys_append: "keys (xs @ ys) = keys xs \<union> keys ys"
    and keys_cong: "set xs = set ys \<Longrightarrow> keys xs = keys ys"
begin

lemma keys_concat: "keys (concat xss) = keys [] \<union> \<Union> (keys ` set xss)"
proof (induction xss)
  case (Cons a xss)
  have "keys (a @ concat xss) = keys a \<union> keys (concat xss)" by (rule keys_append)
  moreover have "keys [] \<subseteq> keys a" by (metis Un_upper2 append_Nil2 keys_append)
  ultimately show ?case using Cons by auto
qed simp

text \<open>Every entry of a residue is found in any text that holds all the residue's lines.\<close>

lemma entries_covered:
  assumes "entries ls = Inr es" and "set ls \<subseteq> set doc"
  shows "fst ` set es \<subseteq> keys doc"
proof -
  have "set (doc @ ls) = set doc" using assms(2) by auto
  then have "keys (doc @ ls) = keys doc" by (rule keys_cong)
  with keys_append [of doc ls] entries_keys [OF assms(1)] show ?thesis by auto
qed

end

subsection \<open>The two regions of the repository\<close>

lemma row_entries_lines: "row_entries ls = Inr es \<Longrightarrow> concat (map snd es) = ls"
  by (induction ls arbitrary: es) (auto simp: res_bind_Inr_iff split: option.splits)

lemma row_entries_keys: "row_entries ls = Inr es \<Longrightarrow> fst ` set es = row_keys ls"
proof (induction ls arbitrary: es)
  case (Cons l ls)
  have "row_keys (l # ls) = set_option (keyed_row l) \<union> row_keys ls"
    by (cases "keyed_row l") (auto simp: row_keys_def)
  moreover obtain k rest where "keyed_row l = Some k" "row_entries ls = Inr rest" "es = (k, [l]) # rest"
    using Cons.prems by (auto simp: res_bind_Inr_iff split: option.splits)
  ultimately show ?case using Cons.IH [of rest] by simp
qed (simp add: row_keys_def)

lemma landed_from_lines:
  "landed_from es ls = Inr out \<Longrightarrow> concat (map snd out) = concat (map snd es) @ ls"
proof (induction es ls rule: landed_from.induct)
  case (2 es l ls)
  show ?case
  proof (cases "is_heading l")
    case True
    with 2 show ?thesis by (auto split: if_splits)
  next
    case False
    with 2(3) have ne: "es \<noteq> []" by (auto split: if_splits)
    have "concat (map snd (butlast es @ [(fst (last es), snd (last es) @ [l])]))
        = concat (map snd (butlast es @ [last es])) @ [l]"
      by simp
    also have "\<dots> = concat (map snd es) @ [l]" using ne by simp
    finally show ?thesis using 2(2) [OF False ne] 2(3) False ne by simp
  qed
qed simp

text \<open>A \<open>Landed\<close> heading is a heading: the pattern of the second refines that of the first.\<close>

lemma landed_from_keys:
  assumes "\<And>l. l \<in> set ls \<Longrightarrow> is_landed l \<Longrightarrow> is_heading l"
  shows "landed_from es ls = Inr out \<Longrightarrow> fst ` set out = fst ` set es \<union> landed_keys ls"
  using assms
proof (induction es ls rule: landed_from.induct)
  case (2 es l ls)
  have step: "landed_keys (l # ls) = (if is_landed l then {strip l} else {}) \<union> landed_keys ls"
    by (auto simp: landed_keys_def)
  show ?case
  proof (cases "is_heading l")
    case True
    with 2(3) have "is_landed l" by (auto split: if_splits)
    with True 2(1,3,4) step show ?thesis by auto
  next
    case False
    with 2(3,4) have ne: "es \<noteq> []" and nl: "\<not> is_landed l" by (auto split: if_splits)
    have "fst ` set (butlast es @ [(fst (last es), snd (last es) @ [l])])
        = fst ` set (butlast es @ [last es])" by simp
    also have "\<dots> = fst ` set es" using ne by simp
    finally show ?thesis using 2(2) [OF False ne] 2(3,4) False ne nl step by simp
  qed
qed (simp add: landed_keys_def)

lemma landed_is_heading: "is_landed l \<Longrightarrow> is_heading l"
proof -
  let ?hash = "\<lambda>c. c \<in> set ''#''"
  let ?after = "foldr Seq [spaces1, lit ''Landed'', spaces1, Chr (\<lambda>c. \<not> is_space c)] Empty"
  assume "is_landed l"
  then have "rx_match landed_rx ([], l, []) \<noteq> []"
    by (simp only: is_landed_def re_match_None_iff not_False_eq_True)
  then obtain s1 where s1: "s1 \<in> set (iter (rx_match (Chr ?hash)) 6 2 ([], l, []))"
    and s2: "rx_match ?after s1 \<noteq> []"
    by (fastforce simp: landed_rx_def seqs_def one_of_def)
  from s1 obtain k where k: "2 \<le> k" "k \<le> 6" "k \<le> length (takeWhile ?hash l)"
    "s1 = (rev (take k l) @ [], drop k l, [])"
    unfolding iter_class_mem by blast
  have "rx_match spaces1 s1 \<noteq> []" using s2 by auto
  then have "iter (rx_match (Chr is_space)) (1 + length (drop k l)) 1 s1 \<noteq> []"
    using k(4) by (simp add: spaces1_def)
  then obtain s3 where "s3 \<in> set (iter (rx_match (Chr is_space)) (1 + length (drop k l)) 1
      (rev (take k l) @ [], drop k l, []))"
    using k(4) by (metis list.set_intros(1) neq_Nil_conv)
  then obtain m where "1 \<le> m" "m \<le> length (takeWhile is_space (drop k l))"
    unfolding iter_class_mem by blast
  then obtain c cs where c: "drop k l = c # cs" "is_space c"
    by (cases "drop k l") (auto split: if_splits)
  have "s1 \<in> set (iter (rx_match (Chr ?hash)) 6 1 ([], l, []))"
    unfolding iter_class_mem using k by (intro exI [of _ k]) auto
  moreover have "rx_match (Seq (Chr is_space) Empty) s1 \<noteq> []" using c k(4) by simp
  ultimately have "rx_match heading_rx ([], l, []) \<noteq> []"
    by (fastforce simp: heading_rx_def seqs_def one_of_def)
  then show "is_heading l" by (simp only: is_heading_def re_match_None_iff not_False_eq_True)
qed

interpretation rows: keyed_region row_entries row_keys
proof
  show "row_keys (xs @ ys) = row_keys xs \<union> row_keys ys" for xs ys
    by (auto simp: row_keys_def)
  show "set xs = set ys \<Longrightarrow> row_keys xs = row_keys ys" for xs ys
    by (simp add: row_keys_def)
qed (simp_all add: row_entries_lines row_entries_keys)

interpretation landed: keyed_region landed_entries landed_keys
proof
  show "landed_entries ls = Inr es \<Longrightarrow> concat (map snd es) = ls" for ls es
    using landed_from_lines [of "[]" ls es] by (simp add: landed_entries_def)
  show "landed_entries ls = Inr es \<Longrightarrow> fst ` set es = landed_keys ls" for ls es
    using landed_from_keys [of ls "[]" es] landed_is_heading by (simp add: landed_entries_def)
  show "landed_keys (xs @ ys) = landed_keys xs \<union> landed_keys ys" for xs ys
    by (auto simp: landed_keys_def)
  show "set xs = set ys \<Longrightarrow> landed_keys xs = landed_keys ys" for xs ys
    by (simp add: landed_keys_def)
qed

subsection \<open>The union does not depend on the sides' order\<close>

definition consistent :: "entry set \<Rightarrow> bool" where
  "consistent E \<longleftrightarrow> (\<forall>k e e'. (k, e) \<in> E \<longrightarrow> (k, e') \<in> E \<longrightarrow> e = e')"

lemma consistent_mono: "consistent E \<Longrightarrow> F \<subseteq> E \<Longrightarrow> consistent F"
  unfolding consistent_def by blast

lemma add_entries_spec:
  assumes "distinct (map fst acc)" and "consistent (set acc)"
  shows "(\<exists>u. fold_res (add_entry label bk) es acc = Inr u)
      \<longleftrightarrow> fst ` set es \<inter> bk = {} \<and> consistent (set acc \<union> set es)"
    and "fold_res (add_entry label bk) es acc = Inr u \<Longrightarrow>
      distinct (map fst u) \<and> set u = set acc \<union> set es"
proof -
  have both: "((\<exists>u. fold_res (add_entry label bk) es acc = Inr u)
      \<longleftrightarrow> fst ` set es \<inter> bk = {} \<and> consistent (set acc \<union> set es))
    \<and> (\<forall>u. fold_res (add_entry label bk) es acc = Inr u \<longrightarrow>
        distinct (map fst u) \<and> set u = set acc \<union> set es)"
    using assms
  proof (induction es arbitrary: acc)
    case (Cons e es)
    obtain k x where e: "e = (k, x)" by (cases e)
    consider "k \<in> bk" | "k \<notin> bk" "map_of acc k = None"
      | y where "k \<notin> bk" "map_of acc k = Some y" "y \<noteq> x"
      | "k \<notin> bk" "map_of acc k = Some x"
      by (cases "map_of acc k") auto
    then show ?case
    proof cases
      case 1
      then show ?thesis using e by (auto simp: add_entry_def)
    next
      case 2
      have new: "k \<notin> fst ` set acc" using 2(2) by (simp add: map_of_eq_None_iff)
      then have "(k, y) \<notin> set acc" for y by (auto simp: image_iff)
      then have "consistent (set (acc @ [e]))"
        using Cons.prems(2) e by (auto simp: consistent_def)
      moreover have "distinct (map fst (acc @ [e]))" using Cons.prems(1) new e by simp
      moreover have "set (acc @ [e]) \<union> set es = set acc \<union> set (e # es)" by auto
      moreover have "fold_res (add_entry label bk) (e # es) acc
          = fold_res (add_entry label bk) es (acc @ [e])"
        using 2 e by (simp add: add_entry_def)
      ultimately show ?thesis
        using Cons.IH [of "acc @ [e]"] 2(1) e by (simp only: list.set image_insert) simp
    next
      case 3
      have "(k, y) \<in> set acc" using 3(2) by (rule map_of_SomeD)
      then have "\<not> consistent (set acc \<union> set (e # es))"
        using 3(3) e unfolding consistent_def by auto
      with 3 e show ?thesis by (auto simp: add_entry_def)
    next
      case 4
      have "e \<in> set acc" using map_of_SomeD [OF 4(2)] e by simp
      then have "set acc \<union> set (e # es) = set acc \<union> set es" by auto
      moreover have "fold_res (add_entry label bk) (e # es) acc = fold_res (add_entry label bk) es acc"
        using 4 e by (simp add: add_entry_def)
      ultimately show ?thesis using Cons.IH [OF Cons.prems] 4(1) e by simp
    qed
  qed simp
  from both show "(\<exists>u. fold_res (add_entry label bk) es acc = Inr u)
      \<longleftrightarrow> fst ` set es \<inter> bk = {} \<and> consistent (set acc \<union> set es)" by blast
  from both show "fold_res (add_entry label bk) es acc = Inr u \<Longrightarrow>
      distinct (map fst u) \<and> set u = set acc \<union> set es" by blast
qed

lemma union_lines_cong:
  assumes "distinct (map fst u)" and "distinct (map fst v)" and "set u = set v"
  shows "union_lines u = union_lines v"
proof -
  have "distinct u" "distinct v" using assms(1,2) by (simp_all add: distinct_map)
  then have "mset u = mset v" using assms(3) set_eq_iff_mset_eq_distinct by blast
  then have "mset u = mset (sort_key fst v)" by simp
  moreover have "inj_on fst (set u)" using assms(1) by (simp add: distinct_map)
  ultimately have "sort_key fst u = sort_key fst v"
    by (rule sort_key_inj_key_eq) simp
  then show ?thesis by (simp add: union_lines_def)
qed

lemma resolve_lines_Inr:
  "resolve_lines rg path base a b = Inr r \<longleftrightarrow>
     (\<exists>k ia ib ea eb u. pure_insertion base a = Some (k, ia) \<and> pure_insertion base b = Some (k, ib)
        \<and> rg_entries rg ia = Inr ea \<and> rg_entries rg ib = Inr eb
        \<and> fst ` (set ea \<union> set eb) \<inter> rg_keys rg base = {} \<and> consistent (set ea \<union> set eb)
        \<and> distinct (map fst u) \<and> set u = set ea \<union> set eb
        \<and> r = take k base @ union_lines u @ drop k base)" (is "?L \<longleftrightarrow> ?R")
proof
  assume ?L
  then obtain k ia ib ea eb u1 u where
    *: "pure_insertion base a = Some (k, ia)" "pure_insertion base b = Some (k, ib)"
    "rg_entries rg ia = Inr ea" "fold_res (add_entry (rg_label rg) (rg_keys rg base)) ea [] = Inr u1"
    "rg_entries rg ib = Inr eb" "fold_res (add_entry (rg_label rg) (rg_keys rg base)) eb u1 = Inr u"
    "r = take k base @ union_lines u @ drop k base"
    by (auto simp: resolve_lines_def add_side_def res_bind_Inr_iff split: option.splits if_splits)
  have nil: "distinct (map fst ([] :: entry list))" "consistent (set ([] :: entry list))"
    by (simp_all add: consistent_def)
  have u1: "distinct (map fst u1)" "set u1 = set ea" "fst ` set ea \<inter> rg_keys rg base = {}"
    "consistent (set ea)"
    using add_entries_spec(2) [OF nil *(4)]
      iffD1 [OF add_entries_spec(1) [OF nil, of "rg_label rg" "rg_keys rg base" ea]] *(4)
    by auto
  have "consistent (set u1)" using u1 by simp
  from add_entries_spec(2) [OF u1(1) this *(6)]
    iffD1 [OF add_entries_spec(1) [OF u1(1) this, of "rg_label rg" "rg_keys rg base" eb]] *(6) u1
  have "distinct (map fst u)" "set u = set ea \<union> set eb"
    "fst ` (set ea \<union> set eb) \<inter> rg_keys rg base = {}" "consistent (set ea \<union> set eb)"
    by (auto simp: image_Un)
  with * show ?R by blast
next
  assume ?R
  then obtain k ia ib ea eb u where
    *: "pure_insertion base a = Some (k, ia)" "pure_insertion base b = Some (k, ib)"
    "rg_entries rg ia = Inr ea" "rg_entries rg ib = Inr eb"
    "fst ` (set ea \<union> set eb) \<inter> rg_keys rg base = {}" "consistent (set ea \<union> set eb)"
    "distinct (map fst u)" "set u = set ea \<union> set eb"
    "r = take k base @ union_lines u @ drop k base" by blast
  have nil: "distinct (map fst ([] :: entry list))" "consistent (set ([] :: entry list))"
    by (simp_all add: consistent_def)
  have "consistent (set ea)" by (rule consistent_mono [OF *(6)]) simp
  then have "\<exists>u1. fold_res (add_entry (rg_label rg) (rg_keys rg base)) ea [] = Inr u1"
    using *(5) add_entries_spec(1) [OF nil, of "rg_label rg" "rg_keys rg base" ea] by auto
  then obtain u1 where r1: "fold_res (add_entry (rg_label rg) (rg_keys rg base)) ea [] = Inr u1" ..
  from add_entries_spec(2) [OF nil r1] have u1: "distinct (map fst u1)" "set u1 = set ea" by auto
  have c1: "consistent (set u1)" using u1(2) \<open>consistent (set ea)\<close> by simp
  have "\<exists>v. fold_res (add_entry (rg_label rg) (rg_keys rg base)) eb u1 = Inr v"
    using *(5,6) u1(2) add_entries_spec(1) [OF u1(1) c1, of "rg_label rg" "rg_keys rg base" eb] by auto
  then obtain v where r2: "fold_res (add_entry (rg_label rg) (rg_keys rg base)) eb u1 = Inr v" ..
  from add_entries_spec(2) [OF u1(1) c1 r2] u1(2) *(7,8)
  have "union_lines v = union_lines u" by (intro union_lines_cong) auto
  with * r1 r2 show ?L by (simp add: resolve_lines_def add_side_def)
qed

lemma resolve_lines_swap:
  assumes "resolve_lines rg path base a b = Inr r"
  shows "resolve_lines rg path base b a = Inr r"
proof -
  from assms obtain k ia ib ea eb u where
    *: "pure_insertion base a = Some (k, ia)" "pure_insertion base b = Some (k, ib)"
    "rg_entries rg ia = Inr ea" "rg_entries rg ib = Inr eb"
    "fst ` (set ea \<union> set eb) \<inter> rg_keys rg base = {}" "consistent (set ea \<union> set eb)"
    "distinct (map fst u)" "set u = set ea \<union> set eb"
    "r = take k base @ union_lines u @ drop k base"
    unfolding resolve_lines_Inr by blast
  show ?thesis
    unfolding resolve_lines_Inr
    by (rule exI [of _ k], rule exI [of _ ib], rule exI [of _ ia], rule exI [of _ eb],
        rule exI [of _ ea], rule exI [of _ u]) (use * in \<open>simp add: Un_commute\<close>)
qed

text \<open>
  C31: the mechanical union is byte-identical whichever side git labels ours: swapping the sides
  gives the same document, and one order is refused exactly when the other is.
\<close>

theorem resolve_lines_commutes:
  "resolve_lines rg path base a b = Inr r \<longleftrightarrow> resolve_lines rg path base b a = Inr r"
  using resolve_lines_swap by blast

text \<open>
  The stage check accepts a side exactly when it is the base document with a nonempty block of
  lines inserted at one place and nothing else changed, and the anchor and block it reports
  reproduce the side.
\<close>

definition is_insertion :: "'a list \<Rightarrow> 'a list \<Rightarrow> bool" where
  "is_insertion base side \<longleftrightarrow> (\<exists>xs ins ys. base = xs @ ys \<and> side = xs @ ins @ ys \<and> ins \<noteq> [])"

lemma pure_insertion_iff:
  "case pure_insertion base side of
     None \<Rightarrow> \<not> is_insertion base side
   | Some (k, ins) \<Rightarrow> side = take k base @ ins @ drop k base \<and> ins \<noteq> [] \<and> k \<le> length base"
proof (cases "pure_insertion base side")
  case None
  have "\<not> is_insertion base side"
  proof
    assume "is_insertion base side"
    then obtain xs ins ys where "base = xs @ ys" "side = xs @ ins @ ys" "ins \<noteq> []"
      unfolding is_insertion_def by blast
    with pure_insertion_complete [of ins xs ys] None show False by simp
  qed
  with None show ?thesis by simp
next
  case (Some r)
  then show ?thesis using pure_insertion_sound [of base side "fst r" "snd r"] by auto
qed

lemma union_lines_set: "set (union_lines u) = \<Union> (set ` snd ` set u)"
  by (auto simp: union_lines_def)

text \<open>The result keeps the base in place and carries the lines of both sides, and only those.\<close>

definition keeps_both :: "string list \<Rightarrow> string list \<Rightarrow> string list \<Rightarrow> string list \<Rightarrow> bool" where
  "keeps_both base a b r \<longleftrightarrow>
     (\<exists>k ia ib mid. a = take k base @ ia @ drop k base \<and> b = take k base @ ib @ drop k base
        \<and> r = take k base @ mid @ drop k base \<and> set mid = set ia \<union> set ib)"

context keyed_region
begin

lemma resolve_keeps_both:
  assumes "rg_entries rg = entries" and "rg_keys rg = keys"
    and "resolve_lines rg path base a b = Inr r"
  shows "keeps_both base a b r" and "keys r = keys a \<union> keys b"
proof -
  from assms obtain k ia ib ea eb u where
    *: "pure_insertion base a = Some (k, ia)" "pure_insertion base b = Some (k, ib)"
    "entries ia = Inr ea" "entries ib = Inr eb" "set u = set ea \<union> set eb"
    "r = take k base @ union_lines u @ drop k base"
    unfolding resolve_lines_Inr by auto
  have sides: "a = take k base @ ia @ drop k base" "b = take k base @ ib @ drop k base"
    using pure_insertion_sound [OF *(1)] pure_insertion_sound [OF *(2)] by blast+
  have "set ia = \<Union> (set ` snd ` set ea)" "set ib = \<Union> (set ` snd ` set eb)"
    using arg_cong [OF entries_lines [OF *(3)], of set] arg_cong [OF entries_lines [OF *(4)], of set]
    by (simp_all add: image_image)
  then have mid: "set (union_lines u) = set ia \<union> set ib"
    by (simp add: union_lines_set *(5) image_Un)
  with sides *(6) show "keeps_both base a b r"
    unfolding keeps_both_def by blast
  have "set r = set (a @ b)" unfolding *(6) using sides mid by auto
  then have "keys r = keys (a @ b)" by (rule keys_cong)
  then show "keys r = keys a \<union> keys b" by (simp add: keys_append)
qed

end

text \<open>
  A resolved release contract and a resolved QA plan hold the whole base document in place,
  every line either side appended and no other line, and so exactly the diagnostic rows,
  respectively the Landed entries, of the two sides together.
\<close>

lemma resolution_keeps_both_sides:
  assumes "resolve_lines release_contract_region path base a b = Inr r"
    and "resolve_lines qa_plan_region path2 base2 a2 b2 = Inr r2"
  shows "keeps_both base a b r \<and> row_keys r = row_keys a \<union> row_keys b
    \<and> keeps_both base2 a2 b2 r2 \<and> landed_keys r2 = landed_keys a2 \<union> landed_keys b2"
  using rows.resolve_keeps_both [OF _ _ assms(1)] landed.resolve_keeps_both [OF _ _ assms(2)]
  by (simp add: release_contract_region_def qa_plan_region_def)

end
