(* ===== verification/Supervisor.thy ===== *)
theory Supervisor
  imports Runtime Scheduling SchedLanes MergeResolution
begin

text \<open>
  agent_pool/supervisor.py, first part: the supervisor's configuration, its programs over the
  database and the outside world, the assignment of workers, and the durable recovery of
  interrupted work. The supervisor's log lines are not modelled; what it writes to the database
  and the commands it gives are, in their order.
\<close>

subsection \<open>Programs of the supervisor\<close>

record factory =
  worker_slots :: int
  workspace_slots :: int
  max_timeout_retries :: int
  timeout_retry_delay :: time
  daily_merge_goal :: int

record sup =
  models :: "string list"
  model_caps :: "string \<Rightarrow> int option"
  admission :: adm
  factory_cfg :: "factory option"
  rt :: runtime
  repo :: string
  required_checks :: "string list"
  sup_root :: string
  planning_enabled :: bool
  poll_seconds :: time

type_synonym 'w pool = "db \<times> 'w"

definition nkey :: "string \<Rightarrow> int \<Rightarrow> string" where
  "nkey p n = p @ str_int n"

definition setting :: "string \<Rightarrow> json \<Rightarrow> ('w pool, json) prog" where
  "setting k d = get (sget k d)"

definition set_setting :: "string \<Rightarrow> json \<Rightarrow> ('w pool, unit) prog" where
  "set_setting k v = put (sset k v)"

text \<open>\<open>self.state.get(k) or {}\<close>\<close>

definition or_empty :: "json \<Rightarrow> json" where
  "or_empty j = (if truthy j then j else JObj [])"

text \<open>\<open>rec.update(k=v, ...)\<close>\<close>

definition jupdate :: "(string \<times> json) list \<Rightarrow> json \<Rightarrow> json" where
  "jupdate kvs j = fold (\<lambda>(k, v). jset k v) kvs j"

definition jopt :: "string option \<Rightarrow> json" where
  "jopt t = (case t of None \<Rightarrow> JNull | Some s \<Rightarrow> JStr s)"

definition sup_update :: "'w os \<Rightarrow> int \<Rightarrow> job_field list \<Rightarrow> ('w pool, unit) prog" where
  "sup_update X issue fs = timed X (\<lambda>now. attempt (update_job now issue fs))"

definition owner_of :: "int \<Rightarrow> string" where
  "owner_of issue = ''job:'' @ str_int issue"

definition sup_release :: "string \<Rightarrow> ('w pool, unit) prog" where
  "sup_release owner = put (release owner)"

definition sup_reserve ::
  "sup \<Rightarrow> 'w os \<Rightarrow> string \<Rightarrow> string \<Rightarrow> string \<Rightarrow> ('w pool, bool) prog" where
  "sup_reserve c X owner model clone =
     timed X (\<lambda>now. transact (\<lambda>s. adm_reserve (admission c) now owner model (Some clone) (capacity s) s))"

text \<open>The fields of process metadata that the admission ledger reads.\<close>

definition meta_of :: "json \<Rightarrow> meta" where
  "meta_of m = \<lparr>m_invocation = fopt ''invocation'' m, m_model = fopt ''model'' m,
                m_owner = fopt ''owner'' m\<rparr>"

definition sup_attach :: "'w os \<Rightarrow> string \<Rightarrow> json \<Rightarrow> ('w pool, unit) prog" where
  "sup_attach X owner m =
     timed X (\<lambda>now. put (attach now owner (fopt ''invocation'' m)
       (num_of (jget_or m ''started_at'' JNull))))"

definition sup_finish ::
  "sup \<Rightarrow> 'w os \<Rightarrow> string \<Rightarrow> json \<Rightarrow> category \<Rightarrow> int option \<Rightarrow> ('w pool, unit) prog" where
  "sup_finish c X owner m cat hint =
     timed X (\<lambda>now. doing (see (jitter X)) (\<lambda>jit.
       attempt (finish (float_text X) (admission c) now jit owner (meta_of m) cat
         (map_option of_int hint))))"

definition sup_useful :: "sup \<Rightarrow> json \<Rightarrow> ('w pool, unit) prog" where
  "sup_useful c m = attempt (useful (admission c) (meta_of m))"

subsection \<open>Workers\<close>

text \<open>\<open>int(worker.rsplit('-', 1)[1]) % len(self.models)\<close>, else the first model.\<close>

definition model_for :: "sup \<Rightarrow> string \<Rightarrow> string" where
  "model_for c worker =
     (let n = (if CHR ''-'' \<in> set worker
               then int_of_text (rev (takeWhile (\<lambda>x. x \<noteq> CHR ''-'') (rev worker))) else None)
      in case n of
           Some i \<Rightarrow> models c ! nat (i mod int (length (models c)))
         | None \<Rightarrow> hd (models c))"

definition two_digits :: "int \<Rightarrow> string" where
  "two_digits n = (if n < 10 then ''0'' @ str_int n else str_int n)"

definition worker_name :: "int \<Rightarrow> string" where
  "worker_name n = ''worker-'' @ two_digits n"

definition clone_names :: "job_row list \<Rightarrow> string list" where
  "clone_names busy = map base_name (filter (\<lambda>p. p \<noteq> []) (somes (map j_clone busy)))"

definition saturated :: "sup \<Rightarrow> job_row list \<Rightarrow> string \<Rightarrow> bool" where
  "saturated c busy model =
     (case model_caps c model of
        None \<Rightarrow> False
      | Some cap \<Rightarrow> cap \<le> int (count_if (\<lambda>j. model_for c (j_worker j) = model) busy))"

definition free_workers :: "sup \<Rightarrow> job_row list \<Rightarrow> db \<Rightarrow> string list" where
  "free_workers c busy s =
     filter (\<lambda>w. w \<notin> j_worker ` set busy \<and> w \<notin> set (clone_names busy)
         \<and> \<not> saturated c busy (model_for c w))
       (map worker_name [1..capacity s])"

definition worker_slots_used :: "db \<Rightarrow> int" where
  "worker_slots_used s = int (count_if (\<lambda>l. starts_with ''job:'' (l_owner l)) (leases s))"

definition slots_full :: "sup \<Rightarrow> db \<Rightarrow> bool" where
  "slots_full c s =
     (case factory_cfg c of None \<Rightarrow> False | Some f \<Rightarrow> worker_slots f \<le> worker_slots_used s)"

fun admit_first :: "sup \<Rightarrow> 'w os \<Rightarrow> int \<Rightarrow> string list \<Rightarrow> ('w pool, string option) prog" where
  "admit_first c X issue [] = ret None"
| "admit_first c X issue (worker # rest) =
     doing (sup_reserve c X (owner_of issue) (model_for c worker) worker) (\<lambda>ok.
       if ok then ret (Some worker) else admit_first c X issue rest)"

definition admit_worker :: "sup \<Rightarrow> 'w os \<Rightarrow> int \<Rightarrow> string list \<Rightarrow> ('w pool, string option) prog" where
  "admit_worker c X issue dirs =
     doing (get (slots_full c)) (\<lambda>full.
       if full then ret None else admit_first c X issue dirs)"

definition slots_used :: "db \<Rightarrow> int" where
  "slots_used s = int (length (list_jobs [Working, PrOpen] s))
     + (if truthy (sget ''reviewer'' JNull s) then 1 else 0)"

subsection \<open>Recording what an interrupted job left behind\<close>

definition clone_dirs :: "sup \<Rightarrow> 'w os \<Rightarrow> ('w, string list) prog" where
  "clone_dirs c X =
     except_if (\<lambda>e. case e of FileNotFoundError _ \<Rightarrow> True | TypeError _ \<Rightarrow> True
                  | AttributeError _ \<Rightarrow> True | _ \<Rightarrow> False)
       (doing (look (listdir X (pool_root (rt c)))) (\<lambda>names.
        ask (\<lambda>w. filter (\<lambda>d. exists_path X (slash d ''.git'') w)
          (map (slash (pool_root (rt c))) (sort names)))))
       (\<lambda>_. ret [])"

record preserved =
  so_clone :: string
  so_head :: string
  so_dirty :: bool
  so_wip :: bool

definition preserved_json :: "preserved \<Rightarrow> json" where
  "preserved_json p =
     JObj ([(''clone'', JStr (so_clone p)), (''head'', JStr (so_head p)), (''dirty'', JBool (so_dirty p))]
           @ (if so_wip p then [(''wip'', JBool True)] else []))"

text \<open>One checkout: no ref, an error, or a preserved source.\<close>

definition survey_clone ::
  "'w os \<Rightarrow> string \<Rightarrow> string \<Rightarrow> preserved list \<times> string list \<Rightarrow> ('w, preserved list \<times> string list) prog" where
  "survey_clone X branch dir acc =
     try_else (run_git X dir [''rev-parse'', ''--verify'', branch])
       (\<lambda>e. if is_called_process_error e then ret acc
            else ret (fst acc, snd acc @ [base_name dir @ '': '' @ exn_text e]))
       (\<lambda>head.
          if head = [] then ret acc
          else doing (except_any
              (doing (run_git X dir [''branch'', ''--show-current'']) (\<lambda>cur.
                 if cur = branch
                 then doing (run_git X dir [''status'', ''--porcelain'']) (\<lambda>st. ret (st \<noteq> []))
                 else ret False))
              (\<lambda>_. ret False)) (\<lambda>dirty.
            ret (fst acc @ [\<lparr>so_clone = dir, so_head = head, so_dirty = dirty, so_wip = False\<rparr>],
                 snd acc)))"

definition remote_probe :: "sup \<Rightarrow> 'w os \<Rightarrow> string list \<Rightarrow> string \<Rightarrow> ('w, string option) prog" where
  "remote_probe c X dirs branch =
     doing (case dirs of
              d # _ \<Rightarrow> run_git X d [''ls-remote'', ''origin'', ''refs/heads/'' @ branch]
            | [] \<Rightarrow> run_git X (sup_root c) [''ls-remote'', clone_source (rt c), ''refs/heads/'' @ branch])
       (\<lambda>out. ret (case words out of [] \<Rightarrow> None | h # _ \<Rightarrow> Some h))"

definition wip_message :: "int \<Rightarrow> string" where
  "wip_message issue = ''WIP: preserve interrupted work for issue #'' @ str_int issue"

text \<open>Uncommitted edits of a checkout no live invocation owns are committed.\<close>

definition preserve_edits ::
  "sup \<Rightarrow> 'w os \<Rightarrow> int \<Rightarrow> string \<Rightarrow> preserved \<Rightarrow> preserved list \<times> string list
     \<Rightarrow> ('w, preserved list \<times> string list) prog" where
  "preserve_edits c X issue branch p acc =
     doing (if so_dirty p then clone_owned X (rt c) (so_clone p) else ret True) (\<lambda>skip.
       if skip then ret (fst acc @ [p], snd acc)
       else try_else
         (doing (run_git X (so_clone p) [''add'', ''--all'']) (\<lambda>_.
          doing (run_git X (so_clone p) [''commit'', ''-m'', wip_message issue]) (\<lambda>_.
          run_git X (so_clone p) [''rev-parse'', branch])))
         (\<lambda>e. ret (fst acc @ [p], snd acc @ [''wip commit failed: '' @ exn_text e]))
         (\<lambda>head. ret (fst acc @ [p\<lparr>so_head := head, so_wip := True, so_dirty := False\<rparr>], snd acc)))"

text \<open>
  The verdict. \<open>work\<close> is \<open>True\<close> when edits or commits exist, \<open>False\<close> only when every place was
  surveyed without a ref, \<open>None\<close> otherwise. The exception is raised after the record was already
  changed: with a remote head but no checkout, \<open>dirs[0]\<close> does not exist.
\<close>

definition committed_verdict ::
  "'w os \<Rightarrow> string \<Rightarrow> string \<Rightarrow> json \<Rightarrow> ('w, json) prog" where
  "committed_verdict X place head rc =
     try_else (run_git X place [''diff'', ''--name-only'', ''origin/main...'' @ head])
       (\<lambda>e. ret (jupdate [(''work'', JBool True), (''basis'', JStr ''ref-unverified''),
                 (''head'', JStr head),
                 (''detail'', JStr (''could not diff against origin/main: '' @ take 500 (exn_text e)))] rc))
       (\<lambda>changed. ret (jupdate [(''work'', JBool (changed \<noteq> [])),
                 (''basis'', JStr (if changed \<noteq> [] then ''committed'' else ''clean-ref'')),
                 (''head'', JStr head)] rc))"

definition survey_verdict ::
  "'w os \<Rightarrow> string \<Rightarrow> string list \<Rightarrow> preserved list \<Rightarrow> string list \<Rightarrow> string option \<Rightarrow> string option
     \<Rightarrow> json \<Rightarrow> ('w, json \<times> exn option) prog" where
  "survey_verdict X branch dirs sources errors remote_head remote_error rc0 =
     (let rc1 = jset ''sources'' (JList (map preserved_json sources)) rc0;
          rc = (case remote_head of None \<Rightarrow> rc1 | Some h \<Rightarrow> jset ''remote_head'' (JStr h) rc1)
      in if list_ex (\<lambda>p. so_wip p \<or> so_dirty p) sources then
           ret (jupdate [(''work'', JBool True), (''basis'', JStr ''uncommitted''),
                 (''head'', JStr (so_head (hd sources)))] rc, None)
         else case (sources, remote_head, dirs) of
           (p # _, _, _) \<Rightarrow> doing (committed_verdict X (so_clone p) (so_head p) rc) (\<lambda>r. ret (r, None))
         | ([], Some h, d # _) \<Rightarrow> doing (committed_verdict X d h rc) (\<lambda>r. ret (r, None))
         | ([], Some h, []) \<Rightarrow> ret (rc, Some (OtherError ''list index out of range''))
         | ([], None, _) \<Rightarrow>
             (if errors \<noteq> [] \<or> remote_error \<noteq> None then
                ret (jupdate [(''work'', JNull), (''basis'', JStr ''unknown''),
                      (''detail'', JStr (take 2000 (join ''; ''
                         (errors @ (case remote_error of None \<Rightarrow> [] | Some e \<Rightarrow> [e])))))] rc, None)
              else ret (jupdate [(''work'', JBool False), (''basis'', JStr ''absent''),
                      (''detail'', JStr (''no ref for '' @ branch @ '' in ''
                         @ str_int (int (length dirs)) @ '' checkouts or origin''))] rc, None)))"

definition recorded_first :: "'w os \<Rightarrow> json \<Rightarrow> string list \<Rightarrow> ('w, string list) prog" where
  "recorded_first X rc dirs =
     ask (\<lambda>w. if truthy (jget_or rc ''clone'' JNull)
       then sort_key (\<lambda>d. if resolve X d w = resolve X (fstr ''clone'' rc) w then 0 else (1 :: nat)) dirs
       else dirs)"

definition survey_preserved ::
  "sup \<Rightarrow> 'w os \<Rightarrow> int \<Rightarrow> json \<Rightarrow> ('w, json \<times> exn option) prog" where
  "survey_preserved c X issue rc =
     (let branch = fstr ''branch'' rc in
      doing (clone_dirs c X) (\<lambda>found_dirs.
      doing (recorded_first X rc found_dirs) (\<lambda>dirs.
      doing (fold_prog (survey_clone X branch) dirs ([], [])) (\<lambda>found.
      doing (except_any (doing (remote_probe c X dirs branch) (\<lambda>h. ret (h, None)))
               (\<lambda>e. ret (None, Some (exn_text e)))) (\<lambda>remote.
      doing (fold_prog (preserve_edits c X issue branch) (fst found) ([], snd found)) (\<lambda>kept.
        survey_verdict X branch dirs (fst kept) (snd kept) (fst remote) (snd remote) rc))))))"

text \<open>The record of a blocked job; the retry budgets of the previous record are carried over.\<close>

definition carried :: "(string \<times> json) list" where
  "carried = [(''attempts'', JInt 0), (''timeout_requeues'', JInt 0), (''quota_requeues'', JInt 0),
     (''quota_requeue_resets'', JInt 0), (''quota_episode'', JNull), (''provider_wait'', JNull),
     (''requeue'', JNull), (''requeue_cause'', JNull)]"

definition fresh_record :: "job_row \<Rightarrow> json \<Rightarrow> time \<Rightarrow> json" where
  "fresh_record j previous now =
     JObj ([(''branch'', jopt (j_branch j)), (''clone'', jopt (j_clone j)), (''head'', JNull),
            (''basis'', JStr ''unknown''), (''work'', JNull), (''detail'', JStr []),
            (''phase'', JStr ''captured'')]
           @ map (\<lambda>(k, d). (k, jget_or previous k d)) carried
           @ [(''updated'', JFloat now)])"

definition uncertain :: "exn \<Rightarrow> json \<Rightarrow> json" where
  "uncertain e rc = jupdate [(''basis'', JStr ''unknown''), (''work'', JNull),
     (''detail'', JStr (take 2000 (exn_text e)))] rc"

definition surveyed :: "sup \<Rightarrow> 'w os \<Rightarrow> job_row \<Rightarrow> json \<Rightarrow> ('w, json) prog" where
  "surveyed c X j rc =
     (if \<not> truthy (jget_or rc ''branch'' JNull) then
        ret (jupdate [(''basis'', JStr ''no-branch''), (''work'', JBool False),
               (''detail'', JStr ''job was blocked before a branch existed'')] rc)
      else try_else (survey_preserved c X (j_issue j) rc)
             (\<lambda>e. ret (uncertain e rc))
             (\<lambda>(r, err). ret (case err of None \<Rightarrow> r | Some e \<Rightarrow> uncertain e r)))"

definition capture_recovery :: "sup \<Rightarrow> 'w os \<Rightarrow> job_row \<Rightarrow> ('w pool, json) prog" where
  "capture_recovery c X j =
     doing (setting (nkey ''recovery:'' (j_issue j)) JNull) (\<lambda>prev.
     doing (see (clock X)) (\<lambda>now.
     doing (io (surveyed c X j (fresh_record j (or_empty prev) now))) (\<lambda>rc.
       and_then (set_setting (nkey ''recovery:'' (j_issue j)) rc) (ret rc))))"

definition block :: "sup \<Rightarrow> 'w os \<Rightarrow> job_row \<Rightarrow> string \<Rightarrow> ('w pool, unit) prog" where
  "block c X j reason =
     doing (capture_recovery c X j) (\<lambda>_. steps
       [sup_release (owner_of (j_issue j)),
        sup_update X (j_issue j) [FStatus ''blocked'', FError (Some (take 4000 reason))],
        set_setting (nkey ''process:'' (j_issue j)) JNull])"

end
