(* ===== verification/Recovery.thy ===== *)
theory Recovery
  imports Supervisor
begin

text \<open>
  agent_pool/supervisor.py, second part: launching an invocation, restoring the preserved work of
  an interrupted job and relaunching it, publishing a finished job, and the mechanical completion
  of a conflicted publish merge. The prompt of a worker is prose and a parameter (\<open>prompt\<close>).
\<close>

type_synonym prompt = "issue \<Rightarrow> string \<Rightarrow> string \<Rightarrow> string"

subsection \<open>Launching\<close>

definition branch_of :: "job_row \<Rightarrow> string" where
  "branch_of j =
     (case nonempty (j_branch j) of
        Some b \<Rightarrow> b
      | None \<Rightarrow> ''codex/issue-'' @ str_int (j_issue j) @ ''-'' @ str_int (j_attempt j))"

definition launch_key :: "job_row \<Rightarrow> string" where
  "launch_key j = ''issue-'' @ str_int (j_issue j) @ ''-'' @ str_int (j_attempt j)
     @ ''-'' @ str_int (j_repairs j)"

definition quoted :: "string \<Rightarrow> string" where
  "quoted t = CHR 0x27 # t @ [CHR 0x27]"

text \<open>A prepared clone already on the wrong branch fails before the spawn.\<close>

definition checked_clone ::
  "sup \<Rightarrow> 'w os \<Rightarrow> string \<Rightarrow> string \<Rightarrow> ('w, string) prog" where
  "checked_clone c X worker branch =
     doing (prepare_clone X (rt c) worker (Some branch)) (\<lambda>clone.
     doing (run_git X clone [''branch'', ''--show-current'']) (\<lambda>actual.
       if actual \<noteq> branch
       then raise (RuntimeError (''Prepared clone '' @ base_name clone @ '' is on ''
              @ quoted (if actual = [] then ''<detached>'' else actual)
              @ '', not the assigned branch '' @ branch @ ''; refusing to spawn''))
       else ret clone))"

definition preserved_clone :: "job_row \<Rightarrow> string \<Rightarrow> string option" where
  "preserved_clone j why = (if why \<noteq> [] then nonempty (j_clone j) else None)"

definition launch_with ::
  "sup \<Rightarrow> 'w os \<Rightarrow> prompt \<Rightarrow> job_row \<Rightarrow> issue \<Rightarrow> string \<Rightarrow> ('w pool, unit) prog" where
  "launch_with c X prompt j i why =
     (let branch = branch_of j; model = model_for c (j_worker j) in
      doing (case preserved_clone j why of
               Some p \<Rightarrow> ret p | None \<Rightarrow> io (checked_clone c X (j_worker j) branch)) (\<lambda>clone.
      and_then (sup_update X (j_issue j)
                  [FBranch (Some branch), FClone (Some clone), FStatus ''working''])
     (and_then (set_setting (nkey ''launch:'' (j_issue j)) (JStr (launch_key j)))
        (doing (io (spawn X (rt c) (launch_key j) clone (prompt i branch why)
                  (if why \<noteq> [] then j_session j else None) None model)) (\<lambda>m.
          and_then (set_setting (nkey ''process:'' (j_issue j)) m)
            (sup_attach X (owner_of (j_issue j)) m))))))"

definition launch ::
  "sup \<Rightarrow> 'w os \<Rightarrow> prompt \<Rightarrow> job_row \<Rightarrow> issue \<Rightarrow> string \<Rightarrow> ('w pool, unit) prog" where
  "launch c X prompt j i why =
     doing (sup_reserve c X (owner_of (j_issue j)) (model_for c (j_worker j))
              (base_name (case preserved_clone j why of Some p \<Rightarrow> p | None \<Rightarrow> j_worker j))) (\<lambda>ok.
       if \<not> ok then raise (AdmissionDenied (''Inference admission denied for '' @ owner_of (j_issue j)))
       else except_any (launch_with c X prompt j i why)
              (\<lambda>e. and_then (sup_release (owner_of (j_issue j))) (raise e)))"

subsection \<open>Restoring preserved work\<close>

definition switch_to_branch :: "'w os \<Rightarrow> string \<Rightarrow> string \<Rightarrow> string option \<Rightarrow> ('w, unit) prog" where
  "switch_to_branch X target branch head =
     except_if is_called_process_error
       (doing (run_git X target [''rev-parse'', ''--verify'', branch]) (\<lambda>_.
        doing (run_git X target [''switch'', branch]) (\<lambda>_. ret ())))
       (\<lambda>_. case head of
          Some h \<Rightarrow> doing (run_git X target [''switch'', ''-c'', branch, h]) (\<lambda>_. ret ())
        | None \<Rightarrow> raise (RecoveryUncertain (''branch '' @ branch @ '' missing from '' @ base_name target)))"

definition restore_in_place ::
  "'w os \<Rightarrow> int \<Rightarrow> string \<Rightarrow> string option \<Rightarrow> string \<Rightarrow> ('w, string) prog" where
  "restore_in_place X issue branch head target =
     doing (run_git X target [''branch'', ''--show-current'']) (\<lambda>current.
     doing (run_git X target [''status'', ''--porcelain'']) (\<lambda>dirty.
       and_then
         (if current \<noteq> branch then
            (if dirty \<noteq> [] then raise (RecoveryUncertain (base_name target @ '' is dirty on ''
                 @ current @ ''; refusing to switch''))
             else switch_to_branch X target branch head)
          else only_if (dirty \<noteq> [])
            (doing (run_git X target [''add'', ''--all'']) (\<lambda>_.
             doing (run_git X target [''commit'', ''-m'', wip_message issue]) (\<lambda>_. ret ()))))
         (doing (run_git X target [''rev-parse'', ''HEAD'']) (\<lambda>now_at.
            case head of
              None \<Rightarrow> ret now_at
            | Some h \<Rightarrow>
                (if now_at = h then ret now_at
                 else try_else (run_git X target [''merge-base'', ''--is-ancestor'', h, ''HEAD''])
                   (\<lambda>e. if is_called_process_error e
                      then doing (run_git X target [''reset'', ''--hard'', h]) (\<lambda>_. ret h)
                      else raise e)
                   (\<lambda>_. ret now_at))))))"

fun fetch_from :: "'w os \<Rightarrow> string \<Rightarrow> string \<Rightarrow> string list \<Rightarrow> string list \<Rightarrow> ('w, unit) prog" where
  "fetch_from X target branch [] errors =
     raise (RecoveryUncertain (''no reachable ref for '' @ branch @ ''; tried ''
       @ take 1000 (join ''; '' errors)))"
| "fetch_from X target branch (source # rest) errors =
     try_else (run_git X target [''fetch'', source,
                 ''+refs/heads/'' @ branch @ '':refs/heads/'' @ branch])
       (\<lambda>e. case e of
          CalledProcessError m out err \<Rightarrow>
            fetch_from X target branch rest (errors @ [source @ '': '' @ (if err = [] then m else err)])
        | _ \<Rightarrow> raise e)
       (\<lambda>_. ret ())"

definition restore_elsewhere ::
  "sup \<Rightarrow> 'w os \<Rightarrow> string \<Rightarrow> string option \<Rightarrow> string list \<Rightarrow> string \<Rightarrow> string \<Rightarrow> ('w, string) prog" where
  "restore_elsewhere c X branch head sources target worker =
     doing (prepare_clone X (rt c) worker None) (\<lambda>_.
     and_then (fetch_from X target branch (sources @ [''origin'']) [])
       (doing (run_git X target [''switch'', branch]) (\<lambda>_.
        doing (run_git X target [''rev-parse'', ''HEAD'']) (\<lambda>now_at.
          case head of
            None \<Rightarrow> ret now_at
          | Some h \<Rightarrow>
              (if now_at = h then ret now_at
               else except_if is_called_process_error
                 (doing (run_git X target [''reset'', ''--hard'', h]) (\<lambda>_. ret h))
                 (\<lambda>_. raise (RecoveryUncertain (''recorded head '' @ take 8 h
                     @ '' not reachable from fetched '' @ branch))))))))"

definition restore_preserved ::
  "sup \<Rightarrow> 'w os \<Rightarrow> int \<Rightarrow> json \<Rightarrow> string \<Rightarrow> string \<Rightarrow> ('w, string) prog" where
  "restore_preserved c X issue rc target worker =
     (let branch = fstr ''branch'' rc; head = nonempty (fopt ''head'' rc);
          sources = map (fstr ''clone'') (items_of (jget_or rc ''sources'' (JList []))) in
      doing (ask (is_dir X target)) (\<lambda>there.
        if nonempty (fopt ''clone'' rc) = Some target \<and> there
        then restore_in_place X issue branch head target
        else restore_elsewhere c X branch head sources target worker))"

definition fresh_start :: "sup \<Rightarrow> 'w os \<Rightarrow> string \<Rightarrow> string \<Rightarrow> string \<Rightarrow> ('w, unit) prog" where
  "fresh_start c X branch target worker =
     doing (prepare_clone X (rt c) worker None) (\<lambda>_.
       except_if is_called_process_error
         (doing (run_git X target [''switch'', ''-c'', branch, ''origin/main'']) (\<lambda>_. ret ()))
         (\<lambda>_. try_else (run_git X target [''diff'', ''--name-only'', ''origin/main...'' @ branch])
           (\<lambda>e. if is_called_process_error e
              then raise (RecoveryUncertain (''cannot verify leftover ref '' @ branch @ '': '' @ exn_text e))
              else raise e)
           (\<lambda>changed.
              if changed \<noteq> [] then raise (RecoveryUncertain (''leftover ref '' @ branch
                   @ '' carries work; refusing fresh start''))
              else doing (run_git X target [''switch'', ''-C'', branch, ''origin/main'']) (\<lambda>_. ret ()))))"

subsection \<open>Relaunching an interrupted job\<close>

definition recovery_key :: "int \<Rightarrow> string" where "recovery_key n = nkey ''recovery:'' n"
definition retry_key :: "int \<Rightarrow> string" where "retry_key n = nkey ''retry:'' n"

text \<open>\<open>re.fullmatch(r'worker-\d+', name)\<close>\<close>

definition is_worker_clone :: "string \<Rightarrow> bool" where
  "is_worker_clone name \<longleftrightarrow>
     starts_with ''worker-'' name \<and> drop 7 name \<noteq> [] \<and> list_all is_dig (drop 7 name)"

definition own_clone_free ::
  "'w os \<Rightarrow> json \<Rightarrow> job_row list \<Rightarrow> ('w, string option) prog" where
  "own_clone_free X rc busy =
     ask (\<lambda>w. case nonempty (fopt ''clone'' rc) of
        None \<Rightarrow> None
      | Some p \<Rightarrow>
          (if truthy (jget_or rc ''work'' JNull) \<and> is_worker_clone (base_name p) \<and> is_dir X p w
              \<and> resolve X p w \<notin> (\<lambda>q. resolve X q w) ` set (somes (map (nonempty \<circ> j_clone) busy))
           then Some p else None))"

text \<open>The checkout and worker of a retry: its own clone when free, else a free worker.\<close>

definition pick_workspace ::
  "sup \<Rightarrow> 'w os \<Rightarrow> int \<Rightarrow> json \<Rightarrow> job_row list \<Rightarrow> ('w pool, (string \<times> string) option) prog" where
  "pick_workspace c X number rc busy =
     doing (get (free_workers c busy)) (\<lambda>free.
     doing (io (own_clone_free X rc busy)) (\<lambda>own.
     doing (case own of
              Some p \<Rightarrow> doing (sup_reserve c X (owner_of number) (model_for c (base_name p)) (base_name p))
                         (\<lambda>ok. ret (if ok then Some (p, base_name p) else None))
            | None \<Rightarrow> ret None) (\<lambda>mine.
       case mine of
         Some t \<Rightarrow> ret (Some t)
       | None \<Rightarrow>
           (if free = [] then ret None
            else doing (admit_worker c X number free) (\<lambda>w.
              ret (map_option (\<lambda>w. (slash (pool_root (rt c)) w, w)) w))))))"

definition restore_work ::
  "sup \<Rightarrow> 'w os \<Rightarrow> int \<Rightarrow> json \<Rightarrow> string \<Rightarrow> string \<Rightarrow> ('w, string) prog" where
  "restore_work c X number rc target worker =
     (if truthy (jget_or rc ''work'' JNull) then
        doing (restore_preserved c X number rc target worker) (\<lambda>head.
          ret (''Retry after recovery: preserved work restored at '' @ take 8 head @ '' on ''
               @ fstr ''branch'' rc @ ''; continue and complete it.''))
      else and_then (fresh_start c X (fstr ''branch'' rc) target worker)
        (ret ''Retry after recovery: no preserved work existed; starting from current main.''))"

definition recovery_failed ::
  "'w os \<Rightarrow> int \<Rightarrow> json \<Rightarrow> exn \<Rightarrow> ('w pool, bool) prog" where
  "recovery_failed X number rc e =
     (let attempts = int_of (jget_or rc ''attempts'' (JInt 0)) + 1;
          rc1 = jupdate [(''phase'', JStr ''error''), (''attempts'', JInt attempts),
                         (''detail'', JStr (take 2000 (exn_text e)))] rc
      in and_then (steps
           [sup_release (owner_of number), set_setting (recovery_key number) rc1,
            only_if (3 \<le> attempts) (set_setting (retry_key number) (JBool False)),
            sup_update X number [FError (Some (''Recovery failed: '' @ take 2000 (exn_text e)))]])
         (ret False))"

definition redispatch_cause :: "json \<Rightarrow> string" where
  "redispatch_cause flag =
     (case flag of JStr t \<Rightarrow> if t \<in> set redispatch_causes then t else ''worker-failure''
      | _ \<Rightarrow> ''worker-failure'')"

definition delay_detail :: "string \<Rightarrow> json \<Rightarrow> (string \<times> json) list" where
  "delay_detail cause rc =
     (let requeue = jget_or rc ''requeue'' JNull in
      if cause \<in> {''quota-requeue'', ''kill-requeue''} \<and> truthy requeue
      then [(''delay'', JObj [(''source'', jget_or requeue ''source'' JNull),
                             (''seconds'', jget_or requeue ''seconds'' JNull)])]
      else [])"

definition done_record :: "json \<Rightarrow> string \<Rightarrow> json" where
  "done_record rc target =
     jupdate [(''phase'', JStr ''done''), (''target_clone'', JStr target), (''requeue'', JNull),
              (''requeue_cause'', JNull), (''quota_episode'', JNull), (''provider_wait'', JNull)] rc"

text \<open>The relaunch: the attempt is counted, then launched; the retry flag is consumed at the end.\<close>

definition relaunch ::
  "sup \<Rightarrow> 'w os \<Rightarrow> prompt \<Rightarrow> job_row \<Rightarrow> json \<Rightarrow> issue \<Rightarrow> string \<Rightarrow> string \<Rightarrow> string
     \<Rightarrow> ('w pool, bool) prog" where
  "relaunch c X prompt j rc i target worker why =
     (let number = j_issue j in
      and_then (sup_update X number [FWorker worker, FClone (Some target)])
     (doing (setting (retry_key number) JNull) (\<lambda>flag.
      let cause = redispatch_cause flag in
      doing (timed X (\<lambda>now. transact (retry now number cause (delay_detail cause rc)))) (\<lambda>ok.
        if \<not> ok then and_then (sup_release (owner_of number))
          (and_then (sup_update X number [FError (Some ''Retry rejected: repair budget exhausted'')])
             (ret False))
        else and_then
          (only_if (factory_cfg c \<noteq> None \<and> cause \<in> {''quota-requeue'', ''timeout-requeue'', ''kill-requeue''})
             (sup_update X number [FRepairs (j_repairs j)]))
          (doing (get (job number)) (\<lambda>row.
           try_else (case row of None \<Rightarrow> raise (TypeError ''NoneType'') | Some j1 \<Rightarrow> launch c X prompt j1 i why)
             (\<lambda>e. ret False)
             (\<lambda>_. and_then (set_setting (recovery_key number) (done_record rc target))
                (and_then (set_setting (retry_key number) (JBool False)) (ret True)))))))))"

definition with_branch :: "job_row \<Rightarrow> json \<Rightarrow> json" where
  "with_branch j rc =
     (if truthy (jget_or rc ''branch'' JNull) then rc else jset ''branch'' (JStr (branch_of j)) rc)"

definition uncertain_detail :: "json \<Rightarrow> string" where
  "uncertain_detail rc =
     (if truthy (jget_or rc ''detail'' JNull) then fstr ''detail'' rc
      else ''preserved-work state could not be established'')"

definition recover_job ::
  "sup \<Rightarrow> 'w os \<Rightarrow> prompt \<Rightarrow> job_row \<Rightarrow> json \<Rightarrow> job_row list \<Rightarrow> issue \<Rightarrow> ('w pool, bool) prog" where
  "recover_job c X prompt j rc0 busy i =
     (let number = j_issue j in
      doing (get (slots_full c)) (\<lambda>full.
        if full then ret False
        else if jget_or rc0 ''work'' JNull = JNull then
          and_then (sup_update X number [FError (Some (''Recovery uncertain: '' @ uncertain_detail rc0))])
            (and_then (set_setting (recovery_key number) (jset ''phase'' (JStr ''error'') rc0)) (ret False))
        else (let rc = with_branch j rc0 in
          doing (pick_workspace c X number rc busy) (\<lambda>pick. case pick of
            None \<Rightarrow> and_then (set_setting (recovery_key number) (jset ''phase'' (JStr ''waiting'') rc)) (ret False)
          | Some (target, worker) \<Rightarrow>
              (let rc1 = jupdate [(''phase'', JStr ''leased''), (''target_clone'', JStr target),
                                  (''worker'', JStr worker)] rc
               in and_then (set_setting (recovery_key number) rc1)
                    (try_else (io (restore_work c X number rc1 target worker))
                       (recovery_failed X number rc1)
                       (relaunch c X prompt j rc1 i target worker)))))))"

end
