(* ===== verification/MergeFlow.thy ===== *)
theory MergeFlow
  imports SchedInvariant Areas MergeResolution
begin

text \<open>
  agent_pool/merge_flow.py and State.merge_flow: the read-only classification of the work ledger
  into repairs, redispatches, parks and completions per window. A \<open>Counter\<close> is the list of the
  names it counted. Ledger rows carry decoded payloads and always a numeric time.
\<close>

subsection \<open>Vocabulary\<close>

definition park_causes :: "string list" where
  "park_causes = [''quota-kill'', ''timeout'', ''stall-kill'', ''ci-failure'',
     ''merge-conflict'', ''publish-error'', ''worker-failure'', ''other'']"

definition dispatch_kinds :: "string list" where
  "dispatch_kinds = [''reserved'', ''retry-reserved'']"

definition quota_invocations :: "string list" where
  "quota_invocations = [''rate'', ''endpoint'', ''auth'', ''credits'']"

definition worker_failure_markers :: "string list" where
  "worker_failure_markers = [''local agent failed'', ''agent reported a blocker'',
     ''missing process record'', ''recovery failed'']"

definition check_record_mark :: string where
  "check_record_mark = ''as read-only diagnostics. ''"

definition mechanical_resolution_kind :: string where
  "mechanical_resolution_kind = ''mechanical-resolution''"

definition registered_resolution_paths :: "string list" where
  "registered_resolution_paths = map fst mechanical_resolvers"

record window =
  w_lo :: time
  w_hi :: time

definition window_bounds :: "time \<Rightarrow> time \<Rightarrow> window \<times> window" where
  "window_bounds now w =
     (let boundary = now - w in
      (\<lparr>w_lo = boundary - w, w_hi = boundary\<rparr>, \<lparr>w_lo = boundary, w_hi = now\<rparr>))"

definition in_window :: "window \<Rightarrow> event \<Rightarrow> bool" where
  "in_window w e \<longleftrightarrow> w_lo w \<le> e_at e \<and> e_at e < w_hi w"

subsection \<open>Reading a row\<close>

definition safe_issue_area :: "issue \<Rightarrow> string option" where
  "safe_issue_area i = (case issue_area i of Inl _ \<Rightarrow> None | Inr a \<Rightarrow> a)"

definition event_payload :: "event \<Rightarrow> json" where
  "event_payload e = (if is_obj (e_payload e) then e_payload e else JObj [])"

definition event_cause :: "event \<Rightarrow> string option" where
  "event_cause e =
     (case jget_or (event_payload e) ''cause'' JNull of
        JStr c \<Rightarrow> if c = [] then None else Some c | _ \<Rightarrow> None)"

definition payload_names :: "event \<Rightarrow> string \<Rightarrow> string list" where
  "payload_names e k =
     (let v = jget_or (event_payload e) k JNull;
          items = (if is_str v then [v] else items_of v)
      in filter (\<lambda>n. n \<noteq> []) (map str_of (filter is_str items)))"

text \<open>\<open>s.rsplit(mark, 1)[1]\<close>: what follows the last occurrence.\<close>

fun after_last :: "string \<Rightarrow> string \<Rightarrow> string" where
  "after_last n [] = []"
| "after_last n (c # cs) =
     (if in_text n cs then after_last n cs
      else if prefix n (c # cs) then drop (length n) (c # cs) else after_last n cs)"

definition job_check_names :: "job_row option \<Rightarrow> string list" where
  "job_check_names j =
     (let err = (case j of None \<Rightarrow> [] | Some r \<Rightarrow> (case j_error r of None \<Rightarrow> [] | Some t \<Rightarrow> t)) in
      if \<not> in_text check_record_mark err then []
      else case loads (strip (after_last check_record_mark err)) of
        Some (JObj kvs) \<Rightarrow> sort (map fst kvs)
      | _ \<Rightarrow> [])"

subsection \<open>Ranking and load\<close>

type_synonym ranking = "(string \<times> nat) list"

definition tally :: "string list \<Rightarrow> ranking" where
  "tally names = map (\<lambda>n. (n, count_list names n)) (uniq names)"

definition by_name :: "string list \<Rightarrow> ranking" where
  "by_name names = sort_key fst (tally names)"

definition ranked :: "string list \<Rightarrow> (string \<times> nat) list \<Rightarrow> ranking" where
  "ranked names buckets =
     fold (\<lambda>(name, n) r. if 0 < n then AList.update name n r else r) buckets
       (sort_key (\<lambda>(n, c). (- int c, n)) (tally names))"

fun covering :: "nat \<Rightarrow> nat \<Rightarrow> nat \<Rightarrow> nat list \<Rightarrow> nat" where
  "covering attributed running k [] = k"
| "covering attributed running k (c # cs) =
     (if attributed \<le> (running + c) * 2 then Suc k else covering attributed (running + c) (Suc k) cs)"

definition conflict_load :: "nat \<Rightarrow> string list \<Rightarrow> string" where
  "conflict_load repairs paths =
     (if repairs = 0 then ''none''
      else if paths = [] then ''unattributed''
      else if covering (length paths) 0 0 (sorted_desc id (map snd (tally paths))) \<le> 2
        then ''concentrated'' else ''spread'')"

definition resolved_paths :: "event \<Rightarrow> string list" where
  "resolved_paths e =
     filter (\<lambda>p. p \<noteq> []) (map fst (fields_of (jget_or (event_payload e) ''resolvers'' JNull)))"

record resolution_classes =
  rc_resolved :: ranking
  rc_registered_unresolved :: ranking
  rc_unregistered :: ranking

definition path_resolution_classes :: "string list \<Rightarrow> string list \<Rightarrow> string list \<Rightarrow> resolution_classes" where
  "path_resolution_classes paths resolved registered =
     \<lparr>rc_resolved = ranked resolved [],
      rc_registered_unresolved = ranked (filter (\<lambda>p. p \<in> set registered) paths) [],
      rc_unregistered = ranked (filter (\<lambda>p. p \<notin> set registered) paths) []\<rparr>"

subsection \<open>Repair attribution\<close>

definition of_kind :: "string \<Rightarrow> event list \<Rightarrow> event list" where
  "of_kind k = filter (\<lambda>e. e_kind e = k)"

definition cause_or :: "event \<Rightarrow> string" where
  "cause_or e = (case event_cause e of None \<Rightarrow> ''unclassified'' | Some c \<Rightarrow> c)"

definition job_of :: "job_row list \<Rightarrow> int option \<Rightarrow> job_row option" where
  "job_of js i = Option.bind i (\<lambda>n. find_row j_issue n js)"

definition area_of_event :: "issue list \<Rightarrow> event \<Rightarrow> string" where
  "area_of_event issues e =
     (case Option.bind (Option.bind (e_issue e) (\<lambda>n. find_row i_number n issues)) safe_issue_area of
        None \<Rightarrow> ''unresolved'' | Some a \<Rightarrow> if a = [] then ''unresolved'' else a)"

definition check_names_of :: "job_row list \<Rightarrow> event \<Rightarrow> string list" where
  "check_names_of js e =
     (let names = payload_names e ''checks'' in
      if names \<noteq> [] then names else job_check_names (job_of js (e_issue e)))"

record attribution =
  ra_repairs_by_cause :: ranking
  ra_redispatches_by_cause :: ranking
  ra_repairs_by_area :: "(string \<times> ranking) list"
  ra_conflict_repairs :: nat
  ra_mechanical_resolutions :: nat
  ra_conflict_paths :: ranking
  ra_conflict_load :: string
  ra_by_resolution :: resolution_classes
  ra_on_registered_paths :: nat
  ra_failing_checks :: ranking

definition repair_attribution ::
  "event list \<Rightarrow> window \<Rightarrow> issue list \<Rightarrow> job_row list \<Rightarrow> attribution" where
  "repair_attribution evs w issues js =
     (let es = filter (in_window w) evs;
          repairs = of_kind ''repair'' es;
          mech = of_kind mechanical_resolution_kind es;
          conflicts = filter (\<lambda>e. cause_or e = ''merge-conflict'') repairs;
          pathed = filter (\<lambda>e. payload_names e ''paths'' \<noteq> []) conflicts;
          bare = filter (\<lambda>e. payload_names e ''paths'' = []) conflicts;
          paths = concat (map (\<lambda>e. payload_names e ''paths'') conflicts);
          pathless = filter (\<lambda>e. truthy (jget_or (event_payload e) ''pathless'' JNull)) bare;
          ci = filter (\<lambda>e. cause_or e = ''ci-failure'') repairs;
          areas = map (area_of_event issues) repairs
      in \<lparr>ra_repairs_by_cause = by_name (map cause_or repairs),
          ra_redispatches_by_cause = by_name (map cause_or (of_kind ''redispatch'' es)),
          ra_repairs_by_area = map (\<lambda>a. (a, by_name (map cause_or
             (filter (\<lambda>e. area_of_event issues e = a) repairs)))) (sort (uniq areas)),
          ra_conflict_repairs = length conflicts,
          ra_mechanical_resolutions = length mech,
          ra_conflict_paths = ranked paths
             [(''pathless'', length pathless), (''unclassified'', length bare - length pathless)],
          ra_conflict_load = conflict_load (length conflicts) paths,
          ra_by_resolution = path_resolution_classes paths (concat (map resolved_paths mech))
             registered_resolution_paths,
          ra_on_registered_paths = count_if
             (\<lambda>e. list_all (\<lambda>p. p \<in> set registered_resolution_paths) (payload_names e ''paths'')) pathed,
          ra_failing_checks = ranked (concat (map (check_names_of js) ci))
             [(''unclassified'', count_if (\<lambda>e. check_names_of js e = []) ci)]\<rparr>)"

subsection \<open>Parks\<close>

definition resumes :: "event \<Rightarrow> bool" where
  "resumes e \<longleftrightarrow>
     e_kind e \<in> set dispatch_kinds
     \<or> e_kind e \<in> {''redispatch'', ''repair'', ''merged-and-closed''}
     \<or> starts_with ''status:'' (e_kind e)"

definition last_repair_cause :: "event list \<Rightarrow> string" where
  "last_repair_cause repairs =
     (case event_cause (last repairs) of None \<Rightarrow> ''other'' | Some c \<Rightarrow> c)"

definition block_cause :: "event \<Rightarrow> event list \<Rightarrow> job_row option \<Rightarrow> string" where
  "block_cause park history j =
     (let before = filter (\<lambda>e. e_at e \<le> e_at park) history;
          later = filter (\<lambda>e. e_at park < e_at e) history;
          dispatched = map e_at (filter (\<lambda>e. e_kind e \<in> set dispatch_kinds) before);
          attempt = (if dispatched = [] then before
                     else filter (\<lambda>e. Max (set dispatched) \<le> e_at e) before);
          invocations = filter (\<lambda>e. starts_with ''invocation:'' (e_kind e)) attempt;
          last_inv = (if invocations = [] then None
                      else Some (drop (length ''invocation:'') (e_kind (last invocations))));
          repairs = of_kind ''repair'' attempt;
          terminal = \<not> list_ex resumes later;
          err = (case j of
                   None \<Rightarrow> []
                 | Some r \<Rightarrow> (if terminal \<and> j_status r = Blocked
                             then (case j_error r of None \<Rightarrow> [] | Some t \<Rightarrow> t) else []));
          t = lower err;
          q = quote
      in if err \<noteq> [] \<and> in_text ''repair limit exhausted'' t then
           (if in_text ''merge conflict'' t then ''merge-conflict''
            else if in_text ''ci failed'' t then ''ci-failure''
            else if repairs \<noteq> [] then last_repair_cause repairs else ''other'')
         else if err \<noteq> [] \<and> in_text ''treating as hang'' t then ''stall-kill''
         else if err \<noteq> [] \<and>
             (in_text ([q] @ ''status'' @ [q] @ '': '' @ [q] @ ''timeout'' @ [q]) t
              \<or> in_text ([q] @ ''status'' @ [q] @ '':'' @ [q] @ ''timeout'' @ [q]) t)
           then ''timeout''
         else if last_inv \<noteq> None \<and> the last_inv \<in> set quota_invocations then ''quota-kill''
         else if last_inv = Some ''timeout'' then ''timeout''
         else if last_inv = Some ''stall'' then ''stall-kill''
         else if (case of_kind ''redispatch'' later of
                    [] \<Rightarrow> False | r # _ \<Rightarrow> event_cause r = Some ''quota-requeue'') then ''quota-kill''
         else if last_inv = Some ''failure'' then ''worker-failure''
         else if err \<noteq> [] then
           (if list_ex (\<lambda>m. in_text m t) worker_failure_markers then ''worker-failure'' else ''other'')
         else if 3 \<le> length repairs then last_repair_cause repairs
         else ''other'')"

definition status_step :: "event \<Rightarrow> string option \<Rightarrow> string option" where
  "status_step e st =
     (if e_kind e \<in> set dispatch_kinds \<or> e_kind e \<in> {''redispatch'', ''repair''} then Some ''working''
      else if e_kind e = ''merged-and-closed'' then Some ''done''
      else if starts_with ''status:'' (e_kind e) then Some (drop 7 (e_kind e))
      else st)"

definition status_at :: "event list \<Rightarrow> time \<Rightarrow> string option" where
  "status_at rows hi = fold status_step (filter (\<lambda>e. e_at e < hi) rows) None"

definition issue_rows :: "event list \<Rightarrow> int \<Rightarrow> event list" where
  "issue_rows evs i = sort_key e_at (filter (\<lambda>e. e_issue e = Some i) evs)"

definition ledger_issues :: "event list \<Rightarrow> int list" where
  "ledger_issues evs = uniq (somes (map e_issue evs))"

definition blocked_before :: "time \<Rightarrow> job_row option \<Rightarrow> bool" where
  "blocked_before hi j =
     (case j of None \<Rightarrow> False | Some r \<Rightarrow> j_status r = Blocked \<and> j_updated r < hi)"

record flow =
  fr_first :: nat
  fr_retry :: nat
  fr_parked :: nat
  fr_merged :: nat
  fr_still_blocked :: nat
  fr_park_causes :: ranking

definition flow_report :: "event list \<Rightarrow> window \<Rightarrow> job_row list \<Rightarrow> flow" where
  "flow_report evs w js =
     (let es = filter (in_window w) evs;
          parks = of_kind ''status:blocked'' es;
          causes = map (\<lambda>e. block_cause e
             (case e_issue e of None \<Rightarrow> [] | Some i \<Rightarrow> issue_rows evs i) (job_of js (e_issue e))) parks;
          ledger = ledger_issues evs
      in \<lparr>fr_first = length (of_kind ''reserved'' es),
          fr_retry = length (of_kind ''retry-reserved'' es),
          fr_parked = length parks,
          fr_merged = length (of_kind ''merged-and-closed'' es),
          fr_still_blocked =
            count_if (\<lambda>i. case status_at (issue_rows evs i) (w_hi w) of
                Some st \<Rightarrow> st = ''blocked''
              | None \<Rightarrow> blocked_before (w_hi w) (find_row j_issue i js)) ledger
            + count_if (\<lambda>j. j_issue j \<notin> set ledger \<and> blocked_before (w_hi w) (Some j)) js,
          fr_park_causes = map (\<lambda>c. (c, count_list causes c)) park_causes\<rparr>)"

subsection \<open>State.merge_flow\<close>

text \<open>\<open>round(x, 1)\<close>: to the nearest tenth, ties to the even one, on the exact value.\<close>

definition round_even :: "rat \<Rightarrow> int" where
  "round_even x =
     (let f = \<lfloor>x\<rfloor>; d = x - of_int f in
      if d < 1 / 2 then f else if 1 / 2 < d then f + 1 else if even f then f else f + 1)"

record merge_flow_view =
  mf_current :: nat
  mf_previous :: nat
  mf_decline_percent :: "rat option"
  mf_attribution :: "attribution \<times> attribution"
  mf_flow :: "flow \<times> flow"

definition merge_flow :: "time \<Rightarrow> time \<Rightarrow> db \<Rightarrow> merge_flow_view" where
  "merge_flow now seconds s =
     (let (prev, cur) = window_bounds now seconds;
          rows = filter (\<lambda>j. j_status j = Done \<and> w_lo prev \<le> j_updated j) (jobs s);
          current = count_if (\<lambda>j. w_lo cur \<le> j_updated j) rows;
          prior = length rows - current
      in \<lparr>mf_current = current, mf_previous = prior,
          mf_decline_percent = (if prior = 0 then None
            else Some (of_int (round_even (10 * (100 * (of_nat prior - of_nat current) / of_nat prior))) / 10)),
          mf_attribution = (repair_attribution (events s) prev [] (jobs s),
                            repair_attribution (events s) cur [] (jobs s)),
          mf_flow = (flow_report (events s) prev (jobs s), flow_report (events s) cur (jobs s))\<rparr>)"

subsection \<open>No park is lost in the causes\<close>

definition classed_repairs :: "event list \<Rightarrow> bool" where
  "classed_repairs evs \<longleftrightarrow>
     list_all (\<lambda>e. e_kind e \<noteq> ''repair'' \<or> event_cause e = None
                 \<or> (\<exists>c \<in> set repair_causes. event_cause e = Some c)) evs"

lemma last_repair_cause_bounded:
  assumes "classed_repairs evs" and "set rs \<subseteq> {e \<in> set evs. e_kind e = ''repair''}" and "rs \<noteq> []"
  shows "last_repair_cause rs \<in> set park_causes"
proof -
  have "last rs \<in> set evs" "e_kind (last rs) = ''repair''"
    using subsetD [OF assms(2) last_in_set [OF assms(3)]] by auto
  with assms(1) have "event_cause (last rs) = None
      \<or> (\<exists>c \<in> set repair_causes. event_cause (last rs) = Some c)"
    by (auto simp: classed_repairs_def list_all_iff)
  moreover have "set repair_causes \<subseteq> set park_causes" "''other'' \<in> set park_causes"
    by (simp_all add: repair_causes_def park_causes_def)
  ultimately show ?thesis by (auto simp: last_repair_cause_def)
qed

lemma if_mem: "(b \<Longrightarrow> x \<in> S) \<Longrightarrow> (\<not> b \<Longrightarrow> y \<in> S) \<Longrightarrow> (if b then x else y) \<in> S"
  by simp

lemma in_park_causes:
  "''merge-conflict'' \<in> set park_causes" "''ci-failure'' \<in> set park_causes"
  "''stall-kill'' \<in> set park_causes" "''timeout'' \<in> set park_causes"
  "''quota-kill'' \<in> set park_causes" "''worker-failure'' \<in> set park_causes"
  "''other'' \<in> set park_causes"
  by (simp_all add: park_causes_def)

lemma block_cause_bounded:
  assumes "classed_repairs history"
  shows "block_cause park history j \<in> set park_causes"
proof -
  define rs where "rs = (let before = filter (\<lambda>e. e_at e \<le> e_at park) history;
      dispatched = map e_at (filter (\<lambda>e. e_kind e \<in> set dispatch_kinds) before)
      in of_kind ''repair'' (if dispatched = [] then before
                     else filter (\<lambda>e. Max (set dispatched) \<le> e_at e) before))"
  have sub: "set rs \<subseteq> {e \<in> set history. e_kind e = ''repair''}"
    unfolding rs_def Let_def of_kind_def by auto
  note rc = last_repair_cause_bounded [OF assms sub]
  have rc3: "3 \<le> length rs \<Longrightarrow> last_repair_cause rs \<in> set park_causes"
    using rc by (cases rs) auto
  show ?thesis
    unfolding block_cause_def Let_def
    by (intro if_mem in_park_causes rc [unfolded rs_def Let_def] rc3 [unfolded rs_def Let_def];
        assumption)
qed

lemma sum_count_list:
  "distinct cs \<Longrightarrow> set xs \<subseteq> set cs \<Longrightarrow> sum_list (map (count_list xs) cs) = length xs"
proof (induction xs)
  case (Cons x xs)
  have "sum_list (map (count_list (x # xs)) cs)
      = sum_list (map (count_list xs) cs) + sum_list (map (\<lambda>c. if x = c then 1 else 0) cs)"
    by (simp add: sum_list_addf [symmetric] if_distrib cong: if_cong) (rule arg_cong [of _ _ sum_list], simp)
  also have "sum_list (map (\<lambda>c. if x = c then 1 else 0) cs) = (1::nat)"
    using Cons.prems by (simp add: sum_list_distinct_conv_sum_set sum.delta')
  finally show ?case using Cons by simp
qed simp

text \<open>
  The park report loses nothing: when every repair row carries one of the repair causes (as
  the rows \<open>repair\<close> writes do), the bounded causes of a window add up to its parked transitions.
\<close>

lemma park_causes_complete:
  assumes "classed_repairs evs"
  shows "sum_list (map snd (fr_park_causes (flow_report evs w js))) = fr_parked (flow_report evs w js)"
proof -
  define parks where "parks = of_kind ''status:blocked'' (filter (in_window w) evs)"
  define causes where "causes = map (\<lambda>e. block_cause e
      (case e_issue e of None \<Rightarrow> [] | Some i \<Rightarrow> issue_rows evs i) (job_of js (e_issue e))) parks"
  have rows: "classed_repairs (issue_rows evs i)" for i
    using assms by (auto simp: classed_repairs_def issue_rows_def list_all_iff)
  have "classed_repairs []" by (simp add: classed_repairs_def)
  with rows have "set causes \<subseteq> set park_causes"
    by (auto simp: causes_def intro!: block_cause_bounded split: option.split)
  moreover have "distinct park_causes" by (simp add: park_causes_def)
  ultimately have "sum_list (map (count_list causes) park_causes) = length parks"
    by (simp add: sum_count_list) (simp add: causes_def)
  then show ?thesis
    by (simp add: flow_report_def Let_def parks_def [symmetric] causes_def [symmetric] o_def)
qed

subsection \<open>A park that leaves no row\<close>

text \<open>
  C30: a repair refused for lack of budget parks its job without a ledger row, and the block the
  supervisor then writes finds the job blocked already and records no transition either: the ledger
  is exactly what it was, so the window's report counts no park for it.
\<close>

theorem exhausted_repair_unrecorded:
  assumes "db_ok s" and "job issue s = Some j" and "j_status j \<noteq> Done"
    and "repair now issue cause detail s = Inr (s1, False)"
    and "update_job later issue [FStatus ''blocked'', FError err] s1 = Inr s2"
  shows "events s2 = events s \<and> fr_parked (flow_report (events s2) w (jobs s2))
      = fr_parked (flow_report (events s) w (jobs s))
    \<and> (\<exists>j2. job issue s2 = Some j2 \<and> j_status j2 = Blocked)"
proof -
  have cause: "cause \<in> set repair_causes" using assms(4) by (auto simp: repair_def split: if_splits)
  obtain s' where s': "repair now issue cause detail s = Inr (s', j_repairs j < 3 \<and> live j)"
    "if j_repairs j < 3 \<and> live j
     then job issue s' = Some (j\<lparr>j_repairs := j_repairs j + 1, j_status := Working, j_updated := now\<rparr>)
     else events s' = events s
          \<and> (if j_status j = Done then s' = s
             else job issue s' = Some (j\<lparr>j_status := Blocked,
                    j_error := Some ''Repair limit exhausted'', j_updated := now\<rparr>))"
    using repair_spec [OF assms(2) cause, of now detail] by blast
  have no: "\<not> (j_repairs j < 3 \<and> live j)" and s1: "s' = s1" using s'(1) assms(4) by auto
  then have ev: "events s1 = events s" and j1: "job issue s1 = Some (j\<lparr>j_status := Blocked,
      j_error := Some ''Repair limit exhausted'', j_updated := now\<rparr>)"
    using s'(2) assms(3) by auto
  have named: "named_status [FStatus ''blocked'', FError err] = Some Blocked"
    by (simp add: named_status_def parse_status_def)
  have s2: "s2 = s1\<lparr>jobs := update_row j_issue issue
      (set_fields later [FStatus ''blocked'', FError err]) (jobs s1)\<rparr>"
    using assms(5) j1 named by (simp add: update_job_def Let_def split: if_splits)
  have j2: "job issue s2 = Some (set_fields later [FStatus ''blocked'', FError err] (j\<lparr>j_status := Blocked,
      j_error := Some ''Repair limit exhausted'', j_updated := now\<rparr>))"
    using j1 unfolding s2 by (simp add: job_def find_row_update_row)
  have st: "parse_status ''blocked'' = Some Blocked" by (simp add: parse_status_def)
  have "events s2 = events s" using ev by (simp add: s2)
  then show ?thesis
    using j2 by (simp add: flow_report_def Let_def set_fields_def st)
qed

definition worn_job :: job_row where
  "worn_job = (new_job 5 4 ''w1'' ''ui'')\<lparr>j_repairs := 3\<rparr>"

definition worn_db :: db where
  "worn_db = (empty_db None)\<lparr>jobs := [worn_job]\<rparr>"

lemma worn_facts:
  "job 4 worn_db = Some worn_job" "j_status worn_job \<noteq> Done" "j_repairs worn_job = 3"
  "events worn_db = []" "''ci-failure'' \<in> set repair_causes" "db_ok worn_db"
  by (simp_all add: worn_db_def worn_job_def job_def new_job_def repair_causes_def empty_db_def
      db_ok_def live_unique_def event_keys_def merged_rows_def sget_def)

theorem exhausted_repair_unrecorded_witness:
  "\<exists>s1 s2. repair 6 4 ''ci-failure'' [] worn_db = Inr (s1, False)
     \<and> update_job 7 4 [FStatus ''blocked'', FError None] s1 = Inr s2 \<and> events s2 = []"
proof -
  define s1 where "s1 = worn_db\<lparr>jobs := [worn_job\<lparr>j_status := Blocked,
      j_error := Some ''Repair limit exhausted'', j_updated := 6\<rparr>]\<rparr>"
  have r: "repair 6 4 ''ci-failure'' [] worn_db = Inr (s1, False)"
    using worn_facts by (simp add: repair_def s1_def) (simp add: worn_db_def worn_job_def new_job_def)
  have "\<exists>s2. update_job 7 4 [FStatus ''blocked'', FError None] s1 = Inr s2"
    by (simp add: update_job_def parse_status_def s1_def worn_db_def worn_job_def new_job_def
        set_fields_def live_unique_def live_def Let_def)
  then obtain s2 where u: "update_job 7 4 [FStatus ''blocked'', FError None] s1 = Inr s2" ..
  from exhausted_repair_unrecorded [OF worn_facts(6,1,2) r u] worn_facts(4) r u show ?thesis by auto
qed

subsection \<open>The ledger refines the status column\<close>

text \<open>
  Steps of the scheduler other than an exhausted repair: clients record their own kinds without
  the keys of repair rows, an update names at most one status and leaves the repair count alone,
  and a repair is one that was granted.
\<close>

definition is_status_field :: "job_field \<Rightarrow> bool" where
  "is_status_field f = (case f of FStatus _ \<Rightarrow> True | _ \<Rightarrow> False)"

definition plain_field :: "job_field \<Rightarrow> bool" where
  "plain_field f \<longleftrightarrow> client_field f \<and> (case f of FRepairs _ \<Rightarrow> False | _ \<Rightarrow> True)"

inductive recorded_step :: "db \<Rightarrow> db \<Rightarrow> bool" where
  rs_set: "k \<noteq> ''merges'' \<Longrightarrow> recorded_step s (sset k v s)"
| rs_record:
    "record_event now (JStr kind) issue attempt payload key s = Inr s' \<Longrightarrow>
     kind \<notin> set owned_kinds \<Longrightarrow> \<not> starts_with ''status:'' kind \<Longrightarrow>
     (\<And>i a n. key \<noteq> Some (repair_key i a n)) \<Longrightarrow> recorded_step s s'"
| rs_reserve: "reserve now issue worker grp deps s = (s', r) \<Longrightarrow> recorded_step s s'"
| rs_update:
    "update_job now issue fs s = Inr s' \<Longrightarrow> list_all plain_field fs \<Longrightarrow>
     length (filter is_status_field fs) \<le> 1 \<Longrightarrow> recorded_step s s'"
| rs_repair: "repair now issue cause detail s = Inr (s', True) \<Longrightarrow> recorded_step s s'"
| rs_complete: "recorded_step s (complete now issue s)"
| rs_retry: "retry now issue cause detail s = Inr (s', b) \<Longrightarrow> recorded_step s s'"

inductive recorded_run :: "db \<Rightarrow> bool" where
  rr_init: "recorded_run (empty_db cap)"
| rr_step: "recorded_run s \<Longrightarrow> recorded_step s s' \<Longrightarrow> recorded_run s'"

definition replay :: "event list \<Rightarrow> int \<Rightarrow> string option" where
  "replay evs i = fold status_step (filter (\<lambda>e. e_issue e = Some i) evs) None"

definition replayed :: "db \<Rightarrow> bool" where
  "replayed s \<longleftrightarrow> (\<forall>j \<in> set (jobs s). replay (events s) (j_issue j) = Some (status_name (j_status j)))"

definition repairs_counted :: "db \<Rightarrow> bool" where
  "repairs_counted s \<longleftrightarrow>
     (\<forall>k \<in> set (event_keys s). \<forall>i a n. k = repair_key i a n \<longrightarrow>
        (\<exists>j \<in> set (jobs s). j_issue j = i \<and> (a < j_attempt j \<or> (a = j_attempt j \<and> n \<le> j_repairs j))))"

lemma colon_split:
  assumes "CHR '':'' \<notin> set xs" and "CHR '':'' \<notin> set ys"
    and "xs @ CHR '':'' # us = ys @ CHR '':'' # vs"
  shows "xs = ys \<and> us = vs"
  using assms
proof (induction xs arbitrary: ys)
  case Nil
  then show ?case by (cases ys) auto
next
  case (Cons x xs)
  then show ?case by (cases ys) auto
qed

lemma repair_key_inj: "repair_key i a n = repair_key i' a' n' \<longleftrightarrow> i = i' \<and> a = a' \<and> n = n'"
proof
  assume eq: "repair_key i a n = repair_key i' a' n'"
  then have "str_int i @ CHR '':'' # (str_int a @ CHR '':'' # str_int n)
      = str_int i' @ CHR '':'' # (str_int a' @ CHR '':'' # str_int n')"
    by (simp add: repair_key_def)
  from colon_split [OF str_int_no_colon str_int_no_colon this]
  have 1: "i = i'" and "str_int a @ CHR '':'' # str_int n = str_int a' @ CHR '':'' # str_int n'"
    by simp_all
  from colon_split [OF str_int_no_colon str_int_no_colon this(2)] 1
  show "i = i' \<and> a = a' \<and> n = n'" by simp
qed simp

lemma replay_append:
  "replay (evs @ [e]) i = (if e_issue e = Some i then status_step e (replay evs i) else replay evs i)"
  by (simp add: replay_def)

lemma replayed_add_event:
  assumes "replayed s" and "\<And>j. j \<in> set (jobs s) \<Longrightarrow> e_issue e = Some (j_issue j) \<Longrightarrow>
     status_step e (Some (status_name (j_status j))) = Some (status_name (j_status j))"
  shows "replayed (add_event e s)"
  using assms by (auto simp: replayed_def add_event_def replay_append)

lemma replayed_transition:
  assumes "replayed s" and "jobs s' = update_row j_issue issue f (jobs s)"
    and "\<And>j. j_issue (f j) = j_issue j" and "events s' = events s @ es"
    and "\<forall>e \<in> set es. e_issue e = Some issue"
    and "\<And>j. j \<in> set (jobs s) \<Longrightarrow> j_issue j = issue \<Longrightarrow>
           fold status_step es (Some (status_name (j_status j))) = Some (status_name (j_status (f j)))"
  shows "replayed s'"
proof -
  have mine: "filter (\<lambda>e. e_issue e = Some issue) es = es"
    using assms(5) by (simp add: filter_id_conv)
  have other: "i \<noteq> issue \<Longrightarrow> filter (\<lambda>e. e_issue e = Some i) es = []" for i
    using assms(5) by (auto simp: filter_empty_conv)
  have rep: "replay (events s') i = (if i = issue then fold status_step es (replay (events s) i)
      else replay (events s) i)" for i
    using mine other [of i] by (simp add: replay_def assms(4))
  show ?thesis
    unfolding replayed_def
  proof
    fix r assume "r \<in> set (jobs s')"
    then obtain j where j: "j \<in> set (jobs s)" "r = (if j_issue j = issue then f j else j)"
      by (auto simp: assms(2) update_row_def)
    have "replay (events s) (j_issue j) = Some (status_name (j_status j))"
      using assms(1) j(1) by (simp add: replayed_def)
    with j assms(3) assms(6) [OF j(1)] rep [of "j_issue j"] show
      "replay (events s') (j_issue r) = Some (status_name (j_status r))"
      by (cases "j_issue j = issue") simp_all
  qed
qed

lemma counted_transition:
  assumes "repairs_counted s" and "\<And>k. k \<in> set (event_keys s') \<Longrightarrow>
      k \<in> set (event_keys s) \<or> (\<forall>i a n. k = repair_key i a n \<longrightarrow>
        (\<exists>j \<in> set (jobs s'). j_issue j = i \<and> (a < j_attempt j \<or> (a = j_attempt j \<and> n \<le> j_repairs j))))"
    and "\<And>j. j \<in> set (jobs s) \<Longrightarrow> \<exists>r \<in> set (jobs s'). j_issue r = j_issue j
           \<and> (j_attempt j < j_attempt r \<or> (j_attempt j = j_attempt r \<and> j_repairs j \<le> j_repairs r))"
  shows "repairs_counted s'"
  unfolding repairs_counted_def
proof (intro ballI allI impI)
  fix k i a n assume k: "k \<in> set (event_keys s')" "k = repair_key i a n"
  from assms(2) [OF k(1)] show "\<exists>j \<in> set (jobs s'). j_issue j = i
      \<and> (a < j_attempt j \<or> (a = j_attempt j \<and> n \<le> j_repairs j))"
  proof
    assume "k \<in> set (event_keys s)"
    with assms(1) k(2) obtain j where j: "j \<in> set (jobs s)" "j_issue j = i"
      "a < j_attempt j \<or> (a = j_attempt j \<and> n \<le> j_repairs j)"
      unfolding repairs_counted_def by blast
    from assms(3) [OF j(1)] obtain r where "r \<in> set (jobs s')" "j_issue r = j_issue j"
      "j_attempt j < j_attempt r \<or> (j_attempt j = j_attempt r \<and> j_repairs j \<le> j_repairs r)" by blast
    with j show ?thesis by (intro bexI [of _ r]) auto
  qed (use k(2) in blast)
qed

lemma event_keys_append:
  "events s' = events s @ es \<Longrightarrow>
   set (event_keys s') = set (event_keys s) \<union> {k. \<exists>e \<in> set es. e_key e = Some k}"
  by (force simp: event_keys_def image_iff)

lemma update_row_member:
  "j \<in> set rows \<Longrightarrow> (if key j = k then f j else j) \<in> set (update_row key k f rows)"
  by (auto simp: update_row_def)

lemma recorded_is_sched: "recorded_step s s' \<Longrightarrow> sched_step s s'"
proof (induction rule: recorded_step.induct)
  case (rs_update now issue fs s s')
  have "list_all client_field fs"
    using rs_update(2) by (auto simp: list_all_iff plain_field_def)
  with rs_update(1) show ?case by (rule step_update)
qed (blast intro: sched_step.intros)+

lemma set_field_frame:
  "plain_field f \<Longrightarrow> j_attempt (set_field f j) = j_attempt j \<and> j_repairs (set_field f j) = j_repairs j"
  by (cases f) (simp_all add: plain_field_def split: option.split)

lemma set_fields_frame:
  assumes "list_all plain_field fs"
  shows "j_attempt (set_fields now fs j) = j_attempt j \<and> j_repairs (set_fields now fs j) = j_repairs j"
proof -
  have "j_attempt (fold set_field fs j) = j_attempt j \<and> j_repairs (fold set_field fs j) = j_repairs j"
    using assms by (induction fs arbitrary: j) (simp_all add: set_field_frame)
  then show ?thesis by (simp add: set_fields_def)
qed

lemma no_status_field:
  "filter is_status_field fs = [] \<Longrightarrow> j_status (fold set_field fs j) = j_status j"
proof (induction fs arbitrary: j)
  case (Cons f fs)
  then have "\<not> is_status_field f" by (auto split: if_splits)
  then have "j_status (set_field f j) = j_status j" by (cases f) (simp_all add: is_status_field_def)
  with Cons show ?case by (auto split: if_splits)
qed simp

lemma set_fields_status:
  assumes "list_all status_field_ok fs" and "length (filter is_status_field fs) \<le> 1"
  shows "j_status (set_fields now fs j) = (case named_status fs of None \<Rightarrow> j_status j | Some st \<Rightarrow> st)"
proof -
  have "j_status (fold set_field fs j) = (case named_status fs of None \<Rightarrow> j_status j | Some st \<Rightarrow> st)"
    using assms
  proof (induction fs arbitrary: j)
    case (Cons f fs)
    show ?case
    proof (cases "is_status_field f")
      case True
      then obtain x where x: "f = FStatus x" by (cases f) (simp_all add: is_status_field_def)
      obtain st where st: "parse_status x = Some st" using Cons.prems(1) x by auto
      have "filter is_status_field fs = []" using Cons.prems(2) True by simp
      from no_status_field [OF this] show ?thesis using x st by (simp add: named_status_def)
    next
      case False
      then have "j_status (set_field f j) = j_status j"
        by (cases f) (simp_all add: is_status_field_def)
      moreover have "named_status (f # fs) = named_status fs"
        using False by (cases f) (simp_all add: named_status_def is_status_field_def)
      ultimately show ?thesis using Cons False by (simp split: option.split)
    qed
  qed (simp add: named_status_def)
  then show ?thesis by (simp add: set_fields_def)
qed

definition refined :: "db \<Rightarrow> bool" where
  "refined s \<longleftrightarrow> replayed s \<and> repairs_counted s"

lemma status_kind_step:
  "status_step (mk_event (''status:'' @ status_name st) i a now k p) x = Some (status_name st)"
  by (simp add: status_step_def dispatch_kinds_def starts_with_def)

lemma refined_set: "refined s \<Longrightarrow> refined (sset k v s)"
  by (simp add: refined_def replayed_def repairs_counted_def)

lemma refined_record:
  assumes "refined s" and "record_event now (JStr kind) issue attempt payload key s = Inr s'"
    and "kind \<notin> set owned_kinds" and "\<not> starts_with ''status:'' kind"
    and "\<And>i a n. key \<noteq> Some (repair_key i a n)"
  shows "refined s'"
proof -
  obtain p where s': "s' = add_event (mk_event kind issue attempt now key p) s"
    using assms(2) by (auto simp: record_event_def split: if_splits)
  have st: "status_step (mk_event kind i attempt now key p) x = x" for i x
    using assms(3,4) by (simp add: status_step_def dispatch_kinds_def owned_kinds_def)
  have "replayed s'" unfolding s'
    using assms(1) by (intro replayed_add_event) (simp_all add: refined_def st)
  moreover have "repairs_counted s'"
  proof (rule counted_transition [of s])
    fix k assume "k \<in> set (event_keys s')"
    then have "k \<in> set (event_keys s) \<or> key = Some k"
      by (auto simp: s' add_event_def event_keys_append [where es = "[mk_event kind issue attempt now key p]"]
          split: if_splits)
    with assms(5) show "k \<in> set (event_keys s) \<or> (\<forall>i a n. k = repair_key i a n \<longrightarrow>
        (\<exists>j \<in> set (jobs s'). j_issue j = i \<and> (a < j_attempt j \<or> (a = j_attempt j \<and> n \<le> j_repairs j))))"
      by blast
  qed (use assms(1) s' in \<open>auto simp: refined_def\<close>)
  ultimately show ?thesis by (simp add: refined_def)
qed

lemma counted_no_new_keys:
  assumes "repairs_counted s" and "events s' = events s @ es" and "\<forall>e \<in> set es. e_key e = None"
    and "\<And>j. j \<in> set (jobs s) \<Longrightarrow> \<exists>r \<in> set (jobs s'). j_issue r = j_issue j
           \<and> (j_attempt j < j_attempt r \<or> (j_attempt j = j_attempt r \<and> j_repairs j \<le> j_repairs r))"
  shows "repairs_counted s'"
  by (rule counted_transition [OF assms(1) _ assms(4)])
    (use assms(3) in \<open>auto simp: event_keys_append [OF assms(2)]\<close>)

lemma updated_jobs_monotone:
  assumes "jobs s' = update_row j_issue issue f (jobs s)" and "\<And>j. j_issue (f j) = j_issue j"
    and "\<And>j. j_attempt j < j_attempt (f j) \<or> (j_attempt j = j_attempt (f j) \<and> j_repairs j \<le> j_repairs (f j))"
    and "j \<in> set (jobs s)"
  shows "\<exists>r \<in> set (jobs s'). j_issue r = j_issue j
           \<and> (j_attempt j < j_attempt r \<or> (j_attempt j = j_attempt r \<and> j_repairs j \<le> j_repairs r))"
  using update_row_member [OF assms(4), of j_issue issue f] assms(2) assms(3) [of j]
  by (intro bexI [of _ "if j_issue j = issue then f j else j"]) (simp_all add: assms(1))

lemma refined_reserve:
  assumes "refined s" and "db_ok s" and "reserve now issue worker grp deps s = (s', r)"
  shows "refined s'"
proof (cases "reservable issue worker deps s")
  case False
  then show ?thesis using assms by (simp add: reserve_spec)
next
  case True
  let ?j = "new_job now issue worker grp"
  let ?e = "mk_event ''reserved'' (Some issue) (Some 1) now None (JObj [(''worker'', JStr worker)])"
  have s': "jobs s' = jobs s @ [?j]" "events s' = events s @ [?e]"
    using assms(2,3) True by (auto simp: reserve_spec Let_def)
  have "issue \<notin> j_issue ` set (jobs s)"
    using True by (simp add: reservable_def job_def find_row_None_iff)
  then have "replayed s'"
    using assms(1)
    by (auto simp: refined_def replayed_def s' replay_append new_job_def status_step_def
        dispatch_kinds_def)
  moreover have "repairs_counted s'"
    by (rule counted_no_new_keys [OF _ s'(2)]) (use assms(1) s'(1) in \<open>auto simp: refined_def\<close>)
  ultimately show ?thesis by (simp add: refined_def)
qed

lemma refined_update:
  assumes "refined s" and "db_ok s" and "update_job now issue fs s = Inr s'"
    and "list_all plain_field fs" and "length (filter is_status_field fs) \<le> 1"
  shows "refined s'"
proof -
  let ?f = "set_fields now fs"
  have ok: "list_all status_field_ok fs" using assms(3) by (auto simp: update_job_def split: if_splits)
  note st = set_fields_status [OF ok assms(5)]
  define es where "es = (case (job issue s, named_status fs) of
      (Some prev, Some st) \<Rightarrow> (if st \<noteq> j_status prev
        then [mk_event (''status:'' @ status_name st) (Some issue) (Some (j_attempt prev)) now None
               (JObj [(''from'', JStr (status_name (j_status prev)))])] else [])
    | _ \<Rightarrow> [])"
  have s': "jobs s' = update_row j_issue issue ?f (jobs s)" "events s' = events s @ es"
    using assms(3) unfolding es_def
    by (auto simp: update_job_def Let_def split: if_splits option.splits)
  have "replayed s'"
  proof (rule replayed_transition [OF _ s'(1) _ s'(2)])
    show "\<forall>e \<in> set es. e_issue e = Some issue"
      by (auto simp: es_def split: option.splits if_splits)
    fix j assume "j \<in> set (jobs s)" "j_issue j = issue"
    then have "job issue s = Some j"
      using assms(2) find_row_distinct [of j_issue "jobs s" j] by (simp add: db_ok_def job_def)
    then show "fold status_step es (Some (status_name (j_status j))) = Some (status_name (j_status (?f j)))"
      by (auto simp: es_def st status_kind_step [simplified] split: option.split)
  qed (use assms(1) in \<open>simp_all add: refined_def\<close>)
  moreover have "repairs_counted s'"
  proof (rule counted_no_new_keys [OF _ s'(2)])
    show "\<forall>e \<in> set es. e_key e = None" by (auto simp: es_def split: option.splits if_splits)
    show "j \<in> set (jobs s) \<Longrightarrow> \<exists>r \<in> set (jobs s'). j_issue r = j_issue j
           \<and> (j_attempt j < j_attempt r \<or> (j_attempt j = j_attempt r \<and> j_repairs j \<le> j_repairs r))" for j
      by (rule updated_jobs_monotone [OF s'(1)]) (simp_all add: set_fields_frame [OF assms(4)])
  qed (use assms(1) in \<open>simp add: refined_def\<close>)
  ultimately show ?thesis by (simp add: refined_def)
qed

lemma refined_repair:
  assumes "refined s" and "db_ok s" and "repair now issue cause detail s = Inr (s', True)"
  shows "refined s'"
proof -
  obtain j where j: "job issue s = Some j" "j_repairs j < 3" "live j" "cause \<in> set repair_causes"
    using assms(3) by (auto simp: repair_def Let_def split: if_splits option.splits)
  let ?f = "\<lambda>j. j\<lparr>j_repairs := j_repairs j + 1, j_status := Working, j_updated := now\<rparr>"
  let ?k = "repair_key issue (j_attempt j) (j_repairs j + 1)"
  let ?e = "mk_event ''repair'' (Some issue) (Some (j_attempt j)) now (Some ?k) (cause_payload cause detail)"
  have uniq: "r = j" if "r \<in> set (jobs s)" "j_issue r = issue" for r
    using job_unique [OF assms(2) j(1) that] .
  have "Some ?k \<notin> e_key ` set (events s)"
  proof
    assume "Some ?k \<in> e_key ` set (events s)"
    then have "?k \<in> set (event_keys s)" by (simp add: mem_event_keys)
    with assms(1) obtain r where "r \<in> set (jobs s)" "j_issue r = issue"
      "j_attempt j < j_attempt r \<or> (j_attempt j = j_attempt r \<and> j_repairs j + 1 \<le> j_repairs r)"
      unfolding refined_def repairs_counted_def by blast
    with uniq show False by auto
  qed
  with repair_accepted [OF j(1,4,2,3), of now detail] assms(3)
  have s': "jobs s' = update_row j_issue issue ?f (jobs s)" "events s' = events s @ [?e]" by auto
  have "replayed s'"
    by (rule replayed_transition [OF _ s'(1) _ s'(2)])
      (use assms(1) in \<open>simp_all add: refined_def status_step_def dispatch_kinds_def\<close>)
  moreover have "repairs_counted s'"
  proof (rule counted_transition [of s])
    have new: "\<exists>r \<in> set (jobs s'). j_issue r = issue \<and> j_attempt r = j_attempt j
        \<and> j_repairs r = j_repairs j + 1"
      using update_row_member [of j "jobs s" j_issue issue ?f] job_in [OF j(1)]
      by (intro bexI [of _ "?f j"]) (auto simp: s'(1))
    fix k assume "k \<in> set (event_keys s')"
    then have "k \<in> set (event_keys s) \<or> k = ?k" by (auto simp: event_keys_append [OF s'(2)])
    with new show "k \<in> set (event_keys s) \<or> (\<forall>i a n. k = repair_key i a n \<longrightarrow>
        (\<exists>j \<in> set (jobs s'). j_issue j = i \<and> (a < j_attempt j \<or> (a = j_attempt j \<and> n \<le> j_repairs j))))"
      unfolding repair_key_inj by (metis order_refl repair_key_inj)
  next
    show "j \<in> set (jobs s) \<Longrightarrow> \<exists>r \<in> set (jobs s'). j_issue r = j_issue j
           \<and> (j_attempt j < j_attempt r \<or> (j_attempt j = j_attempt r \<and> j_repairs j \<le> j_repairs r))" for j
      by (rule updated_jobs_monotone [OF s'(1)]) simp_all
  qed (use assms(1) in \<open>simp add: refined_def\<close>)
  ultimately show ?thesis by (simp add: refined_def)
qed

lemma refined_complete:
  assumes "refined s" shows "refined (complete now issue s)"
proof (cases "\<exists>j. job issue s = Some j \<and> j_status j \<noteq> Done")
  case False
  then show ?thesis using assms by (auto simp: complete_def split: option.split)
next
  case True
  then obtain j where j: "job issue s = Some j" "j_status j \<noteq> Done" by blast
  let ?f = "\<lambda>j. j\<lparr>j_status := Done, j_pid := None, j_updated := now\<rparr>"
  let ?e = "mk_event ''merged-and-closed'' (Some issue) (Some (j_attempt j)) now None (JObj [])"
  let ?s = "complete now issue s"
  have s': "jobs ?s = update_row j_issue issue ?f (jobs s)" "events ?s = events s @ [?e]"
    using j by (simp_all add: complete_def Let_def)
  have "replayed ?s"
    by (rule replayed_transition [OF _ s'(1) _ s'(2)])
      (use assms in \<open>simp_all add: refined_def status_step_def dispatch_kinds_def\<close>)
  moreover have "repairs_counted ?s"
  proof (rule counted_no_new_keys [OF _ s'(2)])
    show "j \<in> set (jobs s) \<Longrightarrow> \<exists>r \<in> set (jobs ?s). j_issue r = j_issue j
           \<and> (j_attempt j < j_attempt r \<or> (j_attempt j = j_attempt r \<and> j_repairs j \<le> j_repairs r))" for j
      by (rule updated_jobs_monotone [OF s'(1)]) simp_all
  qed (use assms in \<open>simp_all add: refined_def\<close>)
  ultimately show ?thesis by (simp add: refined_def)
qed

lemma refined_retry:
  assumes "refined s" and "retry now issue cause detail s = Inr (s', b)"
  shows "refined s'"
proof (cases "s' = s")
  case False
  then obtain j where j: "job issue s = Some j"
    using assms(2) by (auto simp: retry_def split: if_splits option.splits)
  let ?f = "\<lambda>j. j\<lparr>j_status := Working, j_attempt := j_attempt j + 1, j_repairs := 0,
                   j_pid := None, j_error := None, j_updated := now\<rparr>"
  let ?a = "j_attempt j + 1"
  define kk where "kk = ''redispatch:'' @ str_int issue @ '':'' @ str_int ?a"
  have kk: "kk \<noteq> repair_key i a n" for i a n by (simp add: repair_key_def kk_def)
  define e1 where "e1 = mk_event ''retry-reserved'' (Some issue) (Some ?a) now None (JObj [])"
  define e2 where "e2 = mk_event ''redispatch'' (Some issue) (Some ?a) now (Some kk)
                          (cause_payload cause detail)"
  have s': "s' = add_event e2 (add_event e1 (s\<lparr>jobs := update_row j_issue issue ?f (jobs s)\<rparr>))"
    using assms(2) False j unfolding e1_def e2_def kk_def
    by (auto simp: retry_def Let_def split: if_splits option.splits)
  have jb: "jobs s' = update_row j_issue issue ?f (jobs s)" by (simp add: s')
  obtain es where es: "events s' = events s @ e1 # es" "set es \<subseteq> {e2}"
    using events_add_event [of e2 "add_event e1 (s\<lparr>jobs := update_row j_issue issue ?f (jobs s)\<rparr>)"]
    by (auto simp: s' e1_def)
  have stay: "fold status_step es (Some ''working'') = Some ''working''"
    using es(2) by (induction es) (auto simp: status_step_def e2_def dispatch_kinds_def)
  have "replayed s'"
    by (rule replayed_transition [OF _ jb _ es(1)])
      (use assms(1) es(2) stay in \<open>auto simp: refined_def status_step_def e1_def e2_def dispatch_kinds_def\<close>)
  moreover have "repairs_counted s'"
  proof (rule counted_transition [of s])
    fix k assume "k \<in> set (event_keys s')"
    then have "k \<in> set (event_keys s) \<or> k = kk"
      using es(2) by (auto simp: event_keys_append [OF es(1)] e1_def e2_def)
    with kk show "k \<in> set (event_keys s) \<or> (\<forall>i a n. k = repair_key i a n \<longrightarrow>
        (\<exists>j \<in> set (jobs s'). j_issue j = i \<and> (a < j_attempt j \<or> (a = j_attempt j \<and> n \<le> j_repairs j))))"
      by blast
  next
    show "j \<in> set (jobs s) \<Longrightarrow> \<exists>r \<in> set (jobs s'). j_issue r = j_issue j
           \<and> (j_attempt j < j_attempt r \<or> (j_attempt j = j_attempt r \<and> j_repairs j \<le> j_repairs r))" for j
      by (rule updated_jobs_monotone [OF jb]) simp_all
  qed (use assms(1) in \<open>simp add: refined_def\<close>)
  ultimately show ?thesis by (simp add: refined_def)
qed (use assms(1) in simp)

lemma refined_step: "recorded_step s s' \<Longrightarrow> refined s \<Longrightarrow> db_ok s \<Longrightarrow> refined s'"
proof (induction rule: recorded_step.induct)
  case rs_record
  then show ?case by (blast intro: refined_record)
qed (blast intro: refined_set refined_reserve refined_update refined_repair refined_complete refined_retry)+

lemma refined_run: "recorded_run s \<Longrightarrow> refined s \<and> db_ok s"
proof (induction rule: recorded_run.induct)
  case (rr_init cap)
  show ?case
    using db_ok_empty [of cap]
    by (simp add: refined_def replayed_def repairs_counted_def empty_db_def event_keys_def)
next
  case (rr_step s s')
  then show ?case using refined_step db_ok_step recorded_is_sched by blast
qed



end
