(* ===== verification/Requeue.thy ===== *)
theory Requeue
  imports Recovery MergeFlow
begin

text \<open>
  agent_pool/supervisor.py and agent_pool/factory.py: the bounded retries of an interrupted job
  (requeues of a provider or kill receipt, the congestion episode and its quiet-window re-arm, the
  timeout continuation), the repair of a live job, publishing, and the mechanical completion of a
  conflicted publish merge.
\<close>

subsection \<open>Receipt categories\<close>

definition requeue_categories :: "category list" where
  "requeue_categories = [Rate, Endpoint, Timeout, Stall]"

definition congestion_categories :: "category list" where
  "congestion_categories = [Rate, Endpoint]"

subsection \<open>Quota requeues\<close>

definition record_of :: "int \<Rightarrow> db \<Rightarrow> json" where
  "record_of number s = sget (recovery_key number) JNull s"

definition count_of :: "string \<Rightarrow> json \<Rightarrow> int" where
  "count_of k rc = int_of (jget_or rc k (JInt 0))"

definition group_overview_of :: "adm \<Rightarrow> db \<Rightarrow> string \<Rightarrow> group_overview option" where
  "group_overview_of a s name = find_row go_name name (summary_groups a s)"

definition congested_groups :: "sup \<Rightarrow> job_row \<Rightarrow> db \<Rightarrow> string list" where
  "congested_groups c j s =
     filter (\<lambda>name. case group_overview_of (admission c) s name of
         None \<Rightarrow> False | Some g \<Rightarrow> go_mode g = Probing)
       (group_names (admission c) (model_for c (j_worker j)))"

definition delay_of :: "sup \<Rightarrow> int option \<Rightarrow> time" where
  "delay_of c retry_after =
     (case retry_after of Some d \<Rightarrow> of_int d | None \<Rightarrow> quota_requeue_delay (admission c))"

definition schedule :: "sup \<Rightarrow> time \<Rightarrow> int option \<Rightarrow> json" where
  "schedule c now retry_after =
     JObj [(''not_before'', JFloat (now + delay_of c retry_after)),
           (''source'', JStr (if retry_after \<noteq> None then ''retry-after'' else ''default'')),
           (''seconds'', JFloat (delay_of c retry_after))]"

definition arm :: "int \<Rightarrow> json \<Rightarrow> string \<Rightarrow> db \<Rightarrow> db" where
  "arm number rc cause s = sset (retry_key number) (JStr cause) (sset (recovery_key number) rc s)"

definition requeue_cause_of :: "category \<Rightarrow> string" where
  "requeue_cause_of cat =
     (if cat \<in> set congestion_categories then ''quota-requeue'' else ''kill-requeue'')"

definition requeue_quota ::
  "sup \<Rightarrow> time \<Rightarrow> job_row \<Rightarrow> category \<Rightarrow> int option \<Rightarrow> db \<Rightarrow> db" where
  "requeue_quota c now j cat retry_after s =
     (let number = j_issue j; rc = or_empty (record_of number s);
          used = count_of ''quota_requeues'' rc;
          resets = count_of ''quota_requeue_resets'' rc in
      if factory_cfg c \<noteq> None \<and> cat \<in> set congestion_categories then
        arm number (jupdate
          [(''provider_wait'', JObj [(''category'', JStr (category_name cat)), (''since'', JFloat now)]),
           (''quota_episode'', JNull), (''quota_requeues'', JInt (used + 1)),
           (''requeue'', schedule c now retry_after)] rc) ''quota-requeue'' s
      else if max_quota_requeues (admission c) \<le> used then
        (if max_quota_requeue_resets (admission c) \<le> resets \<or> congested_groups c j s = [] then s
         else sset (recovery_key number)
           (jset ''quota_episode'' (JObj [(''since'', JFloat now),
              (''groups'', JList (map JStr (congested_groups c j s)))]) rc) s)
      else arm number (jupdate
          [(''quota_requeues'', JInt (used + 1)), (''requeue'', schedule c now retry_after),
           (''requeue_cause'', JStr (requeue_cause_of cat))] rc) (requeue_cause_of cat) s)"

subsection \<open>The quiet window\<close>

definition group_quiet :: "adm \<Rightarrow> time \<Rightarrow> group_overview \<Rightarrow> bool" where
  "group_quiet a now g \<longleftrightarrow>
     go_mode g = Normal
     \<and> \<not> (case go_cooldown_until g of None \<Rightarrow> False | Some u \<Rightarrow> now < u)
     \<and> quiet a \<le> now - go_window_start g"

definition episode_groups :: "json \<Rightarrow> string list" where
  "episode_groups episode = map str_of (items_of (jget_or episode ''groups'' JNull))"

definition episode_quiet :: "adm \<Rightarrow> time \<Rightarrow> json \<Rightarrow> db \<Rightarrow> bool" where
  "episode_quiet a now episode s \<longleftrightarrow>
     list_all (\<lambda>name. case group_overview_of a s name of None \<Rightarrow> True | Some g \<Rightarrow> group_quiet a now g)
       (episode_groups episode)"

definition rearmed_cause :: "json \<Rightarrow> string" where
  "rearmed_cause rc =
     (let t = jget_or rc ''requeue_cause'' JNull in if truthy t then str_of t else ''quota-requeue'')"

text \<open>\<open>rec\<close> is the caller's object; the new record is returned with the re-armed cause.\<close>

definition quiet_episode_rearm ::
  "sup \<Rightarrow> time \<Rightarrow> int \<Rightarrow> json \<Rightarrow> db \<Rightarrow> db \<times> (string \<times> json) option" where
  "quiet_episode_rearm c now number rc s =
     (let a = admission c; pending = jget_or (or_empty rc) ''quota_episode'' JNull in
      if \<not> truthy pending then (s, None)
      else if \<not> episode_quiet a now pending s then (s, None)
      else
        (let resets = count_of ''quota_requeue_resets'' rc + 1;
             rc1 = jupdate [(''quota_episode'', JNull), (''quota_requeues'', JInt 0),
               (''quota_requeue_resets'', JInt resets),
               (''requeue'', JObj [(''not_before'', JFloat now), (''source'', JStr ''quiet-window''),
                                  (''seconds'', JFloat (quiet a))])] rc
         in (arm number rc1 (rearmed_cause rc) s, Some (rearmed_cause rc, rc1))))"

subsection \<open>Timeout continuations\<close>

definition defer_timeout :: "sup \<Rightarrow> factory \<Rightarrow> time \<Rightarrow> job_row \<Rightarrow> db \<Rightarrow> db" where
  "defer_timeout c f now j s =
     (let number = j_issue j; rc = or_empty (record_of number s);
          used = count_of ''timeout_requeues'' rc; delay = timeout_retry_delay f in
      if jget_or rc ''work'' JNull \<noteq> JBool True \<or> jget_or rc ''phase'' JNull \<noteq> JStr ''captured''
         \<or> 3 \<le> j_repairs j \<or> max_timeout_retries f \<le> used
      then s
      else arm number (jupdate
          [(''timeout_requeues'', JInt (used + 1)),
           (''requeue'', JObj [(''source'', JStr ''timeout''), (''seconds'', JFloat delay),
                              (''not_before'', JFloat (now + delay))])] rc) ''timeout-requeue'' s)"

subsection \<open>Repairs\<close>

definition defer_repair :: "int \<Rightarrow> string \<Rightarrow> string \<Rightarrow> (string \<times> json) list option \<Rightarrow> db \<Rightarrow> db" where
  "defer_repair number reason cause detail s =
     (let key = nkey ''repair:'' number;
          s1 = (if truthy (sget key JNull s) then s
                else sset key (JObj [(''reason'', JStr reason), (''cause'', JStr cause),
                  (''detail'', case detail of None \<Rightarrow> JNull | Some d \<Rightarrow> JObj d)]) s)
      in release (owner_of number) s1)"

definition detail_or_empty :: "(string \<times> json) list option \<Rightarrow> (string \<times> json) list" where
  "detail_or_empty d = (case d of None \<Rightarrow> [] | Some x \<Rightarrow> x)"

definition sup_repair ::
  "sup \<Rightarrow> 'w os \<Rightarrow> prompt \<Rightarrow> job_row \<Rightarrow> issue \<Rightarrow> string \<Rightarrow> string \<Rightarrow> (string \<times> json) list option
     \<Rightarrow> ('w pool, unit) prog" where
  "sup_repair c X prompt j i reason cause detail =
     (let number = j_issue j in
      if factory_cfg c \<noteq> None then put (defer_repair number reason cause detail)
      else doing (get paused) (\<lambda>p.
        if p then ret ()
        else doing (sup_reserve c X (owner_of number) (model_for c (j_worker j))
                 (case nonempty (j_clone j) of Some q \<Rightarrow> base_name q | None \<Rightarrow> j_worker j)) (\<lambda>ok.
          if \<not> ok then ret ()
          else doing (timed X (\<lambda>now. transact (repair now number cause (detail_or_empty detail)))) (\<lambda>done.
            if done then doing (get (job number)) (\<lambda>row.
              case row of None \<Rightarrow> raise (TypeError ''NoneType'') | Some j1 \<Rightarrow> launch c X prompt j1 i reason)
            else and_then (sup_release (owner_of number))
              (block c X j (''Repair limit exhausted: '' @ reason))))))"

subsection \<open>Publishing\<close>

definition clone_of :: "job_row \<Rightarrow> string" where
  "clone_of j = (case j_clone j of None \<Rightarrow> [] | Some p \<Rightarrow> p)"

definition branch_field :: "job_row \<Rightarrow> string" where
  "branch_field j = (case j_branch j of None \<Rightarrow> [] | Some b \<Rightarrow> b)"

definition pr_body :: "int \<Rightarrow> string" where
  "pr_body n = ''Implements #'' @ str_int n @ ''.'' @ para @ ''Closes #'' @ str_int n @ para
     @ ''Validation is enforced by the configured CI checks.''"

definition publish_result ::
  "'w os \<Rightarrow> job_row \<Rightarrow> string \<Rightarrow> ('w, bool \<times> bool) prog" where
  "publish_result X j title =
     doing (inspect_result X (clone_of j) (branch_field j)) (\<lambda>(changed, clean).
       if clean then ret (changed, clean)
       else doing (run_git X (clone_of j) [''diff'', ''--check'']) (\<lambda>_.
         doing (run_git X (clone_of j) [''add'', ''--all'']) (\<lambda>_.
         doing (run_git X (clone_of j) [''commit'', ''-m'',
                  ''Implement issue #'' @ str_int (j_issue j) @ '': '' @ title]) (\<lambda>_.
           inspect_result X (clone_of j) (branch_field j)))))"

definition open_pr :: "sup \<Rightarrow> 'w os \<Rightarrow> job_row \<Rightarrow> string \<Rightarrow> ('w, int) prog" where
  "open_pr c X j title =
     doing (run_git X (clone_of j) [''push'', ''origin'', branch_field j]) (\<lambda>_.
     doing (find_pr X (repo c) (branch_field j)) (\<lambda>found. case found of
       Some r \<Rightarrow> doing (of_res (jitem r ''number'')) (\<lambda>n. ret (int_of n))
     | None \<Rightarrow> create_pr X (repo c) (branch_field j) title (pr_body (j_issue j))))"

definition publish :: "sup \<Rightarrow> 'w os \<Rightarrow> job_row \<Rightarrow> issue \<Rightarrow> ('w pool, unit) prog" where
  "publish c X j i =
     doing (io (publish_result X j (i_title i))) (\<lambda>(changed, clean).
       if \<not> clean \<or> \<not> changed then raise (RuntimeError ''Worker did not leave a clean committed change'')
       else doing (io (open_pr c X j (i_title i))) (\<lambda>n.
         and_then (sup_update X (j_issue j) [FStatus ''pr-open'', FPr (Some n), FError None])
           (set_setting (nkey ''process:'' (j_issue j)) JNull)))"

subsection \<open>Conflicted merges\<close>

text \<open>\<open>^CONFLICT \([^)]*\): Merge conflict in (.+)$\<close>, multi-line\<close>

definition conflict_rx :: rx where
  "conflict_rx = seqs [BolM, lit ''CONFLICT ('', Rep (not_of '')'') 0 None,
     lit ''): Merge conflict in '', Grp 1 (Rep (Chr (\<lambda>c. c \<noteq> newline)) 1 None), EolM]"

definition conflict_paths :: "string list \<Rightarrow> string list" where
  "conflict_paths outputs =
     uniq (filter (\<lambda>p. p \<noteq> [])
       (concat (map (\<lambda>t. map (\<lambda>h. strip (gtext 1 h)) (re_finditer conflict_rx t)) outputs)))"

definition unmerged_paths :: "'w os \<Rightarrow> string \<Rightarrow> ('w, string list) prog" where
  "unmerged_paths X clone =
     try_else (run_git X clone [''diff'', ''--name-only'', ''--diff-filter=U''])
       (\<lambda>_. ret [])
       (\<lambda>out. ret (filter (\<lambda>l. l \<noteq> []) (map strip (splitlines out))))"

text \<open>A keyed document is resolved from the three merge stages git holds.\<close>

definition resolve_document :: "'w os \<Rightarrow> string \<Rightarrow> region \<Rightarrow> string \<Rightarrow> ('w, unit) prog" where
  "resolve_document X clone rg path =
     doing (look (read_text X (slash clone path))) (\<lambda>t.
       if \<not> carries_conflict_markers (splitlines t)
       then raise (RuntimeError (path @ '' carries no conflict hunk''))
       else doing (run_git X clone [''show'', '':1:'' @ path]) (\<lambda>base.
         doing (run_git X clone [''show'', '':2:'' @ path]) (\<lambda>ours.
         doing (run_git X clone [''show'', '':3:'' @ path]) (\<lambda>theirs.
         doing (of_res (resolve_keyed_append rg path t base ours theirs)) (\<lambda>out.
           write_text X (slash clone path) out)))))"

definition regenerate_cargo_lockfile :: "'w os \<Rightarrow> string \<Rightarrow> ('w, unit) prog" where
  "regenerate_cargo_lockfile X clone =
     doing (run_git X clone [''checkout'', ''--theirs'', ''--'', ''Cargo.lock'']) (\<lambda>_.
     doing (exec X (Some clone) [''cargo'', ''generate-lockfile'']) (\<lambda>r.
       if returncode r \<noteq> 0
       then raise (CalledProcessError ''cargo generate-lockfile failed'' (stdout r) (stderr r))
       else ret ()))"

definition run_resolver :: "'w os \<Rightarrow> string \<Rightarrow> string \<times> string \<Rightarrow> ('w, unit) prog" where
  "run_resolver X clone pr =
     (if snd pr = ''cargo-lockfile'' then regenerate_cargo_lockfile X clone
      else if snd pr = ''release-contract-union''
        then resolve_document X clone release_contract_region release_contract_path
      else resolve_document X clone qa_plan_region qa_plan_path)"

definition complete_merge :: "'w os \<Rightarrow> string \<Rightarrow> string list \<Rightarrow> (string \<times> string) list \<Rightarrow> ('w, string) prog" where
  "complete_merge X clone paths resolvers =
     and_then (for_each (run_resolver X clone) resolvers)
       (doing (run_git X clone (''add'' # ''--'' # paths)) (\<lambda>_.
        doing (run_git X clone [''diff'', ''--name-only'', ''--diff-filter=U'']) (\<lambda>unmerged.
          if unmerged \<noteq> [] then raise (RuntimeError (''unmerged paths remain: '' @ unmerged))
          else doing (run_git X clone [''commit'', ''--no-edit'']) (\<lambda>_.
            run_git X clone [''rev-parse'', ''HEAD'']))))"

definition resolution_payload :: "(string \<times> string) list \<Rightarrow> json" where
  "resolution_payload resolvers =
     JObj [(''resolvers'', JObj (map (\<lambda>(p, n). (p, JStr n)) resolvers)),
           (''paths'', JList (map JStr (sort (map fst resolvers))))]"

definition resolve_mechanical ::
  "'w os \<Rightarrow> string \<Rightarrow> string list \<Rightarrow> job_row \<Rightarrow> ('w pool, (string \<times> string) list option) prog" where
  "resolve_mechanical X clone paths j =
     (case resolvers_for paths of
        None \<Rightarrow> ret None
      | Some resolvers \<Rightarrow>
          try_else (io (complete_merge X clone paths resolvers)) (\<lambda>_. ret None) (\<lambda>head.
            and_then (timed X (\<lambda>now. attempt (record_event now (JStr mechanical_resolution_kind)
                (Some (j_issue j)) (Some (j_attempt j)) (Some (resolution_payload resolvers))
                (Some (''mechanical-resolution:'' @ str_int (j_issue j) @ '':'' @ head)))))
              (ret (Some resolvers))))"

definition resolve_publish_merge ::
  "'w os \<Rightarrow> string \<Rightarrow> string list \<Rightarrow> job_row \<Rightarrow> ('w pool, bool) prog" where
  "resolve_publish_merge X clone paths j =
     (if paths = [] then ret False
      else doing (resolve_mechanical X clone paths j) (\<lambda>r. case r of
        None \<Rightarrow> ret False
      | Some _ \<Rightarrow>
          try_else (io (run_git X clone [''push'', ''origin'', branch_field j]))
            (\<lambda>e. if is_called_process_error e then ret False else raise e)
            (\<lambda>_. ret True)))"

end
