(* ===== verification/Handlers.thy ===== *)
theory Handlers
  imports Requeue
begin

text \<open>
  agent_pool/supervisor.py: the handlers of one supervisor pass that concern workers and their
  pull requests: the reconciliation of finished invocations, the recovery of interrupted launches,
  integration, the retries of blocked jobs and the mirroring of labels.
\<close>

definition inventory_issue :: "issue list \<Rightarrow> int \<Rightarrow> issue option" where
  "inventory_issue issues n = find_row i_number n (rev issues)"

definition process_key :: "int \<Rightarrow> string" where "process_key n = nkey ''process:'' n"

subsection \<open>Finished invocations\<close>

definition log_path :: "json \<Rightarrow> string" where
  "log_path m = str_of (jget_or m ''log'' (JStr ''/nonexistent''))"

definition log_tail :: "'w os \<Rightarrow> json \<Rightarrow> nat \<Rightarrow> ('w, string) prog" where
  "log_tail X m n =
     doing (ask (is_file X (log_path m))) (\<lambda>there.
       if there then doing (look (read_text X (log_path m))) (\<lambda>t. ret (last_n n t)) else ret [])"

definition reports_block :: "string \<Rightarrow> bool" where
  "reports_block t \<longleftrightarrow>
     in_text ''rejected a tool call that requires confirmation'' t \<or> in_text ''BLOCKED'' t"

definition failed_exit :: "json \<Rightarrow> bool" where
  "failed_exit receipt \<longleftrightarrow> \<not> py_eq (exit_code receipt) (JInt 0)"

definition session_gone :: "job_row \<Rightarrow> string \<Rightarrow> bool" where
  "session_gone j tail \<longleftrightarrow>
     nonempty (j_session j) \<noteq> None \<and> in_text ''session'' (lower tail)
     \<and> (in_text ''not found'' (lower tail) \<or> in_text ''no such'' (lower tail))"

definition in_factory :: "sup \<Rightarrow> bool" where
  "in_factory c \<longleftrightarrow> factory_cfg c \<noteq> None"

definition sup_requeue ::
  "sup \<Rightarrow> 'w os \<Rightarrow> job_row \<Rightarrow> category \<Rightarrow> int option \<Rightarrow> ('w pool, unit) prog" where
  "sup_requeue c X j cat hint = timed X (\<lambda>now. put (requeue_quota c now j cat hint))"

definition sup_defer_timeout :: "sup \<Rightarrow> 'w os \<Rightarrow> job_row \<Rightarrow> ('w pool, unit) prog" where
  "sup_defer_timeout c X j =
     (case factory_cfg c of
        None \<Rightarrow> ret () | Some f \<Rightarrow> timed X (\<lambda>now. put (defer_timeout c f now j)))"

definition last_error_text :: "category \<Rightarrow> string" where
  "last_error_text cat = ''Local agent '' @ category_name cat
     @ '' failure; resolve it and run: dcs-agents admission reset <group>''"

definition failed_invocation ::
  "sup \<Rightarrow> 'w os \<Rightarrow> job_row \<Rightarrow> json \<Rightarrow> json \<Rightarrow> ('w pool, unit) prog" where
  "failed_invocation c X j m receipt =
     doing (io (log_tail X m 12000)) (\<lambda>tail.
       (let v = classify (dumps_now X) receipt (Some tail) (hint_ceiling (admission c));
            cat = fst v; hint = snd v in
        steps
          [sup_finish c X (owner_of (j_issue j)) m cat hint,
           only_if (session_gone j tail) (sup_update X (j_issue j) [FSession None]),
           (if cat \<in> set requeue_categories \<and> \<not> (in_factory c \<and> cat = Timeout)
            then sup_requeue c X j cat hint
            else only_if (cat = Auth \<or> cat = Credits)
              (set_setting ''last_error'' (JStr (last_error_text cat)))),
           block c X j (''Local agent failed: '' @ take 2000 (dumps_std (float_text X) receipt)),
           only_if (in_factory c \<and> cat = Timeout) (sup_defer_timeout c X j)]))"

definition invocation_meta :: "json \<Rightarrow> json" where
  "invocation_meta m = JObj [(''invocation'', jget_or m ''invocation'' JNull)]"

definition deliver ::
  "sup \<Rightarrow> 'w os \<Rightarrow> job_row \<Rightarrow> issue \<Rightarrow> json \<Rightarrow> ('w pool, unit) prog" where
  "deliver c X j i m = steps
     [publish c X j i,
      sup_finish c X (owner_of (j_issue j)) m Success None,
      only_if (in_factory c) (steps
        [set_setting (nkey ''delivery:'' (j_issue j)) JNull,
         sup_useful c (invocation_meta m)])]"

definition find_session :: "sup \<Rightarrow> 'w os \<Rightarrow> job_row \<Rightarrow> json \<Rightarrow> ('w pool, unit) prog" where
  "find_session c X j m =
     only_if (nonempty (j_session j) = None)
       (doing (io (session_id X (clone_of j) (num_of (jget_or m ''started_at'' JNull))
                 (model_for c (j_worker j)) (fopt ''key'' m))) (\<lambda>sid.
          only_if (nonempty sid \<noteq> None) (sup_update X (j_issue j) [FSession sid])))"

definition completed_invocation ::
  "sup \<Rightarrow> 'w os \<Rightarrow> prompt \<Rightarrow> job_row \<Rightarrow> issue \<Rightarrow> json \<Rightarrow> ('w pool, unit) prog" where
  "completed_invocation c X prompt j i m = steps
     [find_session c X j m,
      only_if (in_factory c) (steps
        [set_setting (nkey ''delivery:'' (j_issue j)) (invocation_meta m),
         sup_finish c X (owner_of (j_issue j)) m Success None]),
      except_any (deliver c X j i m) (\<lambda>e. case e of
         GitHubError t \<Rightarrow>
           (if in_factory c
            then sup_update X (j_issue j) [FError (Some (''Publication deferred: '' @ take 500 t))]
            else raise e)
       | _ \<Rightarrow> sup_repair c X prompt j i (exn_text e) ''publish-error'' None)]"

definition finished_invocation ::
  "sup \<Rightarrow> 'w os \<Rightarrow> prompt \<Rightarrow> job_row \<Rightarrow> issue \<Rightarrow> json \<Rightarrow> json \<Rightarrow> ('w pool, unit) prog" where
  "finished_invocation c X prompt j i m receipt =
     doing (io (log_tail X m 16000)) (\<lambda>out.
       if reports_block out then
         and_then (sup_finish c X (owner_of (j_issue j)) m Failure None)
           (block c X j ''Agent reported a blocker or smart-mode permission rejection; work preserved'')
       else if failed_exit receipt then failed_invocation c X j m receipt
       else completed_invocation c X prompt j i m)"

definition reconcile_job ::
  "sup \<Rightarrow> 'w os \<Rightarrow> prompt \<Rightarrow> issue list \<Rightarrow> job_row \<Rightarrow> ('w pool, unit) prog" where
  "reconcile_job c X prompt issues j =
     doing (setting (nkey ''repair:'' (j_issue j)) JNull) (\<lambda>pending.
       if in_factory c \<and> truthy pending then ret ()
       else case inventory_issue issues (j_issue j) of
         None \<Rightarrow> block c X j ''Issue is missing from reconciled GitHub inventory''
       | Some i \<Rightarrow> doing (setting (process_key (j_issue j)) JNull) (\<lambda>m.
           if m = JNull
           then block c X j ''Missing process record; inspect preserved workspace before retry''
           else doing (io (poll X m)) (\<lambda>receipt. case receipt of
             None \<Rightarrow> ret ()
           | Some r \<Rightarrow> finished_invocation c X prompt j i m r)))"

definition reconcile_workers ::
  "sup \<Rightarrow> 'w os \<Rightarrow> prompt \<Rightarrow> issue list \<Rightarrow> ('w pool, unit) prog" where
  "reconcile_workers c X prompt issues =
     doing (get (list_jobs [Working])) (for_each (reconcile_job c X prompt issues))"

subsection \<open>Interrupted launches\<close>

definition known_invocations :: "db \<Rightarrow> json list" where
  "known_invocations s =
     filter truthy
       (map (\<lambda>j. sget (process_key (j_issue j)) JNull s) (list_jobs [Working] s)
        @ map (\<lambda>k. jget_or (sget k JNull s) ''process'' JNull)
            (filter (\<lambda>k. truthy (sget k JNull s)) [''planner'', ''reviewer'']))"

definition launch_matches :: "json \<Rightarrow> db \<Rightarrow> job_row list" where
  "launch_matches record s =
     filter (\<lambda>j. sget (nkey ''launch:'' (j_issue j)) JNull s = jget_or record ''key'' JNull
         \<and> \<not> truthy (sget (process_key (j_issue j)) JNull s)) (list_jobs [Working] s)"

definition adopt_record :: "'w os \<Rightarrow> json \<Rightarrow> ('w pool, unit) prog" where
  "adopt_record X record =
     doing (setting ''reviewer:launch'' JNull) (\<lambda>intent.
     doing (setting ''reviewer'' JNull) (\<lambda>reviewer.
       if truthy intent \<and> jget_or record ''key'' JNull = jget_or intent ''key'' JNull \<and> \<not> truthy reviewer
       then set_setting ''reviewer'' (jset ''process'' record intent)
       else doing (get (launch_matches record)) (\<lambda>matches. case matches of
         [j] \<Rightarrow> set_setting (process_key (j_issue j)) record
       | _ \<Rightarrow> doing (io (poll X record)) (\<lambda>receipt.
           only_if (receipt = None) (and_then (io (terminate X record))
             (put (integrity (''Stopped unowned local invocation: '' @ fstr ''invocation'' record))))))))"

definition recover_processes :: "sup \<Rightarrow> 'w os \<Rightarrow> ('w pool, unit) prog" where
  "recover_processes c X =
     doing (get known_invocations) (\<lambda>known.
     doing (io (recover X (rt c) (map (fstr ''invocation'') known))) (for_each (adopt_record X)))"

subsection \<open>Integration\<close>

definition failing_states :: "string list" where
  "failing_states = [''failure'', ''timed_out'', ''cancelled'', ''action_required'', ''skipped'',
     ''neutral'', ''stale'']"

definition failed_checks :: "string list \<Rightarrow> (string \<times> json) list \<Rightarrow> (string \<times> json) list" where
  "failed_checks required states =
     concat (map (\<lambda>n. case map_of states n of
         Some (JStr v) \<Rightarrow> (if v \<in> set failing_states then [(n, JStr v)] else [])
       | _ \<Rightarrow> []) (uniq required))"

definition upper_char :: "char \<Rightarrow> char" where
  "upper_char x = (if is_lower_az x then char_of (cp x - 32) else x)"

definition is_closed :: "json \<Rightarrow> bool" where
  "is_closed j \<longleftrightarrow> map upper_char (fstr ''state'' j) = ''CLOSED''"

definition merged_pr :: "sup \<Rightarrow> 'w os \<Rightarrow> job_row \<Rightarrow> ('w pool, unit) prog" where
  "merged_pr c X j =
     doing (io (gh_issue X (repo c) (j_issue j))) (\<lambda>v.
       if is_closed v then
         and_then (timed X (\<lambda>now. put (complete now (j_issue j))))
           (sup_useful c (JObj [(''owner'', JStr (owner_of (j_issue j)))]))
       else sup_update X (j_issue j) [FError (Some ''Merged PR awaiting linked issue closure'')])"

definition issue_required :: "issue list \<Rightarrow> int \<Rightarrow> ('s, issue) prog" where
  "issue_required issues n =
     (case inventory_issue issues n of None \<Rightarrow> raise (KeyError (str_int n)) | Some i \<Rightarrow> ret i)"

definition conflict_detail :: "string list \<Rightarrow> (string \<times> json) list" where
  "conflict_detail paths =
     (if paths \<noteq> [] then [(''paths'', JList (map JStr paths))]
      else [(''paths'', JList []), (''pathless'', JBool True)])"

definition merge_conflict ::
  "sup \<Rightarrow> 'w os \<Rightarrow> prompt \<Rightarrow> issue list \<Rightarrow> job_row \<Rightarrow> string \<Rightarrow> string \<Rightarrow> ('w pool, unit) prog" where
  "merge_conflict c X prompt issues j out err =
     doing (let ps = conflict_paths [out, err] in
            if ps \<noteq> [] then ret ps else io (unmerged_paths X (clone_of j))) (\<lambda>paths.
     doing (resolve_publish_merge X (clone_of j) paths j) (\<lambda>ok.
       if ok then ret ()
       else doing (issue_required issues (j_issue j)) (\<lambda>i.
         sup_repair c X prompt j i
           (''Resolve the existing merge conflict with origin/main. '' @ out @ err)
           ''merge-conflict'' (Some (conflict_detail paths)))))"

text \<open>The head is behind main: merge main into it and push.\<close>

definition update_branch ::
  "sup \<Rightarrow> 'w os \<Rightarrow> prompt \<Rightarrow> issue list \<Rightarrow> job_row \<Rightarrow> ('w pool, unit) prog" where
  "update_branch c X prompt issues j =
     try_else (io (run_git X (clone_of j) [''merge'', ''--no-edit'', ''origin/main'']))
       (\<lambda>e. case e of
          CalledProcessError m out err \<Rightarrow> merge_conflict c X prompt issues j out err
        | _ \<Rightarrow> raise e)
       (\<lambda>_. except_if is_called_process_error
          (doing (io (run_git X (clone_of j) [''push'', ''origin'', branch_field j])) (\<lambda>_. ret ()))
          (\<lambda>e. case e of
             CalledProcessError m out err \<Rightarrow> doing (issue_required issues (j_issue j)) (\<lambda>i.
               sup_repair c X prompt j i
                 (''git push failed after a clean merge with origin/main. '' @ out @ err)
                 ''publish-error'' None)
           | _ \<Rightarrow> raise e))"

definition check_pr ::
  "sup \<Rightarrow> 'w os \<Rightarrow> prompt \<Rightarrow> issue list \<Rightarrow> job_row \<Rightarrow> json \<Rightarrow> string \<Rightarrow> ('w pool, bool) prog" where
  "check_pr c X prompt issues j pr head =
     doing (io (checks_pass X (repo c) pr (required_checks c))) (\<lambda>ok.
       if ok then
         doing (io (merge X (repo c) (case j_pr j of None \<Rightarrow> 0 | Some n \<Rightarrow> n) (required_checks c))) (\<lambda>_. ret True)
       else doing (io (check_states X (repo c) head)) (\<lambda>states.
         (let failed = failed_checks (required_checks c) states in
          if failed = [] then ret False
          else doing (issue_required issues (j_issue j)) (\<lambda>i.
            and_then (sup_repair c X prompt j i
                (''CI failed. Inspect gh pr checks and gh run view --log-failed as read-only diagnostics. ''
                 @ dumps_std (float_text X) (JObj failed))
                ''ci-failure'' (Some [(''checks'', JList (map JStr (sort (map fst failed))))]))
              (ret True)))))"

text \<open>One open pull request; \<open>True\<close> ends the pass (at most one merge, update or repair).\<close>

definition integrate_job ::
  "sup \<Rightarrow> 'w os \<Rightarrow> prompt \<Rightarrow> issue list \<Rightarrow> int option \<Rightarrow> job_row \<Rightarrow> ('w pool, bool) prog" where
  "integrate_job c X prompt issues only j =
     (if only \<noteq> None \<and> only \<noteq> Some (j_issue j) then ret False
      else doing (io (gh_pr X (repo c) (case j_pr j of None \<Rightarrow> 0 | Some n \<Rightarrow> n))) (\<lambda>pr.
        if truthy (jget_or pr ''merged'' JNull) then and_then (merged_pr c X j) (ret True)
        else if is_closed pr then
          and_then (block c X j ''Pull request closed without merging'') (ret False)
        else doing (setting (nkey ''repair:'' (j_issue j)) JNull) (\<lambda>pending.
          if in_factory c \<and> truthy pending then ret False
          else doing (io (run_git X (clone_of j) [''fetch'', ''origin''])) (\<lambda>_.
            doing (io (run_git X (clone_of j) [''rev-parse'', ''origin/main''])) (\<lambda>base.
            doing (of_res (jpath pr [''head'', ''sha''])) (\<lambda>head.
            doing (io (includes_main X (repo c) (str_of head) (strip base))) (\<lambda>inc.
              if \<not> inc then and_then (update_branch c X prompt issues j) (ret True)
              else check_pr c X prompt issues j pr (str_of head))))))))"

definition integrate ::
  "sup \<Rightarrow> 'w os \<Rightarrow> prompt \<Rightarrow> issue list \<Rightarrow> int option \<Rightarrow> ('w pool, unit) prog" where
  "integrate c X prompt issues only =
     doing (get paused) (\<lambda>p.
       if p then ret ()
       else doing (get (list_jobs [PrOpen])) (\<lambda>js.
         doing (for_until (integrate_job c X prompt issues only) js) (\<lambda>_. ret ())))"

subsection \<open>Retries of blocked jobs\<close>

definition not_before :: "json \<Rightarrow> time" where
  "not_before rc =
     (case num_of (jget_or (or_empty (jget_or rc ''requeue'' JNull)) ''not_before'' (JInt 0)) of
        None \<Rightarrow> 0 | Some t \<Rightarrow> t)"

definition waits :: "json \<Rightarrow> json \<Rightarrow> time \<Rightarrow> bool" where
  "waits flag rc now \<longleftrightarrow>
     flag \<in> {JStr ''quota-requeue'', JStr ''timeout-requeue'', JStr ''kill-requeue''}
     \<and> now < not_before rc"

definition retry_armed ::
  "sup \<Rightarrow> 'w os \<Rightarrow> prompt \<Rightarrow> time \<Rightarrow> job_row \<Rightarrow> issue \<Rightarrow> json \<Rightarrow> json \<Rightarrow> ('w pool, unit) prog" where
  "retry_armed c X prompt now j i flag rc0 =
     doing (get (list_jobs [Working, PrOpen])) (\<lambda>busy.
     doing (get (\<lambda>s. capacity s \<le> slots_used s)) (\<lambda>full.
       if full then ret ()
       else doing (if rc0 = JNull then capture_recovery c X j else ret rc0) (\<lambda>rc.
         if waits flag rc now then ret ()
         else doing (recover_job c X prompt j rc busy i) (\<lambda>_. ret ()))))"

definition retry_job ::
  "sup \<Rightarrow> 'w os \<Rightarrow> prompt \<Rightarrow> issue list \<Rightarrow> int option \<Rightarrow> time \<Rightarrow> job_row \<Rightarrow> ('w pool, unit) prog" where
  "retry_job c X prompt issues only now j =
     (case inventory_issue issues (j_issue j) of
        None \<Rightarrow> ret ()
      | Some i \<Rightarrow>
          (if (only \<noteq> None \<and> only \<noteq> Some (j_issue j)) \<or> (in_factory c \<and> i_state i \<noteq> ''OPEN'') then ret ()
           else doing (setting (retry_key (j_issue j)) JNull) (\<lambda>flag.
             doing (setting (recovery_key (j_issue j)) JNull) (\<lambda>rc.
               if truthy flag then retry_armed c X prompt now j i flag rc
               else doing (transact (\<lambda>s. Inr (quiet_episode_rearm c now (j_issue j) rc s))) (\<lambda>r. case r of
                 None \<Rightarrow> ret ()
               | Some (cause, rc1) \<Rightarrow> retry_armed c X prompt now j i (JStr cause) rc1)))))"

definition retries ::
  "sup \<Rightarrow> 'w os \<Rightarrow> prompt \<Rightarrow> issue list \<Rightarrow> int option \<Rightarrow> ('w pool, unit) prog" where
  "retries c X prompt issues only =
     doing (get paused) (\<lambda>p.
       if p then ret ()
       else timed X (\<lambda>now. doing (get (list_jobs [Blocked]))
         (for_each (retry_job c X prompt issues only now))))"

end
