(* ===== verification/Review.thy ===== *)
theory Review
  imports Planning Effects
begin

text \<open>
  agent_pool/review.py: the architecture-review lane's settings, the preflight of its resources,
  the validation of a reviewer's report and the retention of old reports. Parameters: the parsing
  of ISO-8601 timestamps and the existence of a path at the base revision. Not modelled: time
  zones and the assembly of the prompt.
\<close>

subsection \<open>Settings\<close>

definition review_defaults :: json where
  "review_defaults =
     JObj [(''enabled'', JBool False), (''mode'', JStr ''report''), (''auto_promote'', JBool True),
           (''time'', JStr ''03:00''), (''timezone'', JStr ''Europe/Berlin''),
           (''timeout_seconds'', JInt 3600), (''max_candidates'', JInt 3),
           (''retention_days'', JInt 30)]"

text \<open>\<open>(int(part) for part in str(cfg['time']).split(':'))\<close> unpacked into two values.\<close>

definition hour_minute :: "json \<Rightarrow> (int \<times> int) option" where
  "hour_minute t =
     (case t of
        JStr s \<Rightarrow>
          (case split_on CHR '':'' s of
             [h, m] \<Rightarrow> (case (int_of_text h, int_of_text m) of
                          (Some x, Some y) \<Rightarrow> Some (x, y) | _ \<Rightarrow> None)
           | _ \<Rightarrow> None)
      | _ \<Rightarrow> None)"

definition positive_int :: "json \<Rightarrow> bool" where
  "positive_int j \<longleftrightarrow> type_is_int j \<and> 1 \<le> int_of j"

definition review_settings :: "json \<Rightarrow> json res" where
  "review_settings config =
     (let raw = jget_or config ''review'' JNull;
          cfg = fold (\<lambda>(k, v). jset k v) (if truthy raw then fields_of raw else []) review_defaults;
          f = (\<lambda>k. jget_or cfg k JNull)
      in if \<not> type_is_bool (f ''enabled'') \<or> \<not> type_is_bool (f ''auto_promote'')
         then Inl (ValueError ''review.enabled and review.auto_promote must be boolean'')
         else if f ''mode'' \<notin> {JStr ''report'', JStr ''pilot'', JStr ''full''}
         then Inl (ValueError ''review.mode must be report, pilot, or full'')
         else case hour_minute (f ''time'') of
           None \<Rightarrow> Inl (ValueError ''review.time must be HH:MM'')
         | Some (h, m) \<Rightarrow>
             (if \<not> (0 \<le> h \<and> h \<le> 23 \<and> 0 \<le> m \<and> m \<le> 59)
              then Inl (ValueError ''review.time must be HH:MM'')
              else case check_all (\<lambda>k. ensure (positive_int (f k))
                     (ValueError (''review.'' @ k @ '' must be a positive integer'')))
                     [''timeout_seconds'', ''max_candidates'', ''retention_days''] of
                Some e \<Rightarrow> Inl e
              | None \<Rightarrow> Inr (jset ''minute'' (JInt m) (jset ''hour'' (JInt h) cfg))))"

subsection \<open>Resources\<close>

text \<open>
  Two maps from file names to hashes: the recorded manifest and the files present. Any missing,
  added or different file fails the preflight.
\<close>

definition mismatched :: "(string \<times> json) list \<Rightarrow> (string \<times> string) list \<Rightarrow> string list" where
  "mismatched recorded actual =
     filter (\<lambda>n. map_of recorded n \<noteq> map_option JStr (map_of actual n))
       (uniq (map fst recorded @ map fst actual))"

definition verify_resources ::
  "json option \<Rightarrow> (string \<times> string) list \<Rightarrow> string \<Rightarrow> (string \<times> string) list res" where
  "verify_resources manifest_doc actual manifest_hash =
     (case manifest_doc of
        None \<Rightarrow> Inl (ValueError ''Missing architecture resource manifest'')
      | Some doc \<Rightarrow>
          (let bad = mismatched (fields_of (jget_or doc ''files'' (JObj []))) actual in
           if bad \<noteq> []
           then Inl (ValueError (''Architecture resource hash mismatch: '' @ join '', '' (sort bad)))
           else case (map_of actual ''policy.md'', map_of actual ''prompt.md'') of
             (Some p, Some q) \<Rightarrow> Inr [(''policy_sha256'', p), (''prompt_sha256'', q),
                                     (''references_sha256'', manifest_hash)]
           | (None, _) \<Rightarrow> Inl (KeyError ''policy.md'')
           | (_, None) \<Rightarrow> Inl (KeyError ''prompt.md'')))"

subsection \<open>Report validation\<close>

definition max_field :: nat where "max_field = 12000"

definition text_ok :: "json \<Rightarrow> nat \<Rightarrow> bool" where
  "text_ok v limit \<longleftrightarrow> is_str v \<and> \<not> blank (str_of v) \<and> length (str_of v) \<le> limit"

definition bounded_text :: "json \<Rightarrow> string \<Rightarrow> nat \<Rightarrow> check" where
  "bounded_text v field limit =
     ensure (text_ok v limit) (ValueError (''Missing or oversized text: '' @ field))"

definition bounded_list :: "json \<Rightarrow> string \<Rightarrow> nat \<Rightarrow> check" where
  "bounded_list v field limit = first_exn
     [ensure (is_list v \<and> length (items_of v) \<le> 40) (ValueError (''Invalid list: '' @ field)),
      check_all (\<lambda>x. bounded_text x field limit) (items_of v)]"

definition review_key_ok :: "string \<Rightarrow> bool" where
  "review_key_ok k \<longleftrightarrow> re_match (key_rx 79) k \<noteq> None"

definition hex_lower :: "char \<Rightarrow> bool" where
  "hex_lower x \<longleftrightarrow> is_dig x \<or> (97 \<le> cp x \<and> cp x \<le> 102)"

definition sha_rx :: "nat \<Rightarrow> rx" where
  "sha_rx n = seqs [Bol, Rep (Chr hex_lower) n (Some n), Eol]"

definition sha_ok :: "nat \<Rightarrow> string \<Rightarrow> bool" where
  "sha_ok n t \<longleftrightarrow> re_match (sha_rx n) t \<noteq> None"

definition str_in :: "json \<Rightarrow> string list \<Rightarrow> bool" where
  "str_in v allowed \<longleftrightarrow> is_str v \<and> str_of v \<in> set allowed"

definition required_candidate_fields :: "string list" where
  "required_candidate_fields =
     [''key'', ''title'', ''outcome'', ''evidence'', ''affected_modules'', ''problem'', ''proposal'',
      ''caller_benefit'', ''invariants'', ''test_approach'', ''alternatives'', ''confidence'',
      ''effort'', ''risk'', ''related_issues'', ''decision_conflicts'']"

definition fields_between :: "json \<Rightarrow> string list \<Rightarrow> string list \<Rightarrow> bool" where
  "fields_between j need allowed \<longleftrightarrow>
     is_obj j \<and> set need \<subseteq> set (map fst (fields_of j)) \<and> set (map fst (fields_of j)) \<subseteq> set allowed"

text \<open>A relative path inside the repository: no root, no drive, no parent step.\<close>

definition relative_path :: "string \<Rightarrow> bool" where
  "relative_path p \<longleftrightarrow>
     p \<noteq> [] \<and> \<not> starts_with ''/'' p
     \<and> \<not> (2 \<le> length p \<and> (is_lower_az (hd p) \<or> is_upper_az (hd p)) \<and> p ! 1 = CHR '':'')
     \<and> ''..'' \<notin> set (split_on CHR ''/'' p)"

definition check_evidence :: "(string \<Rightarrow> bool) \<Rightarrow> json \<Rightarrow> check" where
  "check_evidence present e = first_exn
     [ensure (fields_between e [''path'', ''detail''] [''path'', ''detail''])
        (ValueError ''Evidence entries need path and detail''),
      ensure (is_str (jget_or e ''path'' JNull) \<and> relative_path (fstr ''path'' e))
        (ValueError ''Evidence path must be a relative repository path''),
      ensure (present (fstr ''path'' e))
        (ValueError (''Evidence path absent at base revision: '' @ fstr ''path'' e)),
      bounded_text (jget_or e ''detail'' JNull) ''evidence.detail'' 2000]"

definition check_related :: "int list option \<Rightarrow> json \<Rightarrow> check" where
  "check_related known n = first_exn
     [ensure (positive_int n) (ValueError ''related_issues must be positive integers''),
      ensure (case known of None \<Rightarrow> True | Some ns \<Rightarrow> int_of n \<in> set ns)
        (ValueError (''Candidate references unknown issue '' @ str_int (int_of n)))]"

definition check_naming :: "json \<Rightarrow> json \<Rightarrow> check" where
  "check_naming outcome naming =
     (if str_in outcome [''naming'', ''both''] then first_exn
        [ensure (fields_between naming [] [''canonical'', ''aliases'', ''compatibility''])
           (ValueError ''Naming candidates require a naming object''),
         bounded_text (jget_or naming ''canonical'' JNull) ''naming.canonical'' 200,
         bounded_list (jget_or naming ''aliases'' JNull) ''naming.aliases'' 500,
         bounded_text (jget_or naming ''compatibility'' JNull) ''naming.compatibility'' 4000]
      else ensure (naming = JNull \<or> is_obj naming) (ValueError ''naming must be an object or null''))"

definition validate_candidate :: "(string \<Rightarrow> bool) \<Rightarrow> int list option \<Rightarrow> json \<Rightarrow> check" where
  "validate_candidate present known item =
     (let f = (\<lambda>k. jget_or item k JNull) in first_exn
       [ensure (fields_between item [] (''naming'' # required_candidate_fields))
          (ValueError ''Invalid candidate fields''),
        ensure (set required_candidate_fields \<subseteq> set (map fst (fields_of item)))
          (ValueError ''Candidate missing fields''),
        ensure (is_str (f ''key'') \<and> review_key_ok (fstr ''key'' item))
          (ValueError ''Invalid candidate key''),
        bounded_text (f ''title'') ''title'' 200,
        ensure (str_in (f ''outcome'') [''depth'', ''naming'', ''both''])
          (ValueError ''Candidate outcome must be depth, naming, or both''),
        ensure (is_list (f ''evidence'') \<and> items_of (f ''evidence'') \<noteq> []
                \<and> length (items_of (f ''evidence'')) \<le> 20)
          (ValueError ''Candidate requires 1-20 evidence entries''),
        check_all (check_evidence present) (items_of (f ''evidence'')),
        bounded_list (f ''affected_modules'') ''affected_modules'' 500,
        check_all (\<lambda>k. bounded_text (f k) k max_field)
          [''problem'', ''proposal'', ''caller_benefit'', ''test_approach'', ''alternatives''],
        bounded_list (f ''invariants'') ''invariants'' 2000,
        ensure (str_in (f ''confidence'') [''low'', ''medium'', ''high'']) (ValueError ''Invalid confidence''),
        ensure (str_in (f ''effort'') [''small'', ''medium'', ''large'']) (ValueError ''Invalid effort''),
        ensure (str_in (f ''risk'') [''low'', ''medium'', ''high'']) (ValueError ''Invalid risk''),
        ensure (is_list (f ''related_issues'') \<and> length (items_of (f ''related_issues'')) \<le> 20)
          (ValueError ''Invalid related_issues''),
        check_all (check_related known) (items_of (f ''related_issues'')),
        bounded_list (f ''decision_conflicts'') ''decision_conflicts'' 2000,
        check_naming (f ''outcome'') (f ''naming'')])"

definition top_level :: "string list" where
  "top_level =
     [''schema_version'', ''run_id'', ''base_sha'', ''previous_reviewed_sha'', ''started_at'',
      ''ended_at'', ''policy_sha256'', ''prompt_sha256'', ''references_sha256'', ''status'', ''scope'',
      ''missing_context'', ''candidates'', ''assessments'']"

text \<open>
  A parsed timestamp is its instant and whether it carries a UTC offset; Python refuses to
  compare one with an offset to one without.
\<close>

type_synonym iso = "string \<Rightarrow> (time \<times> bool) option"

definition check_interval :: "iso \<Rightarrow> json \<Rightarrow> json \<Rightarrow> check" where
  "check_interval parse started ended =
     (let p = (\<lambda>v. if is_str v then parse (str_of v) else None) in
      case p started of
        None \<Rightarrow> Some (ValueError ''started_at must be an ISO-8601 string'')
      | Some (t0, aware0) \<Rightarrow>
          (case p ended of
             None \<Rightarrow> Some (ValueError ''ended_at must be an ISO-8601 string'')
           | Some (t1, aware1) \<Rightarrow>
               (if aware0 \<noteq> aware1
                then Some (TypeError ''can't compare offset-naive and offset-aware datetimes'')
                else ensure (t0 \<le> t1) (ValueError ''ended_at precedes started_at''))))"

definition check_hash :: "(string \<times> string) list \<Rightarrow> json \<Rightarrow> string \<Rightarrow> check" where
  "check_hash expected data field = first_exn
     [ensure (is_str (jget_or data field JNull) \<and> sha_ok 64 (fstr field data))
        (ValueError (field @ '' must be a sha256 hex digest'')),
      ensure (expected = [] \<or> map_of expected field = Some (fstr field data))
        (ValueError (field @ '' does not match the verified resources''))]"

text \<open>The loops over candidates and assessments, with the keys seen so far.\<close>

fun check_candidates ::
  "(string \<Rightarrow> bool) \<Rightarrow> int list option \<Rightarrow> string list \<Rightarrow> json list \<Rightarrow> string list res" where
  "check_candidates present known seen [] = Inr seen"
| "check_candidates present known seen (item # items) =
     (case validate_candidate present known item of
        Some e \<Rightarrow> Inl e
      | None \<Rightarrow>
          (if fstr ''key'' item \<in> set seen then Inl (ValueError ''Duplicate candidate key'')
           else check_candidates present known (seen @ [fstr ''key'' item]) items))"

definition check_assessment :: "json \<Rightarrow> check" where
  "check_assessment a = first_exn
     [ensure (fields_between a [''key'', ''outcome'', ''observed'']
                [''key'', ''outcome'', ''observed'', ''followup_candidate''])
        (ValueError ''Invalid assessment fields''),
      ensure (is_str (jget_or a ''key'' JNull) \<and> review_key_ok (fstr ''key'' a))
        (ValueError ''Invalid assessment key''),
      ensure (str_in (jget_or a ''outcome'' JNull) [''confirmed'', ''rejected'', ''followup''])
        (ValueError ''Invalid assessment outcome''),
      bounded_text (jget_or a ''observed'' JNull) ''assessment.observed'' 4000]"

fun check_assessments ::
  "(string \<Rightarrow> bool) \<Rightarrow> int list option \<Rightarrow> string list \<Rightarrow> json list \<Rightarrow> string list res" where
  "check_assessments present known seen [] = Inr seen"
| "check_assessments present known seen (a # as) =
     (case check_assessment a of
        Some e \<Rightarrow> Inl e
      | None \<Rightarrow>
          (let followup = jget_or a ''followup_candidate'' JNull in
           if followup = JNull then check_assessments present known seen as
           else if jget a ''outcome'' \<noteq> Some (JStr ''followup'')
           then Inl (ValueError ''followup_candidate requires the followup outcome'')
           else case validate_candidate present known followup of
             Some e \<Rightarrow> Inl e
           | None \<Rightarrow>
               (if fstr ''key'' followup \<in> set seen
                then Inl (ValueError ''Follow-up candidate duplicates another key'')
                else check_assessments present known (seen @ [fstr ''key'' followup]) as)))"

definition check_header ::
  "iso \<Rightarrow> string \<Rightarrow> string \<Rightarrow> nat \<Rightarrow> (string \<times> string) list \<Rightarrow> json \<Rightarrow> check" where
  "check_header parse run_id base_sha max_candidates expected data =
     (let f = (\<lambda>k. jget_or data k JNull) in first_exn
       [ensure (fields_between data top_level (''notes'' # top_level))
          (ValueError ''Invalid report top-level fields''),
        ensure (py_eq (f ''schema_version'') (JInt 1)) (ValueError ''Unsupported report schema version''),
        ensure (f ''run_id'' = JStr run_id) (ValueError ''Report run_id does not match the launched run''),
        ensure (f ''base_sha'' = JStr base_sha)
          (ValueError ''Report base_sha does not match the pinned checkout''),
        ensure (f ''previous_reviewed_sha'' = JNull \<or> is_str (f ''previous_reviewed_sha''))
          (ValueError ''previous_reviewed_sha must be a string or null''),
        check_interval parse (f ''started_at'') (f ''ended_at''),
        check_all (check_hash expected data) [''policy_sha256'', ''prompt_sha256'', ''references_sha256''],
        ensure (str_in (f ''status'') [''completed'', ''inconclusive'', ''skipped''])
          (ValueError ''Invalid report status''),
        bounded_list (f ''scope'') ''scope'' 500,
        bounded_list (f ''missing_context'') ''missing_context'' 2000,
        (case jget data ''notes'' of None \<Rightarrow> None | Some v \<Rightarrow> bounded_text v ''notes'' 4000),
        ensure (is_list (f ''candidates'') \<and> length (items_of (f ''candidates'')) \<le> max_candidates)
          (ValueError ''Report exceeds the candidate limit'')])"

definition validate_review ::
  "iso \<Rightarrow> (string \<Rightarrow> bool) \<Rightarrow> string \<Rightarrow> string \<Rightarrow> int list option \<Rightarrow> nat \<Rightarrow> (string \<times> string) list
     \<Rightarrow> json option \<Rightarrow> json res" where
  "validate_review parse present run_id base_sha known max_candidates expected doc =
     (case doc of
        None \<Rightarrow> Inl (ValueError ''Report is not JSON'')
      | Some data \<Rightarrow>
          (case check_header parse run_id base_sha max_candidates expected data of
             Some e \<Rightarrow> Inl e
           | None \<Rightarrow>
               res_bind (check_candidates present known [] (items_of (jget_or data ''candidates'' JNull)))
                 (\<lambda>seen.
                    let assessments = jget_or data ''assessments'' JNull in
                    if \<not> is_list assessments \<or> 20 < length (items_of assessments)
                    then Inl (ValueError ''Invalid assessments list'')
                    else res_bind (check_assessments present known seen (items_of assessments))
                      (\<lambda>_. Inr data))))"

subsection \<open>Retention\<close>

text \<open>The report directories removed: unprotected and last changed at or before the cutoff.\<close>

definition prune_reports ::
  "time \<Rightarrow> int \<Rightarrow> string list \<Rightarrow> (string \<times> time) list \<Rightarrow> string list" where
  "prune_reports now retention_days protected dirs =
     (let cutoff = now - of_int retention_days * 86400 in
      map fst (filter (\<lambda>(n, mtime). n \<notin> set protected \<and> mtime \<le> cutoff) (sort_key fst dirs)))"

end
