(* ===== verification/Lanes.thy ===== *)
theory Lanes
  imports Handlers Review
begin

text \<open>
  agent_pool/supervisor.py: the lanes of a pass that start work: dispatch of ready issues, the
  planner, the architecture review, the improvement slot and the mirroring of labels. The texts
  of the planner's and the reviewer's prompts are parameters; the staging of the review resources
  (a copy of files whose hashes were verified) is a program parameter that may fail.
\<close>

subsection \<open>The improvement slot\<close>

definition managed_metadata :: "issue \<Rightarrow> json option res" where
  "managed_metadata i =
     (case metadata (body_of i) of
        Inl e \<Rightarrow> (if caught e then Inr None else Inl e) | Inr m \<Rightarrow> Inr (Some m))"

fun any_res :: "('a \<Rightarrow> bool res) \<Rightarrow> 'a list \<Rightarrow> bool res" where
  "any_res f [] = Inr False"
| "any_res f (x # xs) =
     (case f x of Inl e \<Rightarrow> Inl e | Inr True \<Rightarrow> Inr True | Inr False \<Rightarrow> any_res f xs)"

lemma any_res_cong [fundef_cong]:
  "xs = ys \<Longrightarrow> (\<And>x. x \<in> set ys \<Longrightarrow> f x = g x) \<Longrightarrow> any_res f xs = any_res g ys"
proof (induction xs arbitrary: ys)
  case (Cons x xs)
  then show ?case by (auto split: sum.split bool.split)
qed simp

definition all_res :: "('a \<Rightarrow> bool res) \<Rightarrow> 'a list \<Rightarrow> bool res" where
  "all_res f xs = res_bind (any_res (\<lambda>x. res_bind (f x) (\<lambda>b. Inr (\<not> b))) xs) (\<lambda>b. Inr (\<not> b))"

text \<open>
  \<open>stalled(number, chain)\<close>: the chain of issues already on the way makes a dependency cycle a
  stall; every step of the recursion adds a new inventory number to it.
\<close>

function stalled :: "issue list \<Rightarrow> job_row list \<Rightarrow> int \<Rightarrow> int list \<Rightarrow> bool res" where
  "stalled issues js number chain =
     (let status = map_option j_status (job_for js number) in
      if status = Some Working \<or> status = Some PrOpen \<or> number \<in> set (closed_numbers issues)
      then Inr False
      else if status \<noteq> None then Inr (status = Some Blocked)
      else case inventory_issue issues number of
        None \<Rightarrow> Inr True
      | Some i \<Rightarrow>
          (if i_state i \<noteq> ''OPEN'' \<or> number \<in> set chain then Inr True
           else case managed_metadata i of
             Inl e \<Rightarrow> Inl e
           | Inr None \<Rightarrow> Inr False
           | Inr (Some m) \<Rightarrow>
               any_res (\<lambda>d. if d \<in> set (closed_numbers issues) then Inr False
                         else stalled issues js d (chain @ [number])) (meta_deps m)))"
  by pat_completeness auto

definition unvisited :: "issue list \<Rightarrow> int list \<Rightarrow> int set" where
  "unvisited issues chain = i_number ` set issues - set chain"

lemma inventory_issue_number:
  "inventory_issue issues n = Some i \<Longrightarrow> i \<in> set issues \<and> i_number i = n"
  unfolding inventory_issue_def by (auto dest: find_row_Some)

termination stalled
proof (relation "measure (\<lambda>(issues, js, n, chain). card (unvisited issues chain))", simp, goal_cases)
  case (1 issues js number chain x i a m d)
  then have "number \<in> unvisited issues chain"
    by (auto simp: unvisited_def dest: inventory_issue_number)
  moreover have "unvisited issues (chain @ [number]) = unvisited issues chain - {number}"
    by (auto simp: unvisited_def)
  ultimately show ?case
    using card_Diff1_less [of "unvisited issues chain" number] by (simp add: unvisited_def)
qed

declare stalled.simps [simp del]

definition settled :: "issue list \<Rightarrow> job_row list \<Rightarrow> int \<Rightarrow> bool res" where
  "settled issues js n =
     (let status = map_option j_status (job_for js n) in
      if status = Some Done \<or> status = Some Blocked \<or> n \<in> set (closed_numbers issues) then Inr True
      else stalled issues js n [])"

definition refresh_improvements :: "issue list \<Rightarrow> db \<Rightarrow> db res" where
  "refresh_improvements issues s =
     (let active_one = sget ''review:active_improvement'' JNull s in
      if \<not> truthy active_one then Inr s
      else (let numbers = improvement_issues (str_of active_one) s in
        res_bind (all_res (settled issues (jobs s)) numbers) (\<lambda>resolved.
          if numbers = [] \<or> resolved then Inr (sset ''review:active_improvement'' JNull s) else Inr s)))"

subsection \<open>Dispatch\<close>

definition allocation_json :: "allocation \<Rightarrow> json" where
  "allocation_json al =
     JObj (map (\<lambda>(a, target, done_n, act, opn, rdy). (a, JObj
        [(''target_percent'', JInt (int target)), (''recent_completed'', JInt (int done_n)),
         (''active'', JInt (int act)), (''open'', JInt (int opn)), (''ready'', JInt (int rdy))]))
        (allocation_summary al))"

type_synonym rank = "rat \<times> (bool \<times> rat) \<times> int"

definition no_score :: "bool \<times> rat" where "no_score = (True, 0)"

definition score_rank :: "allocation \<Rightarrow> string option \<Rightarrow> (bool \<times> rat) res" where
  "score_rank al area =
     (if falsy_text area then Inr no_score
      else res_bind (score al (case area of None \<Rightarrow> [] | Some a \<Rightarrow> a)) (\<lambda>x. Inr (False, x)))"

text \<open>The priority is compared with the others, so one that is no number is an error.\<close>

definition priority_of :: "json \<Rightarrow> rat res" where
  "priority_of m =
     (case num_of (jget_or m ''priority'' (JInt 3)) of
        None \<Rightarrow> Inl (TypeError ''not supported between instances'') | Some p \<Rightarrow> Inr p)"

definition dispatch_rank :: "allocation \<Rightarrow> issue \<Rightarrow> rank res" where
  "dispatch_rank al i =
     (case res_bind (metadata (body_of i)) (\<lambda>m.
             res_bind (area_or_inferred m i) (\<lambda>area.
             res_bind (score_rank al area) (\<lambda>sc.
             res_bind (priority_of m) (\<lambda>p. Inr (p, sc, i_number i))))) of
        Inr r \<Rightarrow> Inr r
      | Inl e \<Rightarrow> (if caught e then Inr (4, no_score, i_number i) else Inl e))"

text \<open>\<open>min(candidates, key=rank)\<close>: the first of the least.\<close>

definition least_ranked :: "allocation \<Rightarrow> issue list \<Rightarrow> issue res" where
  "least_ranked al xs =
     res_bind (map_res (\<lambda>i. res_bind (dispatch_rank al i) (\<lambda>r. Inr (r, i))) xs)
       (\<lambda>ranked. Inr (snd (hd (sort_key fst ranked))))"

datatype step = Stop | Next allocation

definition launch_or_block ::
  "sup \<Rightarrow> 'w os \<Rightarrow> prompt \<Rightarrow> job_row \<Rightarrow> issue \<Rightarrow> ('w pool, unit) prog" where
  "launch_or_block c X prompt j i =
     except_any (launch c X prompt j i []) (\<lambda>e. block c X j (exn_text e))"

definition reserve_and_launch ::
  "sup \<Rightarrow> 'w os \<Rightarrow> prompt \<Rightarrow> allocation \<Rightarrow> issue \<Rightarrow> json \<Rightarrow> string \<Rightarrow> string \<Rightarrow> ('w pool, step) prog" where
  "reserve_and_launch c X prompt al i m area worker =
     doing (setting ''review:active_improvement'' JNull) (\<lambda>active_one.
     doing (timed X (\<lambda>now. transact (\<lambda>s. Inr (reserve now (i_number i) worker (fstr ''group'' m) [] s)))) (\<lambda>row.
       case row of
         None \<Rightarrow> and_then (sup_release (owner_of (i_number i))) (ret (Next al))
       | Some j \<Rightarrow>
           and_then (only_if (truthy (jget_or m ''improvement'' JNull) \<and> \<not> truthy active_one)
               (set_setting ''review:active_improvement'' (jget_or m ''improvement'' JNull)))
             (doing (of_res (note_area al area)) (\<lambda>al1.
                and_then (set_setting ''area_allocation'' (allocation_json al1))
                  (and_then (launch_or_block c X prompt j i) (ret (Next al1)))))))"

definition active_text :: "json \<Rightarrow> string option" where
  "active_text j = (case j of JStr t \<Rightarrow> Some t | _ \<Rightarrow> None)"

definition dispatch_ready ::
  "sup \<Rightarrow> 'w os \<Rightarrow> prompt \<Rightarrow> int \<Rightarrow> allocation \<Rightarrow> issue \<Rightarrow> json \<Rightarrow> ('w pool, step) prog" where
  "dispatch_ready c X prompt cap al i m =
     doing (of_res (area_or_inferred m i)) (\<lambda>area.
     doing (get (\<lambda>s. cap \<le> slots_used s)) (\<lambda>full.
       if full then ret Stop
       else doing (get (\<lambda>s. free_workers c (list_jobs [Working, PrOpen] s) s)) (\<lambda>free.
         if free = [] then ret Stop
         else doing (admit_worker c X (i_number i) free) (\<lambda>worker. case worker of
           None \<Rightarrow> ret Stop
         | Some w \<Rightarrow> reserve_and_launch c X prompt al i m (case area of None \<Rightarrow> [] | Some a \<Rightarrow> a) w))))"

definition dispatch_one ::
  "sup \<Rightarrow> 'w os \<Rightarrow> prompt \<Rightarrow> int list \<Rightarrow> int \<Rightarrow> allocation \<Rightarrow> issue \<Rightarrow> ('w pool, step) prog" where
  "dispatch_one c X prompt done_ns cap al i =
     doing (get_res (\<lambda>s. eligibility i (jobs s) done_ns
              (active_text (sget ''review:active_improvement'' JNull s)))) (\<lambda>(reason, m).
       if reason \<noteq> ''ready'' then ret (Next al)
       else dispatch_ready c X prompt cap al i (case m of None \<Rightarrow> JNull | Some x \<Rightarrow> x))"

text \<open>\<open>while candidates\<close>: each round removes one, so their number is fuel enough.\<close>

fun dispatch_loop ::
  "nat \<Rightarrow> sup \<Rightarrow> 'w os \<Rightarrow> prompt \<Rightarrow> int list \<Rightarrow> int \<Rightarrow> allocation \<Rightarrow> issue list \<Rightarrow> ('w pool, unit) prog" where
  "dispatch_loop 0 c X prompt done_ns cap al xs = ret ()"
| "dispatch_loop (Suc n) c X prompt done_ns cap al xs =
     (if xs = [] then ret ()
      else doing (of_res (least_ranked al xs)) (\<lambda>i.
        doing (dispatch_one c X prompt done_ns cap al i) (\<lambda>next. case next of
          Stop \<Rightarrow> ret ()
        | Next al1 \<Rightarrow> dispatch_loop n c X prompt done_ns cap al1 (remove1 i xs))))"

definition dispatch ::
  "sup \<Rightarrow> 'w os \<Rightarrow> prompt \<Rightarrow> issue list \<Rightarrow> int option \<Rightarrow> ('w pool, unit) prog" where
  "dispatch c X prompt issues only =
     doing (get paused) (\<lambda>p.
       if p then ret ()
       else and_then (attempt (refresh_improvements issues))
         (doing (get capacity) (\<lambda>cap.
          doing (get slots_used) (\<lambda>used.
            if cap \<le> used then ret ()
            else doing (get_res (\<lambda>s. from_inventory issues (list_jobs [] s) 30)) (\<lambda>al.
              let xs = filter (\<lambda>i. only = None \<or> only = Some (i_number i)) issues in
              and_then (set_setting ''area_allocation'' (allocation_json al))
                (dispatch_loop (length xs) c X prompt (closed_numbers issues) cap al xs))))))"

subsection \<open>Dispositions of review candidates\<close>

definition belongs :: "string \<Rightarrow> string \<Rightarrow> json \<Rightarrow> bool" where
  "belongs entry_key k improvement \<longleftrightarrow>
     (let prefix_key = ''arch-'' @ entry_key in
      k = prefix_key \<or> starts_with (prefix_key @ ''-'') k \<or> improvement = JStr entry_key)"

definition mapped_created :: "string \<Rightarrow> json list \<Rightarrow> (string \<times> int) list \<Rightarrow> int list" where
  "mapped_created entry_key items created =
     somes (map (\<lambda>item. case map_of created (item_key item) of
         None \<Rightarrow> None
       | Some n \<Rightarrow> (if belongs entry_key (item_key item) (jget_or item ''improvement'' JNull)
                   then Some n else None)) items)"

text \<open>\<open>meta['key']\<close> is read outside the \<open>try\<close>: managed metadata without a key raises.\<close>

definition issue_belongs :: "string \<Rightarrow> json \<Rightarrow> bool res" where
  "issue_belongs entry_key m =
     (if jget_or m ''improvement'' JNull = JStr entry_key then Inr True
      else case jget m ''key'' of
        None \<Rightarrow> Inl (KeyError ''key'')
      | Some (JStr k) \<Rightarrow> Inr (belongs entry_key k JNull)
      | Some _ \<Rightarrow> Inl (AttributeError ''startswith''))"

definition mapped_issues :: "string \<Rightarrow> issue list \<Rightarrow> int list res" where
  "mapped_issues entry_key issues =
     res_bind (map_res (\<lambda>i. res_bind (managed_metadata i) (\<lambda>m. case m of
          None \<Rightarrow> Inr None
        | Some x \<Rightarrow> res_bind (issue_belongs entry_key x)
            (\<lambda>b. Inr (if b then Some (i_number i) else None)))) issues)
       (\<lambda>ns. Inr (somes ns))"

definition unmapped_reason :: "string \<Rightarrow> string" where
  "unmapped_reason k = ''Accepted without a mapped '' @ [quote] @ ''arch-'' @ k @ [quote]
     @ '' issue in the proposal''"

definition dispose ::
  "time \<Rightarrow> json list \<Rightarrow> issue list \<Rightarrow> (string \<times> int) list \<Rightarrow> json \<Rightarrow> db \<Rightarrow> db res" where
  "dispose now items issues created entry s =
     (let k = fstr ''key'' entry; decision = fstr ''decision'' entry; reason = fstr ''reason'' entry;
          fst_res = (\<lambda>r. res_bind r (\<lambda>(s1, hit). Inr s1)) in
      case candidate k s of
        None \<Rightarrow> Inr s
      | Some cand \<Rightarrow>
          (if c_disposition cand \<notin> {''pending'', ''accepted''} then Inr s
           else if decision \<noteq> ''accept'' then
             fst_res (disposition_candidate now k (if decision = ''defer'' then ''deferred'' else ''rejected'')
               reason (fopt ''revisit'' entry) None [''pending'', ''accepted''] s)
           else res_bind (mapped_issues k issues) (\<lambda>known.
             (let mapped = uniq (mapped_created k items created @ known) in
              if mapped = [] then
                fst_res (disposition_candidate now k ''deferred'' (unmapped_reason k)
                  (Some ''Next planner pass that emits the mapped issue'') None [''pending''] s)
              else res_bind (fst_res (disposition_candidate now k ''accepted'' reason None
                       (Some (Min (set mapped))) [''pending''] s)) (\<lambda>s1.
                Inr (fold (map_improvement k) mapped s1))))))"

definition apply_dispositions ::
  "time \<Rightarrow> json list \<Rightarrow> json list \<Rightarrow> issue list \<Rightarrow> (string \<times> int) list \<Rightarrow> db \<Rightarrow> db res" where
  "apply_dispositions now entries items issues created s =
     fold_res (dispose now items issues created) entries s"

end
