(* ===== verification/PlannerLane.thy ===== *)
theory PlannerLane
  imports Lanes
begin

text \<open>
  agent_pool/supervisor.py: the planner's and the reviewer's lane and the mirroring of labels. The
  validated review settings are the JSON object \<open>cfg\<close>; the prompts, the date in a run's name, the
  slot computation (time zones) and the staging of the resources are the record \<open>lane\<close>.
\<close>

record 'w lane =
  planner_text :: "issue list \<Rightarrow> json \<Rightarrow> db \<Rightarrow> string \<Rightarrow> string"
  review_text :: "issue list \<Rightarrow> json \<Rightarrow> db \<Rightarrow> string \<Rightarrow> string"
  day_stamp :: "time \<Rightarrow> string"
  slot_at :: "time \<Rightarrow> int"
  stage_resources :: "string \<Rightarrow> ('w, (string \<times> string) list) prog"
  iso_parse :: iso

subsection \<open>The planner\<close>

text \<open>The state of the publication loop: known keys, existing numbers, created issues, frontier.\<close>

record publication =
  p_known :: "(string \<times> int) list"
  p_numbers :: "int list"
  p_created :: "(string \<times> int) list"
  p_ready :: int

definition ready_frontier :: "issue list \<Rightarrow> db \<Rightarrow> nat res" where
  "ready_frontier issues s =
     res_bind (inventory issues (list_jobs [] s) (active_text (sget ''review:active_improvement'' JNull s)))
       (\<lambda>rows. Inr (count_if (\<lambda>r. w_reason r = ''ready'') rows))"

definition known_keys :: "issue list \<Rightarrow> (string \<times> int) list res" where
  "known_keys issues =
     res_bind (map_res (\<lambda>i. res_bind (managed_metadata i) (\<lambda>m. Inr (i, m))) issues) (\<lambda>rows.
       Inr (fold (\<lambda>(i, m) acc. case m of
           None \<Rightarrow> acc
         | Some x \<Rightarrow> (case jget x ''key'' of
               Some (JStr k) \<Rightarrow> AList.update k (i_number i) acc | _ \<Rightarrow> acc)) rows []))"

definition resolve_dep :: "(string \<times> int) list \<Rightarrow> json \<Rightarrow> int res" where
  "resolve_dep known d =
     (case d of
        JStr k \<Rightarrow> (case map_of known k of None \<Rightarrow> Inl (KeyError k) | Some n \<Rightarrow> Inr n)
      | _ \<Rightarrow> Inr (int_of d))"

definition item_labels :: "json \<Rightarrow> string list res" where
  "item_labels item =
     res_bind (area_label (fstr ''area'' item)) (\<lambda>l.
       Inr [''agent:ready'', ''priority:P'' @ str_int (int_of (jget_or item ''priority'' JNull)), l])"

definition publish_item ::
  "sup \<Rightarrow> 'w os \<Rightarrow> int list \<Rightarrow> json \<Rightarrow> publication \<Rightarrow> ('w pool, publication) prog" where
  "publish_item c X done_ns item p =
     (if item_key item \<in> fst ` set (p_known p) then ret p
      else if 20 \<le> p_ready p then ret p
      else doing (of_res (map_res (resolve_dep (p_known p)) (items_of (jget_or item ''dependencies'' JNull)))) (\<lambda>deps.
        if \<not> set deps \<subseteq> set (p_numbers p)
        then raise (ValueError ''Planner referenced nonexistent dependencies'')
        else doing (of_res (body (float_text X) (jset ''dependencies'' (JList (map JInt deps)) item))) (\<lambda>text_body.
          doing (of_res (item_labels item)) (\<lambda>labels.
          doing (io (create_issue X (repo c) (fstr ''title'' item) text_body labels (Some (item_key item)))) (\<lambda>n.
            and_then
              (only_if (truthy (jget_or item ''improvement'' JNull))
                (put (map_improvement (fstr ''improvement'' item) n)))
              (ret \<lparr>p_known = AList.update (item_key item) n (p_known p),
                    p_numbers = p_numbers p @ [n],
                    p_created = AList.update (item_key item) n (p_created p),
                    p_ready = p_ready p + (if set deps \<subseteq> set done_ns then 1 else 0)\<rparr>))))))"

definition publish_proposal ::
  "sup \<Rightarrow> 'w os \<Rightarrow> issue list \<Rightarrow> json \<Rightarrow> ('w pool, unit) prog" where
  "publish_proposal c X issues proposal =
     doing (get_res (ready_frontier issues)) (\<lambda>frontier.
     doing (of_res (known_keys issues)) (\<lambda>known.
     doing (of_res (ordered_issues (items_of (jget_or proposal ''issues'' JNull)))) (\<lambda>items.
     doing (fold_prog (publish_item c X (closed_numbers issues)) items
              \<lparr>p_known = known, p_numbers = map i_number issues, p_created = [], p_ready = int frontier\<rparr>) (\<lambda>p.
     and_then (timed X (\<lambda>now. attempt (apply_dispositions now (items_of (dispositions_of proposal))
                 (items_of (jget_or proposal ''issues'' JNull)) issues (p_created p))))
       (set_setting ''pending_proposal'' JNull)))))"

text \<open>A bare list is a proposal of an older supervisor.\<close>

definition upgraded :: "json \<Rightarrow> json" where
  "upgraded pending =
     (case pending of
        JList xs \<Rightarrow> JObj [(''issues'', JList xs), (''dispositions'', JList [])] | _ \<Rightarrow> pending)"

definition discard_proposal :: "string \<Rightarrow> json \<Rightarrow> ('w pool, unit) prog" where
  "discard_proposal message back = steps
     [set_setting ''pending_proposal'' JNull,
      only_if (back \<noteq> JNull) (set_setting ''planner_feedback'' back),
      set_setting ''last_error'' (JStr message)]"

definition publish_pending ::
  "sup \<Rightarrow> 'w os \<Rightarrow> issue list \<Rightarrow> json \<Rightarrow> ('w pool, unit) prog" where
  "publish_pending c X issues pending =
     (if \<not> is_obj pending \<or> \<not> is_list (jget_or pending ''issues'' JNull)
      then discard_proposal ''Discarded malformed pending proposal'' JNull
      else case validate pending of
        Inl (ValueError m) \<Rightarrow>
          discard_proposal (''Discarded malformed pending proposal: '' @ take 500 m) (JStr m)
      | Inl e \<Rightarrow> raise e
      | Inr proposal \<Rightarrow>
          and_then (set_setting ''planner_feedback'' JNull) (publish_proposal c X issues proposal))"

definition armed_retries :: "db \<Rightarrow> nat" where
  "armed_retries s =
     count_if (\<lambda>j. truthy (sget (retry_key (j_issue j)) JNull s)) (list_jobs [Blocked] s)"

definition start_planner ::
  "sup \<Rightarrow> 'w os \<Rightarrow> 'w lane \<Rightarrow> issue list \<Rightarrow> json \<Rightarrow> time \<Rightarrow> ('w pool, unit) prog" where
  "start_planner c X L issues prs now =
     (let stamp = str_int \<lfloor>now\<rfloor> in
      doing (except_any
        (doing (io (prepare_clone X (rt c) ''coordinator'' None)) (\<lambda>clone.
           let out = slash (slash clone ''.dcs-agent'') (''proposal-'' @ stamp @ ''.json'') in
           and_then (io (mkdir X (slash clone ''.dcs-agent'')))
          (doing (get_res (\<lambda>s. from_inventory issues (list_jobs [] s) 30)) (\<lambda>_.
           doing (get (\<lambda>s. planner_text L issues prs s out)) (\<lambda>text_body.
           doing (io (spawn X (rt c) (''planner-'' @ stamp) clone text_body None None (hd (models c)))) (\<lambda>m.
             ret (m, out)))))))
        (\<lambda>e. and_then (sup_release ''planner'') (raise e))) (\<lambda>(m, out). steps
          [sup_attach X ''planner'' m,
           set_setting ''planner'' (JObj [(''process'', m), (''output'', JStr out)]),
           set_setting ''last_plan'' (JFloat now),
           set_setting ''plan:requested'' (JBool False)]))"

definition plan_due :: "issue list \<Rightarrow> time \<Rightarrow> db \<Rightarrow> bool res" where
  "plan_due issues now s =
     res_bind (ready_frontier issues s) (\<lambda>frontier.
       Inr (due_for_planning now
         (case num_of (sget ''last_plan'' (JInt 0) s) of None \<Rightarrow> 0 | Some t \<Rightarrow> t)
         frontier (armed_retries s) (truthy (sget ''plan:requested'' JNull s))))"

definition launch_planner ::
  "sup \<Rightarrow> 'w os \<Rightarrow> 'w lane \<Rightarrow> issue list \<Rightarrow> json \<Rightarrow> ('w pool, unit) prog" where
  "launch_planner c X L issues prs =
     timed X (\<lambda>now.
       doing (get_res (plan_due issues now)) (\<lambda>due.
         if \<not> due then ret ()
         else doing (sup_reserve c X ''planner'' (hd (models c)) ''coordinator'') (\<lambda>ok.
           if \<not> ok then ret () else start_planner c X L issues prs now)))"

definition proposal_error :: "string" where
  "proposal_error = ''Planner produced no proposal; inspect its permission/output log''"

definition read_proposal :: "sup \<Rightarrow> 'w os \<Rightarrow> string \<Rightarrow> ('w pool, bool) prog" where
  "read_proposal c X out =
     doing (io (load_json X out)) (\<lambda>j. case validate j of
         Inl e \<Rightarrow> raise e
       | Inr proposal \<Rightarrow> and_then (steps
           [set_setting ''planner_feedback'' JNull,
            sup_useful c (JObj [(''owner'', JStr ''planner'')]),
            set_setting ''pending_proposal'' proposal]) (ret True))"

definition reject_proposal :: "exn \<Rightarrow> ('w pool, bool) prog" where
  "reject_proposal e =
     (case e of
        ValueError m \<Rightarrow> and_then (steps
          [set_setting ''planner_feedback'' (JStr m),
           set_setting ''last_error'' (JStr (''Planner proposal rejected: '' @ take 500 m))]) (ret False)
      | _ \<Rightarrow> raise e)"

text \<open>A finished planner: \<open>True\<close> when its proposal is pending.\<close>

definition finished_planner ::
  "sup \<Rightarrow> 'w os \<Rightarrow> json \<Rightarrow> json \<Rightarrow> ('w pool, bool) prog" where
  "finished_planner c X current receipt =
     (let m = jget_or current ''process'' JNull; out = fstr ''output'' current in
      and_then (set_setting ''planner'' JNull)
       (doing (io (log_tail X m 12000)) (\<lambda>tail.
          let v = classify (dumps_now X) receipt (Some tail) (hint_ceiling (admission c)) in
          and_then (sup_finish c X ''planner'' m (fst v) (snd v))
            (if failed_exit receipt then ret False
             else doing (see (is_file X out)) (\<lambda>there.
               if \<not> there then and_then (set_setting ''last_error'' (JStr proposal_error)) (ret False)
               else except_any (read_proposal c X out) reject_proposal)))))"

definition cancel_planning :: "'w os \<Rightarrow> json \<Rightarrow> ('w pool, unit) prog" where
  "cancel_planning X current =
     and_then (set_setting ''pending_proposal'' JNull)
       (and_then (set_setting ''plan:requested'' (JBool False))
         (if \<not> truthy current then ret ()
          else (let m = jget_or current ''process'' JNull in
            and_then (io (terminate X m))
              (doing (io (poll X m)) (\<lambda>receipt.
                 if receipt = None then ret ()
                 else and_then (sup_release ''planner'') (set_setting ''planner'' JNull))))))"

definition plan_or_publish ::
  "sup \<Rightarrow> 'w os \<Rightarrow> 'w lane \<Rightarrow> issue list \<Rightarrow> json \<Rightarrow> bool \<Rightarrow> ('w pool, unit) prog" where
  "plan_or_publish c X L issues prs allow_launch =
     doing (get paused) (\<lambda>p.
       if p then ret ()
       else doing (setting ''pending_proposal'' JNull) (\<lambda>pending.
         if upgraded pending \<noteq> JNull then publish_pending c X issues (upgraded pending)
         else if \<not> allow_launch then ret ()
         else launch_planner c X L issues prs))"

definition planner ::
  "sup \<Rightarrow> 'w os \<Rightarrow> 'w lane \<Rightarrow> issue list \<Rightarrow> json \<Rightarrow> bool \<Rightarrow> ('w pool, unit) prog" where
  "planner c X L issues prs allow_launch =
     doing (setting ''planner'' JNull) (\<lambda>current.
       if \<not> planning_enabled c then cancel_planning X current
       else if \<not> truthy current then plan_or_publish c X L issues prs allow_launch
       else doing (io (poll X (jget_or current ''process'' JNull))) (\<lambda>receipt. case receipt of
           None \<Rightarrow> ret ()
         | Some r \<Rightarrow> doing (finished_planner c X current r) (\<lambda>ok.
             if ok then plan_or_publish c X L issues prs allow_launch else ret ())))"

end
