(* ===== verification/ReviewLane.thy ===== *)
theory ReviewLane
  imports PlannerLane
begin

text \<open>
  agent_pool/supervisor.py: the daily review lane (stages, launch, ingestion of a report), the
  review input of the planner, the mirroring of labels, one pass of the supervisor and its
  back-off. agent_pool/factory.py follows in Factory.
\<close>

subsection \<open>Rollout stages\<close>

definition review_stage :: "json \<Rightarrow> db \<Rightarrow> string" where
  "review_stage cfg s =
     (if jget_or cfg ''mode'' JNull = JStr ''full'' \<or> sget ''review:stage'' JNull s = JStr ''full'' then ''full''
      else if jget_or cfg ''mode'' JNull = JStr ''pilot'' \<or> sget ''review:stage'' JNull s = JStr ''pilot''
        then ''pilot'' else ''report'')"

definition new_failure_evidence :: "db \<Rightarrow> bool" where
  "new_failure_evidence s =
     (let finished = (case num_of (sget ''review:last_finished_at'' (JInt 0) s) of None \<Rightarrow> 0 | Some t \<Rightarrow> t) in
      list_ex (\<lambda>j. j_status j = Blocked \<and> finished < j_updated j) (jobs s))"

definition finish_review_run ::
  "'w os \<Rightarrow> string \<Rightarrow> json \<Rightarrow> int \<Rightarrow> string \<Rightarrow> string option \<Rightarrow> ('w pool, unit) prog" where
  "finish_review_run X run_id slot nth_try status error = steps
     [timed X (\<lambda>now. put (finish_review now run_id status error None None)),
      only_if (status = ''inconclusive'' \<and> nth_try = 1) (set_setting ''review:retry_pending'' slot)]"

subsection \<open>Launching a review\<close>

definition preflight_caught :: "exn \<Rightarrow> bool" where
  "preflight_caught e \<longleftrightarrow>
     (case e of ValueError _ \<Rightarrow> True | KeyError _ \<Rightarrow> True | _ \<Rightarrow> False)
     \<or> is_runtime_error e \<or> is_os_error e \<or> is_called_process_error e"

definition review_dir :: "sup \<Rightarrow> string \<Rightarrow> string" where
  "review_dir c run_id = slash (slash (sup_root c) ''reviews'') run_id"

definition preflight ::
  "sup \<Rightarrow> 'w os \<Rightarrow> 'w lane \<Rightarrow> string \<Rightarrow> string \<Rightarrow> ('w, string \<times> (string \<times> string) list) prog" where
  "preflight c X L run_id sha =
     doing (prepare_clone X (rt c) ''reviewer'' None) (\<lambda>clone.
     doing (run_git X clone [''fetch'', ''origin'']) (\<lambda>_.
     doing (run_git X clone [''switch'', ''--detach'', sha]) (\<lambda>_.
     and_then (mkdir X (review_dir c run_id))
       (doing (stage_resources L (slash (review_dir c run_id) ''resources'')) (\<lambda>hashes.
        doing (look (read_text X (slash (slash (review_dir c run_id) ''resources'') ''prompt.md''))) (\<lambda>_.
          ret (clone, hashes)))))))"

definition review_intent ::
  "sup \<Rightarrow> string \<Rightarrow> int \<Rightarrow> string \<Rightarrow> string \<Rightarrow> int \<Rightarrow> (string \<times> string) list \<Rightarrow> json" where
  "review_intent c run_id slot sha clone nth_try hashes =
     JObj [(''key'', JStr (''review-'' @ run_id)), (''run_id'', JStr run_id), (''slot'', JInt slot),
           (''base_sha'', JStr sha), (''report_dir'', JStr (review_dir c run_id)), (''clone'', JStr clone),
           (''attempt'', JInt nth_try), (''hashes'', JObj (map (\<lambda>(k, v). (k, JStr v)) hashes))]"

definition spawn_review ::
  "sup \<Rightarrow> 'w os \<Rightarrow> 'w lane \<Rightarrow> json \<Rightarrow> issue list \<Rightarrow> json \<Rightarrow> json \<Rightarrow> ('w pool, unit) prog" where
  "spawn_review c X L cfg issues prs intent =
     and_then (set_setting ''reviewer:launch'' intent)
      (doing (get (\<lambda>s. review_text L issues prs s (fstr ''run_id'' intent))) (\<lambda>text_body.
       doing (except_any
          (io (spawn X (rt c) (fstr ''key'' intent) (fstr ''clone'' intent) text_body None
                 (num_of (jget_or cfg ''timeout_seconds'' JNull)) (hd (models c))))
          (\<lambda>e. and_then (sup_release ''reviewer'') (raise e))) (\<lambda>m.
         and_then (sup_attach X ''reviewer'' m) (set_setting ''reviewer'' (jset ''process'' m intent)))))"

definition launch_review ::
  "sup \<Rightarrow> 'w os \<Rightarrow> 'w lane \<Rightarrow> json \<Rightarrow> int \<Rightarrow> issue list \<Rightarrow> json \<Rightarrow> bool \<Rightarrow> int \<Rightarrow> ('w pool, unit) prog" where
  "launch_review c X L cfg slot issues prs manual nth_try =
     doing (sup_reserve c X ''reviewer'' (hd (models c)) ''reviewer'') (\<lambda>ok.
       if \<not> ok then ret ()
       else doing (io (main_sha X (repo c))) (\<lambda>sha.
         timed X (\<lambda>now. doing (io (uuid_hex X)) (\<lambda>u.
           let run_id = ''r'' @ day_stamp L now @ ''-'' @ take 8 u in
           and_then (steps
             [timed X (\<lambda>now. attempt (begin_review now run_id slot (Some sha) nth_try)),
              set_setting ''review:last_slot'' (JInt slot),
              set_setting ''review:last_sha'' (JStr sha),
              set_setting ''review:manual'' (JBool False)])
           (doing (get (\<lambda>s. \<not> manual \<and> nth_try = 1 \<and> last_completed_sha s = Some sha
                       \<and> \<not> new_failure_evidence s)) (\<lambda>skip.
              if skip then steps
                [sup_release ''reviewer'',
                 timed X (\<lambda>now. put (finish_review now run_id ''skipped'' None None
                            (Some ''base revision unchanged'')))]
              else try_else (io (preflight c X L run_id sha))
                (\<lambda>e. if preflight_caught e then steps
                    [sup_release ''reviewer'',
                     finish_review_run X run_id (JInt slot) nth_try ''inconclusive''
                       (Some (''Preflight failed: '' @ take 2000 (exn_text e))),
                     set_setting ''last_error'' (JStr (''Review preflight failed: '' @ take 500 (exn_text e)))]
                  else raise e)
                (\<lambda>(clone, hashes). spawn_review c X L cfg issues prs
                     (review_intent c run_id slot sha clone nth_try hashes))))))))"

subsection \<open>Ingesting a report\<close>

definition report_problem ::
  "'w os \<Rightarrow> 'w lane \<Rightarrow> json \<Rightarrow> json \<Rightarrow> json \<Rightarrow> issue list \<Rightarrow> ('w, json + string) prog" where
  "report_problem X L cfg current receipt issues =
     (let path = slash (fstr ''report_dir'' current) ''report.json'' in
      if jget_or receipt ''status'' (JStr ''completed'') \<noteq> JStr ''completed'' \<or> failed_exit receipt
      then ret (Inr (''Reviewer invocation failed: '' @ take 2000 (dumps_std (float_text X) receipt)))
      else doing (ask (is_file X path)) (\<lambda>there.
        if \<not> there then ret (Inr ''Reviewer produced no report.json'')
        else doing (look (read_text X path)) (\<lambda>t.
          doing (ask (\<lambda>w p. exists_path X (slash (fstr ''clone'' current) p) w)) (\<lambda>present.
            case validate_review (iso_parse L) present (fstr ''run_id'' current) (fstr ''base_sha'' current)
                 (Some (map i_number issues)) (nat (int_of (jget_or cfg ''max_candidates'' JNull)))
                 (map (\<lambda>(k, v). (k, str_of v)) (fields_of (jget_or current ''hashes'' JNull))) (loads t) of
              Inr data \<Rightarrow> ret (Inl data)
            | Inl (ValueError m) \<Rightarrow> ret (Inr (''Invalid report: '' @ take 2000 m))
            | Inl e \<Rightarrow> raise e))))"

text \<open>The assessment of an accepted improvement moves the rollout stage.\<close>

definition apply_assessment :: "time \<Rightarrow> json \<Rightarrow> string \<Rightarrow> json \<Rightarrow> db \<Rightarrow> db" where
  "apply_assessment now cfg run_id a s =
     (case candidate (fstr ''key'' a) s of
        None \<Rightarrow> s
      | Some cand \<Rightarrow>
          (if c_disposition cand \<noteq> ''accepted'' \<or> c_assessed cand \<noteq> 0 then s
           else
             (let s1 = record_assessment now (fstr ''key'' a) a s;
                  s2 = (if fstr ''outcome'' a = ''rejected''
                        then sset ''review:rollout_failure'' (JStr (take 500 (fstr ''observed'' a)))
                               (sset ''review:stage'' (JStr ''report'') s1) else s1);
                  s3 = (if fstr ''outcome'' a = ''confirmed'' \<and> review_stage cfg s2 = ''pilot''
                        then sset ''review:stage'' (JStr ''full'') s2 else s2)
              in if fstr ''outcome'' a = ''followup'' \<and> truthy (jget_or a ''followup_candidate'' JNull)
                 then fst (record_candidates now run_id [jget_or a ''followup_candidate'' JNull] s3)
                 else s3)))"

definition review_summary_text :: "'w os \<Rightarrow> json \<Rightarrow> json \<Rightarrow> (string \<times> string) list \<Rightarrow> string" where
  "review_summary_text X current data skipped =
     dumps_std (float_text X) (JObj
       [(''hashes'', jget_or current ''hashes'' JNull),
        (''candidates'', JList (map (\<lambda>k. JStr (fstr ''key'' k)) (items_of (jget_or data ''candidates'' JNull)))),
        (''suppressed'', JObj (map (\<lambda>(k, v). (k, JStr v)) skipped)),
        (''assessments'', JInt (int (length (items_of (jget_or data ''assessments'' JNull)))))])"

definition record_review ::
  "sup \<Rightarrow> 'w os \<Rightarrow> json \<Rightarrow> string \<Rightarrow> json \<Rightarrow> ('w pool, (string \<times> string) list) prog" where
  "record_review c X cfg run_id data =
     and_then (sup_useful c (JObj [(''owner'', JStr ''reviewer'')]))
       (timed X (\<lambda>now.
          doing (transact (\<lambda>s. Inr (record_candidates now run_id (items_of (jget_or data ''candidates'' JNull)) s)))
            (\<lambda>skipped. and_then
               (put (fold (apply_assessment now cfg run_id) (items_of (jget_or data ''assessments'' JNull))))
               (ret skipped))))"

definition completed_review ::
  "sup \<Rightarrow> 'w os \<Rightarrow> json \<Rightarrow> json \<Rightarrow> json \<Rightarrow> ('w pool, unit) prog" where
  "completed_review c X cfg current data =
     (let run_id = fstr ''run_id'' current; st = fstr ''status'' data in
      doing (if st = ''completed'' then record_review c X cfg run_id data else ret []) (\<lambda>skipped.
      and_then (timed X (\<lambda>now. put (finish_review now run_id st None
                 (if st \<noteq> ''inconclusive'' then fopt ''base_sha'' current else None)
                 (Some (review_summary_text X current data skipped)))))
        (if st = ''inconclusive'' then steps
           [only_if (jget_or current ''attempt'' JNull = JInt 1)
              (set_setting ''review:retry_pending'' (jget_or current ''slot'' JNull)),
            set_setting ''last_error'' (JStr (''Review '' @ run_id @ '' reported inconclusive''))]
         else steps
           [put (\<lambda>s. sset ''review:cursor'' (JInt (int_of (sget ''review:cursor'' (JInt 0) s) + 1)) s),
            put (\<lambda>s. if review_stage cfg s = ''report'' \<and> truthy (jget_or cfg ''auto_promote'' JNull)
                       \<and> \<not> truthy (sget ''review:rollout_failure'' JNull s)
                     then sset ''review:stage'' (JStr ''pilot'') s else s)])))"

definition ingest_review ::
  "sup \<Rightarrow> 'w os \<Rightarrow> 'w lane \<Rightarrow> json \<Rightarrow> json \<Rightarrow> json \<Rightarrow> issue list \<Rightarrow> ('w pool, unit) prog" where
  "ingest_review c X L cfg current receipt issues =
     doing (io (report_problem X L cfg current receipt issues)) (\<lambda>r. case r of
       Inr problem \<Rightarrow> finish_review_run X (fstr ''run_id'' current) (jget_or current ''slot'' JNull)
           (int_of (jget_or current ''attempt'' JNull)) ''inconclusive'' (Some problem)
     | Inl data \<Rightarrow> completed_review c X cfg current data)"

definition truthy_setting :: "string \<Rightarrow> db \<Rightarrow> bool" where
  "truthy_setting k s = truthy (sget k JNull s)"

definition due_review ::
  "sup \<Rightarrow> 'w os \<Rightarrow> 'w lane \<Rightarrow> json \<Rightarrow> issue list \<Rightarrow> json \<Rightarrow> ('w pool, unit) prog" where
  "due_review c X L cfg issues prs =
     timed X (\<lambda>now. (let slot = slot_at L now in
       doing (get (truthy_setting ''review:manual'')) (\<lambda>manual.
       doing (setting ''review:last_slot'' JNull) (\<lambda>last_slot.
       doing (setting ''review:retry_pending'' JNull) (\<lambda>pending.
         if manual then launch_review c X L cfg slot issues prs True 1
         else if py_eq last_slot (JInt slot) then
           only_if (py_eq pending (JInt slot))
             (and_then (set_setting ''review:retry_pending'' JNull)
                (launch_review c X L cfg slot issues prs False 2))
         else launch_review c X L cfg slot issues prs False 1)))))"

definition start_review ::
  "sup \<Rightarrow> 'w os \<Rightarrow> 'w lane \<Rightarrow> json \<Rightarrow> issue list \<Rightarrow> json \<Rightarrow> bool \<Rightarrow> ('w pool, unit) prog" where
  "start_review c X L cfg issues prs allow_launch =
     doing (get (truthy_setting ''reviewer'')) (\<lambda>running.
       if running then ret ()
       else doing (get running_review) (\<lambda>stale.
         and_then (case stale of
             None \<Rightarrow> ret ()
           | Some r \<Rightarrow> timed X (\<lambda>now. put (finish_review now (r_run_id r) ''inconclusive''
               (Some ''Review launch interrupted before invocation record'') None None)))
           (doing (get (\<lambda>s. \<not> allow_launch \<or> \<not> truthy (jget_or cfg ''enabled'' JNull) \<or> paused s
                        \<or> capacity s \<le> slots_used s)) (\<lambda>no.
              if no then ret () else due_review c X L cfg issues prs))))"

definition disable_review :: "'w os \<Rightarrow> json \<Rightarrow> ('w pool, unit) prog" where
  "disable_review X current = steps
     [io (terminate X (jget_or current ''process'' JNull)),
      sup_release ''reviewer'',
      set_setting ''reviewer'' JNull,
      finish_review_run X (fstr ''run_id'' current) (jget_or current ''slot'' JNull)
        (int_of (jget_or current ''attempt'' JNull)) ''inconclusive'' (Some ''Lane disabled during run'')]"

definition review_lane ::
  "sup \<Rightarrow> 'w os \<Rightarrow> 'w lane \<Rightarrow> json \<Rightarrow> issue list \<Rightarrow> json \<Rightarrow> bool \<Rightarrow> ('w pool, unit) prog" where
  "review_lane c X L cfg issues prs allow_launch =
     doing (setting ''reviewer'' JNull) (\<lambda>current.
       if \<not> truthy current then start_review c X L cfg issues prs allow_launch
       else if \<not> truthy (jget_or cfg ''enabled'' JNull) then
         and_then (disable_review X current) (start_review c X L cfg issues prs allow_launch)
       else (let m = jget_or current ''process'' JNull in
         doing (io (poll X m)) (\<lambda>receipt. case receipt of
           None \<Rightarrow> ret ()
         | Some r \<Rightarrow> and_then (set_setting ''reviewer'' JNull)
             (doing (io (log_tail X m 12000)) (\<lambda>tail.
                let v = classify (dumps_now X) r (Some tail) (hint_ceiling (admission c)) in
                and_then (sup_finish c X ''reviewer'' m (fst v) (snd v))
                  (and_then (ingest_review c X L cfg current r issues)
                     (start_review c X L cfg issues prs allow_launch)))))))"

subsection \<open>The planner's review input\<close>

definition from_qa :: "json \<Rightarrow> bool" where
  "from_qa payload \<longleftrightarrow> jget_or payload ''source'' JNull = JStr ''qa''"

definition suppressed_rows :: "db \<Rightarrow> candidate_row list" where
  "suppressed_rows s =
     take 50 (filter (\<lambda>k. c_disposition k \<in> {''deferred'', ''rejected''}) (list_candidates None s))"

definition accepted_json :: "db \<Rightarrow> candidate_row \<Rightarrow> json" where
  "accepted_json s k = JObj [(''key'', JStr (c_key k)), (''title'', JStr (c_title k)),
     (''issues'', JList (map JInt (improvement_issues (c_key k) s))), (''proposal'', c_payload k)]"

definition suppressed_json :: "candidate_row \<Rightarrow> json" where
  "suppressed_json k = JObj [(''key'', JStr (c_key k)), (''disposition'', JStr (c_disposition k)),
     (''reason'', jopt (c_reason k)), (''revisit'', jopt (c_revisit k))]"

definition planner_review_input :: "json \<Rightarrow> bool \<Rightarrow> db \<Rightarrow> json option" where
  "planner_review_input cfg qa_enabled s =
     (let review_open = (truthy (jget_or cfg ''enabled'' JNull) \<and> review_stage cfg s \<noteq> ''report'');
          payloads = map c_payload (list_candidates (Some ''pending'') s);
          pending = (if review_open then filter (\<lambda>p. \<not> from_qa p) payloads else []);
          qa_pending = (if qa_enabled then filter from_qa payloads else []);
          accepted = (if review_open then map (accepted_json s) (unresolved_accepted s) else []);
          suppressed = (if review_open then map suppressed_json (suppressed_rows s) else [])
      in if pending = [] \<and> qa_pending = [] \<and> accepted = [] \<and> suppressed = [] then None
         else Some (JObj [(''candidates'', JList (pending @ qa_pending)), (''accepted'', JList accepted),
                (''suppressed'', JList suppressed),
                (''active_improvement'', sget ''review:active_improvement'' JNull s)]))"

subsection \<open>Mirroring\<close>

definition job_labels :: "job_row \<Rightarrow> string list" where
  "job_labels j = [''agent:'' @ status_name (j_status j), ''worker:'' @ j_worker j]"

definition labels_to_remove :: "job_row \<Rightarrow> string list \<Rightarrow> string list" where
  "labels_to_remove j labels =
     filter (\<lambda>l. (starts_with ''agent:'' l \<or> starts_with ''worker:'' l) \<and> l \<notin> set (job_labels j)) labels"

definition labels_to_add :: "job_row \<Rightarrow> string list \<Rightarrow> string list" where
  "labels_to_add j labels = filter (\<lambda>l. l \<notin> set labels) (job_labels j)"

definition reservation_marker :: "job_row \<Rightarrow> string" where
  "reservation_marker j = ''reservation:'' @ str_int (j_issue j) @ '':'' @ str_int (j_attempt j)"

definition reservation_comment :: "job_row \<Rightarrow> string" where
  "reservation_comment j =
     ''Local agent reservation: '' @ j_worker j @ ''; attempt '' @ str_int (j_attempt j) @ ''; branch ''
     @ (case nonempty (j_branch j) of None \<Rightarrow> ''pending'' | Some b \<Rightarrow> b)
     @ ''. <!-- '' @ reservation_marker j @ '' -->''"

definition relabel ::
  "sup \<Rightarrow> 'w os \<Rightarrow> int \<Rightarrow> string list \<Rightarrow> string list \<Rightarrow> ('w pool, unit) prog" where
  "relabel c X n add remove =
     only_if (add \<noteq> [] \<or> remove \<noteq> [])
       (doing (io (update_issue X (repo c) n None None add remove)) (\<lambda>_. ret ()))"

definition mirror_job :: "sup \<Rightarrow> 'w os \<Rightarrow> issue list \<Rightarrow> job_row \<Rightarrow> ('w pool, unit) prog" where
  "mirror_job c X issues j =
     (case inventory_issue issues (j_issue j) of
        None \<Rightarrow> ret ()
      | Some i \<Rightarrow>
          (if j_status j = Done then ret ()
           else and_then
             (relabel c X (j_issue j) (labels_to_add j (i_labels i)) (labels_to_remove j (i_labels i)))
             (doing (get (truthy_setting (reservation_marker j))) (\<lambda>marked.
                only_if (\<not> marked)
                  (doing (io (comment X (repo c) (j_issue j) (reservation_comment j))) (\<lambda>_.
                     set_setting (reservation_marker j) (JBool True)))))))"

definition value_text :: "'w os \<Rightarrow> json \<Rightarrow> string" where
  "value_text X v =
     (case v of JStr t \<Rightarrow> t | JBool b \<Rightarrow> (if b then ''True'' else ''False'') | JNull \<Rightarrow> ''None''
      | _ \<Rightarrow> dumps_std (float_text X) v)"

definition wrong_labels :: "string \<Rightarrow> string option \<Rightarrow> string list \<Rightarrow> string list" where
  "wrong_labels want area labels =
     filter (\<lambda>l. starts_with ''priority:P'' l \<and> l \<noteq> want) labels
     @ (case area of None \<Rightarrow> [] | Some a \<Rightarrow> filter (\<lambda>l. starts_with ''area:'' l \<and> l \<noteq> a) labels)"

definition missing_labels :: "string \<Rightarrow> string option \<Rightarrow> string list \<Rightarrow> string list" where
  "missing_labels want area labels =
     (if want \<notin> set labels \<and> ''agent:ready'' \<in> set labels then [want] else [])
     @ (case area of None \<Rightarrow> [] | Some a \<Rightarrow> if a \<in> set labels then [] else [a])"

definition mirror_issue :: "sup \<Rightarrow> 'w os \<Rightarrow> issue \<Rightarrow> ('w pool, unit) prog" where
  "mirror_issue c X i =
     (if i_state i \<noteq> ''OPEN'' then ret ()
      else doing (of_res (managed_metadata i)) (\<lambda>m. case m of
        None \<Rightarrow> ret ()
      | Some v \<Rightarrow> doing (of_res (area_or_inferred v i)) (\<lambda>area.
          doing (of_res (if falsy_text area then Inr None
                   else res_bind (area_label (case area of None \<Rightarrow> [] | Some a \<Rightarrow> a)) (\<lambda>l. Inr (Some l)))) (\<lambda>wanted.
            let want = ''priority:P'' @ value_text X (jget_or v ''priority'' (JInt 3)) in
            relabel c X (i_number i) (missing_labels want wanted (i_labels i))
              (wrong_labels want wanted (i_labels i))))))"

definition mirror :: "sup \<Rightarrow> 'w os \<Rightarrow> issue list \<Rightarrow> ('w pool, unit) prog" where
  "mirror c X issues =
     doing (get (list_jobs [])) (\<lambda>js.
     and_then (for_each (mirror_job c X issues) js)
       (and_then (for_each (mirror_issue c X) issues)
         (doing (get_res (\<lambda>s. from_inventory issues (list_jobs [] s) 30)) (\<lambda>al.
            set_setting ''area_allocation'' (allocation_json al)))))"

end
