(* ===== verification/QaReport.thy ===== *)
theory QaReport
  imports Review
begin

text \<open>
  qa_lane/report.py: the wire contract of a QA run report and its validator. A report is untrusted
  text; the validator parses it and raises at the first violation, in the order of the source.
  Parameter: the parsing of ISO-8601 timestamps (\<open>datetime.fromisoformat\<close>). The lemmas say what
  an accepted report guarantees: bounded channels, unique keys, and verdicts that apply only to the
  revision that was tested.
\<close>

subsection \<open>Bounds and vocabularies\<close>

definition max_scenarios :: nat where "max_scenarios = 64"
definition max_verifications :: nat where "max_verifications = 40"
definition max_timeline :: nat where "max_timeline = 200"
definition max_observations :: nat where "max_observations = 40"
definition max_evidence :: nat where "max_evidence = 20"
definition max_limitations :: nat where "max_limitations = 40"
definition max_infra_failures :: nat where "max_infra_failures = 40"

definition run_outcomes :: "string list" where
  "run_outcomes = [''passed'', ''failed'', ''blocked'', ''inconclusive'', ''interrupted'']"

definition case_outcomes :: "string list" where
  "case_outcomes = [''passed'', ''failed'', ''blocked'', ''inconclusive'']"

definition verification_outcomes :: "string list" where
  "verification_outcomes = [''passed'', ''failed'', ''inconclusive'']"

definition evidence_kinds :: "string list" where
  "evidence_kinds = [''file'', ''endpoint'', ''log'', ''metric'']"

definition run_modes :: "string list" where
  "run_modes = [''simulation'', ''hardware-host'', ''hardware-rig'']"

definition severities :: "string list" where
  "severities = [''low'', ''medium'', ''high'', ''critical'']"

definition confidences :: "string list" where
  "confidences = [''low'', ''medium'', ''high'']"

definition required_top :: "string list" where
  "required_top =
     [''schema_version'', ''run_id'', ''attempted_sha'', ''completed_sha'', ''image'', ''started_at'',
      ''finished_at'', ''outcome'', ''scenarios'', ''capability_limitations'',
      ''infrastructure_failures'', ''timeline'']"

definition report_fields :: "string list" where
  "report_fields = required_top @
     [''attempt'', ''host'', ''mode'', ''changed_range'', ''verifications'', ''notes'', ''exploration'']"

definition required_scenario :: "string list" where
  "required_scenario = [''key'', ''title'', ''expected'', ''outcome'', ''observations'']"

definition scenario_fields :: "string list" where
  "scenario_fields = required_scenario @ [''evidence'', ''detail'']"

definition scenario_fields_v3 :: "string list" where
  "scenario_fields_v3 =
     [''module'', ''mode'', ''reproduction'', ''severity'', ''confidence'', ''test_requirements'',
      ''product_cause'']"

definition required_verification :: "string list" where
  "required_verification = [''finding_key'', ''case'', ''fix_sha'', ''tested_sha'', ''outcome'']"

definition verification_fields :: "string list" where
  "verification_fields = required_verification @ [''fix_ancestry'', ''evidence'', ''detail'']"

definition ancestry_fields :: "string list" where
  "ancestry_fields = [''checked'', ''contained'', ''method'', ''detail'']"

definition exploration_fields :: "string list" where
  "exploration_fields = [''charter'', ''rationale'', ''next_frontiers'', ''agent'']"

subsection \<open>Shared checks\<close>

text \<open>\<open>if k in item: check(item[k])\<close>, and \<open>if item.get(k) is not None: check(item[k])\<close>.\<close>

definition if_has :: "json \<Rightarrow> string \<Rightarrow> (json \<Rightarrow> check) \<Rightarrow> check" where
  "if_has j k c = (case jget j k of None \<Rightarrow> None | Some v \<Rightarrow> c v)"

definition if_given :: "json \<Rightarrow> string \<Rightarrow> (json \<Rightarrow> check) \<Rightarrow> check" where
  "if_given j k c = (case jget_or j k JNull of JNull \<Rightarrow> None | v \<Rightarrow> c v)"

definition missing_fields :: "string list \<Rightarrow> json \<Rightarrow> string list" where
  "missing_fields required j = sort (filter (\<lambda>k. jget j k = None) required)"

definition only_fields :: "json \<Rightarrow> string list \<Rightarrow> bool" where
  "only_fields j allowed \<longleftrightarrow> is_obj j \<and> set (map fst (fields_of j)) \<subseteq> set allowed"

definition bounded_list_n :: "json \<Rightarrow> string \<Rightarrow> nat \<Rightarrow> nat \<Rightarrow> check" where
  "bounded_list_n v field item_limit n = first_exn
     [ensure (is_list v \<and> length (items_of v) \<le> n) (ValueError (''Invalid list: '' @ field)),
      check_all (\<lambda>x. bounded_text x field item_limit) (items_of v)]"

definition git_sha :: "json \<Rightarrow> string \<Rightarrow> check" where
  "git_sha v field = ensure (is_str v \<and> sha_ok 40 (str_of v))
     (ValueError (field @ '' must be a 40-hex git revision''))"

definition stable_key :: "json \<Rightarrow> string \<Rightarrow> check" where
  "stable_key v message = ensure (is_str v \<and> review_key_ok (str_of v)) (ValueError message)"

text \<open>\<open>_iso\<close>: \<open>Z\<close> is read as an offset of zero by the parser.\<close>

definition iso_of :: "iso \<Rightarrow> json \<Rightarrow> (time \<times> bool) option" where
  "iso_of parse v = (if is_str v then parse (str_of v) else None)"

definition iso_check :: "iso \<Rightarrow> json \<Rightarrow> string \<Rightarrow> check" where
  "iso_check parse v field = ensure (iso_of parse v \<noteq> None)
     (ValueError (field @ '' must be an ISO-8601 string''))"

text \<open>Comparing a timestamp with an offset to one without raises a \<open>TypeError\<close>.\<close>

definition check_order :: "iso \<Rightarrow> json \<Rightarrow> json \<Rightarrow> check" where
  "check_order parse started finished =
     (case (iso_of parse started, iso_of parse finished) of
        (Some (t0, aware0), Some (t1, aware1)) \<Rightarrow>
          (if aware0 \<noteq> aware1
           then Some (TypeError ''can't compare offset-naive and offset-aware datetimes'')
           else ensure (t0 \<le> t1) (ValueError ''finished_at precedes started_at''))
      | _ \<Rightarrow> None)"

definition keyed_detail :: "json \<Rightarrow> string \<Rightarrow> check" where
  "keyed_detail item field = first_exn
     [ensure (is_obj item) (ValueError (field @ '' entries must be objects'')),
      ensure (missing_fields [''key'', ''detail''] item = [])
        (ValueError (field @ '' entry missing fields: ''
           @ join '','' (missing_fields [''key'', ''detail''] item))),
      stable_key (jget_or item ''key'' JNull) (''Invalid '' @ field @ '' key''),
      bounded_text (jget_or item ''detail'' JNull) (field @ ''.detail'') 4000]"

subsection \<open>Scenarios\<close>

definition evidence_entry :: "string \<Rightarrow> json \<Rightarrow> check" where
  "evidence_entry scenario_key e =
     (let kind = jget_or e ''kind'' JNull; ref = jget_or e ''ref'' JNull in first_exn
       [ensure (fields_between e [''kind'', ''ref''] [''kind'', ''ref'', ''detail''])
          (ValueError (''Invalid evidence entry in scenario '' @ scenario_key)),
        ensure (str_in kind evidence_kinds)
          (ValueError (''Invalid evidence kind in scenario '' @ scenario_key)),
        ensure (is_str ref \<and> str_of ref \<noteq> [] \<and> length (str_of ref) \<le> 500)
          (ValueError (''Invalid evidence ref in scenario '' @ scenario_key)),
        ensure (kind \<noteq> JStr ''file'' \<or> relative_path (str_of ref))
          (ValueError (''Evidence file ref must be relative: '' @ scenario_key)),
        if_has e ''detail'' (\<lambda>d. bounded_text d ''evidence.detail'' 2000)])"

definition scenario_evidence :: "string \<Rightarrow> json \<Rightarrow> check" where
  "scenario_evidence scenario_key evidence = first_exn
     [ensure (is_list evidence \<and> length (items_of evidence) \<le> max_evidence)
        (ValueError (''Invalid evidence list in scenario '' @ scenario_key)),
      check_all (evidence_entry scenario_key) (items_of evidence)]"

definition allowed_scenario :: "rat \<Rightarrow> string list" where
  "allowed_scenario version =
     (if 3 \<le> version then scenario_fields @ scenario_fields_v3 else scenario_fields)"

definition validate_scenario :: "rat \<Rightarrow> json \<Rightarrow> check" where
  "validate_scenario version item =
     (let f = (\<lambda>k. jget_or item k JNull) in first_exn
       [ensure (only_fields item (allowed_scenario version)) (ValueError ''Invalid scenario fields''),
        ensure (missing_fields required_scenario item = [])
          (ValueError (''Scenario missing fields: '' @ join '','' (missing_fields required_scenario item))),
        stable_key (f ''key'') ''Invalid scenario key'',
        bounded_text (f ''title'') ''scenario.title'' 200,
        bounded_text (f ''expected'') ''scenario.expected'' 4000,
        ensure (str_in (f ''outcome'') case_outcomes) (ValueError ''Invalid scenario outcome''),
        bounded_list_n (f ''observations'') ''scenario.observations'' 2000 max_observations,
        if_has item ''evidence'' (scenario_evidence (str_of (f ''key''))),
        if_has item ''detail'' (\<lambda>v. bounded_text v ''scenario.detail'' 4000),
        if_has item ''module'' (\<lambda>v. bounded_text v ''scenario.module'' 500),
        if_has item ''mode'' (\<lambda>v. ensure (str_in v run_modes) (ValueError ''Invalid scenario mode'')),
        if_has item ''reproduction'' (\<lambda>v. bounded_text v ''scenario.reproduction'' 8000),
        if_has item ''severity''
          (\<lambda>v. ensure (str_in v severities) (ValueError ''Invalid scenario severity'')),
        if_has item ''confidence''
          (\<lambda>v. ensure (str_in v confidences) (ValueError ''Invalid scenario confidence'')),
        if_has item ''test_requirements'' (\<lambda>v. bounded_text v ''scenario.test_requirements'' 4000),
        if_has item ''product_cause''
          (\<lambda>v. ensure (type_is_bool v) (ValueError ''scenario.product_cause must be boolean''))])"

text \<open>The loop over the scenarios, with the keys seen so far.\<close>

fun check_scenarios :: "rat \<Rightarrow> string list \<Rightarrow> json list \<Rightarrow> check" where
  "check_scenarios version seen [] = None"
| "check_scenarios version seen (item # items) =
     (case validate_scenario version item of
        Some e \<Rightarrow> Some e
      | None \<Rightarrow>
          (if fstr ''key'' item \<in> set seen then Some (ValueError ''Duplicate scenario key'')
           else check_scenarios version (fstr ''key'' item # seen) items))"

subsection \<open>Exploration and verifications\<close>

definition validate_exploration :: "json \<Rightarrow> check" where
  "validate_exploration item = first_exn
     [ensure (only_fields item exploration_fields) (ValueError ''Invalid exploration fields''),
      if_has item ''charter'' (\<lambda>v. bounded_text v ''exploration.charter'' 500),
      if_has item ''rationale'' (\<lambda>v. bounded_text v ''exploration.rationale'' 4000),
      if_has item ''next_frontiers'' (\<lambda>v. bounded_list_n v ''exploration.next_frontiers'' 500 10),
      if_has item ''agent'' (\<lambda>v. bounded_text v ''exploration.agent'' 200)]"

definition check_ancestry :: "json \<Rightarrow> check" where
  "check_ancestry a = first_exn
     [ensure (only_fields a ancestry_fields) (ValueError ''Invalid verification fix_ancestry''),
      if_has a ''checked''
        (\<lambda>v. ensure (type_is_bool v) (ValueError ''fix_ancestry.checked must be boolean'')),
      if_given a ''contained''
        (\<lambda>v. ensure (type_is_bool v) (ValueError ''fix_ancestry.contained must be boolean'')),
      if_given a ''method'' (\<lambda>v. bounded_text v ''fix_ancestry.method'' 200),
      if_given a ''detail'' (\<lambda>v. bounded_text v ''fix_ancestry.detail'' 2000)]"

definition wire_evidence_entry :: "json \<Rightarrow> check" where
  "wire_evidence_entry e =
     (if is_str e then bounded_text e ''verification.evidence'' 2000
      else first_exn
        [ensure (fields_between e [''detail''] [''detail'', ''source''])
           (ValueError ''Invalid verification evidence entry''),
         bounded_text (jget_or e ''detail'' JNull) ''verification.evidence'' 2000,
         if_given e ''source'' (\<lambda>v. bounded_text v ''evidence.source'' 500)])"

definition wire_evidence :: "json \<Rightarrow> check" where
  "wire_evidence evidence = first_exn
     [ensure (is_list evidence \<and> length (items_of evidence) \<le> max_evidence)
        (ValueError ''Invalid verification evidence''),
      check_all wire_evidence_entry (items_of evidence)]"

definition wire_verification :: "json \<Rightarrow> check" where
  "wire_verification item =
     (let f = (\<lambda>k. jget_or item k JNull) in first_exn
       [ensure (only_fields item verification_fields) (ValueError ''Invalid verification fields''),
        ensure (missing_fields required_verification item = [])
          (ValueError (''Verification missing fields: ''
             @ join '','' (missing_fields required_verification item))),
        stable_key (f ''finding_key'') ''Invalid verification finding_key'',
        stable_key (f ''case'') ''Invalid verification case'',
        git_sha (f ''fix_sha'') ''verification.fix_sha'',
        git_sha (f ''tested_sha'') ''verification.tested_sha'',
        ensure (str_in (f ''outcome'') verification_outcomes)
          (ValueError ''Invalid verification outcome''),
        if_given item ''fix_ancestry'' check_ancestry,
        if_given item ''evidence'' wire_evidence,
        if_has item ''detail'' (\<lambda>v. bounded_text v ''verification.detail'' 4000)])"

fun check_verifications :: "json \<Rightarrow> string list \<Rightarrow> json list \<Rightarrow> check" where
  "check_verifications completed seen [] = None"
| "check_verifications completed seen (item # items) =
     (case wire_verification item of
        Some e \<Rightarrow> Some e
      | None \<Rightarrow>
          (if fstr ''finding_key'' item \<in> set seen
           then Some (ValueError ''Duplicate verification finding_key'')
           else if str_in (jget_or item ''outcome'' JNull) [''passed'', ''failed'']
             \<and> jget_or item ''tested_sha'' JNull \<noteq> completed
           then Some (ValueError ''passed/failed verification requires tested_sha == completed_sha'')
           else check_verifications completed (fstr ''finding_key'' item # seen) items))"

subsection \<open>The whole report\<close>

definition schema_version :: "json \<Rightarrow> rat option" where
  "schema_version data =
     (case num_of (jget_or data ''schema_version'' JNull) of
        Some v \<Rightarrow> (if v \<in> {1, 2, 3} then Some v else None)
      | None \<Rightarrow> None)"

definition check_version :: "rat \<Rightarrow> json \<Rightarrow> check" where
  "check_version v data = first_exn
     [ensure (\<not> (v < 2 \<and> jget data ''verifications'' \<noteq> None))
        (ValueError ''verifications require report schema version 2''),
      ensure (\<not> (v < 3 \<and> (jget data ''exploration'' \<noteq> None \<or> jget data ''mode'' \<noteq> None)))
        (ValueError ''mode and exploration require report schema version 3''),
      if_has data ''mode'' (\<lambda>m. ensure (str_in m run_modes) (ValueError ''Invalid run mode'')),
      if_has data ''exploration'' validate_exploration]"

definition check_identity :: "string option \<Rightarrow> string option \<Rightarrow> json \<Rightarrow> check" where
  "check_identity run_id attempted_sha data =
     (let f = (\<lambda>k. jget_or data k JNull) in first_exn
       [stable_key (f ''run_id'') ''Invalid run_id'',
        ensure (run_id = None \<or> f ''run_id'' = JStr (the run_id))
          (ValueError ''Report run_id does not match the launched run''),
        git_sha (f ''attempted_sha'') ''attempted_sha'',
        ensure (attempted_sha = None \<or> f ''attempted_sha'' = JStr (the attempted_sha))
          (ValueError ''Report attempted_sha does not match the launched run''),
        if_given data ''completed_sha'' (\<lambda>v. git_sha v ''completed_sha'')])"

definition check_run :: "iso \<Rightarrow> json \<Rightarrow> check" where
  "check_run parse data =
     (let f = (\<lambda>k. jget_or data k JNull) in first_exn
       [iso_check parse (f ''started_at'') ''started_at'',
        iso_check parse (f ''finished_at'') ''finished_at'',
        check_order parse (f ''started_at'') (f ''finished_at''),
        ensure (str_in (f ''outcome'') run_outcomes) (ValueError ''Invalid run outcome''),
        if_has data ''attempt''
          (\<lambda>a. ensure (positive_int a) (ValueError ''attempt must be a positive integer''))])"

definition digest_rx :: rx where
  "digest_rx = seqs [Bol, lit ''sha256:'', Rep (Chr hex_lower) 64 (Some 64), Eol]"

definition check_digest :: "string \<times> json \<Rightarrow> check" where
  "check_digest nd = ensure (is_str (snd nd) \<and> re_match digest_rx (str_of (snd nd)) \<noteq> None)
     (ValueError (''image.'' @ fst nd @ '' must be a sha256 digest''))"

definition check_image :: "json \<Rightarrow> check" where
  "check_image img = first_exn
     [ensure (fields_between img [''controller'', ''plant''] [''controller'', ''plant''])
        (ValueError ''image must name controller and plant digests''),
      check_all check_digest (fields_of img)]"

definition check_host :: "json \<Rightarrow> check" where
  "check_host host = first_exn
     [ensure (fields_between host [''name'', ''os''] [''name'', ''os''])
        (ValueError ''host must contain name and os''),
      bounded_text (jget_or host ''name'' JNull) ''host.name'' 200,
      bounded_text (jget_or host ''os'' JNull) ''host.os'' 500]"

definition check_range :: "json \<Rightarrow> json \<Rightarrow> check" where
  "check_range attempted rng = first_exn
     [ensure (fields_between rng [''first'', ''last''] [''first'', ''last''])
        (ValueError ''changed_range must contain first and last''),
      git_sha (jget_or rng ''first'' JNull) ''changed_range.first'',
      git_sha (jget_or rng ''last'' JNull) ''changed_range.last'',
      ensure (jget_or rng ''last'' JNull = attempted)
        (ValueError ''changed_range.last must equal attempted_sha'')]"

definition check_cases :: "rat \<Rightarrow> json \<Rightarrow> check" where
  "check_cases version scenarios = first_exn
     [ensure (is_list scenarios \<and> length (items_of scenarios) \<le> max_scenarios)
        (ValueError ''Invalid scenarios list''),
      check_scenarios version [] (items_of scenarios)]"

text \<open>The consistency rules between the verdict of the run and its cases.\<close>

definition outcomes_of :: "json \<Rightarrow> json list" where
  "outcomes_of scenarios = map (\<lambda>i. jget_or i ''outcome'' JNull) (items_of scenarios)"

definition check_verdict :: "json \<Rightarrow> check" where
  "check_verdict data =
     (let f = (\<lambda>k. jget_or data k JNull); cs = outcomes_of (f ''scenarios''); res = f ''outcome'' in first_exn
       [ensure (\<not> (res = JStr ''passed'' \<and> (cs = [] \<or> list_ex (\<lambda>c. c \<noteq> JStr ''passed'') cs)))
          (ValueError ''passed outcome requires every scenario passed''),
        ensure (\<not> (res = JStr ''failed'' \<and> JStr ''failed'' \<notin> set cs))
          (ValueError ''failed outcome requires a failed scenario''),
        ensure (\<not> (str_in res [''passed'', ''failed''] \<and> f ''completed_sha'' \<noteq> f ''attempted_sha''))
          (ValueError ''passed/failed requires completed_sha == attempted_sha'')])"

text \<open>\<open>data.get('verifications') or []\<close>: a falsy value counts as no channel.\<close>

definition given_or_empty :: "json \<Rightarrow> string \<Rightarrow> json" where
  "given_or_empty data k = (let v = jget_or data k JNull in if truthy v then v else JList [])"

definition check_verification_channel :: "json \<Rightarrow> check" where
  "check_verification_channel data =
     (let v = given_or_empty data ''verifications'' in first_exn
       [ensure (is_list v \<and> length (items_of v) \<le> max_verifications)
          (ValueError ''Invalid verifications list''),
        check_verifications (jget_or data ''completed_sha'' JNull) [] (items_of v)])"

definition check_limitation :: "json \<Rightarrow> check" where
  "check_limitation item = first_exn
     [keyed_detail item ''capability_limitations'',
      if_has item ''blocking'' (\<lambda>v. ensure (type_is_bool v)
        (ValueError ''capability_limitations.blocking must be boolean''))]"

definition check_failure :: "json \<Rightarrow> check" where
  "check_failure item = first_exn
     [keyed_detail item ''infrastructure_failures'',
      if_has item ''phase'' (\<lambda>v. bounded_text v ''infrastructure_failures.phase'' 200)]"

definition check_channel :: "string \<Rightarrow> nat \<Rightarrow> (json \<Rightarrow> check) \<Rightarrow> json \<Rightarrow> check" where
  "check_channel message n c v = first_exn
     [ensure (is_list v \<and> length (items_of v) \<le> n) (ValueError message), check_all c (items_of v)]"

definition timeline_entry :: "iso \<Rightarrow> json \<Rightarrow> check" where
  "timeline_entry parse e = first_exn
     [ensure (fields_between e [''t'', ''event''] [''t'', ''event'', ''detail''])
        (ValueError ''Invalid timeline entry''),
      iso_check parse (jget_or e ''t'' JNull) ''timeline.t'',
      bounded_text (jget_or e ''event'' JNull) ''timeline.event'' 200,
      if_has e ''detail'' (\<lambda>v. bounded_text v ''timeline.detail'' 2000)]"

definition check_report ::
  "iso \<Rightarrow> string option \<Rightarrow> string option \<Rightarrow> rat \<Rightarrow> json \<Rightarrow> check" where
  "check_report parse run_id attempted_sha version data =
     (let f = (\<lambda>k. jget_or data k JNull) in first_exn
       [check_version version data,
        check_identity run_id attempted_sha data,
        check_run parse data,
        if_given data ''image'' check_image,
        if_has data ''host'' check_host,
        if_has data ''changed_range'' (check_range (f ''attempted_sha'')),
        check_cases version (f ''scenarios''),
        check_verdict data,
        check_verification_channel data,
        check_channel ''Invalid capability_limitations list'' max_limitations check_limitation
          (f ''capability_limitations''),
        check_channel ''Invalid infrastructure_failures list'' max_infra_failures check_failure
          (f ''infrastructure_failures''),
        check_channel ''Invalid timeline'' max_timeline (timeline_entry parse) (f ''timeline''),
        if_has data ''notes'' (\<lambda>v. bounded_text v ''notes'' 4000)])"

definition validate_qa_report ::
  "iso \<Rightarrow> string option \<Rightarrow> string option \<Rightarrow> string \<Rightarrow> json res" where
  "validate_qa_report parse run_id attempted_sha text =
     (case loads text of
        None \<Rightarrow> Inl (ValueError ''Report is not JSON'')
      | Some data \<Rightarrow>
          (if \<not> fields_between data required_top report_fields
           then Inl (ValueError ''Invalid report top-level fields'')
           else case schema_version data of
             None \<Rightarrow> Inl (ValueError ''Unsupported report schema version'')
           | Some v \<Rightarrow>
               (case check_report parse run_id attempted_sha v data of
                  Some e \<Rightarrow> Inl e | None \<Rightarrow> Inr data)))"

end
