(* ===== verification/Findings.thy ===== *)
theory Findings
  imports QaReport Classify
begin

text \<open>
  agent_pool/findings.py, first half: the settings of the QA findings lane, the redaction of
  credential-shaped text, the validation of findings and of fix verifications, and the adaptation
  of a wire report (qa_lane/report.py) to the findings it carries. Field access follows the source:
  an object that lacks a key or holds the wrong kind of value raises what Python raises.
\<close>

subsection \<open>Vocabularies\<close>

definition issue_prefix :: string where "issue_prefix = ''qa-''"
definition max_doc :: nat where "max_doc = 900 * 1024"

definition kinds :: "string list" where
  "kinds = [''defect'', ''capability'', ''infrastructure'']"

definition severity_priority :: "string \<Rightarrow> int" where
  "severity_priority severity =
     (if severity = ''critical'' \<or> severity = ''high'' then 1 else if severity = ''medium'' then 2 else 3)"

definition open_statuses :: "string list" where
  "open_statuses =
     [''recorded'', ''issue-open'', ''redispatched'', ''fix-merged'', ''failed'', ''candidate'']"

definition dashboard_open :: "string list" where
  "dashboard_open = open_statuses @ [''held'']"

definition required_finding :: "string list" where
  "required_finding =
     [''key'', ''kind'', ''module'', ''severity'', ''confidence'', ''title'', ''summary'', ''evidence'']"

definition finding_fields :: "string list" where
  "finding_fields =
     required_finding @ [''reproduction'', ''expected'', ''test_requirements'', ''product_cause'']"

subsection \<open>Settings\<close>

definition default_publish :: json where
  "default_publish =
     JObj [(''document'', JStr ''findings''), (''identity'', JStr ''~/.ssh/dcs_qa_report_ed25519''),
           (''host'', JStr ''jan-kaspar@192.168.178.81''),
           (''known_hosts'', JStr ''~/.ssh/known_hosts_pi'')]"

definition qa_defaults :: json where
  "qa_defaults =
     JObj [(''enabled'', JBool False), (''mode'', JStr ''record''), (''dashboard'', JBool False),
           (''report_dir'', JNull), (''max_open'', JInt 20), (''max_issues_per_report'', JInt 5),
           (''max_fix_cycles'', JInt 2), (''publish'', default_publish)]"

text \<open>\<open>d.update(v or {})\<close>: anything but an object is refused by \<open>dict.update\<close>.\<close>

definition dict_update :: "json \<Rightarrow> json \<Rightarrow> json res" where
  "dict_update d v =
     (if \<not> truthy v then Inr d
      else case v of
        JObj kvs \<Rightarrow> Inr (fold (\<lambda>(k, x). jset k x) kvs d)
      | JStr _ \<Rightarrow> Inl (ValueError ''dictionary update sequence element #0 has length 1; 2 is required'')
      | _ \<Rightarrow> Inl (TypeError ''object is not iterable''))"

definition default_report_dir :: "json \<Rightarrow> json \<Rightarrow> json" where
  "default_report_dir config cfg =
     (let root = jget_or config ''state_root'' JNull in
      if jget_or cfg ''report_dir'' JNull = JNull \<and> truthy root
      then jset ''report_dir'' (JStr (str_of root @ ''/qa/reports'')) cfg else cfg)"

definition check_settings :: "json \<Rightarrow> check" where
  "check_settings cfg =
     (let f = (\<lambda>k. jget_or cfg k JNull) in first_exn
       [ensure (type_is_bool (f ''enabled'') \<and> type_is_bool (f ''dashboard''))
          (ValueError ''qa.enabled and qa.dashboard must be boolean''),
        ensure (str_in (f ''mode'') [''record'', ''route'']) (ValueError ''qa.mode must be record or route''),
        check_all (\<lambda>k. ensure (positive_int (f k))
            (ValueError (''qa.'' @ k @ '' must be a positive integer'')))
          [''max_open'', ''max_issues_per_report'', ''max_fix_cycles''],
        ensure (f ''report_dir'' = JNull \<or> is_str (f ''report_dir''))
          (ValueError ''qa.report_dir must be a path string or null'')])"

definition check_publish :: "json \<Rightarrow> check" where
  "check_publish publish = first_exn
     [check_all (\<lambda>k. ensure (is_str (jget_or publish k JNull) \<and> fstr k publish \<noteq> [])
          (ValueError (''qa.publish.'' @ k @ '' must be a nonempty string'')))
        [''identity'', ''host'', ''known_hosts''],
      ensure (is_str (jget_or publish ''document'' JNull))
        (TypeError ''expected string or bytes-like object''),
      ensure (re_match (key_rx 63) (fstr ''document'' publish) \<noteq> None)
        (ValueError ''qa.publish.document must be a lowercase doc name'')]"

definition qa_settings :: "json \<Rightarrow> json res" where
  "qa_settings config =
     (let raw = jget_or config ''qa'' JNull; section = (if truthy raw then raw else JObj []) in
      if \<not> is_obj section then Inl (AttributeError ''items'')
      else res_bind (dict_update default_publish (jget_or section ''publish'' JNull)) (\<lambda>publish.
        let cfg = jset ''publish'' publish
              (fold (\<lambda>(k, v). if k = ''publish'' then id else jset k v) (fields_of section) qa_defaults)
        in case check_settings cfg of
             Some e \<Rightarrow> Inl e
           | None \<Rightarrow> (case check_publish publish of
                Some e \<Rightarrow> Inl e | None \<Rightarrow> Inr (default_report_dir config cfg))))"

text \<open>The settings the lane reads, as it reads them.\<close>

definition qa_flag :: "string \<Rightarrow> json \<Rightarrow> bool" where
  "qa_flag k cfg \<longleftrightarrow> truthy (jget_or cfg k JNull)"

definition qa_limit :: "string \<Rightarrow> json \<Rightarrow> int" where
  "qa_limit k cfg = int_of (jget_or cfg k JNull)"

definition qa_routes :: "json \<Rightarrow> bool" where
  "qa_routes cfg \<longleftrightarrow> jget_or cfg ''mode'' JNull = JStr ''route''"

subsection \<open>Redaction\<close>

definition re_sub :: "rx \<Rightarrow> (hit \<Rightarrow> string) \<Rightarrow> string \<Rightarrow> string" where
  "re_sub r f t =
     (case fold (\<lambda>h (out, pos).
          let pre = rev (fst (snd (snd h))) in
          (out @ drop pos pre @ f h, length pre + length (fst h))) (re_finditer r t) ([], 0) of
        (out, pos) \<Rightarrow> out @ drop pos t)"

definition quotes :: string where "quotes = [CHR 0x22, CHR 0x27]"

definition secret_rx :: rx where
  "secret_rx = seqs
     [Grp 1 (alts [ilit ''password'', ilit ''passwd'', ilit ''token'', ilit ''secret'',
               seqs [ilit ''api'', opt (one_of ''_-''), ilit ''key''], ilit ''authorization'']),
      Grp 2 (seqs [Rep (Chr (\<lambda>c. is_space c \<or> c \<in> set quotes)) 0 None, one_of '':='',
               Rep (Chr (\<lambda>c. is_space c \<or> c \<in> set quotes)) 0 None]),
      Rep (Chr (\<lambda>c. \<not> is_space c \<and> c \<notin> set quotes \<and> c \<noteq> CHR '','' \<and> c \<noteq> CHR ''}'')) 1 None]"

definition alnum :: "char \<Rightarrow> bool" where
  "alnum c \<longleftrightarrow> is_lower_az c \<or> is_upper_az c \<or> is_dig c"

definition github_token_rx :: rx where
  "github_token_rx = seqs [lit ''gh'', one_of ''opsu'', lit ''_'', Rep (Chr alnum) 20 None]"

definition bearer_rx :: rx where
  "bearer_rx = seqs [ilit ''bearer'', spaces1,
     Rep (Chr (\<lambda>c. alnum c \<or> c \<in> set ''._~+/=-'')) 10 None]"

definition private_key_rx :: rx where
  "private_key_rx = seqs [lit ''-----BEGIN '', Rep (Chr (\<lambda>c. is_upper_az c \<or> c = CHR '' '')) 0 None,
     lit ''PRIVATE KEY-----'']"

definition redact :: "string \<Rightarrow> string" where
  "redact text = fold (\<lambda>r. re_sub r (\<lambda>_. ''[redacted]''))
     [github_token_rx, bearer_rx, private_key_rx]
     (re_sub secret_rx (\<lambda>h. (case group 1 h of Some a \<Rightarrow> a | None \<Rightarrow> [])
        @ (case group 2 h of Some b \<Rightarrow> b | None \<Rightarrow> []) @ ''[redacted]'') text)"

fun redact_tree :: "json \<Rightarrow> json" where
  "redact_tree (JStr s) = JStr (redact s)"
| "redact_tree (JList xs) = JList (map redact_tree xs)"
| "redact_tree (JObj kvs) = JObj (map (\<lambda>(k, v). (k, redact_tree v)) kvs)"
| "redact_tree v = v"

subsection \<open>Findings\<close>

definition not_text :: exn where
  "not_text = TypeError ''expected string or bytes-like object''"

definition evidence_detail :: "json \<Rightarrow> json" where
  "evidence_detail e = (case e of JStr s \<Rightarrow> JObj [(''detail'', JStr s)] | _ \<Rightarrow> e)"

definition finding_evidence :: "json \<Rightarrow> check" where
  "finding_evidence e = first_exn
     [ensure (only_fields e [''detail'', ''source''])
        (ValueError ''Evidence entries need detail and optional source''),
      ensure (jget e ''detail'' \<noteq> None) (KeyError ''detail''),
      bounded_text (jget_or e ''detail'' JNull) ''evidence.detail'' 2000,
      if_given e ''source'' (\<lambda>v. bounded_text v ''evidence.source'' 500)]"

definition check_reproduction :: "json \<Rightarrow> check" where
  "check_reproduction item =
     (if jget_or item ''kind'' JNull = JStr ''defect'' then first_exn
        [bounded_text (jget_or item ''reproduction'' JNull) ''reproduction'' 8000,
         bounded_text (jget_or item ''expected'' JNull) ''expected'' 4000]
      else if_given item ''reproduction'' (\<lambda>v. bounded_text v ''reproduction'' 8000))"

definition check_finding :: "json \<Rightarrow> check" where
  "check_finding item =
     (let f = (\<lambda>k. jget_or item k JNull) in first_exn
       [ensure (fields_between item required_finding finding_fields) (ValueError ''Invalid finding fields''),
        ensure (is_str (f ''key'')) not_text,
        ensure (review_key_ok (fstr ''key'' item)) (ValueError ''Invalid finding key''),
        ensure (str_in (f ''kind'') kinds)
          (ValueError ''Finding kind must be defect, capability, or infrastructure''),
        bounded_text (f ''module'') ''module'' 500,
        ensure (str_in (f ''severity'') severities) (ValueError ''Invalid severity''),
        ensure (str_in (f ''confidence'') confidences) (ValueError ''Invalid confidence''),
        bounded_text (f ''title'') ''title'' 200,
        bounded_text (f ''summary'') ''summary'' 4000,
        check_reproduction item,
        if_given item ''expected'' (\<lambda>v. bounded_text v ''expected'' 4000),
        if_given item ''test_requirements'' (\<lambda>v. bounded_text v ''test_requirements'' 4000),
        if_has item ''product_cause''
          (\<lambda>v. ensure (type_is_bool v) (ValueError ''product_cause must be boolean'')),
        ensure (is_list (f ''evidence'') \<and> items_of (f ''evidence'') \<noteq> []
            \<and> length (items_of (f ''evidence'')) \<le> 20)
          (ValueError ''Finding requires 1-20 evidence entries''),
        check_all finding_evidence (map evidence_detail (items_of (f ''evidence'')))])"

definition validate_finding :: "json \<Rightarrow> json res" where
  "validate_finding item =
     (case check_finding item of
        Some e \<Rightarrow> Inl e
      | None \<Rightarrow> Inr (redact_tree (jset ''evidence''
          (JList (map evidence_detail (items_of (jget_or item ''evidence'' JNull)))) item)))"

subsection \<open>Fix verifications\<close>

definition optional_sha :: "json \<Rightarrow> string \<Rightarrow> check" where
  "optional_sha entry k = if_given entry k (\<lambda>v. first_exn
     [ensure (is_str v) not_text,
      ensure (sha_ok 40 (str_of v)) (ValueError (''verification '' @ k @ '' must be 40-hex''))])"

definition entry_evidence :: "json \<Rightarrow> check" where
  "entry_evidence e = first_exn
     [ensure (is_str e \<or> is_obj e) (AttributeError ''get''),
      bounded_text (if is_str e then e else jget_or e ''detail'' JNull) ''verification.evidence'' 2000]"

definition check_entry :: "json \<Rightarrow> check" where
  "check_entry entry =
     (let f = (\<lambda>k. jget_or entry k JNull) in first_exn
       [ensure (fields_between entry [''finding_key'', ''outcome''] verification_fields)
          (ValueError ''Invalid verification fields''),
        stable_key (f ''finding_key'') ''Invalid verification finding_key'',
        ensure (str_in (f ''outcome'') verification_outcomes)
          (ValueError ''Invalid verification outcome''),
        optional_sha entry ''fix_sha'',
        optional_sha entry ''tested_sha'',
        if_given entry ''case'' (\<lambda>v. bounded_text v ''verification.case'' 4000),
        if_given entry ''fix_ancestry'' check_ancestry,
        if_given entry ''evidence'' (\<lambda>v. first_exn
          [ensure (is_list v \<and> length (items_of v) \<le> 20) (ValueError ''Invalid verification evidence''),
           check_all entry_evidence (items_of v)]),
        if_given entry ''detail'' (\<lambda>v. bounded_text v ''verification.detail'' 4000)])"

definition validate_verification :: "json \<Rightarrow> json res" where
  "validate_verification entry =
     (case check_entry entry of Some e \<Rightarrow> Inl e | None \<Rightarrow> Inr (redact_tree entry))"

subsection \<open>From a report to findings\<close>

text \<open>\<open>a or b\<close>\<close>

definition or_json :: "json \<Rightarrow> json \<Rightarrow> json" where
  "or_json a b = (if truthy a then a else b)"

definition scenario_source :: "json \<Rightarrow> json \<Rightarrow> string" where
  "scenario_source scenario data =
     ''run '' @ fstr ''run_id'' data @ '' scenario '' @ fstr ''key'' scenario"

definition evidence_of :: "string \<Rightarrow> json \<Rightarrow> json" where
  "evidence_of source e =
     JObj [(''detail'', or_json (jget_or e ''detail'' JNull) (jget_or e ''ref'' JNull)),
           (''source'', JStr (source @ '' '' @ fstr ''kind'' e @ '':'' @ fstr ''ref'' e))]"

definition observation_of :: "string \<Rightarrow> json \<Rightarrow> json" where
  "observation_of source obs = JObj [(''detail'', obs), (''source'', JStr source)]"

definition scenario_evidence_entries :: "json \<Rightarrow> json \<Rightarrow> json list" where
  "scenario_evidence_entries scenario data =
     (let source = scenario_source scenario data;
          es = map (evidence_of source) (items_of (given_or_empty scenario ''evidence''))
             @ map (observation_of source) (items_of (given_or_empty scenario ''observations''))
      in if es = []
         then [observation_of source (JStr ''no evidence captured; see the run report'')] else es)"

definition detail_or_expected :: "json \<Rightarrow> json" where
  "detail_or_expected scenario =
     or_json (jget_or scenario ''detail'' JNull) (jget_or scenario ''expected'' JNull)"

definition reproduction_of :: "json \<Rightarrow> json \<Rightarrow> json" where
  "reproduction_of scenario data =
     (let given = jget_or scenario ''reproduction'' JNull; mode = jget_or scenario ''mode'' JNull in
      if truthy given then given
      else if truthy mode then
        JStr (''Exploratory probe '' @ fstr ''key'' scenario @ '' of QA run '' @ fstr ''run_id'' data
              @ '' on the Lenovo host (mode '' @ str_of mode @ '').'')
      else JStr (''Automated scenario '' @ fstr ''key'' scenario @ '' of QA run ''
              @ fstr ''run_id'' data @ '' on the Lenovo simulated rig.''))"

definition blocked_finding :: "json \<Rightarrow> json \<Rightarrow> json" where
  "blocked_finding scenario data =
     (let k = fstr ''key'' scenario in
      JObj [(''key'', JStr k), (''kind'', JStr ''infrastructure''), (''module'', JStr (''qa-lane/'' @ k)),
            (''severity'', JStr ''low''), (''confidence'', JStr ''medium''),
            (''title'', jget_or scenario ''title'' JNull),
            (''summary'', JStr (take 4000 (fstr ''outcome'' scenario @ '': ''
               @ str_of (detail_or_expected scenario)))),
            (''evidence'', JList (scenario_evidence_entries scenario data))])"

definition failed_finding :: "json \<Rightarrow> json \<Rightarrow> json" where
  "failed_finding scenario data =
     (let k = fstr ''key'' scenario; get = (\<lambda>x d. or_json (jget_or scenario x JNull) (JStr d));
          tests = jget_or scenario ''test_requirements'' JNull;
          cause = jget_or scenario ''product_cause'' JNull in
      JObj ([(''key'', JStr k), (''kind'', JStr ''defect''), (''module'', get ''module'' (''qa-lane/'' @ k)),
             (''severity'', get ''severity'' ''medium''), (''confidence'', get ''confidence'' ''high''),
             (''title'', jget_or scenario ''title'' JNull),
             (''summary'', detail_or_expected scenario),
             (''expected'', jget_or scenario ''expected'' JNull),
             (''evidence'', JList (scenario_evidence_entries scenario data)),
             (''reproduction'', reproduction_of scenario data)]
            @ (if truthy tests then [(''test_requirements'', tests)] else [])
            @ (if type_is_bool cause then [(''product_cause'', cause)] else [])))"

definition scenario_finding :: "json \<Rightarrow> json \<Rightarrow> json" where
  "scenario_finding data scenario =
     (if fstr ''outcome'' scenario \<noteq> ''failed'' then blocked_finding scenario data
      else failed_finding scenario data)"

definition keyed_finding :: "json \<Rightarrow> string \<Rightarrow> json \<Rightarrow> json" where
  "keyed_finding data kind item =
     (let k = fstr ''key'' item; phase = jget_or item ''phase'' JNull;
          detail = (if kind = ''infrastructure'' \<and> truthy phase
                    then fstr ''detail'' item @ '' (phase: '' @ str_of phase @ '')''
                    else fstr ''detail'' item) in
      JObj [(''key'', JStr k), (''kind'', JStr kind), (''module'', JStr (''qa-lane/'' @ k)),
            (''severity'', JStr (if kind = ''capability'' \<and> truthy (jget_or item ''blocking'' JNull)
                               then ''medium'' else ''low'')),
            (''confidence'', JStr ''high''), (''title'', JStr k), (''summary'', JStr (take 4000 detail)),
            (''evidence'', JList [JObj [(''detail'', JStr (take 2000 detail)),
               (''source'', JStr (''run '' @ fstr ''run_id'' data))]])])"

definition derived_findings :: "json \<Rightarrow> json list" where
  "derived_findings data =
     map (keyed_finding data ''capability'') (items_of (jget_or data ''capability_limitations'' JNull))
     @ map (keyed_finding data ''infrastructure'')
         (items_of (jget_or data ''infrastructure_failures'' JNull))
     @ map (scenario_finding data)
         (filter (\<lambda>s. jget_or s ''outcome'' JNull \<noteq> JStr ''passed'')
            (items_of (jget_or data ''scenarios'' JNull)))"

text \<open>The first record of a key wins.\<close>

fun first_by_key :: "string list \<Rightarrow> json list \<Rightarrow> json list" where
  "first_by_key seen [] = []"
| "first_by_key seen (x # xs) =
     (if fstr ''key'' x \<in> set seen then first_by_key seen xs
      else x # first_by_key (fstr ''key'' x # seen) xs)"

definition derive_findings :: "json \<Rightarrow> json list res" where
  "derive_findings data = map_res validate_finding (first_by_key [] (derived_findings data))"

definition verdict_outcomes :: "string list" where
  "verdict_outcomes = [''passed'', ''failed'']"

definition redact_notes :: "json \<Rightarrow> json" where
  "redact_notes report =
     (case jget report ''notes'' of
        None \<Rightarrow> report | Some v \<Rightarrow> jset ''notes'' (JStr (redact (str_of v))) report)"

definition adapt_report :: "json \<Rightarrow> json res" where
  "adapt_report data =
     (let f = (\<lambda>k. jget_or data k JNull);
          base = redact_notes (fold (\<lambda>(k, v). jset k v)
            [(''sha'', or_json (f ''completed_sha'') (f ''attempted_sha'')),
             (''status'', if str_in (f ''outcome'') verdict_outcomes then JStr ''completed'' else f ''outcome''),
             (''rig'', or_json (jget_or (or_json (f ''host'') (JObj [])) ''name'' JNull) (JStr ''qa-rig'')),
             (''model'', JStr ''qa-lane''), (''ended_at'', f ''finished_at'')]
            (redact_tree data))
      in res_bind (derive_findings data) (\<lambda>fs.
         res_bind (map_res validate_verification (items_of (given_or_empty data ''verifications''))) (\<lambda>vs.
           Inr (jset ''verifications'' (JList vs) (jset ''findings'' (JList fs) base)))))"

definition validate_findings_report :: "iso \<Rightarrow> string \<Rightarrow> json res" where
  "validate_findings_report parse text =
     res_bind (validate_qa_report parse None None text) adapt_report"

end
