(* ===== verification/FindingsLane.thy ===== *)
theory FindingsLane
  imports Findings Supervisor
begin

text \<open>
  agent_pool/findings.py, second half: the findings lane as a program over the scheduler database
  and the outside world. A report of the inbox is recorded, its findings are routed to managed
  issues or planner candidates, merged fixes wait for a verification, and a verification moves the
  chain finding, issue, merged fix, verdict. Parameters (the record \<open>qa_env\<close>): the timestamp parser,
  the digest, \<open>expanduser\<close>, the names of the scenario functions, and the command that publishes the
  dashboard. Not modelled: the log.
\<close>

record 'w qa_env =
  qa_config :: json
  qa_iso :: iso
  qa_digest :: "string \<Rightarrow> string"
  qa_home :: "string \<Rightarrow> string"
  qa_scenarios :: "string list"
  qa_send :: "string list \<Rightarrow> string \<Rightarrow> 'w \<Rightarrow> (int \<times> string) res \<times> 'w"

subsection \<open>Issues of the lane\<close>

definition issue_key :: "string \<Rightarrow> string" where
  "issue_key k = issue_prefix @ k"

definition group_rx :: rx where
  "group_rx = seqs [Bol, Chr key_head, Rep (Chr (\<lambda>c. key_tail c \<or> c = CHR ''_'')) 0 (Some 79), Eol]"

definition concurrency_group :: "string \<Rightarrow> string" where
  "concurrency_group modname =
     (let tail = lower (last (split_on CHR ''/'' (rstrip_if (\<lambda>c. c = CHR ''/'') (strip modname)))) in
      if re_match group_rx tail \<noteq> None then tail else ''qa'')"

definition finding_priority :: "json \<Rightarrow> int" where
  "finding_priority finding = severity_priority (fstr ''severity'' finding)"

definition finding_area :: "json \<Rightarrow> string" where
  "finding_area finding = infer (fstr ''module'' finding) [fstr ''title'' finding, fstr ''summary'' finding]"

definition issue_meta :: "json \<Rightarrow> int list \<Rightarrow> string \<Rightarrow> string \<Rightarrow> json" where
  "issue_meta finding deps k area =
     JObj [(''key'', JStr k), (''group'', JStr (concurrency_group (fstr ''module'' finding))),
           (''area'', JStr area), (''dependencies'', JList (map JInt deps)),
           (''priority'', JInt (finding_priority finding))]"

definition text_or :: "json \<Rightarrow> string \<Rightarrow> string \<Rightarrow> string" where
  "text_or j k d = str_of (or_json (jget_or j k JNull) (JStr d))"

definition qa_issue_body ::
  "(rat \<Rightarrow> string) \<Rightarrow> json \<Rightarrow> json \<Rightarrow> int list \<Rightarrow> string option \<Rightarrow> string \<Rightarrow> string \<Rightarrow> string" where
  "qa_issue_body rf finding report deps preamble k area =
     join para
       ([task_prefix @ dumps rf (issue_meta finding deps k area) @ '' -->'']
        @ (case preamble of None \<Rightarrow> [] | Some p \<Rightarrow> if p = [] then [] else [p])
        @ [''## Scope'' @ para @ ''QA finding `'' @ fstr ''key'' finding @ ''` (defect; severity ''
             @ fstr ''severity'' finding @ ''; confidence '' @ fstr ''confidence'' finding
             @ ''), reported by run `'' @ fstr ''run_id'' report @ ''` against revision `''
             @ fstr ''sha'' report @ ''` on rig `'' @ fstr ''rig'' report @ ''`. Module: `''
             @ fstr ''module'' finding @ ''`.'' @ para @ fstr ''summary'' finding,
           ''## Reproduction'' @ para @ text_or finding ''reproduction''
             (''No automated reproduction; see the evidence and summary. Infrastructure findings ''
              @ ''only reach an issue when the evidence identifies a product cause.''),
           ''## Expected behavior'' @ para @ text_or finding ''expected'' ''See reproduction.'',
           ''## Evidence'' @ para @ join [newline]
             (map (\<lambda>e. ''- '' @ fstr ''detail'' e) (items_of (jget_or finding ''evidence'' JNull))),
           ''## Acceptance criteria'' @ para
             @ ''The reproduction above no longer produces the defect. Workers reproduce through ''
             @ ''simulation or captured data; physical rig access stays in the QA lane, which ''
             @ ''re-verifies the merged fix against this original reproduction.'',
           ''## Required tests'' @ para @ text_or finding ''test_requirements''
             ''A regression test exercising the reproduction above.'',
           ''## Milestone'' @ para @ ''qa-findings''])"

definition candidate_payload :: "json \<Rightarrow> json \<Rightarrow> json" where
  "candidate_payload finding report =
     JObj ([(''key'', jget_or finding ''key'' JNull), (''title'', jget_or finding ''title'' JNull),
            (''outcome'', JStr ''capability''), (''source'', JStr ''qa'')]
           @ map (\<lambda>k. (k, jget_or finding k JNull))
               [''module'', ''severity'', ''confidence'', ''summary'', ''evidence'']
           @ map (\<lambda>k. (k, jget_or report k JNull)) [''run_id'', ''sha'', ''rig''])"

definition marker_rx :: rx where
  "marker_rx = seqs
     [lit ''<!--'', spaces, lit ''dcs-agent-key:'',
      Grp 1 (seqs [lit ''qa-'', Chr key_head, Rep (Chr key_tail) 0 (Some 98)]), spaces, lit ''-->'']"

text \<open>The first issue that carries a marker wins, as with \<open>setdefault\<close>.\<close>

definition marker_map :: "issue list \<Rightarrow> (string \<times> issue) list" where
  "marker_map issues =
     concat (map (\<lambda>i. map (\<lambda>h. (case group 1 h of Some k \<Rightarrow> k | None \<Rightarrow> [], i))
       (re_finditer marker_rx (body_of i))) issues)"

definition publish_defect ::
  "'w os \<Rightarrow> string \<Rightarrow> json \<Rightarrow> json \<Rightarrow> int list \<Rightarrow> string \<Rightarrow> string option \<Rightarrow> ('w, int) prog" where
  "publish_defect X rp finding report deps tag preamble =
     (let k = issue_key (fstr ''key'' finding) @ tag; area = finding_area finding;
          body = qa_issue_body (float_text X) finding report deps preamble k area in
      doing (of_res (area_label area)) (\<lambda>l.
        create_issue X rp (take 200 (''[QA] '' @ fstr ''title'' finding)) body
          [''agent:ready'', ''priority:P'' @ str_int (finding_priority finding), l] (Some k)))"

subsection \<open>The state of the lane\<close>

definition set_finding :: "'w os \<Rightarrow> string \<Rightarrow> finding_field list \<Rightarrow> ('w pool, unit) prog" where
  "set_finding X k fs = timed X (\<lambda>now. attempt (set_qa_finding now k fs))"

definition upsert_finding :: "'w os \<Rightarrow> json \<Rightarrow> json \<Rightarrow> string \<Rightarrow> ('w pool, unit) prog" where
  "upsert_finding X finding report st = timed X (\<lambda>now. put (upsert_qa_finding now finding report st))"

definition propose :: "'w os \<Rightarrow> string \<Rightarrow> json \<Rightarrow> ('w pool, unit) prog" where
  "propose X run_id item =
     timed X (\<lambda>now. transact (\<lambda>s. Inr (fst (record_candidates now run_id [item] s), ())))"

definition record_report ::
  "'w os \<Rightarrow> json \<Rightarrow> string \<Rightarrow> ('w pool, unit) prog" where
  "record_report X report txt =
     timed X (\<lambda>now. put (record_qa_report now (fstr ''run_id'' report) (fopt ''sha'' report)
       (str_of (or_json (jget_or report ''outcome'' JNull) (jget_or report ''status'' JNull)))
       (int (length (items_of (jget_or report ''findings'' JNull)))) (Some txt)))"

subsection \<open>Routing\<close>

definition needs_no_issue :: "json \<Rightarrow> bool" where
  "needs_no_issue finding \<longleftrightarrow> jget_or finding ''kind'' JNull = JStr ''infrastructure''
     \<and> \<not> truthy (jget_or finding ''product_cause'' JNull)"

definition route ::
  "'w os \<Rightarrow> string \<Rightarrow> json \<Rightarrow> json \<Rightarrow> json \<Rightarrow> issue list \<Rightarrow> bool
     \<Rightarrow> ('w pool, string \<times> finding_field list \<times> bool) prog" where
  "route X rp cfg finding report issues can_create =
     (case map_of (marker_map issues) (issue_key (fstr ''key'' finding)) of
        Some i \<Rightarrow> ret (if i_state i = ''CLOSED'' then ''failed'' else ''issue-open'',
                       [QIssue (Some (i_number i)), QCycles 1], False)
      | None \<Rightarrow>
          (if needs_no_issue finding then ret (''infra'', [], False)
           else if jget_or finding ''kind'' JNull = JStr ''capability'' then
             and_then (propose X (fstr ''run_id'' report) (candidate_payload finding report))
               (ret (''candidate'', [], False))
           else doing (get (qa_count open_statuses)) (\<lambda>n.
             if \<not> can_create \<or> qa_limit ''max_open'' cfg \<le> int n then ret (''held'', [], False)
             else try_else (io (publish_defect X rp finding report [] [] None))
               (\<lambda>e. ret (''recorded'', [], False))
               (\<lambda>number. ret (''issue-open'', [QIssue (Some number), QCycles 1], True)))))"

definition report_stub :: "json \<Rightarrow> json" where
  "report_stub payload =
     JObj [(''run_id'', jget_or payload ''_run_id'' JNull), (''sha'', jget_or payload ''_sha'' JNull),
           (''rig'', jget_or payload ''_rig'' JNull)]"

definition follow_up_text :: "qa_finding_row \<Rightarrow> int \<Rightarrow> string \<Rightarrow> string" where
  "follow_up_text f number reason =
     ''Follow-up to #'' @ str_int number @ '' - fix attempt '' @ str_int (f_cycles f)
     @ (case nonempty (f_fix_sha f) of None \<Rightarrow> [] | Some sha \<Rightarrow> '' (`'' @ take 12 sha @ ''`)'')
     @ '' failed verification.'' @ para @ reason"

text \<open>The issue of the follow-up, if one was published.\<close>

definition redispatch ::
  "'w os \<Rightarrow> string \<Rightarrow> json \<Rightarrow> qa_finding_row \<Rightarrow> json option \<Rightarrow> string \<Rightarrow> ('w pool, int option) prog" where
  "redispatch X rp cfg f report reason =
     (case f_issue f of
        None \<Rightarrow> and_then (set_finding X (f_key f) [QStatus ''unresolved'']) (ret None)
      | Some number \<Rightarrow>
          (if qa_limit ''max_fix_cycles'' cfg \<le> f_cycles f
           then and_then (set_finding X (f_key f) [QStatus ''unresolved'']) (ret None)
           else try_else
             (io (publish_defect X rp (f_payload f)
                (case report of None \<Rightarrow> report_stub (f_payload f) | Some r \<Rightarrow> r) [number]
                (''-fix'' @ str_int (f_cycles f + 1)) (Some (follow_up_text f number reason))))
             (\<lambda>e. ret None)
             (\<lambda>n. and_then (set_finding X (f_key f)
                    [QStatus ''redispatched'', QIssue (Some n), QCycles (f_cycles f + 1), QFixSha None])
                  (ret (Some n)))))"

subsection \<open>Verification of merged fixes\<close>

definition retry_setting :: string where "retry_setting = ''qa:verification_retries''"

definition stash_verification :: "json \<Rightarrow> json \<Rightarrow> ('w pool, unit) prog" where
  "stash_verification entry report =
     doing (setting retry_setting (JObj [])) (\<lambda>stash.
       set_setting retry_setting (jset (fstr ''finding_key'' entry)
         (JObj [(''entry'', entry), (''run_id'', jget_or report ''run_id'' JNull),
                (''sha'', jget_or report ''sha'' JNull)]) stash))"

definition unstash_verification :: "string \<Rightarrow> ('w pool, unit) prog" where
  "unstash_verification k =
     doing (setting retry_setting (JObj [])) (\<lambda>stash.
       only_if (jget stash k \<noteq> None)
         (set_setting retry_setting (JObj (AList.delete k (fields_of stash)))))"

text \<open>The guards before the containment lookup, each with the verdict it returns.\<close>

definition refusal :: "json \<Rightarrow> json \<Rightarrow> qa_finding_row \<Rightarrow> string option" where
  "refusal entry report f =
     (let e = (\<lambda>k. jget_or entry k JNull); sha = nonempty (f_fix_sha f) in
      if f_status f \<noteq> ''fix-merged'' then Some ''not-awaiting-verification''
      else if sha = None then Some ''fix-sha-unknown''
      else if e ''fix_sha'' \<noteq> JStr (the sha) then Some ''sha-mismatch''
      else if e ''case'' \<noteq> JStr (f_key f) then Some ''case-mismatch''
      else if \<not> truthy (e ''tested_sha'') \<or> e ''tested_sha'' \<noteq> jget_or report ''sha'' JNull
      then Some ''untested-revision''
      else if \<not> truthy (jget_or (or_json (e ''fix_ancestry'') (JObj [])) ''contained'' JNull)
      then Some ''ancestry-unproven''
      else if e ''outcome'' = JStr ''inconclusive'' then Some ''inconclusive''
      else if \<not> truthy (e ''evidence'') then Some ''missing-evidence''
      else None)"

definition evidence_text :: "json \<Rightarrow> string" where
  "evidence_text e = (case e of JStr s \<Rightarrow> s | _ \<Rightarrow> fstr ''detail'' e)"

definition failure_reason :: "json \<Rightarrow> qa_finding_row \<Rightarrow> string" where
  "failure_reason entry f =
     (let details = take 1000 (join ''; ''
            (map evidence_text (items_of (given_or_empty entry ''evidence'')))) in
      ''Verification of fix '' @ take 12 (case f_fix_sha f of None \<Rightarrow> [] | Some s \<Rightarrow> s)
      @ '' failed. Evidence: '' @ (if details = [] then ''see QA report'' else details))"

definition apply_verification ::
  "'w os \<Rightarrow> string \<Rightarrow> json \<Rightarrow> json \<Rightarrow> json \<Rightarrow> ('w pool, string) prog" where
  "apply_verification X rp cfg entry report =
     doing (get (qa_finding (fstr ''finding_key'' entry))) (\<lambda>row. case row of
       None \<Rightarrow> ret ''unknown-finding''
     | Some f \<Rightarrow>
         (case refusal entry report f of
            Some verdict \<Rightarrow> ret verdict
          | None \<Rightarrow>
              try_else
                (io (includes_main X rp (fstr ''tested_sha'' entry)
                  (case f_fix_sha f of None \<Rightarrow> [] | Some s \<Rightarrow> s)))
                (\<lambda>e. and_then (stash_verification entry report) (ret ''lookup-failed''))
                (\<lambda>contained.
                  if \<not> contained then ret ''not-contained''
                  else if jget_or entry ''outcome'' JNull = JStr ''passed''
                  then and_then (set_finding X (f_key f) [QStatus ''verified'']) (ret ''verified'')
                  else and_then (set_finding X (f_key f) [QStatus ''failed''])
                    (doing (redispatch X rp cfg f (Some report) (failure_reason entry f))
                      (\<lambda>_. ret ''failed'')))))"

definition retry_verification ::
  "'w os \<Rightarrow> string \<Rightarrow> json \<Rightarrow> string \<times> json \<Rightarrow> ('w pool, unit) prog" where
  "retry_verification X rp cfg kv =
     (let item = snd kv in
      doing (of_res (jitem item ''entry'')) (\<lambda>entry.
      doing (apply_verification X rp cfg entry
          (JObj [(''run_id'', jget_or item ''run_id'' JNull), (''sha'', jget_or item ''sha'' JNull)]))
        (\<lambda>verdict. only_if (verdict \<noteq> ''lookup-failed'') (unstash_verification (fst kv)))))"

definition retry_verifications :: "'w os \<Rightarrow> string \<Rightarrow> json \<Rightarrow> ('w pool, unit) prog" where
  "retry_verifications X rp cfg =
     doing (setting retry_setting (JObj [])) (\<lambda>stash.
       for_each (retry_verification X rp cfg) (fields_of stash))"

subsection \<open>Ingesting a report\<close>

definition ingest_sentinel :: string where "ingest_sentinel = ''ingesting''"

type_synonym lane_tally = "int \<times> (string \<times> string) list"

definition ingest_finding ::
  "'w os \<Rightarrow> string \<Rightarrow> json \<Rightarrow> json \<Rightarrow> issue list \<Rightarrow> bool \<Rightarrow> json \<Rightarrow> lane_tally \<Rightarrow> ('w pool, lane_tally) prog" where
  "ingest_finding X rp cfg report issues routing finding acc =
     (case acc of (created, seen) \<Rightarrow>
       (let k = fstr ''key'' finding;
            routed = route X rp cfg finding report issues
              (created < qa_limit ''max_issues_per_report'' cfg);
            count = (\<lambda>made. if made then created + 1 else created) in
        doing (get (qa_finding k)) (\<lambda>existing. case existing of
          Some row \<Rightarrow>
            and_then (upsert_finding X finding report (f_status row))
              (if routing \<and> f_status row \<in> {''recorded'', ''held''} then
                 doing routed (\<lambda>(st, fs, made).
                   and_then (only_if (fs \<noteq> []) (set_finding X k fs))
                     (and_then (only_if (st \<noteq> f_status row) (set_finding X k [QStatus st]))
                       (ret (count made, seen @ [(k, st)]))))
               else if f_status row = ''verified'' \<and> jget_or finding ''kind'' JNull = JStr ''defect'' then
                 and_then (set_finding X k [QStatus ''failed''])
                   (ret (created, seen @ [(k, ''regressed'')]))
               else ret (created, seen @ [(k, ''known:'' @ f_status row)]))
        | None \<Rightarrow>
            doing (if routing then routed else ret (''recorded'', [], False)) (\<lambda>(st, fs, made).
              and_then (upsert_finding X finding report st)
                (and_then (only_if (fs \<noteq> []) (set_finding X k fs))
                  (ret (count made, seen @ [(k, st)])))))))"

definition report_summary :: "json \<Rightarrow> bool \<Rightarrow> lane_tally \<Rightarrow> (string \<times> string) list \<Rightarrow> json" where
  "report_summary report routing acc verdicts =
     JObj [(''run_id'', jget_or report ''run_id'' JNull), (''routed'', JBool routing),
           (''findings'', JObj (map (\<lambda>(k, v). (k, JStr v)) (snd acc))),
           (''verifications'', JObj (map (\<lambda>(k, v). (k, JStr v)) verdicts)),
           (''created'', JInt (fst acc))]"

text \<open>Returns the number of issues created; a report already ingested counts none.\<close>

definition ingest_report ::
  "'w os \<Rightarrow> string \<Rightarrow> json \<Rightarrow> json \<Rightarrow> issue list \<Rightarrow> ('w pool, int) prog" where
  "ingest_report X rp cfg report issues =
     doing (get (qa_report (fstr ''run_id'' report))) (\<lambda>prior.
       if prior \<noteq> None \<and> q_summary (the prior) \<noteq> Some ingest_sentinel then ret 0
       else
         (let routing = qa_flag ''enabled'' cfg \<and> qa_routes cfg
                \<and> jget_or report ''status'' JNull = JStr ''completed'' in
          and_then (record_report X report ingest_sentinel)
            (doing (fold_prog (ingest_finding X rp cfg report issues routing)
                     (items_of (jget_or report ''findings'' JNull)) (0, [])) (\<lambda>acc.
             doing (if qa_flag ''enabled'' cfg \<and> qa_routes cfg
                    then fold_prog (\<lambda>entry vs. doing (apply_verification X rp cfg entry report)
                           (\<lambda>v. ret (vs @ [(fstr ''finding_key'' entry, v)])))
                         (items_of (jget_or report ''verifications'' JNull)) []
                    else ret []) (\<lambda>verdicts.
             and_then (record_report X report
                 (take 2000 (dumps_std (float_text X) (report_summary report routing acc verdicts))))
               (ret (fst acc)))))))"

subsection \<open>The inbox\<close>

definition file_suffix :: "string \<Rightarrow> string" where
  "file_suffix n = (if n = ''.json'' then [] else ''.json'')"

definition quarantine_target :: "'w os \<Rightarrow> string \<Rightarrow> string \<Rightarrow> ('w, string) prog" where
  "quarantine_target X dest n =
     doing (ask (\<lambda>w. (exists_path X (slash dest n) w, clock X w))) (\<lambda>(taken, now).
       ret (if taken
            then slash dest (take (length n - length (file_suffix n)) n @ ''-'' @ str_int \<lfloor>now\<rfloor>
                   @ file_suffix n)
            else slash dest n))"

definition quarantine_file ::
  "'w os \<Rightarrow> string \<Rightarrow> string \<Rightarrow> string \<Rightarrow> string option \<Rightarrow> ('w, unit) prog" where
  "quarantine_file X inbox n dest err =
     except_if is_os_error
       (and_then (mkdir X dest)
         (doing (quarantine_target X dest n) (\<lambda>target.
           and_then (rename X (slash inbox n) target)
             (case err of None \<Rightarrow> ret ()
              | Some t \<Rightarrow> only_if (t \<noteq> []) (write_text X (target @ ''.error.txt'') t)))))
       (\<lambda>e. ret ())"

definition quarantined :: "exn \<Rightarrow> bool" where
  "quarantined e \<longleftrightarrow> is_os_error e \<or> (case e of ValueError _ \<Rightarrow> True | _ \<Rightarrow> False)"

definition ingest_file ::
  "'w os \<Rightarrow> 'w qa_env \<Rightarrow> string \<Rightarrow> json \<Rightarrow> issue list \<Rightarrow> string \<Rightarrow> string \<Rightarrow> int \<Rightarrow> ('w pool, int) prog" where
  "ingest_file X Q rp cfg issues inbox n spent =
     doing (ask (\<lambda>(s, w). res_bind (read_text X (slash inbox n) w) (validate_findings_report (qa_iso Q))))
       (\<lambda>parsed. case parsed of
          Inl e \<Rightarrow>
            (if quarantined e then
               and_then (io (quarantine_file X inbox n (slash (parent_dir inbox) ''rejected'')
                   (Some (exn_text e)))) (ret spent)
             else raise e)
        | Inr report \<Rightarrow>
            doing (ingest_report X rp cfg report issues) (\<lambda>created.
              and_then (io (quarantine_file X inbox n (slash (parent_dir inbox) ''processed'') None))
                (ret (spent + created))))"

definition json_files :: "string list \<Rightarrow> string list" where
  "json_files names = sort (filter (ends_with ''.json'') names)"

definition ingest_inbox ::
  "'w os \<Rightarrow> 'w qa_env \<Rightarrow> string \<Rightarrow> json \<Rightarrow> issue list \<Rightarrow> ('w pool, int) prog" where
  "ingest_inbox X Q rp cfg issues =
     (let inbox = fstr ''report_dir'' cfg in
      doing (see (is_dir X inbox)) (\<lambda>there.
        if inbox = [] \<or> \<not> there then ret 0
        else doing (io (look (listdir X inbox))) (\<lambda>names.
          fold_prog (ingest_file X Q rp cfg issues inbox) (json_files names) 0)))"

subsection \<open>The sweep\<close>

text \<open>A sweep carries its budget; \<open>None\<close> means that it returned early.\<close>

definition sweep_reason :: string where
  "sweep_reason = ''A previous fix attempt failed verification; see the linked issue and QA evidence.''"

fun sweep_failed ::
  "'w os \<Rightarrow> string \<Rightarrow> json \<Rightarrow> int \<Rightarrow> qa_finding_row list \<Rightarrow> ('w pool, int option) prog" where
  "sweep_failed X rp cfg budget [] = ret (Some budget)"
| "sweep_failed X rp cfg budget (f # fs) =
     (if budget \<le> 0 then ret None
      else doing (redispatch X rp cfg f None sweep_reason) (\<lambda>made.
        sweep_failed X rp cfg (if made \<noteq> None then budget - 1 else budget) fs))"

text \<open>One finding that still owes its routing; the result says whether an issue was created.\<close>

definition sweep_finding ::
  "'w os \<Rightarrow> string \<Rightarrow> (string \<times> issue) list \<Rightarrow> qa_finding_row \<Rightarrow> ('w pool, bool) prog" where
  "sweep_finding X rp known f =
     (let payload = f_payload f; cycles = QCycles (max 1 (f_cycles f)) in
      if f_status f = ''recorded'' \<and> jget_or payload ''_report_status'' JNull \<noteq> JStr ''completed''
      then ret False
      else if f_kind f = ''infrastructure'' \<and> \<not> truthy (jget_or payload ''product_cause'' JNull)
      then and_then (set_finding X (f_key f) [QStatus ''infra'']) (ret False)
      else if f_kind f = ''capability''
      then and_then (propose X (f_last_run f) (candidate_payload payload (report_stub payload)))
        (and_then (set_finding X (f_key f) [QStatus ''candidate'']) (ret False))
      else case map_of known (issue_key (f_key f)) of
        Some i \<Rightarrow>
          and_then (set_finding X (f_key f)
              [QStatus (if i_state i \<noteq> ''CLOSED'' then ''issue-open'' else ''failed''),
               QIssue (Some (i_number i)), cycles]) (ret False)
      | None \<Rightarrow>
          try_else (io (publish_defect X rp payload (report_stub payload) [] [] None))
            (\<lambda>e. ret False)
            (\<lambda>number. and_then (set_finding X (f_key f)
                [QStatus ''issue-open'', QIssue (Some number), cycles]) (ret True)))"

fun sweep_pending ::
  "'w os \<Rightarrow> string \<Rightarrow> json \<Rightarrow> (string \<times> issue) list \<Rightarrow> int \<Rightarrow> qa_finding_row list
     \<Rightarrow> ('w pool, unit) prog" where
  "sweep_pending X rp cfg known budget [] = ret ()"
| "sweep_pending X rp cfg known budget (f # fs) =
     doing (get (qa_count open_statuses)) (\<lambda>n.
       if budget \<le> 0 \<or> qa_limit ''max_open'' cfg \<le> int n then ret ()
       else doing (sweep_finding X rp known f) (\<lambda>made.
         sweep_pending X rp cfg known (if made then budget - 1 else budget) fs))"

definition route_pending ::
  "'w os \<Rightarrow> string \<Rightarrow> json \<Rightarrow> issue list \<Rightarrow> int \<Rightarrow> ('w pool, unit) prog" where
  "route_pending X rp cfg issues budget =
     doing (get (list_qa_findings [''failed''])) (\<lambda>failed.
     doing (sweep_failed X rp cfg budget failed) (\<lambda>left. case left of
       None \<Rightarrow> ret ()
     | Some b \<Rightarrow>
         doing (get (list_qa_findings [''held'', ''recorded'']))
           (sweep_pending X rp cfg (marker_map issues) b)))"

definition sync_candidate :: "'w os \<Rightarrow> qa_finding_row \<Rightarrow> ('w pool, unit) prog" where
  "sync_candidate X f =
     doing (get (candidate (f_key f))) (\<lambda>cand. case cand of
       None \<Rightarrow> ret ()
     | Some c \<Rightarrow>
         only_if (c_disposition c \<noteq> ''pending'')
           (set_finding X (f_key f) (QStatus (c_disposition c)
              # (case c_issue c of None \<Rightarrow> [] | Some n \<Rightarrow> [QIssue (Some n)]))))"

definition sync_candidates :: "'w os \<Rightarrow> ('w pool, unit) prog" where
  "sync_candidates X = doing (get (list_qa_findings [''candidate''])) (for_each (sync_candidate X))"

text \<open>The tracked issue's job finished and merged: a lookup that fails leaves the finding open.\<close>

definition issue_job :: "qa_finding_row \<Rightarrow> db \<Rightarrow> job_row option" where
  "issue_job f s = (case f_issue f of None \<Rightarrow> None | Some n \<Rightarrow> if n = 0 then None else job n s)"

definition fix_merged :: "'w os \<Rightarrow> qa_finding_row \<Rightarrow> string option \<Rightarrow> ('w pool, unit) prog" where
  "fix_merged X f sha = set_finding X (f_key f) [QStatus ''fix-merged'', QFixSha sha]"

definition reconcile_finding :: "'w os \<Rightarrow> string \<Rightarrow> qa_finding_row \<Rightarrow> ('w pool, unit) prog" where
  "reconcile_finding X rp f =
     doing (get (issue_job f)) (\<lambda>j. case j of
       None \<Rightarrow> ret ()
     | Some jb \<Rightarrow>
         (if j_status jb \<noteq> Done then ret ()
          else case j_pr jb of
            None \<Rightarrow> fix_merged X f None
          | Some pr \<Rightarrow>
              (if pr = 0 then fix_merged X f None
               else try_else (io (gh_pr X rp pr)) (\<lambda>e. ret ()) (\<lambda>p.
                 let sha = jget_or p ''merge_commit_sha'' JNull in
                 only_if (truthy sha) (fix_merged X f (Some (str_of sha)))))))"

definition reconcile_merged :: "'w os \<Rightarrow> string \<Rightarrow> ('w pool, unit) prog" where
  "reconcile_merged X rp =
     doing (get (list_qa_findings [''issue-open'', ''redispatched'']))
       (for_each (reconcile_finding X rp))"

subsection \<open>Documents\<close>

fun sort_json :: "json \<Rightarrow> json" where
  "sort_json (JList xs) = JList (map sort_json xs)"
| "sort_json (JObj kvs) = JObj (sort_key fst (map (\<lambda>(k, v). (k, sort_json v)) kvs))"
| "sort_json j = j"

text \<open>\<open>json.dumps(doc, indent=1)\<close>\<close>

fun dumps_indent :: "(rat \<Rightarrow> string) \<Rightarrow> nat \<Rightarrow> json \<Rightarrow> string" where
  "dumps_indent rf n (JList xs) =
     (if xs = [] then ''[]''
      else ''['' @ join '','' (map (\<lambda>x. newline # replicate (Suc n) CHR '' '' @ dumps_indent rf (Suc n) x) xs)
        @ newline # replicate n CHR '' '' @ '']'')"
| "dumps_indent rf n (JObj kvs) =
     (if kvs = [] then ''{}''
      else ''{'' @ join '','' (map (\<lambda>(k, v). newline # replicate (Suc n) CHR '' '' @ dump_str k @ '': ''
             @ dumps_indent rf (Suc n) v) kvs)
        @ newline # replicate n CHR '' '' @ ''}'')"
| "dumps_indent rf n j = dumps rf j"

definition jint_opt :: "int option \<Rightarrow> json" where
  "jint_opt x = (case x of None \<Rightarrow> JNull | Some i \<Rightarrow> JInt i)"

definition case_function :: "string list \<Rightarrow> string \<Rightarrow> string option" where
  "case_function functions k =
     (let name = ''scenario_'' @ map (\<lambda>c. if c = CHR ''-'' then CHR ''_'' else c) k in
      List.find (\<lambda>n. n = name) functions)"

definition queue_item :: "string list \<Rightarrow> qa_finding_row \<Rightarrow> json" where
  "queue_item functions f =
     JObj [(''finding_key'', JStr (f_key f)), (''case'', JStr (f_key f)),
           (''fix_sha'', jopt (f_fix_sha f)), (''issue'', jint_opt (f_issue f)),
           (''replay'', JStr (if case_function functions (f_key f) \<noteq> None then ''auto'' else ''agent'')),
           (''reproduction'', jget_or (f_payload f) ''reproduction'' JNull),
           (''expected'', jget_or (f_payload f) ''expected'' JNull)]"

definition verification_queue :: "string list \<Rightarrow> time \<Rightarrow> db \<Rightarrow> json" where
  "verification_queue functions now s =
     JObj [(''schema'', JStr ''qa-verifications/1''), (''generated_at'', JInt \<lfloor>now\<rfloor>),
           (''items'', JList (map (queue_item functions)
              (filter (\<lambda>f. nonempty (f_fix_sha f) \<noteq> None) (pending_verifications s))))]"

definition stable_digest :: "'w os \<Rightarrow> 'w qa_env \<Rightarrow> json \<Rightarrow> string" where
  "stable_digest X Q doc =
     qa_digest Q (dumps_std (float_text X) (sort_json (jset ''generated_at'' (JInt 0) doc)))"

definition write_verification_queue :: "'w os \<Rightarrow> 'w qa_env \<Rightarrow> json \<Rightarrow> ('w pool, bool) prog" where
  "write_verification_queue X Q cfg =
     (let dir = fstr ''report_dir'' cfg; path = slash (parent_dir dir) ''verifications.json'' in
      if dir = [] then ret False
      else timed X (\<lambda>now. doing (get (verification_queue (qa_scenarios Q) now)) (\<lambda>doc.
        let digest = stable_digest X Q doc in
        doing (setting ''qa:queue_hash'' JNull) (\<lambda>last.
          if last = JStr digest then ret False
          else doing (except_if is_os_error
              (and_then (io (mkdir X (parent_dir dir)))
                (and_then (io (write_text X (path @ ''.tmp'') (dumps_indent (float_text X) 0 doc @ [newline])))
                  (and_then (io (rename X (path @ ''.tmp'') path)) (ret True))))
              (\<lambda>e. ret False)) (\<lambda>written.
            if written then and_then (set_setting ''qa:queue_hash'' (JStr digest)) (ret True)
            else ret False)))))"

definition dashboard_finding :: "qa_finding_row \<Rightarrow> json" where
  "dashboard_finding f =
     JObj [(''key'', JStr (f_key f)), (''kind'', JStr (f_kind f)), (''module'', JStr (f_module f)),
           (''severity'', JStr (f_severity f)), (''confidence'', JStr (f_confidence f)),
           (''status'', JStr (f_status f)), (''issue'', jint_opt (f_issue f)),
           (''fix_sha'', jopt (f_fix_sha f)), (''cycles'', JInt (f_cycles f)),
           (''occurrences'', JInt (f_occurrences f)), (''title'', JStr (f_title f)),
           (''updated'', JInt \<lfloor>f_updated f\<rfloor>)]"

definition dashboard_pending :: "qa_finding_row \<Rightarrow> json" where
  "dashboard_pending f =
     JObj [(''key'', JStr (f_key f)), (''issue'', jint_opt (f_issue f)), (''fix_sha'', jopt (f_fix_sha f)),
           (''module'', JStr (f_module f)),
           (''reproduction'', jget_or (f_payload f) ''reproduction'' JNull),
           (''expected'', jget_or (f_payload f) ''expected'' JNull)]"

definition dashboard_disposition :: "candidate_row \<Rightarrow> json" where
  "dashboard_disposition c =
     JObj [(''key'', JStr (c_key c)), (''disposition'', JStr (c_disposition c)),
           (''reason'', jopt (c_reason c)), (''revisit'', jopt (c_revisit c)),
           (''issue'', jint_opt (c_issue c))]"

definition settled_statuses :: "string list" where
  "settled_statuses = [''verified'', ''infra'', ''rejected'', ''unresolved'']"

definition settled_entry :: "json \<Rightarrow> bool" where
  "settled_entry f \<longleftrightarrow> fstr ''status'' f \<in> set settled_statuses"

text \<open>The last settled entry goes, as long as the document is too long and one is left.\<close>

fun drop_last_settled :: "json list \<Rightarrow> json list" where
  "drop_last_settled [] = []"
| "drop_last_settled (f # fs) =
     (if settled_entry f \<and> \<not> list_ex settled_entry fs then fs else f # drop_last_settled fs)"

lemma drop_last_settled_less: "list_ex settled_entry fs \<Longrightarrow> length (drop_last_settled fs) < length fs"
  by (induction fs) auto

function shrink :: "(json list \<Rightarrow> bool) \<Rightarrow> json list \<Rightarrow> json list" where
  "shrink fits fs =
     (if fits fs \<or> \<not> list_ex settled_entry fs then fs else shrink fits (drop_last_settled fs))"
  by pat_completeness auto
termination
  by (relation "measure (\<lambda>(fits, fs). length fs)") (auto simp: drop_last_settled_less)

declare shrink.simps [simp del]

definition dashboard_with :: "time \<Rightarrow> db \<Rightarrow> json list \<Rightarrow> json" where
  "dashboard_with now s fs =
     (let rows = list_qa_findings [] s in
      JObj [(''schema_version'', JInt 1), (''generated_at'', JInt \<lfloor>now\<rfloor>),
            (''pending_verifications'', JList (map dashboard_pending
               (filter (\<lambda>f. f_status f = ''fix-merged'') rows))),
            (''findings'', JList fs),
            (''dispositions'', JList (map dashboard_disposition
               (filter (\<lambda>c. jget_or (c_payload c) ''source'' JNull = JStr ''qa'')
                 (list_candidates None s)))),
            (''open'', JInt (int (count_if (\<lambda>f. f_status f \<in> set dashboard_open) rows)))])"

definition document :: "'w os \<Rightarrow> time \<Rightarrow> db \<Rightarrow> json" where
  "document X now s =
     (let fs = map dashboard_finding (sorted_desc f_updated (list_qa_findings [] s)) in
      dashboard_with now s
        (shrink (\<lambda>fs. length (dumps_std (float_text X) (dashboard_with now s fs)) \<le> max_doc) fs))"

definition publish_command :: "'w qa_env \<Rightarrow> json \<Rightarrow> string list" where
  "publish_command Q pub =
     [''ssh'', ''-i'', qa_home Q (fstr ''identity'' pub), ''-o'', ''BatchMode=yes'', ''-o'',
      ''ConnectTimeout=10'', ''-o'', ''UserKnownHostsFile='' @ qa_home Q (fstr ''known_hosts'' pub),
      fstr ''host'' pub, fstr ''document'' pub]"

definition publish_dashboard :: "'w os \<Rightarrow> 'w qa_env \<Rightarrow> json \<Rightarrow> ('w pool, bool) prog" where
  "publish_dashboard X Q cfg =
     timed X (\<lambda>now. doing (get (document X now)) (\<lambda>doc.
       let digest = stable_digest X Q doc; failed = (\<lambda>m. and_then
             (set_setting ''qa:publish_error'' (JStr m)) (ret False)) in
       doing (setting ''qa:published_hash'' JNull) (\<lambda>last.
         if last = JStr digest then ret False
         else try_else
           (io (qa_send Q (publish_command Q (jget_or cfg ''publish'' JNull)) (dumps_std (float_text X) doc)))
           (\<lambda>e. failed (take 500 (exn_text e)))
           (\<lambda>(code, err).
             if code \<noteq> 0
             then failed (if take 500 err = [] then ''publication command failed'' else take 500 err)
             else timed X (\<lambda>done.
               and_then (set_setting ''qa:published_hash'' (JStr digest))
                 (and_then (set_setting ''qa:published_at'' (JFloat done))
                   (and_then (set_setting ''qa:publish_error'' JNull) (ret True))))))))"

subsection \<open>A pass of the lane\<close>

definition poll_findings ::
  "'w os \<Rightarrow> 'w qa_env \<Rightarrow> string \<Rightarrow> json \<Rightarrow> issue list \<Rightarrow> ('w pool, unit) prog" where
  "poll_findings X Q rp cfg issues = steps
     [only_if (qa_flag ''enabled'' cfg)
        (doing (ingest_inbox X Q rp cfg issues) (\<lambda>spent. steps
          [only_if (qa_routes cfg) (and_then (sync_candidates X)
             (route_pending X rp cfg issues (max 0 (qa_limit ''max_issues_per_report'' cfg - spent)))),
           reconcile_merged X rp,
           only_if (qa_routes cfg) (retry_verifications X rp cfg),
           doing (write_verification_queue X Q cfg) (\<lambda>_. ret ())])),
      only_if (qa_flag ''dashboard'' cfg) (doing (publish_dashboard X Q cfg) (\<lambda>_. ret ()))]"

text \<open>\<open>Supervisor.qa\<close>: whatever the lane raises, the pass goes on.\<close>

definition qa_lane :: "'w os \<Rightarrow> 'w qa_env \<Rightarrow> string \<Rightarrow> issue list \<Rightarrow> ('w pool, unit) prog" where
  "qa_lane X Q rp issues =
     doing (of_res (qa_settings (qa_config Q))) (\<lambda>cfg.
       if \<not> qa_flag ''enabled'' cfg \<and> \<not> qa_flag ''dashboard'' cfg then ret ()
       else except_any (poll_findings X Q rp cfg issues) (\<lambda>e. ret ()))"

end
