(* ===== verification/Factory.thy ===== *)
theory Factory
  imports ReviewLane FindingsLane
begin

text \<open>
  agent_pool/factory.py: the completion-oriented demand queue over the durable job and lease
  ledgers, and one cycle of the factory; and the supervisor's own pass with its back-off
  (agent_pool/supervisor.py, run), with the findings lane of FindingsLane as its last phase.
\<close>

subsection \<open>Demand\<close>

datatype demand_kind = RepairDemand | RetryDemand | NewDemand

fun kind_name :: "demand_kind \<Rightarrow> string" where
  "kind_name RepairDemand = ''repair''"
| "kind_name RetryDemand = ''retry''"
| "kind_name NewDemand = ''new''"

record demand_row =
  d_issue :: issue
  d_kind :: demand_kind
  d_not_before :: time
  d_rank :: "rat \<times> nat \<times> (bool \<times> rat) \<times> time \<times> int"

text \<open>The kind of work an issue owes, when it may start, and its category among equals.\<close>

definition retry_demand :: "json \<Rightarrow> json \<Rightarrow> (demand_kind \<times> time \<times> nat) option" where
  "retry_demand flag rc =
     (if jget_or rc ''phase'' JNull = JStr ''error'' \<and> flag \<noteq> JBool True then None
      else Some (RetryDemand, (if flag = JBool True then 0 else not_before rc),
                 if truthy (jget_or rc ''work'' JNull) then 1 else 2))"

definition demand_of ::
  "db \<Rightarrow> int list \<Rightarrow> issue \<Rightarrow> (demand_kind \<times> time \<times> nat) option res" where
  "demand_of s done_ns i =
     (let n = i_number i; row = job_for (list_jobs [] s) n;
          pending = sget (nkey ''repair:'' n) JNull s;
          rc = or_empty (sget (recovery_key n) JNull s); flag = sget (retry_key n) JNull s
      in case row of
           Some j \<Rightarrow>
             (if live j \<and> truthy pending then Inr (Some (RepairDemand, 0, 0))
              else if j_status j = Blocked \<and> (truthy flag \<or> truthy (jget_or rc ''provider_wait'' JNull))
              then Inr (retry_demand flag rc) else Inr None)
         | None \<Rightarrow>
             res_bind (eligibility i (list_jobs [] s) done_ns
                 (active_text (sget ''review:active_improvement'' JNull s))) (\<lambda>(reason, m).
               Inr (if reason = ''ready'' then Some (NewDemand, 0, 2) else None)))"

definition demand_row_of ::
  "db \<Rightarrow> int list \<Rightarrow> allocation \<Rightarrow> issue \<Rightarrow> demand_row option res" where
  "demand_row_of s done_ns al i =
     (if i_state i \<noteq> ''OPEN'' then Inr None
      else res_bind (managed_metadata i) (\<lambda>mm. case mm of
        None \<Rightarrow> Inr None
      | Some m \<Rightarrow>
          (if missing_deps m done_ns \<noteq> [] then Inr None
           else res_bind (demand_of s done_ns i) (\<lambda>d. case d of
             None \<Rightarrow> Inr None
           | Some (kind, nb, category) \<Rightarrow>
               res_bind (area_or_inferred m i) (\<lambda>area.
               res_bind (score_rank al area) (\<lambda>sc.
               res_bind (priority_of m) (\<lambda>p. Inr (Some
                 \<lparr>d_issue = i, d_kind = kind, d_not_before = nb,
                  d_rank = (p, category, sc,
                    (case job_for (list_jobs [] s) (i_number i) of None \<Rightarrow> 0 | Some j \<Rightarrow> j_updated j),
                    i_number i)\<rparr>))))))))"

definition demand :: "issue list \<Rightarrow> db \<Rightarrow> demand_row list res" where
  "demand issues s =
     res_bind (from_inventory issues (list_jobs [] s) 30) (\<lambda>al.
     res_bind (map_res (demand_row_of s (closed_numbers issues) al) issues) (\<lambda>rows.
       Inr (sort_key d_rank (somes rows))))"

definition background_allowed :: "sup \<Rightarrow> issue list \<Rightarrow> string \<Rightarrow> db \<Rightarrow> bool res" where
  "background_allowed c issues role s =
     res_bind (demand issues s) (\<lambda>d. Inr
       (d = [] \<and> list_jobs [Working, PrOpen] s = []
        \<and> (role = ''planner''
           \<or> list_all (\<lambda>n. case group_overview_of (admission c) s n of
                 None \<Rightarrow> False | Some g \<Rightarrow> go_mode g = Normal)
               (group_names (admission c) (hd (models c))))))"

subsection \<open>Pulling work\<close>

definition pending_detail :: "json \<Rightarrow> (string \<times> json) list" where
  "pending_detail pending = fields_of (jget_or pending ''detail'' JNull)"

definition run_repair ::
  "sup \<Rightarrow> 'w os \<Rightarrow> prompt \<Rightarrow> issue \<Rightarrow> job_row \<Rightarrow> json \<Rightarrow> ('w pool, unit) prog" where
  "run_repair c X prompt i j pending =
     (let n = j_issue j; why = fstr ''reason'' pending in
      doing (sup_reserve c X (owner_of n) (model_for c (j_worker j))
               (base_name (case nonempty (j_clone j) of Some p \<Rightarrow> p | None \<Rightarrow> j_worker j))) (\<lambda>ok.
        if \<not> ok then ret ()
        else doing (timed X (\<lambda>now. transact (repair now n (fstr ''cause'' pending) (pending_detail pending)))) (\<lambda>done_it.
          if done_it then
            and_then (steps [set_setting (nkey ''repair:'' n) JNull, set_setting (nkey ''delivery:'' n) JNull])
              (doing (get (job n)) (\<lambda>row. case row of
                 None \<Rightarrow> ret ()
               | Some j1 \<Rightarrow> except_any (launch c X prompt j1 i why)
                   (\<lambda>e. doing (get (job n)) (\<lambda>row2. case row2 of
                      None \<Rightarrow> raise (TypeError ''NoneType'') | Some j2 \<Rightarrow> block c X j2 (exn_text e)))))
          else steps [sup_release (owner_of n), set_setting (nkey ''repair:'' n) JNull,
                      block c X j (''Repair limit exhausted: '' @ why)])))"

text \<open>One request; \<open>True\<close> ends the pass because every worker slot is taken.\<close>

definition pull_one ::
  "sup \<Rightarrow> factory \<Rightarrow> 'w os \<Rightarrow> prompt \<Rightarrow> issue list \<Rightarrow> demand_row \<Rightarrow> ('w pool, bool) prog" where
  "pull_one c f X prompt issues d =
     timed X (\<lambda>now.
       if now < d_not_before d then ret False
       else doing (get worker_slots_used) (\<lambda>used.
         if worker_slots f \<le> used then ret True
         else (let n = i_number (d_issue d) in
           doing (get (\<lambda>s. int (length (list_jobs [Working, PrOpen] s)))) (\<lambda>busy.
           and_then
             (case d_kind d of
                RepairDemand \<Rightarrow>
                  doing (get (job n)) (\<lambda>row. doing (setting (nkey ''repair:'' n) JNull) (\<lambda>pending.
                    case row of None \<Rightarrow> raise (AttributeError ''get'')
                    | Some j \<Rightarrow> run_repair c X prompt (d_issue d) j pending))
              | RetryDemand \<Rightarrow> only_if (busy < workspace_slots f) (retries c X prompt issues (Some n))
              | NewDemand \<Rightarrow> only_if (busy < workspace_slots f) (dispatch c X prompt issues (Some n)))
             (ret False)))))"

definition pull ::
  "sup \<Rightarrow> factory \<Rightarrow> 'w os \<Rightarrow> prompt \<Rightarrow> issue list \<Rightarrow> ('w pool, unit) prog" where
  "pull c f X prompt issues =
     doing (get paused) (\<lambda>p.
       if p then ret ()
       else and_then (attempt (refresh_improvements issues))
         (doing (get_res (demand issues)) (\<lambda>requests.
            doing (for_until (pull_one c f X prompt issues) requests) (\<lambda>_. ret ()))))"

subsection \<open>One factory cycle\<close>

type_synonym errors = "(string \<times> string) list"

definition phase :: "string \<Rightarrow> ('w pool, unit) prog \<Rightarrow> errors \<Rightarrow> ('w pool, errors) prog" where
  "phase name m errs =
     try_else m
       (\<lambda>e. ret (AList.update name (exn_class e @ '': '' @ take 500 (exn_text e)) errs))
       (\<lambda>_. ret errs)"

definition issue_json :: "issue \<Rightarrow> json" where
  "issue_json i =
     JObj [(''number'', JInt (i_number i)), (''title'', JStr (i_title i)), (''body'', jopt (i_body i)),
           (''labels'', JList (map (\<lambda>l. JObj [(''name'', JStr l)]) (i_labels i))),
           (''state'', JStr (i_state i))]"

definition undelivered :: "db \<Rightarrow> job_row list" where
  "undelivered s =
     filter (\<lambda>j. truthy (sget (nkey ''delivery:'' (j_issue j)) JNull s)) (list_jobs [Working] s)"

definition publication_errors :: "db \<Rightarrow> errors" where
  "publication_errors s =
     map (\<lambda>j. (''publication:'' @ str_int (j_issue j), case j_error j of None \<Rightarrow> [] | Some e \<Rightarrow> e))
       (filter (\<lambda>j. nonempty (j_error j) \<noteq> None) (undelivered s))"

definition waiting_json :: "demand_row \<Rightarrow> json" where
  "waiting_json d = JObj [(''issue'', JInt (i_number (d_issue d))), (''kind'', JStr (kind_name (d_kind d))),
     (''not_before'', JFloat (d_not_before d))]"

definition factory_status :: "factory \<Rightarrow> time \<Rightarrow> demand_row list \<Rightarrow> errors \<Rightarrow> db \<Rightarrow> json" where
  "factory_status f now waiting errs s =
     JObj [(''policy'', JStr ''completion-first''), (''observed_at'', JFloat now),
       (''worker_slots'', JInt (worker_slots f)),
       (''worker_inference_active'', JInt (worker_slots_used s)),
       (''workspace_slots'', JInt (workspace_slots f)),
       (''delivery_backlog'', JInt (int (length (list_jobs [PrOpen] s) + length (undelivered s)))),
       (''waiting_work'', JList (map waiting_json waiting)),
       (''merged_last_24h'', JInt (int (count_if (\<lambda>j. j_status j = Done \<and> now - 86400 \<le> j_updated j) (jobs s)))),
       (''daily_merge_goal'', JInt (daily_merge_goal f)),
       (''errors'', JObj (map (\<lambda>(k, v). (k, JStr v)) errs))]"

definition gated ::
  "(db \<Rightarrow> bool res) \<Rightarrow> (bool \<Rightarrow> ('w pool, unit) prog) \<Rightarrow> ('w pool, unit) prog" where
  "gated cond m = doing (get_res cond) m"

definition report_cycle :: "factory \<Rightarrow> 'w os \<Rightarrow> issue list \<Rightarrow> errors \<Rightarrow> ('w pool, unit) prog" where
  "report_cycle f X issues errs0 =
     doing (get (\<lambda>s. fold (\<lambda>(k, v). AList.update k v) (publication_errors s) errs0)) (\<lambda>errs.
     timed X (\<lambda>now.
       doing (get_res (demand issues)) (\<lambda>waiting. steps
         [put (\<lambda>s. sset ''factory:status'' (factory_status f now waiting errs s) s),
          set_setting ''last_error''
            (if map snd errs = [] \<or> join ''; '' (map snd errs) = [] then JNull
             else JStr (join ''; '' (map snd errs)))])))"

definition advance ::
  "sup \<Rightarrow> factory \<Rightarrow> 'w os \<Rightarrow> prompt \<Rightarrow> 'w lane \<Rightarrow> json \<Rightarrow> 'w qa_env \<Rightarrow> issue list \<Rightarrow> json
     \<Rightarrow> ('w pool, unit) prog" where
  "advance c f X prompt L cfg Q issues prs =
     and_then (set_setting ''factory:inventory'' (JList (map issue_json issues)))
    (doing (phase ''workers'' (reconcile_workers c X prompt issues) []) (\<lambda>e1.
     doing (get (list_jobs [PrOpen])) (\<lambda>open_prs.
     doing (fold_prog (\<lambda>j. phase (''delivery:'' @ str_int (j_issue j))
              (integrate c X prompt issues (Some (j_issue j)))) open_prs e1) (\<lambda>e2.
     doing (phase ''review'' (review_lane c X L cfg issues prs False) e2) (\<lambda>e3.
     doing (phase ''planner'' (planner c X L issues prs False) e3) (\<lambda>e4.
     doing (phase ''work'' (pull c f X prompt issues) e4) (\<lambda>e5.
     doing (phase ''background-planner''
              (gated (background_allowed c issues ''planner'') (planner c X L issues prs)) e5) (\<lambda>e6.
     doing (phase ''background-review''
              (gated (background_allowed c issues ''reviewer'') (review_lane c X L cfg issues prs)) e6) (\<lambda>e7.
     doing (phase ''mirror'' (mirror c X issues) e7) (\<lambda>e8.
     doing (phase ''qa'' (qa_lane X Q (repo c) issues) e8) (\<lambda>e9.
       report_cycle f X issues e9)))))))))))"

text \<open>Without the inventory: only receipts are reconciled, against the cached issues.\<close>

definition offline :: "sup \<Rightarrow> 'w os \<Rightarrow> prompt \<Rightarrow> ('w pool, unit) prog" where
  "offline c X prompt =
     doing (setting ''factory:inventory'' JNull) (\<lambda>cached.
       if \<not> truthy cached then ret ()
       else except_any (reconcile_workers c X prompt (map issue_of_json (items_of cached))) (\<lambda>_. ret ()))"

subsection \<open>The supervisor's pass\<close>

definition supervisor_pass ::
  "sup \<Rightarrow> 'w os \<Rightarrow> prompt \<Rightarrow> 'w lane \<Rightarrow> json \<Rightarrow> 'w qa_env \<Rightarrow> issue list \<Rightarrow> json
     \<Rightarrow> ('w pool, unit) prog" where
  "supervisor_pass c X prompt L cfg Q issues prs = steps
     [reconcile_workers c X prompt issues,
      integrate c X prompt issues None,
      review_lane c X L cfg issues prs True,
      planner c X L issues prs True,
      retries c X prompt issues None,
      dispatch c X prompt issues None,
      mirror c X issues,
      qa_lane X Q (repo c) issues,
      set_setting ''last_error'' JNull]"

definition halting_words :: "string list" where
  "halting_words = [''authentication'', ''quota'', ''unauthorized'', ''http 401'']"

definition pass_failed ::
  "sup \<Rightarrow> 'w os \<Rightarrow> prompt \<Rightarrow> exn \<Rightarrow> ('w pool, unit) prog" where
  "pass_failed c X prompt e = steps
     [only_if (in_factory c) (offline c X prompt),
      set_setting ''last_error'' (JStr (exn_text e)),
      only_if (list_ex (\<lambda>w. in_text w (lower (exn_text e))) halting_words) (put (pause (exn_text e)))]"

definition backed_off :: "time \<Rightarrow> time" where
  "backed_off delay = min (max (delay * 2) 60) 900"

text \<open>One round of the loop: the inventory, the pass, and the delay before the next round.\<close>

definition supervisor_round ::
  "sup \<Rightarrow> 'w os \<Rightarrow> prompt \<Rightarrow> 'w lane \<Rightarrow> json \<Rightarrow> 'w qa_env \<Rightarrow> time \<Rightarrow> ('w pool, time) prog" where
  "supervisor_round c X prompt L cfg Q delay =
     try_else
       (doing (io (gh_issues X (repo c) ''all'')) (\<lambda>rows.
        doing (io (gh_prs X (repo c))) (\<lambda>prs.
          let issues = map issue_of_json rows in
          case factory_cfg c of
            Some f \<Rightarrow> advance c f X prompt L cfg Q issues prs
          | None \<Rightarrow> supervisor_pass c X prompt L cfg Q issues prs)))
       (\<lambda>e. and_then (pass_failed c X prompt e) (ret (backed_off delay)))
       (\<lambda>_. ret (poll_seconds c))"

definition live_owners :: "db \<Rightarrow> string list" where
  "live_owners s =
     map (\<lambda>j. owner_of (j_issue j)) (list_jobs [Working] s)
     @ filter (\<lambda>k. truthy (sget k JNull s)) [''planner'', ''reviewer'']"

definition startup :: "sup \<Rightarrow> 'w os \<Rightarrow> ('w pool, unit) prog" where
  "startup c X =
     and_then (recover_processes c X) (put (\<lambda>s. reconcile (live_owners s) s))"

definition shutdown :: "'w os \<Rightarrow> ('w pool, unit) prog" where
  "shutdown X =
     doing (get known_invocations) (for_each (\<lambda>m. io (terminate X m)))"

end
