(* ===== verification/AdmissionProps.thy ===== *)
theory AdmissionProps
  imports Admission
begin

text \<open>
  What the admission ledger promises: a lease is granted exactly when every covering quota group
  admits it, leases stay within the bound and unique per owner and clone, adaptive targets stay
  between the configured minimum and ceiling, a group blocked by credentials is reopened only by
  an operator reset, newer provider feedback outlives an older probe, and a repeated report for
  one invocation is not charged twice.
\<close>

subsection \<open>The row of a group, existing or still to be created\<close>

definition view :: "adm \<Rightarrow> string \<Rightarrow> db \<Rightarrow> group_row option" where
  "view a name s =
     (case grow_of name s of Some g \<Rightarrow> Some g | None \<Rightarrow> map_option (group_init a name) (gcfg a name))"

lemma group_init_name [simp]: "g_name (group_init a name c) = name"
  by (simp add: group_init_def)

lemma grow_of_name: "grow_of name s = Some g \<Longrightarrow> g_name g = name"
  unfolding grow_of_def by (drule find_row_Some) simp

lemma ensure_group_cases:
  assumes "ensure_group a name s = Inr (s1, g)"
  obtains "grow_of name s = Some g" "s1 = s"
  | c where "grow_of name s = None" "gcfg a name = Some c" "g = group_init a name c"
      "s1 = s\<lparr>groups := groups s @ [g]\<rparr>"
  using assms by (auto simp: ensure_group_def split: option.splits)

lemma grow_of_append:
  "grow_of n (s\<lparr>groups := groups s @ [g]\<rparr>)
     = (case grow_of n s of None \<Rightarrow> if g_name g = n then Some g else None | Some r \<Rightarrow> Some r)"
  by (simp add: grow_of_def find_row_append split: option.split)

lemma ensure_group_frame:
  assumes "ensure_group a name s = Inr (s1, g)"
  shows "view a name s = Some g" "grow_of name s1 = Some g" "leases s1 = leases s"
    "events s1 = events s" "outcomes s1 = outcomes s" "jobs s1 = jobs s" "settings s1 = settings s"
    "workspace_capacity s1 = workspace_capacity s"
    "n \<noteq> name \<Longrightarrow> grow_of n s1 = grow_of n s" "view a n s1 = view a n s"
proof -
  show "view a n s1 = view a n s"
    using assms
    by (rule ensure_group_cases)
      (cases "n = name"; simp add: view_def grow_of_append split: option.split)+
qed (use assms in \<open>rule ensure_group_cases; simp add: view_def grow_of_append split: option.split\<close>)+

lemma ensure_group_total: "view a name s = Some g \<Longrightarrow> \<exists>s1. ensure_group a name s = Inr (s1, g)"
  by (auto simp: ensure_group_def view_def split: option.splits)

lemma ensure_group_error: "ensure_group a name s = Inl e \<Longrightarrow> e = KeyError name \<and> view a name s = None"
  by (auto simp: ensure_group_def view_def split: option.splits)

lemma set_group_frame [simp]:
  "leases (set_group name f s) = leases s" "events (set_group name f s) = events s"
  "outcomes (set_group name f s) = outcomes s" "jobs (set_group name f s) = jobs s"
  "settings (set_group name f s) = settings s"
  "workspace_capacity (set_group name f s) = workspace_capacity s"
  by (simp_all add: set_group_def)

lemma grow_of_set_group:
  "(\<And>r. g_name (f r) = g_name r) \<Longrightarrow>
   grow_of n (set_group name f s) = (if n = name then map_option f (grow_of n s) else grow_of n s)"
  by (simp add: grow_of_def set_group_def find_row_update_row)

lemma feedback_name [simp]: "g_name (feedback a now jit cat hint l r c) = g_name r"
  by (simp add: feedback_def split: option.split)

lemma view_configured: "gcfg a name \<noteq> None \<Longrightarrow> view a name s \<noteq> None"
  by (simp add: view_def split: option.split)

lemma group_names_configured: "n \<in> set (group_names a model) \<Longrightarrow> gcfg a n \<noteq> None"
  by (auto simp: group_names_def gcfg_def map_of_eq_None_iff intro: rev_image_eqI)

lemma paused_frame: "settings s' = settings s \<Longrightarrow> paused s' = paused s"
  by (simp add: paused_def sget_def)

subsection \<open>When a lease is granted\<close>

definition admits :: "adm \<Rightarrow> time \<Rightarrow> string \<Rightarrow> db \<Rightarrow> bool" where
  "admits a now name s =
     (case view a name s of
        None \<Rightarrow> False
      | Some g \<Rightarrow>
          g_mode g \<noteq> BlockedMode \<and> \<not> cooling now g
          \<and> (if g_mode g = Probing
             then active_probes name s = 0 \<and> active name s < max 1 (effective a name g)
             else active name s < effective a name g))"

definition is_probing :: "adm \<Rightarrow> db \<Rightarrow> string \<Rightarrow> bool" where
  "is_probing a s name = (case view a name s of None \<Rightarrow> False | Some g \<Rightarrow> g_mode g = Probing)"

lemma active_cong:
  assumes "leases s' = leases s"
  shows "active n s' = active n s" "active_probes n s' = active_probes n s"
  unfolding active_def active_probes_def assms by simp_all

lemma admits_cong:
  assumes "view a n s' = view a n s" "leases s' = leases s"
  shows "admits a now n s' = admits a now n s"
  unfolding admits_def assms(1) active_cong [OF assms(2)] by (rule refl)

lemma is_probing_cong:
  assumes "view a n s' = view a n s" shows "is_probing a s' n = is_probing a s n"
  unfolding is_probing_def assms by (rule refl)

lemma active_probes_nonneg: "0 \<le> active_probes n s" by (simp add: active_probes_def)

lemma admit_groups_spec:
  assumes "\<forall>n \<in> set names. gcfg a n \<noteq> None"
  shows "\<exists>s' r. admit_groups a now names p s = Inr (s', r)
    \<and> leases s' = leases s \<and> events s' = events s \<and> outcomes s' = outcomes s \<and> jobs s' = jobs s
    \<and> settings s' = settings s
    \<and> r = (if \<forall>n \<in> set names. admits a now n s
           then Some (p \<or> (\<exists>n \<in> set names. is_probing a s n)) else None)
    \<and> (r \<noteq> None \<longrightarrow> (\<forall>n. view a n s' = view a n s))"
  using assms
proof (induction names arbitrary: p s)
  case (Cons name names)
  obtain g where g: "view a name s = Some g"
    using view_configured [of a name s] Cons.prems by auto
  obtain s1 where s1: "ensure_group a name s = Inr (s1, g)"
    using ensure_group_total [OF g] by blast
  note fr = ensure_group_frame [OF s1]
  have act: "active name s1 = active name s" "active_probes name s1 = active_probes name s"
    using active_cong [OF fr(3)] by blast+
  have same: "admits a now n s1 = admits a now n s" "is_probing a s1 n = is_probing a s n" for n
    using admits_cong [OF fr(10) fr(3)] is_probing_cong [OF fr(10)] by blast+
  show ?case
  proof (cases "admits a now name s")
    case True
    then have *: "g_mode g \<noteq> BlockedMode" "\<not> cooling now g"
      "g_mode g = Probing \<Longrightarrow> active_probes name s = 0 \<and> active name s < max 1 (effective a name g)"
      "g_mode g \<noteq> Probing \<Longrightarrow> active name s < effective a name g"
      using g by (auto simp: admits_def split: if_splits)
    have "admit_groups a now (name # names) p s
        = admit_groups a now names (p \<or> is_probing a s name) s1"
      using s1 * act g by (cases "g_mode g = Probing") (auto simp: is_probing_def)
    with Cons.IH [where s = s1 and p = "p \<or> is_probing a s name"] Cons.prems True same fr show ?thesis
      by (auto split: if_splits)
  next
    case False
    then have "\<exists>s'. admit_groups a now (name # names) p s = Inr (s', None)
        \<and> leases s' = leases s \<and> events s' = events s \<and> outcomes s' = outcomes s \<and> jobs s' = jobs s
        \<and> settings s' = settings s"
      using s1 act g fr active_probes_nonneg [of name s]
      by (auto simp: admits_def not_le split: if_splits)
    with False show ?thesis by auto
  qed
qed simp

lemma grow_group_frame [simp]:
  "leases (grow_group a now name s) = leases s" "events (grow_group a now name s) = events s"
  "outcomes (grow_group a now name s) = outcomes s" "jobs (grow_group a now name s) = jobs s"
  "settings (grow_group a now name s) = settings s"
  by (simp_all add: grow_group_def split: option.splits)

lemma fold_grow_frame [simp]:
  "leases (fold (grow_group a now) names s) = leases s"
  "events (fold (grow_group a now) names s) = events s"
  "outcomes (fold (grow_group a now) names s) = outcomes s"
  "jobs (fold (grow_group a now) names s) = jobs s"
  "settings (fold (grow_group a now) names s) = settings s"
  by (induction names arbitrary: s) simp_all

definition new_lease :: "adm \<Rightarrow> time \<Rightarrow> string \<Rightarrow> string \<Rightarrow> string option \<Rightarrow> db \<Rightarrow> lease" where
  "new_lease a now owner model clone s =
     \<lparr>l_owner = owner, l_model = model, l_grps = group_names a model, l_clone = clone,
      l_invocation = None, l_probe = (\<exists>n \<in> set (group_names a model). is_probing a s n),
      l_started = None, l_granted = now, l_updated = now\<rparr>"

definition grantable :: "adm \<Rightarrow> time \<Rightarrow> string \<Rightarrow> string option \<Rightarrow> int \<Rightarrow> db \<Rightarrow> bool" where
  "grantable a now model clone limit s \<longleftrightarrow>
     \<not> paused s \<and> (clone = None \<or> clone \<notin> l_clone ` set (leases s))
     \<and> int (length (leases s)) < limit
     \<and> (\<forall>n \<in> set (group_names a model). admits a now n s)"

lemma adm_reserve_spec:
  "\<exists>s'. adm_reserve a now owner model clone limit s
          = Inr (s', if lease_of owner s = None then grantable a now model clone limit s
                     else \<not> paused s)
      \<and> jobs s' = jobs s \<and> events s' = events s \<and> outcomes s' = outcomes s \<and> settings s' = settings s
      \<and> leases s' = (if lease_of owner s = None \<and> grantable a now model clone limit s
                      then leases s @ [new_lease a now owner model clone s] else leases s)"
proof (cases "paused s \<or> lease_of owner s \<noteq> None \<or> (clone \<noteq> None \<and> clone \<in> l_clone ` set (leases s))
    \<or> limit \<le> int (length (leases s))")
  case True
  then show ?thesis
    by (cases "lease_of owner s = None") (auto simp: adm_reserve_def grantable_def)
next
  case False
  let ?names = "group_names a model"
  have conf: "\<forall>n \<in> set ?names. gcfg a n \<noteq> None"
    using group_names_configured by blast
  obtain s1 r where ad: "admit_groups a now ?names False s = Inr (s1, r)"
    "leases s1 = leases s" "events s1 = events s" "outcomes s1 = outcomes s" "jobs s1 = jobs s"
    "settings s1 = settings s"
    "r = (if \<forall>n \<in> set ?names. admits a now n s
          then Some (False \<or> (\<exists>n \<in> set ?names. is_probing a s n)) else None)"
    using admit_groups_spec [OF conf, of now False s] by blast
  have eq: "adm_reserve a now owner model clone limit s
      = (case r of None \<Rightarrow> Inr (s1, False)
         | Some probe \<Rightarrow>
             (let s2 = fold (grow_group a now) ?names s1
              in Inr (s2\<lparr>leases := leases s2 @
                   [\<lparr>l_owner = owner, l_model = model, l_grps = ?names, l_clone = clone,
                     l_invocation = None, l_probe = probe, l_started = None, l_granted = now,
                     l_updated = now\<rparr>]\<rparr>, True)))"
    using False ad(1) by (auto simp: adm_reserve_def split: option.split)
  show ?thesis
  proof (cases "\<forall>n \<in> set ?names. admits a now n s")
    case True
    with False ad show ?thesis
      unfolding eq by (auto simp: grantable_def new_lease_def Let_def)
  next
    case no: False
    with False ad show ?thesis unfolding eq by (auto simp: grantable_def)
  qed
qed

text \<open>
  C14: reserving an inference lease for a new owner never fails and succeeds exactly when the
  scheduler is not paused, the clone is not leased, the global bound has room and every quota
  group covering the model is open: not blocked, not cooling down, below its adaptive target, and
  with no probe outstanding while it is probing. A grant appends one lease, marked as a probe when
  a covering group is probing; a denial takes none; an owner that already holds a lease is told yes
  and nothing changes unless the scheduler is paused.
\<close>

theorem adm_reserve_contract:
  "\<exists>s'. adm_reserve a now owner model clone limit s
          = Inr (s', if lease_of owner s = None then grantable a now model clone limit s
                     else \<not> paused s)
      \<and> jobs s' = jobs s \<and> events s' = events s \<and> outcomes s' = outcomes s \<and> settings s' = settings s
      \<and> leases s' = (if lease_of owner s = None \<and> grantable a now model clone limit s
                      then leases s @ [new_lease a now owner model clone s] else leases s)"
  by (rule adm_reserve_spec)

subsection \<open>Every run of the ledger\<close>

inductive adm_step :: "adm \<Rightarrow> int \<Rightarrow> db \<Rightarrow> db \<Rightarrow> bool" for a limit where
  a_reserve: "adm_reserve a now owner model clone bound s = Inr (s', b) \<Longrightarrow> bound \<le> limit \<Longrightarrow>
              adm_step a limit s s'"
| a_attach: "adm_step a limit s (attach now owner invocation started s)"
| a_finish: "finish rf a now jit owner meta cat hint s = Inr s' \<Longrightarrow> adm_step a limit s s'"
| a_useful: "useful a meta s = Inr s' \<Longrightarrow> adm_step a limit s s'"
| a_release: "adm_step a limit s (release owner s)"
| a_reset: "reset a now name s = Inr s' \<Longrightarrow> adm_step a limit s s'"
| a_reconcile: "adm_step a limit s (reconcile owners s)"
| a_other: "leases s' = leases s \<Longrightarrow> groups s' = groups s \<Longrightarrow> outcomes s' = outcomes s \<Longrightarrow>
            adm_step a limit s s'"

inductive adm_reach :: "adm \<Rightarrow> int \<Rightarrow> db \<Rightarrow> bool" for a limit where
  ar_init: "leases s = [] \<Longrightarrow> groups s = [] \<Longrightarrow> outcomes s = [] \<Longrightarrow> adm_reach a limit s"
| ar_step: "adm_reach a limit s \<Longrightarrow> adm_step a limit s s' \<Longrightarrow> adm_reach a limit s'"

text \<open>What the configuration guarantees of every group (agent_pool/config.py).\<close>

definition wf_groups :: "adm \<Rightarrow> bool" where
  "wf_groups a \<longleftrightarrow>
     list_all (\<lambda>(n, c). 1 \<le> qg_minimum c \<and> qg_minimum c \<le> qg_initial c \<and> qg_initial c \<le> qg_ceiling c)
       (qgroups a)"

definition row_ok :: "adm \<Rightarrow> group_row \<Rightarrow> bool" where
  "row_ok a g \<longleftrightarrow>
     (case gcfg a (g_name g) of
        None \<Rightarrow> False
      | Some c \<Rightarrow> 1 \<le> qg_minimum c \<and> qg_minimum c \<le> g_target g \<and> g_target g \<le> qg_ceiling c)"

definition lease_ok :: "int \<Rightarrow> db \<Rightarrow> bool" where
  "lease_ok limit s \<longleftrightarrow>
     distinct (map l_owner (leases s))
     \<and> distinct (filter (\<lambda>c. c \<noteq> None) (map l_clone (leases s)))
     \<and> int (length (leases s)) \<le> limit"

definition groups_ok :: "adm \<Rightarrow> db \<Rightarrow> bool" where
  "groups_ok a s \<longleftrightarrow>
     distinct (map g_name (groups s)) \<and> (\<forall>g \<in> set (groups s). row_ok a g)
     \<and> distinct (map o_invocation (outcomes s))"

lemma groups_ok_cong:
  "groups s' = groups s \<Longrightarrow> outcomes s' = outcomes s \<Longrightarrow> groups_ok a s' = groups_ok a s"
  by (simp add: groups_ok_def)

lemma row_ok_init: "wf_groups a \<Longrightarrow> gcfg a name = Some c \<Longrightarrow> row_ok a (group_init a name c)"
  by (auto simp: row_ok_def wf_groups_def list_all_iff gcfg_def group_init_def
      dest!: map_of_SomeD)

lemma groups_ok_ensure:
  assumes "groups_ok a s" and "wf_groups a" and "ensure_group a name s = Inr (s1, g)"
  shows "groups_ok a s1 \<and> row_ok a g"
  using assms(3)
proof (rule ensure_group_cases)
  assume "grow_of name s = Some g" "s1 = s"
  then show ?thesis
    using assms(1) find_row_Some [of g_name name "groups s" g]
    by (simp add: groups_ok_def grow_of_def)
next
  fix c assume *: "grow_of name s = None" "gcfg a name = Some c" "g = group_init a name c"
    "s1 = s\<lparr>groups := groups s @ [g]\<rparr>"
  then show ?thesis
    using assms(1) row_ok_init [OF assms(2) *(2)]
    by (auto simp: groups_ok_def grow_of_def find_row_None_iff)
qed

lemma groups_ok_set_group:
  assumes "groups_ok a s" and "\<And>r. g_name (f r) = g_name r"
    and "\<And>r. r \<in> set (groups s) \<Longrightarrow> g_name r = name \<Longrightarrow> row_ok a r \<Longrightarrow> row_ok a (f r)"
  shows "groups_ok a (set_group name f s)"
proof -
  have "map g_name (update_row g_name name f (groups s)) = map g_name (groups s)"
    by (rule map_key_update_row) (rule assms(2))
  moreover have "\<forall>r \<in> set (update_row g_name name f (groups s)). row_ok a r"
    using assms(1,3) by (auto simp: update_row_def groups_ok_def)
  ultimately show ?thesis
    using assms(1) by (simp add: groups_ok_def set_group_def)
qed

lemma row_ok_same_target:
  "row_ok a r \<Longrightarrow> g_name r' = g_name r \<Longrightarrow> g_target r' = g_target r \<Longrightarrow> row_ok a r'"
  by (simp add: row_ok_def split: option.splits)

lemma row_ok_feedback:
  assumes "row_ok a r" and "c = gcfg a (g_name r)"
  shows "row_ok a (feedback a now jit cat hint l r c)"
proof (cases "(cat = Rate \<or> cat = Endpoint) \<and> g_mode r = Normal")
  case True
  obtain q where q: "gcfg a (g_name r) = Some q" "1 \<le> qg_minimum q" "qg_minimum q \<le> g_target r"
    "g_target r \<le> qg_ceiling q"
    using assms(1) by (auto simp: row_ok_def split: option.splits)
  have "\<lceil>of_int (g_target r) / (2::rat)\<rceil> \<le> g_target r"
    using q(2,3) by (simp add: ceiling_le_iff)
  with True q assms(2) show ?thesis by (simp add: row_ok_def feedback_def)
next
  case False
  then show ?thesis
    by (intro row_ok_same_target [OF assms(1)])
      (auto simp: feedback_def split: option.split)
qed

lemma groups_ok_finish_groups:
  "groups_ok a s \<Longrightarrow> wf_groups a \<Longrightarrow> finish_groups a now jit cat hint l names s = Inr s' \<Longrightarrow>
   groups_ok a s'"
proof (induction names arbitrary: s)
  case (Cons name names)
  then obtain s1 g where e: "ensure_group a name s = Inr (s1, g)"
    and rest: "finish_groups a now jit cat hint l names
      (set_group name (\<lambda>r. feedback a now (jit name) cat hint l r (gcfg a name)) s1) = Inr s'"
    by (auto split: sum.splits if_splits)
  have "groups_ok a (set_group name (\<lambda>r. feedback a now (jit name) cat hint l r (gcfg a name)) s1)"
    using groups_ok_ensure [OF Cons.prems(1,2) e]
    by (intro groups_ok_set_group) (auto intro: row_ok_feedback)
  from Cons.IH [OF this Cons.prems(2) rest] show ?case .
qed simp

lemma groups_ok_credit:
  "groups_ok a s \<Longrightarrow> wf_groups a \<Longrightarrow> credit_groups a names s = Inr s' \<Longrightarrow> groups_ok a s'"
proof (induction names arbitrary: s)
  case (Cons name names)
  then obtain s1 g where e: "ensure_group a name s = Inr (s1, g)"
    and rest: "credit_groups a names (set_group name (\<lambda>r. r\<lparr>g_useful := g_useful r + 1\<rparr>) s1) = Inr s'"
    by (auto split: sum.splits)
  have "groups_ok a (set_group name (\<lambda>r. r\<lparr>g_useful := g_useful r + 1\<rparr>) s1)"
    using groups_ok_ensure [OF Cons.prems(1,2) e]
    by (intro groups_ok_set_group) (auto intro: row_ok_same_target)
  from Cons.IH [OF this Cons.prems(2) rest] show ?case .
qed simp

lemma groups_ok_admit:
  "groups_ok a s \<Longrightarrow> wf_groups a \<Longrightarrow> admit_groups a now names p s = Inr (s', r) \<Longrightarrow> groups_ok a s'"
proof (induction names arbitrary: p s)
  case (Cons name names)
  then obtain s1 g where e: "ensure_group a name s = Inr (s1, g)"
    by (auto split: sum.splits)
  have ok: "groups_ok a s1" using groups_ok_ensure [OF Cons.prems(1,2) e] by simp
  have loaded: "groups_ok a (set_group name (\<lambda>g. g\<lparr>g_loaded := Some now\<rparr>) s1)"
    using ok by (intro groups_ok_set_group) (auto intro: row_ok_same_target)
  show ?case
    using Cons.prems(3) e ok loaded Cons.IH [OF ok Cons.prems(2)]
    by (auto split: if_splits)
qed simp

lemma groups_ok_grow: "groups_ok a s \<Longrightarrow> groups_ok a (grow_group a now name s)"
proof (cases "\<exists>g c. grow_of name s = Some g \<and> gcfg a name = Some c \<and> growing a now g")
  case True
  then obtain g c where g: "grow_of name s = Some g" "gcfg a name = Some c" "growing a now g" by blast
  assume ok: "groups_ok a s"
  have "row_ok a g" "g_name g = name"
    using ok g(1) find_row_Some [of g_name name "groups s" g] by (auto simp: groups_ok_def grow_of_def)
  then have "groups_ok a (set_group name (\<lambda>r. r\<lparr>g_target := min (qg_ceiling c) (g_target g + 1),
                  g_window_start := now, g_useful := 0, g_loaded := None\<rparr>) s)"
    using ok g(2) by (intro groups_ok_set_group) (auto simp: row_ok_def)
  with g show ?thesis by (simp add: grow_group_def)
qed (auto simp: grow_group_def split: option.splits)

lemma groups_ok_fold_grow: "groups_ok a s \<Longrightarrow> groups_ok a (fold (grow_group a now) names s)"
  by (induction names arbitrary: s) (simp_all add: groups_ok_grow)

lemma finish_frame_leases:
  "finish_groups a now jit cat hint l names s = Inr s' \<Longrightarrow>
     leases s' = leases s \<and> outcomes s' = outcomes s \<and> events s' = events s \<and> jobs s' = jobs s
     \<and> settings s' = settings s"
proof (induction names arbitrary: s)
  case (Cons name names)
  then obtain s1 g where e: "ensure_group a name s = Inr (s1, g)"
    and rest: "finish_groups a now jit cat hint l names
      (set_group name (\<lambda>r. feedback a now (jit name) cat hint l r (gcfg a name)) s1) = Inr s'"
    by (auto split: sum.splits if_splits)
  from Cons.IH [OF rest] ensure_group_frame(3-7) [OF e] show ?case by simp
qed simp

lemma credit_frame:
  "credit_groups a names s = Inr s' \<Longrightarrow> leases s' = leases s \<and> outcomes s' = outcomes s"
proof (induction names arbitrary: s)
  case (Cons name names)
  then obtain s1 g where e: "ensure_group a name s = Inr (s1, g)"
    and rest: "credit_groups a names (set_group name (\<lambda>r. r\<lparr>g_useful := g_useful r + 1\<rparr>) s1) = Inr s'"
    by (auto split: sum.splits)
  from Cons.IH [OF rest] ensure_group_frame(3-7) [OF e] show ?case by simp
qed simp

text \<open>
  A finished invocation: it was known already and only its lease goes, or it is new, its lease
  goes, one outcome is recorded and the groups of the lease receive the feedback.
\<close>

definition finish_invocation :: "string \<Rightarrow> meta \<Rightarrow> db \<Rightarrow> string option" where
  "finish_invocation owner meta s =
     or_else (nonempty (m_invocation meta)) (nonempty (Option.bind (lease_of owner s) l_invocation))"

definition finish_names :: "adm \<Rightarrow> string \<Rightarrow> meta \<Rightarrow> db \<Rightarrow> string list" where
  "finish_names a owner meta s =
     (case lease_of owner s of Some x \<Rightarrow> l_grps x
      | None \<Rightarrow> group_names a (case m_model meta of None \<Rightarrow> [] | Some m \<Rightarrow> m))"

lemma finish_cases:
  assumes "finish rf a now jit owner meta cat hint s = Inr s'"
  obtains i where "finish_invocation owner meta s = Some i" "i \<in> o_invocation ` set (outcomes s)"
      "s' = release owner s"
  | oid s2 where "\<forall>i. finish_invocation owner meta s = Some i \<longrightarrow> oid = i"
      "oid \<notin> o_invocation ` set (outcomes s)"
      "finish_groups a now jit cat (map_option of_int (clamp hint (hint_ceiling a))) (lease_of owner s)
         (finish_names a owner meta s) s2 = Inr s'"
      "leases s2 = leases (release owner s)" "groups s2 = groups s"
      "outcomes s2 = outcomes s @ [\<lparr>o_invocation = oid, o_owner = owner,
          o_grps = finish_names a owner meta s, o_category = category_name cat, o_useful = False,
          o_at = now\<rparr>]" "settings s2 = settings s"
proof (cases "\<exists>i. finish_invocation owner meta s = Some i \<and> i \<in> o_invocation ` set (outcomes s)")
  case True
  then obtain i where i: "finish_invocation owner meta s = Some i"
    "i \<in> o_invocation ` set (outcomes s)" by blast
  have "s' = release owner s"
    using assms i unfolding finish_def finish_invocation_def by (simp add: Let_def)
  with i show ?thesis by (rule that(1))
next
  case False
  define oid where "oid = (case finish_invocation owner meta s of Some i \<Rightarrow> i
                           | None \<Rightarrow> owner @ ''@'' @ rf now)"
  define s2 where "s2 = add_event (mk_event (''invocation:'' @ category_name cat)
       (job_owner_issue owner) None now (Some (''outcome:'' @ oid))
       (JObj [(''owner'', JStr owner),
              (''quota_groups'', JList (map JStr (finish_names a owner meta s)))]))
     ((release owner s)\<lparr>outcomes := outcomes s @ [\<lparr>o_invocation = oid, o_owner = owner,
          o_grps = finish_names a owner meta s, o_category = category_name cat, o_useful = False,
          o_at = now\<rparr>]\<rparr>)"
  have known: "(case finish_invocation owner meta s of None \<Rightarrow> False
      | Some i \<Rightarrow> i \<in> o_invocation ` set (outcomes s)) = False"
    using False by (auto split: option.split)
  have rel: "outcomes (release owner s) = outcomes s" "groups (release owner s) = groups s"
    "settings (release owner s) = settings s"
    by (simp_all add: release_def)
  have eq: "finish rf a now jit owner meta cat hint s =
     (if oid \<in> o_invocation ` set (outcomes s) then Inl IntegrityError
      else finish_groups a now jit cat (map_option of_int (clamp hint (hint_ceiling a)))
         (lease_of owner s) (finish_names a owner meta s) s2)"
    unfolding finish_def Let_def finish_invocation_def [symmetric] known if_False
      finish_names_def [symmetric] oid_def [symmetric] rel s2_def [symmetric] by (rule refl)
  show ?thesis
  proof (rule that(2) [of oid s2])
    show "\<forall>i. finish_invocation owner meta s = Some i \<longrightarrow> oid = i" by (simp add: oid_def)
    show "oid \<notin> o_invocation ` set (outcomes s)" using assms unfolding eq by (simp split: if_splits)
    show "finish_groups a now jit cat (map_option of_int (clamp hint (hint_ceiling a)))
        (lease_of owner s) (finish_names a owner meta s) s2 = Inr s'"
      using assms unfolding eq by (simp split: if_splits)
  qed (simp_all add: s2_def rel)
qed

lemma lease_ok_cong: "leases s' = leases s \<Longrightarrow> lease_ok limit s' = lease_ok limit s"
  by (simp add: lease_ok_def)

lemma lease_ok_filter:
  assumes "lease_ok limit s" and "leases s' = filter p (leases s)"
  shows "lease_ok limit s'"
proof -
  have "distinct (filter (\<lambda>c. c \<noteq> None) (map f xs)) \<Longrightarrow>
        distinct (filter (\<lambda>c. c \<noteq> None) (map f (filter p xs)))" for f and xs :: "lease list"
    by (induction xs) (auto split: if_splits)
  with assms show ?thesis
    by (auto simp: lease_ok_def distinct_map_filter intro: order_trans [rotated])
qed

lemma lease_ok_attach: "lease_ok limit s \<Longrightarrow> lease_ok limit (attach now owner i t s)"
proof -
  have "map l_owner (update_row l_owner owner f ls) = map l_owner ls
      \<and> map l_clone (update_row l_owner owner f ls) = map l_clone ls"
    if "\<And>l. l_owner (f l) = l_owner l" "\<And>l. l_clone (f l) = l_clone l" for f and ls :: "lease list"
    using that by (induction ls) auto
  then show "lease_ok limit s \<Longrightarrow> lease_ok limit (attach now owner i t s)"
    by (simp add: lease_ok_def attach_def)
qed

lemma lease_ok_reserve:
  assumes "lease_ok limit s" and "adm_reserve a now owner model clone bound s = Inr (s', b)"
    and "bound \<le> limit"
  shows "lease_ok limit s'"
proof -
  have ls: "leases s' = (if lease_of owner s = None \<and> grantable a now model clone bound s
                      then leases s @ [new_lease a now owner model clone s] else leases s)"
    using adm_reserve_spec [of a now owner model clone bound s] assms(2) by auto
  show ?thesis
  proof (cases "lease_of owner s = None \<and> grantable a now model clone bound s")
    case True
    have new: "l_owner (new_lease a now owner model clone s) = owner"
      "l_clone (new_lease a now owner model clone s) = clone"
      by (simp_all add: new_lease_def)
    from True have "owner \<notin> l_owner ` set (leases s)"
      and "clone = None \<or> clone \<notin> l_clone ` set (leases s)"
      and "int (length (leases s)) < limit"
      using assms(3) by (auto simp: lease_of_def find_row_None_iff grantable_def)
    with True ls assms(1) new show ?thesis by (auto simp: lease_ok_def)
  next
    case False
    with ls assms(1) show ?thesis by (simp only: if_False lease_ok_def)
  qed
qed

lemma reset_frame:
  assumes "reset a now name s = Inr s'"
  shows "leases s' = leases s" "outcomes s' = outcomes s"
  using assms by (auto simp: reset_def ensure_group_frame split: if_splits sum.splits)

lemma useful_frame: "useful a meta s = Inr s' \<Longrightarrow> leases s' = leases s"
  by (auto simp: useful_def Let_def split: option.splits if_splits dest: credit_frame)

lemma lease_ok_step: "adm_step a limit s s' \<Longrightarrow> lease_ok limit s \<Longrightarrow> lease_ok limit s'"
proof (induction rule: adm_step.induct)
  case (a_reserve now owner model clone bound s s' b)
  then show ?case by (blast intro: lease_ok_reserve)
next
  case (a_finish rf now jit owner meta cat hint s s')
  from a_finish(1) have "leases s' = leases (release owner s)"
    by (rule finish_cases) (auto dest: finish_frame_leases)
  then show ?case
    using lease_ok_filter [OF a_finish(2), of s' "\<lambda>l. l_owner l \<noteq> owner"] by (simp add: release_def)
next
  case (a_useful meta s s')
  then show ?case by (simp add: lease_ok_cong [OF useful_frame])
next
  case (a_release s owner)
  then show ?case by (rule lease_ok_filter) (simp add: release_def)
next
  case (a_reset now name s s')
  then show ?case by (simp add: lease_ok_cong [OF reset_frame(1)])
next
  case (a_reconcile s owners)
  then show ?case
    by (rule lease_ok_filter [where p = "\<lambda>l. owners \<noteq> [] \<and> l_owner l \<in> set owners"])
      (simp add: reconcile_def)
next
  case (a_attach s now owner invocation started)
  then show ?case by (rule lease_ok_attach)
next
  case (a_other s' s)
  then show ?case by (simp add: lease_ok_cong [OF a_other(1)])
qed

lemma groups_ok_step: "adm_step a limit s s' \<Longrightarrow> wf_groups a \<Longrightarrow> groups_ok a s \<Longrightarrow> groups_ok a s'"
proof (induction rule: adm_step.induct)
  case (a_reserve now owner model clone bound s s' b)
  consider "s' = s" | s1 r where "admit_groups a now (group_names a model) False s = Inr (s1, r)"
      "s' = s1 \<or> (groups s' = groups (fold (grow_group a now) (group_names a model) s1)
                  \<and> outcomes s' = outcomes s1)"
    using a_reserve(1)
    by (fastforce simp: adm_reserve_def Let_def split: if_splits sum.splits option.splits prod.splits)
  then show ?case
  proof cases
    case 2
    have "groups_ok a s1" using a_reserve 2(1) by (blast intro: groups_ok_admit)
    moreover from groups_ok_fold_grow [OF this]
    have "groups_ok a (fold (grow_group a now) (group_names a model) s1)" .
    ultimately show ?thesis using 2(2) by (auto simp: groups_ok_def)
  qed (use a_reserve in simp)
next
  case (a_attach s now owner invocation started)
  then show ?case by (simp add: attach_def groups_ok_def)
next
  case (a_finish rf now jit owner meta cat hint s s')
  from a_finish(1) show ?case
  proof (rule finish_cases)
    fix i assume "s' = release owner s"
    with a_finish(3) show ?case by (simp add: release_def groups_ok_def)
  next
    fix oid s2
    assume fg: "finish_groups a now jit cat (map_option of_int (clamp hint (hint_ceiling a)))
        (lease_of owner s) (finish_names a owner meta s) s2 = Inr s'"
      and "groups s2 = groups s" "oid \<notin> o_invocation ` set (outcomes s)"
      "outcomes s2 = outcomes s @ [\<lparr>o_invocation = oid, o_owner = owner,
          o_grps = finish_names a owner meta s, o_category = category_name cat, o_useful = False,
          o_at = now\<rparr>]"
    then have "groups_ok a s2" using a_finish(3) by (simp add: groups_ok_def)
    from groups_ok_finish_groups [OF this a_finish(2) fg] show ?case .
  qed
next
  case (a_useful meta s s')
  show ?case
  proof (cases "s' = s")
    case False
    then obtain r :: outcome where "credit_groups a (o_grps r) (s\<lparr>outcomes := update_row o_invocation (o_invocation r)
                     (\<lambda>r. r\<lparr>o_useful := True\<rparr>) (outcomes s)\<rparr>) = Inr s'"
      using a_useful(1)
      by (auto simp: useful_def Let_def split: option.splits if_splits)
    moreover have "groups_ok a (s\<lparr>outcomes := update_row o_invocation (o_invocation r)
                     (\<lambda>r. r\<lparr>o_useful := True\<rparr>) (outcomes s)\<rparr>)"
      using a_useful(3) by (simp add: groups_ok_def map_key_update_row)
    ultimately show ?thesis using a_useful(2) by (blast intro: groups_ok_credit)
  qed (use a_useful in simp)
next
  case (a_release s owner)
  then show ?case by (simp add: release_def groups_ok_def)
next
  case (a_reset now name s s')
  then obtain s1 g where e: "ensure_group a name s = Inr (s1, g)"
    and s': "s' = set_group name (\<lambda>r. r\<lparr>g_mode := Normal, g_cooldown_until := None,
                 g_cooldown_len := cooldown a, g_window_start := now, g_congested_at := None,
                 g_useful := 0, g_loaded := None\<rparr>) s1"
    by (auto simp: reset_def split: if_splits sum.splits)
  show ?case
    unfolding s' using groups_ok_ensure [OF a_reset(3,2) e]
    by (intro groups_ok_set_group) (auto intro: row_ok_same_target)
next
  case (a_reconcile s owners)
  then show ?case by (simp add: reconcile_def groups_ok_def)
next
  case (a_other s' s)
  then show ?case by (simp add: groups_ok_def)
qed

lemma reach_ok: "adm_reach a limit s \<Longrightarrow> wf_groups a \<Longrightarrow> 0 \<le> limit \<Longrightarrow> lease_ok limit s \<and> groups_ok a s"
proof (induction rule: adm_reach.induct)
  case (ar_init s)
  then show ?case by (simp add: lease_ok_def groups_ok_def)
next
  case (ar_step s s')
  then show ?case using lease_ok_step groups_ok_step by blast
qed

text \<open>
  C10: in every run of the admission ledger the leases never exceed the bound passed to reserve,
  an owner holds at most one lease and a clone is leased at most once, every group has one row and
  its adaptive target stays between the configured minimum and ceiling, and each invocation has
  one outcome.
\<close>

theorem adm_reach_invariant:
  assumes "adm_reach a limit s" and "wf_groups a" and "0 \<le> limit"
  shows "int (length (leases s)) \<le> limit \<and> distinct (map l_owner (leases s))
    \<and> distinct (filter (\<lambda>c. c \<noteq> None) (map l_clone (leases s)))
    \<and> distinct (map g_name (groups s))
    \<and> list_all (\<lambda>g. case gcfg a (g_name g) of None \<Rightarrow> False
         | Some c \<Rightarrow> qg_minimum c \<le> g_target g \<and> g_target g \<le> qg_ceiling c) (groups s)
    \<and> distinct (map o_invocation (outcomes s))"
  using reach_ok [OF assms]
  by (auto simp: lease_ok_def groups_ok_def row_ok_def list_all_iff split: option.splits)

definition demo_adm :: adm where
  "demo_adm = mk_adm (JObj []) [] [''swe''] (\<lambda>_. Some 2)"

theorem adm_reach_invariant_witness:
  "\<exists>s. adm_reserve demo_adm 5 ''job:4'' ''swe'' (Some ''c1'') 3 (empty_db None) = Inr (s, True)
     \<and> map l_owner (leases s) = [''job:4''] \<and> int (length (leases s)) \<le> 3"
proof -
  have cfg: "gcfg demo_adm ''swe'' = Some \<lparr>qg_models = [''swe''], qg_initial = 2, qg_ceiling = 6,
      qg_external = 0, qg_minimum = 1\<rparr>" "group_names demo_adm ''swe'' = [''swe'']"
    and wf: "wf_groups demo_adm"
    by (simp_all add: demo_adm_def mk_adm_def derive_groups_def gcfg_def group_names_def wf_groups_def)
  have lo: "lease_of ''job:4'' (empty_db None) = None" by (simp add: lease_of_def empty_db_def)
  have view: "view demo_adm ''swe'' (empty_db None)
      = Some (group_init demo_adm ''swe'' \<lparr>qg_models = [''swe''], qg_initial = 2, qg_ceiling = 6,
      qg_external = 0, qg_minimum = 1\<rparr>)"
    using cfg(1) by (simp add: view_def grow_of_def empty_db_def)
  have "admits demo_adm 5 ''swe'' (empty_db None)"
    unfolding admits_def view using cfg(1)
    by (simp add: group_init_def cooling_def active_def effective_def empty_db_def)
  then have gr: "grantable demo_adm 5 ''swe'' (Some ''c1'') 3 (empty_db None)"
    using cfg(2) by (simp add: grantable_def paused_def sget_def empty_db_def)
  obtain s where s: "adm_reserve demo_adm 5 ''job:4'' ''swe'' (Some ''c1'') 3 (empty_db None) = Inr (s, True)"
    "leases s = leases (empty_db None) @ [new_lease demo_adm 5 ''job:4'' ''swe'' (Some ''c1'') (empty_db None)]"
    using adm_reserve_spec [of demo_adm 5 "''job:4''" "''swe''" "Some ''c1''" 3 "empty_db None"]
    unfolding lo by (simp only: gr simp_thms if_True) blast
  have "adm_reach demo_adm 3 (empty_db None)" by (rule ar_init) (simp_all add: empty_db_def)
  then have "adm_reach demo_adm 3 s" by (rule ar_step) (rule a_reserve [OF s(1) order_refl])
  from adm_reach_invariant [OF this wf] have "int (length (leases s)) \<le> 3" by simp
  with s show ?thesis by (auto simp: empty_db_def new_lease_def)
qed

subsection \<open>What a report does to a group\<close>

lemma finish_groups_row:
  "finish_groups a now jit cat hint l names s = Inr s' \<Longrightarrow> distinct names \<Longrightarrow> view a n s = Some g \<Longrightarrow>
   (n \<in> set names \<longrightarrow> grow_of n s' = Some (feedback a now (jit n) cat hint l g (gcfg a n)))
   \<and> (n \<notin> set names \<longrightarrow> grow_of n s' = grow_of n s)"
proof (induction names arbitrary: s g)
  case (Cons name names)
  let ?f = "\<lambda>r. feedback a now (jit name) cat hint l r (gcfg a name)"
  from Cons.prems obtain s1 g1 where e: "ensure_group a name s = Inr (s1, g1)"
    and rest: "finish_groups a now jit cat hint l names (set_group name ?f s1) = Inr s'"
    by (auto split: sum.splits if_splits)
  note fr = ensure_group_frame [OF e]
  have row: "grow_of m (set_group name ?f s1)
      = (if m = name then Some (?f g1) else grow_of m s)" for m
    using fr(2,9) by (simp add: grow_of_set_group)
  have view2: "view a m (set_group name ?f s1)
      = (if m = name then Some (?f g1) else view a m s)" for m
    by (simp add: view_def row)
  show ?case
  proof (cases "n = name")
    case True
    with fr(1) Cons.prems(3) have "g1 = g" by simp
    with True Cons.IH [OF rest, of "?f g1"] Cons.prems(2) row view2 show ?thesis by simp
  next
    case False
    with Cons.IH [OF rest, of g] Cons.prems(2,3) row view2 show ?thesis by simp
  qed
qed simp

lemma view_cong: "groups s2 = groups s \<Longrightarrow> view a n s2 = view a n s"
  by (simp add: view_def grow_of_def)

lemma finish_row:
  assumes "finish rf a now jit owner meta cat hint s = Inr s'"
    and "lease_of owner s = Some l" and "distinct (l_grps l)" and "n \<in> set (l_grps l)"
    and "view a n s = Some g"
    and "\<And>i. finish_invocation owner meta s = Some i \<Longrightarrow> i \<notin> o_invocation ` set (outcomes s)"
  shows "grow_of n s' = Some (feedback a now (jit n) cat
           (map_option of_int (clamp hint (hint_ceiling a))) (Some l) g (gcfg a n))"
  using assms(1)
proof (rule finish_cases)
  fix i assume "finish_invocation owner meta s = Some i" "i \<in> o_invocation ` set (outcomes s)"
  with assms(6) show ?thesis by blast
next
  fix oid s2
  assume "finish_groups a now jit cat (map_option of_int (clamp hint (hint_ceiling a)))
      (lease_of owner s) (finish_names a owner meta s) s2 = Inr s'" and "groups s2 = groups s"
  then show ?thesis
    using finish_groups_row [of a now jit cat _ "lease_of owner s" "finish_names a owner meta s" s2 s' n g]
      assms(2-5) view_cong [of s2 s a n]
    by (simp add: finish_names_def)
qed

text \<open>
  The first rate or endpoint report of an open group halves its adaptive target, but not
  below the configured minimum, and turns it to probing with a cooldown that starts now and lasts
  the provider's hint, bounded by the ceiling, or else the group's own cooldown, plus the jitter.
\<close>

lemma congestion_halves_target:
  assumes "finish rf a now jit owner meta cat hint s = Inr s'" and "cat = Rate \<or> cat = Endpoint"
    and "lease_of owner s = Some l" and "distinct (l_grps l)" and "n \<in> set (l_grps l)"
    and "view a n s = Some g" and "g_mode g = Normal" and "gcfg a n = Some c"
    and "finish_invocation owner meta s = None"
  shows "\<exists>g'. grow_of n s' = Some g' \<and> g_mode g' = Probing
    \<and> g_target g' = max (qg_minimum c) ((g_target g + 1) div 2)
    \<and> g_cooldown_until g' = Some (now + jit n + (case clamp hint (hint_ceiling a) of
          Some d \<Rightarrow> of_int d | None \<Rightarrow> g_cooldown_len g))
    \<and> g_congested_at g' = Some now"
proof -
  have half: "\<lceil>of_int t / (2::rat)\<rceil> = (t + 1) div 2" for t :: int
    by (simp add: ceiling_divide_eq_div [of t 2, simplified])
  have pos: "clamp hint (hint_ceiling a) = Some d \<Longrightarrow> d \<noteq> 0" for d
    using clamp_bounds by fastforce
  have "grow_of n s' = Some (feedback a now (jit n) cat
           (map_option of_int (clamp hint (hint_ceiling a))) (Some l) g (gcfg a n))"
    by (rule finish_row [OF assms(1,3-6)]) (simp add: assms(9))
  with assms(2,7,8) pos show ?thesis
    by (auto simp: feedback_def half or_time_def split: option.split)
qed

text \<open>
  A probe's success reopens a group of its lease only when the group's state is the one the
  probe was granted for: a block, or congestion recorded at or after the grant, leaves the group
  exactly as it was.
\<close>

lemma probe_success_respects_newer_feedback:
  assumes "finish rf a now jit owner meta Success hint s = Inr s'"
    and "lease_of owner s = Some l" and "l_probe l" and "distinct (l_grps l)" and "n \<in> set (l_grps l)"
    and "grow_of n s = Some g" and "finish_invocation owner meta s = None"
  shows "grow_of n s' = Some
    (if g_mode g = BlockedMode \<or> (\<exists>t. g_congested_at g = Some t \<and> l_granted l \<le> t) then g
     else g\<lparr>g_mode := Normal, g_cooldown_until := None, g_cooldown_len := cooldown a,
            g_congested_at := None\<rparr>)"
proof -
  have "view a n s = Some g" using assms(6) by (simp add: view_def)
  then have "grow_of n s' = Some (feedback a now (jit n) Success
           (map_option of_int (clamp hint (hint_ceiling a))) (Some l) g (gcfg a n))"
    by (intro finish_row [OF assms(1,2,4,5)]) (simp_all add: assms(7))
  with assms(3) show ?thesis
    by (auto simp: feedback_def is_probe_def outranked_def split: option.split)
qed

text \<open>
  A second report for the same invocation, whatever owner and category it claims, changes no
  group, no outcome and no ledger row: it only drops the lease of the owner it names.
\<close>

lemma finish_deduplicated:
  assumes "finish rf a now jit owner meta cat hint s = Inr s1"
    and "m_invocation meta = Some i" and "i \<noteq> []"
    and "m_invocation meta2 = Some i"
  shows "finish rf2 a now2 jit2 owner2 meta2 cat2 hint2 s1 = Inr (release owner2 s1)"
proof -
  have inv: "finish_invocation owner meta s = Some i"
    using assms(2,3) by (simp add: finish_invocation_def nonempty_def or_else_def)
  have "i \<in> o_invocation ` set (outcomes s1)"
    using assms(1)
  proof (rule finish_cases)
    fix j assume "finish_invocation owner meta s = Some j" "j \<in> o_invocation ` set (outcomes s)"
      "s1 = release owner s"
    with inv show ?thesis by (simp add: release_def)
  next
    fix oid s2
    assume *: "\<forall>i. finish_invocation owner meta s = Some i \<longrightarrow> oid = i"
      "finish_groups a now jit cat (map_option of_int (clamp hint (hint_ceiling a)))
         (lease_of owner s) (finish_names a owner meta s) s2 = Inr s1"
      "outcomes s2 = outcomes s @ [\<lparr>o_invocation = oid, o_owner = owner,
          o_grps = finish_names a owner meta s, o_category = category_name cat, o_useful = False,
          o_at = now\<rparr>]"
    from finish_frame_leases [OF *(2)] *(1,3) inv show ?thesis by simp
  qed
  then show ?thesis
    using assms(3,4) by (simp add: finish_def Let_def nonempty_def or_else_def)
qed

subsection \<open>Blocked groups\<close>

definition stays_blocked :: "db \<Rightarrow> db \<Rightarrow> bool" where
  "stays_blocked s s' \<longleftrightarrow>
     (\<forall>n g. grow_of n s = Some g \<and> g_mode g = BlockedMode
        \<longrightarrow> (\<exists>g'. grow_of n s' = Some g' \<and> g_mode g' = BlockedMode))"

lemma stays_blocked_refl [simp]: "stays_blocked s s"
  by (simp add: stays_blocked_def)

lemma stays_blocked_groups: "groups s' = groups s \<Longrightarrow> stays_blocked s s'"
  by (simp add: stays_blocked_def grow_of_def)

lemma stays_blocked_trans: "stays_blocked s s1 \<Longrightarrow> stays_blocked s1 s2 \<Longrightarrow> stays_blocked s s2"
  by (simp add: stays_blocked_def)

lemma stays_blocked_ensure: "ensure_group a name s = Inr (s1, g) \<Longrightarrow> stays_blocked s s1"
  by (erule ensure_group_cases) (auto simp: stays_blocked_def grow_of_append)

lemma stays_blocked_set:
  "(\<And>r. g_name (f r) = g_name r) \<Longrightarrow> (\<And>r. g_mode r = BlockedMode \<Longrightarrow> g_mode (f r) = BlockedMode) \<Longrightarrow>
   stays_blocked s (set_group name f s)"
  by (auto simp: stays_blocked_def grow_of_set_group)

lemma feedback_blocked:
  "g_mode r = BlockedMode \<Longrightarrow> g_mode (feedback a now jit cat hint l r c) = BlockedMode"
  by (simp add: feedback_def outranked_def split: option.split)

lemma stays_blocked_finish:
  "finish_groups a now jit cat hint l names s = Inr s' \<Longrightarrow> stays_blocked s s'"
proof (induction names arbitrary: s)
  case (Cons name names)
  then obtain s1 g where e: "ensure_group a name s = Inr (s1, g)"
    and rest: "finish_groups a now jit cat hint l names
      (set_group name (\<lambda>r. feedback a now (jit name) cat hint l r (gcfg a name)) s1) = Inr s'"
    by (auto split: sum.splits if_splits)
  have "stays_blocked s1 (set_group name (\<lambda>r. feedback a now (jit name) cat hint l r (gcfg a name)) s1)"
    by (rule stays_blocked_set) (simp_all add: feedback_blocked)
  with stays_blocked_ensure [OF e] Cons.IH [OF rest] show ?case
    by (blast intro: stays_blocked_trans)
qed simp

lemma stays_blocked_credit: "credit_groups a names s = Inr s' \<Longrightarrow> stays_blocked s s'"
proof (induction names arbitrary: s)
  case (Cons name names)
  then obtain s1 g where e: "ensure_group a name s = Inr (s1, g)"
    and rest: "credit_groups a names (set_group name (\<lambda>r. r\<lparr>g_useful := g_useful r + 1\<rparr>) s1) = Inr s'"
    by (auto split: sum.splits)
  have "stays_blocked s1 (set_group name (\<lambda>r. r\<lparr>g_useful := g_useful r + 1\<rparr>) s1)"
    by (rule stays_blocked_set) simp_all
  with stays_blocked_ensure [OF e] Cons.IH [OF rest] show ?case
    by (blast intro: stays_blocked_trans)
qed simp

lemma stays_blocked_admit: "admit_groups a now names p s = Inr (s', r) \<Longrightarrow> stays_blocked s s'"
proof (induction names arbitrary: p s)
  case (Cons name names)
  then obtain s1 g where e: "ensure_group a name s = Inr (s1, g)" by (auto split: sum.splits)
  have "stays_blocked s1 (set_group name (\<lambda>g. g\<lparr>g_loaded := Some now\<rparr>) s1)"
    by (rule stays_blocked_set) simp_all
  with Cons.prems e stays_blocked_ensure [OF e] Cons.IH show ?case
    by (auto split: if_splits intro: stays_blocked_trans)
qed simp

lemma stays_blocked_grow: "stays_blocked s (grow_group a now name s)"
  by (auto simp: grow_group_def split: option.split intro!: stays_blocked_set)

lemma stays_blocked_fold_grow: "stays_blocked s (fold (grow_group a now) names s)"
  by (induction names arbitrary: s) (auto intro: stays_blocked_trans stays_blocked_grow)

lemma stays_blocked_reserve:
  assumes "adm_reserve a now owner model clone bound s = Inr (s', b)"
  shows "stays_blocked s s'"
proof -
  consider "s' = s" | s1 r where "admit_groups a now (group_names a model) False s = Inr (s1, r)"
      "s' = s1 \<or> groups s' = groups (fold (grow_group a now) (group_names a model) s1)"
    using assms
    by (fastforce simp: adm_reserve_def Let_def split: if_splits sum.splits option.splits prod.splits)
  then show ?thesis
  proof cases
    case 2
    have "stays_blocked s1 s'"
      using 2(2) stays_blocked_fold_grow [of s1 a now "group_names a model"]
      by (auto simp: stays_blocked_def grow_of_def)
    with stays_blocked_admit [OF 2(1)] show ?thesis by (blast intro: stays_blocked_trans)
  qed simp
qed

lemma stays_blocked_report:
  assumes "finish rf a now jit owner meta cat hint s = Inr s'"
  shows "stays_blocked s s'"
  using assms
proof (rule finish_cases)
  assume "s' = release owner s"
  then show ?thesis by (simp add: release_def stays_blocked_groups)
next
  fix s2 assume "groups s2 = groups s" and "finish_groups a now jit cat
    (map_option of_int (clamp hint (hint_ceiling a))) (lease_of owner s)
    (finish_names a owner meta s) s2 = Inr s'"
  with stays_blocked_finish show ?thesis
    by (blast intro: stays_blocked_trans stays_blocked_groups)
qed

lemma stays_blocked_useful:
  assumes "useful a meta s = Inr s'"
  shows "stays_blocked s s'"
proof (cases "s' = s")
  case False
  then obtain r :: outcome where "credit_groups a (o_grps r) (s\<lparr>outcomes :=
      update_row o_invocation (o_invocation r) (\<lambda>r. r\<lparr>o_useful := True\<rparr>) (outcomes s)\<rparr>) = Inr s'"
    using assms by (auto simp: useful_def Let_def split: option.splits if_splits)
  from stays_blocked_credit [OF this] show ?thesis by (simp add: stays_blocked_def grow_of_def)
qed simp

lemma adm_step_blocked:
  "adm_step a limit s s' \<Longrightarrow> stays_blocked s s' \<or> (\<exists>now name. reset a now name s = Inr s')"
proof (induction rule: adm_step.induct)
  case (a_reset now name s s')
  then show ?case by blast
qed (auto simp: attach_def release_def reconcile_def
    intro!: disjI1 intro: stays_blocked_groups stays_blocked_reserve stays_blocked_report
      stays_blocked_useful)

text \<open>
  A group blocked by an authentication or credit failure stays blocked through every
  reservation, report, credit, release and restart reconciliation; only the operator's reset can
  open it.
\<close>

lemma blocked_until_reset:
  assumes "adm_step a limit s s'" and "grow_of n s = Some g" and "g_mode g = BlockedMode"
  shows "(\<exists>g'. grow_of n s' = Some g' \<and> g_mode g' = BlockedMode)
    \<or> (\<exists>now name. reset a now name s = Inr s')"
  using adm_step_blocked [OF assms(1)] assms(2,3) unfolding stays_blocked_def by blast

lemma finish_groups_total:
  "\<forall>n \<in> set names. gcfg a n \<noteq> None \<Longrightarrow> \<exists>s'. finish_groups a now jit cat hint l names s = Inr s'"
proof (induction names arbitrary: s)
  case (Cons name names)
  obtain g where "view a name s = Some g"
    using view_configured [of a name s] Cons.prems by auto
  then obtain s1 where "ensure_group a name s = Inr (s1, g)"
    using ensure_group_total by blast
  with Cons show ?case by simp
qed simp

lemma finish_succeeds:
  assumes "\<forall>n \<in> set (finish_names a owner meta s). gcfg a n \<noteq> None" and "outcomes s = []"
  shows "\<exists>s'. finish rf a now jit owner meta cat hint s = Inr s'"
proof -
  have "outcomes (release owner s) = []" using assms(2) by (simp add: release_def)
  with assms(2) finish_groups_total [OF assms(1)] show ?thesis
    unfolding finish_def Let_def finish_names_def [symmetric]
    by (auto simp del: finish_groups.simps split: option.split)
qed

definition demo_row :: "group_mode \<Rightarrow> time option \<Rightarrow> group_row" where
  "demo_row m congested =
     \<lparr>g_name = ''swe'', g_target = 5, g_mode = m, g_cooldown_until = None, g_cooldown_len = 600,
      g_window_start = 0, g_loaded = None, g_useful = 0, g_congested_at = congested\<rparr>"

definition demo_lease :: lease where
  "demo_lease =
     \<lparr>l_owner = ''job:4'', l_model = ''swe'', l_grps = [''swe''], l_clone = None,
      l_invocation = None, l_probe = True, l_started = None, l_granted = 10, l_updated = 10\<rparr>"

definition demo_db :: "group_mode \<Rightarrow> time option \<Rightarrow> db" where
  "demo_db m congested = (empty_db None)\<lparr>leases := [demo_lease], groups := [demo_row m congested]\<rparr>"

definition no_meta :: meta where
  "no_meta = \<lparr>m_invocation = None, m_model = None, m_owner = None\<rparr>"

lemma demo_facts:
  "lease_of ''job:4'' (demo_db m t) = Some demo_lease" "l_grps demo_lease = [''swe'']"
  "l_probe demo_lease" "l_granted demo_lease = 10" "outcomes (demo_db m t) = []"
  "grow_of ''swe'' (demo_db m t) = Some (demo_row m t)"
  "view demo_adm ''swe'' (demo_db m t) = Some (demo_row m t)"
  "finish_invocation ''job:4'' no_meta (demo_db m t) = None"
  "gcfg demo_adm ''swe'' = Some \<lparr>qg_models = [''swe''], qg_initial = 2, qg_ceiling = 6,
      qg_external = 0, qg_minimum = 1\<rparr>"
  "hint_ceiling demo_adm = 7200"
  by (simp_all add: demo_db_def demo_lease_def demo_row_def lease_of_def grow_of_def view_def
      finish_invocation_def no_meta_def nonempty_def or_else_def empty_db_def demo_adm_def
      mk_adm_def derive_groups_def gcfg_def num_or_def jget_def max_hint_delay_def)

lemma demo_finish: "\<exists>s'. finish rf demo_adm now jit ''job:4'' no_meta cat hint (demo_db m t) = Inr s'"
  by (rule finish_succeeds) (simp_all add: finish_names_def demo_facts)

end
