(* ===== verification/PoolSteps.thy ===== *)
theory PoolSteps
  imports Factory AdmissionProps
begin

text \<open>
  The abstract specification of the supervisor: a step relation on the database whose steps are the
  operations of the scheduler state, of the admission ledger (without the operator's reset) and of
  the review and findings tables. The invariants of those steps are proved here; the programs are
  shown to take only such steps in PoolRefinement.
\<close>

subsection \<open>What the admission ledger leaves alone\<close>

definition same_core :: "db \<Rightarrow> db \<Rightarrow> bool" where
  "same_core s s' \<longleftrightarrow> jobs s' = jobs s \<and> events s' = events s \<and> settings s' = settings s
     \<and> workspace_capacity s' = workspace_capacity s"

lemma same_core_refl [simp]: "same_core s s" by (simp add: same_core_def)

lemma same_core_trans: "same_core s t \<Longrightarrow> same_core t u \<Longrightarrow> same_core s u"
  by (simp add: same_core_def)

lemma same_core_ensure: "ensure_group a name s = Inr (s1, g) \<Longrightarrow> same_core s s1"
  by (simp add: same_core_def ensure_group_frame)

lemma same_core_set_group [simp]: "same_core s (set_group name f s1) = same_core s s1"
  by (simp add: same_core_def)

lemma same_core_grow: "same_core s s1 \<Longrightarrow> same_core s (fold (grow_group a now) names s1)"
  by (induction names arbitrary: s1) (simp_all add: grow_group_def split: option.split)

lemma same_core_admit: "admit_groups a now names p s = Inr (s', r) \<Longrightarrow> same_core s s'"
proof (induction names arbitrary: p s)
  case (Cons name names)
  then obtain s1 g where e: "ensure_group a name s = Inr (s1, g)" by (auto split: sum.splits)
  with Cons.prems Cons.IH same_core_ensure [OF e] show ?case
    by (auto split: if_splits intro: same_core_trans)
qed simp

lemma same_core_finish_groups:
  "finish_groups a now jit cat hint l names s = Inr s' \<Longrightarrow> same_core s s'"
proof (induction names arbitrary: s)
  case (Cons name names)
  then obtain s1 g where e: "ensure_group a name s = Inr (s1, g)"
    and rest: "finish_groups a now jit cat hint l names
      (set_group name (\<lambda>r. feedback a now (jit name) cat hint l r (gcfg a name)) s1) = Inr s'"
    by (auto split: sum.splits if_splits)
  from same_core_ensure [OF e] Cons.IH [OF rest] show ?case by (simp add: same_core_def)
qed simp

lemma same_core_credit: "credit_groups a names s = Inr s' \<Longrightarrow> same_core s s'"
proof (induction names arbitrary: s)
  case (Cons name names)
  then obtain s1 g where e: "ensure_group a name s = Inr (s1, g)"
    and rest: "credit_groups a names (set_group name (\<lambda>r. r\<lparr>g_useful := g_useful r + 1\<rparr>) s1) = Inr s'"
    by (auto split: sum.splits)
  from same_core_ensure [OF e] Cons.IH [OF rest] show ?case by (simp add: same_core_def)
qed simp

lemma same_core_reserve:
  assumes "adm_reserve a now owner model clone bound s = Inr (s', b)"
  shows "same_core s s'"
proof -
  have app: "same_core s (t\<lparr>leases := ls\<rparr>) = same_core s t" for t ls
    by (simp add: same_core_def)
  show ?thesis
    using assms
    by (auto simp: adm_reserve_def Let_def app
        split: if_splits sum.splits option.splits prod.splits
        dest!: same_core_admit intro!: same_core_grow)
qed

lemma same_core_useful: "useful a meta s = Inr s' \<Longrightarrow> same_core s s'"
  by (auto simp: useful_def Let_def same_core_def split: option.splits if_splits
      dest!: same_core_credit)

text \<open>A report of an invocation appends at most its own ledger row.\<close>

lemma finish_core:
  assumes "finish rf a now jit owner meta cat hint s = Inr s'"
  obtains "same_core s s'"
  | e t where "same_core s t" "e_kind e = ''invocation:'' @ category_name cat"
      "same_core (add_event e t) s'"
proof (cases "s' = release owner s")
  case True
  then show ?thesis by (intro that(1)) (simp add: same_core_def release_def)
next
  case False
  obtain hint2 l names oid payload now2 key iss where
    "finish_groups a now jit cat hint2 l names
       (add_event (mk_event (''invocation:'' @ category_name cat) iss None now2 key payload)
         ((release owner s)\<lparr>outcomes := outcomes (release owner s) @ oid\<rparr>)) = Inr s'"
    using assms False by (simp add: finish_def Let_def split: if_splits)
  note same_core_finish_groups [OF this]
  moreover have "same_core s ((release owner s)\<lparr>outcomes := outcomes (release owner s) @ oid\<rparr>)"
    by (simp add: same_core_def release_def)
  ultimately show ?thesis by (rule that(2) [rotated 2]) (simp add: mk_event_def)
qed

subsection \<open>The steps\<close>

inductive pool_step :: "adm \<Rightarrow> db \<Rightarrow> db \<Rightarrow> bool" for a where
  p_sched: "sched_step s s' \<Longrightarrow> pool_step a s s'"
| p_grant: "adm_reserve a now owner model clone (capacity s) s = Inr (s', b) \<Longrightarrow> pool_step a s s'"
| p_attach: "pool_step a s (attach now owner invocation started s)"
| p_finish: "finish rf a now jit owner meta cat hint s = Inr s' \<Longrightarrow> pool_step a s s'"
| p_useful: "useful a meta s = Inr s' \<Longrightarrow> pool_step a s s'"
| p_release: "pool_step a s (release owner s)"
| p_reconcile: "pool_step a s (reconcile owners s)"
| p_begin_review: "begin_review now run_id slot sha nth_try s = Inr s' \<Longrightarrow> pool_step a s s'"
| p_finish_review: "pool_step a s (finish_review now run_id st err sha rep s)"
| p_candidates: "record_candidates now run_id items s = (s', skipped) \<Longrightarrow> pool_step a s s'"
| p_disposition:
    "disposition_candidate now k decision reason revisit issue sources s = Inr (s', b) \<Longrightarrow>
     pool_step a s s'"
| p_assessment: "pool_step a s (record_assessment now k assessment s)"
| p_improvement: "pool_step a s (map_improvement k n s)"
| p_report: "pool_step a s (record_qa_report now run_id sha st n rep s)"
| p_finding: "pool_step a s (upsert_qa_finding now item rep st s)"
| p_set_finding: "set_qa_finding now k fs s = Inr s' \<Longrightarrow> pool_step a s s'"

text \<open>A table of the review or findings lane changed, and settings other than the merge counter.\<close>

definition lane_change :: "db \<Rightarrow> db \<Rightarrow> bool" where
  "lane_change s s' \<longleftrightarrow> jobs s' = jobs s \<and> events s' = events s \<and> leases s' = leases s
     \<and> groups s' = groups s \<and> outcomes s' = outcomes s
     \<and> workspace_capacity s' = workspace_capacity s
     \<and> settings s' ''merges'' = settings s ''merges''"

lemma lane_change_refl [simp]: "lane_change s s" by (simp add: lane_change_def)

lemma lane_change_candidates:
  "fold (record_candidate now run_id) items st = (s', k) \<Longrightarrow> lane_change (fst st) s'"
proof (induction items arbitrary: st)
  case (Cons i items)
  have "lane_change (fst st) (fst (record_candidate now run_id i st))"
    by (auto simp: record_candidate_def lane_change_def split: prod.split option.split)
  with Cons show ?case by (auto simp: lane_change_def)
qed simp

lemma lane_changes:
  "begin_review now run_id slot sha nth_try s = Inr s' \<Longrightarrow> lane_change s s'"
  "lane_change s (finish_review now run_id st err sha2 rep s)"
  "record_candidates now run_id items s = (s', skipped) \<Longrightarrow> lane_change s s'"
  "disposition_candidate now k decision reason revisit issue sources s = Inr (s', b) \<Longrightarrow> lane_change s s'"
  "lane_change s (record_assessment now k assessment s)"
  "lane_change s (map_improvement k n s)"
  "lane_change s (record_qa_report now run_id sha st m rep2 s)"
  "lane_change s (upsert_qa_finding now item rep3 st s)"
  "set_qa_finding now k fs s = Inr s' \<Longrightarrow> lane_change s s'"
  by (auto simp: lane_change_def begin_review_def finish_review_def sset_def disposition_candidate_def
      record_assessment_def map_improvement_def record_qa_report_def upsert_qa_finding_def
      set_qa_finding_def record_candidates_def Let_def
      split: if_splits dest: lane_change_candidates [unfolded lane_change_def])

text \<open>Every step is a scheduler step, an admission step, or a change of a lane's tables.\<close>

lemma pool_step_cases:
  assumes "pool_step a s s'"
  obtains "sched_step s s'" "leases s' = leases s" "groups s' = groups s" "outcomes s' = outcomes s"
      "workspace_capacity s' = workspace_capacity s"
  | "adm_step a (capacity s) s s'" "stays_blocked s s'" "same_core s s'"
  | rf now jit owner meta cat hint where "finish rf a now jit owner meta cat hint s = Inr s'"
  | "lane_change s s'"
  using assms
proof (cases rule: pool_step.cases)
  case p_sched
  have "leases s' = leases s \<and> groups s' = groups s \<and> outcomes s' = outcomes s
      \<and> workspace_capacity s' = workspace_capacity s"
    using p_sched
    by (induction rule: sched_step.induct)
      (auto simp: record_event_def reserve_def update_job_def repair_def complete_def retry_def Let_def
        add_event_def split: if_splits option.splits)
  with p_sched that(1) show ?thesis by blast
next
  case (p_grant now owner model clone b)
  show ?thesis
    by (rule that(2) [OF a_reserve [OF p_grant order.refl] stays_blocked_reserve [OF p_grant]
          same_core_reserve [OF p_grant]])
next
  case (p_attach now owner invocation started)
  show ?thesis
    unfolding p_attach
    by (rule that(2) [unfolded p_attach, OF a_attach])
      (simp_all add: attach_def same_core_def stays_blocked_groups)
next
  case (p_finish rf now jit owner meta cat hint)
  then show ?thesis by (rule that(3))
next
  case (p_useful meta)
  show ?thesis
    by (rule that(2) [OF a_useful [OF p_useful] stays_blocked_useful [OF p_useful]
          same_core_useful [OF p_useful]])
next
  case (p_release owner)
  show ?thesis
    by (rule that(2) [unfolded p_release, OF a_release])
      (simp_all add: release_def same_core_def stays_blocked_groups)
next
  case (p_reconcile owners)
  show ?thesis
    by (rule that(2) [unfolded p_reconcile, OF a_reconcile])
      (simp_all add: reconcile_def same_core_def stays_blocked_groups)
qed (rule that(4), simp add: lane_changes lane_changes(1,3,4,9) [OF _])+

subsection \<open>Invariants of the steps\<close>

lemma db_ok_cong:
  "jobs s' = jobs s \<Longrightarrow> events s' = events s \<Longrightarrow> settings s' ''merges'' = settings s ''merges'' \<Longrightarrow>
   db_ok s' = db_ok s"
  by (simp add: db_ok_def event_keys_def merged_rows_def sget_def)

lemma db_ok_core: "same_core s s' \<Longrightarrow> db_ok s' = db_ok s"
  by (rule db_ok_cong) (simp_all add: same_core_def)

lemma invocation_row_ok:
  "e_kind e = ''invocation:'' @ name \<Longrightarrow> e_kind e \<noteq> ''merged-and-closed'' \<and> repair_row_ok e"
  by (simp add: repair_row_ok_def)

lemma db_ok_finish:
  assumes "finish rf a now jit owner meta cat hint s = Inr s'" and "db_ok s"
  shows "db_ok s'"
  using assms(1)
proof (rule finish_core)
  fix e t assume "same_core s t" "e_kind e = ''invocation:'' @ category_name cat"
    "same_core (add_event e t) s'"
  then show ?thesis
    using db_ok_add_event [of t e] invocation_row_ok [of e] assms(2) by (simp add: db_ok_core)
qed (use assms(2) in \<open>simp add: db_ok_core\<close>)

lemma db_ok_pool_step: "pool_step a s s' \<Longrightarrow> db_ok s \<Longrightarrow> db_ok s'"
  by (erule pool_step_cases)
    (simp_all add: db_ok_step db_ok_core db_ok_finish, simp add: lane_change_def db_ok_cong [of s' s])

text \<open>The agent capacity only grows: it is fixed, or follows the number of merged issues.\<close>

lemma capacity_by_merges:
  "db_ok s \<Longrightarrow> capacity s = (case workspace_capacity s of Some k \<Rightarrow> k
     | None \<Rightarrow> if 15 \<le> merged_rows s then 20 else if 5 \<le> merged_rows s then 10 else 5)"
  by (simp add: capacity_def db_ok_def split: option.split)

lemma merged_rows_mono: "events s' = events s @ es \<Longrightarrow> merged_rows s \<le> merged_rows s'"
  by (simp add: merged_rows_def)

lemma add_event_appends: "\<exists>es. events (add_event e s) = events s @ es"
  using events_add_event_ex by blast

lemma pool_step_appends:
  assumes "pool_step a s s'"
  shows "(\<exists>es. events s' = events s @ es) \<and> workspace_capacity s' = workspace_capacity s"
  using assms
proof (cases rule: pool_step_cases)
  case (3 rf now jit owner meta cat hint)
  then show ?thesis
  proof (rule finish_core)
    fix e t assume "same_core s t" "same_core (add_event e t) s'"
    then show ?thesis using add_event_appends [of e t] by (simp add: same_core_def)
  qed (simp add: same_core_def)
qed (use sched_step_appends in \<open>fastforce simp: same_core_def lane_change_def\<close>)+

lemma capacity_mono:
  assumes "pool_step a s s'" and "db_ok s"
  shows "capacity s \<le> capacity s'"
proof -
  obtain es where es: "events s' = events s @ es" and w: "workspace_capacity s' = workspace_capacity s"
    using pool_step_appends [OF assms(1)] by blast
  from merged_rows_mono [OF es] w show ?thesis
    using capacity_by_merges [OF assms(2)] capacity_by_merges [OF db_ok_pool_step [OF assms]]
    by (simp split: option.split)
qed

lemma lease_ok_mono: "lease_ok n s \<Longrightarrow> n \<le> m \<Longrightarrow> lease_ok m s"
  by (simp add: lease_ok_def)

definition pool_ok :: "adm \<Rightarrow> db \<Rightarrow> bool" where
  "pool_ok a s \<longleftrightarrow> db_ok s \<and> lease_ok (capacity s) s \<and> groups_ok a s"

lemma pool_step_adm:
  assumes "pool_step a s s'"
  obtains "adm_step a (capacity s) s s'"
  using assms
proof (cases rule: pool_step_cases)
  case 1
  show ?thesis by (rule that, rule a_other) (use 1 in simp_all)
next
  case (3 rf now jit owner meta cat hint)
  then show ?thesis by (intro that a_finish)
next
  case 4
  show ?thesis by (rule that, rule a_other) (use 4 in \<open>simp_all add: lane_change_def\<close>)
qed (rule that)

lemma pool_ok_step:
  assumes "pool_step a s s'" and "wf_groups a" and "pool_ok a s"
  shows "pool_ok a s'"
proof -
  obtain adm: "adm_step a (capacity s) s s'" using pool_step_adm [OF assms(1)] by blast
  have "lease_ok (capacity s') s'"
    using lease_ok_step [OF adm] capacity_mono [OF assms(1)] assms(3)
    by (auto simp: pool_ok_def intro: lease_ok_mono)
  then show ?thesis
    using assms(3) db_ok_pool_step [OF assms(1)] groups_ok_step [OF adm assms(2)]
    by (simp add: pool_ok_def)
qed

lemma stays_blocked_step: "pool_step a s s' \<Longrightarrow> stays_blocked s s'"
  by (erule pool_step_cases)
    (simp_all add: stays_blocked_groups stays_blocked_report lane_change_def)

end
