(* ===== verification/PoolRefinement.thy ===== *)
theory PoolRefinement
  imports PoolSteps
begin

text \<open>
  The programs of the supervisor against the specification of PoolSteps. The locale
  \<open>pool_invariant\<close> is the contract of a property of the database with the operations the supervisor
  calls: the property is closed under the steps and bounds the repair counts of the jobs. Inside it
  every handler, every phase of a factory cycle and a whole round of the supervisor keep the
  property, however the outside world answers and whatever exception ends them.
\<close>

definition counted :: "job_row \<Rightarrow> bool" where
  "counted j \<longleftrightarrow> 0 \<le> j_repairs j \<and> j_repairs j \<le> 3"

lemma keeps_setting [keeps_intros]: "keeps P (setting k d)"
  unfolding setting_def by (rule keeps_intros)

text \<open>The settings a program writes are never the merge counter.\<close>

lemma not_merges:
  "nkey ''launch:'' n \<noteq> ''merges''" "nkey ''process:'' n \<noteq> ''merges''"
  "nkey ''delivery:'' n \<noteq> ''merges''" "nkey ''repair:'' n \<noteq> ''merges''"
  "nkey ''recovery:'' n \<noteq> ''merges''" "recovery_key n \<noteq> ''merges''" "retry_key n \<noteq> ''merges''"
  "process_key n \<noteq> ''merges''" "reservation_marker j \<noteq> ''merges''"
  by (simp_all add: nkey_def recovery_key_def retry_key_def process_key_def reservation_marker_def)

locale pool_invariant =
  fixes c :: sup and I :: "db \<Rightarrow> bool"
  assumes step: "pool_step (admission c) s s' \<Longrightarrow> I s \<Longrightarrow> I s'"
    and rows: "I s \<Longrightarrow> j \<in> set (jobs s) \<Longrightarrow> counted j"
begin

lemma keeps_jobs:
  assumes "\<And>js. list_all counted js \<Longrightarrow> keeps (on_db I) (f js)"
  shows "keeps (on_db I) (doing (get (list_jobs sts)) f)"
proof (rule keeps_doing_known)
  fix js and p p' :: "'a pool"
  assume "on_db I p" and "get (list_jobs sts) p = (Inr js, p')"
  then have "list_all counted js"
    using rows by (auto simp: on_db_def get_def list_all_iff list_jobs_def split: prod.splits if_splits)
  then show "keeps (on_db I) (f js)" by (rule assms)
qed (rule keeps_intros)

lemma I_sset: "I s \<Longrightarrow> k \<noteq> ''merges'' \<Longrightarrow> I (sset k v s)"
  by (erule step [rotated]) (intro p_sched step_set)

lemma keeps_set_setting [keeps_intros]: "k \<noteq> ''merges'' \<Longrightarrow> keeps (on_db I) (set_setting k v)"
  unfolding set_setting_def by (rule keeps_put) (rule I_sset)

lemma keeps_sup_update [keeps_intros]:
  "list_all client_field fs \<Longrightarrow> keeps (on_db I) (sup_update X n fs)"
  unfolding sup_update_def
  by (rule keeps_timed, rule keeps_attempt) (blast intro: step p_sched step_update)

lemma keeps_leases [keeps_intros]:
  "keeps (on_db I) (sup_release owner)" "keeps (on_db I) (sup_reserve c X owner model clone)"
  "keeps (on_db I) (sup_attach X owner m)" "keeps (on_db I) (sup_finish c X owner m cat hint)"
  "keeps (on_db I) (sup_useful c m)"
  unfolding sup_release_def sup_reserve_def sup_attach_def sup_finish_def sup_useful_def
  by (intro keeps_timed keeps_doing keeps_get keeps_put keeps_transact keeps_attempt;
      blast intro: step p_release p_grant p_attach p_finish p_useful)+

lemma keeps_admit_first [keeps_intros]: "keeps (on_db I) (admit_first c X n ws)"
  by (induction ws) (unfold admit_first.simps, (intro keeps_intros; assumption)+)

lemma keeps_admit_worker [keeps_intros]: "keeps (on_db I) (admit_worker c X n ws)"
  unfolding admit_worker_def by (intro keeps_intros)

lemma keeps_capture [keeps_intros]: "keeps (on_db I) (capture_recovery c X j)"
  unfolding capture_recovery_def by (intro keeps_intros not_merges)

lemma keeps_block [keeps_intros]: "keeps (on_db I) (block c X j reason)"
  unfolding block_def by (intro keeps_intros not_merges) simp

lemma keeps_launch [keeps_intros]: "keeps (on_db I) (launch c X prompt j i why)"
  unfolding launch_def launch_with_def by (intro keeps_intros not_merges) simp_all

subsection \<open>The handlers\<close>

lemma I_arm: "I s \<Longrightarrow> I (arm n rc cause s)"
  unfolding arm_def by (intro I_sset not_merges)

lemma I_requeue: "I s \<Longrightarrow> I (requeue_quota c now j cat hint s)"
  by (simp add: requeue_quota_def Let_def I_arm I_sset not_merges)

lemma I_rearm: "I s \<Longrightarrow> quiet_episode_rearm c now n rc s = (s', r) \<Longrightarrow> I s'"
  by (auto simp: quiet_episode_rearm_def Let_def I_arm split: if_splits)

lemma I_defer_timeout: "I s \<Longrightarrow> I (defer_timeout c f now j s)"
  by (simp add: defer_timeout_def Let_def I_arm)

lemma I_release: "I s \<Longrightarrow> I (release owner s)"
  by (erule step [rotated]) (rule p_release)

lemma I_defer_repair: "I s \<Longrightarrow> I (defer_repair n reason cause detail s)"
  by (simp add: defer_repair_def Let_def I_release I_sset not_merges)

lemma keeps_requeue [keeps_intros]:
  "keeps (on_db I) (sup_requeue c X j cat hint)" "keeps (on_db I) (sup_defer_timeout c X j)"
  unfolding sup_requeue_def sup_defer_timeout_def
  by (intro keeps_intros keeps_put I_requeue I_defer_timeout; assumption)+

lemma keeps_db_repair [keeps_intros]: "keeps (on_db I) (transact (repair now n cause detail))"
  by (rule keeps_transact) (blast intro: step p_sched step_repair)

lemma keeps_db_retry [keeps_intros]: "keeps (on_db I) (transact (retry now n cause detail))"
  by (rule keeps_transact) (blast intro: step p_sched step_retry)

lemma keeps_sup_repair [keeps_intros]: "keeps (on_db I) (sup_repair c X prompt j i reason cause detail)"
  unfolding sup_repair_def by (intro keeps_intros keeps_put I_defer_repair; assumption)

lemma keeps_publish [keeps_intros]: "keeps (on_db I) (publish c X j i)"
  unfolding publish_def by (intro keeps_intros not_merges) simp

lemma keeps_failed_invocation [keeps_intros]: "keeps (on_db I) (failed_invocation c X j m receipt)"
  unfolding failed_invocation_def by (intro keeps_intros) simp_all

lemma keeps_completed_invocation [keeps_intros]:
  "keeps (on_db I) (completed_invocation c X prompt j i m)"
  unfolding completed_invocation_def deliver_def find_session_def
  by (intro keeps_intros not_merges) simp_all

lemma keeps_reconcile_workers [keeps_intros]: "keeps (on_db I) (reconcile_workers c X prompt issues)"
  unfolding reconcile_workers_def reconcile_job_def finished_invocation_def by (intro keeps_intros)

lemma keeps_resolve_merge [keeps_intros]: "keeps (on_db I) (resolve_publish_merge X clone paths j)"
proof -
  have "keeps (on_db I) (attempt (record_event now (JStr mechanical_resolution_kind) n k p key))"
    for now n k p key
    by (rule keeps_attempt, erule step [rotated], rule p_sched, erule step_record)
      (simp add: mechanical_resolution_kind_def owned_kinds_def)
  then show ?thesis
    unfolding resolve_publish_merge_def resolve_mechanical_def by (intro keeps_intros)
qed

lemma keeps_issue_required [keeps_intros]: "keeps P (issue_required issues n)"
  unfolding issue_required_def by (intro keeps_intros)

lemma keeps_integrate [keeps_intros]: "keeps (on_db I) (integrate c X prompt issues only)"
proof -
  have done_job: "keeps (on_db I) (put (complete now n))" for now n
    by (rule keeps_put) (blast intro: step p_sched step_complete)
  show ?thesis
    unfolding integrate_def integrate_job_def merged_pr_def update_branch_def merge_conflict_def
      check_pr_def
    by (intro keeps_intros done_job) simp_all
qed

lemma keeps_recover_processes [keeps_intros]: "keeps (on_db I) (recover_processes c X)"
proof -
  have stop: "keeps (on_db I) (put (integrity reason))" for reason
    by (rule keeps_put) (simp add: integrity_def pause_def I_sset)
  show ?thesis
    unfolding recover_processes_def adopt_record_def
    by (intro keeps_intros stop not_merges) simp_all
qed

subsection \<open>Retries and dispatch\<close>

lemma keeps_pick_workspace [keeps_intros]: "keeps (on_db I) (pick_workspace c X n rc busy)"
  unfolding pick_workspace_def by (intro keeps_intros)

lemma keeps_relaunch [keeps_intros]:
  "counted j \<Longrightarrow> keeps (on_db I) (relaunch c X prompt j rc i target worker why)"
  unfolding relaunch_def
  by (intro keeps_intros not_merges) (simp_all add: counted_def)

lemma keeps_recover_job [keeps_intros]:
  "counted j \<Longrightarrow> keeps (on_db I) (recover_job c X prompt j rc busy i)"
  unfolding recover_job_def recovery_failed_def
  by (intro keeps_intros not_merges) simp_all

lemma keeps_retry_job:
  "counted j \<Longrightarrow> keeps (on_db I) (retry_job c X prompt issues only now j)"
proof -
  have "keeps (on_db I) (transact (\<lambda>s. Inr (quiet_episode_rearm c now n rc s)))" for n rc
    by (rule keeps_transact) (auto intro: I_rearm)
  then show "counted j \<Longrightarrow> ?thesis"
    unfolding retry_job_def retry_armed_def by (intro keeps_intros)
qed

lemma keeps_retries [keeps_intros]: "keeps (on_db I) (retries c X prompt issues only)"
  unfolding retries_def
  by (intro keeps_intros keeps_jobs keeps_retry_job) (simp add: list_all_iff)

lemma I_refresh: "I s \<Longrightarrow> refresh_improvements issues s = Inr s' \<Longrightarrow> I s'"
  by (auto simp: refresh_improvements_def Let_def res_bind_def I_sset split: if_splits sum.splits option.splits)

lemma keeps_refresh [keeps_intros]: "keeps (on_db I) (attempt (refresh_improvements issues))"
  by (rule keeps_attempt) (rule I_refresh)

lemma keeps_step [keeps_intros]:
  "(x = Stop \<Longrightarrow> keeps P m) \<Longrightarrow> (\<And>y. x = Next y \<Longrightarrow> keeps P (f y)) \<Longrightarrow> keeps P (case_step m f x)"
  by (cases x) auto

lemma keeps_dispatch_one [keeps_intros]:
  "keeps (on_db I) (dispatch_one c X prompt done_ns cap al i)"
proof -
  have "keeps (on_db I) (transact (\<lambda>s. Inr (reserve now n worker grp deps s)))" for now n worker grp deps
    by (rule keeps_transact) (auto intro: step p_sched step_reserve)
  then show ?thesis
    unfolding dispatch_one_def dispatch_ready_def reserve_and_launch_def launch_or_block_def
    by (intro keeps_intros) simp_all
qed

lemma keeps_dispatch [keeps_intros]: "keeps (on_db I) (dispatch c X prompt issues only)"
proof -
  have loop: "keeps (on_db I) (dispatch_loop n c X prompt done_ns cap al xs)" for n done_ns cap al xs
    by (induction n arbitrary: al xs)
      (unfold dispatch_loop.simps, (intro keeps_intros; assumption)+)
  show ?thesis
    unfolding dispatch_def by (intro keeps_intros loop) simp_all
qed

subsection \<open>The planner's lane\<close>

lemma I_disposition:
  "I s \<Longrightarrow> disposition_candidate now k d reason revisit n sources s = Inr (s', b) \<Longrightarrow> I s'"
  by (blast intro: step p_disposition)

lemma I_improvement: "I s \<Longrightarrow> I (map_improvement k n s)"
  by (erule step [rotated]) (rule p_improvement)

lemma I_improvements: "I s \<Longrightarrow> I (fold (map_improvement k) ns s)"
  by (induction ns arbitrary: s) (simp_all add: I_improvement)

lemma res_bind_InrE:
  assumes "res_bind r f = Inr y"
  obtains x where "r = Inr x" "f x = Inr y"
  using assms by (cases r) (auto simp: res_bind_def)

lemma I_dispose: "dispose now items issues created entry s = Inr s' \<Longrightarrow> I s \<Longrightarrow> I s'"
  unfolding dispose_def Let_def
  by (auto split: option.splits if_split_asm prod.splits elim!: res_bind_InrE
      intro!: I_improvements intro: I_disposition)

lemma I_dispositions:
  "I s \<Longrightarrow> apply_dispositions now entries items issues created s = Inr s' \<Longrightarrow> I s'"
  unfolding apply_dispositions_def
  by (induction entries arbitrary: s)
    (auto simp: res_bind_def dest: I_dispose [rotated] split: sum.splits)

lemma keeps_publish_pending [keeps_intros]: "keeps (on_db I) (publish_pending c X issues pending)"
proof -
  have "keeps (on_db I) (attempt (apply_dispositions now entries items issues created))"
    for now entries items created
    by (rule keeps_attempt) (rule I_dispositions)
  moreover have "keeps (on_db I) (put (map_improvement k n))" for k n
    by (rule keeps_put) (rule I_improvement)
  ultimately show ?thesis
    unfolding publish_pending_def discard_proposal_def publish_proposal_def publish_item_def
    by (intro keeps_intros) simp_all
qed

lemma keeps_launch_planner [keeps_intros]: "keeps (on_db I) (launch_planner c X L issues prs)"
  unfolding launch_planner_def start_planner_def by (intro keeps_intros) simp_all

lemma keeps_finished_planner [keeps_intros]: "keeps (on_db I) (finished_planner c X current receipt)"
  unfolding finished_planner_def read_proposal_def reject_proposal_def
  by (intro keeps_intros) simp_all

lemma keeps_planner [keeps_intros]: "keeps (on_db I) (planner c X L issues prs allow_launch)"
  unfolding planner_def cancel_planning_def plan_or_publish_def by (intro keeps_intros) simp_all

subsection \<open>The review lane\<close>

lemma I_finish_review: "I s \<Longrightarrow> I (finish_review now run_id st err sha rep s)"
  by (erule step [rotated]) (rule p_finish_review)

lemma I_candidates: "I s \<Longrightarrow> record_candidates now run_id items s = (s', k) \<Longrightarrow> I s'"
  by (erule step [rotated]) (rule p_candidates)

lemma I_assessment: "I s \<Longrightarrow> I (record_assessment now k a s)"
  by (erule step [rotated]) (rule p_assessment)

lemma I_apply_assessment: "I s \<Longrightarrow> I (apply_assessment now cfg run_id a s)"
  by (auto simp: apply_assessment_def Let_def I_sset I_assessment split: option.split
      intro: I_candidates [OF _ prod.collapse [symmetric]])

lemma I_apply_assessments: "I s \<Longrightarrow> I (fold (apply_assessment now cfg run_id) as s)"
  by (induction as arbitrary: s) (simp_all add: I_apply_assessment)

lemma keeps_finish_review [keeps_intros]:
  "keeps (on_db I) (put (finish_review now run_id st err sha rep))"
  by (rule keeps_put) (rule I_finish_review)

lemma keeps_finish_run [keeps_intros]:
  "keeps (on_db I) (finish_review_run X run_id slot nth_try st err)"
  unfolding finish_review_run_def by (intro keeps_intros) simp

lemma keeps_launch_review [keeps_intros]:
  "keeps (on_db I) (launch_review c X L cfg slot issues prs manual nth_try)"
proof -
  have "keeps (on_db I) (attempt (begin_review now run_id slot sha nth_try))" for now run_id sha
    by (rule keeps_attempt) (blast intro: step p_begin_review)
  then show ?thesis
    unfolding launch_review_def spawn_review_def by (intro keeps_intros) simp_all
qed

lemma keeps_ingest_review [keeps_intros]: "keeps (on_db I) (ingest_review c X L cfg current receipt issues)"
proof -
  have "keeps (on_db I) (transact (\<lambda>s. Inr (record_candidates now run_id items s)))" for now run_id items
    by (rule keeps_transact) (auto intro: I_candidates)
  moreover have "keeps (on_db I) (put (fold (apply_assessment now cfg run_id) as))" for now run_id as
    by (rule keeps_put) (rule I_apply_assessments)
  moreover have "keeps (on_db I) (put (\<lambda>s. sset ''review:cursor'' (f s) s))" for f
    by (rule keeps_put) (simp add: I_sset)
  moreover have "keeps (on_db I) (put (\<lambda>s. if b s then sset ''review:stage'' (JStr ''pilot'') s else s))"
    for b by (rule keeps_put) (simp add: I_sset)
  ultimately show ?thesis
    unfolding ingest_review_def completed_review_def record_review_def Let_def
    by (intro keeps_intros) simp_all
qed

lemma keeps_review_lane [keeps_intros]:
  "keeps (on_db I) (review_lane c X L cfg issues prs allow_launch)"
  unfolding review_lane_def disable_review_def start_review_def due_review_def
  by (intro keeps_intros) simp_all

subsection \<open>Mirroring, the factory's cycle and the round\<close>

lemma keeps_mirror [keeps_intros]: "keeps (on_db I) (mirror c X issues)"
  unfolding mirror_def mirror_job_def mirror_issue_def relabel_def
  by (intro keeps_intros not_merges) simp_all

lemma keeps_demand [keeps_intros]:
  "(x = RepairDemand \<Longrightarrow> keeps P m1) \<Longrightarrow> (x = RetryDemand \<Longrightarrow> keeps P m2) \<Longrightarrow>
   (x = NewDemand \<Longrightarrow> keeps P m3) \<Longrightarrow> keeps P (case_demand_kind m1 m2 m3 x)"
  by (cases x) auto

lemma keeps_pull [keeps_intros]: "keeps (on_db I) (pull c f X prompt issues)"
  unfolding pull_def pull_one_def run_repair_def by (intro keeps_intros not_merges)

subsection \<open>The findings lane\<close>

lemma keeps_lane_writes [keeps_intros]:
  "keeps (on_db I) (set_finding X k fs)" "keeps (on_db I) (upsert_finding X finding report st)"
  "keeps (on_db I) (propose X run_id item)" "keeps (on_db I) (record_report X report txt)"
  unfolding set_finding_def upsert_finding_def propose_def record_report_def
  by (intro keeps_timed keeps_put keeps_transact keeps_attempt;
      auto intro: step p_set_finding p_finding p_report p_candidates [OF prod.collapse [symmetric]])+

lemma keeps_route [keeps_intros]: "keeps (on_db I) (route X rp cfg finding report issues b)"
  unfolding route_def by (intro keeps_intros)

lemma keeps_redispatch [keeps_intros]: "keeps (on_db I) (redispatch X rp cfg f report reason)"
  unfolding redispatch_def by (intro keeps_intros)

lemma keeps_apply_verification [keeps_intros]:
  "keeps (on_db I) (apply_verification X rp cfg entry report)"
  unfolding apply_verification_def stash_verification_def retry_setting_def
  by (intro keeps_intros) simp_all

lemma keeps_retry_verifications [keeps_intros]: "keeps (on_db I) (retry_verifications X rp cfg)"
  unfolding retry_verifications_def retry_verification_def unstash_verification_def retry_setting_def Let_def
  by (intro keeps_intros) simp_all

lemma keeps_ingest_report [keeps_intros]: "keeps (on_db I) (ingest_report X rp cfg report issues)"
  unfolding ingest_report_def ingest_finding_def Let_def by (intro keeps_intros)

lemma keeps_ingest_inbox [keeps_intros]: "keeps (on_db I) (ingest_inbox X Q rp cfg issues)"
  unfolding ingest_inbox_def ingest_file_def Let_def by (intro keeps_intros)

lemma keeps_sweep_failed [keeps_intros]: "keeps (on_db I) (sweep_failed X rp cfg b fs)"
  by (induction fs arbitrary: b) (unfold sweep_failed.simps, (intro keeps_intros; assumption)+)

lemma keeps_sweep_finding [keeps_intros]: "keeps (on_db I) (sweep_finding X rp known f)"
  unfolding sweep_finding_def Let_def by (intro keeps_intros)

lemma keeps_sweep_pending [keeps_intros]: "keeps (on_db I) (sweep_pending X rp cfg known b fs)"
  by (induction fs arbitrary: b) (unfold sweep_pending.simps, (intro keeps_intros; assumption)+)

lemma keeps_route_pending [keeps_intros]: "keeps (on_db I) (route_pending X rp cfg issues b)"
  unfolding route_pending_def by (intro keeps_intros)

lemma keeps_reconciling [keeps_intros]:
  "keeps (on_db I) (sync_candidates X)" "keeps (on_db I) (reconcile_merged X rp)"
  unfolding sync_candidates_def sync_candidate_def reconcile_merged_def reconcile_finding_def
    fix_merged_def Let_def
  by (intro keeps_intros)+

lemma keeps_documents [keeps_intros]:
  "keeps (on_db I) (write_verification_queue X Q cfg)" "keeps (on_db I) (publish_dashboard X Q cfg)"
  unfolding write_verification_queue_def publish_dashboard_def Let_def
  by (intro keeps_intros; simp)+

lemma keeps_qa_lane [keeps_intros]: "keeps (on_db I) (qa_lane X Q rp issues)"
  unfolding qa_lane_def poll_findings_def by (intro keeps_intros)

subsection \<open>Cycles and passes\<close>

lemma keeps_phase [keeps_intros]: "keeps P m \<Longrightarrow> keeps P (phase name m errs)"
  unfolding phase_def by (intro keeps_intros)

lemma keeps_report_cycle [keeps_intros]: "keeps (on_db I) (report_cycle f X issues errs)"
proof -
  have "keeps (on_db I) (put (\<lambda>s. sset ''factory:status'' (g s) s))" for g
    by (rule keeps_put) (simp add: I_sset)
  then show ?thesis unfolding report_cycle_def by (intro keeps_intros) simp_all
qed

lemma keeps_advance [keeps_intros]:
  "keeps (on_db I) (advance c f X prompt L cfg Q issues prs)"
  unfolding advance_def gated_def by (intro keeps_intros) simp_all

lemma keeps_offline [keeps_intros]: "keeps (on_db I) (offline c X prompt)"
  unfolding offline_def by (intro keeps_intros)

lemma keeps_supervisor_pass [keeps_intros]:
  "keeps (on_db I) (supervisor_pass c X prompt L cfg Q issues prs)"
  unfolding supervisor_pass_def by (intro keeps_intros) simp_all

lemma keeps_pass_failed [keeps_intros]: "keeps (on_db I) (pass_failed c X prompt e)"
proof -
  have "keeps (on_db I) (put (pause reason))" for reason
    by (rule keeps_put) (simp add: pause_def I_sset)
  then show ?thesis unfolding pass_failed_def by (intro keeps_intros) simp_all
qed

lemma keeps_supervisor_round:
  "keeps (on_db I) (supervisor_round c X prompt L cfg Q delay)"
  unfolding supervisor_round_def by (intro keeps_intros)

lemma keeps_startup: "keeps (on_db I) (startup c X)"
proof -
  have "keeps (on_db I) (put (\<lambda>s. reconcile (owners s) s))" for owners
    by (rule keeps_put) (blast intro: step p_reconcile)
  then show ?thesis unfolding startup_def by (intro keeps_intros)
qed

end

end
