(* ===== verification/PoolProps.thy ===== *)
theory PoolProps
  imports PoolRefinement
begin

text \<open>
  What the running supervisor guarantees: its rounds refine the step relation of PoolSteps, every
  database it reaches satisfies the invariants of the scheduler and of the admission ledger, a round
  never reopens a blocked quota group, and the loop survives every exception with a bounded delay.
\<close>

subsection \<open>Programs that take steps only\<close>

definition follows :: "adm \<Rightarrow> ('w pool, 'a) prog \<Rightarrow> bool" where
  "follows a m \<longleftrightarrow> (\<forall>s w. db_ok s \<longrightarrow> (pool_step a)\<^sup>*\<^sup>* s (fst (snd (m (s, w)))))"

lemma db_ok_steps: "(pool_step a)\<^sup>*\<^sup>* s s' \<Longrightarrow> db_ok s \<Longrightarrow> db_ok s'"
  by (induction rule: rtranclp_induct) (auto intro: db_ok_pool_step)

lemma pool_ok_steps: "(pool_step a)\<^sup>*\<^sup>* s s' \<Longrightarrow> wf_groups a \<Longrightarrow> pool_ok a s \<Longrightarrow> pool_ok a s'"
  by (induction rule: rtranclp_induct) (auto intro: pool_ok_step)

lemma stays_blocked_steps: "(pool_step a)\<^sup>*\<^sup>* s s' \<Longrightarrow> stays_blocked s s'"
  by (induction rule: rtranclp_induct) (auto intro: stays_blocked_trans stays_blocked_step)

lemma rows_counted: "db_ok s \<Longrightarrow> j \<in> set (jobs s) \<Longrightarrow> counted j"
  by (simp add: db_ok_def counted_def)

text \<open>Being reached by steps from a good database is itself a property of the contract.\<close>

definition reached_from :: "adm \<Rightarrow> db \<Rightarrow> db \<Rightarrow> bool" where
  "reached_from a s0 s \<longleftrightarrow> db_ok s \<and> (pool_step a)\<^sup>*\<^sup>* s0 s"

interpretation reached: pool_invariant c "reached_from (admission c) s0" for c s0
  by unfold_locales
    (auto simp: reached_from_def intro: db_ok_pool_step rows_counted rtranclp.rtrancl_into_rtrancl)

lemma follows_iff:
  fixes m :: "('w pool, 'b) prog"
  shows "follows a m \<longleftrightarrow> (\<forall>s0. keeps (on_db (reached_from a s0)) m)"
proof
  assume f: "follows a m"
  show "\<forall>s0. keeps (on_db (reached_from a s0)) m"
  proof (intro allI keepsI)
    fix s0 p r p'
    assume p: "on_db (reached_from a s0) p" and m: "m p = (r, p')"
    from p have ok: "db_ok (fst p)" "(pool_step a)\<^sup>*\<^sup>* s0 (fst p)"
      by (simp_all add: on_db_def reached_from_def)
    with f m have "(pool_step a)\<^sup>*\<^sup>* (fst p) (fst p')"
      unfolding follows_def by (metis prod.collapse snd_conv)
    with ok show "on_db (reached_from a s0) p'"
      by (auto simp: on_db_def reached_from_def intro: db_ok_steps)
  qed
next
  assume k: "\<forall>s0. keeps (on_db (reached_from a s0)) m"
  show "follows a m"
    unfolding follows_def
  proof (intro allI impI)
    fix s and w :: 'w assume "db_ok s"
    then have "on_db (reached_from a s) (s, w)" by (simp add: on_db_def reached_from_def)
    with k have "on_db (reached_from a s) (snd (m (s, w)))" unfolding keeps_def by blast
    then show "(pool_step a)\<^sup>*\<^sup>* s (fst (snd (m (s, w))))" by (simp add: on_db_def reached_from_def)
  qed
qed

lemma round_follows:
  "follows (admission c) (supervisor_round c X prompt L cfg Q delay)"
  by (simp add: follows_iff reached.keeps_supervisor_round)

lemma startup_follows: "follows (admission c) (startup c X)"
  by (simp add: follows_iff reached.keeps_startup)

text \<open>
  C4: a round of the supervisor (every handler, whatever the commands it runs answer and whatever
  exception ends it) refines the specification: from a well-formed database it reaches its final
  database through steps of the scheduler, the admission ledger and the lanes alone.
\<close>

theorem round_refines_steps:
  assumes "db_ok s"
    and "supervisor_round c X prompt L cfg Q delay (s, w) = (r, (s', w'))"
  shows "(pool_step (admission c))\<^sup>*\<^sup>* s s'"
  using round_follows [of c X prompt L cfg Q delay] assms(1,2)
  unfolding follows_def by (metis fst_conv snd_conv)

subsection \<open>The running supervisor\<close>

text \<open>
  The databases of a run: the supervisor starts on an empty database, makes rounds, the outside
  world changes by itself, and the operator resets quota groups or writes settings.
\<close>

inductive running ::
  "sup \<Rightarrow> 'w os \<Rightarrow> prompt \<Rightarrow> 'w lane \<Rightarrow> json \<Rightarrow> 'w qa_env \<Rightarrow> db \<Rightarrow> bool"
  for c X prompt L cfg Q where
  run_start: "0 \<le> capacity (empty_db cap) \<Longrightarrow> startup c X (empty_db cap, w) = (r, (s, w')) \<Longrightarrow>
    running c X prompt L cfg Q s"
| run_round: "running c X prompt L cfg Q s \<Longrightarrow>
    supervisor_round c X prompt L cfg Q delay (s, w) = (r, (s', w')) \<Longrightarrow> running c X prompt L cfg Q s'"
| run_reset: "running c X prompt L cfg Q s \<Longrightarrow> reset (admission c) now name s = Inr s' \<Longrightarrow>
    running c X prompt L cfg Q s'"
| run_operator: "running c X prompt L cfg Q s \<Longrightarrow> pool_step (admission c) s s' \<Longrightarrow>
    running c X prompt L cfg Q s'"

lemma same_core_reset: "reset a now name s = Inr s' \<Longrightarrow> same_core s s'"
  by (auto simp: reset_def split: if_splits sum.splits dest!: same_core_ensure)

lemma pool_ok_reset:
  assumes "reset a now name s = Inr s'" and "wf_groups a" and "pool_ok a s"
  shows "pool_ok a s'"
proof -
  have adm: "adm_step a (capacity s) s s'" using assms(1) by (rule a_reset)
  have "capacity s' = capacity s"
    using same_core_reset [OF assms(1)]
    by (simp add: same_core_def capacity_def sget_def split: option.split)
  then show ?thesis
    using assms(3) lease_ok_step [OF adm] groups_ok_step [OF adm assms(2)]
      db_ok_core [OF same_core_reset [OF assms(1)]]
    by (simp add: pool_ok_def)
qed

lemma pool_ok_empty: "0 \<le> capacity (empty_db cap) \<Longrightarrow> pool_ok a (empty_db cap)"
  by (simp add: pool_ok_def db_ok_empty lease_ok_def groups_ok_def) (simp add: empty_db_def)

lemma follows_pool_ok:
  assumes "follows a m" and "wf_groups a" and "pool_ok a s" and "m (s, w) = (r, (s', w'))"
  shows "pool_ok a s'"
  using assms pool_ok_steps [OF _ assms(2,3)] unfolding follows_def pool_ok_def
  by (metis fst_conv snd_conv)

lemma running_ok:
  assumes "running c X prompt L cfg Q s" and "wf_groups (admission c)"
  shows "pool_ok (admission c) s"
  using assms
proof (induction rule: running.induct)
  case (run_start cap w r s w')
  show ?case
    by (rule follows_pool_ok [OF startup_follows run_start(3) pool_ok_empty [OF run_start(1)] run_start(2)])
next
  case (run_round s delay w r s' w')
  show ?case
    by (rule follows_pool_ok [OF round_follows run_round.prems
          run_round.IH [OF run_round.prems] run_round.hyps(2)])
qed (auto intro: pool_ok_reset pool_ok_step)

text \<open>
  C2: in every run, through any number of rounds, failures, restarts of the outside world and
  operator resets: the inference leases never exceed the agent capacity, no owner and no clone is
  leased twice, no two live jobs share a worker, repair counts stay within 0..3, and the target of
  every quota group stays between its configured minimum and ceiling.
\<close>

theorem running_pool_sound:
  assumes "running c X prompt L cfg Q s" and "wf_groups (admission c)"
  shows "int (length (leases s)) \<le> capacity s \<and> distinct (map l_owner (leases s))
    \<and> distinct (filter (\<lambda>k. k \<noteq> None) (map l_clone (leases s)))
    \<and> live_unique (jobs s) \<and> list_all counted (jobs s)
    \<and> list_all (row_ok (admission c)) (groups s)"
  using running_ok [OF assms] rows_counted
  by (auto simp: pool_ok_def lease_ok_def groups_ok_def db_ok_def list_all_iff)

text \<open>
  No round of the supervisor reopens a quota group that an authentication or credit failure
  blocked; only the operator's reset does.
\<close>

lemma round_never_unblocks:
  assumes "db_ok s"
    and "supervisor_round c X prompt L cfg Q delay (s, w) = (r, (s', w'))"
    and "grow_of n s = Some g" and "g_mode g = BlockedMode"
  shows "\<exists>g'. grow_of n s' = Some g' \<and> g_mode g' = BlockedMode"
proof -
  have "(pool_step (admission c))\<^sup>*\<^sup>* s s'"
    using round_follows [of c X prompt L cfg Q delay] assms(1,2)
    unfolding follows_def by (metis fst_conv snd_conv)
  from stays_blocked_steps [OF this] assms(3,4) show ?thesis unfolding stays_blocked_def by blast
qed

subsection \<open>The loop survives\<close>

definition never_raises :: "('s, 'a) prog \<Rightarrow> bool" where
  "never_raises m \<longleftrightarrow> (\<forall>s. \<exists>x s'. m s = (Inr x, s'))"

lemma never_raises_intros:
  "never_raises (ret x)" "never_raises (put f)"
  "never_raises m \<Longrightarrow> never_raises n \<Longrightarrow> never_raises (and_then m n)"
  "(b \<Longrightarrow> never_raises u) \<Longrightarrow> never_raises (only_if b u)"
  by (auto simp: never_raises_def put_def transact_def and_then_def doing_def only_if_def
      split: prod.splits sum.splits) (metis Inr_not_Inl fst_conv)


subsection \<open>A scripted supervisor\<close>

text \<open>
  A pool with one model, an inventory of one ready issue and commands that all succeed: the round
  dispatches the issue to the first worker. With \<open>demo_down\<close> every command fails instead.
\<close>

definition quoted_pair :: "string \<Rightarrow> string \<Rightarrow> string" where
  "quoted_pair k v = dump_str k @ '':'' @ dump_str v @ '',''"

definition demo_issue_row :: json where
  "demo_issue_row = JObj [(''number'', JInt 1), (''title'', JStr ''T''),
     (''body'', JStr (task_prefix @ ''{'' @ quoted_pair ''key'' ''k1'' @ quoted_pair ''group'' ''g''
        @ quoted_pair ''area'' ''engineering'' @ dump_str ''dependencies'' @ '':[]} -->'')),
     (''labels'', JList [JObj [(''name'', JStr ''agent:ready'')]]), (''state'', JStr ''OPEN'')]"

definition demo_answer :: "string list \<Rightarrow> string" where
  "demo_answer args =
     (if take 2 (tl args) = [''issue'', ''list''] then dumps (\<lambda>_. []) (JList [demo_issue_row])
      else if take 2 (tl args) = [''pr'', ''list''] then ''[]''
      else if last args = ''--show-current'' then ''codex/issue-1-1'' else [])"

definition demo_os :: "string list list os" where
  "demo_os = demo_gh\<lparr>exec := (\<lambda>_ args w.
     (Inr \<lparr>returncode = 0, stdout = demo_answer args, stderr = []\<rparr>, w @ [args]))\<rparr>"

definition demo_down :: "string list list os" where
  "demo_down = demo_gh\<lparr>exec := (\<lambda>_ args w.
     (Inr \<lparr>returncode = 1, stdout = [], stderr = ''API quota exceeded''\<rparr>, w @ [args]))\<rparr>"

definition demo_sup :: sup where
  "demo_sup = \<lparr>models = [''swe''], model_caps = (\<lambda>_. None), admission = demo_adm, factory_cfg = None,
     rt = \<lparr>pool_root = ''/p'', state_root = ''/s'', rt_repository = ''o/r'', rt_timeout = 7200,
           launch_spacing = 0\<rparr>,
     repo = ''o/r'', required_checks = [''ci''], sup_root = ''/s'', planning_enabled = False,
     poll_seconds = 60\<rparr>"

definition demo_lane :: "string list list lane" where
  "demo_lane = \<lparr>planner_text = (\<lambda>_ _ _ _. []), review_text = (\<lambda>_ _ _ _. []), day_stamp = (\<lambda>_. []),
     slot_at = (\<lambda>_. 0), stage_resources = (\<lambda>_. ret []), iso_parse = (\<lambda>_. None)\<rparr>"

definition demo_qa :: "string list list qa_env" where
  "demo_qa = \<lparr>qa_config = JObj [(''qa'', JObj [(''enabled'', JBool True), (''mode'', JStr ''route'')])],
     qa_iso = (\<lambda>_. None), qa_digest = id, qa_home = id, qa_scenarios = [],
     qa_send = (\<lambda>_ _ w. (Inr (0, []), w))\<rparr>"

definition demo_prompt :: prompt where
  "demo_prompt _ _ _ = ''do it''"

definition demo_round :: "string list list os \<Rightarrow> db \<Rightarrow> time res \<times> string list list pool" where
  "demo_round X s = supervisor_round demo_sup X demo_prompt demo_lane (JObj []) demo_qa 60 (s, [])"

lemma demo_adm_wf: "wf_groups (admission demo_sup)"
  by code_simp

lemma db_ok_demo: "db_ok (demo_db m t)"
  by (simp add: db_ok_def demo_db_def empty_db_def live_unique_def event_keys_def merged_rows_def sget_def)

lemma demo_round_pair: "demo_round X s = (fst (demo_round X s), (fst (snd (demo_round X s)), snd (snd (demo_round X s))))"
  by simp

lemma demo_down_ends: "fst (demo_round demo_down (empty_db None)) = Inr 120
    \<and> paused (fst (snd (demo_round demo_down (empty_db None))))"
proof -
  define w where "w = snd (gh_issues demo_down (repo demo_sup) ''all'' [])"
  define e where "e = GitHubError ''API quota exceeded''"
  have rows: "gh_issues demo_down (repo demo_sup) ''all'' [] = (Inl e, w)"
    unfolding w_def e_def by code_simp
  have "in_factory demo_sup = False" "list_ex (\<lambda>k. in_text k (lower (exn_text e))) halting_words"
    unfolding e_def by code_simp+
  then show ?thesis
    by (simp add: demo_round_def supervisor_round_def try_else_def doing_def io_def rows pass_failed_def
        only_if_def set_setting_def put_def transact_def and_then_def backed_off_def paused_def
        pause_def sget_def sset_def)
qed

theorem round_refines_steps_witness:
  "(pool_step demo_adm)\<^sup>*\<^sup>* (empty_db None) (fst (snd (demo_round demo_os (empty_db None))))
   \<and> (pool_step demo_adm)\<^sup>*\<^sup>* (empty_db None) (fst (snd (demo_round demo_down (empty_db None))))
   \<and> paused (fst (snd (demo_round demo_down (empty_db None))))"
  using round_refines_steps [OF db_ok_empty demo_round_pair [unfolded demo_round_def]]
    demo_down_ends
  by (simp add: demo_round_def demo_sup_def)

theorem running_pool_sound_witness:
  "\<exists>s. running demo_sup demo_os demo_prompt demo_lane (JObj []) demo_qa s
     \<and> int (length (leases s)) \<le> capacity s \<and> distinct (map l_owner (leases s))
     \<and> live_unique (jobs s)"
proof -
  have "startup demo_sup demo_os (empty_db None, []) = (fst (startup demo_sup demo_os (empty_db None, [])),
      (fst (snd (startup demo_sup demo_os (empty_db None, []))),
       snd (snd (startup demo_sup demo_os (empty_db None, [])))))"
    by simp
  from run_start [OF _ this]
  have "running demo_sup demo_os demo_prompt demo_lane (JObj []) demo_qa
      (fst (snd (startup demo_sup demo_os (empty_db None, []))))"
    by (simp add: capacity_def empty_db_def sget_def)
  from run_round [OF this demo_round_pair [unfolded demo_round_def]]
  have "running demo_sup demo_os demo_prompt demo_lane (JObj []) demo_qa
      (fst (snd (demo_round demo_os (fst (snd (startup demo_sup demo_os (empty_db None, [])))))))"
    unfolding demo_round_def .
  from this running_pool_sound [OF this demo_adm_wf] show ?thesis by blast
qed

end
