(* ===== verification/RetryBudget.thy ===== *)
theory RetryBudget
  imports PoolProps
begin

text \<open>
  The bounds of automatic work on one issue: how often a blocked job is retried without an
  operator, what the durable recovery record carries through a block and a failed recovery, and
  what a launch leaves in the admission ledger.
\<close>

subsection \<open>The budget fields of a recovery record\<close>

definition used_of :: "json \<Rightarrow> int" where "used_of rc = count_of ''quota_requeues'' rc"
definition resets_of :: "json \<Rightarrow> int" where "resets_of rc = count_of ''quota_requeue_resets'' rc"
definition held :: "json \<Rightarrow> bool" where "held rc \<longleftrightarrow> truthy (jget_or rc ''quota_episode'' JNull)"

text \<open>Another write of the record: the counters stay, and no episode is opened.\<close>

definition same_budget :: "json \<Rightarrow> json \<Rightarrow> bool" where
  "same_budget rc rc' \<longleftrightarrow> used_of rc' = used_of rc \<and> resets_of rc' = resets_of rc \<and> (held rc' \<longrightarrow> held rc)"

lemma same_budget_refl [simp]: "same_budget rc rc"
  by (simp add: same_budget_def)

lemma same_budget_trans: "same_budget a b \<Longrightarrow> same_budget b d \<Longrightarrow> same_budget a d"
  by (simp add: same_budget_def)

lemma falsy_fields: "\<not> truthy j \<Longrightarrow> jget_or j k d = d"
  by (cases j) (auto simp: jget_or_def jget_def)

lemma jget_or_empty [simp]: "jget_or (or_empty rc) k d = jget_or rc k d"
  by (simp add: or_empty_def falsy_fields)

lemma count_or_empty [simp]: "count_of k (or_empty rc) = count_of k rc"
  by (simp add: count_of_def)

lemma held_or_empty [simp]: "held (or_empty rc) = held rc"
  by (simp add: held_def)

lemmas budget_defs = same_budget_def used_of_def resets_of_def held_def count_of_def jupdate_def

text \<open>Every other write of the supervisor keeps the budget.\<close>

lemma same_budget_writes:
  "same_budget rc (with_branch j rc)" "same_budget rc (done_record rc target)"
  "same_budget rc (jset ''phase'' v rc)" "same_budget rc (uncertain e rc)"
  "same_budget rc (jupdate [(''phase'', v1), (''target_clone'', v2), (''worker'', v3)] rc)"
  "same_budget rc (jupdate [(''phase'', v1), (''attempts'', v2), (''detail'', v3)] rc)"
  by (simp_all add: budget_defs with_branch_def done_record_def uncertain_def)

lemma fresh_counts:
  "jget_or (fresh_record j prev now) ''quota_requeues'' d = jget_or prev ''quota_requeues'' (JInt 0)"
  "jget_or (fresh_record j prev now) ''quota_requeue_resets'' d = jget_or prev ''quota_requeue_resets'' (JInt 0)"
  "jget_or (fresh_record j prev now) ''quota_episode'' d = jget_or prev ''quota_episode'' JNull"
  by (simp_all add: fresh_record_def carried_def jget_or_def [of "JObj _"] jget_def)

lemma same_budget_fresh: "same_budget prev (fresh_record j (or_empty prev) now)"
  by (simp add: budget_defs fresh_counts)

lemma same_budget_committed: "gives (same_budget rc) (committed_verdict X place head rc)"
  unfolding committed_verdict_def by (intro gives_intros) (simp_all add: budget_defs)

lemma same_budget_verdict:
  "gives (\<lambda>r. same_budget rc (fst r)) (survey_verdict X branch dirs sources errors head err rc)"
proof -
  have known: "gives (\<lambda>r. same_budget rc (fst r)) (doing (committed_verdict X p h rc1) (\<lambda>r. ret (r, None)))"
    if "same_budget rc rc1" for p h rc1
    by (rule gives_doing_known [OF same_budget_committed], rule gives_basic)
      (use that in \<open>auto intro: same_budget_trans\<close>)
  show ?thesis
    unfolding survey_verdict_def Let_def
    by (intro gives_intros known) (simp_all add: budget_defs split: option.split)
qed

lemma same_budget_survey: "gives (\<lambda>r. same_budget rc (fst r)) (survey_preserved c X n rc)"
  unfolding survey_preserved_def Let_def by (intro gives_intros same_budget_verdict)

lemma gives_try_else_known:
  "gives R m \<Longrightarrow> (\<And>e. gives Q (h e)) \<Longrightarrow> (\<And>x. R x \<Longrightarrow> gives Q (f x)) \<Longrightarrow> gives Q (try_else m h f)"
  by (fastforce simp: gives_def try_else_def split: prod.splits sum.splits)

lemma same_budget_surveyed: "gives (same_budget rc) (surveyed c X j rc)"
  unfolding surveyed_def
  by (intro gives_if gives_basic gives_try_else_known [OF same_budget_survey])
    (auto intro!: gives_basic split: option.split simp: budget_defs uncertain_def)

subsection \<open>The automatic retries of one issue\<close>

text \<open>
  The history of the recovery record of one issue, with the number of retries the supervisor armed
  by itself: a failed invocation spends the episode budget or, once it is spent, holds for a quiet
  window; the quiet window re-arms; any other write keeps the counters.
\<close>

inductive retry_history :: "sup \<Rightarrow> int \<Rightarrow> nat \<Rightarrow> db \<Rightarrow> bool" for c n where
  rh_start: "record_of n s = JNull \<Longrightarrow> retry_history c n 0 s"
| rh_arm: "retry_history c n k s \<Longrightarrow> j_issue j = n \<Longrightarrow>
    used_of (record_of n s) < max_quota_requeues (admission c) \<Longrightarrow>
    retry_history c n (Suc k) (requeue_quota c now j cat hint s)"
| rh_hold: "retry_history c n k s \<Longrightarrow> j_issue j = n \<Longrightarrow>
    \<not> used_of (record_of n s) < max_quota_requeues (admission c) \<Longrightarrow>
    retry_history c n k (requeue_quota c now j cat hint s)"
| rh_rearm: "retry_history c n k s \<Longrightarrow>
    quiet_episode_rearm c now n (record_of n s) s = (s', Some r) \<Longrightarrow> retry_history c n (Suc k) s'"
| rh_quiet: "retry_history c n k s \<Longrightarrow>
    quiet_episode_rearm c now n (record_of n s) s = (s', None) \<Longrightarrow> retry_history c n k s'"
| rh_other: "retry_history c n k s \<Longrightarrow> same_budget (record_of n s) (record_of n s') \<Longrightarrow>
    retry_history c n k s'"

text \<open>What is left to arm: a full episode per remaining reset, and the rest of the present one.\<close>

definition retries_left :: "adm \<Rightarrow> json \<Rightarrow> int" where
  "retries_left a rc =
     (max_quota_requeue_resets a - resets_of rc) * (max_quota_requeues a + 1)
     + max 0 (max_quota_requeues a - used_of rc)"

definition record_bounded :: "adm \<Rightarrow> json \<Rightarrow> bool" where
  "record_bounded a rc \<longleftrightarrow> resets_of rc \<le> max_quota_requeue_resets a
     \<and> (held rc \<longrightarrow> resets_of rc < max_quota_requeue_resets a)"

lemma record_arm [simp]: "record_of n (arm n rc cause s) = rc"
  by (simp add: record_of_def arm_def recovery_key_def retry_key_def nkey_def)

lemma requeue_arms:
  assumes "factory_cfg c = None" and "used_of (record_of (j_issue j) s) < max_quota_requeues (admission c)"
  shows "used_of (record_of (j_issue j) (requeue_quota c now j cat hint s)) = used_of (record_of (j_issue j) s) + 1
    \<and> resets_of (record_of (j_issue j) (requeue_quota c now j cat hint s)) = resets_of (record_of (j_issue j) s)
    \<and> held (record_of (j_issue j) (requeue_quota c now j cat hint s)) = held (record_of (j_issue j) s)"
  using assms by (simp add: requeue_quota_def Let_def budget_defs)

lemma requeue_holds:
  assumes "factory_cfg c = None" and "\<not> used_of (record_of (j_issue j) s) < max_quota_requeues (admission c)"
    and "record_bounded (admission c) (record_of (j_issue j) s)"
  shows "retries_left (admission c) (record_of (j_issue j) (requeue_quota c now j cat hint s))
      = retries_left (admission c) (record_of (j_issue j) s)
    \<and> record_bounded (admission c) (record_of (j_issue j) (requeue_quota c now j cat hint s))"
  using assms
  by (auto simp: requeue_quota_def Let_def budget_defs retries_left_def record_bounded_def record_of_def)

lemma rearm_spends:
  assumes "quiet_episode_rearm c now n (record_of n s) s = (s', Some r)"
    and "record_bounded (admission c) (record_of n s)" and "0 \<le> max_quota_requeues (admission c)"
  shows "retries_left (admission c) (record_of n s') < retries_left (admission c) (record_of n s)
    \<and> record_bounded (admission c) (record_of n s')"
proof -
  have h: "held (record_of n s)" and
    new: "used_of (record_of n s') = 0" "resets_of (record_of n s') = resets_of (record_of n s) + 1"
      "\<not> held (record_of n s')"
    using assms(1)
    by (auto simp: quiet_episode_rearm_def Let_def budget_defs split: if_splits)
  have "retries_left (admission c) (record_of n s') + 1 =
      (max_quota_requeue_resets (admission c) - resets_of (record_of n s)) * (max_quota_requeues (admission c) + 1)"
    using assms(3) new by (simp add: retries_left_def algebra_simps)
  with h new assms(2) show ?thesis by (simp add: retries_left_def record_bounded_def)
qed

lemma retry_history_budget:
  assumes "retry_history c n k s" and "factory_cfg c = None"
    and "0 \<le> max_quota_requeues (admission c)" and "0 \<le> max_quota_requeue_resets (admission c)"
  shows "int k + retries_left (admission c) (record_of n s)
      \<le> (max_quota_requeue_resets (admission c) + 1) * (max_quota_requeues (admission c) + 1) - 1
    \<and> record_bounded (admission c) (record_of n s)"
  using assms
proof (induction rule: retry_history.induct)
  case (rh_start s)
  then show ?case
    by (simp add: retries_left_def record_bounded_def budget_defs jget_or_def jget_def algebra_simps)
next
  case (rh_arm k s j now cat hint)
  then show ?case
    using requeue_arms [of c j s now cat hint] by (simp add: retries_left_def record_bounded_def)
next
  case (rh_hold k s j now cat hint)
  then show ?case using requeue_holds [of c j s now cat hint] by simp
next
  case (rh_rearm k s now s' r)
  then show ?case using rearm_spends [OF rh_rearm(2)] by simp
next
  case (rh_quiet k s now s')
  then show ?case by (auto simp: quiet_episode_rearm_def Let_def split: if_splits)
next
  case (rh_other k s s')
  then show ?case by (auto simp: retries_left_def record_bounded_def same_budget_def)
qed


definition demo_failed :: db where
  "demo_failed = requeue_quota demo_sup 10 (new_job 0 4 ''worker-01'' ''g'') Timeout None (empty_db None)"


text \<open>
  The durable recovery record carries the retry budget of an issue through every block: the
  counters of the previous record survive the survey of the preserved work, and no congestion
  episode is opened by it.
\<close>

lemma capture_carries_budget:
  assumes "capture_recovery c X j (s, w) = (Inr rc, (s', w'))"
  shows "record_of (j_issue j) s' = rc \<and> same_budget (record_of (j_issue j) s) rc"
proof -
  obtain w2 where run: "surveyed c X j (fresh_record j (or_empty (record_of (j_issue j) s)) (clock X w)) w
      = (Inr rc, w2)" and s': "s' = sset (recovery_key (j_issue j)) rc s"
    using assms
    by (auto simp: capture_recovery_def doing_def setting_def get_def see_def io_def and_then_def
        set_setting_def put_def transact_def record_of_def recovery_key_def
        split: prod.splits sum.splits)
  from givesD [OF same_budget_surveyed run] s' show ?thesis
    by (auto simp: record_of_def intro: same_budget_trans same_budget_fresh)
qed

subsection \<open>Launching\<close>

text \<open>What a launch does after admission was granted never drops the lease.\<close>

definition leased :: "string \<Rightarrow> db \<Rightarrow> bool" where
  "leased owner s \<longleftrightarrow> lease_of owner s \<noteq> None"

lemma leased_cong: "leases s' = leases s \<Longrightarrow> leased owner s' = leased owner s"
  by (simp add: leased_def lease_of_def)

lemma leased_attach: "leased owner (attach now owner' i t s) = leased owner s"
  by (simp add: leased_def lease_of_def attach_def find_row_update_row)

lemma leased_update: "update_job now n fs s = Inr s' \<Longrightarrow> leased owner s' = leased owner s"
  by (rule leased_cong) (auto simp: update_job_def Let_def add_event_def split: if_splits option.splits)

lemma leased_sset: "leased owner (sset k v s) = leased owner s"
  by (rule leased_cong) simp

lemma leased_sup_update: "keeps (on_db (leased owner)) (sup_update X n fs)"
  unfolding sup_update_def by (intro keeps_timed keeps_attempt) (blast dest: leased_update)

lemma leased_set_setting: "keeps (on_db (leased owner)) (set_setting k v)"
  unfolding set_setting_def by (rule keeps_put) (simp only: leased_sset)

lemma leased_sup_attach: "keeps (on_db (leased owner)) (sup_attach X owner' m)"
  unfolding sup_attach_def by (intro keeps_timed keeps_put) (simp only: leased_attach)

lemmas leased_writes = leased_sup_update leased_set_setting leased_sup_attach

lemma leased_launch: "keeps (on_db (leased owner)) (launch_with c X prompt j i why)"
  unfolding launch_with_def Let_def by (intro keeps_intros leased_writes)

lemma reserve_leases:
  "adm_reserve a now owner model clone bound s = Inr (s', True) \<Longrightarrow> leased owner s'"
  using adm_reserve_spec [of a now owner model clone bound s]
  by (auto simp: leased_def lease_of_def find_row_append new_lease_def split: if_splits option.splits)



end
