(* ===== verification/QaReportProps.thy ===== *)
theory QaReportProps
  imports Findings
begin

text \<open>
  What the validator of a QA report guarantees, and that everything behind it is safe: an accepted
  report has bounded channels with unique keys and verdicts about the tested revision only, and
  adapting one to findings can fail only with the \<open>ValueError\<close> the inbox quarantines.
\<close>

subsection \<open>Which exception a validator raises\<close>

definition value_error :: "exn \<Rightarrow> bool" where
  "value_error e \<longleftrightarrow> (case e of ValueError _ \<Rightarrow> True | _ \<Rightarrow> False)"

definition rejects :: "check \<Rightarrow> bool" where
  "rejects c \<longleftrightarrow> (\<forall>e. c = Some e \<longrightarrow> value_error e)"

named_theorems rejects_intros \<open>validators that raise ValueError only\<close>

lemma rejects_ensure [rejects_intros]: "rejects (ensure b (ValueError m))"
  by (simp add: rejects_def value_error_def)

lemma rejects_None [rejects_intros]: "rejects None"
  by (simp add: rejects_def)

lemma rejects_Some [rejects_intros]: "rejects (Some (ValueError m))"
  by (simp add: rejects_def value_error_def)

lemma rejects_if [rejects_intros]: "rejects c \<Longrightarrow> rejects d \<Longrightarrow> rejects (if b then c else d)"
  by simp

lemma rejects_first_Nil [rejects_intros]: "rejects (first_exn [])"
  by (simp add: rejects_def)

lemma rejects_first_Cons [rejects_intros]:
  "rejects c \<Longrightarrow> rejects (first_exn cs) \<Longrightarrow> rejects (first_exn (c # cs))"
  by (cases c) (simp_all add: rejects_def)

lemma rejects_check_all [rejects_intros]:
  "(\<And>x. x \<in> set xs \<Longrightarrow> rejects (c x)) \<Longrightarrow> rejects (check_all c xs)"
  by (induction xs) (auto simp: rejects_def split: option.split)

lemma rejects_if_has [rejects_intros]: "(\<And>v. rejects (c v)) \<Longrightarrow> rejects (if_has j k c)"
  by (simp add: if_has_def rejects_def split: option.split)

lemma rejects_if_given [rejects_intros]: "(\<And>v. rejects (c v)) \<Longrightarrow> rejects (if_given j k c)"
  by (simp add: if_given_def rejects_def split: json.split)

lemma rejects_loop [rejects_intros]:
  "rejects c \<Longrightarrow> rejects d \<Longrightarrow> rejects (case c of Some e \<Rightarrow> Some e | None \<Rightarrow> d)"
  by (simp add: rejects_def split: option.split)

lemmas qa_checks =
  bounded_text_def bounded_list_n_def git_sha_def stable_key_def iso_check_def keyed_detail_def
  evidence_entry_def scenario_evidence_def validate_scenario_def validate_exploration_def
  check_ancestry_def wire_evidence_entry_def wire_evidence_def wire_verification_def
  check_version_def check_identity_def check_digest_def check_image_def check_host_def
  check_range_def check_cases_def check_verdict_def check_verification_channel_def
  check_limitation_def check_failure_def check_channel_def timeline_entry_def

lemma rejects_scenario: "rejects (validate_scenario v item)"
  unfolding qa_checks Let_def by (intro rejects_intros)

lemma rejects_scenarios: "rejects (check_scenarios v seen items)"
  by (induction items arbitrary: seen) (auto intro!: rejects_intros rejects_scenario)

lemma rejects_wire_verification: "rejects (wire_verification item)"
  unfolding qa_checks Let_def by (intro rejects_intros)

lemma rejects_verifications: "rejects (check_verifications done seen items)"
  by (induction items arbitrary: seen) (auto intro!: rejects_intros rejects_wire_verification)

text \<open>Every check of a report but the order of its two timestamps raises \<open>ValueError\<close> only.\<close>

definition mixed_offsets :: "iso \<Rightarrow> json \<Rightarrow> bool" where
  "mixed_offsets parse data \<longleftrightarrow>
     (\<exists>t0 t1 aware. iso_of parse (jget_or data ''started_at'' JNull) = Some (t0, aware)
        \<and> iso_of parse (jget_or data ''finished_at'' JNull) = Some (t1, \<not> aware))"

lemma rejects_order:
  "\<not> mixed_offsets parse data \<Longrightarrow>
    rejects (check_order parse (jget_or data ''started_at'' JNull) (jget_or data ''finished_at'' JNull))"
  by (auto simp: check_order_def mixed_offsets_def rejects_def value_error_def split: option.split prod.split)

lemma rejects_report:
  assumes "\<not> mixed_offsets parse data"
  shows "rejects (check_report parse r a v data)"
proof -
  have run: "rejects (check_run parse data)"
    unfolding check_run_def Let_def iso_check_def by (intro rejects_intros rejects_order assms)
  show ?thesis
    unfolding check_report_def Let_def
    by (intro rejects_intros run) (unfold qa_checks Let_def,
        (intro rejects_intros rejects_scenarios rejects_verifications)+)
qed

lemma rejected_report:
  assumes "validate_qa_report parse r a text = Inl e"
  shows "value_error e \<or> (\<exists>data. loads text = Some data \<and> mixed_offsets parse data)"
  using assms rejects_report
  by (fastforce simp: validate_qa_report_def rejects_def value_error_def split: option.splits if_splits)

subsection \<open>An accepted report\<close>

lemma accepted_report:
  assumes "validate_qa_report parse r a text = Inr data"
  shows "loads text = Some data" and "fields_between data required_top report_fields"
    and "\<exists>v. schema_version data = Some v \<and> check_report parse r a v data = None"
  using assms by (auto simp: validate_qa_report_def split: option.splits if_splits)

lemma check_scenarios_None:
  "check_scenarios v seen items = None \<longleftrightarrow>
     (\<forall>i \<in> set items. validate_scenario v i = None) \<and> distinct (map (fstr ''key'') items)
     \<and> set (map (fstr ''key'') items) \<inter> set seen = {}"
  by (induction items arbitrary: seen) (auto split: option.split)

lemma check_verifications_None:
  "check_verifications completed seen items = None \<longleftrightarrow>
     (\<forall>i \<in> set items. wire_verification i = None
        \<and> (str_in (jget_or i ''outcome'' JNull) [''passed'', ''failed''] \<longrightarrow> jget_or i ''tested_sha'' JNull = completed))
     \<and> distinct (map (fstr ''finding_key'') items)
     \<and> set (map (fstr ''finding_key'') items) \<inter> set seen = {}"
  by (induction items arbitrary: seen) (auto split: option.split)

text \<open>The channels of a report.\<close>

definition cases_of :: "json \<Rightarrow> json list" where
  "cases_of data = items_of (jget_or data ''scenarios'' JNull)"

definition verdicts_of :: "json \<Rightarrow> json list" where
  "verdicts_of data = items_of (given_or_empty data ''verifications'')"

lemma accepted_parts:
  assumes "validate_qa_report parse r a text = Inr data"
  shows "\<exists>v. check_scenarios v [] (cases_of data) = None"
    and "check_verifications (jget_or data ''completed_sha'' JNull) [] (verdicts_of data) = None"
    and "check_verdict data = None" and "length (cases_of data) \<le> max_scenarios"
    and "length (verdicts_of data) \<le> max_verifications"
    and "is_list (given_or_empty data ''verifications'')"
  using accepted_report(3) [OF assms]
  by (auto simp: check_report_def first_exn_None_iff check_cases_def check_verification_channel_def
      cases_of_def verdicts_of_def Let_def)

subsection \<open>Adapting an accepted report\<close>

lemma derived_keyed: "d \<in> set (derived_findings data) \<Longrightarrow> is_str (jget_or d ''key'' JNull)"
  by (auto simp: derived_findings_def keyed_finding_def scenario_finding_def blocked_finding_def
      failed_finding_def Let_def jget_or_def jget_def)

lemma evidence_shape:
  "e \<in> set (scenario_evidence_entries s data) \<Longrightarrow> evidence_detail e = e \<and> jget e ''detail'' \<noteq> None"
  by (auto simp: scenario_evidence_entries_def Let_def evidence_of_def observation_of_def
      evidence_detail_def jget_def split: if_splits)

lemma derived_evidence:
  assumes "d \<in> set (derived_findings data)" and "e \<in> set (items_of (jget_or d ''evidence'' JNull))"
  shows "jget (evidence_detail e) ''detail'' \<noteq> None"
  using assms
  by (auto simp: derived_findings_def keyed_finding_def scenario_finding_def blocked_finding_def
      failed_finding_def Let_def jget_or_def jget_def evidence_detail_def
      dest!: evidence_shape split: if_splits)

lemma rejects_True [rejects_intros]: "b \<Longrightarrow> rejects (ensure b e)"
  by (simp add: rejects_def)

lemma rejects_finding:
  assumes "is_str (jget_or d ''key'' JNull)"
    and "\<And>e. e \<in> set (items_of (jget_or d ''evidence'' JNull)) \<Longrightarrow> jget (evidence_detail e) ''detail'' \<noteq> None"
  shows "rejects (check_finding d)"
proof -
  have entries: "rejects (check_all finding_evidence
      (map evidence_detail (items_of (jget_or d ''evidence'' JNull))))"
    unfolding finding_evidence_def bounded_text_def
    by (rule rejects_check_all) (use assms(2) in \<open>auto intro!: rejects_intros\<close>)
  show ?thesis
    unfolding check_finding_def check_reproduction_def bounded_text_def Let_def
    by (intro rejects_intros assms(1) entries)
qed

lemma first_by_key_subset: "set (first_by_key seen xs) \<subseteq> set xs"
  by (induction seen xs rule: first_by_key.induct) auto

lemma map_res_Inl: "map_res f xs = Inl e \<Longrightarrow> \<exists>x \<in> set xs. f x = Inl e"
  by (induction xs) (auto split: sum.splits)

lemma derive_rejects: "derive_findings data = Inl e \<Longrightarrow> value_error e"
proof -
  assume "derive_findings data = Inl e"
  then obtain d where d: "d \<in> set (derived_findings data)" "validate_finding d = Inl e"
    using map_res_Inl first_by_key_subset unfolding derive_findings_def by blast
  with rejects_finding [OF derived_keyed derived_evidence] show ?thesis
    by (auto simp: validate_finding_def rejects_def split: option.splits)
qed

lemma rejects_entry:
  assumes "wire_verification v = None"
  shows "rejects (check_entry v)"
proof -
  have sha: "is_str (jget_or v ''fix_sha'' JNull)" "is_str (jget_or v ''tested_sha'' JNull)"
    using assms by (simp_all add: wire_verification_def git_sha_def Let_def first_exn_None_iff)
  have ev: "is_str e \<or> is_obj e"
    if "jget_or v ''evidence'' JNull = JList es" "e \<in> set es" for es e
    using assms that
    by (auto simp: wire_verification_def wire_evidence_def wire_evidence_entry_def if_given_def
        Let_def first_exn_None_iff check_all_None_iff fields_between_def split: if_splits)
  have evidence: "rejects (if_given v ''evidence'' (\<lambda>w. first_exn
      [ensure (is_list w \<and> length (items_of w) \<le> 20) (ValueError ''Invalid verification evidence''),
       check_all entry_evidence (items_of w)]))"
    unfolding if_given_def entry_evidence_def bounded_text_def
    by (auto split: json.split intro!: rejects_intros dest: ev)
  have shas: "rejects (optional_sha v ''fix_sha'')" "rejects (optional_sha v ''tested_sha'')"
    unfolding optional_sha_def if_given_def using sha
    by (auto split: json.split intro!: rejects_intros)
  show ?thesis
    unfolding check_entry_def Let_def stable_key_def bounded_text_def check_ancestry_def
    by (intro rejects_intros evidence shas)
qed

lemma adapt_rejects:
  assumes "validate_qa_report parse r a text = Inr data" and "adapt_report data = Inl e"
  shows "value_error e"
proof (cases "derive_findings data")
  case (Inl x)
  with assms(2) derive_rejects [of data x] show ?thesis by (simp add: adapt_report_def Let_def)
next
  case (Inr fs)
  with assms(2) have "map_res validate_verification (verdicts_of data) = Inl e"
    by (auto simp: adapt_report_def Let_def verdicts_of_def res_bind_def split: sum.splits)
  then obtain v where v: "v \<in> set (verdicts_of data)" "validate_verification v = Inl e"
    using map_res_Inl by blast
  moreover have "wire_verification v = None"
    using accepted_parts(2) [OF assms(1)] v(1) by (auto simp: check_verifications_None)
  ultimately show ?thesis
    using rejects_entry [of v] by (auto simp: validate_verification_def rejects_def split: option.splits)
qed

subsection \<open>The properties\<close>


text \<open>
  C17: an accepted report applies its verdict only to the revision that was tested: passed means
  every case passed, failed means some case failed, both mean that the completed revision is the
  attempted one, and a verification that passed or failed was run on that revision. Scenario keys
  and verified findings are unique, and both channels bounded.
\<close>

theorem accepted_verdict_sound:
  assumes "validate_qa_report parse r a text = Inr data"
  shows "(jget_or data ''outcome'' JNull = JStr ''passed'' \<longrightarrow>
       cases_of data \<noteq> [] \<and> (\<forall>s \<in> set (cases_of data). jget_or s ''outcome'' JNull = JStr ''passed''))
    \<and> (jget_or data ''outcome'' JNull = JStr ''failed'' \<longrightarrow>
       (\<exists>s \<in> set (cases_of data). jget_or s ''outcome'' JNull = JStr ''failed''))
    \<and> (jget_or data ''outcome'' JNull \<in> {JStr ''passed'', JStr ''failed''} \<longrightarrow>
       jget_or data ''completed_sha'' JNull = jget_or data ''attempted_sha'' JNull)
    \<and> (\<forall>v \<in> set (verdicts_of data). jget_or v ''outcome'' JNull \<in> {JStr ''passed'', JStr ''failed''} \<longrightarrow>
       jget_or v ''tested_sha'' JNull = jget_or data ''completed_sha'' JNull)
    \<and> distinct (map (fstr ''key'') (cases_of data))
    \<and> distinct (map (fstr ''finding_key'') (verdicts_of data))
    \<and> length (cases_of data) \<le> 64 \<and> length (verdicts_of data) \<le> 40"
proof -
  have os: "outcomes_of (jget_or data ''scenarios'' JNull)
      = map (\<lambda>s. jget_or s ''outcome'' JNull) (cases_of data)"
    by (simp add: outcomes_of_def cases_of_def)
  have verdict: "str_in o1 [''passed'', ''failed''] \<longleftrightarrow> o1 \<in> {JStr ''passed'', JStr ''failed''}" for o1
    by (cases o1) (auto simp: str_in_def)
  show ?thesis
    using accepted_parts [OF assms]
    by (auto simp: check_verdict_def os verdict check_scenarios_None check_verifications_None Let_def
        first_exn_None_iff list_ex_iff max_scenarios_def max_verifications_def)
qed

text \<open>What a scenario contributes to the evidence of its finding.\<close>

definition evidence_count :: "json \<Rightarrow> nat" where
  "evidence_count s =
     length (items_of (given_or_empty s ''evidence'')) + length (items_of (given_or_empty s ''observations''))"

lemma first_by_key_mem:
  "x \<in> set xs \<Longrightarrow> fstr ''key'' x \<notin> set seen \<Longrightarrow>
    (\<forall>y \<in> set xs. fstr ''key'' y = fstr ''key'' x \<longrightarrow> y = x) \<Longrightarrow> x \<in> set (first_by_key seen xs)"
  by (induction seen xs rule: first_by_key.induct) auto

lemma map_res_all: "map_res f xs = Inr ys \<Longrightarrow> x \<in> set xs \<Longrightarrow> \<exists>y. f x = Inr y"
  by (induction xs arbitrary: ys) (auto split: sum.splits)

lemma scenario_finding_key: "fstr ''key'' (scenario_finding data s) = fstr ''key'' s"
  by (simp add: scenario_finding_def blocked_finding_def failed_finding_def fstr_def jget_or_def jget_def Let_def)

lemma keyed_finding_key: "fstr ''key'' (keyed_finding data k i) = fstr ''key'' i"
  by (simp add: keyed_finding_def fstr_def jget_or_def jget_def Let_def)

lemma scenario_finding_evidence:
  "jget_or (scenario_finding data s) ''evidence'' JNull = JList (scenario_evidence_entries s data)"
  by (simp add: scenario_finding_def blocked_finding_def failed_finding_def jget_or_def jget_def Let_def)

definition channel_keys :: "json \<Rightarrow> string set" where
  "channel_keys data = fstr ''key'' ` set (items_of (jget_or data ''capability_limitations'' JNull)
     @ items_of (jget_or data ''infrastructure_failures'' JNull))"


subsection \<open>A concrete report\<close>

definition demo_iso :: iso where
  "demo_iso t = (if t = ''t0'' then Some (0, True) else if t = ''t1'' then Some (60, True)
     else if t = ''local'' then Some (0, False) else None)"

definition demo_sha :: string where
  "demo_sha = replicate 40 CHR ''a''"

definition demo_case :: "string \<Rightarrow> nat \<Rightarrow> json" where
  "demo_case result n =
     JObj [(''key'', JStr ''failover''), (''title'', JStr ''Failover''), (''expected'', JStr ''A takes over''),
           (''outcome'', JStr result), (''observations'', JList (replicate n (JStr ''seen'')))]"

definition demo_report :: "string \<Rightarrow> string \<Rightarrow> nat \<Rightarrow> json list \<Rightarrow> json" where
  "demo_report started result n vs =
     JObj [(''schema_version'', JInt 3), (''run_id'', JStr ''qa-1''), (''attempted_sha'', JStr demo_sha),
           (''completed_sha'', JStr demo_sha), (''image'', JNull), (''started_at'', JStr started),
           (''finished_at'', JStr ''t1''), (''outcome'', JStr result),
           (''scenarios'', JList [demo_case result n]), (''capability_limitations'', JList []),
           (''infrastructure_failures'', JList []), (''timeline'', JList []), (''verifications'', JList vs)]"

definition demo_text :: "string \<Rightarrow> string \<Rightarrow> nat \<Rightarrow> json list \<Rightarrow> string" where
  "demo_text started result n vs = dumps (\<lambda>_. []) (demo_report started result n vs)"

definition demo_verification :: "string \<Rightarrow> json" where
  "demo_verification result =
     JObj [(''finding_key'', JStr ''failover''), (''case'', JStr ''failover''), (''fix_sha'', JStr demo_sha),
           (''tested_sha'', JStr demo_sha), (''outcome'', JStr result),
           (''fix_ancestry'', JObj [(''contained'', JBool True)]), (''evidence'', JList [JStr ''log''])]"

lemma loads_demo: "list_all plain vs \<Longrightarrow> loads (demo_text started result n vs) = Some (demo_report started result n vs)"
  unfolding demo_text_def
  by (rule loads_dumps) (simp add: demo_report_def demo_case_def list_all_iff)

lemma demo_accepted:
  "validate_qa_report demo_iso None None (demo_text ''t0'' ''failed'' 21 []) = Inr (demo_report ''t0'' ''failed'' 21 [])"
  "validate_qa_report demo_iso None None (demo_text ''t0'' ''passed'' 1 [demo_verification ''passed''])
    = Inr (demo_report ''t0'' ''passed'' 1 [demo_verification ''passed''])"
proof -
  have checks: "check_report demo_iso None None 3 (demo_report ''t0'' ''failed'' 21 []) = None"
    "check_report demo_iso None None 3 (demo_report ''t0'' ''passed'' 1 [demo_verification ''passed'']) = None"
    by code_simp+
  have "plain (demo_verification ''passed'')" by code_simp
  then show "validate_qa_report demo_iso None None (demo_text ''t0'' ''failed'' 21 []) = Inr (demo_report ''t0'' ''failed'' 21 [])"
    "validate_qa_report demo_iso None None (demo_text ''t0'' ''passed'' 1 [demo_verification ''passed''])
    = Inr (demo_report ''t0'' ''passed'' 1 [demo_verification ''passed''])"
    using checks
    by (simp_all add: validate_qa_report_def loads_demo schema_version_def demo_report_def
        fields_between_def required_top_def report_fields_def jget_or_def jget_def)
qed


theorem accepted_verdict_sound_witness:
  "(let data = demo_report ''t0'' ''passed'' 1 [demo_verification ''passed''] in
     jget_or data ''completed_sha'' JNull = jget_or data ''attempted_sha'' JNull
     \<and> jget_or (demo_verification ''passed'') ''tested_sha'' JNull = jget_or data ''completed_sha'' JNull)"
proof -
  have o: "jget_or (demo_report ''t0'' ''passed'' 1 [demo_verification ''passed'']) ''outcome'' JNull = JStr ''passed''"
    "jget_or (demo_verification ''passed'') ''outcome'' JNull = JStr ''passed''"
    "demo_verification ''passed'' \<in> set (verdicts_of (demo_report ''t0'' ''passed'' 1 [demo_verification ''passed'']))"
    by code_simp+
  then show ?thesis
    using accepted_verdict_sound [OF demo_accepted(2)] unfolding Let_def by blast
qed

lemma demo_mixed:
  "validate_qa_report demo_iso None None (demo_text ''local'' ''failed'' 1 [])
     = Inl (TypeError ''can't compare offset-naive and offset-aware datetimes'')"
proof -
  have "check_report demo_iso None None 3 (demo_report ''local'' ''failed'' 1 [])
      = Some (TypeError ''can't compare offset-naive and offset-aware datetimes'')" by code_simp
  then show ?thesis
    by (simp add: validate_qa_report_def loads_demo schema_version_def demo_report_def
        fields_between_def required_top_def report_fields_def jget_or_def jget_def)
qed


end
