(* ===== verification/LaneProps.thy ===== *)
theory LaneProps
  imports PoolProps QaReportProps
begin

text \<open>
  What the findings lane guarantees across any number of passes: a finding counts as verified only
  with the evidence of a run on a revision that contains its fix, the follow-up issues of a finding
  stay within the configured number of fix cycles, and the keys of the table stay unique. Also the
  two ways a chain stops: a report that raises outside the quarantine, and a fix without a revision.
\<close>

subsection \<open>The invariant of the findings table\<close>

definition dispositions :: "string set" where
  "dispositions = {''pending'', ''accepted'', ''deferred'', ''rejected''}"

lemma in_dispositions [simp]:
  "''pending'' \<in> dispositions" "''accepted'' \<in> dispositions" "''deferred'' \<in> dispositions"
  "''rejected'' \<in> dispositions" "''verified'' \<notin> dispositions"
  by (simp_all add: dispositions_def)

text \<open>
  A verified finding is certified: some entry names it, the fix recorded with it and the revision
  its report assessed, carries the runner's containment proof and evidence, and passed; and GitHub
  itself answered that the tested revision contains the fix.
\<close>

definition certified :: "'w os \<Rightarrow> string \<Rightarrow> qa_finding_row \<Rightarrow> bool" where
  "certified X rp f \<longleftrightarrow>
     (\<exists>entry report sha (w :: 'w). f_fix_sha f = Some sha
        \<and> jget_or entry ''fix_sha'' JNull = JStr sha \<and> jget_or entry ''case'' JNull = JStr (f_key f)
        \<and> jget_or entry ''tested_sha'' JNull = jget_or report ''sha'' JNull
        \<and> truthy (jget_or entry ''tested_sha'' JNull)
        \<and> truthy (jget_or (or_json (jget_or entry ''fix_ancestry'' JNull) (JObj [])) ''contained'' JNull)
        \<and> truthy (jget_or entry ''evidence'' JNull) \<and> jget_or entry ''outcome'' JNull = JStr ''passed''
        \<and> fst (includes_main X rp (fstr ''tested_sha'' entry) sha w) = Inr True)"

definition row_sound :: "'w os \<Rightarrow> string \<Rightarrow> int \<Rightarrow> qa_finding_row \<Rightarrow> bool" where
  "row_sound X rp n f \<longleftrightarrow> f_cycles f \<le> n \<and> (f_status f = ''verified'' \<longrightarrow> certified X rp f)"

definition lane_ok :: "'w os \<Rightarrow> string \<Rightarrow> int \<Rightarrow> db \<Rightarrow> bool" where
  "lane_ok X rp n s \<longleftrightarrow>
     distinct (map f_key (qa_findings s)) \<and> (\<forall>f \<in> set (qa_findings s). row_sound X rp n f)
     \<and> (\<forall>c \<in> set (candidates s). c_disposition c \<in> dispositions)"

text \<open>The fields a pass may write at any time: neither the verdict nor a fix under a standing verdict.\<close>

fun safe_field :: "int \<Rightarrow> finding_field \<Rightarrow> bool" where
  "safe_field n (QStatus x) = (x \<noteq> ''verified'')"
| "safe_field n (QCycles k) = (k \<le> n)"
| "safe_field n _ = True"

fun is_status :: "finding_field \<Rightarrow> bool" where
  "is_status (QStatus x) = True" | "is_status _ = False"

fun is_fix :: "finding_field \<Rightarrow> bool" where
  "is_fix (QFixSha x) = True" | "is_fix _ = False"

definition safe_fields :: "int \<Rightarrow> finding_field list \<Rightarrow> bool" where
  "safe_fields n fs \<longleftrightarrow> list_all (safe_field n) fs \<and> (list_ex is_fix fs \<longrightarrow> list_ex is_status fs)"

lemma certified_cong: "f_fix_sha g = f_fix_sha f \<Longrightarrow> f_key g = f_key f \<Longrightarrow> certified X rp g = certified X rp f"
  by (simp add: certified_def)

lemma fold_fields_key: "f_key (fold set_finding_field fs f) = f_key f"
proof (induction fs arbitrary: f)
  case (Cons x fs) then show ?case by (cases x) auto
qed simp

lemma fold_fields_fix: "\<not> list_ex is_fix fs \<Longrightarrow> f_fix_sha (fold set_finding_field fs f) = f_fix_sha f"
proof (induction fs arbitrary: f)
  case (Cons x fs) then show ?case by (cases x) auto
qed simp

lemma fold_fields_cycles:
  "list_all (safe_field n) fs \<Longrightarrow> f_cycles f \<le> n \<Longrightarrow> f_cycles (fold set_finding_field fs f) \<le> n"
proof (induction fs arbitrary: f)
  case (Cons x fs) then show ?case by (cases x) auto
qed simp

lemma status_kept:
  "f_status (set_finding_field x f) = ''verified'' \<Longrightarrow> safe_field n x \<Longrightarrow>
    f_status f = ''verified'' \<and> \<not> is_status x"
  by (cases x) simp_all

lemma fold_fields_status:
  "list_all (safe_field n) fs \<Longrightarrow> f_status (fold set_finding_field fs f) = ''verified'' \<Longrightarrow>
    f_status f = ''verified'' \<and> \<not> list_ex is_status fs"
proof (induction fs arbitrary: f)
  case (Cons x fs)
  have "f_status (set_finding_field x f) = ''verified''" "\<not> list_ex is_status fs"
    using Cons.IH [of "set_finding_field x f"] Cons.prems by simp_all
  with status_kept [of x f n] Cons.prems(1) show ?case by simp
qed simp

lemma row_sound_set:
  assumes "safe_fields n fs" and "row_sound X rp n f"
  shows "row_sound X rp n ((fold set_finding_field fs f)\<lparr>f_updated := now\<rparr>)"
proof -
  have "certified X rp (fold set_finding_field fs f)"
    if "f_status (fold set_finding_field fs f) = ''verified''"
  proof -
    from fold_fields_status [OF _ that] assms(1)
    have "f_status f = ''verified''" "\<not> list_ex is_fix fs" by (auto simp: safe_fields_def)
    with assms(2) have "certified X rp f" by (simp add: row_sound_def)
    then show ?thesis
      using certified_cong [OF fold_fields_fix fold_fields_key] \<open>\<not> list_ex is_fix fs\<close> by metis
  qed
  moreover have "certified X rp (g\<lparr>f_updated := now\<rparr>) = certified X rp g" for g
    by (rule certified_cong) simp_all
  ultimately show ?thesis
    using assms fold_fields_cycles [of n fs f] by (simp add: row_sound_def safe_fields_def)
qed

subsection \<open>What the operations of the state keep\<close>

lemma lane_ok_update:
  assumes "lane_ok X rp n s" and "\<And>f. f_key (g f) = f_key f"
    and "\<And>f. f \<in> set (qa_findings s) \<Longrightarrow> f_key f = k \<Longrightarrow> row_sound X rp n f \<Longrightarrow> row_sound X rp n (g f)"
  shows "lane_ok X rp n (s\<lparr>qa_findings := update_row f_key k g (qa_findings s)\<rparr>)"
proof -
  have "row_sound X rp n f" if "f \<in> set (update_row f_key k g (qa_findings s))" for f
    using that assms(1,3) by (auto simp: update_row_def lane_ok_def)
  with assms(1,2) show ?thesis by (simp add: lane_ok_def map_key_update_row)
qed

lemma lane_ok_sset [simp]: "lane_ok X rp n (sset k v s) = lane_ok X rp n s"
  by (simp add: lane_ok_def sset_def)

lemma lane_ok_report: "lane_ok X rp n s \<Longrightarrow> lane_ok X rp n (record_qa_report now run_id sha st m txt s)"
  by (simp add: lane_ok_def record_qa_report_def)

lemma lane_ok_set:
  assumes "lane_ok X rp n s" and "set_qa_finding now k fs s = Inr s'" and "safe_fields n fs"
  shows "lane_ok X rp n s'"
proof -
  have "s' = s\<lparr>qa_findings := update_row f_key k
      (\<lambda>f. (fold set_finding_field fs f)\<lparr>f_updated := now\<rparr>) (qa_findings s)\<rparr>"
    using assms(2) by (auto simp: set_qa_finding_def split: if_splits)
  then show ?thesis
    using assms(1) by (auto intro!: lane_ok_update row_sound_set [OF assms(3)] simp: fold_fields_key)
qed

lemma row_sound_reobserved:
  "row_sound X rp n f \<Longrightarrow> row_sound X rp n (reobserved now finding report f)"
  using certified_cong [of "reobserved now finding report f" f X rp]
  by (simp add: row_sound_def reobserved_def)

lemma lane_ok_upsert:
  assumes "lane_ok X rp n s" and "0 \<le> n"
    and "st = ''verified'' \<Longrightarrow> qa_finding (fstr ''key'' finding) s \<noteq> None"
  shows "lane_ok X rp n (upsert_qa_finding now finding report st s)"
proof (cases "qa_finding (fstr ''key'' finding) s")
  case None
  then have "fstr ''key'' finding \<notin> f_key ` set (qa_findings s)" "st \<noteq> ''verified''"
    using assms(3) by (auto simp: qa_finding_def find_row_None_iff)
  with assms(1,2) None show ?thesis
    by (auto simp: lane_ok_def upsert_qa_finding_def row_sound_def)
next
  case (Some f)
  have "lane_ok X rp n (s\<lparr>qa_findings := update_row f_key (fstr ''key'' finding)
      (reobserved now finding report) (qa_findings s)\<rparr>)"
    by (rule lane_ok_update [OF assms(1)]) (simp_all add: row_sound_reobserved, simp add: reobserved_def)
  with Some show ?thesis by (simp add: upsert_qa_finding_def)
qed

lemma lane_ok_candidate:
  "lane_ok X rp n (fst st) \<Longrightarrow> lane_ok X rp n (fst (record_candidate now run_id item st))"
  by (auto simp: lane_ok_def record_candidate_def new_candidate_def reopened_def update_row_def
      split: prod.splits option.splits)

lemma lane_ok_candidates:
  assumes "lane_ok X rp n s"
  shows "lane_ok X rp n (fst (record_candidates now run_id items s))"
proof -
  have "lane_ok X rp n (fst st) \<Longrightarrow> lane_ok X rp n (fst (fold (record_candidate now run_id) items st))" for st
    by (induction items arbitrary: st) (simp_all add: lane_ok_candidate)
  with assms show ?thesis by (simp add: record_candidates_def)
qed

lemma lane_ok_decision:
  assumes "lane_ok X rp n s"
    and "disposition_candidate now k d reason revisit issue sources s = Inr (s', b)"
  shows "lane_ok X rp n s'"
proof -
  have "d \<in> dispositions" using assms(2) by (auto simp: disposition_candidate_def split: if_splits)
  with assms show ?thesis by (auto simp: lane_ok_def disposition_candidate_def Let_def split: if_splits)
qed

subsection \<open>What the programs of the lane keep\<close>

lemma keeps_safe_set [keeps_intros]:
  "safe_fields n fs \<Longrightarrow> keeps (on_db (lane_ok X rp n)) (set_finding Y k fs)"
  unfolding set_finding_def by (intro keeps_timed keeps_attempt) (blast intro: lane_ok_set)

lemma keeps_fresh_upsert [keeps_intros]:
  "0 \<le> n \<Longrightarrow> st \<noteq> ''verified'' \<Longrightarrow> keeps (on_db (lane_ok X rp n)) (upsert_finding Y finding report st)"
  unfolding upsert_finding_def by (intro keeps_timed keeps_put) (blast intro: lane_ok_upsert)

lemma keeps_lane_tables [keeps_intros]:
  "keeps (on_db (lane_ok X rp n)) (propose Y run_id item)"
  "keeps (on_db (lane_ok X rp n)) (record_report Y report txt)"
  "keeps (on_db (lane_ok X rp n)) (set_setting k v)"
proof -
  show "keeps (on_db (lane_ok X rp n)) (propose Y run_id item)"
    unfolding propose_def by (intro keeps_timed keeps_transact) (auto intro: lane_ok_candidates)
  show "keeps (on_db (lane_ok X rp n)) (record_report Y report txt)"
    unfolding record_report_def by (intro keeps_timed keeps_put lane_ok_report)
  show "keeps (on_db (lane_ok X rp n)) (set_setting k v)"
    unfolding set_setting_def by (rule keeps_put) simp
qed

text \<open>A row read from the table is sound, and so are the dispositions of the candidates.\<close>

lemma keeps_rows:
  fixes m :: "qa_finding_row list \<Rightarrow> ('w pool, 'b) prog"
  assumes "\<And>fs. list_all (row_sound X rp n) fs \<Longrightarrow> keeps (on_db (lane_ok X rp n)) (m fs)"
  shows "keeps (on_db (lane_ok X rp n)) (doing (get (list_qa_findings sts)) m)"
proof (rule keeps_doing_known)
  fix fs and p p' :: "'w pool"
  assume "on_db (lane_ok X rp n) p" and "get (list_qa_findings sts) p = (Inr fs, p')"
  then have "list_all (row_sound X rp n) fs"
    by (auto simp: on_db_def get_def list_all_iff list_qa_findings_def lane_ok_def split: prod.splits if_splits)
  then show "keeps (on_db (lane_ok X rp n)) (m fs)" by (rule assms)
qed (rule keeps_intros)

lemma safe_lists [simp]:
  "safe_fields n [QStatus x] = (x \<noteq> ''verified'')"
  "safe_fields n [QIssue i, QCycles k] = (k \<le> n)"
  "safe_fields n [QStatus x, QIssue i, QCycles k] = (x \<noteq> ''verified'' \<and> k \<le> n)"
  "safe_fields n [QStatus x, QIssue i, QCycles k, QFixSha sha] = (x \<noteq> ''verified'' \<and> k \<le> n)"
  "safe_fields n [QStatus x, QIssue i] = (x \<noteq> ''verified'')"
  "safe_fields n [QStatus x, QFixSha sha] = (x \<noteq> ''verified'')"
  by (simp_all add: safe_fields_def)

definition safe_route :: "int \<Rightarrow> string \<times> finding_field list \<times> bool \<Rightarrow> bool" where
  "safe_route n r \<longleftrightarrow> (case r of (st, fs, made) \<Rightarrow> st \<noteq> ''verified'' \<and> (fs = [] \<or> safe_fields n fs))"

lemma route_safe: "1 \<le> n \<Longrightarrow> gives (safe_route n) (route Y rp cfg finding report issues b)"
  unfolding route_def by (intro gives_intros) (simp_all add: safe_route_def)

lemma keeps_routing [keeps_intros]:
  "keeps (on_db (lane_ok X rp n)) (route Y rp2 cfg finding report issues b)"
  unfolding route_def by (intro keeps_intros)

lemma keeps_following [keeps_intros]:
  "keeps (on_db (lane_ok X rp n)) (redispatch Y rp2 cfg f report reason)"
  if "qa_limit ''max_fix_cycles'' cfg \<le> n"
  unfolding redispatch_def using that by (intro keeps_intros) simp_all

lemma keeps_given:
  "gives Q m \<Longrightarrow> keeps P m \<Longrightarrow> (\<And>r. Q r \<Longrightarrow> keeps P (f r)) \<Longrightarrow> keeps P (doing m f)"
  using givesD [of Q m] by (intro keeps_doing_known) metis+

text \<open>A re-observed finding keeps its row: the row was there, so nothing is inserted.\<close>

lemma keeps_reobserving:
  fixes m :: "qa_finding_row \<Rightarrow> ('w pool, 'b) prog"
  assumes "0 \<le> n" and "\<And>row. keeps (on_db (lane_ok X rp n)) (m row)"
    and "keeps (on_db (lane_ok X rp n)) fresh"
  shows "keeps (on_db (lane_ok X rp n)) (doing (get (qa_finding (fstr ''key'' finding))) (\<lambda>existing.
    case existing of Some row \<Rightarrow> and_then (upsert_finding Y finding report (f_status row)) (m row)
    | None \<Rightarrow> fresh))"
proof (rule keepsI)
  fix p p' :: "'w pool" and r
  assume ok: "on_db (lane_ok X rp n) p" and run: "doing (get (qa_finding (fstr ''key'' finding))) (\<lambda>existing.
    case existing of Some row \<Rightarrow> and_then (upsert_finding Y finding report (f_status row)) (m row)
    | None \<Rightarrow> fresh) p = (r, p')"
  obtain s w where p: "p = (s, w)" by (cases p)
  show "on_db (lane_ok X rp n) p'"
  proof (cases "qa_finding (fstr ''key'' finding) s")
    case None
    then show ?thesis using run ok assms(3) keepsD by (fastforce simp: p get_def doing_def)
  next
    case (Some row)
    define s1 where "s1 = upsert_qa_finding (clock Y w) finding report (f_status row) s"
    have "lane_ok X rp n s1"
      unfolding s1_def using ok Some assms(1) by (intro lane_ok_upsert) (simp_all add: p on_db_def)
    moreover have "m row (s1, w) = (r, p')"
      using run Some
      by (simp add: p get_def doing_def and_then_def upsert_finding_def timed_def see_def put_def
          transact_def s1_def)
    ultimately show ?thesis using keepsD [OF assms(2), of "(s1, w)" row r p'] by (simp add: on_db_def)
  qed
qed

lemma keeps_ingesting [keeps_intros]:
  assumes "1 \<le> n"
  shows "keeps (on_db (lane_ok X rp n)) (ingest_finding Y rp2 cfg report issues routing finding acc)"
proof -
  obtain created seen where acc: "acc = (created, seen)" by (cases acc)
  have n: "0 \<le> n" using assms by simp
  show ?thesis
    unfolding ingest_finding_def acc prod.case Let_def
    by (intro keeps_reobserving n keeps_given [of "safe_route n"] keeps_intros gives_if route_safe assms)
      (auto simp: safe_route_def intro!: keeps_intros n gives_intros)
qed

lemma refusal_None:
  assumes "refusal entry report f = None"
  obtains sha where "f_fix_sha f = Some sha" "jget_or entry ''fix_sha'' JNull = JStr sha"
    "jget_or entry ''case'' JNull = JStr (f_key f)" "f_status f = ''fix-merged''"
    "jget_or entry ''tested_sha'' JNull = jget_or report ''sha'' JNull"
    "truthy (jget_or entry ''tested_sha'' JNull)" "truthy (jget_or entry ''evidence'' JNull)"
    "truthy (jget_or (or_json (jget_or entry ''fix_ancestry'' JNull) (JObj [])) ''contained'' JNull)"
  using assms that
  by (auto simp: refusal_def Let_def nonempty_def split: if_splits option.splits)

lemma lane_ok_verified:
  assumes "lane_ok X rp n s" and "qa_finding k s = Some f" and "refusal entry report f = None"
    and "jget_or entry ''outcome'' JNull = JStr ''passed''"
    and "fst (includes_main X rp (fstr ''tested_sha'' entry) (case f_fix_sha f of None \<Rightarrow> [] | Some x \<Rightarrow> x) w) = Inr True"
    and "set_qa_finding now (f_key f) [QStatus ''verified''] s = Inr s'"
  shows "lane_ok X rp n s'"
proof -
  obtain sha where sha: "f_fix_sha f = Some sha" "jget_or entry ''fix_sha'' JNull = JStr sha"
    "jget_or entry ''case'' JNull = JStr (f_key f)"
    "jget_or entry ''tested_sha'' JNull = jget_or report ''sha'' JNull"
    "truthy (jget_or entry ''tested_sha'' JNull)" "truthy (jget_or entry ''evidence'' JNull)"
    "truthy (jget_or (or_json (jget_or entry ''fix_ancestry'' JNull) (JObj [])) ''contained'' JNull)"
    using refusal_None [OF assms(3)] by metis
  have cert: "certified X rp f"
    unfolding certified_def using sha assms(4,5) by (intro exI conjI) simp_all
  have f: "f \<in> set (qa_findings s)" using assms(2) by (auto simp: qa_finding_def dest: find_row_Some)
  have only: "h = f" if "h \<in> set (qa_findings s)" "f_key h = f_key f" for h
    using that f assms(1) by (auto simp: lane_ok_def distinct_map dest: inj_onD)
  have s': "s' = s\<lparr>qa_findings := update_row f_key (f_key f)
      (\<lambda>h. h\<lparr>f_status := ''verified'', f_updated := now\<rparr>) (qa_findings s)\<rparr>"
    using assms(6) by (simp add: set_qa_finding_def)
  have "row_sound X rp n (h\<lparr>f_status := ''verified'', f_updated := now\<rparr>)"
    if "h \<in> set (qa_findings s)" "f_key h = f_key f" "row_sound X rp n h" for h
    using only [OF that(1,2)] that(3) cert
      certified_cong [of "f\<lparr>f_status := ''verified'', f_updated := now\<rparr>" f X rp]
    by (simp add: row_sound_def)
  then show ?thesis unfolding s' by (intro lane_ok_update [OF assms(1)]) simp_all
qed

lemma keeps_applying [keeps_intros]:
  fixes X :: "'w os"
  assumes limit: "qa_limit ''max_fix_cycles'' cfg \<le> n"
  shows "keeps (on_db (lane_ok X rp n)) (apply_verification X rp cfg entry report)"
proof (rule keepsI)
  fix p p' :: "'w pool" and r
  assume ok: "on_db (lane_ok X rp n) p" and run: "apply_verification X rp cfg entry report p = (r, p')"
  obtain s w where p: "p = (s, w)" by (cases p)
  let ?k = "fstr ''finding_key'' entry"
  show "on_db (lane_ok X rp n) p'"
  proof (cases "\<exists>f. qa_finding ?k s = Some f \<and> refusal entry report f = None")
    case False
    then show ?thesis
      using run ok by (auto simp: p apply_verification_def get_def doing_def split: option.splits)
  next
    case True
    then obtain f where f: "qa_finding ?k s = Some f" "refusal entry report f = None" by blast
    let ?inc = "includes_main X rp (fstr ''tested_sha'' entry) (case f_fix_sha f of None \<Rightarrow> [] | Some x \<Rightarrow> x)"
    obtain q w1 where q: "?inc w = (q, w1)" by (cases "?inc w")
    have at: "on_db (lane_ok X rp n) (s, w1)" using ok by (simp add: p on_db_def)
    show ?thesis
    proof (cases "q = Inr True \<and> jget_or entry ''outcome'' JNull = JStr ''passed''")
      case True
      then have "\<exists>s'. set_qa_finding (clock X w1) (f_key f) [QStatus ''verified''] s = Inr s' \<and> p' = (s', w1)"
        using run f q
        by (auto simp: p apply_verification_def get_def doing_def try_else_def io_def set_finding_def
            timed_def see_def attempt_def transact_def and_then_def set_qa_finding_def)
      then show ?thesis
        using lane_ok_verified [OF _ f, of X rp n w] ok q True by (auto simp: p on_db_def)
    next
      case False
      define rest where "rest = (case q of
          Inl e \<Rightarrow> and_then (stash_verification entry report) (ret ''lookup-failed'')
        | Inr b \<Rightarrow>
            if \<not> b then ret ''not-contained''
            else and_then (set_finding X (f_key f) [QStatus ''failed''])
              (doing (redispatch X rp cfg f (Some report) (failure_reason entry f)) (\<lambda>_. ret ''failed'')))"
      have "apply_verification X rp cfg entry report p = rest (s, w1)"
        using f q False by (cases q) (simp_all add: p apply_verification_def get_def doing_def [of "ask _"]
          try_else_def io_def rest_def)
      with run have "rest (s, w1) = (r, p')" by simp
      have "keeps (on_db (lane_ok X rp n)) rest"
        unfolding rest_def stash_verification_def by (intro keeps_intros limit) simp_all
      from keepsD [OF this at \<open>rest (s, w1) = (r, p')\<close>] show ?thesis .
    qed
  qed
qed

subsection \<open>Passes of the lane\<close>

lemma keeps_ingested [keeps_intros]: "keeps (on_db (lane_ok X rp n)) (ingest_report X rp cfg report issues)"
  if limit: "qa_limit ''max_fix_cycles'' cfg \<le> n" and positive: "1 \<le> n"
  unfolding ingest_report_def Let_def by (intro keeps_intros limit positive)

lemma keeps_inbox [keeps_intros]: "keeps (on_db (lane_ok X rp n)) (ingest_inbox X Q rp cfg issues)"
  if limit: "qa_limit ''max_fix_cycles'' cfg \<le> n" and positive: "1 \<le> n"
  unfolding ingest_inbox_def ingest_file_def Let_def by (intro keeps_intros limit positive)

lemma keeps_verification_retries [keeps_intros]: "keeps (on_db (lane_ok X rp n)) (retry_verifications X rp cfg)"
  if limit: "qa_limit ''max_fix_cycles'' cfg \<le> n" and positive: "1 \<le> n"
  unfolding retry_verifications_def retry_verification_def unstash_verification_def Let_def
  by (intro keeps_intros limit)

lemma keeps_failed_sweep [keeps_intros]:
  "keeps (on_db (lane_ok X rp n)) (sweep_failed X rp cfg b fs)"
  if limit: "qa_limit ''max_fix_cycles'' cfg \<le> n" and positive: "1 \<le> n"
proof (induction fs arbitrary: b)
  case (Cons f fs)
  show ?case unfolding sweep_failed.simps by (intro keeps_intros limit Cons.IH)
qed (simp add: keeps_intros)

lemma keeps_finding_sweep:
  "row_sound X rp n f \<Longrightarrow> 1 \<le> n \<Longrightarrow> keeps (on_db (lane_ok X rp n)) (sweep_finding X rp known f)"
  unfolding sweep_finding_def Let_def by (intro keeps_intros) (auto simp: row_sound_def)

lemma keeps_pending_sweep:
  "list_all (row_sound X rp n) fs \<Longrightarrow> 1 \<le> n \<Longrightarrow> keeps (on_db (lane_ok X rp n)) (sweep_pending X rp cfg known b fs)"
proof (induction fs arbitrary: b)
  case (Cons f fs)
  then show ?case
    unfolding sweep_pending.simps by (intro keeps_intros keeps_finding_sweep) simp_all
qed (simp add: keeps_intros)

lemma keeps_sweeps [keeps_intros]: "keeps (on_db (lane_ok X rp n)) (route_pending X rp cfg issues b)"
  if limit: "qa_limit ''max_fix_cycles'' cfg \<le> n" and positive: "1 \<le> n"
  unfolding route_pending_def by (intro keeps_rows keeps_pending_sweep keeps_intros limit positive)

lemma keeps_synced [keeps_intros]: "keeps (on_db (lane_ok X rp n)) (sync_candidates Y)"
  for Y :: "'w os"
proof -
  have "keeps (on_db (lane_ok X rp n)) (sync_candidate Y f)" for f
    unfolding sync_candidate_def
  proof (rule keeps_doing_known)
    fix x and p p' :: "'w pool"
    assume "on_db (lane_ok X rp n) p" and "get (candidate (f_key f)) p = (Inr x, p')"
    then have "c_disposition c \<in> dispositions" if "x = Some c" for c
      using that by (auto simp: on_db_def get_def candidate_def lane_ok_def dest: find_row_Some split: prod.splits)
    then have "c_disposition c \<noteq> ''verified''" if "x = Some c" for c
      using that in_dispositions(5) by metis
    then show "keeps (on_db (lane_ok X rp n)) (case x of None \<Rightarrow> ret ()
        | Some c \<Rightarrow> only_if (c_disposition c \<noteq> ''pending'')
           (set_finding Y (f_key f) (QStatus (c_disposition c)
              # (case c_issue c of None \<Rightarrow> [] | Some n \<Rightarrow> [QIssue (Some n)]))))"
      by (intro keeps_intros) (simp split: option.split)
  qed (rule keeps_intros)
  then show ?thesis unfolding sync_candidates_def by (intro keeps_intros)
qed

lemma keeps_reconciled [keeps_intros]: "keeps (on_db (lane_ok X rp n)) (reconcile_merged X rp)"
  unfolding reconcile_merged_def reconcile_finding_def fix_merged_def Let_def
  by (intro keeps_intros) simp_all

lemma keeps_published [keeps_intros]:
  "keeps (on_db (lane_ok X rp n)) (write_verification_queue X Q cfg)"
  "keeps (on_db (lane_ok X rp n)) (publish_dashboard X Q cfg)"
  unfolding write_verification_queue_def publish_dashboard_def Let_def by (intro keeps_intros)+

lemma keeps_polling: "keeps (on_db (lane_ok X rp n)) (poll_findings X Q rp cfg issues)"
  if limit: "qa_limit ''max_fix_cycles'' cfg \<le> n" and positive: "1 \<le> n"
  unfolding poll_findings_def by (intro keeps_intros limit positive)

subsection \<open>Any number of passes\<close>

lemma settings_cycles:
  assumes "qa_settings config = Inr cfg"
  shows "1 \<le> qa_limit ''max_fix_cycles'' cfg"
proof -
  obtain cfg0 where cfg0: "check_settings cfg0 = None" "cfg = default_report_dir config cfg0"
    using assms by (auto simp: qa_settings_def Let_def res_bind_def split: if_splits sum.splits option.splits)
  have "check_all (\<lambda>k. ensure (positive_int (jget_or cfg0 k JNull))
      (ValueError (''qa.'' @ k @ '' must be a positive integer'')))
    [''max_open'', ''max_issues_per_report'', ''max_fix_cycles''] = None"
    using cfg0(1) by (simp only: check_settings_def Let_def first_exn_None_iff set_simps ball_simps)
  then have "positive_int (jget_or cfg0 ''max_fix_cycles'' JNull)"
    unfolding check_all_None_iff by simp
  moreover have "jget_or cfg ''max_fix_cycles'' JNull = jget_or cfg0 ''max_fix_cycles'' JNull"
    by (simp add: cfg0(2) default_report_dir_def Let_def)
  ultimately show ?thesis
    by (simp add: qa_limit_def positive_int_def split: json.splits)
qed

lemma keeps_lane_pass:
  assumes "qa_settings (qa_config Q) = Inr cfg"
  shows "keeps (on_db (lane_ok X rp (qa_limit ''max_fix_cycles'' cfg))) (qa_lane X Q rp issues)"
proof -
  have "qa_lane X Q rp issues =
      (if \<not> qa_flag ''enabled'' cfg \<and> \<not> qa_flag ''dashboard'' cfg then ret ()
       else except_any (poll_findings X Q rp cfg issues) (\<lambda>e. ret ()))"
    by (rule ext) (simp add: qa_lane_def assms doing_def)
  then show ?thesis
    by (simp only:) (intro keeps_intros keeps_polling settings_cycles [OF assms] order.refl)
qed

text \<open>
  The databases of the lane: it starts without findings and candidates; between its passes the
  other lanes record, decide and assess candidates and leave the findings alone.
\<close>

inductive lane_history :: "'w os \<Rightarrow> 'w qa_env \<Rightarrow> string \<Rightarrow> db \<Rightarrow> bool" for X Q rp where
  lh_start: "qa_findings s = [] \<Longrightarrow> candidates s = [] \<Longrightarrow> lane_history X Q rp s"
| lh_pass: "lane_history X Q rp s \<Longrightarrow> qa_lane X Q rp issues (s, w) = (r, (s', w')) \<Longrightarrow> lane_history X Q rp s'"
| lh_other: "lane_history X Q rp s \<Longrightarrow> qa_findings s' = qa_findings s \<Longrightarrow> candidates s' = candidates s \<Longrightarrow>
    lane_history X Q rp s'"
| lh_candidates: "lane_history X Q rp s \<Longrightarrow>
    lane_history X Q rp (fst (record_candidates now run_id items s))"
| lh_decision: "lane_history X Q rp s \<Longrightarrow>
    disposition_candidate now k d reason revisit issue sources s = Inr (s', b) \<Longrightarrow> lane_history X Q rp s'"
| lh_assessment: "lane_history X Q rp s \<Longrightarrow> lane_history X Q rp (record_assessment now k a s)"

lemma history_ok:
  assumes "lane_history X Q rp s" and "qa_settings (qa_config Q) = Inr cfg"
  shows "lane_ok X rp (qa_limit ''max_fix_cycles'' cfg) s"
  using assms(1)
proof (induction rule: lane_history.induct)
  case (lh_pass s issues w r s' w')
  then show ?case
    using keepsD [OF keeps_lane_pass [OF assms(2)] _ lh_pass.hyps(2)] by (simp add: on_db_def)
next
  case lh_candidates
  from lh_candidates.IH show ?case by (rule lane_ok_candidates)
next
  case lh_decision
  from lh_decision.IH lh_decision.hyps(2) show ?case by (rule lane_ok_decision)
qed (auto simp: lane_ok_def record_assessment_def update_row_def)


text \<open>
  C36: a report that raises outside the quarantine, as one whose timestamps mix offsets does, stops
  the lane for good: the pass ends with the database and the outside world as they were, the file
  still first in the inbox, so every later pass ends at the same place, and neither the reports
  behind it nor the merged fixes, the verification queue or the dashboard are reached.
\<close>

theorem unquarantined_report_stalls_lane:
  assumes "qa_settings (qa_config Q) = Inr cfg" and "qa_flag ''enabled'' cfg"
    and "fstr ''report_dir'' cfg = inbox" and "inbox \<noteq> []" and "is_dir X inbox w"
    and "listdir X inbox w = Inr names" and "json_files names = n # rest"
    and "read_text X (slash inbox n) w = Inr text"
    and "validate_findings_report (qa_iso Q) text = Inl e" and "\<not> quarantined e"
  shows "qa_lane X Q rp issues (s, w) = (Inr (), (s, w))"
proof -
  have one: "ingest_file X Q rp cfg issues inbox n 0 (s, w) = (Inl e, (s, w))"
    using assms(8-10) by (simp add: ingest_file_def doing_def)
  have "ingest_inbox X Q rp cfg issues (s, w) = (Inl e, (s, w))"
    using assms(3-7) one
    by (simp add: ingest_inbox_def doing_def see_def io_def look_def)
  then have "poll_findings X Q rp cfg issues (s, w) = (Inl e, (s, w))"
    using assms(2) by (simp add: poll_findings_def and_then_def only_if_def doing_def)
  then show ?thesis
    using assms(1,2) by (simp add: qa_lane_def doing_def except_any_def except_if_def)
qed

subsection \<open>A lane of its own\<close>

definition demo_lane_qa :: "string list list qa_env" where
  "demo_lane_qa = demo_qa\<lparr>qa_config := JObj [(''qa'', JObj [(''enabled'', JBool True),
     (''mode'', JStr ''route''), (''report_dir'', JStr ''qa'')])], qa_iso := demo_iso\<rparr>"

text \<open>One report waits in the inbox, and its timestamps mix offsets.\<close>

definition demo_inbox :: "string list list os" where
  "demo_inbox = demo_os\<lparr>is_dir := (\<lambda>_ _. True), listdir := (\<lambda>_ _. Inr [''a.json'']),
     read_text := (\<lambda>_ _. Inr (demo_text ''local'' ''failed'' 1 []))\<rparr>"

lemma demo_iso_used: "qa_iso demo_lane_qa = demo_iso"
  by (simp add: demo_lane_qa_def)

lemma demo_settings:
  "\<exists>cfg. qa_settings (qa_config demo_lane_qa) = Inr cfg \<and> qa_flag ''enabled'' cfg
     \<and> fstr ''report_dir'' cfg = ''qa'' \<and> qa_limit ''max_fix_cycles'' cfg = 2"
proof -
  define check where "check = (case qa_settings (qa_config demo_lane_qa) of Inl e \<Rightarrow> False
    | Inr cfg \<Rightarrow> qa_flag ''enabled'' cfg \<and> fstr ''report_dir'' cfg = ''qa'' \<and> qa_limit ''max_fix_cycles'' cfg = 2)"
  have check unfolding check_def by code_simp
  then show ?thesis unfolding check_def by (auto split: sum.splits)
qed


theorem unquarantined_report_stalls_lane_witness:
  "qa_lane demo_inbox demo_lane_qa ''o/r'' [] (empty_db None, []) = (Inr (), (empty_db None, []))"
proof -
  obtain cfg where cfg: "qa_settings (qa_config demo_lane_qa) = Inr cfg" "qa_flag ''enabled'' cfg"
    "fstr ''report_dir'' cfg = ''qa''" using demo_settings by blast
  show ?thesis
  proof (rule unquarantined_report_stalls_lane [OF cfg])
    show "json_files [''a.json''] = ''a.json'' # []" by code_simp
    show "validate_findings_report (qa_iso demo_lane_qa) (demo_text ''local'' ''failed'' 1 [])
        = Inl (TypeError ''can't compare offset-naive and offset-aware datetimes'')"
      by (simp only: demo_iso_used validate_findings_report_def demo_mixed res_bind_simps)
  qed (simp_all add: demo_inbox_def quarantined_def)
qed

end
