(* ===== verification/Config.thy ===== *)
theory Config
  imports Supervisor Findings
begin

text \<open>
  agent_pool/config.py: the validation of the pool's configuration, and what the constructors of
  the supervisor, the admission ledger and the runtime read from a loaded one
  (supervisor.py, admission.py, runtime.py: \<open>__init__\<close>). The file's text is an argument; resolving
  a path is a parameter. A section is taken to be an object: the list of pairs that Python's \<open>dict\<close>
  also accepts is refused here.
\<close>

subsection \<open>Vocabulary\<close>

definition legacy_checks :: json where
  "legacy_checks = JList (map JStr [''rust-format'', ''rust-clippy'', ''rust-tests'', ''supervisor-tests''])"

definition default_checks :: json where
  "default_checks = JList (map JStr [''Rust formatting'', ''Rust linting'', ''Rust tests'', ''Python tests''])"

definition free_models :: "string list" where
  "free_models =
     [''swe-2-high'', ''swe-2-medium'', ''swe-2-max'', ''opencode/union-alpha'',
      ''opencode/space-bunny-free'', ''opencode/muse-spark-1.3-contributor-free'',
      ''opencode/muse-spark-1.2-contributor-free'', ''opencode/ling-3.0-flash-fin-free'',
      ''opencode/mimo-v2.5-free'', ''opencode/nemotron-3-ultra-free'',
      ''opencode/nemotron-3.5-lightning-free'']"

definition free_model :: "json \<Rightarrow> bool" where
  "free_model m \<longleftrightarrow> is_str m \<and> str_of m \<in> set free_models"

subsection \<open>The scheduler section\<close>

definition group_name_rx :: rx where
  "group_name_rx = Rep (Chr (\<lambda>c. alnum c \<or> c \<in> set ''_.-'')) 1 None"

text \<open>\<open>isinstance(x, int)\<close> also accepts a bool, which counts as 0 or 1; \<open>type(x) is int\<close> does not.\<close>

definition check_group :: "string \<times> json \<Rightarrow> check" where
  "check_group ng =
     (let name = fst ng; g = snd ng; f = (\<lambda>k. jget_or g k JNull);
          bad = (\<lambda>t. ValueError (''scheduler group '' @ name @ t));
          minimum = jget_or g ''minimum'' (JInt 1); external = jget_or g ''external_slots'' (JInt 0)
      in first_exn
       [ensure (re_fullmatch group_name_rx name) (ValueError (''Invalid scheduler group name: '' @ name)),
        ensure (is_obj g) (AttributeError ''get''),
        ensure (is_list (f ''models'') \<and> items_of (f ''models'') \<noteq> []
            \<and> list_all free_model (items_of (f ''models''))) (bad '' needs a non-empty free-model list''),
        ensure (isinstance_int (f ''initial'') \<and> 1 \<le> int_of (f ''initial''))
          (bad '' needs a positive integer initial''),
        ensure (isinstance_int (f ''ceiling'') \<and> int_of (f ''initial'') \<le> int_of (f ''ceiling''))
          (bad '' needs ceiling >= initial''),
        ensure (type_is_int minimum \<and> 1 \<le> int_of minimum \<and> int_of minimum \<le> int_of (f ''initial''))
          (bad '' needs 1 <= minimum <= initial''),
        ensure (isinstance_int external \<and> 0 \<le> int_of external) (bad '' needs external_slots >= 0'')])"

definition check_groups :: "json \<Rightarrow> check" where
  "check_groups gs =
     (if gs = JNull then None
      else first_exn
        [ensure (is_obj gs \<and> fields_of gs \<noteq> [])
           (ValueError ''scheduler.groups must map names to group definitions''),
         check_all check_group (fields_of gs)])"

definition positive_number :: "json \<Rightarrow> bool" where
  "positive_number v \<longleftrightarrow> (case num_of v of None \<Rightarrow> False | Some x \<Rightarrow> 0 < x)"

definition check_timing :: "json \<Rightarrow> string \<Rightarrow> check" where
  "check_timing sched k =
     (case jget sched k of None \<Rightarrow> None
      | Some v \<Rightarrow> ensure (positive_number v) (ValueError (''scheduler.'' @ k @ '' must be a positive number'')))"

definition check_count :: "json \<Rightarrow> string \<Rightarrow> check" where
  "check_count sched k =
     (case jget sched k of None \<Rightarrow> None
      | Some v \<Rightarrow> ensure (isinstance_int v \<and> 0 \<le> int_of v)
          (ValueError (''scheduler.'' @ k @ '' must be an integer >= 0'')))"

definition dict_of :: "json \<Rightarrow> json res" where
  "dict_of raw =
     (if \<not> truthy raw then Inr (JObj [])
      else case raw of
        JObj kvs \<Rightarrow> Inr raw
      | JStr _ \<Rightarrow> Inl (ValueError ''dictionary update sequence element #0 has length 1; 2 is required'')
      | JList _ \<Rightarrow> Inl (TypeError ''cannot convert dictionary update sequence element #0 to a sequence'')
      | _ \<Rightarrow> Inl (TypeError ''object is not iterable''))"

definition timing_keys :: "string list" where
  "timing_keys = [''quiet_seconds'', ''cooldown_seconds'', ''max_cooldown_seconds'',
                  ''quota_requeue_delay_seconds'']"

definition count_keys :: "string list" where
  "count_keys = [''max_quota_requeues'', ''max_quota_requeue_resets'']"

definition scheduler :: "json \<Rightarrow> json res" where
  "scheduler raw = res_bind (dict_of raw) (\<lambda>sched.
     case first_exn [check_groups (jget_or sched ''groups'' JNull),
                     check_all (check_timing sched) timing_keys,
                     check_all (check_count sched) count_keys] of
       Some e \<Rightarrow> Inl e | None \<Rightarrow> Inr sched)"

subsection \<open>The other sections\<close>

definition models_of :: "json \<Rightarrow> json" where
  "models_of config =
     or_json (jget_or config ''models'' JNull) (JList [jget_or config ''model'' (JStr ''swe-2-high'')])"

definition check_models :: "json \<Rightarrow> check" where
  "check_models ms =
     (let unknown = filter (\<lambda>m. m \<notin> set free_models) (map str_of (items_of ms)) in first_exn
       [ensure (is_list ms \<and> items_of ms \<noteq> [] \<and> list_all (\<lambda>m. is_str m \<and> str_of m \<noteq> []) (items_of ms))
          (ValueError ''models must be a non-empty list of model identifiers''),
        ensure (unknown = []) (ValueError
          (''This installation permits only verified free models; rejected: '' @ join '', '' unknown))])"

definition check_caps :: "json \<Rightarrow> check" where
  "check_caps caps =
     (let unknown = filter (\<lambda>m. m \<notin> set free_models) (map fst (fields_of caps)) in first_exn
       [ensure (is_obj caps \<and> list_all (\<lambda>(k, v). isinstance_int v \<and> 1 \<le> int_of v) (fields_of caps))
          (ValueError ''model_caps must map model identifiers to positive integers''),
        ensure (unknown = [])
          (ValueError (''model_caps references unpermitted models: '' @ join '', '' unknown))])"

text \<open>\<open>type(x) in (int, float)\<close> and \<open>lo <= x <= hi\<close>\<close>

definition number_between :: "json \<Rightarrow> time \<Rightarrow> time \<Rightarrow> bool" where
  "number_between v lo hi \<longleftrightarrow>
     \<not> type_is_bool v \<and> (case num_of v of None \<Rightarrow> False | Some x \<Rightarrow> lo \<le> x \<and> x \<le> hi)"

definition check_factory :: "json \<Rightarrow> check" where
  "check_factory factory =
     (let f = (\<lambda>k. jget_or factory k JNull); retries = jget_or factory ''max_timeout_retries'' (JInt 2) in
      if factory = JNull then None
      else first_exn
       [ensure (is_obj factory) (ValueError ''factory must be an object''),
        check_all (\<lambda>k. ensure (positive_int (f k))
            (ValueError (''factory.'' @ k @ '' must be a positive integer'')))
          [''worker_slots'', ''workspace_slots'', ''daily_merge_goal''],
        ensure (number_between (jget_or factory ''launch_spacing_seconds'' (JInt 5)) 0 30)
          (ValueError ''factory.launch_spacing_seconds must be between 0 and 30''),
        ensure (type_is_int retries \<and> 0 \<le> int_of retries \<and> int_of retries \<le> 5)
          (ValueError ''factory.max_timeout_retries must be an integer from 0 to 5''),
        ensure (number_between (jget_or factory ''timeout_retry_delay_seconds'' (JInt 60)) 1 3600)
          (ValueError ''factory.timeout_retry_delay_seconds must be between 1 and 3600''),
        ensure (int_of (f ''worker_slots'') \<le> int_of (f ''workspace_slots''))
          (ValueError ''factory.workspace_slots must cover worker_slots'')])"

definition check_planning :: "json \<Rightarrow> check" where
  "check_planning planning =
     ensure (is_obj planning \<and> type_is_bool (jget_or planning ''enabled'' (JBool True)))
       (ValueError ''planning.enabled must be a boolean'')"

definition set_default :: "string \<Rightarrow> json \<Rightarrow> json \<Rightarrow> json" where
  "set_default k v d = (case jget d k of None \<Rightarrow> jset k v d | Some _ \<Rightarrow> d)"

text \<open>Existing installations keep their file; the checks it names are upgraded, never weakened.\<close>

definition upgrade_checks :: "json \<Rightarrow> json res" where
  "upgrade_checks config =
     (let c = set_default ''required_checks'' default_checks config;
          c1 = (if jget_or c ''required_checks'' JNull = legacy_checks
                then jset ''required_checks'' default_checks c else c)
      in if jget_or c1 ''required_checks'' JNull \<noteq> default_checks
         then Inl (ValueError ''Required CI checks cannot be weakened in active configuration'')
         else Inr c1)"

subsection \<open>Loading\<close>

definition checked :: "check \<Rightarrow> 'a \<Rightarrow> 'a res" where
  "checked c x = (case c of None \<Rightarrow> Inr x | Some e \<Rightarrow> Inl e)"

lemma checked_Inr [simp]: "checked c x = Inr y \<longleftrightarrow> c = None \<and> y = x"
  by (auto simp: checked_def split: option.split)

definition load_models :: "json \<Rightarrow> json res" where
  "load_models config =
     (let ms = models_of config; caps = or_json (jget_or config ''model_caps'' JNull) (JObj []) in
      checked (first_exn [check_models ms, check_caps caps])
        (jset ''model_caps'' caps (jset ''models'' ms config)))"

definition load_sections :: "json \<Rightarrow> json res" where
  "load_sections config =
     res_bind (scheduler (jget_or config ''scheduler'' JNull)) (\<lambda>sched.
       let c = jset ''scheduler'' sched config; planning = jget_or c ''planning'' (JObj []) in
       checked (first_exn [check_factory (jget_or c ''factory'' JNull), check_planning planning])
         (jset ''planning'' (jset ''enabled'' (jget_or planning ''enabled'' (JBool True)) planning) c))"

definition load_lanes :: "json \<Rightarrow> json res" where
  "load_lanes config =
     (let c = set_default ''timeout_seconds'' (JInt 7200) (set_default ''poll_seconds'' (JInt 60) config) in
      res_bind (review_settings c) (\<lambda>r.
      let c1 = jset ''review'' r c in
      res_bind (qa_settings c1) (\<lambda>q. Inr (jset ''qa'' q c1))))"

definition load_config :: "string \<Rightarrow> json res" where
  "load_config text =
     (case loads text of
        None \<Rightarrow> Inl (ValueError ''Expecting value'')
      | Some config \<Rightarrow>
          if \<not> is_obj config then Inl (AttributeError ''get'')
          else res_bind (load_models config) (\<lambda>c.
               res_bind (load_sections c) (\<lambda>c1.
               res_bind (upgrade_checks c1) load_lanes)))"

subsection \<open>What the constructors read\<close>

definition group_of_json :: "json \<Rightarrow> qgroup" where
  "group_of_json g =
     \<lparr>qg_models = map str_of (items_of (jget_or g ''models'' JNull)),
      qg_initial = int_of (jget_or g ''initial'' JNull), qg_ceiling = int_of (jget_or g ''ceiling'' JNull),
      qg_external = int_or g ''external_slots'' 0, qg_minimum = int_or g ''minimum'' 1\<rparr>"

definition caps_of :: "json \<Rightarrow> string \<Rightarrow> int option" where
  "caps_of config m = map_option int_of (jget (jget_or config ''model_caps'' JNull) m)"

definition admission_of :: "json \<Rightarrow> adm" where
  "admission_of config =
     (let sched = jget_or config ''scheduler'' JNull in
      mk_adm sched (map (\<lambda>(n, g). (n, group_of_json g)) (fields_of (jget_or sched ''groups'' JNull)))
        (map str_of (items_of (models_of config))) (caps_of config))"

definition factory_of :: "json \<Rightarrow> factory option" where
  "factory_of config =
     (let f = jget_or config ''factory'' JNull; n = (\<lambda>k. int_of (jget_or f k JNull)) in
      if \<not> truthy f then None
      else Some \<lparr>worker_slots = n ''worker_slots'', workspace_slots = n ''workspace_slots'',
        max_timeout_retries = int_or f ''max_timeout_retries'' 2,
        timeout_retry_delay = num_or f ''timeout_retry_delay_seconds'' 60,
        daily_merge_goal = n ''daily_merge_goal''\<rparr>)"

definition runtime_of :: "(string \<Rightarrow> string) \<Rightarrow> json \<Rightarrow> runtime" where
  "runtime_of resolved config =
     (let f = jget_or config ''factory'' JNull in
      \<lparr>pool_root = resolved (fstr ''pool_root'' config), state_root = resolved (fstr ''state_root'' config),
       rt_repository = fstr ''repository'' config, rt_timeout = num_or config ''timeout_seconds'' 7200,
       launch_spacing = (if truthy f then num_or f ''launch_spacing_seconds'' 5 else 0)\<rparr>)"

definition sup_of :: "(string \<Rightarrow> string) \<Rightarrow> json \<Rightarrow> sup" where
  "sup_of resolved config =
     \<lparr>models = map str_of (items_of (or_json (jget_or config ''models'' JNull) (JList [JStr ''swe-2-high'']))),
      model_caps = caps_of config, admission = admission_of config, factory_cfg = factory_of config,
      rt = runtime_of resolved config, repo = fstr ''repository'' config,
      required_checks = map str_of (items_of (jget_or config ''required_checks'' JNull)),
      sup_root = fstr ''state_root'' config,
      planning_enabled = truthy (jget_or (jget_or config ''planning'' (JObj [])) ''enabled'' (JBool True)),
      poll_seconds = num_or config ''poll_seconds'' 60\<rparr>"

text \<open>\<open>Supervisor.__init__\<close>: the keys it cannot do without, in the order it reads them.\<close>

definition needed :: "json \<Rightarrow> string \<Rightarrow> check" where
  "needed config k =
     (case jget config k of
        None \<Rightarrow> Some (KeyError k)
      | Some v \<Rightarrow> ensure (is_str v) (TypeError ''argument should be a str or an os.PathLike object''))"

definition make_supervisor :: "(string \<Rightarrow> string) \<Rightarrow> json \<Rightarrow> sup res" where
  "make_supervisor resolved config =
     checked (first_exn [needed config ''state_root'', needed config ''repository'', needed config ''pool_root''])
       (sup_of resolved config)"

end
