(* ===== verification/ConfigProps.thy ===== *)
theory ConfigProps
  imports Config PoolProps
begin

text \<open>
  What a loaded configuration guarantees: every group, limit and delay the supervisor and the
  admission ledger work with lies in its range, the required checks are the full list, and no
  worker is ever assigned a model outside the verified free ones. With it the hypothesis on the
  groups in the invariants of the running pool holds of every pool started from a configuration file.
\<close>

subsection \<open>What load leaves in the configuration\<close>

lemma first_exn_two: "first_exn [a, b] = None \<longleftrightarrow> a = None \<and> b = None"
  by (simp add: first_exn_None_iff)

lemma first_exn_three: "first_exn [a, b, c] = None \<longleftrightarrow> a = None \<and> b = None \<and> c = None"
  by (simp add: first_exn_None_iff)

lemma jget_set_default:
  "jget (set_default k v d) k' = (if k' = k \<and> jget d k = None then Some v else jget d k')"
  by (auto simp: set_default_def split: option.split)

lemma jget_or_set_default:
  "k' \<noteq> k \<Longrightarrow> jget_or (set_default k v d) k' x = jget_or d k' x"
  by (simp add: jget_or_def jget_set_default)

lemma load_models_Inr:
  assumes "load_models config = Inr c"
  shows "check_models (jget_or c ''models'' JNull) = None" "check_caps (jget_or c ''model_caps'' JNull) = None"
  using assms by (auto simp: load_models_def Let_def first_exn_two)

lemma load_sections_Inr:
  assumes "load_sections config = Inr c"
  shows "scheduler (jget_or config ''scheduler'' JNull) = Inr (jget_or c ''scheduler'' JNull)"
    and "check_factory (jget_or c ''factory'' JNull) = None"
    and "k \<noteq> ''scheduler'' \<Longrightarrow> k \<noteq> ''planning'' \<Longrightarrow> jget_or c k d = jget_or config k d"
  using assms by (auto simp: load_sections_def Let_def first_exn_two res_bind_Inr_iff)

lemma upgrade_checks_Inr:
  assumes "upgrade_checks config = Inr c"
  shows "jget_or c ''required_checks'' JNull = default_checks"
    and "k \<noteq> ''required_checks'' \<Longrightarrow> jget_or c k d = jget_or config k d"
  using assms by (auto simp: upgrade_checks_def Let_def jget_or_set_default split: if_splits)

lemma load_lanes_Inr:
  assumes "load_lanes config = Inr c" and "k \<notin> {''timeout_seconds'', ''poll_seconds'', ''review'', ''qa''}"
  shows "jget_or c k d = jget_or config k d"
  using assms by (auto simp: load_lanes_def Let_def res_bind_Inr_iff jget_or_set_default)

lemma load_config_Inr:
  assumes "load_config text = Inr cfg"
  shows "check_models (jget_or cfg ''models'' JNull) = None"
    and "check_caps (jget_or cfg ''model_caps'' JNull) = None"
    and "check_factory (jget_or cfg ''factory'' JNull) = None"
    and "jget_or cfg ''required_checks'' JNull = default_checks"
    and "\<exists>raw. scheduler raw = Inr (jget_or cfg ''scheduler'' JNull)"
proof -
  obtain config c c1 c2 where c: "load_models config = Inr c" "load_sections c = Inr c1"
    "upgrade_checks c1 = Inr c2" "load_lanes c2 = Inr cfg"
    using assms by (auto simp: load_config_def res_bind_Inr_iff split: option.splits if_splits)
  have same: "jget_or cfg k d = jget_or c1 k d"
    if "k \<notin> {''timeout_seconds'', ''poll_seconds'', ''review'', ''qa'', ''required_checks''}" for k d
    using that load_lanes_Inr [OF c(4), of k d] upgrade_checks_Inr(2) [OF c(3), of k d] by simp
  have "jget_or cfg ''models'' JNull = jget_or c ''models'' JNull"
    "jget_or cfg ''model_caps'' JNull = jget_or c ''model_caps'' JNull"
    using load_sections_Inr(3) [OF c(2)] by (simp_all add: same)
  then show "check_models (jget_or cfg ''models'' JNull) = None"
    "check_caps (jget_or cfg ''model_caps'' JNull) = None"
    using load_models_Inr [OF c(1)] by simp_all
  show "check_factory (jget_or cfg ''factory'' JNull) = None"
    using load_sections_Inr(2) [OF c(2)] by (simp add: same)
  show "jget_or cfg ''required_checks'' JNull = default_checks"
    using upgrade_checks_Inr(1) [OF c(3)] load_lanes_Inr [OF c(4), of "''required_checks''" JNull] by simp
  show "\<exists>raw. scheduler raw = Inr (jget_or cfg ''scheduler'' JNull)"
    using load_sections_Inr(1) [OF c(2)] by (auto simp: same)
qed

subsection \<open>The parts of the supervisor\<close>

lemma scheduler_Inr:
  assumes "scheduler raw = Inr sched"
  shows "check_groups (jget_or sched ''groups'' JNull) = None"
    and "k \<in> set timing_keys \<Longrightarrow> check_timing sched k = None"
    and "k \<in> set count_keys \<Longrightarrow> check_count sched k = None"
  using assms
  by (auto simp: scheduler_def res_bind_Inr_iff first_exn_three check_all_None_iff split: option.splits
      simp del: check_all_simps)

lemma models_checked:
  assumes "check_models ms = None"
  shows "is_list ms" "items_of ms \<noteq> []" "set (map str_of (items_of ms)) \<subseteq> set free_models"
  using assms by (auto simp: check_models_def Let_def first_exn_two filter_empty_conv)

definition good_group :: "qgroup \<Rightarrow> bool" where
  "good_group g \<longleftrightarrow>
     1 \<le> qg_minimum g \<and> qg_minimum g \<le> qg_initial g \<and> qg_initial g \<le> qg_ceiling g \<and> 0 \<le> qg_external g
     \<and> qg_models g \<noteq> [] \<and> set (qg_models g) \<subseteq> set free_models"

lemma group_checked:
  assumes "check_group (n, g) = None"
  shows "good_group (group_of_json g)"
proof -
  have int_default: "int_or g k d = int_of (jget_or g k (JInt d))" for k d
    by (simp add: int_or_def jget_or_def split: option.split)
  show ?thesis
    using assms
    by (auto simp: check_group_def Let_def first_exn_None_iff good_group_def group_of_json_def int_default
        list_all_iff free_model_def)
qed

lemma caps_checked: "check_caps caps = None \<Longrightarrow> jget caps m = Some v \<Longrightarrow> 1 \<le> int_of v"
  by (auto simp: check_caps_def Let_def first_exn_two list_all_iff jget_def dest!: map_of_SomeD)

lemma derived_group_good:
  assumes "set ms \<subseteq> set free_models" and "\<And>m i. caps m = Some i \<Longrightarrow> 1 \<le> i"
    and "(n, g) \<in> set (derive_groups ms caps)"
  shows "good_group g"
  using assms by (auto simp: derive_groups_def good_group_def Let_def split: option.splits)

lemma admission_groups_good:
  assumes "load_config text = Inr cfg" and "(n, g) \<in> set (qgroups (admission_of cfg))"
  shows "good_group g"
proof -
  define gs where "gs = fields_of (jget_or (jget_or cfg ''scheduler'' JNull) ''groups'' JNull)"
  have ms: "set (map str_of (items_of (models_of cfg))) \<subseteq> set free_models"
    using models_checked [OF load_config_Inr(1) [OF assms(1)]]
    by (cases "jget_or cfg ''models'' JNull") (simp_all add: models_of_def or_json_def)
  have caps: "1 \<le> i" if "caps_of cfg m = Some i" for m i
    using that caps_checked [OF load_config_Inr(2) [OF assms(1)]] by (auto simp: caps_of_def)
  have "check_groups (jget_or (jget_or cfg ''scheduler'' JNull) ''groups'' JNull) = None"
    using load_config_Inr(5) [OF assms(1)] scheduler_Inr(1) by blast
  then have given: "check_group ng = None" if "ng \<in> set gs" for ng
    using that
    by (auto simp: check_groups_def gs_def first_exn_two check_all_None_iff simp del: check_all_simps
        split: if_splits)
  show ?thesis
  proof (cases "gs = []")
    case True
    then show ?thesis
      using assms(2) derived_group_good [OF ms caps]
      by (auto simp: admission_of_def mk_adm_def gs_def Let_def)
  next
    case False
    then show ?thesis
      using assms(2) given group_checked by (auto simp: admission_of_def mk_adm_def gs_def Let_def)
  qed
qed

lemma timing_positive:
  assumes "load_config text = Inr cfg" and "k \<in> set timing_keys" and "0 < d"
  shows "0 < num_or (jget_or cfg ''scheduler'' JNull) k d"
proof -
  have "check_timing (jget_or cfg ''scheduler'' JNull) k = None"
    using load_config_Inr(5) [OF assms(1)] scheduler_Inr(2) [OF _ assms(2)] by blast
  with assms(3) show ?thesis
    by (auto simp: check_timing_def num_or_def positive_number_def split: option.splits)
qed

lemma count_nonnegative:
  assumes "load_config text = Inr cfg" and "k \<in> set count_keys" and "0 \<le> d"
  shows "0 \<le> int_or (jget_or cfg ''scheduler'' JNull) k d"
proof -
  have "check_count (jget_or cfg ''scheduler'' JNull) k = None"
    using load_config_Inr(5) [OF assms(1)] scheduler_Inr(3) [OF _ assms(2)] by blast
  with assms(3) show ?thesis
    by (auto simp: check_count_def int_or_def split: option.splits)
qed

definition good_factory :: "factory \<Rightarrow> bool" where
  "good_factory f \<longleftrightarrow>
     1 \<le> worker_slots f \<and> worker_slots f \<le> workspace_slots f \<and> 1 \<le> daily_merge_goal f
     \<and> 0 \<le> max_timeout_retries f \<and> max_timeout_retries f \<le> 5
     \<and> 1 \<le> timeout_retry_delay f \<and> timeout_retry_delay f \<le> 3600"

lemma number_between_or:
  assumes "number_between (jget_or j k (JInt d)) lo hi"
  shows "lo \<le> num_or j k (of_int d)" "num_or j k (of_int d) \<le> hi"
  using assms by (auto simp: number_between_def num_or_def jget_or_def split: option.splits)

lemma factory_checked:
  assumes "check_factory (jget_or cfg ''factory'' JNull) = None" and "factory_of cfg = Some f"
  shows "good_factory f"
proof -
  define j where "j = jget_or cfg ''factory'' JNull"
  have "j \<noteq> JNull" using assms(2) by (auto simp: factory_of_def Let_def j_def)
  with assms(1) have checks: "first_exn
       [ensure (is_obj j) (ValueError ''factory must be an object''),
        check_all (\<lambda>k. ensure (positive_int (jget_or j k JNull))
            (ValueError (''factory.'' @ k @ '' must be a positive integer'')))
          [''worker_slots'', ''workspace_slots'', ''daily_merge_goal''],
        ensure (number_between (jget_or j ''launch_spacing_seconds'' (JInt 5)) 0 30)
          (ValueError ''factory.launch_spacing_seconds must be between 0 and 30''),
        ensure (type_is_int (jget_or j ''max_timeout_retries'' (JInt 2))
            \<and> 0 \<le> int_of (jget_or j ''max_timeout_retries'' (JInt 2))
            \<and> int_of (jget_or j ''max_timeout_retries'' (JInt 2)) \<le> 5)
          (ValueError ''factory.max_timeout_retries must be an integer from 0 to 5''),
        ensure (number_between (jget_or j ''timeout_retry_delay_seconds'' (JInt 60)) 1 3600)
          (ValueError ''factory.timeout_retry_delay_seconds must be between 1 and 3600''),
        ensure (int_of (jget_or j ''worker_slots'' JNull) \<le> int_of (jget_or j ''workspace_slots'' JNull))
          (ValueError ''factory.workspace_slots must cover worker_slots'')] = None"
    by (simp only: check_factory_def Let_def j_def [symmetric] if_False)
  note each = checks [unfolded first_exn_None_iff set_simps ball_simps ensure_None]
  from each have "check_all (\<lambda>k. ensure (positive_int (jget_or j k JNull))
      (ValueError (''factory.'' @ k @ '' must be a positive integer'')))
    [''worker_slots'', ''workspace_slots'', ''daily_merge_goal''] = None" by (elim conjE)
  then have positive: "1 \<le> int_of (jget_or j k JNull)"
    if "k \<in> {''worker_slots'', ''workspace_slots'', ''daily_merge_goal''}" for k
    using that unfolding check_all_None_iff positive_int_def ensure_None set_simps by blast
  from each have rest: "number_between (jget_or j ''timeout_retry_delay_seconds'' (JInt 60)) 1 3600"
    "0 \<le> int_of (jget_or j ''max_timeout_retries'' (JInt 2))"
    "int_of (jget_or j ''max_timeout_retries'' (JInt 2)) \<le> 5"
    "int_of (jget_or j ''worker_slots'' JNull) \<le> int_of (jget_or j ''workspace_slots'' JNull)"
    by - (elim conjE, assumption)+
  have int_default: "int_or j k d = int_of (jget_or j k (JInt d))" for k d
    by (simp add: int_or_def jget_or_def split: option.split)
  have f: "f = \<lparr>worker_slots = int_of (jget_or j ''worker_slots'' JNull),
      workspace_slots = int_of (jget_or j ''workspace_slots'' JNull),
      max_timeout_retries = int_or j ''max_timeout_retries'' 2,
      timeout_retry_delay = num_or j ''timeout_retry_delay_seconds'' (of_int 60),
      daily_merge_goal = int_of (jget_or j ''daily_merge_goal'' JNull)\<rparr>"
    using assms(2) by (simp add: factory_of_def Let_def j_def split: if_splits)
  have slots: "1 \<le> int_of (jget_or j ''worker_slots'' JNull)"
    "1 \<le> int_of (jget_or j ''daily_merge_goal'' JNull)" by (rule positive, simp)+
  from slots rest(2-4) number_between_or [OF rest(1)] show ?thesis
    unfolding good_factory_def f factory.simps int_default by (intro conjI)
qed

subsection \<open>What a loaded configuration guarantees\<close>

definition good_admission :: "adm \<Rightarrow> bool" where
  "good_admission a \<longleftrightarrow>
     wf_groups a \<and> (\<forall>(n, g) \<in> set (qgroups a). good_group g)
     \<and> 0 < quiet a \<and> 0 < cooldown a \<and> 0 < max_cooldown a \<and> 0 < quota_requeue_delay a
     \<and> max_cooldown a \<le> hint_ceiling a \<and> 0 \<le> max_quota_requeues a \<and> 0 \<le> max_quota_requeue_resets a"

lemma admission_good:
  assumes "load_config text = Inr cfg"
  shows "good_admission (admission_of cfg)"
proof -
  have groups: "\<forall>(n, g) \<in> set (qgroups (admission_of cfg)). good_group g"
    using admission_groups_good [OF assms] by blast
  then have "wf_groups (admission_of cfg)"
    by (auto simp: wf_groups_def list_all_iff good_group_def)
  moreover have "0 < quiet (admission_of cfg)" "0 < cooldown (admission_of cfg)"
    "0 < max_cooldown (admission_of cfg)" "0 < quota_requeue_delay (admission_of cfg)"
    using timing_positive [OF assms] by (simp_all add: admission_of_def mk_adm_def Let_def timing_keys_def)
  moreover have "0 \<le> max_quota_requeues (admission_of cfg)" "0 \<le> max_quota_requeue_resets (admission_of cfg)"
    using count_nonnegative [OF assms] by (simp_all add: admission_of_def mk_adm_def Let_def count_keys_def)
  moreover have "max_cooldown (admission_of cfg) \<le> hint_ceiling (admission_of cfg)"
    by (simp add: admission_of_def mk_adm_def Let_def)
  ultimately show ?thesis using groups by (simp add: good_admission_def)
qed

lemma model_for_mem: "models c \<noteq> [] \<Longrightarrow> model_for c worker \<in> set (models c)"
  by (auto simp: model_for_def Let_def nat_less_iff split: option.split intro!: nth_mem)

text \<open>
  C6: a supervisor built from a loaded configuration is well formed: every quota group has
  1 <= minimum <= initial <= ceiling and a nonempty list of verified free models, the delays of the
  admission ledger are positive and its budgets not negative, a factory has at least one worker slot
  and a workspace for each, its retry policy lies within its bounds, the required checks are exactly
  the four of the workflow, and whatever worker asks, the model it is assigned is a verified free one.
\<close>

theorem loaded_config_well_formed:
  assumes "load_config text = Inr cfg" and "make_supervisor resolved cfg = Inr c"
  shows "good_admission (admission c) \<and> (\<forall>f. factory_cfg c = Some f \<longrightarrow> good_factory f)
    \<and> required_checks c = [''Rust formatting'', ''Rust linting'', ''Rust tests'', ''Python tests'']
    \<and> model_for c worker \<in> set free_models"
proof (intro conjI)
  have c: "c = sup_of resolved cfg" using assms(2) by (simp add: make_supervisor_def)
  show "good_admission (admission c)" using admission_good [OF assms(1)] by (simp add: c sup_of_def)
  show "\<forall>f. factory_cfg c = Some f \<longrightarrow> good_factory f"
    using factory_checked [OF load_config_Inr(3) [OF assms(1)]] by (simp add: c sup_of_def)
  show "required_checks c = [''Rust formatting'', ''Rust linting'', ''Rust tests'', ''Python tests'']"
    by (simp add: c sup_of_def load_config_Inr(4) [OF assms(1)] default_checks_def)
  have "models c \<noteq> []" "set (models c) \<subseteq> set free_models"
    using models_checked [OF load_config_Inr(1) [OF assms(1)]]
    by (cases "jget_or cfg ''models'' JNull"; simp add: c sup_of_def or_json_def)+
  then show "model_for c worker \<in> set free_models" using model_for_mem by blast
qed

text \<open>A configuration with one quota group, read from its text.\<close>

definition demo_config :: json where
  "demo_config =
     JObj [(''repository'', JStr ''o/r''), (''state_root'', JStr ''/s''), (''pool_root'', JStr ''/p''),
       (''scheduler'', JObj [(''groups'', JObj [(''swe'', JObj [(''models'', JList [JStr ''swe-2-high'']),
          (''initial'', JInt 2), (''ceiling'', JInt 4)])])]),
       (''factory'', JObj [(''worker_slots'', JInt 2), (''workspace_slots'', JInt 3),
          (''daily_merge_goal'', JInt 10)])]"

definition demo_config_text :: string where
  "demo_config_text = dumps (\<lambda>_. []) demo_config"

lemma demo_config_loads: "loads demo_config_text = Some demo_config"
  unfolding demo_config_text_def by (rule loads_dumps) code_simp

theorem loaded_config_well_formed_witness:
  "\<exists>c. good_admission (admission c) \<and> factory_cfg c \<noteq> None \<and> model_for c ''worker-01'' \<in> set free_models"
proof -
  define run where "run = res_bind (load_models demo_config) (\<lambda>c. res_bind (load_sections c)
    (\<lambda>c1. res_bind (upgrade_checks c1) load_lanes))"
  have "case res_bind run (make_supervisor id) of Inr c \<Rightarrow> factory_cfg c \<noteq> None | Inl _ \<Rightarrow> False"
    unfolding run_def by code_simp
  then obtain cfg c where built: "run = Inr cfg" "make_supervisor id cfg = Inr c" "factory_cfg c \<noteq> None"
    by (cases run) (auto split: sum.splits)
  have "is_obj demo_config" by code_simp
  then have "load_config demo_config_text = Inr cfg"
    using built(1) by (simp add: load_config_def demo_config_loads run_def)
  from loaded_config_well_formed [OF this built(2), of "''worker-01''"] built(3) show ?thesis by blast
qed

end
