(* ===== verification/Watchdog.thy ===== *)
theory Watchdog
  imports Runtime Classify
begin

text \<open>
  agent_pool/runtime.py: the snapshot of a child's process tree, the activity probe and the
  runner's watchdog. The loop that follows the children of a process can only be bounded by what
  /proc reported, so it is a partial function; the watchdog loop consumes one observation
  (\<open>tick\<close>) of the child, the clock and the log per round.
\<close>

subsection \<open>The process tree\<close>

type_synonym stats = "(int \<times> string \<times> int \<times> int) list"

text \<open>One \<open>/proc/<pid>/stat\<close> record: its command, its ticks, its group and its parent.\<close>

definition comm_of :: "string \<Rightarrow> (string \<times> string list) option" where
  "comm_of t =
     (let pre = takeWhile (\<lambda>c. c \<noteq> CHR ''('') t; post = takeWhile (\<lambda>c. c \<noteq> CHR '')'') (rev t);
          lparen = length pre; rparen = length t - length post - 1
      in if CHR ''('' \<in> set t \<and> CHR '')'' \<in> set t \<and> lparen < rparen
         then Some (take (rparen - lparen - 1) (drop (lparen + 1) t), words (drop (rparen + 2) t))
         else None)"

definition field_int :: "string list \<Rightarrow> nat \<Rightarrow> int option" where
  "field_int parts n = (if n < length parts then int_of_text (parts ! n) else None)"

text \<open>
  The statistics are recorded before the parent is parsed: a record whose parent cannot be read
  keeps its statistics and is no one's child.
\<close>

definition note_process ::
  "string \<Rightarrow> string \<Rightarrow> stats \<times> (int \<times> int) list \<Rightarrow> stats \<times> (int \<times> int) list" where
  "note_process name t acc =
     (case comm_of t of
        None \<Rightarrow> acc
      | Some (comm, parts) \<Rightarrow>
          (case (int_of_text name, field_int parts 11, field_int parts 12, field_int parts 2) of
             (Some member, Some utime, Some stime, Some grp) \<Rightarrow>
               (let stats = AList.update member (comm, utime + stime, grp) (fst acc) in
                case field_int parts 1 of
                  None \<Rightarrow> (stats, snd acc)
                | Some parent \<Rightarrow> (stats, snd acc @ [(parent, member)]))
           | _ \<Rightarrow> acc))"

definition kids :: "(int \<times> int) list \<Rightarrow> int \<Rightarrow> int list" where
  "kids edges p = map snd (filter (\<lambda>e. fst e = p) edges)"

type_synonym tree = "(int \<times> string \<times> int) list"

definition add_member :: "stats \<Rightarrow> int \<Rightarrow> tree \<Rightarrow> tree" where
  "add_member stats member tree =
     (case map_of stats member of
        Some (comm, ticks, grp) \<Rightarrow>
          (if member \<in> fst ` set tree then tree else tree @ [(member, comm, ticks)])
      | None \<Rightarrow> tree)"

text \<open>\<open>while pending\<close>: the children are pushed whether or not the member was already in the tree.\<close>

partial_function (option) follow ::
  "stats \<Rightarrow> (int \<Rightarrow> int list) \<Rightarrow> int list \<Rightarrow> tree \<Rightarrow> tree option" where
  "follow stats children pending tree =
     (case pending of
        [] \<Rightarrow> Some tree
      | _ \<Rightarrow> follow stats children (butlast pending @ children (last pending))
              (add_member stats (last pending) tree))"

declare follow.simps [code]

definition group_members :: "stats \<Rightarrow> int \<Rightarrow> tree" where
  "group_members stats pid =
     map (\<lambda>(m, comm, ticks, grp). (m, comm, ticks))
       (filter (\<lambda>(m, comm, ticks, grp). grp = pid) stats)"

definition tree_of :: "int \<Rightarrow> stats \<times> (int \<times> int) list \<Rightarrow> tree option" where
  "tree_of pid acc = follow (fst acc) (kids (snd acc)) [pid] (group_members (fst acc) pid)"

definition read_processes ::
  "'w os \<Rightarrow> string list \<Rightarrow> ('w, stats \<times> (int \<times> int) list) prog" where
  "read_processes X names =
     fold_prog (\<lambda>name acc.
       if name = [] \<or> \<not> list_all is_dig name then ret acc
       else except_if is_os_error
         (doing (look (read_text X (''/proc/'' @ name @ ''/stat''))) (\<lambda>t. ret (note_process name t acc)))
         (\<lambda>_. ret acc)) names ([], [])"

text \<open>\<open>None\<close> is a snapshot that does not return.\<close>

definition process_tree :: "'w os \<Rightarrow> int \<Rightarrow> ('w, tree option) prog" where
  "process_tree X pid =
     doing (ask (is_dir X ''/proc'')) (\<lambda>there.
       if \<not> there then ret (Some [])
       else try_else (look (listdir X ''/proc''))
         (\<lambda>e. if is_os_error e then ret (Some []) else raise e)
         (\<lambda>names. doing (read_processes X names) (\<lambda>acc. ret (tree_of pid acc))))"

definition tree_busy :: "tree \<Rightarrow> tree \<Rightarrow> bool" where
  "tree_busy before after \<longleftrightarrow>
     list_ex (\<lambda>(m, comm, ticks). case map_of before m of None \<Rightarrow> True | Some (c, t) \<Rightarrow> t < ticks) after"

definition process_activity :: "'w os \<Rightarrow> int \<Rightarrow> time \<Rightarrow> ('w, (bool \<times> (int \<times> string) list) option) prog" where
  "process_activity X pid interval =
     doing (process_tree X pid) (\<lambda>first. case first of
       None \<Rightarrow> ret None
     | Some before \<Rightarrow>
         (if before = [] then ret (Some (False, []))
          else and_then (sleep X interval)
            (doing (process_tree X pid) (\<lambda>second. case second of
               None \<Rightarrow> ret None
             | Some after \<Rightarrow> ret (Some (tree_busy before after, map (\<lambda>(m, c, t). (m, c)) after))))))"

definition format_tree :: "(int \<times> string) list \<Rightarrow> string" where
  "format_tree tree =
     (let t = join '' '' (map (\<lambda>(m, c). str_int m @ ''('' @ c @ '')'') (sort_key fst tree))
      in if t = [] then ''none'' else t)"

subsection \<open>The watchdog\<close>

record limits =
  hard_timeout :: time
  stall_after :: "int option"
  error_stall_after :: "int option"

text \<open>\<open>spec.get('error_stall_seconds') or stall_seconds\<close>; a zero limit is no limit.\<close>

definition nonzero :: "int option \<Rightarrow> int option" where
  "nonzero x = (if x = Some 0 then None else x)"

definition error_limit :: "limits \<Rightarrow> int option" where
  "error_limit lim_s = (case nonzero (error_stall_after lim_s) of None \<Rightarrow> stall_after lim_s | Some x \<Rightarrow> Some x)"

record tick =
  t_exited :: bool
  t_interrupted :: bool
  t_now :: time
  t_mtime :: "time option"
  t_stream_error :: bool
  t_busy :: bool
  t_tree :: "(int \<times> string) list"
  t_gone :: bool
  t_mtime2 :: "time option"
  t_after :: time
  t_log_size :: string

record watch =
  w_mtime :: "time option"
  w_activity :: time

datatype verdict = Exited | Killed string "string option"

definition idle_text :: "time \<Rightarrow> string" where
  "idle_text idle = ''No agent output for '' @ str_int \<lfloor>idle\<rfloor> @ ''s; treating as hang''"

definition log_seen :: "time option \<Rightarrow> time \<Rightarrow> watch \<Rightarrow> watch" where
  "log_seen mtime now w =
     (let m = (case mtime of None \<Rightarrow> w_mtime w | Some x \<Rightarrow> Some x) in
      if m \<noteq> w_mtime w then \<lparr>w_mtime = m, w_activity = now\<rparr> else w)"

text \<open>The silent child, after the probe: finished, logged, busy, or stalled.\<close>

definition probe_result :: "tick \<Rightarrow> time \<Rightarrow> watch \<Rightarrow> verdict option \<times> watch" where
  "probe_result t idle w =
     (if t_gone t then (None, w)
      else
        (let w1 = log_seen (t_mtime2 t) (t_after t) w in
         if (case t_mtime2 t of None \<Rightarrow> w_mtime w | Some x \<Rightarrow> Some x) \<noteq> w_mtime w then (None, w1)
         else if t_busy t then (None, w\<lparr>w_activity := t_after t\<rparr>)
         else (Some (Killed ''failed'' (Some (idle_text idle @ ''; idle process tree: ''
                 @ format_tree (t_tree t) @ ''; log tail at byte '' @ t_log_size t))), w)))"

definition watch_tick :: "limits \<Rightarrow> time \<Rightarrow> tick \<Rightarrow> watch \<Rightarrow> verdict option \<times> watch" where
  "watch_tick lim_s started t w =
     (if t_exited t then (Some Exited, w)
      else if t_interrupted t \<or> hard_timeout lim_s \<le> t_now t - started then
        (Some (Killed (if t_interrupted t then ''stopped'' else ''timeout'') None), w)
      else case nonzero (stall_after lim_s) of
        None \<Rightarrow> (None, w)
      | Some stall \<Rightarrow>
          (let w1 = log_seen (t_mtime t) (t_now t) w; idle = t_now t - w_activity w1 in
           if (case error_limit lim_s of None \<Rightarrow> False | Some e \<Rightarrow> of_int e \<le> idle) \<and> t_stream_error t
           then (Some (Killed ''failed'' (Some (idle_text idle))), w1)
           else if of_int stall \<le> idle then probe_result t idle w1
           else (None, w1)))"

fun watchdog :: "limits \<Rightarrow> time \<Rightarrow> tick list \<Rightarrow> watch \<Rightarrow> verdict option" where
  "watchdog lim_s started [] w = None"
| "watchdog lim_s started (t # ts) w =
     (case watch_tick lim_s started t w of
        (Some v, _) \<Rightarrow> Some v
      | (None, w1) \<Rightarrow> watchdog lim_s started ts w1)"

text \<open>The receipt's status: a stall is a failure whatever the child's exit code was.\<close>

definition receipt_status :: "verdict \<Rightarrow> int \<Rightarrow> string" where
  "receipt_status v code =
     (case v of
        Exited \<Rightarrow> (if code = 0 then ''completed'' else ''failed'')
      | Killed reason stalled \<Rightarrow>
          (if stalled \<noteq> None then ''failed''
           else if reason = ''stopped'' \<or> reason = ''timeout'' then reason
           else if code = 0 then ''completed'' else ''failed''))"

definition receipt_of :: "verdict \<Rightarrow> int \<Rightarrow> time \<Rightarrow> json" where
  "receipt_of v code now =
     JObj ([(''status'', JStr (receipt_status v code)), (''exit_code'', JInt code),
            (''finished_at'', JFloat now)]
           @ (case v of Killed _ (Some t) \<Rightarrow> [(''error'', JStr t)] | _ \<Rightarrow> []))"

subsection \<open>The walk over the children\<close>

text \<open>
  Every round takes one process off the stack and pushes its children. When the parent relation
  of the snapshot descends (\<open>rank\<close>: no process is its own ancestor), the stack decreases in the
  multiset order.
\<close>

definition descending :: "(int \<Rightarrow> int list) \<Rightarrow> (int \<Rightarrow> nat) \<Rightarrow> bool" where
  "descending children rank \<longleftrightarrow> (\<forall>p. \<forall>c \<in> set (children p). rank c < rank p)"

lemma follow_Nil: "follow stats children [] tree = Some tree"
  by (subst follow.simps) simp

lemma follow_step:
  "pending \<noteq> [] \<Longrightarrow> follow stats children pending tree
     = follow stats children (butlast pending @ children (last pending))
         (add_member stats (last pending) tree)"
  by (subst follow.simps) (simp split: list.split)

lemma follow_returns:
  assumes "descending children rank"
  shows "\<exists>t. follow stats children pending tree = Some t"
proof (induction "image_mset rank (mset pending)" arbitrary: pending tree
    rule: wf_induct_rule [OF wf_mult [OF wf_less_than]])
  case 1
  show ?case
  proof (cases "pending = []")
    case False
    define rest where "rest = butlast pending"
    define p where "p = last pending"
    have pending: "pending = rest @ [p]" using False by (simp add: rest_def p_def)
    have "\<forall>r \<in># image_mset rank (mset (children p)). r < rank p"
      using assms by (auto simp: descending_def)
    then have "(image_mset rank (mset (rest @ children p)), image_mset rank (mset pending)) \<in> mult less_than"
      using one_step_implies_mult [of "{#rank p#}" "image_mset rank (mset (children p))" less_than
          "image_mset rank (mset rest)"] by (simp add: pending)
    from 1 [OF this] show ?thesis
      using follow_step [OF False] by (simp add: rest_def p_def)
  qed (simp add: follow_Nil)
qed

text \<open>
  C29: the walk over a process tree returns whenever the snapshot's parent relation descends,
  from any stack and any tree collected so far; so a snapshot in which no process is its own
  ancestor is always answered.
\<close>

theorem process_walk_terminates:
  assumes "descending (kids (snd acc)) rank"
  shows "\<exists>t. tree_of pid acc = Some t"
  unfolding tree_of_def by (rule follow_returns [OF assms])

theorem process_walk_terminates_witness:
  "(let acc = ([(7, ''sh'', 3, 7), (9, ''make'', 5, 7)], [(7, 9)]) in
      descending (kids (snd acc)) (\<lambda>p. if p = 7 then 1 else 0) \<and> (\<exists>t. tree_of 7 acc = Some t))"
proof -
  have "descending (kids (snd ([(7, ''sh'', 3, 7), (9, ''make'', 5, 7)] :: stats, [(7, 9)])))
      (\<lambda>p. if p = 7 then 1 else 0)"
    by (simp add: descending_def kids_def)
  from this process_walk_terminates [OF this, of 7] show ?thesis by (simp add: Let_def)
qed

text \<open>A set of processes each of which has a child in the set: no stack that touches it empties.\<close>

definition endless :: "(int \<Rightarrow> int list) \<Rightarrow> int set \<Rightarrow> bool" where
  "endless children C \<longleftrightarrow> (\<forall>c \<in> C. \<exists>d \<in> set (children c). d \<in> C)"

lemma follow_loops:
  assumes "follow stats children pending tree = Some t" and "endless children C"
  shows "set pending \<inter> C = {}"
  using assms
proof (induction stats children pending tree t rule: follow.raw_induct [rotated, consumes 1])
  case (1 follow stats children pending tree t)
  show ?case
  proof (cases "pending = []")
    case False
    then have "follow stats children (butlast pending @ children (last pending))
        (add_member stats (last pending) tree) = Some t"
      using 1(2) by (cases pending) auto
    from 1(1) [OF this 1(3)] have rest: "set (butlast pending) \<inter> C = {}"
      and "set (children (last pending)) \<inter> C = {}" by auto
    then have "last pending \<notin> C" using 1(3) by (auto simp: endless_def)
    moreover have "set pending = insert (last pending) (set (butlast pending))"
      using False by (metis append_butlast_last_id list.simps(15) rotate1.simps(2) set_rotate1)
    ultimately show ?thesis using rest by auto
  qed simp
qed

text \<open>
  A snapshot whose records form a parent cycle below the child (the records are read one
  after the other while processes exit and their numbers are reused) is never answered: the loop
  pushes the children of a process it has already visited.
\<close>

lemma cyclic_snapshot_never_returns:
  assumes "endless (kids (snd acc)) C" and "pid \<in> C"
  shows "tree_of pid acc = None"
proof (cases "tree_of pid acc")
  case (Some t)
  then have "set [pid] \<inter> C = {}" unfolding tree_of_def using assms(1) by (rule follow_loops)
  with assms(2) show ?thesis by simp
qed

subsection \<open>The watchdog\<close>


definition demo_tick :: "time \<Rightarrow> bool \<Rightarrow> tick" where
  "demo_tick now busy =
     \<lparr>t_exited = False, t_interrupted = False, t_now = now, t_mtime = None, t_stream_error = False,
      t_busy = busy, t_tree = [(7, ''sh'')], t_gone = False, t_mtime2 = None, t_after = now + 2,
      t_log_size = ''12''\<rparr>"

definition demo_limits :: limits where
  "demo_limits = \<lparr>hard_timeout = 7200, stall_after = Some 1200, error_stall_after = Some 180\<rparr>"


text \<open>
  What justifies a stall verdict: the child ran, within its hard limit, and either the log ends in
  a provider stream error past the error limit, or the log is older than the stall limit and the
  probe saw neither new output nor a busy tree.
\<close>

definition stall_seen :: "limits \<Rightarrow> time \<Rightarrow> tick \<Rightarrow> bool" where
  "stall_seen lim_s started t \<longleftrightarrow>
     \<not> t_exited t \<and> \<not> t_interrupted t \<and> t_now t - started < hard_timeout lim_s
     \<and> (t_stream_error t \<or> \<not> t_gone t \<and> \<not> t_busy t)"

text \<open>
  The watchdog declares a stall only on such an observation; a tree that consumes CPU time
  or a log that grows under the probe is never killed as stalled.
\<close>

lemma stall_verdict_justified:
  assumes "watchdog lim_s started ts w = Some (Killed reason (Some msg))"
  shows "\<exists>t \<in> set ts. stall_seen lim_s started t"
  using assms
proof (induction ts arbitrary: w)
  case (Cons t ts)
  show ?case
  proof (cases "watch_tick lim_s started t w")
    case (Pair v w1)
    show ?thesis
    proof (cases v)
      case None
      with Cons Pair show ?thesis by auto
    next
      case (Some x)
      with Cons.prems Pair have "stall_seen lim_s started t"
        by (auto simp: watch_tick_def stall_seen_def probe_result_def Let_def
            split: if_splits option.splits)
      then show ?thesis by simp
    qed
  qed
qed simp

end
