(* ===== verification/QaState.thy ===== *)
theory QaState
  imports Supervisor
begin

text \<open>
  qa_lane/state.py: the durable state of the QA lane. The SQLite database is a settings table (keys
  to decoded JSON values) and the table of runs in insertion order. A run is an assessment of a
  revision (its id starts with \<open>qa-\<close>), a fix verification (\<open>qav-\<close>) or an exploration (\<open>qax-\<close>). An
  operation takes the clock reading it uses; one that raises leaves the database as it was.
\<close>

subsection \<open>Rows\<close>

datatype run_status = Queued | Running | Finished | Interrupted | Superseded

record run_row =
  u_id :: string
  u_sha :: string
  u_completed :: "string option"
  u_status :: run_status
  u_outcome :: "string option"
  u_attempt :: int
  u_day :: string
  u_pid :: "int option"
  u_created :: time
  u_started :: "time option"
  u_finished :: "time option"
  u_report :: "string option"
  u_error :: "string option"
  u_first :: "string option"

record qa_db =
  lane_settings :: "(string \<times> json) list"
  lane_runs :: "run_row list"

definition lget :: "string \<Rightarrow> json \<Rightarrow> qa_db \<Rightarrow> json" where
  "lget k d s = (case map_of (lane_settings s) k of None \<Rightarrow> d | Some v \<Rightarrow> v)"

definition lset :: "string \<Rightarrow> json \<Rightarrow> qa_db \<Rightarrow> qa_db" where
  "lset k v s = s\<lparr>lane_settings := AList.update k v (lane_settings s)\<rparr>"

interpretation lane_table: settings_store lget lset
  by unfold_locales (simp_all add: lget_def lset_def update_conv)

declare lane_table.get_put [simp]

lemma lane_runs_lset [simp]: "lane_runs (lset k v s) = lane_runs s"
  by (simp add: lset_def)

subsection \<open>Dates\<close>

text \<open>
  \<open>time.strftime('%Y-%m-%d', time.gmtime(now))\<close>: the day since the epoch as a date of the
  Gregorian calendar, counted in eras of 400 years that start on the first of March.
\<close>

definition civil_date :: "int \<Rightarrow> int \<times> int \<times> int" where
  "civil_date days =
     (let z = days + 719468; era = z div 146097; doe = z mod 146097;
          yoe = (doe - doe div 1460 + doe div 36524 - doe div 146096) div 365;
          doy = doe - (365 * yoe + yoe div 4 - yoe div 100); mp = (5 * doy + 2) div 153;
          d = doy - (153 * mp + 2) div 5 + 1; m = (if mp < 10 then mp + 3 else mp - 9);
          y = yoe + era * 400 + (if m \<le> 2 then 1 else 0)
      in (y, m, d))"

definition utc_date :: "string \<Rightarrow> time \<Rightarrow> string" where
  "utc_date sep now =
     (case civil_date (\<lfloor>now\<rfloor> div 86400) of
        (y, m, d) \<Rightarrow> str_int y @ sep @ two_digits m @ sep @ two_digits d)"

abbreviation utc_day :: "time \<Rightarrow> string" where
  "utc_day \<equiv> utc_date ''-''"

subsection \<open>Reading\<close>

definition lane_run :: "string \<Rightarrow> qa_db \<Rightarrow> run_row option" where
  "lane_run rid s = find_row u_id rid (lane_runs s)"

text \<open>\<open>ORDER BY created\<close>; rows of the same moment keep their order of insertion.\<close>

definition all_runs :: "qa_db \<Rightarrow> run_row list" where
  "all_runs s = sort_key u_created (lane_runs s)"

definition runs_in :: "run_status list \<Rightarrow> qa_db \<Rightarrow> run_row list" where
  "runs_in sts s = sort_key u_created (filter (\<lambda>r. u_status r \<in> set sts) (lane_runs s))"

definition is_kind :: "string \<Rightarrow> run_row \<Rightarrow> bool" where
  "is_kind kind r = starts_with (kind @ ''-'') (u_id r)"

text \<open>\<open>run_id LIKE kind-%\<close>: SQLite compares ASCII letters without case.\<close>

definition like_kind :: "string \<Rightarrow> run_row \<Rightarrow> bool" where
  "like_kind kind r = starts_with (lower (kind @ ''-'')) (lower (u_id r))"

definition assessments :: "run_status list \<Rightarrow> qa_db \<Rightarrow> run_row list" where
  "assessments sts s = filter (is_kind ''qa'') (runs_in sts s)"

definition last_of :: "'a list \<Rightarrow> 'a option" where
  "last_of xs = (if xs = [] then None else Some (last xs))"

definition next_queued :: "string option \<Rightarrow> qa_db \<Rightarrow> run_row option" where
  "next_queued kind s =
     last_of (filter (\<lambda>r. case kind of None \<Rightarrow> True | Some p \<Rightarrow> is_kind p r) (runs_in [Queued] s))"

definition has_started :: "run_row \<Rightarrow> bool" where
  "has_started r \<longleftrightarrow> u_status r \<in> {Running, Finished, Interrupted}"

definition attempts_for :: "string \<Rightarrow> qa_db \<Rightarrow> int" where
  "attempts_for sha s =
     (let as = map u_attempt (filter (\<lambda>r. u_sha r = sha \<and> has_started r) (lane_runs s)) in
      if as = [] then 0 else Max (set as))"

definition started_today :: "string \<Rightarrow> string option \<Rightarrow> qa_db \<Rightarrow> nat" where
  "started_today day kind s =
     length (filter (\<lambda>r. u_day r = day \<and> has_started r
       \<and> (case kind of None \<Rightarrow> True | Some p \<Rightarrow> like_kind p r)) (lane_runs s))"

definition last_started :: "string \<Rightarrow> qa_db \<Rightarrow> time option" where
  "last_started kind s =
     (let ts = List.map_filter u_started (filter (like_kind kind) (lane_runs s)) in
      if ts = [] then None else Some (Max (set ts)))"

definition last_attempted_sha :: "qa_db \<Rightarrow> string option" where
  "last_attempted_sha s = map_option u_sha
     (last_of (filter (\<lambda>r. u_outcome r \<noteq> Some ''blocked'')
       (assessments [Queued, Running, Finished, Interrupted] s)))"

definition latest_verdicted_sha :: "qa_db \<Rightarrow> string option" where
  "latest_verdicted_sha s =
     (case last_of (filter (\<lambda>r. u_outcome r \<in> {Some ''passed'', Some ''failed''}
         \<and> nonempty (u_completed r) \<noteq> None) (assessments [Finished] s)) of
        None \<Rightarrow> None | Some r \<Rightarrow> u_completed r)"

subsection \<open>Queueing\<close>

definition new_run :: "string \<Rightarrow> string \<Rightarrow> time \<Rightarrow> string \<Rightarrow> int \<Rightarrow> string option \<Rightarrow> run_row" where
  "new_run rid sha now day nth_try range_first =
     \<lparr>u_id = rid, u_sha = sha, u_completed = None, u_status = Queued, u_outcome = None,
      u_attempt = nth_try, u_day = day, u_pid = None, u_created = now, u_started = None,
      u_finished = None, u_report = None, u_error = None, u_first = range_first\<rparr>"

definition insert_run :: "run_row \<Rightarrow> qa_db \<Rightarrow> qa_db res" where
  "insert_run r s =
     (if u_id r \<in> u_id ` set (lane_runs s) then Inl IntegrityError
      else Inr (s\<lparr>lane_runs := lane_runs s @ [r]\<rparr>))"

definition supersede :: "time \<Rightarrow> run_row \<Rightarrow> qa_db \<Rightarrow> qa_db" where
  "supersede now q s = s\<lparr>lane_runs := update_row u_id (u_id q)
     (\<lambda>r. r\<lparr>u_status := Superseded, u_finished := Some now\<rparr>) (lane_runs s)\<rparr>"

text \<open>The oldest revision no assessment has covered, as \<open>enqueue\<close> determines it.\<close>

definition range_first :: "string \<Rightarrow> qa_db \<Rightarrow> string option" where
  "range_first sha s =
     (case assessments [Queued] s of
        q # qs \<Rightarrow> Some (case nonempty (u_first q) of Some f \<Rightarrow> f | None \<Rightarrow> u_sha q)
      | [] \<Rightarrow>
          (case last_of (assessments [Finished, Interrupted] s) of
             None \<Rightarrow> None
           | Some r \<Rightarrow>
               (let prev = (case nonempty (u_completed r) of Some c \<Rightarrow> c | None \<Rightarrow> u_sha r) in
                if prev \<noteq> sha then Some prev else None)))"

definition enqueue ::
  "string \<Rightarrow> string \<Rightarrow> time \<Rightarrow> string \<Rightarrow> int \<Rightarrow> qa_db \<Rightarrow> (qa_db \<times> run_row) res" where
  "enqueue rid sha now day nth_try s =
     (case List.find (\<lambda>r. is_kind ''qa'' r \<and> u_sha r = sha) (runs_in [Queued, Running] s) of
        Some r \<Rightarrow> Inr (s, r)
      | None \<Rightarrow>
          (let r = new_run rid sha now day nth_try (range_first sha s) in
           res_bind (insert_run r (fold (supersede now) (assessments [Queued] s) s))
             (\<lambda>s1. Inr (s1, r))))"

definition queue_dedicated :: "string \<Rightarrow> string \<Rightarrow> time \<Rightarrow> string \<Rightarrow> qa_db \<Rightarrow> (qa_db \<times> run_row) res" where
  "queue_dedicated rid sha now day s =
     (let r = new_run rid sha now day 1 None in
      res_bind (insert_run r s) (\<lambda>s1. Inr (s1, r)))"

definition queue_verification :: "string \<Rightarrow> string \<Rightarrow> time \<Rightarrow> string \<Rightarrow> qa_db \<Rightarrow> (qa_db \<times> run_row) res" where
  "queue_verification = queue_dedicated"

subsection \<open>The life of a run\<close>

definition begin_run :: "string \<Rightarrow> int \<Rightarrow> time \<Rightarrow> qa_db \<Rightarrow> qa_db" where
  "begin_run rid pid now s = s\<lparr>lane_runs := update_row u_id rid
     (\<lambda>r. if u_status r = Queued
          then r\<lparr>u_status := Running, u_pid := Some pid, u_started := Some now, u_day := utc_day now\<rparr>
          else r) (lane_runs s)\<rparr>"

definition finish_run ::
  "string \<Rightarrow> string \<Rightarrow> string option \<Rightarrow> string \<Rightarrow> time \<Rightarrow> qa_db \<Rightarrow> qa_db" where
  "finish_run rid result completed path now s = s\<lparr>lane_runs := update_row u_id rid
     (\<lambda>r. r\<lparr>u_status := Finished, u_outcome := Some result, u_completed := completed,
            u_report := Some path, u_finished := Some now\<rparr>) (lane_runs s)\<rparr>"

definition interrupt_run :: "string \<Rightarrow> string \<Rightarrow> time \<Rightarrow> qa_db \<Rightarrow> qa_db" where
  "interrupt_run rid error now s = s\<lparr>lane_runs := update_row u_id rid
     (\<lambda>r. r\<lparr>u_status := Interrupted, u_outcome := Some ''interrupted'', u_error := Some error,
            u_finished := Some now\<rparr>) (lane_runs s)\<rparr>"

definition attach_report :: "string \<Rightarrow> string \<Rightarrow> time \<Rightarrow> qa_db \<Rightarrow> qa_db" where
  "attach_report rid path now s = s\<lparr>lane_runs := update_row u_id rid
     (\<lambda>r. r\<lparr>u_report := Some path, u_finished := Some now\<rparr>) (lane_runs s)\<rparr>"

subsection \<open>Cleanup failures and retention pins\<close>

definition cleanup_errors :: "qa_db \<Rightarrow> json" where
  "cleanup_errors s = lget ''cleanup_errors'' (JObj []) s"

definition record_cleanup_error :: "string \<Rightarrow> string \<Rightarrow> time \<Rightarrow> qa_db \<Rightarrow> qa_db" where
  "record_cleanup_error k detail now s =
     (let errors = cleanup_errors s; entry = jset ''detail'' (JStr (take 500 detail)) (jget_or errors k (JObj []));
          seen = (case jget entry ''first_seen'' of None \<Rightarrow> jset ''first_seen'' (JFloat now) entry | Some _ \<Rightarrow> entry)
      in lset ''cleanup_errors'' (jset k (jset ''last_seen'' (JFloat now) seen) errors) s)"

definition clear_cleanup_error :: "string \<Rightarrow> qa_db \<Rightarrow> qa_db" where
  "clear_cleanup_error k s =
     (if jget (cleanup_errors s) k = None then s
      else lset ''cleanup_errors'' (JObj (AList.delete k (fields_of (cleanup_errors s)))) s)"

definition pinned :: "string \<Rightarrow> qa_db \<Rightarrow> json list" where
  "pinned plural s = items_of (jget_or (lget ''preserve'' (JObj []) s) plural (JList []))"

definition preserved :: "qa_db \<Rightarrow> json list \<times> json list" where
  "preserved s = (pinned ''runs'' s, pinned ''shas'' s)"

definition set_preserve :: "string \<Rightarrow> string \<Rightarrow> bool \<Rightarrow> qa_db \<Rightarrow> qa_db res" where
  "set_preserve kind value on s =
     (if kind \<notin> {''run'', ''sha''} then Inl (ValueError ''preserve kind must be run or sha'')
      else (let plural = kind @ ''s''; entries = pinned plural s;
                kept = (if on then (if JStr value \<in> set entries then entries else entries @ [JStr value])
                        else filter (\<lambda>e. e \<noteq> JStr value) entries)
            in Inr (lset ''preserve'' (jset plural (JList kept) (lget ''preserve'' (JObj []) s)) s)))"

end
