(* ===== verification/QaRunner.thy ===== *)
theory QaRunner
  imports QaState FindingsLane
begin

text \<open>
  qa_lane/runner.py: the helpers every run shares. A program of the lane works on its database, the
  timeline of the current run (kept in memory and appended to a file) and the outside world. Docker
  is asked through the operating system's \<open>exec\<close>. Parameters (the record \<open>rig\<close>): what the programs
  ask of the host beyond that, and the building and driving of the rig itself, which is not modelled.
  Not modelled: the log.
\<close>

subsection \<open>Configuration, parameters, programs\<close>

record lane_cfg =
  lc_state_dir :: string
  lc_src_dir :: string
  lc_git_dir :: string
  lc_max_runs :: int
  lc_max_attempts :: int
  lc_min_free :: int
  lc_storage_max :: int
  lc_headroom :: int
  lc_runs_keep :: nat
  lc_src_keep :: nat
  lc_images_keep :: nat
  lc_orphan_days :: int
  lc_cargo_max :: int
  lc_build_max :: int
  lc_docker_max :: int
  lc_egress :: bool
  lc_builder_image :: string
  lc_capabilities :: "json list"
  lc_explore :: bool
  lc_explore_max :: int
  lc_explore_gap :: int
  lc_explore_budget :: int
  lc_timeout :: int
  lc_devin :: string
  lc_model :: string
  lc_ledger_keep :: int

record 'w rig =
  rig_pid :: int
  rig_os_name :: string
  rig_iso :: iso
  rig_scaled :: "string \<Rightarrow> int \<Rightarrow> int option"
  rig_walk :: "string \<Rightarrow> 'w \<Rightarrow> (string \<times> (time \<times> int) option) list"
  rig_free :: "string \<Rightarrow> 'w \<Rightarrow> int res"
  rig_mtime :: "string \<Rightarrow> 'w \<Rightarrow> time res"
  rig_is_link :: "string \<Rightarrow> 'w \<Rightarrow> bool"
  rig_rmtree :: "string \<Rightarrow> ('w, unit) prog"
  rig_unlink :: "string \<Rightarrow> ('w, unit) prog"
  rig_copy :: "string \<Rightarrow> string \<Rightarrow> ('w, unit) prog"
  rig_append :: "string \<Rightarrow> string \<Rightarrow> ('w, unit) prog"
  rig_signal :: "int \<Rightarrow> 'w \<Rightarrow> unit res"
  rig_cmdline :: "int \<Rightarrow> 'w \<Rightarrow> string res"
  rig_build :: "string \<Rightarrow> string \<Rightarrow> ('w, json) prog"
  rig_start :: "run_row \<Rightarrow> string \<Rightarrow> ('w, unit) prog"
  rig_wait :: "('w, bool) prog"
  rig_cases :: "string list"
  rig_replay :: "string \<Rightarrow> run_row \<Rightarrow> ('w, json) prog"
  rig_scenarios :: "run_row \<Rightarrow> ('w, json list) prog"
  rig_lock :: "string \<Rightarrow> ('w, bool) prog"
  rig_root :: bool
  rig_which :: "string \<Rightarrow> 'w \<Rightarrow> string option"
  rig_monotonic :: "'w \<Rightarrow> time"
  rig_copytree :: "string \<Rightarrow> string \<Rightarrow> ('w, unit) prog"
  rig_prompt :: "run_row \<Rightarrow> string \<Rightarrow> string \<Rightarrow> ('w, unit) prog"
  rig_spawn :: "string list \<Rightarrow> string \<Rightarrow> time \<Rightarrow> ('w, string \<times> string \<times> time) prog"

text \<open>The variables of the run in progress that its error handler sees.\<close>

record run_mem =
  m_events :: "json list"
  m_results :: "json list"
  m_images :: json
  m_infra :: "json list"
  m_verdicts :: "json option"
  m_exploration :: "json option"
  m_caps :: "json list"

definition no_mem :: run_mem where
  "no_mem = \<lparr>m_events = [], m_results = [], m_images = JNull, m_infra = [], m_verdicts = None,
     m_exploration = None, m_caps = []\<rparr>"

type_synonym 'w lane_st = "(qa_db \<times> run_mem) \<times> 'w"

definition lread :: "(qa_db \<Rightarrow> 'a) \<Rightarrow> ('w lane_st, 'a) prog" where
  "lread f = get (\<lambda>(s, m). f s)"

definition ltry :: "(qa_db \<Rightarrow> (qa_db \<times> 'a) res) \<Rightarrow> ('w lane_st, 'a) prog" where
  "ltry f = transact (\<lambda>(s, m). res_bind (f s) (\<lambda>(s1, x). Inr ((s1, m), x)))"

definition lput :: "(qa_db \<Rightarrow> qa_db) \<Rightarrow> ('w lane_st, unit) prog" where
  "lput f = put (\<lambda>(s, m). (f s, m))"

definition mem :: "(run_mem \<Rightarrow> 'a) \<Rightarrow> ('w lane_st, 'a) prog" where
  "mem f = get (\<lambda>(s, m). f m)"

definition set_mem :: "(run_mem \<Rightarrow> run_mem) \<Rightarrow> ('w lane_st, unit) prog" where
  "set_mem f = put (\<lambda>(s, m). (s, f m))"

text \<open>\<open>try: m finally: f\<close>\<close>

definition finally_do :: "('s, 'a) prog \<Rightarrow> ('s, unit) prog \<Rightarrow> ('s, 'a) prog" where
  "finally_do m f = (\<lambda>s. case m s of (r, s1) \<Rightarrow>
     (case f s1 of (Inl e, s2) \<Rightarrow> (Inl e, s2) | (Inr _, s2) \<Rightarrow> (r, s2)))"

text \<open>\<open>datetime.isoformat(timespec='seconds')\<close> of a UTC time\<close>

definition utc_stamp :: "time \<Rightarrow> string" where
  "utc_stamp now =
     (let secs = \<lfloor>now\<rfloor> mod 86400 in
      utc_day now @ ''T'' @ two_digits (secs div 3600) @ '':'' @ two_digits (secs div 60 mod 60)
      @ '':'' @ two_digits (secs mod 60))"

definition iso_utc :: "time \<Rightarrow> string" where
  "iso_utc now = utc_stamp now @ ''+00:00''"

subsection \<open>The timeline\<close>

definition run_dir :: "lane_cfg \<Rightarrow> string \<Rightarrow> string" where
  "run_dir c rid = slash (slash (lc_state_dir c) ''runs'') rid"

definition timeline_event :: "time \<Rightarrow> string \<Rightarrow> string \<Rightarrow> json" where
  "timeline_event now event detail =
     JObj ([(''t'', JStr (iso_utc now)), (''event'', JStr event)]
       @ (if detail = [] then [] else [(''detail'', JStr detail)]))"

definition timeline ::
  "'w os \<Rightarrow> 'w rig \<Rightarrow> string \<Rightarrow> string \<Rightarrow> string \<Rightarrow> ('w lane_st, unit) prog" where
  "timeline X R dir event detail = timed X (\<lambda>now.
     let e = timeline_event now event detail in
     and_then (set_mem (\<lambda>m. m\<lparr>m_events := m_events m @ [e]\<rparr>))
       (io (rig_append R (slash dir ''timeline.jsonl'') (dumps_std (float_text X) e @ [newline]))))"

definition read_timeline :: "'w os \<Rightarrow> string \<Rightarrow> ('w, json list) prog" where
  "read_timeline X dir =
     (let path = slash dir ''timeline.jsonl'' in
      doing (ask (is_file X path)) (\<lambda>there.
        if \<not> there then ret []
        else doing (look (read_text X path)) (\<lambda>t. ret (List.map_filter loads (splitlines t)))))"

subsection \<open>Docker\<close>

definition docker :: "'w os \<Rightarrow> string list \<Rightarrow> ('w, proc_result) prog" where
  "docker X args = exec X None (''docker'' # args)"

definition managed_label :: string where "managed_label = ''dcs-hwtest.managed''"
definition run_label :: string where "run_label = ''dcs-hwtest.run''"
definition image_prefix :: string where "image_prefix = ''dcs-hwtest/''"

definition labeled_line :: "string \<Rightarrow> (string \<times> string) option" where
  "labeled_line l = (case words l of [x, y] \<Rightarrow> Some (x, y) | _ \<Rightarrow> None)"

text \<open>Whether the listing itself worked, and the managed objects with the run they belong to.\<close>

definition labeled_rows :: "'w os \<Rightarrow> string list \<Rightarrow> ('w, bool \<times> (string \<times> string) list) prog" where
  "labeled_rows X args =
     doing (docker X (args @ [''--filter'', ''label='' @ managed_label @ ''=1'', ''--format'',
         ''{{.ID}} {{.Label '' @ [quote] @ run_label @ [quote] @ ''}}''])) (\<lambda>r.
       ret (returncode r = 0,
            if returncode r = 0 then List.map_filter labeled_line (splitlines (stdout r)) else []))"

definition managed_containers :: "'w os \<Rightarrow> ('w, bool \<times> (string \<times> string) list) prog" where
  "managed_containers X = labeled_rows X [''ps'', ''-a'']"

definition managed_networks :: "'w os \<Rightarrow> ('w, bool \<times> (string \<times> string) list) prog" where
  "managed_networks X = labeled_rows X [''network'', ''ls'']"

subsection \<open>The footprint\<close>

definition size_units :: "(string \<times> int) list" where
  "size_units =
     [(''kib'', 1024), (''mib'', 1024 ^ 2), (''gib'', 1024 ^ 3), (''tib'', 1024 ^ 4),
      (''kb'', 1000), (''mb'', 1000 ^ 2), (''gb'', 1000 ^ 3), (''tb'', 1000 ^ 4), (''b'', 1)]"

text \<open>\<open>int(float(text) * unit)\<close> is a parameter; \<open>None\<close> when \<open>float\<close> refuses the text.\<close>

definition parse_size :: "(string \<Rightarrow> int \<Rightarrow> int option) \<Rightarrow> string \<Rightarrow> int" where
  "parse_size scaled t =
     (let s = strip t; number = (\<lambda>x k. case scaled x k of None \<Rightarrow> 0 | Some n \<Rightarrow> n) in
      case List.find (\<lambda>(u, k). ends_with u (lower s)) size_units of
        Some (u, k) \<Rightarrow> number (take (length s - length u) s) k
      | None \<Rightarrow> number s 1)"

definition dir_size :: "'w rig \<Rightarrow> string \<Rightarrow> 'w \<Rightarrow> int" where
  "dir_size R path w = sum_list (map snd (List.map_filter snd (rig_walk R path w)))"

type_synonym image_row = "string \<times> string \<times> string \<times> int"

definition image_line :: "'w rig \<Rightarrow> lane_cfg \<Rightarrow> string \<Rightarrow> image_row option" where
  "image_line R c l =
     (case split_on CHR ''|'' l of
        [img, tag, iid, sz] \<Rightarrow>
          if starts_with image_prefix img \<or> img @ '':'' @ tag = lc_builder_image c
          then Some (img, tag, iid, parse_size (rig_scaled R) sz) else None
      | _ \<Rightarrow> None)"

definition qa_images :: "'w os \<Rightarrow> 'w rig \<Rightarrow> lane_cfg \<Rightarrow> ('w, image_row list) prog" where
  "qa_images X R c =
     doing (docker X [''image'', ''ls'', ''--format'', ''{{.Repository}}|{{.Tag}}|{{.ID}}|{{.Size}}'']) (\<lambda>r.
       ret (if returncode r \<noteq> 0 then [] else List.map_filter (image_line R c) (splitlines (stdout r))))"

text \<open>The first row of \<open>docker system df\<close> whose type names the build cache; other types are strings.\<close>

definition names_build :: "json \<Rightarrow> bool" where
  "names_build row = in_text ''build'' (lower (fstr ''Type'' row))"

fun cache_of_lines :: "(string \<Rightarrow> int \<Rightarrow> int option) \<Rightarrow> string list \<Rightarrow> int res" where
  "cache_of_lines scaled [] = Inr 0"
| "cache_of_lines scaled (l # ls) =
     (case loads l of
        None \<Rightarrow> cache_of_lines scaled ls
      | Some row \<Rightarrow>
          if \<not> is_obj row then Inl (AttributeError ''get'')
          else if names_build row
          then Inr (parse_size scaled (case jget row ''Size'' of None \<Rightarrow> ''0''
            | Some (JInt i) \<Rightarrow> str_int i | Some v \<Rightarrow> str_of v))
          else cache_of_lines scaled ls)"

definition build_cache_bytes :: "'w os \<Rightarrow> 'w rig \<Rightarrow> ('w, int) prog" where
  "build_cache_bytes X R =
     doing (docker X [''system'', ''df'', ''--format'', ''{{json .}}'']) (\<lambda>r.
       if returncode r \<noteq> 0 then ret 0
       else of_res (cache_of_lines (rig_scaled R) (splitlines (stdout r))))"

record usage =
  us_files :: int
  us_images :: int
  us_cache :: int

definition us_total :: "usage \<Rightarrow> int" where
  "us_total u = us_files u + us_images u + us_cache u"

definition storage_usage :: "'w os \<Rightarrow> 'w rig \<Rightarrow> lane_cfg \<Rightarrow> ('w, usage) prog" where
  "storage_usage X R c =
     doing (ask (dir_size R (lc_state_dir c))) (\<lambda>files.
     doing (qa_images X R c) (\<lambda>images.
     doing (build_cache_bytes X R) (\<lambda>cache.
       ret \<lparr>us_files = files, us_images = sum_list (map (\<lambda>(n, t, i, sz). sz) images), us_cache = cache\<rparr>)))"

subsection \<open>Run ids\<close>

definition pad3 :: "nat \<Rightarrow> string" where
  "pad3 n = replicate (3 - length (str_nat n)) CHR ''0'' @ str_nat n"

definition run_id_at :: "string \<Rightarrow> string \<Rightarrow> nat \<Rightarrow> string" where
  "run_id_at kind day n = kind @ ''-'' @ day @ ''-'' @ pad3 n"

text \<open>
  The first free number of the day. Among as many numbers as there are runs, plus one, some number
  is free, so a search of that length finds it.
\<close>

fun free_seq :: "string \<Rightarrow> string \<Rightarrow> qa_db \<Rightarrow> nat \<Rightarrow> nat \<Rightarrow> nat" where
  "free_seq kind day s 0 n = n"
| "free_seq kind day s (Suc k) n =
     (if lane_run (run_id_at kind day n) s \<noteq> None then free_seq kind day s k (Suc n) else n)"

definition new_run_id :: "string \<Rightarrow> time \<Rightarrow> qa_db \<Rightarrow> string" where
  "new_run_id kind now s =
     (let day = utc_date [] now in
      run_id_at kind day (free_seq kind day s (length (lane_runs s)) 1))"

end
