(* ===== verification/QaRuns.thy ===== *)
theory QaRuns
  imports QaRunner
begin

text \<open>
  qa_lane/runner.py: the report of a run, the removal of its containers, the gates before it, and an
  assessment run as a whole with its error paths. Building the images, starting the rig and the
  scenarios are parameters. The long dashes of the messages are written as hyphens.
\<close>

subsection \<open>The report\<close>

definition keys_seen :: "json list \<Rightarrow> json list" where
  "keys_seen infra = map (\<lambda>i. jget_or i ''key'' JNull) (filter is_obj infra)"

definition first_seen_text :: "'w os \<Rightarrow> json \<Rightarrow> string" where
  "first_seen_text X entry =
     (case jget_or entry ''first_seen'' JNull of
        JFloat t \<Rightarrow> float_text X t | JInt i \<Rightarrow> str_int i | JStr t \<Rightarrow> t | _ \<Rightarrow> ''None'')"

definition cleanup_item :: "'w os \<Rightarrow> string \<times> json \<Rightarrow> json" where
  "cleanup_item X ke =
     JObj [(''key'', JStr (fst ke)),
           (''detail'', JStr (take 3900 (fstr ''detail'' (snd ke)) @ '' (first seen ''
              @ first_seen_text X (snd ke) @ '')'')),
           (''phase'', JStr ''cleanup'')]"

text \<open>The durable cleanup failures a report carries beside its own.\<close>

definition with_cleanup :: "'w os \<Rightarrow> qa_db \<Rightarrow> json list \<Rightarrow> json list" where
  "with_cleanup X s infra =
     infra @ map (cleanup_item X) (filter (\<lambda>(k, e). JStr k \<notin> set (keys_seen infra))
       (sort_key fst (fields_of (cleanup_errors s))))"

record run_extras =
  x_verifications :: "json option"
  x_mode :: "string option"
  x_exploration :: "json option"
  x_caps :: "json list"

definition no_extras :: run_extras where
  "no_extras = \<lparr>x_verifications = None, x_mode = None, x_exploration = None, x_caps = []\<rparr>"

definition given :: "string \<Rightarrow> json option \<Rightarrow> (string \<times> json) list" where
  "given k v = (case v of None \<Rightarrow> [] | Some x \<Rightarrow> [(k, x)])"

definition report_doc ::
  "'w os \<Rightarrow> 'w rig \<Rightarrow> lane_cfg \<Rightarrow> run_row \<Rightarrow> string \<Rightarrow> string option \<Rightarrow> json \<Rightarrow> json list \<Rightarrow> json list
    \<Rightarrow> json list \<Rightarrow> run_extras \<Rightarrow> time \<Rightarrow> time \<Rightarrow> json" where
  "report_doc X R c r result completed images results infra evs x began now =
     JObj ([(''schema_version'', JInt 3), (''run_id'', JStr (u_id r)), (''attempted_sha'', JStr (u_sha r)),
            (''completed_sha'', jopt completed), (''image'', images), (''started_at'', JStr (iso_utc began)),
            (''finished_at'', JStr (iso_utc now)), (''outcome'', JStr result), (''attempt'', JInt (u_attempt r)),
            (''host'', JObj [(''name'', JStr ''lenovo''), (''os'', JStr (rig_os_name R))]),
            (''scenarios'', JList results), (''capability_limitations'', JList (lc_capabilities c @ x_caps x)),
            (''infrastructure_failures'', JList infra), (''timeline'', JList evs)]
       @ given ''changed_range'' (map_option (\<lambda>f. JObj [(''first'', JStr f), (''last'', JStr (u_sha r))])
           (nonempty (u_first r)))
       @ given ''verifications'' (x_verifications x) @ given ''mode'' (map_option JStr (x_mode x))
       @ given ''exploration'' (x_exploration x))"

definition run_began :: "run_row \<Rightarrow> time \<Rightarrow> time" where
  "run_began r now = (case u_started r of None \<Rightarrow> now | Some t \<Rightarrow> if t = 0 then now else t)"

definition persist_report ::
  "'w os \<Rightarrow> 'w rig \<Rightarrow> lane_cfg \<Rightarrow> run_row \<Rightarrow> string \<Rightarrow> string option \<Rightarrow> json \<Rightarrow> json list \<Rightarrow> json list
    \<Rightarrow> run_extras \<Rightarrow> ('w lane_st, unit) prog" where
  "persist_report X R c r result completed images results infra0 x =
     (let dir = run_dir c (u_id r); path = slash dir ''report.json'';
          reports = slash (lc_state_dir c) ''reports'' in
      doing (lread (\<lambda>s. with_cleanup X s infra0)) (\<lambda>infra.
      doing (mem m_events) (\<lambda>evs.
      and_then (io (mkdir X dir)) (timed X (\<lambda>now.
        let doc = report_doc X R c r result completed images results infra evs x (run_began r now) now in
        doing (of_res (validate_qa_report (rig_iso R) (Some (u_id r)) (Some (u_sha r))
            (dumps_std (float_text X) doc))) (\<lambda>_. steps
          [io (write_text X path (dumps_indent (float_text X) 0 doc @ [newline])),
           io (mkdir X reports),
           io (rig_copy R path (slash reports (u_id r @ ''.json''))),
           timed X (\<lambda>fin. lput (if result = ''interrupted'' then attach_report (u_id r) path fin
             else finish_run (u_id r) result completed path fin))]))))))"

definition plain_report ::
  "'w os \<Rightarrow> 'w rig \<Rightarrow> lane_cfg \<Rightarrow> run_row \<Rightarrow> string \<Rightarrow> json list \<Rightarrow> ('w lane_st, unit) prog" where
  "plain_report X R c r result infra = persist_report X R c r result None JNull [] infra no_extras"

definition infra_item :: "string \<Rightarrow> string \<Rightarrow> string \<Rightarrow> json" where
  "infra_item k detail phase =
     JObj [(''key'', JStr k), (''detail'', JStr detail), (''phase'', JStr phase)]"

text \<open>The report of a run whose process died, from the timeline it left.\<close>

definition write_interrupted_report :: "'w os \<Rightarrow> 'w rig \<Rightarrow> lane_cfg \<Rightarrow> run_row \<Rightarrow> ('w lane_st, unit) prog" where
  "write_interrupted_report X R c r =
     doing (io (read_timeline X (run_dir c (u_id r)))) (\<lambda>evs.
     timed X (\<lambda>now.
       and_then (set_mem (\<lambda>_. no_mem\<lparr>m_events := evs @ [timeline_event now ''reconciled''
           ''runner process gone; run marked interrupted and its labeled containers removed'']\<rparr>))
         (except_any (plain_report X R c r ''interrupted'' [infra_item ''runner-died''
             (case nonempty (u_error r) of None \<Rightarrow> ''runner process died mid-run'' | Some e \<Rightarrow> e) ''run''])
           (\<lambda>e. ret ()))))"

subsection \<open>Teardown\<close>

definition cleanup_key :: "string \<Rightarrow> string \<Rightarrow> string" where
  "cleanup_key kind ref = ''cleanup-'' @ kind @ ''-'' @ ref"

definition note_failure :: "'w os \<Rightarrow> string \<Rightarrow> string \<Rightarrow> ('w lane_st, unit) prog" where
  "note_failure X k detail = timed X (\<lambda>now. lput (record_cleanup_error k detail now))"

definition remove_labeled ::
  "'w os \<Rightarrow> string \<Rightarrow> string \<Rightarrow> string list \<Rightarrow> json list \<Rightarrow> ('w lane_st, json list) prog" where
  "remove_labeled X kind ref args failures =
     doing (io (docker X args)) (\<lambda>r.
       let text = take 300 (strip (stderr r));
           detail = (if text = [] then ''exit '' @ str_int (returncode r) else text) in
       if returncode r \<noteq> 0
       then and_then (note_failure X (cleanup_key kind ref) (''docker '' @ hd args @ '' failed: '' @ detail))
         (ret (failures @ [infra_item (cleanup_key kind ref) (kind @ '' '' @ ref @ '': '' @ detail) ''cleanup'']))
       else and_then (lput (clear_cleanup_error (cleanup_key kind ref))) (ret failures))"

definition listing_check ::
  "'w os \<Rightarrow> bool \<times> string \<Rightarrow> json list \<Rightarrow> ('w lane_st, json list) prog" where
  "listing_check X ok_kind failures =
     (case ok_kind of (ok, kind) \<Rightarrow>
        if ok then and_then (lput (clear_cleanup_error (''cleanup-listing-'' @ kind))) (ret failures)
        else and_then (note_failure X (''cleanup-listing-'' @ kind)
            (''docker listing of managed '' @ kind @ '' failed''))
          (ret (failures @ [infra_item (''cleanup-listing-'' @ kind)
             (''docker listing of managed '' @ kind @ '' failed - teardown may be incomplete'') ''cleanup''])))"

definition teardown_rig :: "'w os \<Rightarrow> 'w rig \<Rightarrow> lane_cfg \<Rightarrow> string \<Rightarrow> ('w lane_st, json list) prog" where
  "teardown_rig X R c rid =
     doing (io (managed_containers X)) (\<lambda>(containers_ok, containers).
     doing (io (managed_networks X)) (\<lambda>(networks_ok, networks).
     doing (fold_prog (listing_check X) [(containers_ok, ''containers''), (networks_ok, ''networks'')] []) (\<lambda>f0.
     doing (fold_prog (\<lambda>cid. remove_labeled X ''container'' cid [''rm'', ''-f'', cid])
         (map fst (filter (\<lambda>(i, l). l = rid) containers)) f0) (\<lambda>f1.
     doing (fold_prog (\<lambda>nid. remove_labeled X ''network'' nid [''network'', ''rm'', nid])
         (map fst (filter (\<lambda>(i, l). l = rid) networks)) f1) (\<lambda>failures.
     and_then (timeline X R (run_dir c rid) ''teardown'' (''run containers and network removed''
         @ (if failures = [] then [] else '' - '' @ str_nat (length failures) @ '' removal(s) FAILED'')))
       (ret failures))))))"

subsection \<open>The gates before a run\<close>

definition blocked_report ::
  "'w os \<Rightarrow> 'w rig \<Rightarrow> lane_cfg \<Rightarrow> run_row \<Rightarrow> string \<Rightarrow> string \<Rightarrow> string \<Rightarrow> ('w lane_st, unit) prog" where
  "blocked_report X R c r note_text k detail =
     and_then (timeline X R (run_dir c (u_id r)) ''run-blocked'' note_text)
       (plain_report X R c r ''blocked'' [infra_item k detail ''preflight''])"

definition bound_detail :: "lane_cfg \<Rightarrow> usage \<Rightarrow> string" where
  "bound_detail c u =
     ''lane footprint '' @ str_int (us_total u) @ '' + headroom '' @ str_int (lc_headroom c) @ '' exceeds ''
     @ str_int (lc_storage_max c) @ '' (files '' @ str_int (us_files u) @ '', images '' @ str_int (us_images u)
     @ '', docker build cache '' @ str_int (us_cache u) @ '')''"

definition over_bound :: "lane_cfg \<Rightarrow> usage \<Rightarrow> bool" where
  "over_bound c u \<longleftrightarrow> lc_storage_max c < us_total u + lc_headroom c"

definition preflight_blocked :: "'w os \<Rightarrow> 'w rig \<Rightarrow> lane_cfg \<Rightarrow> run_row \<Rightarrow> ('w lane_st, bool) prog" where
  "preflight_blocked X R c r =
     doing (io (look (rig_free R (lc_state_dir c)))) (\<lambda>free.
       if free < lc_min_free c
       then and_then (blocked_report X R c r ''insufficient free space'' ''preflight-disk''
              (''insufficient free space under '' @ lc_state_dir c)) (ret True)
       else try_else (io (storage_usage X R c))
         (\<lambda>e. and_then (blocked_report X R c r ''storage accounting failed'' ''preflight-storage-error''
              (''cannot measure the lane footprint: '' @ take 300 (exn_text e))) (ret True))
         (\<lambda>u. if over_bound c u
              then and_then (blocked_report X R c r ''qa storage bound would be exceeded''
                  ''preflight-storage-bound'' (bound_detail c u)) (ret True)
              else ret False))"

subsection \<open>An assessment run\<close>

definition src_tar :: "lane_cfg \<Rightarrow> string \<Rightarrow> string" where
  "src_tar c sha = slash (lc_src_dir c) (sha @ ''.tar'')"

definition src_path :: "lane_cfg \<Rightarrow> string \<Rightarrow> string" where
  "src_path c sha = slash (lc_src_dir c) sha"

definition extract_source :: "'w os \<Rightarrow> 'w rig \<Rightarrow> lane_cfg \<Rightarrow> run_row \<Rightarrow> ('w lane_st, unit) prog" where
  "extract_source X R c r = steps
     [io (mkdir X (src_path c (u_sha r))),
      doing (io (checked_exec X [''tar'', ''-xf'', src_tar c (u_sha r), ''-C'', src_path c (u_sha r)]))
        (\<lambda>_. ret ()),
      timeline X R (run_dir c (u_id r)) ''source-extracted'' (u_sha r @ ''.tar'')]"

text \<open>Whether the source of the revision is there, extracting its archive when it is not yet.\<close>

definition stage_source ::
  "'w os \<Rightarrow> 'w rig \<Rightarrow> lane_cfg \<Rightarrow> run_row \<Rightarrow> ('w lane_st, unit) prog \<Rightarrow> ('w lane_st, bool) prog" where
  "stage_source X R c r absent =
     doing (see (is_dir X (src_path c (u_sha r)))) (\<lambda>there.
       if there then ret True
       else doing (see (is_file X (src_tar c (u_sha r)))) (\<lambda>archived.
         if archived then and_then (extract_source X R c r) (ret True)
         else and_then absent (ret False)))"

definition result_is :: "string \<Rightarrow> json \<Rightarrow> bool" where
  "result_is t r \<longleftrightarrow> jget_or r ''outcome'' JNull = JStr t"

definition run_outcome :: "json list \<Rightarrow> string" where
  "run_outcome rs =
     (if list_all (result_is ''passed'') rs then ''passed''
      else if list_ex (result_is ''failed'') rs then ''failed'' else ''inconclusive'')"

definition verdict_sha :: "string \<Rightarrow> string \<Rightarrow> string option" where
  "verdict_sha result sha = (if result \<in> {''passed'', ''failed''} then Some sha else None)"

definition tear_down_into :: "'w os \<Rightarrow> 'w rig \<Rightarrow> lane_cfg \<Rightarrow> string \<Rightarrow> ('w lane_st, unit) prog" where
  "tear_down_into X R c rid =
     doing (teardown_rig X R c rid) (\<lambda>fs. set_mem (\<lambda>m. m\<lparr>m_infra := m_infra m @ fs\<rparr>))"

definition on_rig ::
  "'w os \<Rightarrow> 'w rig \<Rightarrow> lane_cfg \<Rightarrow> run_row \<Rightarrow> ('w lane_st, unit) prog \<Rightarrow> ('w lane_st, unit) prog
    \<Rightarrow> ('w lane_st, unit) prog" where
  "on_rig X R c r drive teardown =
     (let src = src_path c (u_sha r) in
      doing (io (rig_build R src (u_id r))) (\<lambda>images. steps
        [set_mem (\<lambda>m. m\<lparr>m_images := images\<rparr>),
         io (rig_start R r src),
         finally_do (doing (io (rig_wait R)) (\<lambda>up.
             if up then drive else raise (RuntimeError ''monitors did not come up''))) teardown]))"

definition assess_body :: "'w os \<Rightarrow> 'w rig \<Rightarrow> lane_cfg \<Rightarrow> run_row \<Rightarrow> ('w lane_st, unit) prog" where
  "assess_body X R c r =
     doing (preflight_blocked X R c r) (\<lambda>blocked.
       if blocked then ret ()
       else doing (stage_source X R c r (blocked_report X R c r ''source archive missing''
           ''preflight-source'' (''source archive missing: '' @ u_sha r @ ''.tar''))) (\<lambda>staged.
         only_if staged (and_then
           (on_rig X R c r
              (doing (io (rig_scenarios R r)) (\<lambda>rs. set_mem (\<lambda>m. m\<lparr>m_results := rs\<rparr>)))
              (tear_down_into X R c (u_id r)))
           (doing (mem id) (\<lambda>m. let result = run_outcome (m_results m) in
             and_then (persist_report X R c r result (verdict_sha result (u_sha r)) (m_images m)
                 (m_results m) (m_infra m) no_extras)
               (timeline X R (run_dir c (u_id r)) ''run-finished'' result))))))"

text \<open>
  A run that errored produced no verdict: it is inconclusive, with the failure named. When even that
  report fails, the run is marked interrupted and the error goes on.
\<close>

definition run_failed ::
  "'w os \<Rightarrow> 'w rig \<Rightarrow> lane_cfg \<Rightarrow> run_row \<Rightarrow> (run_mem \<Rightarrow> run_extras) \<Rightarrow> exn \<Rightarrow> ('w lane_st, unit) prog" where
  "run_failed X R c r extras e =
     (let message = take 500 (exn_text e) in steps
       [timeline X R (run_dir c (u_id r)) ''run-error'' message,
        set_mem (\<lambda>m. m\<lparr>m_infra := m_infra m @ [infra_item ''run-error'' message ''run'']\<rparr>),
        doing (mem id) (\<lambda>m.
          except_any (persist_report X R c r ''inconclusive'' None (m_images m) (m_results m) (m_infra m) (extras m))
            (\<lambda>e2. and_then (timed X (\<lambda>now. lput (interrupt_run (u_id r)
                 (message @ '' | report failed: '' @ take 300 (exn_text e2)) now)))
               (raise e2)))])"

definition start_record ::
  "'w os \<Rightarrow> 'w rig \<Rightarrow> string \<Rightarrow> (run_row \<Rightarrow> ('w lane_st, unit) prog) \<Rightarrow> ('w lane_st, unit) prog" where
  "start_record X R rid f = steps
     [set_mem (\<lambda>_. no_mem),
      timed X (\<lambda>now. lput (begin_run rid (rig_pid R) now)),
      doing (lread (lane_run rid)) (\<lambda>row. case row of
        None \<Rightarrow> raise (TypeError ''NoneType object is not subscriptable'') | Some r \<Rightarrow> f r)]"

definition assess :: "'w os \<Rightarrow> 'w rig \<Rightarrow> lane_cfg \<Rightarrow> run_row \<Rightarrow> ('w lane_st, unit) prog" where
  "assess X R c queued =
     start_record X R (u_id queued) (\<lambda>r. let dir = run_dir c (u_id r) in steps
       [io (mkdir X (slash dir ''evidence'')),
        timeline X R dir ''run-start'' (''attempting '' @ u_sha r),
        finally_do (except_any (assess_body X R c r) (run_failed X R c r (\<lambda>_. no_extras)))
          (except_any (doing (teardown_rig X R c (u_id r)) (\<lambda>_. ret ())) (\<lambda>e. ret ()))])"

end
