(* ===== verification/QaVerify.thy ===== *)
theory QaVerify
  imports QaRuns
begin

text \<open>
  qa_lane/verify.py: the fix-verification runs. The queue the supervisor pushed names findings whose
  fix is merged; for each the lane proves with git that the revision it would test contains the fix,
  queues one run per verdict still owed, replays the original case and reports the verdict. Pins keep
  the evidence of pending findings from being reclaimed. Python's sets of pins are lists here, in the
  order they were built; what is pinned and released does not depend on it.
\<close>

subsection \<open>The queue\<close>

definition replay_ok :: "json \<Rightarrow> bool" where
  "replay_ok v \<longleftrightarrow> v = JNull \<or> str_in v [''auto'', ''agent'']"

definition check_item_shape :: "json \<Rightarrow> check" where
  "check_item_shape item =
     (let f = (\<lambda>k. jget_or item k JNull) in first_exn
       [ensure (is_obj item) (ValueError ''verification item must be an object''),
        ensure (missing_fields [''finding_key'', ''case'', ''fix_sha''] item = [])
          (ValueError ''verification item missing fields''),
        stable_key (f ''finding_key'') ''invalid verification finding_key'',
        stable_key (f ''case'') ''invalid verification case'',
        ensure (is_str (f ''fix_sha'') \<and> sha_ok 40 (fstr ''fix_sha'' item))
          (ValueError ''invalid verification fix_sha''),
        ensure (replay_ok (f ''replay'')) (ValueError ''invalid verification replay'')])"

definition queue_schema :: string where "queue_schema = ''qa-verifications/1''"

text \<open>A malformed document yields no work, a malformed item is skipped.\<close>

definition queue_items :: "string \<Rightarrow> json list" where
  "queue_items t =
     (case loads t of
        None \<Rightarrow> []
      | Some doc \<Rightarrow>
          if jget_or doc ''schema'' JNull \<noteq> JStr queue_schema then []
          else filter (\<lambda>item. check_item_shape item = None) (items_of (jget_or doc ''items'' JNull)))"

definition load_queue :: "'w os \<Rightarrow> lane_cfg \<Rightarrow> ('w, json list) prog" where
  "load_queue X c =
     except_if quarantined
       (doing (look (read_text X (slash (lc_state_dir c) ''verifications.json''))) (\<lambda>t. ret (queue_items t)))
       (\<lambda>e. ret [])"

subsection \<open>Verdicts already reported\<close>

definition reported_key :: string where "reported_key = ''verification:reported''"
definition spec_key :: "string \<Rightarrow> string" where "spec_key rid = ''verification:spec:'' @ rid"
definition pins_key :: string where "pins_key = ''verification:pins''"

definition reported :: "qa_db \<Rightarrow> json" where
  "reported s = lget reported_key (JObj []) s"

definition same_pair :: "json \<Rightarrow> json \<Rightarrow> string \<Rightarrow> bool" where
  "same_pair mark fix tested \<longleftrightarrow>
     jget_or mark ''fix_sha'' JNull = fix \<and> jget_or mark ''tested_sha'' JNull = JStr tested"

definition mark_reported ::
  "string \<Rightarrow> json \<Rightarrow> string \<Rightarrow> string \<Rightarrow> string \<Rightarrow> qa_db \<Rightarrow> qa_db" where
  "mark_reported k fix tested rid result s =
     (let marks = reported s;
          tries = (case jget marks k of
             Some mark \<Rightarrow> if truthy mark \<and> same_pair mark fix tested then int_or mark ''attempts'' 0 + 1 else 1
           | None \<Rightarrow> 1)
      in lset reported_key (jset k (JObj [(''fix_sha'', fix), (''tested_sha'', JStr tested), (''run_id'', JStr rid),
           (''outcome'', JStr result), (''attempts'', JInt tries)]) marks) s)"

subsection \<open>Ancestry\<close>

definition ancestry_method :: string where "ancestry_method = ''git merge-base --is-ancestor''"

definition ancestry :: "bool \<Rightarrow> json \<Rightarrow> string \<Rightarrow> json" where
  "ancestry checked proven detail =
     JObj [(''checked'', JBool checked), (''contained'', proven), (''method'', JStr ancestry_method),
           (''detail'', JStr detail)]"

definition git_mirror :: "'w os \<Rightarrow> string \<Rightarrow> string list \<Rightarrow> ('w, proc_result) prog" where
  "git_mirror X dir args = exec X None (''git'' # ''-C'' # dir # args)"

fun missing_object :: "'w os \<Rightarrow> string \<Rightarrow> string list \<Rightarrow> ('w, string option) prog" where
  "missing_object X dir [] = ret None"
| "missing_object X dir (sha # shas) =
     doing (git_mirror X dir [''cat-file'', ''-e'', sha]) (\<lambda>r.
       if returncode r \<noteq> 0 then ret (Some sha) else missing_object X dir shas)"

definition fix_ancestry :: "'w os \<Rightarrow> string \<Rightarrow> string \<Rightarrow> string \<Rightarrow> ('w, json) prog" where
  "fix_ancestry X dir fix tested =
     doing (ask (is_dir X dir)) (\<lambda>there.
       if \<not> there then ret (ancestry False JNull (''lane git mirror absent: '' @ dir))
       else doing (missing_object X dir [fix, tested]) (\<lambda>lost. case lost of
         Some sha \<Rightarrow> ret (ancestry False JNull (''git object missing: '' @ take 12 sha))
       | None \<Rightarrow>
           doing (git_mirror X dir [''merge-base'', ''--is-ancestor'', fix, tested]) (\<lambda>r.
             ret (if returncode r = 0
                  then ancestry True (JBool True) (take 12 fix @ '' is an ancestor of '' @ take 12 tested)
                  else if returncode r = 1
                  then ancestry True (JBool False) (take 12 fix @ '' is NOT an ancestor of '' @ take 12 tested)
                  else ancestry False JNull (''merge-base failed: '' @ take 200 (stderr r))))))"

definition target_sha :: "qa_db \<Rightarrow> string option" where
  "target_sha s =
     (case next_queued (Some ''qa'') s of Some r \<Rightarrow> Some (u_sha r) | None \<Rightarrow> last_attempted_sha s)"

subsection \<open>Retention pins\<close>

definition spec_of :: "string \<Rightarrow> qa_db \<Rightarrow> json" where
  "spec_of rid s = or_empty (lget (spec_key rid) JNull s)"

definition spec_item :: "string \<Rightarrow> qa_db \<Rightarrow> json" where
  "spec_item rid s = or_empty (jget_or (spec_of rid s) ''item'' JNull)"

definition pending_runs :: "json list \<Rightarrow> qa_db \<Rightarrow> run_row list" where
  "pending_runs pending s =
     filter (\<lambda>r. is_kind ''qav'' r \<and> jget_or (spec_item (u_id r) s) ''finding_key'' JNull \<in> set pending)
       (all_runs s)"

definition text_list :: "json \<Rightarrow> string list" where
  "text_list j = (if truthy j then [str_of j] else [])"

definition mark_shas :: "qa_db \<Rightarrow> json \<Rightarrow> string list" where
  "mark_shas s k =
     text_list (jget_or (jget_or (reported s) (str_of k) JNull) ''tested_sha'' JNull)"

definition wanted_pins :: "json list \<Rightarrow> qa_db \<Rightarrow> string list \<times> string list" where
  "wanted_pins pending s =
     (let rows = pending_runs pending s;
          target = (if pending = [] then [] else case target_sha s of None \<Rightarrow> [] | Some t \<Rightarrow> [t])
      in (uniq (map u_id rows),
          uniq (filter (\<lambda>t. t \<noteq> []) (target @ concat (map (mark_shas s) pending) @ map u_sha rows))))"

definition minus_list :: "'a list \<Rightarrow> 'a list \<Rightarrow> 'a list" where
  "minus_list xs ys = filter (\<lambda>x. x \<notin> set ys) xs"

definition pins :: "string \<Rightarrow> json \<Rightarrow> string list" where
  "pins k j = map str_of (items_of (jget_or j k (JList [])))"

definition repin :: "string \<Rightarrow> bool \<Rightarrow> string \<Rightarrow> qa_db \<Rightarrow> qa_db" where
  "repin kind on value s = (case set_preserve kind value on s of Inl e \<Rightarrow> s | Inr s1 \<Rightarrow> s1)"

definition sync_preserves :: "json list \<Rightarrow> qa_db \<Rightarrow> qa_db" where
  "sync_preserves items s =
     (let pending = uniq (map (\<lambda>i. jget_or i ''finding_key'' JNull) items);
          prev = lget pins_key (JObj [(''runs'', JList []), (''shas'', JList [])]) s;
          want = wanted_pins pending s; runs = fst want; shas = snd want;
          s1 = fold (repin ''run'' True) (minus_list runs (pins ''runs'' prev)) s;
          s2 = fold (repin ''sha'' True) (minus_list shas (pins ''shas'' prev)) s1;
          s3 = fold (repin ''run'' False) (minus_list (pins ''runs'' prev) runs) s2;
          s4 = fold (repin ''sha'' False) (minus_list (pins ''shas'' prev) shas) s3;
          now = JObj [(''runs'', JList (map JStr (sort runs))), (''shas'', JList (map JStr (sort shas)))]
      in if py_eq now prev then s4 else lset pins_key now s4)"

subsection \<open>The next verification run\<close>

text \<open>A verdict for this fix on this revision is out, or its inconclusive tries are used up.\<close>

definition settled :: "lane_cfg \<Rightarrow> qa_db \<Rightarrow> json \<Rightarrow> string \<Rightarrow> bool" where
  "settled c s item target =
     (case jget (reported s) (fstr ''finding_key'' item) of
        None \<Rightarrow> False
      | Some mark \<Rightarrow>
          truthy mark \<and> same_pair mark (jget_or item ''fix_sha'' JNull) target
          \<and> (jget_or mark ''outcome'' JNull \<noteq> JStr ''inconclusive''
             \<or> lc_max_attempts c \<le> int_or mark ''attempts'' 1))"

definition spec_doc :: "json \<Rightarrow> json \<Rightarrow> string \<Rightarrow> json" where
  "spec_doc item proof_doc target =
     JObj [(''item'', item), (''ancestry'', proof_doc), (''tested_sha'', JStr target)]"

definition queue_item_run ::
  "'w os \<Rightarrow> time \<Rightarrow> json \<Rightarrow> json \<Rightarrow> string \<Rightarrow> ('w lane_st, run_row option) prog" where
  "queue_item_run X now item proof_doc target =
     timed X (\<lambda>clock_now.
     doing (lread (new_run_id ''qav'' clock_now)) (\<lambda>rid.
     doing (ltry (queue_verification rid target now (utc_day now))) (\<lambda>_.
     and_then (lput (lset (spec_key rid) (spec_doc item proof_doc target)))
       (lread (lane_run rid)))))"

fun next_item ::
  "'w os \<Rightarrow> lane_cfg \<Rightarrow> time \<Rightarrow> string \<Rightarrow> json list \<Rightarrow> ('w lane_st, run_row option) prog" where
  "next_item X c now target [] = ret None"
| "next_item X c now target (item # items) =
     doing (lread (\<lambda>s. settled c s item target)) (\<lambda>done_already.
       if jget_or item ''replay'' JNull = JStr ''agent'' \<or> done_already
       then next_item X c now target items
       else doing (io (fix_ancestry X (lc_git_dir c) (fstr ''fix_sha'' item) target)) (\<lambda>proof_doc.
         if jget_or proof_doc ''contained'' JNull = JNull then next_item X c now target items
         else queue_item_run X now item proof_doc target))"

definition source_staged :: "'w os \<Rightarrow> lane_cfg \<Rightarrow> string \<Rightarrow> 'w \<Rightarrow> bool" where
  "source_staged X c sha w \<longleftrightarrow> is_file X (src_tar c sha) w \<or> is_dir X (src_path c sha) w"

definition next_run :: "'w os \<Rightarrow> lane_cfg \<Rightarrow> time \<Rightarrow> ('w lane_st, run_row option) prog" where
  "next_run X c now =
     doing (io (load_queue X c)) (\<lambda>items.
       if items = [] then ret None
       else doing (lread target_sha) (\<lambda>target. case target of
         None \<Rightarrow> ret None
       | Some t \<Rightarrow>
           (if t = [] then ret None
            else doing (see (source_staged X c t)) (\<lambda>staged.
              if staged then next_item X c now t items else ret None))))"

subsection \<open>A verification run\<close>

definition case_evidence :: "string \<Rightarrow> string \<Rightarrow> json \<Rightarrow> json" where
  "case_evidence rid case_key e =
     JObj [(''detail'', or_json (jget_or e ''detail'' JNull) (jget_or e ''ref'' JNull)),
           (''source'', JStr (''run '' @ rid @ '' case '' @ case_key @ '' evidence '' @ fstr ''ref'' e))]"

definition evidence_for :: "json \<Rightarrow> string \<Rightarrow> string \<Rightarrow> json list" where
  "evidence_for result rid case_key =
     map (case_evidence rid case_key) (items_of (given_or_empty result ''evidence''))
     @ map (\<lambda>t. JObj [(''detail'', t), (''source'', JStr (''run '' @ rid))])
         (items_of (given_or_empty result ''observations''))"

text \<open>The entry of the verifications channel.\<close>

definition verdict_entry :: "json \<Rightarrow> json \<Rightarrow> string \<Rightarrow> string \<Rightarrow> json \<Rightarrow> json list \<Rightarrow> json" where
  "verdict_entry item proof_doc sha result detail evidence =
     JObj ([(''finding_key'', jget_or item ''finding_key'' JNull), (''case'', jget_or item ''case'' JNull),
            (''fix_sha'', jget_or item ''fix_sha'' JNull), (''tested_sha'', JStr sha),
            (''outcome'', JStr result), (''fix_ancestry'', proof_doc)]
       @ (if truthy detail then [(''detail'', detail)] else [])
       @ (if evidence = [] then [] else [(''evidence'', JList evidence)]))"

definition detail_entry :: "json \<Rightarrow> json \<Rightarrow> string \<Rightarrow> string \<Rightarrow> json" where
  "detail_entry item proof_doc sha detail =
     verdict_entry item proof_doc sha ''inconclusive'' (JStr detail) [JObj [(''detail'', JStr detail)]]"

definition with_verdict :: "json \<Rightarrow> run_extras" where
  "with_verdict entry = no_extras\<lparr>x_verifications := Some (JList [entry])\<rparr>"

definition verify_blocked ::
  "'w os \<Rightarrow> 'w rig \<Rightarrow> lane_cfg \<Rightarrow> run_row \<Rightarrow> json \<Rightarrow> json \<Rightarrow> string \<Rightarrow> string \<Rightarrow> ('w lane_st, unit) prog" where
  "verify_blocked X R c r item proof_doc detail mark = steps
     [timeline X R (run_dir c (u_id r)) ''verification-blocked'' detail,
      persist_report X R c r ''blocked'' None JNull [] [infra_item ''fix-verification'' detail ''preflight'']
        (with_verdict (detail_entry item proof_doc (u_sha r) detail)),
      doing (of_res (jitem item ''fix_sha'')) (\<lambda>fix.
        lput (mark_reported (fstr ''finding_key'' item) fix (u_sha r) (u_id r) mark))]"

definition containment_detail :: "json \<Rightarrow> json \<Rightarrow> string \<Rightarrow> string" where
  "containment_detail item proof_doc sha =
     (if jget_or proof_doc ''contained'' JNull = JBool False
      then ''tested revision '' @ take 12 sha @ '' does not contain fix '' @ take 12 (fstr ''fix_sha'' item)
        @ ''; reproduction not run''
      else ''fix ancestry unverifiable: '' @ fstr ''detail'' proof_doc)"

definition footprint_detail :: "lane_cfg \<Rightarrow> usage \<Rightarrow> string" where
  "footprint_detail c u =
     ''lane footprint '' @ str_int (us_total u) @ '' + headroom '' @ str_int (lc_headroom c) @ '' exceeds ''
     @ str_int (lc_storage_max c)"

text \<open>The removal of the run's own containers; a listing that failed raises.\<close>

definition verify_teardown :: "'w os \<Rightarrow> 'w rig \<Rightarrow> lane_cfg \<Rightarrow> string \<Rightarrow> ('w lane_st, unit) prog" where
  "verify_teardown X R c rid =
     doing (io (managed_containers X)) (\<lambda>(containers_ok, containers).
     doing (io (managed_networks X)) (\<lambda>(networks_ok, networks).
       if \<not> containers_ok \<or> \<not> networks_ok
       then raise (RuntimeError ''docker listing failed during verification teardown'')
       else steps
         [for_each (\<lambda>(i, l). doing (io (docker X [''rm'', ''-f'', i])) (\<lambda>_. ret ()))
            (filter (\<lambda>(i, l). l = rid) containers),
          for_each (\<lambda>(i, l). doing (io (docker X [''network'', ''rm'', i])) (\<lambda>_. ret ()))
            (filter (\<lambda>(i, l). l = rid) networks),
          timeline X R (run_dir c rid) ''teardown'' ''verification run containers and network removed'']))"

text \<open>\<open>Case(...).finish('inconclusive', ...)\<close> for a case no scenario implements\<close>

definition unknown_case :: "json \<Rightarrow> string \<Rightarrow> json" where
  "unknown_case item case_key =
     JObj [(''key'', JStr case_key), (''title'', JStr (''verification case '' @ case_key)),
           (''expected'', or_json (jget_or item ''expected'' JNull) (JStr ''see finding'')),
           (''outcome'', JStr ''inconclusive''), (''observations'', JList []), (''evidence'', JList []),
           (''detail'', JStr (''no scenario implements case identity '' @ case_key))]"

definition replay_case :: "'w os \<Rightarrow> 'w rig \<Rightarrow> lane_cfg \<Rightarrow> run_row \<Rightarrow> json \<Rightarrow> ('w lane_st, unit) prog" where
  "replay_case X R c r item =
     (let case_key = fstr ''case'' item in
      case case_function (rig_cases R) case_key of
        None \<Rightarrow> set_mem (\<lambda>m. m\<lparr>m_results := [unknown_case item case_key]\<rparr>)
      | Some fn \<Rightarrow>
          doing (io (rig_replay R fn r)) (\<lambda>result. and_then
            (timeline X R (run_dir c (u_id r)) (''scenario-'' @ fstr ''outcome'' result)
               (fstr ''key'' result @ '': '' @ fstr ''title'' result))
            (set_mem (\<lambda>m. m\<lparr>m_results := [result]\<rparr>))))"

definition case_verdict :: "json \<Rightarrow> string" where
  "case_verdict result =
     (if str_in (jget_or result ''outcome'' JNull) [''passed'', ''failed''] then fstr ''outcome'' result
      else ''inconclusive'')"

definition report_verdict ::
  "'w os \<Rightarrow> 'w rig \<Rightarrow> lane_cfg \<Rightarrow> run_row \<Rightarrow> json \<Rightarrow> json \<Rightarrow> ('w lane_st, unit) prog" where
  "report_verdict X R c r item proof_doc =
     doing (mem id) (\<lambda>m.
       let result = hd (m_results m @ [JNull]); verdict = case_verdict result; sha = u_sha r;
           entry = verdict_entry item proof_doc sha verdict (jget_or result ''detail'' JNull)
             (evidence_for result (u_id r) (fstr ''case'' item)) in steps
         [persist_report X R c r verdict (verdict_sha verdict sha) (m_images m) (m_results m) (m_infra m)
            (with_verdict entry),
          doing (of_res (jitem item ''fix_sha'')) (\<lambda>fix.
            lput (mark_reported (fstr ''finding_key'' item) fix sha (u_id r) verdict)),
          timeline X R (run_dir c (u_id r)) ''verification-finished'' verdict])"

definition verify_gates ::
  "'w os \<Rightarrow> 'w rig \<Rightarrow> lane_cfg \<Rightarrow> run_row \<Rightarrow> json \<Rightarrow> json \<Rightarrow> ('w lane_st, bool) prog" where
  "verify_gates X R c r item proof_doc =
     (let stop = (\<lambda>detail mark. and_then (verify_blocked X R c r item proof_doc detail mark) (ret False)) in
      if jget_or proof_doc ''contained'' JNull \<noteq> JBool True
      then stop (containment_detail item proof_doc (u_sha r))
        (if jget_or proof_doc ''contained'' JNull = JBool False then ''not-contained'' else ''inconclusive'')
      else doing (io (look (rig_free R (lc_state_dir c)))) (\<lambda>free.
        if free < lc_min_free c
        then stop (''insufficient free space under '' @ lc_state_dir c) ''inconclusive''
        else try_else (io (storage_usage X R c))
          (\<lambda>e. stop (''cannot measure the lane footprint: '' @ take 300 (exn_text e)) ''inconclusive'')
          (\<lambda>u. if over_bound c u then stop (footprint_detail c u) ''inconclusive''
               else stage_source X R c r (verify_blocked X R c r item proof_doc
                 (''source archive missing: '' @ u_sha r @ ''.tar'') ''inconclusive''))))"

definition verify_body ::
  "'w os \<Rightarrow> 'w rig \<Rightarrow> lane_cfg \<Rightarrow> run_row \<Rightarrow> json \<Rightarrow> json \<Rightarrow> ('w lane_st, unit) prog" where
  "verify_body X R c r item proof_doc =
     doing (verify_gates X R c r item proof_doc) (\<lambda>open_gate. only_if open_gate (and_then
       (on_rig X R c r (replay_case X R c r item) (verify_teardown X R c (u_id r)))
       (report_verdict X R c r item proof_doc)))"

definition verify_failed ::
  "'w os \<Rightarrow> 'w rig \<Rightarrow> lane_cfg \<Rightarrow> run_row \<Rightarrow> json \<Rightarrow> json \<Rightarrow> exn \<Rightarrow> ('w lane_st, unit) prog" where
  "verify_failed X R c r item proof_doc e =
     (let message = take 500 (exn_text e); sha = u_sha r in steps
       [timeline X R (run_dir c (u_id r)) ''run-error'' message,
        set_mem (\<lambda>m. m\<lparr>m_infra := m_infra m @ [infra_item ''run-error'' message ''run'']\<rparr>),
        doing (mem id) (\<lambda>m.
          except_any (and_then
              (persist_report X R c r ''inconclusive'' None (m_images m) (m_results m) (m_infra m)
                 (with_verdict (detail_entry item proof_doc sha message)))
              (lput (mark_reported (fstr ''finding_key'' item) (jget_or item ''fix_sha'' JNull) sha (u_id r)
                 ''inconclusive'')))
            (\<lambda>e2. and_then (timed X (\<lambda>now. lput (interrupt_run (u_id r)
                 (message @ '' | report failed: '' @ take 300 (exn_text e2)) now)))
               (raise e2)))])"

definition verify :: "'w os \<Rightarrow> 'w rig \<Rightarrow> lane_cfg \<Rightarrow> run_row \<Rightarrow> ('w lane_st, unit) prog" where
  "verify X R c queued =
     start_record X R (u_id queued) (\<lambda>r.
     doing (lread (\<lambda>s. (spec_item (u_id r) s, or_empty (jget_or (spec_of (u_id r) s) ''ancestry'' JNull))))
       (\<lambda>(item, proof_doc). let dir = run_dir c (u_id r) in steps
         [io (mkdir X (slash dir ''evidence'')),
          timeline X R dir ''verification-start'' (''finding '' @ fstr ''finding_key'' item @ '' case ''
            @ fstr ''case'' item @ '' fix '' @ take 12 (fstr ''fix_sha'' item) @ '' on '' @ take 12 (u_sha r)),
          finally_do (except_any (verify_body X R c r item proof_doc) (verify_failed X R c r item proof_doc))
            (except_any (verify_teardown X R c (u_id r)) (\<lambda>e. ret ()))]))"

end
