(* ===== verification/QaExplorer.thy ===== *)
theory QaExplorer
  imports QaVerify
begin

text \<open>
  qa_lane/explorer.py: the exploratory runs. A time-bounded agent session explores the newest verdicted
  revision and leaves a result document, which is normalised entry by entry and folded into the report
  of the run. Parameters: the agent process, the prompt it is given and the host calls of \<open>rig\<close>. The
  texts of Python's type errors are abbreviated.
\<close>

subsection \<open>Which revision, and when\<close>

definition ledger_key :: string where "ledger_key = ''exploration:ledger''"

definition ledger :: "qa_db \<Rightarrow> json list" where
  "ledger s = items_of (lget ledger_key (JList []) s)"

text \<open>\<open>entries[-keep:]\<close>, where a missing or zero \<open>keep\<close> is 20\<close>

definition last_entries :: "int \<Rightarrow> 'a list \<Rightarrow> 'a list" where
  "last_entries keep xs =
     (let k = (if keep = 0 then 20 else keep) in
      drop (if 0 < k then length xs - nat k else nat (- k)) xs)"

definition record_ledger :: "int \<Rightarrow> json \<Rightarrow> qa_db \<Rightarrow> qa_db" where
  "record_ledger keep entry s = lset ledger_key (JList (last_entries keep (ledger s @ [entry]))) s"

definition resolve_devin :: "'w os \<Rightarrow> 'w rig \<Rightarrow> lane_cfg \<Rightarrow> 'w \<Rightarrow> string option" where
  "resolve_devin X R c w =
     (let program = (if lc_devin c = [] then ''devin'' else lc_devin c) in
      if CHR ''/'' \<in> set program then (if is_file X program w then Some program else None)
      else rig_which R program w)"

definition commit_known :: "'w os \<Rightarrow> lane_cfg \<Rightarrow> string \<Rightarrow> ('w, bool) prog" where
  "commit_known X c sha =
     doing (git_mirror X (lc_git_dir c) [''cat-file'', ''-e'', sha @ ''^{commit}'']) (\<lambda>r.
       ret (returncode r = 0))"

definition explored_recently :: "lane_cfg \<Rightarrow> time \<Rightarrow> qa_db \<Rightarrow> bool" where
  "explored_recently c now s \<longleftrightarrow>
     (case last_started ''qax'' s of
        None \<Rightarrow> False | Some t \<Rightarrow> t \<noteq> 0 \<and> now - t < of_int (lc_explore_gap c))"

definition queue_exploration :: "'w os \<Rightarrow> time \<Rightarrow> string \<Rightarrow> ('w lane_st, run_row option) prog" where
  "queue_exploration X now target =
     timed X (\<lambda>clock_now.
     doing (lread (new_run_id ''qax'' clock_now)) (\<lambda>rid.
     doing (ltry (queue_dedicated rid target now (utc_day now))) (\<lambda>_. lread (lane_run rid))))"

definition explore_target ::
  "'w os \<Rightarrow> 'w rig \<Rightarrow> lane_cfg \<Rightarrow> time \<Rightarrow> string \<Rightarrow> ('w lane_st, run_row option) prog" where
  "explore_target X R c now target =
     doing (io (commit_known X c target)) (\<lambda>known.
       if \<not> known then ret None
       else doing (see (resolve_devin X R c)) (\<lambda>devin.
         if devin = None then ret None else queue_exploration X now target))"

text \<open>A record left queued by a gate that failed before the dispatch is used again.\<close>

definition next_exploration ::
  "'w os \<Rightarrow> 'w rig \<Rightarrow> lane_cfg \<Rightarrow> time \<Rightarrow> ('w lane_st, run_row option) prog" where
  "next_exploration X R c now =
     (if \<not> lc_explore c then ret None
      else doing (lread id) (\<lambda>s.
        case next_queued (Some ''qax'') s of
          Some r \<Rightarrow> ret (Some r)
        | None \<Rightarrow>
            if lc_explore_max c \<le> int (started_today (utc_day now) (Some ''qax'') s)
               \<or> explored_recently c now s then ret None
            else (case nonempty (latest_verdicted_sha s) of
              None \<Rightarrow> ret None | Some target \<Rightarrow> explore_target X R c now target)))"

subsection \<open>The result document\<close>

text \<open>\<open>(value or [])[:n]\<close> and \<open>for x in value or []\<close> over whatever the agent wrote\<close>

definition sliced :: "nat \<Rightarrow> json \<Rightarrow> json list res" where
  "sliced n j =
     (if \<not> truthy j then Inr []
      else case j of
        JList xs \<Rightarrow> Inr (take n xs)
      | JStr t \<Rightarrow> Inr (map (\<lambda>ch. JStr [ch]) (take n t))
      | _ \<Rightarrow> Inl (TypeError ''object is not subscriptable''))"

definition iterated :: "json \<Rightarrow> json list res" where
  "iterated j =
     (if \<not> truthy j then Inr []
      else case j of
        JList xs \<Rightarrow> Inr xs
      | JStr t \<Rightarrow> Inr (map (\<lambda>ch. JStr [ch]) t)
      | JObj kvs \<Rightarrow> Inr (map (\<lambda>(k, v). JStr k) kvs)
      | _ \<Rightarrow> Inl (TypeError ''object is not iterable''))"

definition cut_texts :: "nat \<Rightarrow> nat \<Rightarrow> json list \<Rightarrow> json list" where
  "cut_texts n limit xs = take n (map (\<lambda>x. JStr (take limit (str_of x))) (filter is_str xs))"

text \<open>\<open>_bounded(value, limit)\<close> as a field of a record, and with a default\<close>

definition bounded_field :: "json \<Rightarrow> string \<Rightarrow> nat \<Rightarrow> (string \<times> json) list" where
  "bounded_field item k limit =
     (let v = jget_or item k JNull in if text_ok v limit then [(k, v)] else [])"

definition bounded_or :: "json \<Rightarrow> string \<Rightarrow> nat \<Rightarrow> string \<Rightarrow> json" where
  "bounded_or item k limit d =
     (let v = jget_or item k JNull in if text_ok v limit then v else JStr d)"

definition chosen_field :: "json \<Rightarrow> string \<Rightarrow> string list \<Rightarrow> (string \<times> json) list" where
  "chosen_field item k allowed =
     (let v = jget_or item k JNull in if str_in v allowed then [(k, v)] else [])"

definition bool_field :: "json \<Rightarrow> string \<Rightarrow> (string \<times> json) list" where
  "bool_field item k =
     (let v = jget_or item k JNull in if type_is_bool v then [(k, v)] else [])"

definition list_field :: "string \<Rightarrow> json list \<Rightarrow> (string \<times> json) list" where
  "list_field k xs = (if xs = [] then [] else [(k, JList xs)])"

text \<open>An entry is normalised to a record, or dropped with a warning.\<close>

type_synonym noted = "string + json"

definition results_ref :: "json \<Rightarrow> string \<Rightarrow> string" where
  "results_ref kind ref =
     (if kind = JStr ''file'' \<and> \<not> starts_with ''results/'' ref then ''results/'' @ ref else ref)"

definition agent_evidence :: "json \<Rightarrow> json option" where
  "agent_evidence e =
     (let kind = jget_or e ''kind'' JNull; ref = jget_or e ''ref'' JNull in
      if \<not> is_obj e \<or> \<not> str_in kind evidence_kinds \<or> \<not> text_ok ref 500 then None
      else Some (JObj ([(''kind'', kind), (''ref'', JStr (results_ref kind (str_of ref)))]
        @ bounded_field e ''detail'' 2000)))"

definition scenario_record :: "json \<Rightarrow> json list \<Rightarrow> json list \<Rightarrow> json" where
  "scenario_record item seen_texts evidence =
     (let k = fstr ''key'' item in
      JObj ([(''key'', JStr k), (''title'', bounded_or item ''title'' 200 k),
             (''expected'', bounded_or item ''expected'' 4000 ''see exploration summary''),
             (''outcome'', jget_or item ''outcome'' JNull),
             (''observations'', JList (cut_texts 40 2000 seen_texts))]
        @ bounded_field item ''detail'' 4000 @ bounded_field item ''reproduction'' 8000
        @ bounded_field item ''test_requirements'' 4000 @ bounded_field item ''module'' 500
        @ chosen_field item ''mode'' run_modes @ chosen_field item ''severity'' severities
        @ chosen_field item ''confidence'' confidences @ bool_field item ''product_cause''
        @ list_field ''evidence'' (List.map_filter agent_evidence evidence)))"

definition agent_scenario :: "json \<Rightarrow> noted res" where
  "agent_scenario item =
     (let k = jget_or item ''key'' JNull in
      if \<not> is_obj item then Inr (Inl ''results entry is not an object'')
      else if \<not> (is_str k \<and> review_key_ok (str_of k)) then Inr (Inl ''results entry dropped: invalid key'')
      else if \<not> str_in (jget_or item ''outcome'' JNull) case_outcomes
      then Inr (Inl (str_of k @ '' dropped: invalid outcome''))
      else res_bind (iterated (jget_or item ''observations'' JNull)) (\<lambda>texts.
           res_bind (sliced max_evidence (jget_or item ''evidence'' JNull)) (\<lambda>evidence.
             Inr (Inr (scenario_record item texts evidence)))))"

definition replay_evidence :: "json \<Rightarrow> json option" where
  "replay_evidence e =
     (if is_str e \<and> \<not> blank (str_of e) then Some (JObj [(''detail'', JStr (take 2000 (str_of e)))])
      else if is_obj e \<and> text_ok (jget_or e ''detail'' JNull) 2000
      then Some (JObj ((''detail'', jget_or e ''detail'' JNull) # bounded_field e ''source'' 500))
      else None)"

definition agent_verification ::
  "'w os \<Rightarrow> lane_cfg \<Rightarrow> run_row \<Rightarrow> json \<Rightarrow> ('w, noted) prog" where
  "agent_verification X c r item =
     (let f = (\<lambda>k. jget_or item k JNull); key_ok = (\<lambda>v. is_str v \<and> review_key_ok (str_of v)) in
      if \<not> is_obj item then ret (Inl ''verifications entry is not an object'')
      else if \<not> (key_ok (f ''finding_key'') \<and> key_ok (f ''case'') \<and> is_str (f ''fix_sha'')
               \<and> sha_ok 40 (fstr ''fix_sha'' item))
      then ret (Inl ''verifications entry dropped: invalid identity'')
      else if \<not> str_in (f ''outcome'') verification_outcomes
      then ret (Inl (fstr ''finding_key'' item @ '' verification dropped: invalid outcome''))
      else doing (fix_ancestry X (lc_git_dir c) (fstr ''fix_sha'' item) (u_sha r)) (\<lambda>proof_doc.
        doing (of_res (sliced max_evidence (f ''evidence''))) (\<lambda>evidence.
          ret (Inr (JObj ([(''finding_key'', f ''finding_key''), (''case'', f ''case''),
               (''fix_sha'', f ''fix_sha''), (''tested_sha'', JStr (u_sha r)), (''outcome'', f ''outcome''),
               (''fix_ancestry'', proof_doc)]
             @ bounded_field item ''detail'' 4000
             @ list_field ''evidence'' (List.map_filter replay_evidence evidence)))))))"

text \<open>\<open>str(item.get('key'))\<close> where it can be a stable key: numbers pass it as well.\<close>

definition key_text :: "json \<Rightarrow> string" where
  "key_text v = (case v of JStr s \<Rightarrow> s | JInt i \<Rightarrow> str_int i | _ \<Rightarrow> [])"

definition agent_keyed :: "string \<Rightarrow> json \<Rightarrow> noted" where
  "agent_keyed channel item =
     (let k = jget_or item ''key'' JNull in
      if \<not> is_obj item \<or> \<not> review_key_ok (key_text k) then Inl (channel @ '' entry dropped: invalid key'')
      else if \<not> text_ok (jget_or item ''detail'' JNull) 4000
      then Inl (key_text k @ '' dropped: missing detail'')
      else Inr (JObj ([(''key'', k), (''detail'', jget_or item ''detail'' JNull)]
        @ (if channel = ''capability_limitations'' then bool_field item ''blocking'' else [])
        @ (if channel = ''infrastructure_failures''
           then [(''phase'', bounded_or item ''phase'' 200 ''exploration'')] else []))))"

subsection \<open>Reading it\<close>

record parsed =
  p_scenarios :: "json list"
  p_caps :: "json list"
  p_infra :: "json list"
  p_verdicts :: "json list"
  p_exploration :: json
  p_ledger :: json
  p_warnings :: "string list"

text \<open>The loop over the results, with the keys of the scenarios already kept.\<close>

fun keep_scenarios :: "json list \<Rightarrow> json list \<times> string list \<Rightarrow> (json list \<times> string list) res" where
  "keep_scenarios [] acc = Inr acc"
| "keep_scenarios (item # items) (kept, warned) =
     (case agent_scenario item of
        Inl e \<Rightarrow> Inl e
      | Inr (Inl message) \<Rightarrow> keep_scenarios items (kept, warned @ [message])
      | Inr (Inr entry) \<Rightarrow>
          (if fstr ''key'' entry \<in> fstr ''key'' ` set kept
           then keep_scenarios items (kept, warned @ [fstr ''key'' entry @ '' dropped: duplicate key''])
           else keep_scenarios items (kept @ [entry], warned)))"

definition kept_of :: "noted list \<Rightarrow> json list" where
  "kept_of ns = List.map_filter (case_sum (\<lambda>m. None) Some) ns"

definition warned_of :: "noted list \<Rightarrow> string list" where
  "warned_of ns = List.map_filter (case_sum Some (\<lambda>j. None)) ns"

definition frontiers_of :: "json \<Rightarrow> json list res" where
  "frontiers_of ledger_doc =
     res_bind (iterated (jget_or ledger_doc ''next'' JNull)) (\<lambda>xs. Inr (cut_texts 10 500 xs))"

definition exploration_doc :: "lane_cfg \<Rightarrow> json \<Rightarrow> json list \<Rightarrow> json" where
  "exploration_doc c doc frontiers =
     JObj (bounded_field doc ''charter'' 500
       @ map (\<lambda>(k, v). (''rationale'', v)) (bounded_field doc ''novelty_rationale'' 4000)
       @ list_field ''next_frontiers'' frontiers @ [(''agent'', JStr (''devin/'' @ lc_model c))])"

definition ledger_doc_of :: "json \<Rightarrow> json" where
  "ledger_doc_of doc = (let v = jget_or doc ''ledger'' JNull in if is_obj v then v else JObj [])"

definition ledger_entry :: "run_row \<Rightarrow> time \<Rightarrow> json \<Rightarrow> json list \<Rightarrow> json list \<Rightarrow> json" where
  "ledger_entry r now doc frontiers explored =
     JObj [(''t'', JStr (utc_stamp now @ ''Z'')), (''run_id'', JStr (u_id r)), (''sha'', JStr (u_sha r)),
           (''charter'', bounded_or doc ''charter'' 500 ''unrecorded''),
           (''note'', bounded_or (ledger_doc_of doc) ''note'' 2000 []),
           (''explored'', JList explored), (''next'', JList frontiers)]"

definition agent_doc :: "'w os \<Rightarrow> string \<Rightarrow> ('w, json) prog" where
  "agent_doc X dir =
     except_if quarantined (load_json X (slash (slash dir ''results'') ''agent-result.json''))
       (\<lambda>e. raise (ValueError (''agent result unreadable: '' @ take 300 (exn_text e))))"

definition channel_items :: "nat \<Rightarrow> json \<Rightarrow> string \<Rightarrow> ('s, json list) prog" where
  "channel_items n doc k = of_res (sliced n (jget_or doc k JNull))"

definition parse_fields :: "'w os \<Rightarrow> lane_cfg \<Rightarrow> run_row \<Rightarrow> json \<Rightarrow> ('w, parsed) prog" where
  "parse_fields X c r doc =
     doing (channel_items max_scenarios doc ''results'') (\<lambda>results.
     doing (of_res (keep_scenarios results ([], []))) (\<lambda>(scenarios, warned).
     doing (channel_items max_limitations doc ''capability_limitations'') (\<lambda>limitations.
     doing (channel_items max_infra_failures doc ''infrastructure_failures'') (\<lambda>failures.
     doing (channel_items max_verifications doc ''verifications'') (\<lambda>verdicts.
     doing (fold_prog (\<lambda>i ns. doing (agent_verification X c r i) (\<lambda>x. ret (ns @ [x]))) verdicts []) (\<lambda>vs.
     doing (of_res (frontiers_of (ledger_doc_of doc))) (\<lambda>frontiers.
     doing (ask (clock X)) (\<lambda>now.
     doing (of_res (iterated (jget_or (ledger_doc_of doc) ''explored'' JNull))) (\<lambda>explored.
       let caps = map (agent_keyed ''capability_limitations'') limitations;
           infra = map (agent_keyed ''infrastructure_failures'') failures in
       ret \<lparr>p_scenarios = scenarios, p_caps = kept_of caps, p_infra = kept_of infra,
            p_verdicts = kept_of vs, p_exploration = exploration_doc c doc frontiers,
            p_ledger = ledger_entry r now doc frontiers (cut_texts 20 500 explored),
            p_warnings = warned @ warned_of caps @ warned_of infra @ warned_of vs\<rparr>)))))))))"

definition parse_result :: "'w os \<Rightarrow> lane_cfg \<Rightarrow> run_row \<Rightarrow> string \<Rightarrow> ('w, parsed) prog" where
  "parse_result X c r dir =
     doing (agent_doc X dir) (\<lambda>doc.
       if is_obj doc then parse_fields X c r doc else raise (ValueError ''agent result is not an object''))"

definition agent_event :: "json \<Rightarrow> json option" where
  "agent_event e =
     (let f = (\<lambda>k. jget_or e k JNull) in
      if \<not> is_obj e \<or> \<not> is_str (f ''t'') \<or> \<not> is_str (f ''event'') then None
      else Some (JObj ([(''t'', JStr (take 40 (fstr ''t'' e))),
          (''event'', JStr (''agent:'' @ take 190 (fstr ''event'' e)))]
        @ (if is_str (f ''detail'') then [(''detail'', JStr (take 2000 (fstr ''detail'' e)))] else []))))"

definition parse_result_timeline :: "'w os \<Rightarrow> string \<Rightarrow> ('w, json list) prog" where
  "parse_result_timeline X dir =
     doing (except_if quarantined
        (doing (load_json X (slash (slash dir ''results'') ''agent-result.json'')) (\<lambda>j. ret (Some j)))
        (\<lambda>e. ret None)) (\<lambda>found. case found of
       None \<Rightarrow> ret []
     | Some doc \<Rightarrow>
         (if \<not> is_obj doc then raise (AttributeError ''get'')
          else doing (channel_items max_timeline doc ''timeline'') (\<lambda>es.
            ret (List.map_filter agent_event es))))"

subsection \<open>The session\<close>

definition drop_worktree :: "'w os \<Rightarrow> lane_cfg \<Rightarrow> string \<Rightarrow> ('w, unit) prog" where
  "drop_worktree X c workspace =
     (let ws = slash workspace ''src'' in
      doing (ask (\<lambda>w. is_dir X (lc_git_dir c) w \<and> exists_path X (slash ws ''.git'') w)) (\<lambda>there.
        only_if there (steps
          [doing (git_mirror X (lc_git_dir c) [''worktree'', ''remove'', ''--force'', ws]) (\<lambda>_. ret ()),
           doing (git_mirror X (lc_git_dir c) [''worktree'', ''prune'']) (\<lambda>_. ret ())])))"

definition copy_source ::
  "'w os \<Rightarrow> 'w rig \<Rightarrow> lane_cfg \<Rightarrow> run_row \<Rightarrow> string \<Rightarrow> ('w lane_st, unit) prog" where
  "copy_source X R c r ws = steps
     [io (rig_copytree R (src_path c (u_sha r)) ws),
      timeline X R (run_dir c (u_id r)) ''source-copied'' (src_path c (u_sha r))]"

definition checkout_source ::
  "'w os \<Rightarrow> 'w rig \<Rightarrow> lane_cfg \<Rightarrow> run_row \<Rightarrow> string \<Rightarrow> ('w lane_st, unit) prog" where
  "checkout_source X R c r ws =
     doing (see (is_dir X (lc_git_dir c))) (\<lambda>mirrored.
       if \<not> mirrored then copy_source X R c r ws
       else doing (io (git_mirror X (lc_git_dir c) [''worktree'', ''add'', ''--detach'', ws, u_sha r])) (\<lambda>res.
         if returncode res = 0 then timeline X R (run_dir c (u_id r)) ''source-worktree'' ws
         else and_then (timeline X R (run_dir c (u_id r)) ''worktree-fallback'' (take 200 (strip (stderr res))))
           (copy_source X R c r ws)))"

definition agent_command :: "lane_cfg \<Rightarrow> string \<Rightarrow> string \<Rightarrow> string list" where
  "agent_command c devin dir =
     [devin, ''-p'', ''--model'', if lc_model c = [] then ''swe-2-high'' else lc_model c,
      ''--permission-mode'', ''dangerous'', ''--respect-workspace-trust'', ''false'', ''--prompt-file'',
      slash dir ''prompt.txt'', ''--export'', slash dir ''conversation.json'']"

text \<open>What is left until the deadline, with five minutes kept for the teardown, but at least five.\<close>

definition session_budget :: "lane_cfg \<Rightarrow> time \<Rightarrow> time \<Rightarrow> time" where
  "session_budget c deadline now = min (of_int (lc_explore_budget c)) (max 300 (deadline - now - 300))"

definition add_infra :: "json list \<Rightarrow> ('w lane_st, unit) prog" where
  "add_infra fs = set_mem (\<lambda>m. m\<lparr>m_infra := m_infra m @ fs\<rparr>)"

definition run_agent ::
  "'w os \<Rightarrow> 'w rig \<Rightarrow> lane_cfg \<Rightarrow> run_row \<Rightarrow> string \<Rightarrow> time \<Rightarrow> ('w lane_st, unit) prog" where
  "run_agent X R c r devin deadline =
     (let dir = run_dir c (u_id r) in
      doing (see (rig_monotonic R)) (\<lambda>now. let budget = session_budget c deadline now in
        and_then (timeline X R dir ''agent-start'' (''budget '' @ str_int \<lfloor>budget\<rfloor> @ ''s''))
          (doing (io (rig_spawn R (agent_command c devin dir) (slash dir ''workspace'') budget))
             (\<lambda>(status, code, elapsed). and_then
               (timeline X R dir ''agent-finished''
                  (status @ '' (exit '' @ code @ '') after '' @ str_int \<lfloor>elapsed\<rfloor> @ ''s''))
               (only_if (status = ''timeout'') (add_infra [infra_item ''agent-timeout''
                  (''exploratory session hit the '' @ str_int \<lfloor>budget\<rfloor> @ ''s budget and was terminated'')
                  ''exploration'']))))))"

definition field_warning :: "string \<Rightarrow> json" where
  "field_warning message = infra_item ''agent-result-field'' (take 3900 message) ''exploration''"

definition new_caps :: "lane_cfg \<Rightarrow> json list \<Rightarrow> json list" where
  "new_caps c caps = filter (\<lambda>x. \<not> list_ex (\<lambda>k. py_eq (jget_or k ''key'' JNull) (jget_or x ''key'' JNull))
     (lc_capabilities c)) caps"

text \<open>What the session reported becomes the state of the run.\<close>

definition fold_parsed :: "lane_cfg \<Rightarrow> parsed \<Rightarrow> run_mem \<Rightarrow> run_mem" where
  "fold_parsed c p m = m\<lparr>m_exploration := Some (p_exploration p), m_results := p_scenarios p,
     m_verdicts := (if p_verdicts p = [] then None else Some (JList (p_verdicts p))),
     m_infra := m_infra m @ p_infra p @ map field_warning (p_warnings p),
     m_caps := new_caps c (p_caps p)\<rparr>"

definition is_value_error :: "exn \<Rightarrow> bool" where
  "is_value_error e = (case e of ValueError _ \<Rightarrow> True | _ \<Rightarrow> False)"

text \<open>
  A session without a valid result document is reported by its raw evidence alone. The agent's
  timeline is added to the one in memory, then the ledger gets its entry.
\<close>

definition collect_result :: "'w os \<Rightarrow> lane_cfg \<Rightarrow> run_row \<Rightarrow> ('w lane_st, unit) prog" where
  "collect_result X c r =
     (let dir = run_dir c (u_id r) in
      doing (except_if is_value_error (doing (io (parse_result X c r dir)) (\<lambda>p. ret (Inr p)))
         (\<lambda>e. ret (Inl e))) (\<lambda>outcome. steps
        [case outcome of
           Inl e \<Rightarrow> add_infra [infra_item ''agent-result-invalid'' (take 3900 (exn_text e)) ''exploration'']
         | Inr p \<Rightarrow> set_mem (fold_parsed c p),
         doing (io (parse_result_timeline X dir)) (\<lambda>es. set_mem (\<lambda>m. m\<lparr>m_events := m_events m @ es\<rparr>)),
         case outcome of
           Inl e \<Rightarrow> ret ()
         | Inr p \<Rightarrow> lput (record_ledger (lc_ledger_keep c) (p_ledger p))]))"

definition explore_session ::
  "'w os \<Rightarrow> 'w rig \<Rightarrow> lane_cfg \<Rightarrow> run_row \<Rightarrow> time \<Rightarrow> ('w lane_st, unit) prog" where
  "explore_session X R c r deadline =
     (let dir = run_dir c (u_id r); ws = slash (slash dir ''workspace'') ''src'' in steps
       [checkout_source X R c r ws,
        io (rig_prompt R r ws (slash dir ''prompt.txt'')),
        doing (see (resolve_devin X R c)) (\<lambda>found. case found of
          None \<Rightarrow> raise (RuntimeError (''devin CLI not found: '' @ lc_devin c))
        | Some devin \<Rightarrow> run_agent X R c r devin deadline),
        collect_result X c r])"

subsection \<open>An exploratory run\<close>

definition archive_source :: "'w os \<Rightarrow> 'w rig \<Rightarrow> lane_cfg \<Rightarrow> run_row \<Rightarrow> ('w lane_st, bool) prog" where
  "archive_source X R c r =
     doing (io (git_mirror X (lc_git_dir c) [''archive'', ''-o'', src_tar c (u_sha r), u_sha r])) (\<lambda>res.
       if returncode res \<noteq> 0
       then and_then (blocked_report X R c r ''source archive missing'' ''preflight-source''
           (''source unavailable: '' @ u_sha r @ ''.tar and mirror archive failed: ''
              @ take 200 (strip (stderr res)))) (ret False)
       else and_then (timeline X R (run_dir c (u_id r)) ''source-archived''
           (''mirror -> '' @ u_sha r @ ''.tar'')) (ret True))"

definition explore_source :: "'w os \<Rightarrow> 'w rig \<Rightarrow> lane_cfg \<Rightarrow> run_row \<Rightarrow> ('w lane_st, bool) prog" where
  "explore_source X R c r =
     doing (see (is_dir X (src_path c (u_sha r)))) (\<lambda>there.
       if there then ret True
       else doing (see (is_file X (src_tar c (u_sha r)))) (\<lambda>archived.
         doing (if archived then ret True else archive_source X R c r) (\<lambda>ready.
           if ready then and_then (extract_source X R c r) (ret True) else ret False)))"

definition exploration_outcome :: "json list \<Rightarrow> string" where
  "exploration_outcome rs =
     (if list_ex (result_is ''failed'') rs then ''failed''
      else if rs \<noteq> [] \<and> list_all (result_is ''passed'') rs then ''passed'' else ''inconclusive'')"

definition explore_extras :: "run_mem \<Rightarrow> run_extras" where
  "explore_extras m = \<lparr>x_verifications = m_verdicts m, x_mode = Some ''simulation'',
     x_exploration = m_exploration m, x_caps = m_caps m\<rparr>"

definition explore_body ::
  "'w os \<Rightarrow> 'w rig \<Rightarrow> lane_cfg \<Rightarrow> run_row \<Rightarrow> time \<Rightarrow> ('w lane_st, unit) prog" where
  "explore_body X R c r deadline =
     doing (preflight_blocked X R c r) (\<lambda>blocked.
       if blocked then ret ()
       else doing (explore_source X R c r) (\<lambda>ready. only_if ready (and_then
         (on_rig X R c r (explore_session X R c r deadline)
            (and_then (tear_down_into X R c (u_id r))
               (io (drop_worktree X c (slash (run_dir c (u_id r)) ''workspace'')))))
         (doing (mem id) (\<lambda>m. let result = exploration_outcome (m_results m) in and_then
            (persist_report X R c r result (verdict_sha result (u_sha r)) (m_images m) (m_results m)
               (m_infra m) (explore_extras m))
            (timeline X R (run_dir c (u_id r)) ''run-finished'' result))))))"

definition explore :: "'w os \<Rightarrow> 'w rig \<Rightarrow> lane_cfg \<Rightarrow> run_row \<Rightarrow> ('w lane_st, unit) prog" where
  "explore X R c queued =
     start_record X R (u_id queued) (\<lambda>r. let dir = run_dir c (u_id r) in steps
       [io (mkdir X (slash dir ''evidence'')), io (mkdir X (slash dir ''results'')),
        io (mkdir X (slash dir ''workspace'')),
        timeline X R dir ''exploration-start'' (''exploring '' @ u_sha r),
        doing (see (rig_monotonic R)) (\<lambda>t0.
          finally_do (except_any (explore_body X R c r (t0 + of_int (lc_timeout c)))
              (run_failed X R c r explore_extras))
            (except_any (doing (teardown_rig X R c (u_id r)) (\<lambda>_. ret ())) (\<lambda>e. ret ())))])"

end
