(* ===== verification/Netpolicy.thy ===== *)
theory Netpolicy
  imports Effects
begin

text \<open>
  qa_lane/netpolicy.py: the host firewall policy of the QA lane's Docker bridges, as the rules it
  renders, the check that they are present and their installation. iptables and ip6tables are other
  programs: they are reached through \<open>exec\<close>, and what is proved of the installation rests on their
  documented commands, stated as the predicate \<open>firewall\<close> over an abstract view of the chains.
\<close>

subsection \<open>The rules\<close>

definition fw_chain :: string where "fw_chain = ''DCSQA-EGRESS''"
definition iface_prefix :: string where "iface_prefix = ''dcsqa''"
definition builder_iface :: string where "builder_iface = ''dcsqab''"
definition rig_iface :: string where "rig_iface = ''dcsqar''"

definition builder_deny_dests :: "string list" where
  "builder_deny_dests =
     [''0.0.0.0/8'', ''10.0.0.0/8'', ''100.64.0.0/10'', ''127.0.0.0/8'', ''169.254.0.0/16'',
      ''172.16.0.0/12'', ''192.168.0.0/16'', ''198.18.0.0/15'', ''224.0.0.0/4'', ''240.0.0.0/4'']"

definition builder_allow_ports :: "string list" where
  "builder_allow_ports = [''80'', ''443'']"

type_synonym fw_rule = "string list"

definition established_rule :: "string \<Rightarrow> fw_rule" where
  "established_rule i =
     [''-i'', i, ''-m'', ''conntrack'', ''--ctstate'', ''ESTABLISHED,RELATED'', ''-j'', ''ACCEPT'']"

definition drop_rule :: "string \<Rightarrow> fw_rule" where
  "drop_rule i = [''-i'', i, ''-j'', ''DROP'']"

definition deny_rule :: "string \<Rightarrow> fw_rule" where
  "deny_rule dest = [''-i'', builder_iface, ''-d'', dest, ''-j'', ''DROP'']"

definition web_rule :: fw_rule where
  "web_rule = [''-i'', builder_iface, ''-p'', ''tcp'', ''-m'', ''multiport'', ''--dports'',
     join '','' builder_allow_ports, ''-j'', ''ACCEPT'']"

definition any_iface :: string where "any_iface = iface_prefix @ ''+''"

definition v4_chain_rules :: "fw_rule list" where
  "v4_chain_rules =
     [established_rule builder_iface] @ map deny_rule builder_deny_dests
     @ [web_rule, drop_rule builder_iface, established_rule rig_iface, drop_rule rig_iface,
        drop_rule any_iface, [''-j'', ''RETURN'']]"

definition v6_chain_rules :: "fw_rule list" where
  "v6_chain_rules = [drop_rule any_iface, [''-j'', ''RETURN'']]"

definition hook_rules :: "(string \<times> fw_rule) list" where
  "hook_rules =
     [(''DOCKER-USER'', [''-i'', any_iface, ''-j'', fw_chain]),
      (''INPUT'', established_rule any_iface), (''INPUT'', drop_rule any_iface)]"

definition fw_tools :: "(string \<times> fw_rule list) list" where
  "fw_tools = [(''iptables'', v4_chain_rules), (''ip6tables'', v6_chain_rules)]"

definition list_args :: "fw_rule" where "list_args = [''-L'', fw_chain, ''-n'']"

definition fw_checks :: "(string \<times> string \<times> fw_rule) list" where
  "fw_checks = concat (map (\<lambda>(tool, rules).
     (tool, fw_chain, list_args) # map (\<lambda>r. (tool, fw_chain, r)) rules
     @ map (\<lambda>(hook, r). (tool, hook, r)) hook_rules) fw_tools)"

subsection \<open>Verifying and installing\<close>

definition fw_cmd :: "bool \<Rightarrow> string \<Rightarrow> string list" where
  "fw_cmd root_user tool = (if root_user then [tool] else [''sudo'', ''-n'', tool])"

definition fw_run :: "bool \<Rightarrow> 'w os \<Rightarrow> string \<Rightarrow> string list \<Rightarrow> ('w, proc_result) prog" where
  "fw_run u X tool args = exec X None (fw_cmd u tool @ args)"

definition check_args :: "string \<Rightarrow> fw_rule \<Rightarrow> string list" where
  "check_args chain r = (if take 2 r = [''-L'', fw_chain] then r else ''-C'' # chain # r)"

definition fw_check ::
  "bool \<Rightarrow> 'w os \<Rightarrow> string \<times> string \<times> fw_rule \<Rightarrow> string list \<Rightarrow> ('w, string list) prog" where
  "fw_check u X ck missing =
     (case ck of (tool, chain, r) \<Rightarrow>
        doing (fw_run u X tool (check_args chain r)) (\<lambda>res.
          ret (if returncode res \<noteq> 0 then missing @ [tool @ '' '' @ chain @ '' '' @ join '' '' r] else missing)))"

definition fw_verify :: "bool \<Rightarrow> 'w os \<Rightarrow> ('w, string list) prog" where
  "fw_verify u X = fold_prog (fw_check u X) fw_checks []"

definition fw_reset :: "bool \<Rightarrow> 'w os \<Rightarrow> string \<Rightarrow> ('w, unit) prog" where
  "fw_reset u X tool =
     doing (fw_run u X tool list_args) (\<lambda>res.
     doing (fw_run u X tool [if returncode res \<noteq> 0 then ''-N'' else ''-F'', fw_chain]) (\<lambda>_. ret ()))"

definition fw_append :: "bool \<Rightarrow> 'w os \<Rightarrow> string \<Rightarrow> string \<Rightarrow> fw_rule \<Rightarrow> nat \<Rightarrow> ('w, nat) prog" where
  "fw_append u X tool chain r fired =
     doing (fw_run u X tool (''-A'' # chain # r)) (\<lambda>_. ret (Suc fired))"

definition fw_hook :: "bool \<Rightarrow> 'w os \<Rightarrow> string \<Rightarrow> string \<times> fw_rule \<Rightarrow> nat \<Rightarrow> ('w, nat) prog" where
  "fw_hook u X tool hr fired =
     doing (fw_run u X tool (''-C'' # fst hr # snd hr)) (\<lambda>res.
       if returncode res \<noteq> 0 then fw_append u X tool (fst hr) (snd hr) fired else ret fired)"

definition fw_install :: "bool \<Rightarrow> 'w os \<Rightarrow> string \<times> fw_rule list \<Rightarrow> nat \<Rightarrow> ('w, nat) prog" where
  "fw_install u X tr fired =
     and_then (fw_reset u X (fst tr))
       (doing (fold_prog (fw_append u X (fst tr) fw_chain) (snd tr) (Suc fired))
          (fold_prog (fw_hook u X (fst tr)) hook_rules))"

definition fw_apply :: "bool \<Rightarrow> 'w os \<Rightarrow> ('w, nat) prog" where
  "fw_apply u X = fold_prog (fw_install u X) fw_tools 0"

subsection \<open>What the commands do, as documented\<close>

text \<open>
  A view of the outside world: the rules of a chain of a tool, in order, or \<open>None\<close> without the
  chain. \<open>firewall u X view\<close>: \<open>-L\<close> and \<open>-C\<close> answer with their exit code and change nothing, \<open>-N\<close>
  creates an empty chain, \<open>-F\<close> empties one, \<open>-A\<close> appends to one, and no other chain changes.
\<close>

type_synonym 'w fw_view = "'w \<Rightarrow> string \<Rightarrow> string \<Rightarrow> fw_rule list option"

definition answers :: "bool \<Rightarrow> 'w os \<Rightarrow> 'w fw_view \<Rightarrow> string \<Rightarrow> string list \<Rightarrow> 'w \<Rightarrow> bool \<Rightarrow> (string \<Rightarrow> string \<Rightarrow> fw_rule list option) \<Rightarrow> bool" where
  "answers u X view tool args w ok after \<longleftrightarrow>
     (\<exists>r w'. fw_run u X tool args w = (Inr r, w') \<and> (returncode r = 0) = ok \<and> view w' = after)"

definition set_chain ::
  "string \<Rightarrow> string \<Rightarrow> fw_rule list \<Rightarrow> (string \<Rightarrow> string \<Rightarrow> fw_rule list option)
    \<Rightarrow> string \<Rightarrow> string \<Rightarrow> fw_rule list option" where
  "set_chain tool chain rules v = (\<lambda>t c. if t = tool \<and> c = chain then Some rules else v t c)"

definition firewall :: "bool \<Rightarrow> 'w os \<Rightarrow> 'w fw_view \<Rightarrow> bool" where
  "firewall u X view \<longleftrightarrow> (\<forall>w tool chain.
     answers u X view tool [''-L'', chain, ''-n''] w (view w tool chain \<noteq> None) (view w)
     \<and> (view w tool chain = None \<longrightarrow>
          answers u X view tool [''-N'', chain] w True (set_chain tool chain [] (view w))
          \<and> (\<forall>r. answers u X view tool (''-C'' # chain # r) w False (view w)))
     \<and> (\<forall>rules. view w tool chain = Some rules \<longrightarrow>
          answers u X view tool [''-F'', chain] w True (set_chain tool chain [] (view w))
          \<and> (\<forall>r. answers u X view tool (''-C'' # chain # r) w (r \<in> set rules) (view w)
                \<and> answers u X view tool (''-A'' # chain # r) w True
                     (set_chain tool chain (rules @ [r]) (view w)))))"

subsection \<open>Installation\<close>

definition add_hook ::
  "string \<Rightarrow> string \<times> fw_rule \<Rightarrow> (string \<Rightarrow> string \<Rightarrow> fw_rule list option)
    \<Rightarrow> string \<Rightarrow> string \<Rightarrow> fw_rule list option" where
  "add_hook tool hr v =
     (case v tool (fst hr) of
        None \<Rightarrow> v
      | Some rules \<Rightarrow> if snd hr \<in> set rules then v else set_chain tool (fst hr) (rules @ [snd hr]) v)"

definition installed ::
  "string \<times> fw_rule list \<Rightarrow> (string \<Rightarrow> string \<Rightarrow> fw_rule list option) \<Rightarrow> string \<Rightarrow> string \<Rightarrow> fw_rule list option" where
  "installed tr v = fold (add_hook (fst tr)) hook_rules (set_chain (fst tr) fw_chain (snd tr) v)"

definition hooked :: "(string \<Rightarrow> string \<Rightarrow> fw_rule list option) \<Rightarrow> bool" where
  "hooked v \<longleftrightarrow> (\<forall>tr \<in> set fw_tools. \<forall>hr \<in> set hook_rules. v (fst tr) (fst hr) \<noteq> None)"

lemma set_chain_simps [simp]:
  "set_chain tool chain rules v tool chain = Some rules"
  "t \<noteq> tool \<or> c \<noteq> chain \<Longrightarrow> set_chain tool chain rules v t c = v t c"
  by (auto simp: set_chain_def)

lemma set_chain_twice: "set_chain tool chain xs (set_chain tool chain ys v) = set_chain tool chain xs v"
  by (intro ext) (simp add: set_chain_def)

lemma set_chain_same: "v tool chain = Some xs \<Longrightarrow> set_chain tool chain xs v = v"
  by (intro ext) (auto simp: set_chain_def)

lemma hook_not_chain: "hr \<in> set hook_rules \<Longrightarrow> fst hr \<noteq> fw_chain"
  by (auto simp: hook_rules_def fw_chain_def)

lemma add_hook_chain [simp]: "fst hr \<noteq> fw_chain \<Longrightarrow> add_hook tool hr v t fw_chain = v t fw_chain"
  by (auto simp: add_hook_def set_chain_def split: option.split)

lemma add_hook_None: "(add_hook tool hr v t c = None) = (v t c = None)"
  by (auto simp: add_hook_def set_chain_def split: option.split)

lemma add_hook_other [simp]: "t \<noteq> tool \<Longrightarrow> add_hook tool hr v t c = v t c"
  by (auto simp: add_hook_def set_chain_def split: option.split)

lemma add_hook_keeps: "v t c = Some xs \<Longrightarrow> \<exists>ys. add_hook tool hr v t c = Some (xs @ ys)"
  by (auto simp: add_hook_def set_chain_def split: option.split)

lemma add_hook_there: "v tool (fst hr) \<noteq> None \<Longrightarrow> \<exists>xs. add_hook tool hr v tool (fst hr) = Some xs \<and> snd hr \<in> set xs"
  by (auto simp: add_hook_def set_chain_def split: option.split)

lemma add_hooks_chain: "set hrs \<subseteq> set hook_rules \<Longrightarrow> fold (add_hook tool) hrs v t fw_chain = v t fw_chain"
  by (induction hrs arbitrary: v) (simp_all add: hook_not_chain)

lemma add_hooks_other: "t \<noteq> tool \<Longrightarrow> fold (add_hook tool) hrs v t c = v t c"
  by (induction hrs arbitrary: v) simp_all

lemma add_hooks_None: "(fold (add_hook tool) hrs v t c = None) = (v t c = None)"
  by (induction hrs arbitrary: v) (simp_all add: add_hook_None)

lemma add_hooks_keeps: "v t c = Some xs \<Longrightarrow> \<exists>ys. fold (add_hook tool) hrs v t c = Some (xs @ ys)"
proof (induction hrs arbitrary: v xs)
  case (Cons hr hrs)
  from add_hook_keeps [of v t c xs tool hr] Cons.prems
  obtain ys where "add_hook tool hr v t c = Some (xs @ ys)" by blast
  from Cons.IH [of "add_hook tool hr v", OF this] show ?case by auto
qed simp

lemma add_hooks_there:
  "\<forall>hr \<in> set hrs. v tool (fst hr) \<noteq> None \<Longrightarrow> hr \<in> set hrs \<Longrightarrow>
    \<exists>xs. fold (add_hook tool) hrs v tool (fst hr) = Some xs \<and> snd hr \<in> set xs"
proof (induction hrs arbitrary: v)
  case (Cons h hrs)
  show ?case
  proof (cases "hr \<in> set hrs")
    case True
    have "\<forall>hr \<in> set hrs. add_hook tool h v tool (fst hr) \<noteq> None"
      using Cons.prems(1) unfolding add_hook_None by simp
    from Cons.IH [of "add_hook tool h v", OF this True] show ?thesis by simp
  next
    case False
    with Cons.prems(2) have h: "h = hr" by simp
    with Cons.prems(1) have "v tool (fst hr) \<noteq> None" by simp
    then obtain xs where xs: "add_hook tool hr v tool (fst hr) = Some xs" "snd hr \<in> set xs"
      using add_hook_there by blast
    obtain ys where "fold (add_hook tool) hrs (add_hook tool hr v) tool (fst hr) = Some (xs @ ys)"
      using add_hooks_keeps [of "add_hook tool hr v" tool "fst hr" xs tool hrs] xs(1) by blast
    with xs(2) show ?thesis by (simp add: h)
  qed
qed simp

text \<open>A view in which the policy is in place: the chain exact, the hooks present.\<close>

definition in_place :: "(string \<Rightarrow> string \<Rightarrow> fw_rule list option) \<Rightarrow> bool" where
  "in_place v \<longleftrightarrow> (\<forall>tr \<in> set fw_tools. v (fst tr) fw_chain = Some (snd tr)
     \<and> (\<forall>hr \<in> set hook_rules. \<exists>xs. v (fst tr) (fst hr) = Some xs \<and> snd hr \<in> set xs))"

lemma installed_in_place:
  assumes "hooked v"
  shows "in_place (fold installed fw_tools v)"
proof -
  have own: "installed tr w (fst tr) fw_chain = Some (snd tr)" for tr w
    by (simp add: installed_def add_hooks_chain)
  have hooks: "\<exists>xs. installed tr w (fst tr) (fst hr) = Some xs \<and> snd hr \<in> set xs"
    if "\<forall>hr \<in> set hook_rules. w (fst tr) (fst hr) \<noteq> None" "hr \<in> set hook_rules" for tr w hr
    unfolding installed_def using that by (intro add_hooks_there) (auto simp: hook_not_chain)
  have other: "installed tr w t c = w t c" if "t \<noteq> fst tr" for tr w t c
    using that by (simp add: installed_def add_hooks_other)
  have tools: "fw_tools = [(''iptables'', v4_chain_rules), (''ip6tables'', v6_chain_rules)]"
    by (simp add: fw_tools_def)
  have ne: "''iptables'' \<noteq> ''ip6tables''" by simp
  let ?v4 = "(''iptables'', v4_chain_rules)" and ?v6 = "(''ip6tables'', v6_chain_rules)"
  have h4: "\<forall>hr \<in> set hook_rules. v (fst ?v4) (fst hr) \<noteq> None"
    and h6: "\<forall>hr \<in> set hook_rules. installed ?v4 v (fst ?v6) (fst hr) \<noteq> None"
    using assms other [of "fst ?v6" ?v4] ne by (simp_all add: hooked_def tools del: not_None_eq)
  show ?thesis
    unfolding in_place_def tools
    using own [of ?v4 v] own [of ?v6 "installed ?v4 v"] hooks [where w = v and tr = ?v4, OF h4]
      hooks [where w = "installed ?v4 v" and tr = ?v6, OF h6]
      other [of "fst ?v4" ?v6 "installed ?v4 v"] ne by simp
qed

lemma in_place_fixed:
  assumes "in_place v" and "tr \<in> set fw_tools"
  shows "installed tr v = v"
proof -
  have chain: "set_chain (fst tr) fw_chain (snd tr) v = v"
    using assms by (intro set_chain_same) (simp add: in_place_def)
  have "add_hook (fst tr) hr v = v" if "hr \<in> set hook_rules" for hr
  proof -
    from assms that obtain xs where "v (fst tr) (fst hr) = Some xs" "snd hr \<in> set xs"
      unfolding in_place_def by blast
    then show ?thesis by (simp add: add_hook_def)
  qed
  then have "fold (add_hook (fst tr)) hrs v = v" if "set hrs \<subseteq> set hook_rules" for hrs
    using that by (induction hrs) simp_all
  then show ?thesis by (simp add: installed_def chain)
qed

text \<open>The commands one by one, as facts about their runs.\<close>

lemma answersD:
  assumes "answers u X view tool args w ok after"
  obtains r w' where "fw_run u X tool args w = (Inr r, w')" "returncode r = 0 \<longleftrightarrow> ok" "view w' = after"
  using assms unfolding answers_def by blast

lemma firewallD:
  assumes "firewall u X view"
  shows "answers u X view tool [''-L'', chain, ''-n''] w (view w tool chain \<noteq> None) (view w)"
    and "view w tool chain = None \<Longrightarrow>
      answers u X view tool [''-N'', chain] w True (set_chain tool chain [] (view w))"
    and "view w tool chain = Some rules \<Longrightarrow>
      answers u X view tool [''-F'', chain] w True (set_chain tool chain [] (view w))"
    and "view w tool chain = Some rules \<Longrightarrow>
      answers u X view tool (''-C'' # chain # r) w (r \<in> set rules) (view w)"
    and "view w tool chain = Some rules \<Longrightarrow>
      answers u X view tool (''-A'' # chain # r) w True (set_chain tool chain (rules @ [r]) (view w))"
    and "view w tool chain = None \<Longrightarrow> answers u X view tool (''-C'' # chain # r) w False (view w)"
  using assms unfolding firewall_def by blast+

lemma run_append:
  assumes "firewall u X view" and "view w tool chain = Some rules"
  shows "\<exists>w'. fw_append u X tool chain r n w = (Inr (Suc n), w')
    \<and> view w' = set_chain tool chain (rules @ [r]) (view w)"
  by (rule answersD [OF firewallD(5) [OF assms, of r]]) (auto simp: fw_append_def doing_def)

lemma run_appends:
  assumes "firewall u X view" and "view w tool chain = Some rules"
  shows "\<exists>w'. fold_prog (fw_append u X tool chain) rs n w = (Inr (n + length rs), w')
    \<and> view w' = set_chain tool chain (rules @ rs) (view w)"
  using assms(2)
proof (induction rs arbitrary: n w rules)
  case Nil
  then show ?case by (simp add: set_chain_same)
next
  case (Cons r rs)
  obtain w1 where w1: "fw_append u X tool chain r n w = (Inr (Suc n), w1)"
    "view w1 = set_chain tool chain (rules @ [r]) (view w)" using run_append [OF assms(1) Cons.prems] by blast
  then have "view w1 tool chain = Some (rules @ [r])" by simp
  from Cons.IH [OF this, of "Suc n"] w1 show ?case by (auto simp: doing_def set_chain_twice)
qed

lemma run_reset:
  assumes "firewall u X view"
  shows "\<exists>w'. fw_reset u X tool w = (Inr (), w') \<and> view w' = set_chain tool fw_chain [] (view w)"
proof -
  obtain r w1 where l: "fw_run u X tool list_args w = (Inr r, w1)"
    "returncode r = 0 \<longleftrightarrow> view w tool fw_chain \<noteq> None" "view w1 = view w"
    using answersD [OF firewallD(1) [OF assms, of tool fw_chain w]] unfolding list_args_def by metis
  show ?thesis
  proof (cases "view w tool fw_chain")
    case None
    then have "view w1 tool fw_chain = None" using l(3) by simp
    from answersD [OF firewallD(2) [OF assms this]]
    obtain q w2 where "fw_run u X tool [''-N'', fw_chain] w1 = (Inr q, w2)"
      "view w2 = set_chain tool fw_chain [] (view w1)" by metis
    with l None show ?thesis by (simp add: fw_reset_def doing_def)
  next
    case (Some rules)
    then have "view w1 tool fw_chain = Some rules" using l(3) by simp
    from answersD [OF firewallD(3) [OF assms this]]
    obtain q w2 where "fw_run u X tool [''-F'', fw_chain] w1 = (Inr q, w2)"
      "view w2 = set_chain tool fw_chain [] (view w1)" by metis
    with l Some show ?thesis by (simp add: fw_reset_def doing_def)
  qed
qed

lemma run_hook:
  assumes "firewall u X view" and "view w tool (fst hr) \<noteq> None"
  shows "\<exists>n' w'. fw_hook u X tool hr n w = (Inr n', w') \<and> view w' = add_hook tool hr (view w)"
proof -
  obtain rules where rules: "view w tool (fst hr) = Some rules" using assms(2) by blast
  from answersD [OF firewallD(4) [OF assms(1) rules, of "snd hr"]]
  obtain r w1 where r: "fw_run u X tool (''-C'' # fst hr # snd hr) w = (Inr r, w1)"
    "returncode r = 0 \<longleftrightarrow> snd hr \<in> set rules" "view w1 = view w" by metis
  have "view w1 tool (fst hr) = Some rules" using r(3) rules by simp
  from run_append [OF assms(1) this, of "snd hr" n] obtain w2
    where "fw_append u X tool (fst hr) (snd hr) n w1 = (Inr (Suc n), w2)"
      "view w2 = set_chain tool (fst hr) (rules @ [snd hr]) (view w1)" by blast
  with r rules show ?thesis by (auto simp: fw_hook_def doing_def add_hook_def)
qed

lemma run_hooks:
  assumes "firewall u X view" and "\<forall>hr \<in> set hrs. view w tool (fst hr) \<noteq> None"
  shows "\<exists>n' w'. fold_prog (fw_hook u X tool) hrs n w = (Inr n', w')
    \<and> view w' = fold (add_hook tool) hrs (view w)"
  using assms(2)
proof (induction hrs arbitrary: n w)
  case (Cons hr hrs)
  then have "view w tool (fst hr) \<noteq> None" by simp
  from run_hook [OF assms(1) this] obtain n1 w1
    where w1: "fw_hook u X tool hr n w = (Inr n1, w1)" "view w1 = add_hook tool hr (view w)" by blast
  have "\<forall>h \<in> set hrs. view w1 tool (fst h) \<noteq> None"
    using Cons.prems unfolding w1(2) add_hook_None by simp
  from Cons.IH [OF this, of n1] w1 show ?case by (auto simp: doing_def)
qed simp

lemma run_install:
  assumes "firewall u X view" and "\<forall>hr \<in> set hook_rules. view w (fst tr) (fst hr) \<noteq> None"
  shows "\<exists>n' w'. fw_install u X tr n w = (Inr n', w') \<and> view w' = installed tr (view w)"
proof -
  from run_reset [OF assms(1)] obtain w1 where w1: "fw_reset u X (fst tr) w = (Inr (), w1)"
    "view w1 = set_chain (fst tr) fw_chain [] (view w)" by blast
  then have "view w1 (fst tr) fw_chain = Some []" by simp
  from run_appends [OF assms(1) this, of "snd tr" "Suc n"] obtain w2
    where w2: "fold_prog (fw_append u X (fst tr) fw_chain) (snd tr) (Suc n) w1
        = (Inr (Suc n + length (snd tr)), w2)"
      "view w2 = set_chain (fst tr) fw_chain (snd tr) (view w)"
    using w1(2) by (auto simp: set_chain_twice)
  have "\<forall>hr \<in> set hook_rules. view w2 (fst tr) (fst hr) \<noteq> None"
    using assms(2) hook_not_chain by (auto simp: w2(2))
  from run_hooks [OF assms(1) this, of "Suc n + length (snd tr)"] w1 w2 show ?thesis
    by (auto simp: fw_install_def and_then_def doing_def installed_def)
qed

text \<open>Every rule is somewhere in its chain: what the check asks, in whatever order.\<close>

definition has_rule :: "(string \<Rightarrow> string \<Rightarrow> fw_rule list option) \<Rightarrow> string \<times> string \<times> fw_rule \<Rightarrow> bool" where
  "has_rule v ck =
     (case ck of (tool, chain, r) \<Rightarrow>
        (case v tool chain of None \<Rightarrow> False | Some rules \<Rightarrow> take 2 r = [''-L'', fw_chain] \<or> r \<in> set rules))"

definition rules_present :: "(string \<Rightarrow> string \<Rightarrow> fw_rule list option) \<Rightarrow> bool" where
  "rules_present v \<longleftrightarrow> list_all (has_rule v) fw_checks"

lemma checked_listing: "(tool, chain, r) \<in> set fw_checks \<Longrightarrow> take 2 r = [''-L'', fw_chain] \<Longrightarrow>
    r = [''-L'', chain, ''-n'']"
  by (auto simp: fw_checks_def fw_tools_def list_args_def hook_rules_def v4_chain_rules_def
      v6_chain_rules_def established_rule_def drop_rule_def deny_rule_def web_rule_def)

lemma run_check:
  assumes "firewall u X view" and "ck \<in> set fw_checks"
  shows "\<exists>ms w'. fw_check u X ck missing w = (Inr (missing @ ms), w') \<and> view w' = view w
    \<and> (ms = [] \<longleftrightarrow> has_rule (view w) ck)"
proof -
  obtain tool chain r where ck: "ck = (tool, chain, r)" by (cases ck)
  have "\<exists>q w'. fw_run u X tool (check_args chain r) w = (Inr q, w')
    \<and> (returncode q = 0 \<longleftrightarrow> has_rule (view w) ck) \<and> view w' = view w"
  proof (cases "take 2 r = [''-L'', fw_chain]")
    case True
    then have "check_args chain r = [''-L'', chain, ''-n'']"
      using checked_listing [of tool chain r] assms(2) by (simp add: ck check_args_def)
    moreover have "has_rule (view w) ck \<longleftrightarrow> view w tool chain \<noteq> None"
      using True by (simp add: has_rule_def ck split: option.split)
    ultimately show ?thesis using answersD [OF firewallD(1) [OF assms(1), of tool chain w]] by metis
  next
    case False
    then have args: "check_args chain r = ''-C'' # chain # r" by (simp add: check_args_def)
    show ?thesis
    proof (cases "view w tool chain")
      case None
      then have "\<not> has_rule (view w) ck" by (simp add: has_rule_def ck)
      then show ?thesis using answersD [OF firewallD(6) [OF assms(1) None, of r]] args by metis
    next
      case (Some rules)
      then have "has_rule (view w) ck \<longleftrightarrow> r \<in> set rules" using False by (simp add: has_rule_def ck)
      then show ?thesis using answersD [OF firewallD(4) [OF assms(1) Some, of r]] args by metis
    qed
  qed
  then obtain q w' where "fw_run u X tool (check_args chain r) w = (Inr q, w')"
    "returncode q = 0 \<longleftrightarrow> has_rule (view w) ck" "view w' = view w" by blast
  then show ?thesis by (auto simp: fw_check_def ck doing_def)
qed

lemma run_checks:
  assumes "firewall u X view" and "set cks \<subseteq> set fw_checks"
  shows "\<exists>ms w'. fold_prog (fw_check u X) cks missing w = (Inr (missing @ ms), w') \<and> view w' = view w
    \<and> (ms = [] \<longleftrightarrow> list_all (has_rule (view w)) cks)"
  using assms(2)
proof (induction cks arbitrary: missing w)
  case (Cons ck cks)
  then have "ck \<in> set fw_checks" by simp
  from run_check [OF assms(1) this, of missing w] obtain ms w1
    where w1: "fw_check u X ck missing w = (Inr (missing @ ms), w1)" "view w1 = view w"
      "ms = [] \<longleftrightarrow> has_rule (view w) ck" by blast
  from Cons.IH [of "missing @ ms" w1] Cons.prems obtain ns w2
    where w2: "fold_prog (fw_check u X) cks (missing @ ms) w1 = (Inr (missing @ ms @ ns), w2)" "view w2 = view w1"
      "ns = [] \<longleftrightarrow> list_all (has_rule (view w1)) cks" by auto
  show ?case by (rule exI [of _ "ms @ ns"], rule exI [of _ w2]) (use w1 w2 in \<open>auto simp: doing_def\<close>)
qed simp

lemma run_verify:
  assumes "firewall u X view"
  shows "\<exists>ms w'. fw_verify u X w = (Inr ms, w') \<and> view w' = view w \<and> (ms = [] \<longleftrightarrow> rules_present (view w))"
  using run_checks [OF assms order.refl, of "[]" w] by (simp add: fw_verify_def rules_present_def)

lemma in_place_present:
  assumes "in_place v"
  shows "rules_present v"
proof -
  have "has_rule v (tool, chain, r)" if "(tool, chain, r) \<in> set fw_checks" for tool chain r
  proof -
    from that obtain rules where rules: "(tool, rules) \<in> set fw_tools"
      and c: "chain = fw_chain \<and> (r = list_args \<or> r \<in> set rules) \<or> (chain, r) \<in> set hook_rules"
      by (auto simp: fw_checks_def)
    then have "v tool fw_chain = Some rules"
      "(chain, r) \<in> set hook_rules \<Longrightarrow> \<exists>xs. v tool chain = Some xs \<and> r \<in> set xs"
      using assms by (force simp: in_place_def)+
    with c show ?thesis by (auto simp: has_rule_def list_args_def)
  qed
  then show ?thesis by (auto simp: rules_present_def list_all_iff)
qed

lemma run_apply:
  assumes "firewall u X view" and "hooked (view w)"
  shows "\<exists>n w'. fw_apply u X w = (Inr n, w') \<and> view w' = fold installed fw_tools (view w)"
proof -
  let ?v4 = "(''iptables'', v4_chain_rules)" and ?v6 = "(''ip6tables'', v6_chain_rules)"
  have tools: "fw_tools = [?v4, ?v6]" by (simp add: fw_tools_def)
  have h: "\<forall>hr \<in> set hook_rules. view w (fst tr) (fst hr) \<noteq> None" if "tr \<in> {?v4, ?v6}" for tr
    using assms(2) that unfolding hooked_def tools list.set by blast
  have "\<forall>hr \<in> set hook_rules. view w (fst ?v4) (fst hr) \<noteq> None" by (rule h) (rule insertI1)
  from run_install [of u X view w ?v4 0, OF assms(1) this] obtain n1 w1
    where w1: "fw_install u X ?v4 0 w = (Inr n1, w1)" "view w1 = installed ?v4 (view w)" by blast
  have "\<forall>hr \<in> set hook_rules. view w1 (fst ?v6) (fst hr) \<noteq> None"
    using h [of ?v6] by (simp add: w1(2) installed_def add_hooks_other del: not_None_eq)
  from run_install [of u X view w1 ?v6 n1, OF assms(1) this] obtain n2 w2
    where "fw_install u X ?v6 n1 w1 = (Inr n2, w2)" "view w2 = installed ?v6 (view w1)" by blast
  with w1 show ?thesis by (simp add: fw_apply_def tools doing_def)
qed

subsection \<open>What the policy lets through\<close>

text \<open>A chain decides by its first matching rule; the end of a chain of ours returns.\<close>

fun fw_walk :: "(fw_rule \<Rightarrow> 'p \<Rightarrow> bool) \<Rightarrow> fw_rule list \<Rightarrow> 'p \<Rightarrow> string" where
  "fw_walk matches [] p = ''RETURN''"
| "fw_walk matches (r # rs) p = (if matches r p then last r else fw_walk matches rs p)"

text \<open>
  The documented match options the rules use: the interface a packet came in on, whether it belongs
  to an established connection, its destination and whether it goes to a port of the web.
\<close>

definition packet_matches ::
  "(fw_rule \<Rightarrow> 'p \<Rightarrow> bool) \<Rightarrow> (string \<Rightarrow> 'p \<Rightarrow> bool) \<Rightarrow> ('p \<Rightarrow> bool) \<Rightarrow> (string \<Rightarrow> 'p \<Rightarrow> bool) \<Rightarrow> ('p \<Rightarrow> bool) \<Rightarrow> bool" where
  "packet_matches matches came_in est goes_to web \<longleftrightarrow> (\<forall>p.
     (\<forall>i. matches (established_rule i) p \<longleftrightarrow> came_in i p \<and> est p)
     \<and> (\<forall>i. matches (drop_rule i) p \<longleftrightarrow> came_in i p)
     \<and> (\<forall>d. matches (deny_rule d) p \<longleftrightarrow> came_in builder_iface p \<and> goes_to d p)
     \<and> (matches web_rule p \<longleftrightarrow> came_in builder_iface p \<and> web p)
     \<and> matches [''-j'', ''RETURN''] p
     \<and> (came_in builder_iface p \<or> came_in rig_iface p \<longrightarrow> came_in any_iface p))"

lemma last_rules [simp]:
  "last (established_rule i) = ''ACCEPT''" "last (drop_rule i) = ''DROP''" "last (deny_rule d) = ''DROP''"
  "last web_rule = ''ACCEPT''"
  by (simp_all add: established_rule_def drop_rule_def deny_rule_def web_rule_def)

lemma walk_append:
  "fw_walk matches (rs @ rs') p = (if list_ex (\<lambda>r. matches r p) rs then fw_walk matches rs p else fw_walk matches rs' p)"
  by (induction rs) auto

lemma walk_denied:
  "list_ex (\<lambda>r. matches r p) (map deny_rule ds) \<Longrightarrow> fw_walk matches (map deny_rule ds) p = ''DROP''"
  by (induction ds) auto


text \<open>
  C37: on a host whose iptables behaves as documented and has the DOCKER-USER and INPUT chains,
  applying the policy ends with the chain of each tool exactly the rendered rules in their order and
  the hooks in place, the check that follows finds nothing missing, and applying it again changes no
  chain.
\<close>

theorem apply_installs_policy:
  assumes "firewall u X view" and "hooked (view w)"
  shows "\<exists>n w1. fw_apply u X w = (Inr n, w1) \<and> in_place (view w1)
    \<and> (\<exists>w2. fw_verify u X w1 = (Inr [], w2))
    \<and> (\<exists>n' w2. fw_apply u X w1 = (Inr n', w2) \<and> view w2 = view w1)"
proof -
  obtain n w1 where w1: "fw_apply u X w = (Inr n, w1)" "view w1 = fold installed fw_tools (view w)"
    using run_apply [OF assms] by blast
  have placed: "in_place (view w1)" unfolding w1(2) by (rule installed_in_place [OF assms(2)])
  have "fold installed trs (view w1) = view w1" if "set trs \<subseteq> set fw_tools" for trs
    using that by (induction trs) (simp_all add: in_place_fixed [OF placed])
  moreover have "hooked (view w1)"
    unfolding hooked_def using placed unfolding in_place_def by fastforce
  ultimately have "\<exists>n' w2. fw_apply u X w1 = (Inr n', w2) \<and> view w2 = view w1"
    using run_apply [OF assms(1), of w1] by auto
  moreover have "\<exists>w2. fw_verify u X w1 = (Inr [], w2)"
    using run_verify [OF assms(1), of w1] in_place_present [OF placed] by auto
  ultimately show ?thesis using w1(1) placed by blast
qed

text \<open>
  The check does not see the order of the rules: it finds nothing missing exactly when every
  rule is somewhere in its chain. With a RETURN moved to the front of the chain it still passes the
  policy, under which no packet of a bridge is dropped any more.
\<close>

lemma verify_ignores_order:
  assumes "firewall u X view" and "packet_matches matches came_in est goes_to web"
  shows "(\<exists>ms w'. fw_verify u X w = (Inr ms, w') \<and> (ms = [] \<longleftrightarrow> rules_present (view w)))
    \<and> (in_place v \<longrightarrow> rules_present (set_chain ''iptables'' fw_chain ([''-j'', ''RETURN''] # v4_chain_rules) v))
    \<and> fw_walk matches ([''-j'', ''RETURN''] # v4_chain_rules) p = ''RETURN''"
proof (intro conjI impI)
  show "\<exists>ms w'. fw_verify u X w = (Inr ms, w') \<and> (ms = [] \<longleftrightarrow> rules_present (view w))"
    using run_verify [OF assms(1)] by blast
  have "matches [''-j'', ''RETURN''] p" using assms(2) by (simp add: packet_matches_def)
  then show "fw_walk matches ([''-j'', ''RETURN''] # v4_chain_rules) p = ''RETURN''" by simp
next
  assume placed: "in_place v"
  then have chain: "v ''iptables'' fw_chain = Some v4_chain_rules"
    by (simp add: in_place_def fw_tools_def)
  have "has_rule (set_chain ''iptables'' fw_chain ([''-j'', ''RETURN''] # v4_chain_rules) v) ck"
    if "has_rule v ck" for ck
    using that chain by (auto simp: has_rule_def set_chain_def split: prod.splits option.splits if_splits)
  with in_place_present [OF placed]
  show "rules_present (set_chain ''iptables'' fw_chain ([''-j'', ''RETURN''] # v4_chain_rules) v)"
    by (auto simp: rules_present_def list_all_iff)
qed

subsection \<open>A simulated host\<close>

text \<open>The outside world is the table of chains itself.\<close>

type_synonym sim = "string \<Rightarrow> string \<Rightarrow> fw_rule list option"

definition sim_exit :: "bool \<Rightarrow> proc_result res" where
  "sim_exit ok = Inr \<lparr>returncode = (if ok then 0 else 1), stdout = [], stderr = []\<rparr>"

definition sim_iptables :: "string \<Rightarrow> string \<Rightarrow> string \<Rightarrow> fw_rule \<Rightarrow> sim \<Rightarrow> proc_result res \<times> sim" where
  "sim_iptables tool cmd chain r w =
     (case w tool chain of
        None \<Rightarrow> if cmd = ''-N'' then (sim_exit True, set_chain tool chain [] w) else (sim_exit False, w)
      | Some rules \<Rightarrow>
          if cmd = ''-F'' then (sim_exit True, set_chain tool chain [] w)
          else if cmd = ''-A'' then (sim_exit True, set_chain tool chain (rules @ [r]) w)
          else if cmd = ''-C'' then (sim_exit (r \<in> set rules), w)
          else (sim_exit (cmd = ''-L''), w))"

definition sim_os :: "sim os" where
  "sim_os = \<lparr>clock = (\<lambda>_. 0),
     exec = (\<lambda>_ args w. case args of tool # cmd # chain # r \<Rightarrow> sim_iptables tool cmd chain r w
       | _ \<Rightarrow> (sim_exit False, w)),
     popen = (\<lambda>_ w. (Inr 1, w)), kill = (\<lambda>_ _ w. (Inr (), w)), exists_path = (\<lambda>_ _. False),
     is_file = (\<lambda>_ _. False), is_dir = (\<lambda>_ _. False), resolve = (\<lambda>p _. p), listdir = (\<lambda>_ _. Inr []),
     read_text = (\<lambda>_ _. Inr []), write_text = (\<lambda>_ _ w. (Inr (), w)), mkdir = (\<lambda>_ w. (Inr (), w)),
     rename = (\<lambda>_ _ w. (Inr (), w)), sleep = (\<lambda>_ w. (Inr (), w)), uuid_hex = (\<lambda>w. (Inr [], w)),
     jitter = (\<lambda>_ _. 0), float_text = (\<lambda>_. []), session_row = (\<lambda>_ _. None)\<rparr>"

definition fresh_host :: sim where
  "fresh_host tool chain = (if chain \<in> {''DOCKER-USER'', ''INPUT''} then Some [] else None)"

lemma sim_firewall: "firewall True sim_os id"
  by (auto simp: firewall_def answers_def fw_run_def fw_cmd_def sim_os_def sim_iptables_def sim_exit_def
      split: option.splits)

text \<open>A packet as the triple of its interface, its connection and its destination.\<close>

definition sim_matches :: "fw_rule \<Rightarrow> string \<times> bool \<times> string \<Rightarrow> bool" where
  "sim_matches r p = (case p of (i, est, dest) \<Rightarrow>
     (case r of
        [a, j] \<Rightarrow> True
      | [a, x, j, t] \<Rightarrow> x = i \<or> x = any_iface \<and> i \<in> {builder_iface, rig_iface}
      | [a, x, d, y, j, t] \<Rightarrow> i = builder_iface \<and> y = dest
      | [a, x, m, c, s, e, j, t] \<Rightarrow> (x = i \<or> x = any_iface \<and> i \<in> {builder_iface, rig_iface}) \<and> est
      | _ \<Rightarrow> i = builder_iface \<and> dest = ''web''))"

lemma sim_packets:
  "packet_matches sim_matches (\<lambda>i (j, est, dest). i = j \<or> i = any_iface \<and> j \<in> {builder_iface, rig_iface})
     (\<lambda>(j, est, dest). est) (\<lambda>d (j, est, dest). d = dest) (\<lambda>(j, est, dest). dest = ''web'')"
  unfolding packet_matches_def
  by (auto simp: sim_matches_def established_rule_def drop_rule_def deny_rule_def web_rule_def
      builder_iface_def rig_iface_def any_iface_def iface_prefix_def)


theorem apply_installs_policy_witness:
  "\<exists>n w1. fw_apply True sim_os fresh_host = (Inr n, w1) \<and> in_place w1"
proof -
  have "hooked (id fresh_host)" by (auto simp: hooked_def fresh_host_def hook_rules_def)
  with apply_installs_policy [where view = id and w = fresh_host, OF sim_firewall] show ?thesis by auto
qed

end
