(* ===== verification/QaCycle.thy ===== *)
theory QaCycle
  imports QaExplorer Netpolicy
begin

text \<open>
  qa_lane/runner.py: one pass of the lane's supervisor. Runs whose process died are closed and their
  containers removed; what stays behind blocks new runs; the retention reconciler frees the lane's own
  files and images; then one due run is dispatched: a fix verification, an assessment or an exploration,
  in that order.
\<close>

subsection \<open>Dead runs\<close>

definition pid_alive :: "'w rig \<Rightarrow> int option \<Rightarrow> 'w \<Rightarrow> bool" where
  "pid_alive R pid w =
     (case pid of
        None \<Rightarrow> False
      | Some p \<Rightarrow> p \<noteq> 0 \<and>
          (case rig_signal R p w of
             Inl e \<Rightarrow> False
           | Inr _ \<Rightarrow> (case rig_cmdline R p w of
               Inl e \<Rightarrow> True | Inr line \<Rightarrow> in_text ''qa_lane'' line \<or> in_text ''qa-lane'' line)))"

definition gone_text :: "run_row \<Rightarrow> string" where
  "gone_text r = ''runner pid '' @ (case u_pid r of None \<Rightarrow> ''None'' | Some p \<Rightarrow> str_int p)
     @ '' gone; reconciled''"

definition close_dead :: "'w os \<Rightarrow> 'w rig \<Rightarrow> lane_cfg \<Rightarrow> run_row \<Rightarrow> ('w lane_st, unit) prog" where
  "close_dead X R c r =
     and_then (timed X (\<lambda>now. lput (interrupt_run (u_id r) (gone_text r) now)))
       (write_interrupted_report X R c r)"

definition reap :: "'w os \<Rightarrow> string \<Rightarrow> string list \<Rightarrow> string \<Rightarrow> ('w lane_st, unit) prog" where
  "reap X kind args ref =
     doing (io (docker X (args @ [ref]))) (\<lambda>res.
       if returncode res \<noteq> 0
       then note_failure X (cleanup_key kind ref)
         ((if kind = ''network'' then ''docker network rm failed: '' else ''docker rm failed: '')
            @ take 300 (strip (stderr res)))
       else lput (clear_cleanup_error (cleanup_key kind ref)))"

text \<open>Entries of the cleanup ledger whose object no longer exists.\<close>

definition stale_entry :: "string list \<Rightarrow> string \<Rightarrow> bool" where
  "stale_entry extant k \<longleftrightarrow>
     (\<exists>p \<in> {''cleanup-container-'', ''cleanup-network-''}.
        starts_with p k \<and> drop (length p) k \<notin> set extant)"

definition sweep_ledger :: "string list \<Rightarrow> qa_db \<Rightarrow> qa_db" where
  "sweep_ledger extant s =
     fold clear_cleanup_error (filter (stale_entry extant) (map fst (fields_of (cleanup_errors s)))) s"

definition orphans :: "string list \<Rightarrow> (string \<times> string) list \<Rightarrow> string list" where
  "orphans alive rows = map fst (filter (\<lambda>(i, l). l \<notin> set alive) rows)"

definition reconcile :: "'w os \<Rightarrow> 'w rig \<Rightarrow> lane_cfg \<Rightarrow> ('w lane_st, unit) prog" where
  "reconcile X R c =
     doing (lread (runs_in [Running])) (\<lambda>running.
     doing (see (\<lambda>w. map u_id (filter (\<lambda>r. pid_alive R (u_pid r) w) running))) (\<lambda>alive.
     and_then (for_each (close_dead X R c) (filter (\<lambda>r. u_id r \<notin> set alive) running))
     (doing (io (managed_containers X)) (\<lambda>(containers_ok, containers).
     doing (io (managed_networks X)) (\<lambda>(networks_ok, networks). steps
       [for_each (reap X ''container'' [''rm'', ''-f'']) (orphans alive containers),
        for_each (reap X ''network'' [''network'', ''rm'']) (orphans alive networks),
        only_if (containers_ok \<and> networks_ok)
          (lput (sweep_ledger (map fst containers @ map fst networks)))])))))"

subsection \<open>Exclusive ownership\<close>

definition leftover_text :: "string \<times> string \<times> string \<Rightarrow> string" where
  "leftover_text l = (case l of (kind, ref, rid) \<Rightarrow> kind @ '' '' @ ref @ '' (run '' @ rid @ '')'')"

definition ownership_block :: "'w os \<Rightarrow> ('w lane_st, (string \<times> string) option) prog" where
  "ownership_block X =
     doing (lread (runs_in [Running])) (\<lambda>running.
       if running \<noteq> []
       then ret (Some (''active-run-conflict'', ''run record(s) still active under another pid: ''
         @ join '', '' (map u_id running)))
       else doing (io (managed_containers X)) (\<lambda>(containers_ok, containers).
            doing (io (managed_networks X)) (\<lambda>(networks_ok, networks).
         if \<not> (containers_ok \<and> networks_ok)
         then ret (Some (''docker-listing-failed'', ''cannot enumerate managed containers/networks - cannot prove exclusive ownership''))
         else let leftovers = map (\<lambda>(i, l). (''container'', i, l)) containers
                    @ map (\<lambda>(i, l). (''network'', i, l)) networks in
           ret (if leftovers = [] then None
                else Some (''cleanup-incomplete'', ''unreconciled managed objects: ''
                  @ take 400 (join ''; '' (map leftover_text (take 8 leftovers))))))))"

definition set_blocked :: "'w os \<Rightarrow> (string \<times> string) option \<Rightarrow> ('w lane_st, bool) prog" where
  "set_blocked X blk =
     (case blk of
        None \<Rightarrow> and_then (lput (\<lambda>s. if truthy (lget ''blocked'' JNull s) then lset ''blocked'' JNull s else s)) (ret False)
      | Some (reason, detail) \<Rightarrow> timed X (\<lambda>now. and_then
          (lput (lset ''blocked'' (JObj [(''reason'', JStr reason), (''detail'', JStr (take 400 detail)),
             (''since'', JStr (iso_utc now))]))) (ret True)))"

subsection \<open>Retention\<close>

definition reclaim_error :: "'w os \<Rightarrow> string \<Rightarrow> string \<Rightarrow> ('w lane_st, unit) prog" where
  "reclaim_error X k detail = note_failure X (''reclaim-'' @ k) (take 400 detail)"

definition remove_path :: "'w os \<Rightarrow> 'w rig \<Rightarrow> string \<Rightarrow> string \<Rightarrow> ('w lane_st, unit) prog" where
  "remove_path X R path k =
     doing (see (\<lambda>w. is_dir X path w \<and> \<not> rig_is_link R path w)) (\<lambda>folder.
       except_if is_os_error
         (and_then (io (if folder then rig_rmtree R path else rig_unlink R path))
            (lput (clear_cleanup_error (''reclaim-'' @ k))))
         (\<lambda>e. reclaim_error X k (exn_text e)))"

text \<open>The files of the directory, oldest first, are unlinked until the rest fits.\<close>

fun trim_files :: "'w rig \<Rightarrow> int \<Rightarrow> (string \<times> time \<times> int) list \<Rightarrow> int \<Rightarrow> ('w, unit) prog" where
  "trim_files R cap [] total_bytes = ret ()"
| "trim_files R cap ((path, t, sz) # files) total_bytes =
     (if total_bytes \<le> cap then ret ()
      else try_else (rig_unlink R path)
        (\<lambda>e. if is_os_error e then trim_files R cap files total_bytes else raise e)
        (\<lambda>_. trim_files R cap files (total_bytes - sz)))"

definition stat_files :: "'w rig \<Rightarrow> string \<Rightarrow> 'w \<Rightarrow> (string \<times> time \<times> int) list" where
  "stat_files R path w =
     List.map_filter (\<lambda>(p, st). map_option (\<lambda>(t, sz). (p, t, sz)) st) (rig_walk R path w)"

definition trim_dir :: "'w rig \<Rightarrow> string \<Rightarrow> int \<Rightarrow> ('w, unit) prog" where
  "trim_dir R path cap =
     doing (ask (stat_files R path)) (\<lambda>files.
       trim_files R cap (sort_key (\<lambda>(p, t, sz). (t, sz, p)) files) (sum_list (map (\<lambda>(p, t, sz). sz) files)))"

definition active_shas :: "qa_db \<Rightarrow> string list" where
  "active_shas s = map u_sha (filter (\<lambda>r. u_status r \<in> {Queued, Running}) (all_runs s))"

definition recent_shas :: "qa_db \<Rightarrow> string list" where
  "recent_shas s = uniq (rev (map u_sha (all_runs s)))"

text \<open>The revisions that stay, with the number of recent ones to keep.\<close>

definition keep_shas :: "nat \<Rightarrow> qa_db \<Rightarrow> string \<Rightarrow> bool" where
  "keep_shas n s sha \<longleftrightarrow>
     sha \<in> set (active_shas s) \<or> JStr sha \<in> set (pinned ''shas'' s) \<or> sha \<in> set (take n (recent_shas s))"

definition keep_first :: "qa_db \<Rightarrow> string \<Rightarrow> bool" where
  "keep_first s rid \<longleftrightarrow>
     JStr rid \<in> set (pinned ''runs'' s)
     \<or> (\<exists>r \<in> set (all_runs s). u_id r = rid
          \<and> (u_status r \<in> {Queued, Running} \<or> nonempty (u_report r) = None \<and> u_status r \<noteq> Superseded))"

definition finish_time :: "run_row \<Rightarrow> time" where
  "finish_time r = (case u_finished r of None \<Rightarrow> 0 | Some t \<Rightarrow> t)"

definition recent_terminal :: "nat \<Rightarrow> qa_db \<Rightarrow> string list" where
  "recent_terminal n s = take n (map u_id (sorted_desc finish_time
     (filter (\<lambda>r. u_status r \<in> {Finished, Interrupted} \<and> \<not> keep_first s (u_id r)) (all_runs s))))"

definition keep_run :: "nat \<Rightarrow> qa_db \<Rightarrow> string \<Rightarrow> bool" where
  "keep_run n s rid \<longleftrightarrow> keep_first s rid \<or> rid \<in> set (recent_terminal n s)"

definition sha_of_entry :: "string \<Rightarrow> string" where
  "sha_of_entry n = (if ends_with ''.tar'' n then take (length n - 4) n else n)"

definition is_sha :: "string \<Rightarrow> bool" where
  "is_sha t \<longleftrightarrow> length t = 40 \<and> list_all hex_lower t"

text \<open>What is removed of each directory, by the name of the entry.\<close>

definition drops_source :: "lane_cfg \<Rightarrow> qa_db \<Rightarrow> string \<Rightarrow> bool" where
  "drops_source c s n \<longleftrightarrow> is_sha (sha_of_entry n) \<and> \<not> keep_shas (lc_src_keep c) s (sha_of_entry n)"

definition lane_prefix :: "string \<Rightarrow> bool" where
  "lane_prefix n \<longleftrightarrow> starts_with ''qa-'' n \<or> starts_with ''qav-'' n"

definition drops_run :: "lane_cfg \<Rightarrow> qa_db \<Rightarrow> string \<Rightarrow> bool" where
  "drops_run c s n \<longleftrightarrow> lane_prefix n \<and> \<not> keep_run (lc_runs_keep c) s n"

definition stem_of :: "string \<Rightarrow> string" where
  "stem_of n = take (length n - 5) n"

definition drops_report :: "lane_cfg \<Rightarrow> qa_db \<Rightarrow> time \<Rightarrow> time res \<Rightarrow> string \<Rightarrow> bool" where
  "drops_report c s now mtime n \<longleftrightarrow>
     ends_with ''.json'' n \<and> lane_prefix n \<and> stem_of n \<notin> u_id ` set (lane_runs s)
     \<and> (case mtime of Inl e \<Rightarrow> False | Inr t \<Rightarrow> of_int (lc_orphan_days c * 86400) < now - t)"

text \<open>\<open>if dir.is_dir(): for entry in sorted(dir.iterdir()): ...\<close>\<close>

definition each_entry ::
  "'w os \<Rightarrow> string \<Rightarrow> (string \<Rightarrow> ('w lane_st, unit) prog) \<Rightarrow> ('w lane_st, unit) prog" where
  "each_entry X dir act =
     doing (see (is_dir X dir)) (\<lambda>there. only_if there
       (doing (io (look (listdir X dir))) (\<lambda>names. for_each act (sort names))))"

definition reclaim_sources :: "'w os \<Rightarrow> 'w rig \<Rightarrow> lane_cfg \<Rightarrow> qa_db \<Rightarrow> ('w lane_st, unit) prog" where
  "reclaim_sources X R c s0 = each_entry X (lc_src_dir c) (\<lambda>n. only_if (drops_source c s0 n)
     (remove_path X R (slash (lc_src_dir c) n) (''src-'' @ sha_of_entry n)))"

definition reclaim_runs :: "'w os \<Rightarrow> 'w rig \<Rightarrow> lane_cfg \<Rightarrow> qa_db \<Rightarrow> ('w lane_st, unit) prog" where
  "reclaim_runs X R c s0 = (let dir = slash (lc_state_dir c) ''runs'' in
     each_entry X dir (\<lambda>n. only_if (drops_run c s0 n) (remove_path X R (slash dir n) (''run-'' @ n))))"

definition reclaim_reports :: "'w os \<Rightarrow> 'w rig \<Rightarrow> lane_cfg \<Rightarrow> qa_db \<Rightarrow> time \<Rightarrow> ('w lane_st, unit) prog" where
  "reclaim_reports X R c s0 now = (let dir = slash (lc_state_dir c) ''reports'' in
     each_entry X dir (\<lambda>n. doing (see (rig_mtime R (slash dir n))) (\<lambda>mtime.
       only_if (drops_report c s0 now mtime n) (remove_path X R (slash dir n) (''report-'' @ stem_of n)))))"

definition over_cap :: "'w os \<Rightarrow> 'w rig \<Rightarrow> string \<Rightarrow> int \<Rightarrow> 'w \<Rightarrow> bool" where
  "over_cap X R dir cap w \<longleftrightarrow> is_dir X dir w \<and> cap < dir_size R dir w"

definition reclaim_cargo :: "'w os \<Rightarrow> 'w rig \<Rightarrow> lane_cfg \<Rightarrow> ('w lane_st, unit) prog" where
  "reclaim_cargo X R c = (let dir = slash (lc_state_dir c) ''cargo-cache'' in
     doing (see (over_cap X R dir (lc_cargo_max c))) (\<lambda>over. only_if over (and_then
       (io (trim_dir R dir (lc_cargo_max c)))
       (doing (see (dir_size R dir)) (\<lambda>n. only_if (lc_cargo_max c < n)
          (reclaim_error X ''cargo-cache'' ''still over cap after trim''))))))"

definition reclaim_build :: "'w os \<Rightarrow> 'w rig \<Rightarrow> lane_cfg \<Rightarrow> ('w lane_st, unit) prog" where
  "reclaim_build X R c = (let dir = slash (lc_state_dir c) ''build-cache'' in
     doing (see (over_cap X R dir (lc_build_max c))) (\<lambda>over. only_if over
       (each_entry X dir (\<lambda>n. remove_path X R (slash dir n) (''build-cache-'' @ n)))))"

definition image_key :: "string \<Rightarrow> string \<Rightarrow> string" where
  "image_key img tag = ''image-'' @ last (split_on CHR ''/'' img) @ ''-'' @ take 12 tag"

definition docker_reclaim :: "'w os \<Rightarrow> string list \<Rightarrow> string \<Rightarrow> string \<Rightarrow> ('w lane_st, unit) prog" where
  "docker_reclaim X args k what =
     doing (io (docker X args)) (\<lambda>res.
       if returncode res \<noteq> 0 then reclaim_error X k (what @ '' failed: '' @ take 300 (strip (stderr res)))
       else lput (clear_cleanup_error (''reclaim-'' @ k)))"

definition drops_image :: "lane_cfg \<Rightarrow> qa_db \<Rightarrow> image_row \<Rightarrow> bool" where
  "drops_image c s row \<longleftrightarrow>
     (case row of (img, tag, iid, sz) \<Rightarrow>
        starts_with image_prefix img \<and> \<not> keep_shas (lc_images_keep c) s tag)"

definition reclaim_images :: "'w os \<Rightarrow> 'w rig \<Rightarrow> lane_cfg \<Rightarrow> qa_db \<Rightarrow> ('w lane_st, unit) prog" where
  "reclaim_images X R c s0 =
     doing (io (qa_images X R c)) (\<lambda>rows. for_each (\<lambda>(img, tag, iid, sz).
         docker_reclaim X [''image'', ''rm'', img @ '':'' @ tag] (image_key img tag) ''docker image rm'')
       (filter (drops_image c s0) rows))"

definition reclaim_cache :: "'w os \<Rightarrow> 'w rig \<Rightarrow> lane_cfg \<Rightarrow> ('w lane_st, unit) prog" where
  "reclaim_cache X R c =
     doing (io (build_cache_bytes X R)) (\<lambda>n. only_if (lc_docker_max c < n)
       (docker_reclaim X [''builder'', ''prune'', ''-f'', ''--keep-storage'', str_int (lc_docker_max c)]
          ''docker-build-cache'' ''builder prune''))"

definition reclaim :: "'w os \<Rightarrow> 'w rig \<Rightarrow> lane_cfg \<Rightarrow> bool \<Rightarrow> ('w lane_st, unit) prog" where
  "reclaim X R c docker_ok =
     timed X (\<lambda>now. doing (lread id) (\<lambda>s0. steps
       ([reclaim_sources X R c s0, reclaim_runs X R c s0, reclaim_reports X R c s0 now,
         reclaim_cargo X R c, reclaim_build X R c]
        @ (if docker_ok then [reclaim_images X R c s0, reclaim_cache X R c] else []))))"

subsection \<open>Retrying an inconclusive assessment\<close>

definition retry_due :: "lane_cfg \<Rightarrow> qa_db \<Rightarrow> run_row option" where
  "retry_due c s =
     (case last_of (assessments [Finished] s) of
        None \<Rightarrow> None
      | Some r \<Rightarrow>
          if u_outcome r \<noteq> Some ''inconclusive'' \<or> next_queued (Some ''qa'') s \<noteq> None
             \<or> lc_max_attempts c \<le> attempts_for (u_sha r) s then None else Some r)"

definition maybe_retry :: "'w os \<Rightarrow> lane_cfg \<Rightarrow> time \<Rightarrow> string \<Rightarrow> ('w lane_st, unit) prog" where
  "maybe_retry X c now day =
     doing (lread (retry_due c)) (\<lambda>due. case due of
       None \<Rightarrow> ret ()
     | Some r \<Rightarrow> timed X (\<lambda>clock_now. doing (lread (new_run_id ''qa'' clock_now)) (\<lambda>rid.
         doing (ltry (\<lambda>s. enqueue rid (u_sha r) now day (attempts_for (u_sha r) s + 1) s)) (\<lambda>_. ret ()))))"

subsection \<open>The egress gate\<close>

definition egress_failed :: "string \<Rightarrow> exn \<Rightarrow> ('w, string list) prog" where
  "egress_failed step e = ret [step @ '' failed: '' @ take 200 (exn_text e)]"

definition ensure_egress :: "'w os \<Rightarrow> 'w rig \<Rightarrow> ('w, string list) prog" where
  "ensure_egress X R =
     try_else (fw_verify (rig_root R) X) (egress_failed ''verify'') (\<lambda>missing.
       if missing = [] then ret []
       else except_any (doing (fw_apply (rig_root R) X) (\<lambda>_. fw_verify (rig_root R) X))
         (egress_failed ''apply''))"

definition egress_gate :: "'w os \<Rightarrow> 'w rig \<Rightarrow> lane_cfg \<Rightarrow> ('w lane_st, bool) prog" where
  "egress_gate X R c =
     (if \<not> lc_egress c then ret True
      else doing (io (ensure_egress X R)) (\<lambda>missing.
        if missing = [] then ret True
        else and_then (doing (set_blocked X (Some (''egress-policy-missing'',
            ''host firewall rules absent: '' @ join ''; '' (take 5 missing)))) (\<lambda>_. ret ())) (ret False)))"

subsection \<open>The cycle\<close>

definition due_assessment :: "lane_cfg \<Rightarrow> string \<Rightarrow> qa_db \<Rightarrow> run_row option" where
  "due_assessment c day s =
     (if lc_max_runs c \<le> int (started_today day (Some ''qa'') s) then None else next_queued (Some ''qa'') s)"

definition run_due :: "'w os \<Rightarrow> 'w rig \<Rightarrow> lane_cfg \<Rightarrow> run_row option \<Rightarrow> run_row option \<Rightarrow> ('w lane_st, unit) prog" where
  "run_due X R c found queued =
     (case (found, queued) of
        (Some r, _) \<Rightarrow>
          if is_kind ''qav'' r then verify X R c r
          else (case queued of Some q \<Rightarrow> assess X R c q | None \<Rightarrow> explore X R c r)
      | (None, Some q) \<Rightarrow> assess X R c q
      | (None, None) \<Rightarrow> ret ())"

definition dispatch_due :: "'w os \<Rightarrow> 'w rig \<Rightarrow> lane_cfg \<Rightarrow> time \<Rightarrow> string \<Rightarrow> ('w lane_st, unit) prog" where
  "dispatch_due X R c now day =
     doing (next_run X c now) (\<lambda>verification.
     doing (lread (due_assessment c day)) (\<lambda>queued.
     doing (if verification = None \<and> queued = None then next_exploration X R c now else ret verification) (\<lambda>found.
       if found = None \<and> queued = None then ret ()
       else doing (egress_gate X R c) (\<lambda>enforced. only_if enforced (run_due X R c found queued)))))"

definition lane_cycle :: "'w os \<Rightarrow> 'w rig \<Rightarrow> lane_cfg \<Rightarrow> ('w lane_st, unit) prog" where
  "lane_cycle X R c =
     timed X (\<lambda>now.
     and_then (reconcile X R c)
     (doing (ownership_block X) (\<lambda>blk.
     and_then (doing (io (load_queue X c)) (\<lambda>items. lput (sync_preserves items)))
     (and_then (reclaim X R c (blk = None))
     (timed X (\<lambda>clock_now. let day = utc_day clock_now in
        and_then (maybe_retry X c now day)
          (doing (set_blocked X blk) (\<lambda>blocked. if blocked then ret () else dispatch_due X R c now day))))))))"

text \<open>Another cycle that holds the lock makes this one return at once.\<close>

definition cycle :: "'w os \<Rightarrow> 'w rig \<Rightarrow> lane_cfg \<Rightarrow> ('w lane_st, unit) prog" where
  "cycle X R c =
     and_then (io (mkdir X (lc_state_dir c)))
       (doing (io (rig_lock R (slash (lc_state_dir c) ''lock''))) (\<lambda>held.
          only_if held (lane_cycle X R c)))"

end
