(* ===== verification/QaTable.thy ===== *)
theory QaTable
  imports QaCycle
begin

text \<open>
  Facts about the table of runs and the retention pins of the QA lane: a new run id is free, each
  operation keeps the table well formed, and the pins of pending verifications are in place after
  they are synchronised.
\<close>

subsection \<open>Run ids\<close>

lemma nat_of_zeros: "nat_of_digits (replicate k CHR ''0'' @ t) = nat_of_digits t"
  by (induction k) (simp_all add: nat_of_digits_def cp_def)

lemma pad3_inj: "pad3 m = pad3 n \<Longrightarrow> m = n"
  by (metis nat_of_digits_str_nat nat_of_zeros pad3_def)

lemma run_id_at_inj: "run_id_at kind day m = run_id_at kind day n \<Longrightarrow> m = n"
  by (simp add: run_id_at_def pad3_inj)

lemma lane_run_None: "lane_run rid s = None \<longleftrightarrow> rid \<notin> u_id ` set (lane_runs s)"
  by (simp add: lane_run_def find_row_None_iff)

lemma free_seq_taken:
  "lane_run (run_id_at kind day (free_seq kind day s k n)) s = None
   \<or> free_seq kind day s k n = n + k \<and> (\<forall>i < k. lane_run (run_id_at kind day (n + i)) s \<noteq> None)"
proof (induction k arbitrary: n)
  case (Suc k)
  show ?case
  proof (cases "lane_run (run_id_at kind day n) s = None")
    case False
    then have "free_seq kind day s (Suc k) n = free_seq kind day s k (Suc n)" by simp
    moreover have "\<forall>i < Suc k. lane_run (run_id_at kind day (n + i)) s \<noteq> None"
      if "\<forall>i < k. lane_run (run_id_at kind day (Suc n + i)) s \<noteq> None"
      using that False by (auto simp: less_Suc_eq_0_disj)
    ultimately show ?thesis using Suc.IH [of "Suc n"] by auto
  qed simp
qed simp

lemma new_run_id_free: "lane_run (new_run_id kind now s) s = None"
proof (rule ccontr)
  let ?day = "utc_date [] now" and ?n = "length (lane_runs s)"
  let ?id = "run_id_at kind ?day" and ?ids = "u_id ` set (lane_runs s)"
  assume taken: "lane_run (new_run_id kind now s) s \<noteq> None"
  then have last_one: "free_seq kind ?day s ?n 1 = 1 + ?n"
    and before: "\<forall>i < ?n. ?id (1 + i) \<in> ?ids"
    using free_seq_taken [of kind ?day s ?n 1] by (auto simp: new_run_id_def Let_def lane_run_None)
  have "?id (1 + ?n) \<in> ?ids"
    using taken unfolding new_run_id_def Let_def last_one by (simp add: lane_run_None)
  with before have sub: "?id ` {1..1 + ?n} \<subseteq> ?ids"
    by (auto simp: le_Suc_eq) (metis Suc_pred' Suc_leD less_eq_Suc_le not_less_eq_eq plus_1_eq_Suc le_simps(3))
  have "inj_on ?id {1..1 + ?n}" by (rule inj_onI) (rule run_id_at_inj)
  then have "card (?id ` {1..1 + ?n}) = Suc ?n" by (simp add: card_image)
  moreover have "card ?ids \<le> ?n" by (metis card_image_le card_length finite_set le_trans)
  ultimately show False using card_mono [OF _ sub] by simp
qed

lemma new_run_id_kind:
  "\<exists>day n. new_run_id kind now s = run_id_at kind day n"
  by (auto simp: new_run_id_def Let_def)

lemma run_id_kinds [simp]:
  "u_id r = run_id_at ''qav'' day n \<Longrightarrow> \<not> is_kind ''qa'' r"
  "u_id r = run_id_at ''qax'' day n \<Longrightarrow> \<not> is_kind ''qa'' r"
  "u_id r = run_id_at kind day n \<Longrightarrow> is_kind kind r"
  by (auto simp: is_kind_def run_id_at_def starts_with_def)

subsection \<open>The table\<close>

fun row_ok :: "run_row \<Rightarrow> bool" where
  "row_ok r =
     (case u_status r of
        Queued \<Rightarrow> u_pid r = None \<and> u_started r = None \<and> u_outcome r = None \<and> u_error r = None
      | Running \<Rightarrow> u_pid r \<noteq> None \<and> u_started r \<noteq> None \<and> u_outcome r = None
      | Finished \<Rightarrow> u_outcome r \<noteq> None \<and> u_report r \<noteq> None \<and> u_finished r \<noteq> None
      | Interrupted \<Rightarrow> u_outcome r = Some ''interrupted'' \<and> u_error r \<noteq> None \<and> u_finished r \<noteq> None
      | Superseded \<Rightarrow> u_outcome r = None \<and> u_started r = None \<and> u_finished r \<noteq> None)"

declare row_ok.simps [simp del]

definition queued_assessments :: "qa_db \<Rightarrow> run_row list" where
  "queued_assessments s = filter (\<lambda>r. u_status r = Queued \<and> is_kind ''qa'' r) (lane_runs s)"

definition tries_ok :: "int \<Rightarrow> run_row \<Rightarrow> bool" where
  "tries_ok limit r \<longleftrightarrow> 1 \<le> u_attempt r \<and> u_attempt r \<le> max 1 limit"

definition table_ok :: "int \<Rightarrow> qa_db \<Rightarrow> bool" where
  "table_ok limit s \<longleftrightarrow>
     distinct (map u_id (lane_runs s)) \<and> (\<forall>r \<in> set (lane_runs s). row_ok r \<and> tries_ok limit r)
     \<and> length (queued_assessments s) \<le> 1"

text \<open>A write to the row of one id, as all operations but the queueing are.\<close>

definition on_row :: "string \<Rightarrow> (run_row \<Rightarrow> run_row) \<Rightarrow> qa_db \<Rightarrow> qa_db" where
  "on_row rid f s = s\<lparr>lane_runs := update_row u_id rid f (lane_runs s)\<rparr>"

lemma filter_update_row_le:
  "(\<And>r. P (f r) \<Longrightarrow> P r) \<Longrightarrow> length (filter P (update_row key k f rows)) \<le> length (filter P rows)"
proof (induction rows)
  case (Cons r rows)
  then show ?case by (cases "P r"; cases "P (f r)") (auto simp: le_Suc_eq)
qed simp

lemma filter_update_row_Suc:
  assumes "distinct (map key rows)"
  shows "length (filter P (update_row key k f rows)) \<le> Suc (length (filter P rows))"
  using assms
proof (induction rows)
  case (Cons r rows)
  then show ?case by (cases "key r = k") (auto simp: update_row_absent)
qed simp

lemma table_ok_on_row:
  assumes "table_ok limit s"
    and "\<And>r. u_id (f r) = u_id r" and "\<And>r. u_attempt (f r) = u_attempt r"
    and "\<And>r. r \<in> set (lane_runs s) \<Longrightarrow> u_id r = rid \<Longrightarrow> row_ok r \<Longrightarrow> row_ok (f r)"
    and "\<And>r. u_status (f r) = Queued \<Longrightarrow> u_status r = Queued"
  shows "table_ok limit (on_row rid f s)"
proof -
  have "length (queued_assessments (on_row rid f s)) \<le> length (queued_assessments s)"
    unfolding queued_assessments_def on_row_def
    by (auto simp: is_kind_def assms(2) dest: assms(5) intro!: filter_update_row_le)
  moreover have "row_ok r \<and> tries_ok limit r" if "r \<in> set (update_row u_id rid f (lane_runs s))" for r
    using that assms unfolding table_ok_def tries_ok_def by (auto simp: update_row_def)
  ultimately show ?thesis
    using assms(1) unfolding table_ok_def by (simp add: on_row_def map_key_update_row assms(2))
qed

lemmas row_writes = finish_run_def interrupt_run_def attach_report_def begin_run_def supersede_def

lemma rows_by_id:
  "finish_run rid result completed path now s = on_row rid (\<lambda>r. r\<lparr>u_status := Finished, u_outcome := Some result,
     u_completed := completed, u_report := Some path, u_finished := Some now\<rparr>) s"
  "interrupt_run rid error now s = on_row rid (\<lambda>r. r\<lparr>u_status := Interrupted,
     u_outcome := Some ''interrupted'', u_error := Some error, u_finished := Some now\<rparr>) s"
  "attach_report rid path now s = on_row rid (\<lambda>r. r\<lparr>u_report := Some path, u_finished := Some now\<rparr>) s"
  "begin_run rid pid now s = on_row rid (\<lambda>r. if u_status r = Queued
     then r\<lparr>u_status := Running, u_pid := Some pid, u_started := Some now, u_day := utc_day now\<rparr> else r) s"
  "supersede now q s = on_row (u_id q) (\<lambda>r. r\<lparr>u_status := Superseded, u_finished := Some now\<rparr>) s"
  by (simp_all add: row_writes on_row_def)

lemma table_ok_writes:
  assumes "table_ok limit s"
  shows "table_ok limit (finish_run rid result completed path now s)"
    and "table_ok limit (interrupt_run rid error now s)"
    and "table_ok limit (attach_report rid path now s)"
    and "table_ok limit (begin_run rid pid now s)"
  unfolding rows_by_id
  by (rule table_ok_on_row [OF assms];
      auto simp: row_ok.simps split: run_status.splits if_splits)+

lemma table_ok_setting: "table_ok limit (lset k v s) = table_ok limit s"
  by (simp add: table_ok_def queued_assessments_def)

subsection \<open>Queueing\<close>

abbreviation superseded :: "time \<Rightarrow> run_row \<Rightarrow> run_row" where
  "superseded now r \<equiv> r\<lparr>u_status := Superseded, u_finished := Some now\<rparr>"

lemma fold_supersede:
  "fold (supersede now) qs s = s\<lparr>lane_runs :=
     map (\<lambda>r. if u_id r \<in> u_id ` set qs then superseded now r else r) (lane_runs s)\<rparr>"
  by (induction qs arbitrary: s) (auto simp: supersede_def update_row_def)

lemma set_assessments:
  "set (assessments sts s) = {r \<in> set (lane_runs s). u_status r \<in> set sts \<and> is_kind ''qa'' r}"
  by (auto simp: assessments_def runs_in_def)

lemma queued_by_id:
  assumes "table_ok limit s" and "r \<in> set (lane_runs s)"
  shows "u_id r \<in> u_id ` set (assessments [Queued] s) \<longleftrightarrow> u_status r = Queued \<and> is_kind ''qa'' r"
  using assms eq_key_imp_eq_value [of "map (\<lambda>r. (u_id r, r)) (lane_runs s)"]
  by (force simp: set_assessments table_ok_def o_def image_iff)

lemma superseded_all:
  assumes "table_ok limit s"
  shows "table_ok limit (fold (supersede now) (assessments [Queued] s) s)"
    and "queued_assessments (fold (supersede now) (assessments [Queued] s) s) = []"
proof -
  let ?f = "\<lambda>r. if u_id r \<in> u_id ` set (assessments [Queued] s) then superseded now r else r"
  have rows: "lane_runs (fold (supersede now) (assessments [Queued] s) s) = map ?f (lane_runs s)"
    by (simp add: fold_supersede)
  show none: "queued_assessments (fold (supersede now) (assessments [Queued] s) s) = []"
    using queued_by_id [OF assms] unfolding queued_assessments_def rows
    by (auto simp: filter_empty_conv is_kind_def)
  let ?s = "fold (supersede now) (assessments [Queued] s) s"
  have row: "row_ok (?f r) \<and> tries_ok limit (?f r)" if "r \<in> set (lane_runs s)" for r
    using assms that queued_by_id [OF assms that] unfolding table_ok_def
    by (auto simp: row_ok.simps tries_ok_def)
  have "\<forall>r \<in> set (lane_runs ?s). row_ok r \<and> tries_ok limit r"
    unfolding rows using row by (metis (no_types, lifting) imageE set_map)
  moreover have "map u_id (lane_runs ?s) = map u_id (lane_runs s)" unfolding rows by simp
  ultimately show "table_ok limit ?s"
    using assms none unfolding table_ok_def by simp
qed

lemma table_ok_insert:
  assumes "table_ok limit s" and "insert_run r s = Inr s'" and "row_ok r" and "tries_ok limit r"
    and "u_status r = Queued \<and> is_kind ''qa'' r \<Longrightarrow> queued_assessments s = []"
  shows "table_ok limit s'"
  using assms by (auto simp: insert_run_def table_ok_def queued_assessments_def split: if_splits)

lemma new_run_simps [simp]:
  "u_id (new_run rid sha now day n f) = rid" "u_sha (new_run rid sha now day n f) = sha"
  "u_status (new_run rid sha now day n f) = Queued" "u_first (new_run rid sha now day n f) = f"
  "u_attempt (new_run rid sha now day n f) = n" "row_ok (new_run rid sha now day n f)"
  by (simp_all add: new_run_def row_ok.simps)

lemma table_ok_enqueue:
  assumes "table_ok limit s" and "1 \<le> nth_try" and "nth_try \<le> max 1 limit"
    and run: "enqueue rid sha now day nth_try s = Inr (s', x)"
  shows "table_ok limit s'"
proof (cases "List.find (\<lambda>r. is_kind ''qa'' r \<and> u_sha r = sha) (runs_in [Queued, Running] s)")
  case None
  with run have inserted: "insert_run (new_run rid sha now day nth_try (range_first sha s))
      (fold (supersede now) (assessments [Queued] s) s) = Inr s'"
    by (auto simp: enqueue_def Let_def res_bind_Inr_iff)
  from table_ok_insert [OF superseded_all(1) [OF assms(1)] inserted] assms(2,3) show ?thesis
    by (simp add: tries_ok_def superseded_all(2) [OF assms(1)])
next
  case (Some r)
  with run assms(1) show ?thesis by (simp add: enqueue_def)
qed

lemma table_ok_dedicated:
  assumes "table_ok limit s" and "queue_dedicated (run_id_at kind d n) sha now day s = Inr (s', x)"
    and "kind = ''qav'' \<or> kind = ''qax''"
  shows "table_ok limit s'"
proof -
  have "insert_run (new_run (run_id_at kind d n) sha now day 1 None) s = Inr s'"
    using assms(2) by (auto simp: queue_dedicated_def Let_def res_bind_Inr_iff)
  with assms(3) show ?thesis
    by (auto intro!: table_ok_insert [OF assms(1)] simp: tries_ok_def)
qed

lemma attempts_for_bounds:
  assumes "table_ok limit s"
  shows "0 \<le> attempts_for sha s"
proof -
  let ?as = "map u_attempt (filter (\<lambda>r. u_sha r = sha \<and> has_started r) (lane_runs s))"
  have "?as \<noteq> [] \<Longrightarrow> Max (set ?as) \<in> set ?as" by (rule Max_in) (auto simp: filter_empty_conv)
  moreover have "a \<in> set ?as \<Longrightarrow> 0 \<le> a" for a
    using assms by (auto simp: table_ok_def tries_ok_def)
  ultimately show ?thesis unfolding attempts_for_def Let_def by auto
qed

lemma retry_due_bound: "retry_due c s = Some r \<Longrightarrow> attempts_for (u_sha r) s < lc_max_attempts c"
  by (auto simp: retry_due_def not_le split: option.splits if_splits)

subsection \<open>Pins\<close>

lemma pinned_repin:
  "set (pinned plural (repin kind True v s)) = set (pinned plural s) \<union> (if plural = kind @ ''s'' \<and> kind \<in> {''run'', ''sha''} then {JStr v} else {})"
  "set (pinned plural (repin kind False v s)) = set (pinned plural s) - (if plural = kind @ ''s'' \<and> kind \<in> {''run'', ''sha''} then {JStr v} else {})"
  by (auto simp: repin_def set_preserve_def Let_def pinned_def)

lemma pinned_repins:
  "kind \<in> {''run'', ''sha''} \<Longrightarrow> set (pinned plural (fold (repin kind True) vs s))
     = set (pinned plural s) \<union> (if plural = kind @ ''s'' then JStr ` set vs else {})"
  "kind \<in> {''run'', ''sha''} \<Longrightarrow> set (pinned plural (fold (repin kind False) vs s))
     = set (pinned plural s) - (if plural = kind @ ''s'' then JStr ` set vs else {})"
  by (induction vs arbitrary: s) (auto simp: pinned_repin)

lemma repin_frame [simp]:
  "lane_runs (repin kind on v s) = lane_runs s"
  "k \<noteq> ''preserve'' \<Longrightarrow> lget k d (repin kind on v s) = lget k d s"
  by (auto simp: repin_def set_preserve_def Let_def)

lemma repins_frame [simp]:
  "lane_runs (fold (repin kind on) vs s) = lane_runs s"
  "k \<noteq> ''preserve'' \<Longrightarrow> lget k d (fold (repin kind on) vs s) = lget k d s"
  by (induction vs arbitrary: s) simp_all

definition no_pins :: json where
  "no_pins = JObj [(''runs'', JList []), (''shas'', JList [])]"

definition own_pins :: "string \<Rightarrow> qa_db \<Rightarrow> string list" where
  "own_pins plural s = pins plural (lget pins_key no_pins s)"

text \<open>Every pin the lane recorded as its own is in place.\<close>

definition pins_ok :: "qa_db \<Rightarrow> bool" where
  "pins_ok s \<longleftrightarrow> (\<forall>plural \<in> {''runs'', ''shas''}. JStr ` set (own_pins plural s) \<subseteq> set (pinned plural s))"

lemma py_eq_texts: "list_all2 py_eq (map JStr xs) ys \<Longrightarrow> map str_of ys = xs"
  by (induction xs arbitrary: ys) (auto simp: list_all2_Cons1)

lemma py_eq_pins:
  assumes "py_eq (JObj [(a, JList (map JStr xs)), (b, JList (map JStr ys))]) j" and "a \<noteq> b"
  shows "pins a j = xs" and "pins b j = ys"
  using assms
  by (auto simp: pins_def jget_or_def jget_def dest!: py_eq_texts split: json.splits option.splits)

lemma pins_key_preserve [simp]: "pins_key \<noteq> ''preserve''" "''preserve'' \<noteq> pins_key"
  by (simp_all add: pins_key_def)

text \<open>What is pinned afterwards: what is wanted is, and nothing of what only the lane pinned before.\<close>

lemma pinned_sync:
  fixes items s
  defines "want \<equiv> wanted_pins (uniq (map (\<lambda>i. jget_or i ''finding_key'' JNull) items)) s"
  shows "set (pinned ''runs'' (sync_preserves items s)) =
      set (pinned ''runs'' s) \<union> JStr ` (set (fst want) - set (own_pins ''runs'' s))
      - JStr ` (set (own_pins ''runs'' s) - set (fst want))"
    and "set (pinned ''shas'' (sync_preserves items s)) =
      set (pinned ''shas'' s) \<union> JStr ` (set (snd want) - set (own_pins ''shas'' s))
      - JStr ` (set (own_pins ''shas'' s) - set (snd want))"
    and "set (own_pins ''runs'' (sync_preserves items s)) = set (fst want)"
    and "set (own_pins ''shas'' (sync_preserves items s)) = set (snd want)"
proof -
  have lset_pins [simp]: "pinned plural (lset pins_key v t) = pinned plural t" for plural v t
    by (simp add: pinned_def)
  show "set (pinned ''runs'' (sync_preserves items s)) =
      set (pinned ''runs'' s) \<union> JStr ` (set (fst want) - set (own_pins ''runs'' s))
      - JStr ` (set (own_pins ''runs'' s) - set (fst want))"
    "set (pinned ''shas'' (sync_preserves items s)) =
      set (pinned ''shas'' s) \<union> JStr ` (set (snd want) - set (own_pins ''shas'' s))
      - JStr ` (set (own_pins ''shas'' s) - set (snd want))"
    unfolding sync_preserves_def Let_def want_def own_pins_def no_pins_def
    by (auto simp: pinned_repins minus_list_def)
  define now where "now = JObj [(''runs'', JList (map JStr (sort (fst want)))), (''shas'', JList (map JStr (sort (snd want))))]"
  have pins_now: "pins ''runs'' now = sort (fst want)" "pins ''shas'' now = sort (snd want)"
    by (simp_all add: now_def pins_def jget_or_def jget_def o_def)
  have stored: "lget pins_key no_pins (sync_preserves items s) =
      (if py_eq now (lget pins_key no_pins s) then lget pins_key no_pins s else now)"
    by (simp add: sync_preserves_def Let_def now_def want_def no_pins_def)
  have "pins ''runs'' j = sort (fst want)" "pins ''shas'' j = sort (snd want)" if "py_eq now j" for j
    using py_eq_pins [OF that [unfolded now_def]] by simp_all
  with pins_now show "set (own_pins ''runs'' (sync_preserves items s)) = set (fst want)"
    "set (own_pins ''shas'' (sync_preserves items s)) = set (snd want)"
    unfolding own_pins_def stored by simp_all
qed

lemma wanted_pinned: "JStr ` own \<subseteq> P \<Longrightarrow> JStr ` W \<subseteq> P \<union> JStr ` (W - own) - JStr ` (own - W)"
  by auto

lemma pins_ok_sync: "pins_ok s \<Longrightarrow> pins_ok (sync_preserves items s)"
  unfolding pins_ok_def by (simp add: pinned_sync wanted_pinned)

lemma sync_frame [simp]:
  "lane_runs (sync_preserves items s) = lane_runs s"
  "k \<noteq> ''preserve'' \<Longrightarrow> k \<noteq> pins_key \<Longrightarrow> lget k d (sync_preserves items s) = lget k d s"
  by (simp_all add: sync_preserves_def Let_def)

end
