(* ===== verification/QaSim.thy ===== *)
theory QaSim
  imports QaCycle
begin

text \<open>
  A concrete host of the QA lane, at which the properties of the lane are applied: the simulated
  operating system of the firewall policy, a rig whose calls return at once, the lane's default
  configuration and a database with one queued assessment.
\<close>

definition sim_done :: "'w \<Rightarrow> unit res \<times> 'w" where "sim_done w = (Inr (), w)"

definition sim_rig :: "'w rig" where
  "sim_rig = \<lparr>rig_pid = 7, rig_os_name = ''linux'', rig_iso = (\<lambda>_. Some (0, True)), rig_scaled = (\<lambda>_ _. None),
     rig_walk = (\<lambda>_ _. []), rig_free = (\<lambda>_ _. Inr (10 ^ 12)), rig_mtime = (\<lambda>_ _. Inr 0),
     rig_is_link = (\<lambda>_ _. False), rig_rmtree = (\<lambda>_. sim_done), rig_unlink = (\<lambda>_. sim_done),
     rig_copy = (\<lambda>_ _. sim_done), rig_append = (\<lambda>_ _. sim_done), rig_signal = (\<lambda>_ _. Inr ()),
     rig_cmdline = (\<lambda>_ _. Inr ''qa_lane''), rig_build = (\<lambda>_ _ w. (Inr JNull, w)),
     rig_start = (\<lambda>_ _. sim_done), rig_wait = (\<lambda>w. (Inr True, w)), rig_cases = [],
     rig_replay = (\<lambda>_ _ w. (Inr JNull, w)), rig_scenarios = (\<lambda>_ w. (Inr [], w)),
     rig_lock = (\<lambda>_ w. (Inr True, w)), rig_root = True, rig_which = (\<lambda>_ _. None),
     rig_monotonic = (\<lambda>_. 0), rig_copytree = (\<lambda>_ _. sim_done), rig_prompt = (\<lambda>_ _ _. sim_done),
     rig_spawn = (\<lambda>_ _ _ w. (Inr (''completed'', ''0'', 0), w))\<rparr>"

definition sim_cfg :: lane_cfg where
  "sim_cfg = \<lparr>lc_state_dir = ''/srv/dcs-hwtest'', lc_src_dir = ''/srv/dcs-hwtest/src'',
     lc_git_dir = ''/srv/dcs-hwtest/repo.git'', lc_max_runs = 4, lc_max_attempts = 2,
     lc_min_free = 10 * 1024 ^ 3, lc_storage_max = 60 * 1024 ^ 3, lc_headroom = 8 * 1024 ^ 3,
     lc_runs_keep = 20, lc_src_keep = 2, lc_images_keep = 3, lc_orphan_days = 30,
     lc_cargo_max = 8 * 1024 ^ 3, lc_build_max = 20 * 1024 ^ 3, lc_docker_max = 4 * 1024 ^ 3,
     lc_egress = True, lc_builder_image = ''rust:1.98.1-bookworm'', lc_capabilities = [],
     lc_explore = False, lc_explore_max = 8, lc_explore_gap = 7200, lc_explore_budget = 5400,
     lc_timeout = 7200, lc_devin = ''devin'', lc_model = ''swe-2-high'', lc_ledger_keep = 20\<rparr>"

definition sim_sha :: string where "sim_sha = replicate 40 CHR ''a''"

definition sim_run :: run_row where
  "sim_run = new_run ''qa-20260101-001'' sim_sha 0 ''2026-01-01'' 1 None"

definition sim_db :: qa_db where
  "sim_db = \<lparr>lane_settings = [], lane_runs = [sim_run]\<rparr>"

end
