(* ===== verification/QaLaneInv.thy ===== *)
theory QaLaneInv
  imports QaTable QaSim
begin

text \<open>
  The lane's database under a whole cycle. A property of the database that the operations of a run keep
  (the locale \<open>lane_law\<close>) is kept by every program of the lane; the extensions of the locale add the
  start of a run and the queueing. The instances are the well-formedness of the table of runs, and
  that at most one run executes.
\<close>

subsection \<open>Programs of the lane\<close>

abbreviation of_lane :: "(qa_db \<Rightarrow> bool) \<Rightarrow> 'w lane_st \<Rightarrow> bool" where
  "of_lane I \<equiv> on_db (\<lambda>(s, m). I s)"

lemma keeps_lread [keeps_intros]: "keeps P (lread f)" "keeps P (mem g)"
  unfolding lread_def mem_def by (intro keeps_intros)+

lemma keeps_set_mem [keeps_intros]: "keeps (of_lane I) (set_mem f)"
  unfolding set_mem_def by (rule keeps_put) auto

lemma keeps_lput: "(\<And>s. I s \<Longrightarrow> I (f s)) \<Longrightarrow> keeps (of_lane I) (lput f)"
  unfolding lput_def by (rule keeps_put) auto

lemma keeps_ltry:
  "(\<And>s s' x. I s \<Longrightarrow> f s = Inr (s', x) \<Longrightarrow> I s') \<Longrightarrow> keeps (of_lane I) (ltry f)"
  unfolding ltry_def by (rule keeps_transact) (auto simp: res_bind_def split: sum.splits)

lemma keeps_laneI:
  "(\<And>s m w. I s \<Longrightarrow> I (fst (fst (snd (p ((s, m), w)))))) \<Longrightarrow> keeps (of_lane I) p"
  by (auto simp: keeps_def on_db_def split: prod.splits) (metis fst_conv snd_conv)

lemma keeps_finally [keeps_intros]: "keeps P m \<Longrightarrow> keeps P f \<Longrightarrow> keeps P (finally_do m f)"
  by (fastforce simp: keeps_def finally_do_def split: prod.split sum.split dest: spec)

lemma keeps_timeline [keeps_intros]: "keeps (of_lane I) (timeline X R dir event detail)"
  unfolding timeline_def by (intro keeps_intros)

lemma keeps_on_rig [keeps_intros]:
  "keeps (of_lane I) drive \<Longrightarrow> keeps (of_lane I) teardown \<Longrightarrow> keeps (of_lane I) (on_rig X R c r drive teardown)"
  unfolding on_rig_def by (intro keeps_intros)

lemma keeps_extract [keeps_intros]: "keeps (of_lane I) (extract_source X R c r)"
  unfolding extract_source_def by (intro keeps_intros)

lemma keeps_stage [keeps_intros]:
  "keeps (of_lane I) absent \<Longrightarrow> keeps (of_lane I) (stage_source X R c r absent)"
  unfolding stage_source_def by (intro keeps_intros)

lemma keeps_each_entry [keeps_intros]:
  "(\<And>n. keeps (of_lane I) (act n)) \<Longrightarrow> keeps (of_lane I) (each_entry X dir act)"
  unfolding each_entry_def by (intro keeps_intros)

subsection \<open>What a run does to the database\<close>

locale lane_law =
  fixes I :: "qa_db \<Rightarrow> bool"
  assumes kept_setting: "I s \<Longrightarrow> k \<noteq> ''preserve'' \<Longrightarrow> k \<noteq> pins_key \<Longrightarrow> I (lset k v s)"
    and kept_finish: "I s \<Longrightarrow> I (finish_run rid result completed path now s)"
    and kept_interrupt: "I s \<Longrightarrow> I (interrupt_run rid e now s)"
    and kept_attach: "I s \<Longrightarrow> I (attach_report rid path now s)"
begin

lemma cleanup_kept: "I s \<Longrightarrow> I (record_cleanup_error k d now s)" "I s \<Longrightarrow> I (clear_cleanup_error k s)"
  by (auto simp: record_cleanup_error_def clear_cleanup_error_def Let_def pins_key_def intro: kept_setting)

lemma keeps_note: "keeps (of_lane I) (note_failure X k d)"
  unfolding note_failure_def by (intro keeps_intros keeps_lput cleanup_kept)

lemma keeps_clear: "keeps (of_lane I) (lput (clear_cleanup_error k))"
  by (rule keeps_lput) (rule cleanup_kept)

lemma keeps_persist: "keeps (of_lane I) (persist_report X R c r result completed images results infra x)"
  unfolding persist_report_def
  by (intro keeps_intros keeps_lput) (simp_all add: kept_finish kept_attach)

lemma keeps_plain: "keeps (of_lane I) (plain_report X R c r result infra)"
  unfolding plain_report_def by (rule keeps_persist)

lemma keeps_blocked: "keeps (of_lane I) (blocked_report X R c r note_text k detail)"
  unfolding blocked_report_def by (intro keeps_intros keeps_plain)

lemma keeps_teardown: "keeps (of_lane I) (teardown_rig X R c rid)"
  unfolding teardown_rig_def listing_check_def remove_labeled_def
  by (intro keeps_intros keeps_note keeps_clear)

lemma keeps_preflight: "keeps (of_lane I) (preflight_blocked X R c r)"
  unfolding preflight_blocked_def by (intro keeps_intros keeps_blocked)

lemma keeps_failed: "keeps (of_lane I) (run_failed X R c r extras e)"
  unfolding run_failed_def by (intro keeps_intros keeps_persist keeps_lput kept_interrupt)

lemma keeps_assess_body: "keeps (of_lane I) (assess_body X R c r)"
  unfolding assess_body_def tear_down_into_def
  by (intro keeps_intros keeps_preflight keeps_blocked keeps_teardown keeps_persist)

lemma reported_key_other: "reported_key \<noteq> ''preserve''" "reported_key \<noteq> pins_key"
  by (simp_all add: reported_key_def pins_key_def)

lemma mark_kept: "I s \<Longrightarrow> I (mark_reported k fix tested rid result s)"
  unfolding mark_reported_def Let_def by (intro kept_setting reported_key_other)

lemma keeps_verify_blocked: "keeps (of_lane I) (verify_blocked X R c r item proof_doc detail mark)"
  unfolding verify_blocked_def by (intro keeps_intros keeps_persist keeps_lput mark_kept)

lemma keeps_verify_teardown: "keeps (of_lane I) (verify_teardown X R c rid)"
  unfolding verify_teardown_def by (intro keeps_intros)

lemma keeps_verify_body: "keeps (of_lane I) (verify_body X R c r item proof_doc)"
  unfolding verify_body_def verify_gates_def replay_case_def report_verdict_def Let_def
  by (intro keeps_intros keeps_verify_blocked keeps_verify_teardown keeps_persist keeps_lput mark_kept)

lemma keeps_verify_failed: "keeps (of_lane I) (verify_failed X R c r item proof_doc e)"
  unfolding verify_failed_def
  by (intro keeps_intros keeps_persist keeps_lput mark_kept kept_interrupt)

lemma ledger_kept: "I s \<Longrightarrow> I (record_ledger keep entry s)"
  unfolding record_ledger_def by (rule kept_setting) (simp_all add: ledger_key_def pins_key_def)

lemma keeps_session: "keeps (of_lane I) (explore_session X R c r deadline)"
  unfolding explore_session_def checkout_source_def copy_source_def run_agent_def collect_result_def add_infra_def
  by (intro keeps_intros keeps_lput ledger_kept)

lemma keeps_explore_body: "keeps (of_lane I) (explore_body X R c r deadline)"
  unfolding explore_body_def explore_source_def archive_source_def tear_down_into_def
  by (intro keeps_intros keeps_preflight keeps_session keeps_blocked keeps_teardown keeps_persist)

lemma keeps_reconcile: "keeps (of_lane I) (reconcile X R c)"
  unfolding reconcile_def close_dead_def write_interrupted_report_def reap_def sweep_ledger_def
  by (intro keeps_intros keeps_lput keeps_plain keeps_note keeps_clear kept_interrupt cleanup_kept
      fold_invariant [where P = I and Q = "\<lambda>_. True"]) simp_all

lemma keeps_ownership: "keeps (of_lane I) (ownership_block X)"
  unfolding ownership_block_def by (intro keeps_intros)

lemma keeps_set_blocked: "keeps (of_lane I) (set_blocked X blk)"
  unfolding set_blocked_def
  by (intro keeps_intros keeps_lput) (auto intro: kept_setting simp: pins_key_def)

lemma keeps_remove: "keeps (of_lane I) (remove_path X R path k)" "keeps (of_lane I) (docker_reclaim X args k what)"
  unfolding remove_path_def docker_reclaim_def reclaim_error_def
  by (intro keeps_intros keeps_note keeps_clear)+

lemma keeps_reclaim: "keeps (of_lane I) (reclaim X R c ok)"
  unfolding reclaim_def reclaim_sources_def reclaim_runs_def reclaim_reports_def reclaim_cargo_def
    reclaim_build_def reclaim_images_def reclaim_cache_def reclaim_error_def Let_def
  by (cases ok; simp only: append.simps if_True if_False)
    (intro keeps_intros keeps_remove keeps_note)+

lemma keeps_gate: "keeps (of_lane I) (egress_gate X R c)"
  unfolding egress_gate_def by (intro keeps_intros keeps_set_blocked)

end

subsection \<open>Running the programs of the lane\<close>

lemma lane_simps:
  "lread f ((s, m), w) = (Inr (f s), ((s, m), w))"
  "mem g ((s, m), w) = (Inr (g m), ((s, m), w))"
  "lput h ((s, m), w) = (Inr (), ((h s, m), w))"
  "set_mem k ((s, m), w) = (Inr (), ((s, k m), w))"
  "ltry t ((s, m), w) = (case t s of Inl e \<Rightarrow> (Inl e, ((s, m), w)) | Inr (s1, x) \<Rightarrow> (Inr x, ((s1, m), w)))"
  "timed X q ((s, m), w) = q (clock X w) ((s, m), w)"
  "see v ((s, m), w) = (Inr (v w), ((s, m), w))"
  by (auto simp: lread_def mem_def lput_def set_mem_def ltry_def timed_def get_def put_def see_def transact_def
      doing_def split: sum.split prod.split)

lemma run_maybe_retry:
  "maybe_retry X c now day ((s, m), w) =
     (case retry_due c s of
        None \<Rightarrow> (Inr (), ((s, m), w))
      | Some r \<Rightarrow>
          (case enqueue (new_run_id ''qa'' (clock X w) s) (u_sha r) now day (attempts_for (u_sha r) s + 1) s of
             Inl e \<Rightarrow> (Inl e, ((s, m), w)) | Inr (s1, x) \<Rightarrow> (Inr (), ((s1, m), w))))"
  by (auto simp: maybe_retry_def doing_def lane_simps split: option.split sum.split prod.split)

lemma run_queue_item:
  "queue_item_run X now item proof_doc target ((s, m), w) =
     (let rid = new_run_id ''qav'' (clock X w) s in
      case queue_dedicated rid target now (utc_day now) s of
        Inl e \<Rightarrow> (Inl e, ((s, m), w))
      | Inr (s1, x) \<Rightarrow>
          (let s2 = lset (spec_key rid) (spec_doc item proof_doc target) s1 in
           (Inr (lane_run rid s2), ((s2, m), w))))"
  by (auto simp: queue_item_run_def queue_verification_def doing_def and_then_def Let_def lane_simps
      split: sum.split prod.split)

lemma run_queue_exploration:
  "queue_exploration X now target ((s, m), w) =
     (let rid = new_run_id ''qax'' (clock X w) s in
      case queue_dedicated rid target now (utc_day now) s of
        Inl e \<Rightarrow> (Inl e, ((s, m), w)) | Inr (s1, x) \<Rightarrow> (Inr (lane_run rid s1), ((s1, m), w)))"
  by (auto simp: queue_exploration_def doing_def Let_def lane_simps split: sum.split prod.split)

subsection \<open>Starting a run\<close>

locale lane_begin = lane_law +
  assumes kept_begin: "I s \<Longrightarrow> I (begin_run rid pid now s)"
begin

lemma keeps_start: "(\<And>r. keeps (of_lane I) (f r)) \<Longrightarrow> keeps (of_lane I) (start_record X R rid f)"
  unfolding start_record_def by (intro keeps_intros keeps_lput kept_begin)

lemma keeps_run_due: "keeps (of_lane I) (run_due X R c found queued)"
  unfolding run_due_def verify_def assess_def explore_def
  by (intro keeps_intros keeps_start keeps_verify_body keeps_verify_failed keeps_verify_teardown
      keeps_assess_body keeps_failed keeps_teardown keeps_explore_body)

end

subsection \<open>Queueing\<close>

locale lane_queue = lane_law +
  fixes c :: lane_cfg
  assumes kept_retry: "I s \<Longrightarrow> retry_due c s = Some r \<Longrightarrow>
      enqueue (new_run_id ''qa'' t s) (u_sha r) now day (attempts_for (u_sha r) s + 1) s = Inr (s', x) \<Longrightarrow> I s'"
    and kept_dedicated: "I s \<Longrightarrow> kind = ''qav'' \<or> kind = ''qax'' \<Longrightarrow>
      queue_dedicated (new_run_id kind t s) sha now day s = Inr (s', x) \<Longrightarrow> I s'"
    and kept_sync: "I s \<Longrightarrow> I (sync_preserves items s)"
begin

lemma keeps_retry: "keeps (of_lane I) (maybe_retry X c now day)"
proof (rule keeps_laneI)
  fix s m w
  assume "I s"
  note step = kept_retry [OF this]
  show "I (fst (fst (snd (maybe_retry X c now day ((s, m), w)))))"
    using \<open>I s\<close> by (auto simp: run_maybe_retry dest: step split: option.split sum.split)
qed

lemma kept_spec: "I s \<Longrightarrow> I (lset (spec_key rid) v s)"
  by (rule kept_setting) (simp_all add: spec_key_def pins_key_def)

lemma keeps_queue_item: "keeps (of_lane I) (queue_item_run X now item proof_doc target)"
proof (rule keeps_laneI)
  fix s m w
  assume "I s"
  note step = kept_dedicated [OF this disjI1 [OF refl]]
  show "I (fst (fst (snd (queue_item_run X now item proof_doc target ((s, m), w)))))"
    using \<open>I s\<close> by (auto simp: run_queue_item Let_def dest: step intro: kept_spec split: sum.split)
qed

lemma keeps_queue_exploration: "keeps (of_lane I) (queue_exploration X now target)"
proof (rule keeps_laneI)
  fix s m w
  assume "I s"
  note step = kept_dedicated [OF this disjI2 [OF refl]]
  show "I (fst (fst (snd (queue_exploration X now target ((s, m), w)))))"
    using \<open>I s\<close> by (auto simp: run_queue_exploration Let_def dest: step split: sum.split)
qed

lemma keeps_next_item: "keeps (of_lane I) (next_item X cfg now target items)"
proof (induction items)
  case Nil
  show ?case unfolding next_item.simps by (rule keeps_intros)
next
  case (Cons item items)
  then show ?case unfolding next_item.simps by (intro keeps_intros keeps_queue_item)
qed

lemma keeps_next_run: "keeps (of_lane I) (next_run X cfg now)"
  unfolding next_run_def by (intro keeps_intros keeps_next_item)

lemma keeps_next_exploration: "keeps (of_lane I) (next_exploration X R cfg now)"
  unfolding next_exploration_def explore_target_def by (intro keeps_intros keeps_queue_exploration)

lemma keeps_sync: "keeps (of_lane I) (lput (sync_preserves items))"
  by (rule keeps_lput) (rule kept_sync)

end

locale lane_full = lane_queue + lane_begin
begin

lemma keeps_dispatch: "keeps (of_lane I) (dispatch_due X R c now day)"
  unfolding dispatch_due_def
  by (intro keeps_intros keeps_next_run keeps_next_exploration keeps_gate keeps_run_due)

lemma keeps_lane_cycle: "keeps (of_lane I) (lane_cycle X R c)"
  unfolding lane_cycle_def
  by (intro keeps_intros keeps_reconcile keeps_ownership keeps_sync keeps_reclaim keeps_retry keeps_set_blocked
      keeps_dispatch)

lemma keeps_cycle: "keeps (of_lane I) (cycle X R c)"
  unfolding cycle_def by (intro keeps_intros keeps_lane_cycle)

end

subsection \<open>The instances\<close>

definition lane_ok :: "lane_cfg \<Rightarrow> qa_db \<Rightarrow> bool" where
  "lane_ok c s \<longleftrightarrow> table_ok (lc_max_attempts c) s \<and> pins_ok s"

definition running_count :: "qa_db \<Rightarrow> nat" where
  "running_count s = length (filter (\<lambda>r. u_status r = Running) (lane_runs s))"

text \<open>A well-formed table with at most \<open>n\<close> runs executing.\<close>

definition lane_running :: "lane_cfg \<Rightarrow> nat \<Rightarrow> qa_db \<Rightarrow> bool" where
  "lane_running c n s \<longleftrightarrow> lane_ok c s \<and> running_count s \<le> n"

lemma pins_ok_setting: "pins_ok s \<Longrightarrow> k \<noteq> ''preserve'' \<Longrightarrow> k \<noteq> pins_key \<Longrightarrow> pins_ok (lset k v s)"
  by (auto simp: pins_ok_def own_pins_def pinned_def)

lemma pins_ok_frame:
  "lane_settings s' = lane_settings s \<Longrightarrow> pins_ok s' = pins_ok s"
  by (simp add: pins_ok_def own_pins_def pinned_def lget_def)

lemma settings_frame [simp]:
  "lane_settings (on_row rid f s) = lane_settings s"
  by (simp add: on_row_def)

lemma pins_ok_on_row [simp]: "pins_ok (on_row rid f s) = pins_ok s"
  by (rule pins_ok_frame) simp

lemma running_on_row:
  "(\<And>r. u_status (f r) \<noteq> Running \<or> u_status (f r) = u_status r) \<Longrightarrow> running_count (on_row rid f s) \<le> running_count s"
  unfolding running_count_def on_row_def
  by (simp, rule filter_update_row_le) metis

lemma lane_running_row:
  "lane_running c n s \<Longrightarrow> table_ok (lc_max_attempts c) (on_row rid f s) \<Longrightarrow>
   (\<And>r. u_status (f r) \<noteq> Running \<or> u_status (f r) = u_status r) \<Longrightarrow> lane_running c n (on_row rid f s)"
  using running_on_row [of f rid s] by (auto simp: lane_running_def lane_ok_def)

lemma running_begin:
  "distinct (map u_id (lane_runs s)) \<Longrightarrow> running_count (begin_run rid pid now s) \<le> Suc (running_count s)"
  unfolding running_count_def begin_run_def by (simp add: filter_update_row_Suc)

lemma running_queue:
  "insert_run r s = Inr s' \<Longrightarrow> u_status r = Queued \<Longrightarrow> running_count s' = running_count s"
  by (auto simp: insert_run_def running_count_def split: if_splits)

lemma running_supersede: "running_count (fold (supersede now) qs s) \<le> running_count s"
proof (induction qs arbitrary: s)
  case (Cons q qs)
  have "running_count (supersede now q s) \<le> running_count s"
    unfolding rows_by_id by (rule running_on_row) simp
  then show ?case using Cons.IH [of "supersede now q s"] by simp
qed simp

lemma running_enqueue: "enqueue rid sha now day n s = Inr (s', x) \<Longrightarrow> running_count s' \<le> running_count s"
  using running_supersede [of now "assessments [Queued] s" s]
  by (auto simp: enqueue_def Let_def res_bind_Inr_iff dest: running_queue split: option.splits)

lemma settings_queue:
  "insert_run r s = Inr s' \<Longrightarrow> lane_settings s' = lane_settings s"
  "lane_settings (fold (supersede now) qs s) = lane_settings s"
  by (auto simp: insert_run_def fold_supersede split: if_splits)

lemma pins_enqueue:
  "enqueue rid sha now day n s = Inr (s', x) \<Longrightarrow> pins_ok s' = pins_ok s"
  "queue_dedicated rid sha now day s = Inr (s', x) \<Longrightarrow> pins_ok s' = pins_ok s"
  by (rule pins_ok_frame; auto simp: enqueue_def queue_dedicated_def Let_def res_bind_Inr_iff settings_queue
      dest: settings_queue(1) split: option.splits)+

lemma table_dedicated_new:
  "table_ok limit s \<Longrightarrow> kind = ''qav'' \<or> kind = ''qax'' \<Longrightarrow>
   queue_dedicated (new_run_id kind t s) sha now day s = Inr (s', x) \<Longrightarrow> table_ok limit s'"
  using new_run_id_kind [of kind t s] table_ok_dedicated by metis

lemma table_retry:
  assumes "table_ok (lc_max_attempts c) s" and "retry_due c s = Some r"
    and "enqueue rid (u_sha r) now day (attempts_for (u_sha r) s + 1) s = Inr (s', x)"
  shows "table_ok (lc_max_attempts c) s'"
  using attempts_for_bounds [OF assms(1), of "u_sha r"] retry_due_bound [OF assms(2)]
  by (intro table_ok_enqueue [OF assms(1) _ _ assms(3)]) simp_all

lemma running_dedicated:
  "queue_dedicated rid sha now day s = Inr (s', x) \<Longrightarrow> running_count s' = running_count s"
  by (auto simp: queue_dedicated_def Let_def res_bind_Inr_iff dest: running_queue)

interpretation busy: lane_queue "lane_running c n" c for c n
proof unfold_locales
  fix s k v assume "lane_running c n s" "k \<noteq> ''preserve''" "k \<noteq> pins_key"
  then show "lane_running c n (lset k v s)"
    by (simp add: lane_running_def lane_ok_def table_ok_setting pins_ok_setting running_count_def)
next
  fix s rid result completed path now assume "lane_running c n s"
  from lane_running_row [OF this table_ok_writes(1) [unfolded rows_by_id]] this
  show "lane_running c n (finish_run rid result completed path now s)"
    by (simp add: rows_by_id lane_running_def lane_ok_def)
next
  fix s rid e now assume "lane_running c n s"
  from lane_running_row [OF this table_ok_writes(2) [unfolded rows_by_id]] this
  show "lane_running c n (interrupt_run rid e now s)"
    by (simp add: rows_by_id lane_running_def lane_ok_def)
next
  fix s rid path now assume "lane_running c n s"
  from lane_running_row [OF this table_ok_writes(3) [unfolded rows_by_id]] this
  show "lane_running c n (attach_report rid path now s)"
    by (simp add: rows_by_id lane_running_def lane_ok_def)
next
  fix s r t now day s' x
  assume "lane_running c n s" "retry_due c s = Some r"
    "enqueue (new_run_id ''qa'' t s) (u_sha r) now day (attempts_for (u_sha r) s + 1) s = Inr (s', x)"
  then show "lane_running c n s'"
    using table_retry [of c s r] running_enqueue pins_enqueue(1)
    unfolding lane_running_def lane_ok_def by (metis le_trans)
next
  fix s kind t sha now day s' x
  assume "lane_running c n s" "kind = ''qav'' \<or> kind = ''qax''"
    "queue_dedicated (new_run_id kind t s) sha now day s = Inr (s', x)"
  then show "lane_running c n s'"
    using table_dedicated_new [of "lc_max_attempts c" s kind] running_dedicated pins_enqueue(2)
    unfolding lane_running_def lane_ok_def by metis
next
  fix s items assume "lane_running c n s"
  then show "lane_running c n (sync_preserves items s)"
    by (auto simp: lane_running_def lane_ok_def pins_ok_sync table_ok_def queued_assessments_def running_count_def)
qed

lemma lane_ok_iff: "lane_ok c s \<longleftrightarrow> (\<exists>n. lane_running c n s)"
  by (auto simp: lane_running_def)

interpretation whole: lane_full "lane_ok c" c for c
proof unfold_locales
  fix s rid pid now assume "lane_ok c s"
  then show "lane_ok c (begin_run rid pid now s)"
    by (simp add: lane_ok_def table_ok_writes) (simp add: rows_by_id)
qed (unfold lane_ok_iff, (blast intro: busy.kept_setting busy.kept_finish busy.kept_interrupt busy.kept_attach
    busy.kept_sync dest: busy.kept_retry busy.kept_dedicated)+)

subsection \<open>One run at a time\<close>

text \<open>\<open>leads P Q m\<close>: from a state with \<open>P\<close>, however \<open>m\<close> ends, it ends in a state with \<open>Q\<close>.\<close>

definition leads :: "('s \<Rightarrow> bool) \<Rightarrow> ('s \<Rightarrow> bool) \<Rightarrow> ('s, 'a) prog \<Rightarrow> bool" where
  "leads P Q m \<longleftrightarrow> (\<forall>s. P s \<longrightarrow> Q (snd (m s)))"

lemma leads_keeps: "keeps Q m \<Longrightarrow> (\<And>s. P s \<Longrightarrow> Q s) \<Longrightarrow> leads P Q m"
  by (simp add: keeps_def leads_def)

lemma leads_doing_then:
  "leads P Q m \<Longrightarrow> (\<And>x. keeps Q (f x)) \<Longrightarrow> leads P Q (doing m f)"
  by (fastforce simp: keeps_def leads_def doing_def split: prod.split sum.split)

lemma leads_doing:
  assumes "keeps P m" and "\<And>s. P s \<Longrightarrow> Q s" and "\<And>x. leads P Q (f x)"
  shows "leads P Q (doing m f)"
  using assms unfolding leads_def keeps_def doing_def
  by (fastforce split: prod.split sum.split dest: spec)

lemma leads_and_then:
  "keeps P m \<Longrightarrow> (\<And>s. P s \<Longrightarrow> Q s) \<Longrightarrow> leads P Q n \<Longrightarrow> leads P Q (and_then m n)"
  "leads P Q m \<Longrightarrow> keeps Q n \<Longrightarrow> leads P Q (and_then m n)"
  by (simp_all add: and_then_def leads_doing leads_doing_then)

lemma leads_if: "leads P Q m \<Longrightarrow> leads P Q n \<Longrightarrow> leads P Q (if b then m else n)"
  by simp

lemma keeps_doing_after:
  assumes "keeps P m" and "\<And>s x s'. P s \<Longrightarrow> m s = (Inr x, s') \<Longrightarrow> P (snd (f x s'))"
  shows "keeps P (doing m f)"
  using assms unfolding keeps_def doing_def
  by (auto split: prod.split sum.split)

abbreviation idle :: "lane_cfg \<Rightarrow> 'w lane_st \<Rightarrow> bool" where
  "idle c \<equiv> of_lane (lane_running c 0)"

abbreviation one_run :: "lane_cfg \<Rightarrow> 'w lane_st \<Rightarrow> bool" where
  "one_run c \<equiv> of_lane (lane_running c 1)"

lemma idle_one: "idle c p \<Longrightarrow> one_run c p"
  by (auto simp: on_db_def lane_running_def)

lemma begin_one: "lane_running c 0 s \<Longrightarrow> lane_running c 1 (begin_run rid pid now s)"
  using running_begin [of s rid pid now] whole.kept_begin [of c s rid pid now]
  by (auto simp: lane_running_def lane_ok_def table_ok_def)

lemma leads_start:
  assumes "\<And>r. keeps (one_run c) (f r)"
  shows "leads (idle c) (one_run c) (start_record X R rid f)"
proof -
  have "leads (idle c) (one_run c) (timed X (\<lambda>now. lput (begin_run rid (rig_pid R) now)))"
    by (auto simp: leads_def on_db_def lane_simps begin_one [unfolded One_nat_def])
  then show ?thesis
    unfolding start_record_def steps.simps
    by (intro leads_and_then keeps_intros idle_one assms)
qed

lemma leads_nothing: "leads (idle c) (one_run c) (ret ())"
  by (rule leads_keeps, rule keeps_intros, erule idle_one)

lemma leads_run_due: "leads (idle c) (one_run c) (run_due X R c found queued)"
proof -
  have "leads (idle c) (one_run c) (verify X R c r)" "leads (idle c) (one_run c) (assess X R c r)"
    "leads (idle c) (one_run c) (explore X R c r)" for r
    unfolding verify_def assess_def explore_def
    by (rule leads_start; intro keeps_intros busy.keeps_verify_body busy.keeps_verify_failed
        busy.keeps_verify_teardown busy.keeps_assess_body busy.keeps_failed busy.keeps_teardown
        busy.keeps_explore_body)+
  then show ?thesis
    by (auto simp: run_due_def leads_nothing [unfolded One_nat_def] split: option.split)
qed

lemma leads_dispatch: "leads (idle c) (one_run c) (dispatch_due X R c now day)"
  unfolding dispatch_due_def only_if_def
  by (intro leads_doing leads_if leads_nothing leads_run_due keeps_intros busy.keeps_next_run
      busy.keeps_next_exploration busy.keeps_gate idle_one)

lemma sort_key_empty [simp]: "sort_key f xs = [] \<longleftrightarrow> xs = []"
  by (metis set_empty set_sort)

lemma ownership_idle:
  "ownership_block X ((s, m), w) = (Inr None, p) \<Longrightarrow> \<exists>w'. p = ((s, m), w') \<and> running_count s = 0"
  by (auto simp: ownership_block_def doing_def io_def lane_simps runs_in_def running_count_def Let_def
      filter_empty_conv
      split: if_splits prod.splits sum.splits)

lemma gives_blocked: "gives (\<lambda>b. b) (set_blocked X (Some blk))"
  unfolding set_blocked_def timed_def by (cases blk) (auto intro!: gives_intros)

lemma one_run_lane_cycle: "keeps (one_run c) (lane_cycle X R c)"
proof -
  define rest where "rest now blk =
     and_then (doing (io (load_queue X c)) (\<lambda>items. lput (sync_preserves items)))
     (and_then (reclaim X R c (blk = None))
     (timed X (\<lambda>clock_now. let day = utc_day clock_now in
        and_then (maybe_retry X c now day)
          (doing (set_blocked X blk) (\<lambda>blocked. if blocked then ret () else dispatch_due X R c now day)))))"
    for now blk
  have cycle: "lane_cycle X R c = timed X (\<lambda>now. and_then (reconcile X R c) (doing (ownership_block X) (rest now)))"
    by (simp only: lane_cycle_def rest_def [abs_def])
  have stops: "keeps (one_run c) (doing (set_blocked X (Some blk)) (\<lambda>blocked. if blocked then ret () else p))" for blk p
    by (rule keeps_doing_known [OF busy.keeps_set_blocked])
      (auto simp: keeps_basic dest: givesD [OF gives_blocked])
  have blocked: "keeps (one_run c) (rest now (Some blk))" for now blk
    unfolding rest_def Let_def
    by (intro stops keeps_intros busy.keeps_sync busy.keeps_reclaim busy.keeps_retry)
  have due: "leads (idle c) (one_run c) (and_then (maybe_retry X c now day)
      (doing (set_blocked X None) (\<lambda>blocked. if blocked then ret () else dispatch_due X R c now day)))" for now day
    by (rule leads_and_then(1) [OF busy.keeps_retry idle_one],
        assumption, rule leads_doing [OF busy.keeps_set_blocked idle_one], assumption,
        rule leads_if [OF leads_nothing leads_dispatch])
  have free: "leads (idle c) (one_run c) (rest now None)" for now
    unfolding rest_def Let_def timed_def
    by (rule leads_and_then(1) [OF _ idle_one], intro keeps_intros busy.keeps_sync, assumption,
        rule leads_and_then(1) [OF busy.keeps_reclaim idle_one], assumption,
        rule leads_doing [OF _ idle_one due], intro keeps_intros, assumption)
  have gated: "keeps (one_run c) (doing (ownership_block X) (rest now))" for now
  proof (rule keeps_doing_after [OF busy.keeps_ownership])
    fix p blk p'
    assume one: "one_run c p" and run: "ownership_block X p = (Inr blk, p')"
    show "one_run c (snd (rest now blk p'))"
    proof (cases blk)
      case None
      obtain s m w where p: "p = ((s, m), w)" by (metis prod.collapse)
      then obtain w' where "p' = ((s, m), w')" "running_count s = 0"
        using ownership_idle [OF run [unfolded None p]] by auto
      then have "idle c p'" using one p by (auto simp: on_db_def lane_running_def)
      then show ?thesis using free [of now, unfolded leads_def] None by blast
    next
      case (Some b)
      have "one_run c p'" using keepsD [OF busy.keeps_ownership one run] .
      then show ?thesis using blocked [of now b, unfolded keeps_def] Some by blast
    qed
  qed
  show ?thesis
    unfolding cycle by (rule keeps_timed, rule keeps_and_then [OF busy.keeps_reconcile gated])
qed

text \<open>
  C3: one pass of the lane's supervisor, whatever the host, Docker, git, the rig and the agent answer
  and wherever it raises, keeps the database well formed: run ids are unique, every row carries what
  its status promises, at most one assessment is queued, no row was tried more often than the
  configured limit, every retention pin the lane took is in place, and at most one run executes.
\<close>

theorem cycle_keeps_lane:
  assumes "lane_running c 1 s" and "cycle X R c ((s, m), w) = (r, ((s', m'), w'))"
  shows "lane_running c 1 s'"
proof -
  have "keeps (one_run c) (cycle X R c)"
    unfolding cycle_def by (intro keeps_intros one_run_lane_cycle)
  from keepsD [OF this _ assms(2)] assms(1) show ?thesis by (simp add: on_db_def)
qed

lemma sim_db_ok: "lane_running sim_cfg 1 sim_db"
  by (simp add: lane_running_def lane_ok_def table_ok_def queued_assessments_def running_count_def tries_ok_def
      sim_db_def sim_run_def pins_ok_def own_pins_def no_pins_def pins_def pinned_def lget_def jget_or_def jget_def
      sim_cfg_def)

theorem cycle_keeps_lane_witness:
  "lane_running sim_cfg 1 (fst (fst (snd (cycle sim_os sim_rig sim_cfg ((sim_db, no_mem), fresh_host)))))"
proof -
  obtain r s m w where "cycle sim_os sim_rig sim_cfg ((sim_db, no_mem), fresh_host) = (r, ((s, m), w))"
    by (metis prod.collapse)
  with cycle_keeps_lane [OF sim_db_ok this] show ?thesis by simp
qed

end
