(* ===== verification/QaCommands.thy ===== *)
theory QaCommands
  imports QaLaneInv
begin

text \<open>
  qa_lane/__main__.py: the operator's commands that write the lane's database, and what a sequence of
  dispatched revisions leaves in the queue.
\<close>

subsection \<open>Commands\<close>

definition enqueue_command :: "'w os \<Rightarrow> string \<Rightarrow> ('w lane_st, run_row) prog" where
  "enqueue_command X sha =
     (if \<not> is_sha sha then raise (OtherError ''enqueue expects a 40-hex revision'')
      else timed X (\<lambda>now. timed X (\<lambda>clock_now.
        doing (lread (new_run_id ''qa'' clock_now)) (\<lambda>rid. ltry (enqueue rid sha now (utc_day now) 1)))))"

definition preserve_command :: "string list \<Rightarrow> ('w lane_st, json list \<times> json list) prog" where
  "preserve_command rest =
     (case rest of
        [] \<Rightarrow> lread preserved
      | spec # flags \<Rightarrow>
          if CHR '':'' \<notin> set spec
          then raise (OtherError ''preserve expects run:<id> or sha:<sha> [on|off]'')
          else ltry (\<lambda>s. res_bind (set_preserve (takeWhile (\<lambda>x. x \<noteq> CHR '':'') spec)
                 (tl (dropWhile (\<lambda>x. x \<noteq> CHR '':'') spec)) (\<not> (flags \<noteq> [] \<and> hd flags = ''off'')) s)
               (\<lambda>s1. Inr (s1, preserved s1))))"

subsection \<open>Dispatching revisions\<close>

text \<open>What the command does to the database at one reading of the clock.\<close>

definition dispatch_sha :: "time \<times> string \<Rightarrow> qa_db \<Rightarrow> qa_db res" where
  "dispatch_sha = (\<lambda>(now, sha) s. map_sum id fst (enqueue (new_run_id ''qa'' now s) sha now (utc_day now) 1 s))"

lemma run_enqueue_command:
  assumes "is_sha sha"
  shows "snd (enqueue_command X sha ((s, m), w)) =
    ((case dispatch_sha (clock X w, sha) s of Inl e \<Rightarrow> s | Inr s1 \<Rightarrow> s1, m), w)"
  using assms
  by (auto simp: enqueue_command_def dispatch_sha_def doing_def lane_simps map_sum_def split: sum.split prod.split)

text \<open>The start of the range a queued run covers.\<close>

definition range_start :: "run_row \<Rightarrow> string" where
  "range_start q = (case nonempty (u_first q) of Some f \<Rightarrow> f | None \<Rightarrow> u_sha q)"

definition running_shas :: "qa_db \<Rightarrow> string set" where
  "running_shas s = u_sha ` {r \<in> set (lane_runs s). u_status r = Running \<and> is_kind ''qa'' r}"

lemma assessments_queued_one:
  assumes "table_ok limit s" and "r \<in> set (lane_runs s)" and "u_status r = Queued" and "is_kind ''qa'' r"
  shows "assessments [Queued] s = [r]"
proof -
  have "mset (assessments [Queued] s) = mset (queued_assessments s)"
    by (simp add: assessments_def runs_in_def queued_assessments_def filter_filter_mset)
  moreover have "r \<in> set (queued_assessments s)" using assms by (simp add: queued_assessments_def)
  then have "queued_assessments s = [r]"
    using assms(1) unfolding table_ok_def by (cases "queued_assessments s") auto
  ultimately show ?thesis by simp
qed

lemma running_shas_queue:
  "running_shas (s\<lparr>lane_runs := map (\<lambda>r. if u_id r \<in> A then superseded now r else r) (lane_runs s) @ [new_run rid sha now day n f]\<rparr>)
     = u_sha ` {r \<in> set (lane_runs s). u_status r = Running \<and> is_kind ''qa'' r \<and> u_id r \<notin> A}"
  by (auto simp: running_shas_def is_kind_def image_iff split: if_splits)

lemma find_member: "List.find P xs = Some x \<Longrightarrow> x \<in> set xs \<and> P x"
  by (induction xs) (auto split: if_splits)

text \<open>
  One dispatch, of a revision that is not executing: it never raises, and afterwards it is the only
  queued assessment, which covers what the one it replaces covered.
\<close>

lemma dispatch_once:
  assumes ok: "table_ok limit s" and idle_sha: "sha \<notin> running_shas s" and "sha \<noteq> []"
  shows "\<exists>s' r. dispatch_sha (now, sha) s = Inr s' \<and> table_ok limit s' \<and> running_shas s' = running_shas s
    \<and> assessments [Queued] s' = [r] \<and> u_sha r = sha
    \<and> (\<forall>q. assessments [Queued] s = [q] \<longrightarrow> u_sha q \<noteq> [] \<longrightarrow> range_start r = range_start q)
    \<and> (assessments [Queued] s = [] \<longrightarrow> u_first r = range_first sha s)"
proof (cases "List.find (\<lambda>r. is_kind ''qa'' r \<and> u_sha r = sha) (runs_in [Queued, Running] s)")
  case (Some r)
  then have r: "is_kind ''qa'' r" "u_sha r = sha" "r \<in> set (lane_runs s)" "u_status r \<in> {Queued, Running}"
    by (auto simp: runs_in_def dest!: find_member)
  then have "u_status r = Queued" using idle_sha by (auto simp: running_shas_def)
  then have "assessments [Queued] s = [r]" using assessments_queued_one [OF ok r(3) _ r(1)] by simp
  moreover have "dispatch_sha (now, sha) s = Inr s" using Some by (simp add: dispatch_sha_def enqueue_def)
  ultimately show ?thesis using ok r(2) by auto
next
  case None
  let ?rid = "new_run_id ''qa'' now s" and ?s1 = "fold (supersede now) (assessments [Queued] s) s"
  let ?new = "new_run ?rid sha now (utc_day now) 1 (range_first sha s)"
  define s' where "s' = ?s1\<lparr>lane_runs := lane_runs ?s1 @ [?new]\<rparr>"
  have "?rid \<notin> u_id ` set (lane_runs s)" using new_run_id_free by (simp add: lane_run_None)
  moreover have "map u_id (lane_runs ?s1) = map u_id (lane_runs s)"
    by (simp add: fold_supersede)
  then have "u_id ` set (lane_runs ?s1) = u_id ` set (lane_runs s)" by (metis list.set_map)
  ultimately have "?rid \<notin> u_id ` set (lane_runs ?s1)" by simp
  then have inserted: "insert_run ?new ?s1 = Inr s'" by (simp add: insert_run_def s'_def)
  then have entered: "enqueue ?rid sha now (utc_day now) 1 s = Inr (s', ?new)"
    using None by (simp add: enqueue_def Let_def)
  have ok': "table_ok limit s'" by (rule table_ok_enqueue [OF ok _ _ entered]) simp_all
  have new_one: "is_kind ''qa'' ?new"
    using new_run_id_kind [of "''qa''" now s] by (auto intro: run_id_kinds(3))
  have queue: "assessments [Queued] s' = [?new]"
    by (rule assessments_queued_one [OF ok' _ _ new_one]) (simp_all add: s'_def)
  have runs: "running_shas s' = running_shas s"
    using queued_by_id [OF ok] unfolding s'_def fold_supersede
    by (simp add: running_shas_queue) (auto simp: running_shas_def)
  have "range_start ?new = range_start q" if q: "assessments [Queued] s = [q]" "u_sha q \<noteq> []" for q
  proof -
    have "range_start q \<noteq> []" using q(2) by (auto simp: range_start_def nonempty_def split: option.splits)
    then show ?thesis using q(1) by (simp add: range_first_def range_start_def nonempty_def)
  qed
  then show ?thesis
    using entered ok' queue runs by (auto simp: dispatch_sha_def)
qed



text \<open>
  C39: a blocked assessment tested nothing, yet the next dispatch starts its range at the revision
  that was blocked: the revisions the blocked run was to cover before it are dropped, although the
  record is said to carry the oldest untested revision.
\<close>

theorem blocked_run_loses_range:
  assumes "table_ok limit s" and "assessments [Queued] s = []" and "sha \<noteq> []" and "sha \<notin> running_shas s"
    and b: "last_of (assessments [Finished, Interrupted] s) = Some b" "u_outcome b = Some ''blocked''"
      "u_completed b = None" "u_sha b \<noteq> []" "u_sha b \<noteq> sha"
  shows "\<exists>s' r. dispatch_sha (now, sha) s = Inr s' \<and> assessments [Queued] s' = [r] \<and> u_sha r = sha
    \<and> range_start r = u_sha b"
proof -
  obtain s' r where "dispatch_sha (now, sha) s = Inr s'" "assessments [Queued] s' = [r]" "u_sha r = sha"
    "u_first r = range_first sha s"
    using dispatch_once [OF assms(1,4,3), of now] assms(2) by auto
  moreover have "range_first sha s = Some (u_sha b)"
    using assms(2) b by (simp add: range_first_def nonempty_def)
  ultimately show ?thesis using b(4) by (auto simp: range_start_def nonempty_def)
qed

definition blocked_run :: run_row where
  "blocked_run = sim_run\<lparr>u_status := Finished, u_outcome := Some ''blocked'', u_finished := Some 50,
     u_report := Some ''report.json'', u_first := Some (replicate 40 CHR ''0'')\<rparr>"

theorem blocked_run_loses_range_witness:
  "range_start blocked_run = replicate 40 CHR ''0''
   \<and> (\<exists>s' r. dispatch_sha (60, replicate 40 CHR ''b'') (sim_db\<lparr>lane_runs := [blocked_run]\<rparr>) = Inr s'
        \<and> assessments [Queued] s' = [r] \<and> range_start r = sim_sha)"
proof -
  let ?s = "sim_db\<lparr>lane_runs := [blocked_run]\<rparr>"
  have b: "u_id blocked_run = ''qa-20260101-001''" "u_sha blocked_run = sim_sha" "u_status blocked_run = Finished"
    "u_outcome blocked_run = Some ''blocked''" "u_completed blocked_run = None" "u_attempt blocked_run = 1"
    "u_first blocked_run = Some (replicate 40 CHR ''0'')" "row_ok blocked_run"
    by (simp_all add: blocked_run_def sim_run_def new_run_def row_ok.simps)
  have one: "is_kind ''qa'' blocked_run" by (simp add: is_kind_def b starts_with_def)
  have "table_ok 2 ?s" using b by (simp add: table_ok_def queued_assessments_def tries_ok_def)
  moreover have "assessments [Queued] ?s = []" "running_shas ?s = {}"
    using b by (simp_all add: assessments_def runs_in_def running_shas_def)
  moreover have "last_of (assessments [Finished, Interrupted] ?s) = Some blocked_run"
    using b one by (simp add: assessments_def runs_in_def last_of_def)
  ultimately show ?thesis
    using blocked_run_loses_range [of 2 ?s "replicate 40 CHR ''b''" blocked_run 60] b
    by (auto simp: sim_sha_def range_start_def nonempty_def)
qed

end
