(* ===== verification/QaLaneProps.thy ===== *)
theory QaLaneProps
  imports QaCommands
begin

text \<open>
  What the verification lane promises: the evidence of a pending verification outlives the retention
  pass, a revision that does not contain the fix is never built, each queued run is owed a verdict; and
  two ways its bookkeeping goes wrong.
\<close>

subsection \<open>Evidence under retention\<close>

text \<open>No entry of the source directory and no image of the revision is removed.\<close>

definition source_kept :: "lane_cfg \<Rightarrow> qa_db \<Rightarrow> string \<Rightarrow> bool" where
  "source_kept c s sha \<longleftrightarrow> (\<forall>n. sha_of_entry n = sha \<longrightarrow> \<not> drops_source c s n)
     \<and> (\<forall>img iid sz. \<not> drops_image c s (img, sha, iid, sz))"

lemma pinned_source_kept: "JStr sha \<in> set (pinned ''shas'' s) \<Longrightarrow> source_kept c s sha"
  by (auto simp: source_kept_def drops_source_def drops_image_def keep_shas_def)

lemma pinned_run_kept: "JStr rid \<in> set (pinned ''runs'' s) \<Longrightarrow> \<not> drops_run c s rid"
  by (simp add: drops_run_def keep_run_def keep_first_def)

lemma wanted_after_sync:
  fixes items s
  defines "want \<equiv> wanted_pins (uniq (map (\<lambda>i. jget_or i ''finding_key'' JNull) items)) s"
  assumes "pins_ok s"
  shows "JStr ` set (fst want) \<subseteq> set (pinned ''runs'' (sync_preserves items s))"
    and "JStr ` set (snd want) \<subseteq> set (pinned ''shas'' (sync_preserves items s))"
  using assms(2) unfolding pinned_sync want_def pins_ok_def by (simp_all add: wanted_pinned)

text \<open>
  C11: in the state the retention pass works on, which is the one the pins of the pending
  verifications were synchronised to, nothing of a verification run of a pending finding is removed:
  not its run directory, not the archive, the tree or the images of the revision it tested, nor those
  of the revision the next verification would test.
\<close>

theorem pending_evidence_kept:
  assumes "lane_ok c s" and "item \<in> set items" and "k = jget_or item ''finding_key'' JNull"
  shows "lane_ok c (sync_preserves items s)
    \<and> (\<forall>r \<in> set (lane_runs s). is_kind ''qav'' r \<and> jget_or (spec_item (u_id r) s) ''finding_key'' JNull = k \<longrightarrow>
          \<not> drops_run c (sync_preserves items s) (u_id r)
          \<and> (u_sha r \<noteq> [] \<longrightarrow> source_kept c (sync_preserves items s) (u_sha r)))
    \<and> (\<forall>t. target_sha s = Some t \<and> t \<noteq> [] \<longrightarrow> source_kept c (sync_preserves items s) t)"
proof -
  define keys where "keys = uniq (map (\<lambda>i. jget_or i ''finding_key'' JNull) items)"
  have "k \<in> set keys" using assms(2,3) by (auto simp: keys_def)
  then have k: "k \<in> set keys" "keys \<noteq> []" by auto
  have "pins_ok s" using assms(1) by (simp add: lane_ok_def)
  note pinned = wanted_after_sync [OF this, of items, folded keys_def]
  have run: "u_id r \<in> set (fst (wanted_pins keys s))" "u_sha r \<noteq> [] \<Longrightarrow> u_sha r \<in> set (snd (wanted_pins keys s))"
    if "r \<in> set (lane_runs s)" "is_kind ''qav'' r" "jget_or (spec_item (u_id r) s) ''finding_key'' JNull = k" for r
    using that k by (auto simp: wanted_pins_def Let_def pending_runs_def all_runs_def)
  have target: "t \<in> set (snd (wanted_pins keys s))" if "target_sha s = Some t" "t \<noteq> []" for t
    using that k by (simp add: wanted_pins_def Let_def)
  have kept: "\<not> drops_run c (sync_preserves items s) (u_id r)
      \<and> (u_sha r \<noteq> [] \<longrightarrow> source_kept c (sync_preserves items s) (u_sha r))"
    if "r \<in> set (lane_runs s)" "is_kind ''qav'' r" "jget_or (spec_item (u_id r) s) ''finding_key'' JNull = k" for r
    using run [OF that] pinned by (simp add: pinned_source_kept pinned_run_kept image_subset_iff)
  have "source_kept c (sync_preserves items s) t" if "target_sha s = Some t" "t \<noteq> []" for t
    using target [OF that] pinned(2) by (simp add: pinned_source_kept image_subset_iff)
  then show ?thesis using whole.kept_sync [OF assms(1)] kept by simp
qed

text \<open>
  A revision the operator had pinned by hand, and that a pending verification also wants, has
  lost its pin once the verification is no longer pending, although manual pins are said never to be
  touched.
\<close>

lemma manual_pin_released:
  assumes "JStr sha \<in> set (pinned ''shas'' s)" and "items \<noteq> []" and "target_sha s = Some sha" and "sha \<noteq> []"
  shows "JStr sha \<notin> set (pinned ''shas'' (sync_preserves [] (sync_preserves items s)))"
proof -
  have "uniq (map (\<lambda>i. jget_or i ''finding_key'' JNull) items) \<noteq> []"
    using assms(2) by (cases items) auto
  then have "sha \<in> set (own_pins ''shas'' (sync_preserves items s))"
    using assms(3,4) by (simp add: pinned_sync wanted_pins_def Let_def)
  moreover have "snd (wanted_pins [] t) = []" for t
    by (simp add: wanted_pins_def Let_def pending_runs_def)
  ultimately show ?thesis
    by (simp add: pinned_sync(2) [of "[]"])
qed

subsection \<open>No build without the fix\<close>

text \<open>The host with another build, start, wait and replay.\<close>

definition other_rig ::
  "(string \<Rightarrow> string \<Rightarrow> ('w, json) prog) \<Rightarrow> (run_row \<Rightarrow> string \<Rightarrow> ('w, unit) prog) \<Rightarrow> ('w, bool) prog
    \<Rightarrow> (string \<Rightarrow> run_row \<Rightarrow> ('w, json) prog) \<Rightarrow> 'w rig \<Rightarrow> 'w rig" where
  "other_rig b st wt rp R = R\<lparr>rig_build := b, rig_start := st, rig_wait := wt, rig_replay := rp\<rparr>"

lemma other_rig_fields [simp]:
  "rig_pid (other_rig b st wt rp R) = rig_pid R" "rig_os_name (other_rig b st wt rp R) = rig_os_name R"
  "rig_iso (other_rig b st wt rp R) = rig_iso R" "rig_copy (other_rig b st wt rp R) = rig_copy R"
  "rig_append (other_rig b st wt rp R) = rig_append R"
  by (simp_all add: other_rig_def)

lemma other_rig_timeline [simp]:
  "timeline X (other_rig b st wt rp R) dir e d = timeline X R dir e d"
  by (simp add: timeline_def)

lemma other_rig_persist [simp]:
  "persist_report X (other_rig b st wt rp R) c r result completed images results infra x
     = persist_report X R c r result completed images results infra x"
  by (simp add: persist_report_def report_doc_def)

lemma other_rig_verify [simp]:
  "verify_blocked X (other_rig b st wt rp R) c r item proof_doc d mark = verify_blocked X R c r item proof_doc d mark"
  "verify_failed X (other_rig b st wt rp R) c r item proof_doc e = verify_failed X R c r item proof_doc e"
  "verify_teardown X (other_rig b st wt rp R) c rid = verify_teardown X R c rid"
  by (simp_all add: verify_blocked_def verify_failed_def verify_teardown_def cong: if_cong)

lemma other_rig_failed [simp]:
  "verify_failed X (other_rig b st wt rp R) c r item proof_doc = verify_failed X R c r item proof_doc"
  by (rule ext) simp

lemma doing_and_then: "doing (and_then m (ret y)) f = and_then m (f y)"
  by (simp add: and_then_def doing_assoc)

lemma verify_body_blocked:
  assumes "jget_or proof_doc ''contained'' JNull \<noteq> JBool True"
  shows "verify_body X R c r item proof_doc =
    and_then (verify_blocked X R c r item proof_doc (containment_detail item proof_doc (u_sha r))
      (if jget_or proof_doc ''contained'' JNull = JBool False then ''not-contained'' else ''inconclusive'')) (ret ())"
  using assms by (simp add: verify_body_def verify_gates_def Let_def doing_and_then only_if_def)

lemma run_start_record:
  "start_record X R rid f ((s, m), w) =
     (let s1 = begin_run rid (rig_pid R) (clock X w) s in
      case lane_run rid s1 of
        None \<Rightarrow> (Inl (TypeError ''NoneType object is not subscriptable''), ((s1, no_mem), w))
      | Some r \<Rightarrow> f r ((s1, no_mem), w))"
  by (simp add: start_record_def and_then_def doing_def lane_simps Let_def split: option.split prod.split sum.split)

lemma lane_run_id: "lane_run rid s = Some r \<Longrightarrow> u_id r = rid"
  unfolding lane_run_def by (auto dest: find_row_Some)

lemma spec_begin [simp]:
  "spec_of rid (begin_run rid' pid now s) = spec_of rid s"
  "spec_item rid (begin_run rid' pid now s) = spec_item rid s"
  by (simp_all add: spec_of_def spec_item_def begin_run_def lget_def)

text \<open>
  C12: a verification run whose recorded ancestry proof does not say that the tested revision
  contains the fix never builds, starts or replays anything: it behaves the same whatever building,
  starting, waiting for and replaying on the rig would do.
\<close>

theorem verify_needs_containment:
  assumes "jget_or (or_empty (jget_or (QaVerify.spec_of (u_id q) s) ''ancestry'' JNull)) ''contained'' JNull \<noteq> JBool True"
  shows "verify X (other_rig b st wt rp R) c q ((s, m), w) = verify X R c q ((s, m), w)"
proof -
  have same: "verify_body X (other_rig b st wt rp R) c r item proof_doc = verify_body X R c r item proof_doc"
    if "jget_or proof_doc ''contained'' JNull \<noteq> JBool True" for r item proof_doc
    using that by (simp add: verify_body_blocked)
  show ?thesis
    using assms
    by (auto simp: verify_def run_start_record Let_def doing_def lane_simps same dest!: lane_run_id
        split: option.split)
qed

subsection \<open>Which run is queued\<close>

lemma queue_fresh:
  "rid \<notin> u_id ` set (lane_runs s) \<Longrightarrow> queue_dedicated rid sha now day s =
     Inr (s\<lparr>lane_runs := lane_runs s @ [new_run rid sha now day 1 None]\<rparr>, new_run rid sha now day 1 None)"
  by (simp add: queue_dedicated_def insert_run_def Let_def)

text \<open>The state after a verification of the item was queued, and its row.\<close>

definition queued_row :: "time \<Rightarrow> string \<Rightarrow> string \<Rightarrow> run_row" where
  "queued_row now rid target = new_run rid target now (utc_day now) 1 None"

definition queued_state :: "time \<Rightarrow> string \<Rightarrow> json \<Rightarrow> json \<Rightarrow> string \<Rightarrow> qa_db \<Rightarrow> qa_db" where
  "queued_state now rid item proof_doc target s =
     lset (spec_key rid) (spec_doc item proof_doc target)
       (s\<lparr>lane_runs := lane_runs s @ [queued_row now rid target]\<rparr>)"

lemma queue_item_result:
  "queue_item_run X now item proof_doc target ((s, m), w) =
    (let rid = new_run_id ''qav'' (clock X w) s in
     (Inr (Some (queued_row now rid target)), ((queued_state now rid item proof_doc target s, m), w)))"
proof -
  let ?rid = "new_run_id ''qav'' (clock X w) s"
  have fresh: "?rid \<notin> u_id ` set (lane_runs s)"
    using new_run_id_free [of "''qav''"] by (simp add: lane_run_None)
  then have "find_row u_id ?rid (lane_runs s) = None" by (simp add: find_row_None_iff)
  then show ?thesis
    by (simp add: run_queue_item Let_def queue_fresh [OF fresh] queued_state_def queued_row_def
        lane_run_def find_row_append)
qed

lemma queued_state_simps [simp]:
  "lane_runs (queued_state now rid item proof_doc target s) = lane_runs s @ [queued_row now rid target]"
  "u_id (queued_row now rid target) = rid" "u_sha (queued_row now rid target) = target"
  "u_status (queued_row now rid target) = Queued"
  by (simp_all add: queued_state_def queued_row_def)

lemma spec_key_inj [simp]: "spec_key a = spec_key b \<longleftrightarrow> a = b"
  by (simp add: spec_key_def)

lemma queued_state_spec:
  assumes "truthy item"
  shows "spec_item rid (queued_state now rid item proof_doc target s) = item"
    and "QaVerify.spec_of rid (queued_state now rid item proof_doc target s) = spec_doc item proof_doc target"
    and "rid' \<noteq> rid \<Longrightarrow> spec_item rid' (queued_state now rid item proof_doc target s) = spec_item rid' s"
  using assms
  by (simp_all add: spec_item_def spec_of_def queued_state_def spec_doc_def or_empty_def jget_or_def jget_def lget_def
      lset_def update_conv)

lemma ancestry_contained [simp]:
  "jget_or (ancestry checked proven detail) ''contained'' JNull = proven"
  by (simp add: ancestry_def jget_or_def jget_def)

lemma gives_ancestry:
  "gives (\<lambda>j. jget_or j ''contained'' JNull \<in> {JNull, JBool True, JBool False}) (fix_ancestry X dir fix tested)"
  unfolding fix_ancestry_def by (intro gives_intros) simp_all

lemma io_result: "io p ((s, m), w) = (r, st) \<Longrightarrow> \<exists>w'. p w = (r, w') \<and> st = ((s, m), w')"
  by (auto simp: io_def split: prod.splits)

lemma next_item_queued:
  assumes "next_item X c now target items ((s, m), w) = (Inr (Some r), st)"
  shows "\<exists>item \<in> set items. \<exists>proof_doc rid w'. jget_or item ''replay'' JNull \<noteq> JStr ''agent''
    \<and> \<not> settled c s item target \<and> jget_or proof_doc ''contained'' JNull \<in> {JBool True, JBool False}
    \<and> rid \<notin> u_id ` set (lane_runs s) \<and> is_kind ''qav'' (queued_row now rid target)
    \<and> r = queued_row now rid target \<and> st = ((queued_state now rid item proof_doc target s, m), w')"
  using assms
proof (induction items arbitrary: w)
  case (Cons item items)
  show ?case
  proof (cases "jget_or item ''replay'' JNull = JStr ''agent'' \<or> settled c s item target")
    case True
    then show ?thesis using Cons by (auto simp: doing_def lane_simps)
  next
    case False
    then obtain proof_doc w1 where proved:
      "fix_ancestry X (lc_git_dir c) (fstr ''fix_sha'' item) target w = (Inr proof_doc, w1)"
      and rest: "(if jget_or proof_doc ''contained'' JNull = JNull then next_item X c now target items
         else queue_item_run X now item proof_doc target) ((s, m), w1) = (Inr (Some r), st)"
      using Cons.prems by (auto simp: doing_def lane_simps io_def split: prod.splits sum.splits)
    have doc: "jget_or proof_doc ''contained'' JNull \<in> {JNull, JBool True, JBool False}"
      using givesD [OF gives_ancestry proved] .
    show ?thesis
    proof (cases "jget_or proof_doc ''contained'' JNull = JNull")
      case True
      then show ?thesis using rest Cons.IH by auto
    next
      case known: False
      let ?rid = "new_run_id ''qav'' (clock X w1) s"
      have "?rid \<notin> u_id ` set (lane_runs s)" using new_run_id_free [of "''qav''"] by (simp add: lane_run_None)
      moreover have "r = queued_row now ?rid target" "st = ((queued_state now ?rid item proof_doc target s, m), w1)"
        using rest known by (auto simp: queue_item_result Let_def)
      moreover have "is_kind ''qav'' (queued_row now ?rid target)"
        using new_run_id_kind [of "''qav''"] by (metis queued_state_simps(2) run_id_kinds(3))
      ultimately show ?thesis
        using known False doc
        by (intro bexI [of _ item] exI [of _ proof_doc] exI [of _ ?rid] exI [of _ w1]) auto
    qed
  qed
qed simp

lemma queue_items_truthy:
  assumes "item \<in> set (queue_items t)"
  shows "truthy item"
proof -
  have "check_item_shape item = None"
    using assms by (auto simp: queue_items_def split: option.splits if_splits)
  then have "is_obj item" "missing_fields [''finding_key'', ''case'', ''fix_sha''] item = []"
    by (simp_all add: check_item_shape_def Let_def first_exn_None_iff)
  then show ?thesis by (cases item) (auto simp: missing_fields_def jget_def filter_empty_conv)
qed

lemma load_queue_frame: "\<exists>items. load_queue X c w = (Inr items, w) \<and> (\<forall>item \<in> set items. truthy item)
    \<or> (\<exists>e. load_queue X c w = (Inl e, w))"
  by (auto simp: load_queue_def except_if_def doing_def look_def queue_items_truthy split: sum.split prod.split)

lemma next_run_queued:
  assumes "next_run X c now ((s, m), w) = (Inr (Some r), st)"
  shows "\<exists>items target. load_queue X c w = (Inr items, w) \<and> target_sha s = Some target \<and> target \<noteq> []
    \<and> source_staged X c target w \<and> next_item X c now target items ((s, m), w) = (Inr (Some r), st)"
  using assms load_queue_frame [of X c w]
  by (auto simp: next_run_def doing_def io_def lane_simps split: if_splits option.splits prod.splits sum.splits)

text \<open>
  C23: the run the verification lane dispatches is always a new queued record, for an item of the
  queue that is not left to the exploratory agent, whose verdict on the target revision is still owed
  and for which git answered whether the target contains the fix; the record's specification is that
  item with that answer, and no other row changes.
\<close>

theorem next_run_owed:
  assumes "next_run X c now ((s, m), w) = (Inr (Some r), ((s', m'), w'))"
  shows "\<exists>items item target. fst (load_queue X c w) = Inr items \<and> item \<in> set items \<and> target_sha s = Some target
    \<and> jget_or item ''replay'' JNull \<noteq> JStr ''agent'' \<and> \<not> settled c s item target
    \<and> u_id r \<notin> u_id ` set (lane_runs s) \<and> is_kind ''qav'' r \<and> u_status r = Queued \<and> u_sha r = target
    \<and> lane_runs s' = lane_runs s @ [r] \<and> spec_item (u_id r) s' = item
    \<and> jget_or (jget_or (QaVerify.spec_of (u_id r) s') ''ancestry'' JNull) ''contained'' JNull \<in> {JBool True, JBool False}"
proof -
  obtain items target where q: "load_queue X c w = (Inr items, w)" "target_sha s = Some target"
    "next_item X c now target items ((s, m), w) = (Inr (Some r), ((s', m'), w'))"
    using next_run_queued [OF assms] by blast
  obtain item proof_doc rid where i: "item \<in> set items" "jget_or item ''replay'' JNull \<noteq> JStr ''agent''"
    "\<not> settled c s item target" "jget_or proof_doc ''contained'' JNull \<in> {JBool True, JBool False}"
    "rid \<notin> u_id ` set (lane_runs s)" "is_kind ''qav'' (queued_row now rid target)"
    "r = queued_row now rid target" "s' = queued_state now rid item proof_doc target s"
    using next_item_queued [OF q(3)] by auto
  have item: "truthy item" using load_queue_frame [of X c w] q(1) i(1) by auto
  have "jget_or (spec_doc item proof_doc target) ''ancestry'' JNull = proof_doc"
    by (simp add: spec_doc_def jget_or_def jget_def)
  then show ?thesis
    using q i by (intro exI [of _ items] exI [of _ item] exI [of _ target]) (simp add: queued_state_spec [OF item])
qed

lemma queued_kept:
  assumes "r \<in> set (lane_runs s)" and "u_status r = Queued"
  shows "\<not> drops_run c s (u_id r)" and "source_kept c s (u_sha r)"
  using assms
  by (auto simp: drops_run_def keep_run_def keep_first_def all_runs_def source_kept_def drops_source_def
      drops_image_def keep_shas_def active_shas_def runs_in_def)

subsection \<open>Records a failed gate leaves behind\<close>

fun again :: "nat \<Rightarrow> ('s, unit) prog \<Rightarrow> ('s, unit) prog" where
  "again 0 p = ret ()"
| "again (Suc n) p = and_then p (again n p)"

text \<open>
  A host whose queue holds one item, whose archive of the target is staged, whose git answers, and on
  which rules of the egress policy stay missing.
\<close>

definition stuck_host :: "'w os \<Rightarrow> 'w rig \<Rightarrow> lane_cfg \<Rightarrow> json \<Rightarrow> string \<Rightarrow> bool" where
  "stuck_host X R c item target \<longleftrightarrow> lc_egress c
     \<and> (\<forall>w. \<exists>t. read_text X (slash (lc_state_dir c) ''verifications.json'') w = Inr t \<and> queue_items t = [item])
     \<and> (\<forall>w. source_staged X c target w)
     \<and> (\<forall>w. \<exists>p w'. fix_ancestry X (lc_git_dir c) (fstr ''fix_sha'' item) target w = (Inr p, w')
          \<and> jget_or p ''contained'' JNull \<noteq> JNull)
     \<and> (\<forall>w. \<exists>ms w'. ensure_egress X R w = (Inr ms, w') \<and> ms \<noteq> [])"

lemma assessments_append:
  "\<not> is_kind ''qa'' r \<Longrightarrow> assessments sts (s\<lparr>lane_runs := lane_runs s @ [r]\<rparr>) = assessments sts s"
  by (simp add: assessments_def runs_in_def filter_sort)

lemma target_assessments:
  "target_sha s = (case last_of (assessments [Queued] s) of
     Some r \<Rightarrow> Some (u_sha r)
   | None \<Rightarrow> map_option u_sha (last_of (filter (\<lambda>r. u_outcome r \<noteq> Some ''blocked'')
       (assessments [Queued, Running, Finished, Interrupted] s))))"
  by (simp add: target_sha_def next_queued_def last_attempted_sha_def assessments_def split: option.split)

lemma assessments_lset [simp]: "assessments sts (lset k v s) = assessments sts s"
  by (simp add: assessments_def runs_in_def)

lemma target_lset [simp]: "target_sha (lset k v s) = target_sha s"
  unfolding target_assessments assessments_lset ..

lemma stranded_state:
  fixes now rid item proof_doc target s b
  defines "s1 \<equiv> lset ''blocked'' b (queued_state now rid item proof_doc target s)"
  assumes "is_kind ''qav'' (queued_row now rid target)"
  shows "target_sha s1 = target_sha s" and "settled c s1 item target = settled c s item target"
    and "lane_runs s1 = lane_runs s @ [queued_row now rid target]"
    and "truthy item \<Longrightarrow> spec_item rid s1 = item"
    and "rid' \<noteq> rid \<Longrightarrow> spec_item rid' s1 = spec_item rid' s"
proof -
  have "\<not> is_kind ''qa'' (queued_row now rid target)"
    using assms(2) by (auto simp: is_kind_def starts_with_def prefix_def)
  then have same: "assessments sts s1 = assessments sts s" for sts
    by (simp add: s1_def queued_state_def assessments_append)
  show "target_sha s1 = target_sha s" unfolding target_assessments same ..
  show "settled c s1 item target = settled c s item target"
    by (simp add: s1_def settled_def reported_def queued_state_def reported_key_def spec_key_def lget_def lset_def
        update_conv)
  show "lane_runs s1 = lane_runs s @ [queued_row now rid target]" by (simp add: s1_def)
  have "spec_item x s1 = spec_item x (queued_state now rid item proof_doc target s)" for x
    by (simp add: s1_def spec_item_def spec_of_def spec_key_def)
  then show "truthy item \<Longrightarrow> spec_item rid s1 = item" "rid' \<noteq> rid \<Longrightarrow> spec_item rid' s1 = spec_item rid' s"
    by (simp_all add: queued_state_spec) (simp add: queued_state_def spec_item_def spec_of_def lget_def lset_def update_conv)
qed

lemma stuck_next:
  assumes "stuck_host X R c item target" and "target_sha s = Some target" and "target \<noteq> []"
    and "jget_or item ''replay'' JNull \<noteq> JStr ''agent''" and "\<not> settled c s item target"
  shows "\<exists>rid proof_doc w'. next_run X c now ((s, m), w) =
      (Inr (Some (queued_row now rid target)), ((queued_state now rid item proof_doc target s, m), w'))
    \<and> rid \<notin> u_id ` set (lane_runs s) \<and> is_kind ''qav'' (queued_row now rid target)"
proof -
  obtain t p w1 where h: "read_text X (slash (lc_state_dir c) ''verifications.json'') w = Inr t"
    "queue_items t = [item]" "source_staged X c target w"
    "fix_ancestry X (lc_git_dir c) (fstr ''fix_sha'' item) target w = (Inr p, w1)"
    "jget_or p ''contained'' JNull \<noteq> JNull"
    using assms(1) unfolding stuck_host_def by blast
  let ?rid = "new_run_id ''qav'' (clock X w1) s"
  have "load_queue X c w = (Inr [item], w)"
    using h by (simp add: load_queue_def except_if_def doing_def look_def)
  then have "next_run X c now ((s, m), w) =
      (Inr (Some (queued_row now ?rid target)), ((queued_state now ?rid item p target s, m), w1))"
    using h assms(2-5) by (simp add: next_run_def doing_def io_def lane_simps queue_item_result Let_def)
  moreover have "?rid \<notin> u_id ` set (lane_runs s)"
    using new_run_id_free [of "''qav''"] by (simp add: lane_run_None)
  moreover have "is_kind ''qav'' (queued_row now ?rid target)"
    using new_run_id_kind [of "''qav''"] by (metis queued_state_simps(2) run_id_kinds(3))
  ultimately show ?thesis by blast
qed

lemma stuck_pass:
  assumes "stuck_host X R c item target" and "target_sha s = Some target" and "target \<noteq> []"
    and "jget_or item ''replay'' JNull \<noteq> JStr ''agent''" and "\<not> settled c s item target"
  shows "\<exists>rid proof_doc b w'. dispatch_due X R c now day ((s, m), w) =
      (Inr (), ((lset ''blocked'' b (queued_state now rid item proof_doc target s), m), w'))
    \<and> rid \<notin> u_id ` set (lane_runs s) \<and> is_kind ''qav'' (queued_row now rid target)"
proof -
  obtain rid p w1 where found: "next_run X c now ((s, m), w) =
      (Inr (Some (queued_row now rid target)), ((queued_state now rid item p target s, m), w1))"
    and rid: "rid \<notin> u_id ` set (lane_runs s)" "is_kind ''qav'' (queued_row now rid target)"
    using stuck_next [OF assms] by blast
  obtain ms w2 where gate: "lc_egress c" "ensure_egress X R w1 = (Inr ms, w2)" "ms \<noteq> []"
    using assms(1) unfolding stuck_host_def by blast
  obtain b where "egress_gate X R c ((queued_state now rid item p target s, m), w1) =
      (Inr False, ((lset ''blocked'' b (queued_state now rid item p target s), m), w2))"
    using gate by (simp add: egress_gate_def doing_def and_then_def io_def set_blocked_def lane_simps)
  then have "dispatch_due X R c now day ((s, m), w) =
      (Inr (), ((lset ''blocked'' b (queued_state now rid item p target s), m), w2))"
    using found by (simp add: dispatch_due_def doing_def lane_simps only_if_def)
  then show ?thesis using rid by blast
qed

text \<open>What any number of passes leaves; rows and specifications that were there are not touched.\<close>

lemma stuck_passes:
  assumes "stuck_host X R c item target" and "target_sha s = Some target" and "target \<noteq> []"
    and "jget_or item ''replay'' JNull \<noteq> JStr ''agent''" and "\<not> settled c s item target"
  shows "\<exists>s' w' new. again n (dispatch_due X R c now day) ((s, m), w) = (Inr (), ((s', m), w'))
    \<and> lane_runs s' = lane_runs s @ new \<and> length new = n \<and> distinct (map u_id new)
    \<and> u_id ` set new \<inter> u_id ` set (lane_runs s) = {}
    \<and> (\<forall>r \<in> set new. u_status r = Queued \<and> is_kind ''qav'' r \<and> u_sha r = target \<and> spec_item (u_id r) s' = item)
    \<and> (\<forall>rid \<in> u_id ` set (lane_runs s). spec_item rid s' = spec_item rid s)"
  using assms(2,5)
proof (induction n arbitrary: s w)
  case 0
  show ?case by (intro exI [of _ s] exI [of _ w] exI [of _ "[]"]) (simp add: lane_simps)
next
  case (Suc n)
  obtain rid proof_doc b w1 where pass: "dispatch_due X R c now day ((s, m), w) =
      (Inr (), ((lset ''blocked'' b (queued_state now rid item proof_doc target s), m), w1))"
    and fresh: "rid \<notin> u_id ` set (lane_runs s)" and qav: "is_kind ''qav'' (queued_row now rid target)"
    using stuck_pass [OF assms(1) Suc.prems(1) assms(3,4) Suc.prems(2)] by blast
  define s1 where "s1 = lset ''blocked'' b (queued_state now rid item proof_doc target s)"
  note st = stranded_state [OF qav, where b = b and item = item and proof_doc = proof_doc and s = s, folded s1_def]
  obtain t where "queue_items t = [item]" using assms(1) unfolding stuck_host_def by blast
  then have item: "truthy item" using queue_items_truthy [of item t] by simp
  have "target_sha s1 = Some target" "\<not> settled c s1 item target"
    using Suc.prems st(1,2) by simp_all
  from Suc.IH [OF this, of w1] obtain s' w' new where
    rest: "again n (dispatch_due X R c now day) ((s1, m), w1) = (Inr (), ((s', m), w'))"
    and rows: "lane_runs s' = lane_runs s1 @ new" "length new = n" "distinct (map u_id new)"
      "u_id ` set new \<inter> u_id ` set (lane_runs s1) = {}"
    and new: "\<forall>r \<in> set new. u_status r = Queued \<and> is_kind ''qav'' r \<and> u_sha r = target \<and> spec_item (u_id r) s' = item"
    and specs: "\<forall>x \<in> u_id ` set (lane_runs s1). spec_item x s' = spec_item x s1"
    by blast
  have first: "spec_item rid s' = item" using specs st(3,4) item by simp
  have old: "spec_item x s' = spec_item x s" if "x \<in> u_id ` set (lane_runs s)" for x
  proof -
    have "x \<noteq> rid" using that fresh by auto
    then show ?thesis using specs st(3) that st(5) [of x] by auto
  qed
  show ?case
  proof (intro exI [of _ s'] exI [of _ w'] exI [of _ "queued_row now rid target # new"] conjI)
    show "again (Suc n) (dispatch_due X R c now day) ((s, m), w) = (Inr (), ((s', m), w'))"
      using pass rest by (simp add: s1_def lane_simps and_then_def doing_def)
  qed (use rows new old first qav fresh st(3) in auto)
qed

text \<open>
  C38: while the firewall rules cannot be put in place, every pass of the lane queues one more record
  for the same verification and leaves it behind: after n passes n distinct queued runs of the same
  item on the same revision are stored, none of which the retention pass ever removes, nor the sources
  of that revision.
\<close>

theorem failed_gate_strands_runs:
  assumes "stuck_host X R c item target" and "target_sha s = Some target" and "target \<noteq> []"
    and "jget_or item ''replay'' JNull \<noteq> JStr ''agent''" and "\<not> settled c s item target"
  shows "\<exists>s' w' new. again n (dispatch_due X R c now day) ((s, m), w) = (Inr (), ((s', m), w'))
    \<and> lane_runs s' = lane_runs s @ new \<and> length new = n \<and> distinct (map u_id new)
    \<and> (\<forall>r \<in> set new. u_status r = Queued \<and> is_kind ''qav'' r \<and> spec_item (u_id r) s' = item
         \<and> \<not> drops_run c s' (u_id r) \<and> source_kept c s' target)"
proof -
  obtain s' w' new where run: "again n (dispatch_due X R c now day) ((s, m), w) = (Inr (), ((s', m), w'))"
    "lane_runs s' = lane_runs s @ new" "length new = n" "distinct (map u_id new)"
    and new: "\<forall>r \<in> set new. u_status r = Queued \<and> is_kind ''qav'' r \<and> u_sha r = target \<and> spec_item (u_id r) s' = item"
    using stuck_passes [OF assms] by metis
  have "\<not> drops_run c s' (u_id r) \<and> source_kept c s' target" if "r \<in> set new" for r
    using new that run(2) queued_kept [of r s' c] by auto
  then show ?thesis using run new by metis
qed

subsection \<open>A host with one pending verification\<close>

text \<open>
  The queue names one finding, git answers every question with exit code 0, the source archive of every
  revision is there, and the firewall's program cannot be run.
\<close>

definition pending_item :: json where
  "pending_item = JObj [(''finding_key'', JStr ''pump-trip''), (''case'', JStr ''dispatch''), (''fix_sha'', JStr sim_sha)]"

definition pending_doc :: json where
  "pending_doc = JObj [(''schema'', JStr queue_schema), (''items'', JList [pending_item])]"

definition pending_os :: "unit os" where
  "pending_os = \<lparr>clock = (\<lambda>_. 0),
     exec = (\<lambda>_ args w. if args \<noteq> [] \<and> hd args = ''git'' then (sim_exit True, w) else (Inl (RuntimeError ''iptables''), w)),
     popen = (\<lambda>_ w. (Inr 1, w)), kill = (\<lambda>_ _ w. (Inr (), w)), exists_path = (\<lambda>_ _. True),
     is_file = (\<lambda>_ _. True), is_dir = (\<lambda>_ _. True), resolve = (\<lambda>p _. p), listdir = (\<lambda>_ _. Inr []),
     read_text = (\<lambda>_ _. Inr (dumps (\<lambda>_. []) pending_doc)), write_text = (\<lambda>_ _ w. (Inr (), w)),
     mkdir = (\<lambda>_ w. (Inr (), w)), rename = (\<lambda>_ _ w. (Inr (), w)), sleep = (\<lambda>_ w. (Inr (), w)),
     uuid_hex = (\<lambda>w. (Inr [], w)), jitter = (\<lambda>_ _. 0), float_text = (\<lambda>_. []), session_row = (\<lambda>_ _. None)\<rparr>"

lemma pending_queue: "queue_items (dumps (\<lambda>_. []) pending_doc) = [pending_item]"
proof -
  have "plain pending_doc" by code_simp
  moreover have "check_item_shape pending_item = None" by code_simp
  ultimately show ?thesis
    by (simp add: queue_items_def loads_dumps) (simp add: pending_doc_def jget_or_def jget_def)
qed

lemma pending_ancestry:
  "fix_ancestry pending_os dir fix target w =
     (Inr (ancestry True (JBool True) (take 12 fix @ '' is an ancestor of '' @ take 12 target)), w)"
  by (simp add: fix_ancestry_def doing_def ask_def git_mirror_def pending_os_def sim_exit_def)

lemma pending_stuck: "stuck_host pending_os sim_rig sim_cfg pending_item target"
proof -
  obtain ck cks where checks: "fw_checks = (''iptables'', ck) # cks"
    by (simp add: fw_checks_def fw_tools_def)
  have "fw_check True pending_os (''iptables'', ck) [] w = (Inl (RuntimeError ''iptables''), w)" for w
    by (simp add: fw_check_def fw_run_def fw_cmd_def pending_os_def doing_def split: prod.split)
  then have "fw_verify True pending_os w = (Inl (RuntimeError ''iptables''), w)" for w
    unfolding fw_verify_def checks fold_prog.simps doing_def by simp
  then have "\<exists>ms. ensure_egress pending_os sim_rig w = (Inr ms, w) \<and> ms \<noteq> []" for w
    by (auto simp: ensure_egress_def try_else_def egress_failed_def sim_rig_def)
  then show ?thesis
    unfolding stuck_host_def pending_ancestry
    by (auto simp: pending_queue) (auto simp: pending_os_def sim_cfg_def source_staged_def pending_queue)
qed

lemma pending_db:
  "target_sha sim_db = Some sim_sha" "sim_sha \<noteq> []" "\<not> settled sim_cfg sim_db pending_item sim_sha"
  "jget_or pending_item ''replay'' JNull \<noteq> JStr ''agent''"
proof -
  have "assessments [Queued] sim_db = [sim_run]"
    by (simp add: assessments_def runs_in_def sim_db_def sim_run_def is_kind_def starts_with_def)
  then show "target_sha sim_db = Some sim_sha"
    by (simp add: target_assessments last_of_def sim_run_def new_run_def)
qed (simp_all add: sim_sha_def settled_def reported_def lget_def sim_db_def pending_item_def jget_or_def jget_def)

theorem next_run_owed_witness:
  "\<exists>r s'. next_run pending_os sim_cfg 60 ((sim_db, no_mem), ()) = (Inr (Some r), ((s', no_mem), ()))
     \<and> u_sha r = sim_sha \<and> u_id r \<noteq> u_id sim_run \<and> spec_item (u_id r) s' = pending_item"
proof -
  obtain r s' where ran: "next_run pending_os sim_cfg 60 ((sim_db, no_mem), ()) = (Inr (Some r), ((s', no_mem), ()))"
    using stuck_next [OF pending_stuck pending_db(1,2,4,3), of 60 no_mem "()"] by auto
  have "load_queue pending_os sim_cfg () = (Inr [pending_item], ())"
    by (simp add: load_queue_def except_if_def doing_def look_def) (simp add: pending_os_def pending_queue)
  then show ?thesis
    using next_run_owed [OF ran] ran pending_db(1) by (auto simp: sim_db_def)
qed

theorem failed_gate_strands_runs_witness:
  "\<exists>s' new. fst (snd (again 3 (dispatch_due pending_os sim_rig sim_cfg 60 ''2026-01-01'') ((sim_db, no_mem), ()))) = (s', no_mem)
     \<and> lane_runs s' = sim_run # new \<and> length new = 3 \<and> distinct (map u_id new)
     \<and> (\<forall>r \<in> set new. u_status r = Queued \<and> spec_item (u_id r) s' = pending_item)"
  using failed_gate_strands_runs [OF pending_stuck pending_db(1,2,4,3), of 3 60 "''2026-01-01''" no_mem "()"]
  by (fastforce simp: sim_db_def)

theorem verify_needs_containment_witness:
  "verify sim_os (other_rig (\<lambda>_ _ w. (Inl (RuntimeError ''build''), w)) (\<lambda>_ _. sim_done) (\<lambda>w. (Inr False, w))
       (\<lambda>_ _ w. (Inl (RuntimeError ''replay''), w)) sim_rig) sim_cfg sim_run ((sim_db, no_mem), fresh_host)
     = verify sim_os sim_rig sim_cfg sim_run ((sim_db, no_mem), fresh_host)"
  by (rule verify_needs_containment)
    (simp add: QaVerify.spec_of_def lget_def sim_db_def or_empty_def jget_or_def jget_def)

text \<open>A verification run that waits, its finding still in the queue; and a revision pinned by hand.\<close>

definition pending_run :: run_row where
  "pending_run = new_run ''qav-20260101-001'' sim_sha 10 ''2026-01-01'' 1 None"

definition pending_state :: qa_db where
  "pending_state = \<lparr>lane_settings = [(spec_key ''qav-20260101-001'', spec_doc pending_item JNull sim_sha)],
     lane_runs = [sim_run, pending_run]\<rparr>"

theorem pending_evidence_kept_witness:
  "\<not> drops_run sim_cfg (sync_preserves [pending_item] pending_state) ''qav-20260101-001''
   \<and> source_kept sim_cfg (sync_preserves [pending_item] pending_state) sim_sha"
proof -
  have kinds: "is_kind ''qav'' pending_run" "\<not> is_kind ''qa'' pending_run" "u_id pending_run = ''qav-20260101-001''"
    "u_sha pending_run = sim_sha" "row_ok pending_run" "row_ok sim_run" "u_attempt sim_run = 1" "u_attempt pending_run = 1" "u_id sim_run = ''qa-20260101-001''"
    by (simp_all add: is_kind_def starts_with_def prefix_def pending_run_def sim_run_def new_run_def row_ok.simps)
  then have "table_ok (lc_max_attempts sim_cfg) pending_state"
    by (simp add: table_ok_def queued_assessments_def pending_state_def tries_ok_def sim_cfg_def)
  moreover have "pins_ok pending_state"
    by (simp add: pins_ok_def own_pins_def no_pins_def pins_def pending_state_def lget_def pins_key_def spec_key_def
        jget_or_def jget_def)
  ultimately have "QaLaneInv.lane_ok sim_cfg pending_state" by (simp add: QaLaneInv.lane_ok_def)
  moreover have "spec_item ''qav-20260101-001'' pending_state = pending_item"
    by (simp add: spec_item_def QaVerify.spec_of_def pending_state_def lget_def spec_doc_def or_empty_def jget_or_def
        jget_def pending_item_def)
  moreover have "pending_run \<in> set (lane_runs pending_state)" by (simp add: pending_state_def)
  ultimately show ?thesis
    using pending_evidence_kept [of sim_cfg pending_state pending_item "[pending_item]"
        "jget_or pending_item ''finding_key'' JNull"] pending_db(2) kinds by auto
qed

end
