(* ===== verification/QaRevision.thy ===== *)
theory QaRevision
  imports FindingsLane
begin

text \<open>
  qa_lane/revision.py: the recipe that turns the run's mounted plant model into the revised document a
  promoted peer rolls in, the structural check of a derived document, and the deliberately incompatible
  variant. A model document is the decoded JSON; a \<open>RevisionError\<close> is a \<open>ValueError\<close>. Parameter: \<open>show\<close>,
  Python's \<open>str\<close> of a value. The texts of errors that print a whole element end before it.
\<close>

subsection \<open>Python's sets of JSON values\<close>

definition unhashable :: "json \<Rightarrow> bool" where
  "unhashable j \<longleftrightarrow> is_list j \<or> is_obj j"

definition in_set :: "json \<Rightarrow> json list \<Rightarrow> bool" where
  "in_set j xs \<longleftrightarrow> list_ex (py_eq j) xs"

definition hash_error :: exn where "hash_error = TypeError ''unhashable type''"

text \<open>\<open>{e.get(k) for e in xs if isinstance(e, dict)}\<close>\<close>

definition field_set :: "string \<Rightarrow> json list \<Rightarrow> json list res" where
  "field_set k xs =
     (let vs = map (\<lambda>e. jget_or e k JNull) (filter is_obj xs) in
      if list_ex unhashable vs then Inl hash_error else Inr vs)"

text \<open>\<open>for e in j\<close>\<close>

definition elements :: "json \<Rightarrow> json list res" where
  "elements j =
     (case j of
        JList xs \<Rightarrow> Inr xs
      | JStr t \<Rightarrow> Inr (map (\<lambda>ch. JStr [ch]) t)
      | JObj kvs \<Rightarrow> Inr (map (\<lambda>kv. JStr (fst kv)) kvs)
      | _ \<Rightarrow> Inl (TypeError ''not iterable''))"

text \<open>The problems of a list of elements, in order; the first exception decides.\<close>

fun gather :: "('a \<Rightarrow> 'b list res) \<Rightarrow> 'a list \<Rightarrow> 'b list res" where
  "gather f [] = Inr []"
| "gather f (x # xs) = res_bind (f x) (\<lambda>ys. res_bind (gather f xs) (\<lambda>zs. Inr (ys @ zs)))"

subsection \<open>The check of a derived document\<close>

definition value_kinds :: "string list" where "value_kinds = [''bool'', ''int'', ''float'']"

definition model_sections :: "string list" where
  "model_sections = [''version'', ''devices'', ''io_points'', ''signals'', ''components'', ''connections'']"

definition element_id :: "json \<Rightarrow> json" where
  "element_id e = (if is_obj e then jget_or e ''id'' JNull else JNull)"

fun duplicates :: "(json \<Rightarrow> string) \<Rightarrow> string \<Rightarrow> json list \<Rightarrow> json list \<Rightarrow> string list res" where
  "duplicates show collection seen [] = Inr []"
| "duplicates show collection seen (e # es) =
     (let eid = element_id e in
      if unhashable eid then Inl hash_error
      else res_bind (duplicates show collection (eid # seen) es) (\<lambda>ps.
        Inr ((if in_set eid seen then [''duplicate '' @ collection @ '' id '' @ show eid] else []) @ ps)))"

definition has_field :: "json \<Rightarrow> string \<Rightarrow> bool" where
  "has_field j k \<longleftrightarrow> jget j k \<noteq> None"

definition lint_initial :: "(json \<Rightarrow> string) \<Rightarrow> json \<Rightarrow> string list" where
  "lint_initial show p =
     (let initial = jget_or p ''initial'' JNull; what = ''internal io point '' @ show (jget_or p ''id'' JNull) in
      if has_field p ''channel'' then []
      else if \<not> is_obj initial \<or> length (fields_of initial) \<noteq> 1 then [what @ '' declares no initial value'']
      else let kind = fst (hd (fields_of initial)) in
        if JStr kind \<noteq> jget_or p ''value_type'' JNull
        then [what @ '' initial kind '' @ kind @ '' mismatches value_type '' @ show (jget_or p ''value_type'' JNull)]
        else [])"

definition lint_point :: "(json \<Rightarrow> string) \<Rightarrow> json \<Rightarrow> string list" where
  "lint_point show p =
     (if \<not> is_obj p then [''io_points entry is not an object'']
      else let f = (\<lambda>k. jget_or p k JNull); what = ''io point '' @ show (f ''id'') in
        lint_initial show p
        @ (if truthy (f ''writable'') \<and> f ''direction'' = JStr ''out''
           then [what @ '' declares writable on an out point''] else [])
        @ (if truthy (f ''journaled'') \<and> f ''value_type'' = JStr ''float''
           then [what @ '' declares journaled on a float point''] else []))"

definition lint_signal :: "(json \<Rightarrow> string) \<Rightarrow> json list \<Rightarrow> json \<Rightarrow> string list res" where
  "lint_signal show ids s =
     (if \<not> is_obj s then Inr [''signals entry is not an object'']
      else let source = jget_or s ''source'' JNull in
        if unhashable source then Inl hash_error
        else if in_set source ids then Inr []
        else Inr [''signal '' @ show (jget_or s ''id'' JNull) @ '' sources unknown io point '' @ show source])"

definition section_of :: "json \<Rightarrow> string \<Rightarrow> json list res" where
  "section_of doc k = elements (jget_or doc k JNull)"

definition lint :: "(json \<Rightarrow> string) \<Rightarrow> json \<Rightarrow> string list res" where
  "lint show doc =
     (if \<not> is_obj doc \<or> \<not> set model_sections \<subseteq> keys_of doc
      then Inr [''document lacks a required top-level section'']
      else
        res_bind (gather (\<lambda>k. res_bind (section_of doc k) (duplicates show k []))
          [''devices'', ''io_points'', ''signals'', ''components'']) (\<lambda>doubled.
        res_bind (section_of doc ''io_points'') (\<lambda>points.
        res_bind (field_set ''id'' points) (\<lambda>ids.
        res_bind (section_of doc ''signals'') (\<lambda>signals.
        res_bind (gather (lint_signal show ids) signals) (\<lambda>unsourced.
          Inr (doubled @ concat (map (lint_point show) points) @ unsourced)))))))"

definition linted :: "(json \<Rightarrow> string) \<Rightarrow> string \<Rightarrow> json \<Rightarrow> json res" where
  "linted show what doc =
     res_bind (lint show doc) (\<lambda>problems.
       if problems \<noteq> [] then Inl (ValueError (what @ '' fails validation: '' @ join ''; '' (take 5 problems)))
       else Inr doc)"

subsection \<open>The recipe\<close>

definition recipe_keys :: "string list" where
  "recipe_keys = [''description'', ''add_io_points'', ''add_signals'']"

definition point_keys :: "string list" where
  "point_keys = [''id'', ''direction'', ''value_type'', ''channel'', ''initial'', ''writable'', ''journaled'',
     ''stale_after_ticks'']"

definition signal_keys :: "string list" where
  "signal_keys = [''id'', ''name'', ''source'', ''unit'', ''description'', ''group'']"

definition value_ok :: "string \<Rightarrow> json \<Rightarrow> bool" where
  "value_ok kind v \<longleftrightarrow>
     kind = ''bool'' \<and> type_is_bool v \<or> kind = ''int'' \<and> type_is_int v
     \<or> kind = ''float'' \<and> (case v of JInt i \<Rightarrow> True | JFloat x \<Rightarrow> True | _ \<Rightarrow> False)"

text \<open>An object with exactly the field of its kind, which holds a value of that kind.\<close>

definition initial_checks :: "string \<Rightarrow> string \<Rightarrow> json \<Rightarrow> check list" where
  "initial_checks what kind initial =
     [ensure (is_obj initial \<and> keys_of initial = {kind})
        (ValueError (what @ '' must declare exactly one {'' @ kind @ '': ...} initial value'')),
      ensure (value_ok kind (jget_or initial kind JNull)) (ValueError (what @ '' initial value is not a '' @ kind))]"

definition positive_id :: "json \<Rightarrow> bool" where
  "positive_id j \<longleftrightarrow> type_is_int j \<and> 0 < int_of j"

definition check_point :: "(json \<Rightarrow> string) \<Rightarrow> json \<Rightarrow> json list \<Rightarrow> check" where
  "check_point show p ids =
     (let f = (\<lambda>k. jget_or p k JNull); what = ''recipe io_point '' @ show (f ''id'') in first_exn
       ([ensure (only_fields p point_keys) (ValueError ''recipe io_point must be an object with io_point fields only''),
         ensure (positive_id (f ''id'')) (ValueError ''recipe io_point id must be a positive integer''),
         ensure (\<not> in_set (f ''id'') ids) (ValueError (what @ '' collides with the mounted model'')),
         ensure (\<not> has_field p ''channel'')
           (ValueError (what @ '' binds a channel - the recipe may only add internal points'')),
         ensure (str_in (f ''direction'') [''in'', ''out'']) (ValueError (what @ '' direction must be in|out'')),
         ensure (str_in (f ''value_type'') value_kinds) (ValueError (what @ '' value_type must be bool|int|float''))]
        @ initial_checks what (str_of (f ''value_type'')) (f ''initial'')
        @ [ensure (\<not> (truthy (f ''writable'') \<and> f ''direction'' \<noteq> JStr ''in''))
             (ValueError (what @ '' declares writable on a non-in point'')),
           ensure (\<not> (truthy (f ''journaled'') \<and> f ''value_type'' = JStr ''float''))
             (ValueError (what @ '' declares journaled on a float point'')),
           ensure (\<not> has_field p ''stale_after_ticks'')
             (ValueError (what @ '' declares stale_after_ticks - the freshness budget only exists on field inputs''))]))"

definition check_signal :: "(json \<Rightarrow> string) \<Rightarrow> json \<Rightarrow> json list \<Rightarrow> json list \<Rightarrow> json list \<Rightarrow> check" where
  "check_signal show s ids names point_ids =
     (let f = (\<lambda>k. jget_or s k JNull); what = ''recipe signal '' @ show (f ''id'') in first_exn
       [ensure (only_fields s signal_keys) (ValueError ''recipe signal must be an object with signal fields only''),
        ensure (positive_id (f ''id'')) (ValueError ''recipe signal id must be a positive integer''),
        ensure (\<not> in_set (f ''id'') ids) (ValueError (what @ '' collides with the mounted model'')),
        ensure (is_str (f ''name'') \<and> \<not> blank (fstr ''name'' s)) (ValueError (what @ '' must declare a non-empty name'')),
        ensure (\<not> in_set (f ''name'') names) (ValueError ''recipe signal name collides with the mounted model''),
        ensure (\<not> unhashable (f ''source'')) hash_error,
        ensure (in_set (f ''source'') point_ids) (ValueError (what @ '' sources unknown io point '' @ show (f ''source''))),
        check_all (\<lambda>k. ensure (has_field s k \<longrightarrow> is_str (f k)) (ValueError (what @ '' '' @ k @ '' must be a string'')))
          [''unit'', ''description'', ''group'']])"

text \<open>The loops over the recipe; the first returns the ids of the points, the added ones included.\<close>

fun add_points :: "(json \<Rightarrow> string) \<Rightarrow> json list \<Rightarrow> json list \<Rightarrow> json list res" where
  "add_points show [] ids = Inr ids"
| "add_points show (p # ps) ids =
     (case check_point show p ids of
        Some e \<Rightarrow> Inl e
      | None \<Rightarrow> add_points show ps (ids @ [jget_or p ''id'' JNull]))"

fun add_signals :: "(json \<Rightarrow> string) \<Rightarrow> json list \<Rightarrow> json list \<Rightarrow> json list \<Rightarrow> json list \<Rightarrow> unit res" where
  "add_signals show [] ids names point_ids = Inr ()"
| "add_signals show (s # ss) ids names point_ids =
     (case check_signal show s ids names point_ids of
        Some e \<Rightarrow> Inl e
      | None \<Rightarrow> add_signals show ss (ids @ [jget_or s ''id'' JNull]) (names @ [jget_or s ''name'' JNull]) point_ids)"

definition extend_section :: "string \<Rightarrow> json list \<Rightarrow> json \<Rightarrow> json" where
  "extend_section k new doc = jset k (JList (items_of (jget_or doc k JNull) @ new)) doc"

text \<open>The recipe is an object, as its loader makes sure.\<close>

definition derive :: "(json \<Rightarrow> string) \<Rightarrow> json \<Rightarrow> json \<Rightarrow> json res" where
  "derive show doc recipe =
     (let points = jget_or doc ''io_points'' JNull; signals = jget_or doc ''signals'' JNull in
      if \<not> is_obj doc then Inl (ValueError ''the mounted model is not a JSON object'')
      else if \<not> is_list points \<or> \<not> is_list signals
      then Inl (ValueError ''the mounted model lacks io_points/signals lists'')
      else
        res_bind (field_set ''id'' (items_of points)) (\<lambda>point_ids.
        res_bind (field_set ''id'' (items_of signals)) (\<lambda>signal_ids.
        res_bind (field_set ''name'' (items_of signals)) (\<lambda>names.
        res_bind (elements (jget_or recipe ''add_io_points'' (JList []))) (\<lambda>new_points.
        res_bind (add_points show new_points point_ids) (\<lambda>all_ids.
        res_bind (elements (jget_or recipe ''add_signals'' (JList []))) (\<lambda>new_signals.
        res_bind (add_signals show new_signals signal_ids names all_ids) (\<lambda>_.
          linted show ''the derived document''
            (extend_section ''signals'' new_signals (extend_section ''io_points'' new_points doc))))))))))"

subsection \<open>The incompatible variant\<close>

definition retype_keys :: "string list" where
  "retype_keys = [''id'', ''value_type'', ''initial'', ''rewire_to'']"

text \<open>The position of the last object with the id, which is the one the loop leaves in its variable.\<close>

definition last_with_id :: "json \<Rightarrow> json list \<Rightarrow> nat option" where
  "last_with_id k xs =
     (let hits = filter (\<lambda>i. is_obj (xs ! i) \<and> py_eq (jget_or (xs ! i) ''id'' JNull) k) [0..<length xs] in
      if hits = [] then None else Some (last hits))"

definition at_position :: "json list \<Rightarrow> nat option \<Rightarrow> json" where
  "at_position xs i = (case i of None \<Rightarrow> JNull | Some n \<Rightarrow> xs ! n)"

text \<open>One end of a connection: its point is replaced when it is the retyped one.\<close>

definition names_point :: "json \<Rightarrow> json \<Rightarrow> string \<Rightarrow> bool" where
  "names_point pid c e \<longleftrightarrow>
     is_obj c \<and> is_obj (jget_or c e JNull) \<and> py_eq (jget_or (jget_or c e JNull) ''point'' JNull) pid"

definition rewire_end :: "json \<Rightarrow> json \<Rightarrow> string \<Rightarrow> json \<Rightarrow> json" where
  "rewire_end pid rewire_to e c =
     (if names_point pid c e then jset e (jset ''point'' rewire_to (jget_or c e JNull)) c else c)"

definition rewire :: "json \<Rightarrow> json \<Rightarrow> json \<Rightarrow> json" where
  "rewire pid rewire_to c = rewire_end pid rewire_to ''to'' (rewire_end pid rewire_to ''from'' c)"

definition rewired_ends :: "json \<Rightarrow> json list \<Rightarrow> nat" where
  "rewired_ends pid cs = length (filter (\<lambda>(c, e). names_point pid c e) (List.product cs [''from'', ''to'']))"

definition retype_point :: "json \<Rightarrow> json \<Rightarrow> json \<Rightarrow> json" where
  "retype_point kind initial p = jset ''initial'' initial (jset ''value_type'' kind p)"

definition retype_checks :: "string \<Rightarrow> (json \<Rightarrow> string) \<Rightarrow> json \<Rightarrow> json list \<Rightarrow> check" where
  "retype_checks what show spec points =
     (let f = (\<lambda>k. jget_or spec k JNull); target = at_position points (last_with_id (f ''id'') points);
          other = at_position points (last_with_id (f ''rewire_to'') points); get = (\<lambda>p k. jget_or p k JNull)
      in first_exn
       ([ensure (str_in (f ''value_type'') value_kinds) (ValueError (what @ '': value_type must be bool|int|float''))]
        @ initial_checks what (str_of (f ''value_type'')) (f ''initial'')
        @ [ensure (last_with_id (f ''id'') points \<noteq> None)
             (ValueError (''incompatible retype names unknown io point '' @ show (f ''id''))),
           ensure (\<not> has_field target ''channel'' \<and> get target ''direction'' = JStr ''in'' \<and> truthy (get target ''writable''))
             (ValueError (what @ '' must name a writable internal in point - the carried set'')),
           ensure (get target ''value_type'' \<noteq> f ''value_type'')
             (ValueError (what @ '' declares its current value_type - nothing is retyped'')),
           ensure (last_with_id (f ''rewire_to'') points \<noteq> None)
             (ValueError (what @ '' rewire_to names unknown io point '' @ show (f ''rewire_to''))),
           ensure (py_eq (get other ''value_type'') (get target ''value_type'')
               \<and> py_eq (get other ''direction'') (get target ''direction'') \<and> \<not> has_field other ''channel'')
             (ValueError (what @ '': rewire target '' @ show (f ''rewire_to'')
                @ '' must be an internal point of the old direction and kind''))]))"

text \<open>The document, the retyped point and the number of rewired connection ends.\<close>

definition apply_incompatible :: "(json \<Rightarrow> string) \<Rightarrow> json \<Rightarrow> json \<Rightarrow> (json \<times> json \<times> nat) res" where
  "apply_incompatible show doc spec =
     (let points = jget_or doc ''io_points'' JNull; connections = jget_or doc ''connections'' JNull in
      if \<not> is_obj doc then Inl (ValueError ''the derived document is not a JSON object'')
      else if \<not> is_list points \<or> \<not> is_list connections
      then Inl (ValueError ''the derived document lacks io_points/connections lists'')
      else
        res_bind (jitem spec ''retype_io_point'') (\<lambda>retype.
        res_bind (jitem retype ''id'') (\<lambda>pid.
        res_bind (jitem retype ''value_type'') (\<lambda>kind.
        res_bind (jitem retype ''initial'') (\<lambda>initial.
        res_bind (jitem retype ''rewire_to'') (\<lambda>rewire_to.
          case retype_checks (''incompatible retype of io point '' @ show pid) show retype (items_of points) of
            Some e \<Rightarrow> Inl e
          | None \<Rightarrow>
              (let i = the (last_with_id pid (items_of points));
                   new_points = (items_of points)[i := retype_point kind initial (items_of points ! i)];
                   new_doc = jset ''connections'' (JList (map (rewire pid rewire_to) (items_of connections)))
                     (jset ''io_points'' (JList new_points) doc)
               in res_bind (linted show ''the incompatible document'' new_doc) (\<lambda>d.
                    Inr (d, pid, rewired_ends pid (items_of connections))))))))))"

subsection \<open>Reading and writing\<close>

text \<open>\<open>json.dumps(j, indent=1, sort_keys=True)\<close>\<close>

definition new_line :: "nat \<Rightarrow> string" where "new_line n = newline # replicate n CHR '' ''"

definition wrapped :: "char \<Rightarrow> char \<Rightarrow> nat \<Rightarrow> string list \<Rightarrow> string" where
  "wrapped a b n parts =
     (if parts = [] then [a, b]
      else a # new_line (Suc n) @ join (CHR '','' # new_line (Suc n)) parts @ new_line n @ [b])"

fun pretty :: "(rat \<Rightarrow> string) \<Rightarrow> nat \<Rightarrow> json \<Rightarrow> string" where
  "pretty rf n (JList xs) = wrapped CHR ''['' CHR '']'' n (map (pretty rf (Suc n)) xs)"
| "pretty rf n (JObj kvs) =
     wrapped CHR ''{'' CHR ''}'' n (map (\<lambda>(k, t). dump_str k @ '': '' @ t)
       (sort_key fst (map (\<lambda>(k, v). (k, pretty rf (Suc n) v)) kvs)))"
| "pretty rf n j = dumps rf j"

text \<open>\<open>except (OSError, ValueError)\<close> around the reading and the parsing.\<close>

definition read_json :: "'w os \<Rightarrow> string \<Rightarrow> string \<Rightarrow> ('w, json) prog" where
  "read_json X what path =
     except_if quarantined
       (doing (look (read_text X path)) (\<lambda>t. case loads t of
          None \<Rightarrow> raise (ValueError ''Expecting value'') | Some j \<Rightarrow> ret j))
       (\<lambda>e. raise (ValueError (''cannot read '' @ what @ '' '' @ path @ '': '' @ exn_text e)))"

definition load_recipe :: "'w os \<Rightarrow> string \<Rightarrow> ('w, json) prog" where
  "load_recipe X path =
     doing (read_json X ''revision recipe'' path) (\<lambda>recipe.
       if \<not> only_fields recipe recipe_keys
       then raise (ValueError (''revision recipe '' @ path @ '' keys must be a subset of the known ones''))
       else case check_all (\<lambda>k. ensure (is_list (jget_or recipe k (JList [])))
              (ValueError (''revision recipe '' @ path @ '': '' @ k @ '' must be a list''))) [''add_io_points'', ''add_signals''] of
         Some e \<Rightarrow> raise e | None \<Rightarrow> ret recipe)"

definition load_incompatible :: "'w os \<Rightarrow> string \<Rightarrow> ('w, json) prog" where
  "load_incompatible X path =
     doing (read_json X ''incompatible-derivation spec'' path) (\<lambda>spec.
       if \<not> only_fields spec [''description'', ''retype_io_point'']
       then raise (ValueError (''incompatible-derivation spec '' @ path @ '' keys must be a subset of the known ones''))
       else if \<not> fields_between (jget_or spec ''retype_io_point'' JNull) retype_keys retype_keys
       then raise (ValueError (''incompatible-derivation spec '' @ path
         @ '': retype_io_point must declare exactly id, value_type, initial, and rewire_to''))
       else ret spec)"

definition write_model :: "'w os \<Rightarrow> string \<Rightarrow> json \<Rightarrow> ('w, unit) prog" where
  "write_model X path doc = write_text X path (pretty (float_text X) 0 doc @ [newline])"

definition added_ids :: "string \<Rightarrow> json \<Rightarrow> json" where
  "added_ids k recipe = JList (map (\<lambda>p. jget_or p ''id'' JNull) (items_of (jget_or recipe k (JList []))))"

definition derivation_summary :: "string \<Rightarrow> json \<Rightarrow> (string \<times> json) list" where
  "derivation_summary path recipe =
     [(''document'', JStr path), (''added_points'', added_ids ''add_io_points'' recipe),
      (''added_signals'', added_ids ''add_signals'' recipe)]"

definition derive_revised_model ::
  "'w os \<Rightarrow> (json \<Rightarrow> string) \<Rightarrow> string \<Rightarrow> string \<Rightarrow> string \<Rightarrow> ('w, json) prog" where
  "derive_revised_model X show model_path out_path recipe_path =
     doing (load_recipe X recipe_path) (\<lambda>recipe.
     doing (read_json X ''the mounted model'' model_path) (\<lambda>doc.
     doing (of_res (derive show doc recipe)) (\<lambda>revised.
     doing (write_model X out_path revised) (\<lambda>_.
       ret (JObj (derivation_summary out_path recipe))))))"

definition derive_incompatible_model ::
  "'w os \<Rightarrow> (json \<Rightarrow> string) \<Rightarrow> string \<Rightarrow> string \<Rightarrow> string \<Rightarrow> string \<Rightarrow> ('w, json) prog" where
  "derive_incompatible_model X show model_path out_path recipe_path spec_path =
     doing (load_recipe X recipe_path) (\<lambda>recipe.
     doing (load_incompatible X spec_path) (\<lambda>spec.
     doing (read_json X ''the mounted model'' model_path) (\<lambda>doc.
     doing (of_res (derive show doc recipe)) (\<lambda>revised.
     doing (of_res (apply_incompatible show revised spec)) (\<lambda>(incompatible, pid, n).
     doing (write_model X out_path incompatible) (\<lambda>_.
       ret (JObj (derivation_summary out_path recipe
         @ [(''retyped_point'', pid), (''rewired_connections'', JInt (int n))]))))))))"

end
