(* ===== verification/QaRigModel.thy ===== *)
theory QaRigModel
  imports QaRevision
begin

text \<open>
  qa_lane/rig_model.py: the plant documents derived for one run, with a second station on a cyclic device
  or with one channel-bound writable input point. A \<open>RigModelError\<close> is a \<open>ValueError\<close>; the texts of
  errors that print Python's \<open>repr\<close> of a value leave it out. The id of a device that is passed as an
  argument is a number or a text, so it can be looked up in a set.
\<close>

subsection \<open>Reading a model\<close>

definition derived_station :: string where "derived_station = ''750-354-b''"
definition extra_cyclic_channel :: string where "extra_cyclic_channel = ''di3''"
definition derived_channel_prefix :: string where "derived_channel_prefix = ''qa-writable''"

text \<open>\<open>k in j\<close> for a text \<open>k\<close>\<close>

definition contains :: "string \<Rightarrow> json \<Rightarrow> bool res" where
  "contains k j =
     (case j of
        JObj kvs \<Rightarrow> Inr (k \<in> fst ` set kvs)
      | JList xs \<Rightarrow> Inr (JStr k \<in> set xs)
      | JStr t \<Rightarrow> Inr (in_text k t)
      | _ \<Rightarrow> Inl (TypeError ''argument is not iterable''))"

text \<open>\<open>j.get(k)\<close> and \<open>j.values()\<close>: only an object has them.\<close>

definition get_of :: "json \<Rightarrow> string \<Rightarrow> json res" where
  "get_of j k = (if is_obj j then Inr (jget_or j k JNull) else Inl (AttributeError ''get''))"

definition values_of :: "json \<Rightarrow> json list res" where
  "values_of j = (if is_obj j then Inr (map snd (fields_of j)) else Inl (AttributeError ''values''))"

text \<open>\<open>j.get(k) or {}\<close> for an object \<open>j\<close>\<close>

definition field_or_empty :: "json \<Rightarrow> string \<Rightarrow> json" where
  "field_or_empty j k = or_empty (jget_or j k JNull)"

definition device_position :: "json \<Rightarrow> json list \<Rightarrow> nat option" where
  "device_position k xs =
     List.find (\<lambda>i. is_obj (xs ! i) \<and> py_eq (jget_or (xs ! i) ''id'' JNull) k) [0..<length xs]"

definition devices_of :: "json \<Rightarrow> json list" where
  "devices_of doc = items_of (jget_or doc ''devices'' JNull)"

definition device :: "(json \<Rightarrow> string) \<Rightarrow> json \<Rightarrow> json \<Rightarrow> json res" where
  "device show doc k =
     (case device_position k (devices_of doc) of
        None \<Rightarrow> Inl (ValueError (''the mounted model declares no device '' @ show k))
      | Some i \<Rightarrow> Inr (devices_of doc ! i))"

definition set_device :: "json \<Rightarrow> json \<Rightarrow> json \<Rightarrow> json" where
  "set_device k d doc =
     (case device_position k (devices_of doc) of
        None \<Rightarrow> doc | Some i \<Rightarrow> jset ''devices'' (JList ((devices_of doc)[i := d])) doc)"

definition max_id :: "json list \<Rightarrow> int" where
  "max_id xs =
     (let ids = map int_of (filter isinstance_int (map (\<lambda>e. jget_or e ''id'' JNull) (filter is_obj xs))) in
      if ids = [] then 0 else Max (set ids))"

definition input_channel_kind :: "json \<Rightarrow> json res" where
  "input_channel_kind d =
     res_bind (values_of (field_or_empty d ''channels'')) (\<lambda>vs.
       Inr (case List.find (\<lambda>v. is_obj v \<and> jget_or v ''direction'' JNull = JStr ''in''
           \<and> str_in (jget_or v ''value_type'' JNull) value_kinds) vs of
         None \<Rightarrow> JNull | Some v \<Rightarrow> jget_or v ''value_type'' JNull))"

definition require :: "json \<Rightarrow> check" where
  "require doc = first_exn
     [ensure (is_obj doc) (ValueError ''the mounted model is not a JSON object''),
      check_all (\<lambda>k. ensure (is_list (jget_or doc k JNull)) (ValueError (''the mounted model lacks a '' @ k @ '' list'')))
        [''devices'', ''io_points'', ''signals'']]"

definition required :: "json \<Rightarrow> unit res" where
  "required doc = (case require doc of Some e \<Rightarrow> Inl e | None \<Rightarrow> Inr ())"

definition demand :: "bool \<Rightarrow> string \<Rightarrow> unit res" where
  "demand b m = (if b then Inr () else Inl (ValueError m))"

definition points_of :: "json \<Rightarrow> json list" where "points_of doc = items_of (jget_or doc ''io_points'' JNull)"
definition signals_of :: "json \<Rightarrow> json list" where "signals_of doc = items_of (jget_or doc ''signals'' JNull)"

text \<open>\<open>d['channels'][name] = {'direction': 'in', 'value_type': kind}\<close>\<close>

definition input_channel :: "json \<Rightarrow> json" where
  "input_channel kind = JObj [(''direction'', JStr ''in''), (''value_type'', kind)]"

definition add_channel :: "string \<Rightarrow> json \<Rightarrow> json \<Rightarrow> json res" where
  "add_channel n kind d =
     res_bind (jitem d ''channels'') (\<lambda>channels.
       if is_obj channels then Inr (jset ''channels'' (jset n (input_channel kind) channels) d)
       else Inl (TypeError ''object does not support item assignment''))"

definition bound_point :: "int \<Rightarrow> json \<Rightarrow> json \<Rightarrow> string \<Rightarrow> (string \<times> json) list" where
  "bound_point pid kind k n =
     [(''id'', JInt pid), (''direction'', JStr ''in''), (''value_type'', kind),
      (''channel'', JObj [(''device'', k), (''name'', JStr n)])]"

definition monitor_signal :: "int \<Rightarrow> string \<Rightarrow> int \<Rightarrow> string \<Rightarrow> string \<Rightarrow> json" where
  "monitor_signal sid n source description group_name =
     JObj [(''id'', JInt sid), (''name'', JStr n), (''source'', JInt source), (''unit'', JStr []),
       (''description'', JStr description), (''group'', JStr group_name)]"

subsection \<open>A second station\<close>

text \<open>The integer registers of the stations' maps, in order.\<close>

definition registers_of :: "json \<Rightarrow> int list res" where
  "registers_of stations =
     res_bind (values_of stations) (\<lambda>vs.
     res_bind (gather values_of vs) (\<lambda>rs. Inr (map int_of (filter type_is_int rs))))"

definition next_register :: "int list \<Rightarrow> int" where
  "next_register rs = (if rs = [] then 0 else Max (set rs) + 1)"

definition station_gates :: "json \<Rightarrow> json \<Rightarrow> unit res" where
  "station_gates d stations =
     res_bind (demand (truthy stations) ''the mounted sim-cyclic device declares no stations map to extend'') (\<lambda>_.
     res_bind (contains derived_station stations) (\<lambda>there.
     res_bind (demand (\<not> there) (''the mounted model already declares the derived station '' @ derived_station)) (\<lambda>_.
     res_bind (contains extra_cyclic_channel (field_or_empty d ''channels'')) (\<lambda>used.
       demand (\<not> used) (''the mounted device already declares the channel '' @ extra_cyclic_channel)))))"

text \<open>\<open>d['parameters']['stations'][name] = {channel: register}\<close>\<close>

definition add_station :: "int \<Rightarrow> json \<Rightarrow> json \<Rightarrow> json" where
  "add_station register stations d =
     jset ''parameters'' (jset ''stations''
         (jset derived_station (JObj [(extra_cyclic_channel, JInt register)]) stations)
       (jget_or d ''parameters'' JNull)) d"

definition station_description :: string where
  "station_description = ''lane-derived second-station digital input - exists so a station-attributed short exchange ''
     @ ''can degrade one station while the coupler station stays fresh; not a rig channel''"

definition two_station_doc :: "json \<Rightarrow> json \<Rightarrow> json \<Rightarrow> json" where
  "two_station_doc k new_device doc =
     (let pid = max_id (points_of doc) + 1; sid = max_id (signals_of doc) + 1 in
      extend_section ''signals'' [monitor_signal sid (''rig-'' @ extra_cyclic_channel) pid station_description ''wago-rig'']
        (extend_section ''io_points'' [JObj (bound_point pid (JStr ''bool'') k extra_cyclic_channel)]
          (set_device k new_device doc)))"

definition two_station_cyclic :: "(json \<Rightarrow> string) \<Rightarrow> json \<Rightarrow> json \<Rightarrow> (string \<times> json) list res" where
  "two_station_cyclic show doc k =
     res_bind (required doc) (\<lambda>_.
     res_bind (device show doc k) (\<lambda>d.
     res_bind (demand (jget_or d ''kind'' JNull = JStr ''sim-cyclic'')
        (''the mounted device '' @ show k @ '' is not sim-cyclic'')) (\<lambda>_.
     res_bind (get_of (field_or_empty d ''parameters'') ''stations'') (\<lambda>declared. let stations = or_empty declared in
     res_bind (station_gates d stations) (\<lambda>_.
     res_bind (add_channel extra_cyclic_channel (JStr ''bool'') d) (\<lambda>d1.
     res_bind (registers_of stations) (\<lambda>registers.
     res_bind (linted show ''the derived document''
        (two_station_doc k (add_station (next_register registers) stations d1) doc)) (\<lambda>derived.
       Inr [(''document'', derived), (''station'', JStr derived_station),
            (''station_point'', JInt (max_id (points_of doc) + 1)),
            (''station_channel'', JStr extra_cyclic_channel), (''device'', k)]))))))))"

subsection \<open>A writable field point\<close>

text \<open>The channels the points bind, as pairs of device and name; a point without one counts as two nulls.\<close>

definition binding :: "json \<Rightarrow> (json \<times> json) list res" where
  "binding p =
     res_bind (get_of (field_or_empty p ''channel'') ''device'') (\<lambda>dev.
     res_bind (get_of (field_or_empty p ''channel'') ''name'') (\<lambda>n.
       if unhashable dev \<or> unhashable n then Inl hash_error else Inr [(dev, n)]))"

definition bound_channels :: "json list \<Rightarrow> (json \<times> json) list res" where
  "bound_channels ps = gather binding (filter is_obj ps)"

definition binds :: "(json \<times> json) list \<Rightarrow> json \<Rightarrow> string \<Rightarrow> bool" where
  "binds bound k n \<longleftrightarrow> list_ex (\<lambda>(dev, m). py_eq k dev \<and> m = JStr n) bound"

text \<open>
  The search of a free name: the names tried are different, so one more try than there are names in use
  is enough.
\<close>

definition candidate_name :: "string \<Rightarrow> nat \<Rightarrow> string" where
  "candidate_name requested n =
     derived_channel_prefix @ ''-'' @ requested @ (if n = 1 then [] else ''-'' @ str_nat n)"

fun free_channel :: "(string \<Rightarrow> bool) \<Rightarrow> string \<Rightarrow> nat \<Rightarrow> nat \<Rightarrow> string option" where
  "free_channel used requested 0 n = None"
| "free_channel used requested (Suc fuel) n =
     (if used (candidate_name requested n) then free_channel used requested fuel (Suc n)
      else Some (candidate_name requested n))"

definition name_used :: "json \<Rightarrow> (json \<times> json) list \<Rightarrow> json \<Rightarrow> string \<Rightarrow> bool" where
  "name_used channels bound k n \<longleftrightarrow> n \<in> keys_of channels \<or> binds bound k n"

definition derived_channel :: "json \<Rightarrow> json \<Rightarrow> (json \<times> json) list \<Rightarrow> string \<Rightarrow> string" where
  "derived_channel k channels bound requested =
     the (free_channel (name_used channels bound k) requested
       (Suc (length (fields_of channels) + length bound)) 1)"

text \<open>The channel to bind, the kind of its values and whether the channel is added.\<close>

definition choose_channel ::
  "json \<Rightarrow> json \<Rightarrow> (json \<times> json) list \<Rightarrow> string \<Rightarrow> (string \<times> json \<times> bool) res" where
  "choose_channel k d bound n =
     (let channels = field_or_empty d ''channels'' in
      res_bind (get_of channels n) (\<lambda>declared.
        if is_obj declared
        then res_bind (demand (jget_or declared ''direction'' JNull = JStr ''in'')
               ''the mounted channel is not an input - a writable field point must ride an input channel'') (\<lambda>_.
             let kind = jget_or declared ''value_type'' JNull in
             if binds bound k n then Inr (derived_channel k channels bound n, kind, True) else Inr (n, kind, False))
        else if n \<in> keys_of channels then Inl (ValueError ''the mounted channel declares no usable shape'')
        else res_bind (input_channel_kind d) (\<lambda>kind. Inr (derived_channel k channels bound n, kind, True))))"

definition fresh_value :: "string \<Rightarrow> json list \<Rightarrow> json \<Rightarrow> string \<Rightarrow> unit res" where
  "fresh_value k xs v what =
     res_bind (field_set k xs) (\<lambda>taken. demand (\<not> in_set v taken) (what @ '' collides with the mounted model''))"

definition writable_description :: string where
  "writable_description = ''lane-derived command-writable field input - a receipted write on this point is forwarded ''
     @ ''to the driver and read back through the same scan; not a rig channel''"

definition writable_doc :: "json \<Rightarrow> string \<Rightarrow> json \<Rightarrow> int \<Rightarrow> int \<Rightarrow> string \<Rightarrow> json \<Rightarrow> json" where
  "writable_doc k n kind pid sid signal_name doc =
     extend_section ''signals'' [monitor_signal sid signal_name pid writable_description ''qa-lane'']
       (extend_section ''io_points'' [JObj (bound_point pid kind k n @ [(''writable'', JBool True)])] doc)"

definition with_channel :: "(json \<Rightarrow> string) \<Rightarrow> bool \<Rightarrow> json \<Rightarrow> string \<Rightarrow> json \<Rightarrow> json \<Rightarrow> json res" where
  "with_channel show added k n kind doc =
     (if \<not> added then Inr doc
      else res_bind (device show doc k) (\<lambda>d. res_bind (add_channel n kind d) (\<lambda>d1. Inr (set_device k d1 doc))))"

definition writable_field_point ::
  "(json \<Rightarrow> string) \<Rightarrow> json \<Rightarrow> json \<Rightarrow> string \<Rightarrow> int option \<Rightarrow> int option \<Rightarrow> string option
    \<Rightarrow> (string \<times> json) list res" where
  "writable_field_point show doc k requested point_id signal_id given =
     res_bind (required doc) (\<lambda>_.
     res_bind (device show doc k) (\<lambda>d.
     res_bind (bound_channels (points_of doc)) (\<lambda>bound.
     res_bind (choose_channel k d bound requested) (\<lambda>(n, kind, added).
     res_bind (demand (str_in kind value_kinds) ''the mounted channel declares no usable value_type'') (\<lambda>_.
       let pid = (case point_id of Some i \<Rightarrow> i | None \<Rightarrow> max_id (points_of doc) + 1);
           sid = (case signal_id of Some i \<Rightarrow> i | None \<Rightarrow> max_id (signals_of doc) + 1);
           signal_name = (case given of Some t \<Rightarrow> if t = [] then derived_channel_prefix @ ''-'' @ requested else t
             | None \<Rightarrow> derived_channel_prefix @ ''-'' @ requested) in
     res_bind (fresh_value ''id'' (points_of doc) (JInt pid) (''the derived writable field point id '' @ str_int pid)) (\<lambda>_.
     res_bind (fresh_value ''id'' (signals_of doc) (JInt sid) (''the derived signal id '' @ str_int sid)) (\<lambda>_.
     res_bind (fresh_value ''name'' (signals_of doc) (JStr signal_name) ''the derived signal name'') (\<lambda>_.
     res_bind (with_channel show added k n kind doc) (\<lambda>doc1.
     res_bind (linted show ''the derived document'' (writable_doc k n kind pid sid signal_name doc1)) (\<lambda>derived.
       Inr [(''document'', derived), (''point'', JInt pid), (''signal'', JInt sid), (''name'', JStr signal_name),
            (''channel'', JStr n), (''requested_channel'', JStr requested), (''device'', k),
            (''value_type'', kind), (''added_channel'', JBool added)]))))))))))"

definition describe :: "(string \<times> json) list \<Rightarrow> (string \<times> json) list" where
  "describe derivation = filter (\<lambda>(k, v). k \<noteq> ''document'') derivation"

end
