(* ===== verification/QaDerived.thy ===== *)
theory QaDerived
  imports QaRigModel
begin

text \<open>
  What the derived model documents promise: a recipe only adds internal points and signals and leaves the
  field wiring alone, a writable field point gets a channel nothing else binds, a second station gets
  registers of its own, and two things the derivations are said to keep and do not.
\<close>

subsection \<open>Sections of a derived document\<close>

lemma extend_section_jget:
  "k' \<noteq> k \<Longrightarrow> jget (extend_section k new doc) k' = jget doc k'"
  by (simp add: extend_section_def)

lemma extend_section_items:
  "items_of (jget_or (extend_section k new doc) k' JNull) =
     items_of (jget_or doc k' JNull) @ (if k' = k then new else [])"
  by (simp add: extend_section_def)

lemma extend_section_points [simp]:
  "points_of (extend_section k new doc) = points_of doc @ (if k = ''io_points'' then new else [])"
  "signals_of (extend_section k new doc) = signals_of doc @ (if k = ''signals'' then new else [])"
  "devices_of (extend_section k new doc) = devices_of doc @ (if k = ''devices'' then new else [])"
  by (simp_all add: points_of_def signals_of_def devices_of_def extend_section_items)

lemma linted_Inr: "linted show what doc = Inr d \<Longrightarrow> d = doc \<and> lint show doc = Inr []"
  by (auto simp: linted_def res_bind_Inr_iff split: if_splits)

lemma field_set_Inr:
  "field_set k xs = Inr vs \<Longrightarrow> vs = map (\<lambda>e. jget_or e k JNull) (filter is_obj xs)"
  by (simp add: field_set_def Let_def split: if_splits)

subsection \<open>The recipe only adds\<close>

definition ids_of :: "json list \<Rightarrow> json list" where
  "ids_of xs = map (\<lambda>e. jget_or e ''id'' JNull) (filter is_obj xs)"

lemma check_point_None:
  assumes "check_point show p ids = None"
  shows "is_obj p" and "\<not> has_field p ''channel''" and "positive_id (jget_or p ''id'' JNull)"
    and "\<not> in_set (jget_or p ''id'' JNull) ids"
  using assms by (simp_all add: check_point_def Let_def first_exn_None_iff only_fields_def initial_checks_def)

lemma add_points_Inr:
  assumes "add_points show ps ids = Inr all_ids"
  shows "all_ids = ids @ ids_of ps
    \<and> (\<forall>p \<in> set ps. is_obj p \<and> \<not> has_field p ''channel'' \<and> positive_id (jget_or p ''id'' JNull)
         \<and> \<not> in_set (jget_or p ''id'' JNull) ids)"
  using assms
proof (induction ps arbitrary: ids)
  case (Cons p ps)
  then have ok: "check_point show p ids = None"
    and rest: "add_points show ps (ids @ [jget_or p ''id'' JNull]) = Inr all_ids"
    by (auto split: option.splits)
  show ?case
    using Cons.IH [OF rest] check_point_None [OF ok] by (auto simp: ids_of_def in_set_def)
qed (simp add: ids_of_def)

lemma add_signals_Inr:
  "add_signals show ss ids names point_ids = Inr u \<Longrightarrow>
     \<forall>s \<in> set ss. in_set (jget_or s ''source'' JNull) point_ids"
proof (induction ss arbitrary: ids names)
  case (Cons s ss)
  then have "check_signal show s ids names point_ids = None" by (auto split: option.splits)
  then have "in_set (jget_or s ''source'' JNull) point_ids"
    by (simp add: check_signal_def Let_def first_exn_None_iff)
  then show ?case using Cons by (auto split: option.splits)
qed simp

lemma derive_Inr:
  assumes "derive show doc recipe = Inr revised"
  obtains point_ids new_points all_ids new_signals sids names u where
    "is_list (jget_or doc ''io_points'' JNull)" "is_list (jget_or doc ''signals'' JNull)"
    "point_ids = ids_of (points_of doc)" "add_points show new_points point_ids = Inr all_ids"
    "add_signals show new_signals sids names all_ids = Inr u" "lint show revised = Inr []"
    "revised = extend_section ''signals'' new_signals (extend_section ''io_points'' new_points doc)"
    "elements (jget_or recipe ''add_io_points'' (JList [])) = Inr new_points"
    "elements (jget_or recipe ''add_signals'' (JList [])) = Inr new_signals"
  using assms
  by (auto simp: derive_def Let_def res_bind_Inr_iff points_of_def ids_of_def split: if_splits
      dest!: linted_Inr field_set_Inr)

text \<open>
  C18: a derivation that succeeds only appends the recipe's points and signals: every other section
  is what it was, the added points are internal ones with ids nothing in the model carries, every
  added signal has a source in the document, the points that bind a channel are exactly those of the
  mounted model, and the result passes the structural check.
\<close>

theorem derive_additive:
  assumes "derive show doc recipe = Inr revised"
  shows "\<exists>ps ss. elements (jget_or recipe ''add_io_points'' (JList [])) = Inr ps
    \<and> elements (jget_or recipe ''add_signals'' (JList [])) = Inr ss
    \<and> points_of revised = points_of doc @ ps \<and> signals_of revised = signals_of doc @ ss
    \<and> (\<forall>k. k \<noteq> ''io_points'' \<longrightarrow> k \<noteq> ''signals'' \<longrightarrow> jget revised k = jget doc k)
    \<and> (\<forall>p \<in> set ps. positive_id (jget_or p ''id'' JNull) \<and> \<not> in_set (jget_or p ''id'' JNull) (ids_of (points_of doc)))
    \<and> (\<forall>s \<in> set ss. in_set (jget_or s ''source'' JNull) (ids_of (points_of revised)))
    \<and> filter (\<lambda>p. has_field p ''channel'') (points_of revised) = filter (\<lambda>p. has_field p ''channel'') (points_of doc)
    \<and> lint show revised = Inr []"
proof -
  obtain ids ps all_ids ss sids names u where d: "ids = ids_of (points_of doc)" "add_points show ps ids = Inr all_ids"
    "add_signals show ss sids names all_ids = Inr u" "lint show revised = Inr []"
    "revised = extend_section ''signals'' ss (extend_section ''io_points'' ps doc)"
    "elements (jget_or recipe ''add_io_points'' (JList [])) = Inr ps"
    "elements (jget_or recipe ''add_signals'' (JList [])) = Inr ss"
    using derive_Inr [OF assms] by metis
  note points = add_points_Inr [OF d(2)]
  have "ids_of (points_of revised) = all_ids" using points d(1) by (simp add: d(5) ids_of_def)
  moreover have "filter (\<lambda>p. has_field p ''channel'') ps = []" using points by (simp add: filter_empty_conv)
  ultimately show ?thesis
    using d points add_signals_Inr [OF d(3)]
    by (intro exI [of _ ps] exI [of _ ss]) (simp add: extend_section_jget)
qed

subsection \<open>The incompatible variant\<close>

definition spec_field :: "json \<Rightarrow> string \<Rightarrow> json" where
  "spec_field spec k = jget_or (jget_or spec ''retype_io_point'' JNull) k JNull"

definition end_of :: "json \<Rightarrow> string \<Rightarrow> json" where
  "end_of c e = jget_or c e JNull"

definition connections_of :: "json \<Rightarrow> json list" where
  "connections_of doc = items_of (jget_or doc ''connections'' JNull)"

definition named_point :: "json \<Rightarrow> json \<Rightarrow> json" where
  "named_point k doc = at_position (points_of doc) (last_with_id k (points_of doc))"

lemma jitem_Inr: "jitem j k = Inr v \<longleftrightarrow> is_obj j \<and> jget j k = Some v"
  by (cases j) (auto simp: jitem_def jget_def split: option.splits)

lemma last_with_id_Some:
  assumes "last_with_id k xs = Some i"
  shows "i < length xs" and "is_obj (xs ! i)" and "py_eq (jget_or (xs ! i) ''id'' JNull) k"
proof -
  have "i \<in> set (filter (\<lambda>i. is_obj (xs ! i) \<and> py_eq (jget_or (xs ! i) ''id'' JNull) k) [0..<length xs])"
    using assms by (auto simp: last_with_id_def Let_def split: if_splits dest: last_in_set)
  then show "i < length xs" "is_obj (xs ! i)" "py_eq (jget_or (xs ! i) ''id'' JNull) k" by auto
qed

text \<open>An update that keeps the id and the kind of object keeps every position.\<close>

lemma last_with_id_update:
  assumes "i < length xs" and "is_obj p" and "is_obj (xs ! i)" and "jget_or p ''id'' JNull = jget_or (xs ! i) ''id'' JNull"
  shows "last_with_id k (xs[i := p]) = last_with_id k xs"
proof -
  have "is_obj (xs[i := p] ! j) \<and> py_eq (jget_or (xs[i := p] ! j) ''id'' JNull) k
      \<longleftrightarrow> is_obj (xs ! j) \<and> py_eq (jget_or (xs ! j) ''id'' JNull) k" for j
    using assms by (cases "j = i") auto
  then show ?thesis by (simp add: last_with_id_def)
qed

lemma is_obj_jset [simp]: "is_obj (jset k v j)"
  by (simp add: jset_def)

lemma rewire_ends:
  assumes "e \<in> {''from'', ''to''}"
  shows "end_of (rewire pid other c) e =
    (if names_point pid c e then jset ''point'' other (end_of c e) else end_of c e)"
  using assms by (auto simp: rewire_def rewire_end_def names_point_def end_of_def)

lemma is_obj_rewire [simp]: "is_obj (rewire pid other c) = is_obj c"
  by (auto simp: rewire_def rewire_end_def names_point_def)

text \<open>What a variant that was derived looks like.\<close>

lemma apply_incompatible_Inr:
  assumes "apply_incompatible show doc spec = Inr (d, pid, n)"
  obtains i where "last_with_id pid (points_of doc) = Some i" and "pid = spec_field spec ''id''"
    and "retype_checks (''incompatible retype of io point '' @ show pid) show (jget_or spec ''retype_io_point'' JNull)
       (points_of doc) = None"
    and "points_of d = (points_of doc)[i := retype_point (spec_field spec ''value_type'') (spec_field spec ''initial'')
       (points_of doc ! i)]"
    and "connections_of d = map (rewire pid (spec_field spec ''rewire_to'')) (connections_of doc)"
    and "n = rewired_ends pid (connections_of doc)" and "lint show d = Inr []"
proof -
  let ?retype = "jget_or spec ''retype_io_point'' JNull"
  have spec: "jget spec ''retype_io_point'' = Some ?retype" "jget ?retype ''id'' = Some pid"
    "spec_field spec ''id'' = pid" "retype_checks (''incompatible retype of io point '' @ show pid) show ?retype (points_of doc) = None"
    and d: "linted show ''the incompatible document''
      (jset ''connections'' (JList (map (rewire pid (spec_field spec ''rewire_to'')) (connections_of doc)))
        (jset ''io_points'' (JList ((points_of doc)[the (last_with_id pid (points_of doc)) :=
           retype_point (spec_field spec ''value_type'') (spec_field spec ''initial'')
             (points_of doc ! the (last_with_id pid (points_of doc)))])) doc)) = Inr d"
    and n: "n = rewired_ends pid (connections_of doc)"
    using assms
    by (auto simp: apply_incompatible_def Let_def res_bind_Inr_iff jitem_Inr spec_field_def points_of_def
        connections_of_def jget_or_def split: if_splits option.splits)
  from spec(4) have "last_with_id pid (points_of doc) \<noteq> None"
    using spec(3) by (simp add: retype_checks_def Let_def first_exn_None_iff initial_checks_def spec_field_def)
  then obtain i where i: "last_with_id pid (points_of doc) = Some i" by auto
  show thesis
    by (rule that [OF i]) (use linted_Inr [OF d] i n spec in \<open>auto simp: points_of_def connections_of_def\<close>)
qed

text \<open>Equality with a hashable value is an equivalence.\<close>

lemma hash_eq: "\<not> unhashable a \<Longrightarrow> py_eq a b \<Longrightarrow> py_eq a c = py_eq b c"
  by (cases a; cases b; cases c) (auto simp: unhashable_def)

lemma hash_eq_refl: "\<not> unhashable a \<Longrightarrow> py_eq a b \<Longrightarrow> py_eq b b"
  by (cases a; cases b) (auto simp: unhashable_def)

lemma lint_hashable:
  assumes "lint show d = Inr []" and "is_list (jget_or d ''io_points'' JNull)" and "p \<in> set (points_of d)" and "is_obj p"
  shows "\<not> unhashable (jget_or p ''id'' JNull)"
proof -
  have "section_of d ''io_points'' = Inr (points_of d)"
    using assms(2) by (cases "jget_or d ''io_points'' JNull") (simp_all add: section_of_def elements_def points_of_def)
  then obtain vs where "field_set ''id'' (points_of d) = Inr vs"
    using assms(1) by (auto simp: lint_def res_bind_Inr_iff split: if_splits)
  then show ?thesis using assms(3,4) by (auto simp: field_set_def Let_def list_ex_iff split: if_splits)
qed

lemma retype_point_simps [simp]:
  "jget_or (retype_point kind initial p) k d =
     (if k = ''initial'' then initial else if k = ''value_type'' then kind else jget_or p k d)"
  "is_obj (retype_point kind initial p)"
  by (simp_all add: retype_point_def)

lemma retype_checks_None:
  assumes "retype_checks what show (jget_or spec ''retype_io_point'' JNull) ps = None"
  defines "target \<equiv> at_position ps (last_with_id (spec_field spec ''id'') ps)"
  defines "other \<equiv> at_position ps (last_with_id (spec_field spec ''rewire_to'') ps)"
  shows "str_in (spec_field spec ''value_type'') value_kinds"
    and "jget_or target ''value_type'' JNull \<noteq> spec_field spec ''value_type''"
    and "\<not> has_field target ''channel''" and "jget_or target ''direction'' JNull = JStr ''in''"
    and "last_with_id (spec_field spec ''rewire_to'') ps \<noteq> None" and "\<not> has_field other ''channel''"
    and "py_eq (jget_or other ''value_type'' JNull) (jget_or target ''value_type'' JNull)"
  using assms(1) unfolding target_def other_def
  by (simp_all add: retype_checks_def Let_def first_exn_None_iff initial_checks_def spec_field_def)

text \<open>Facts about an accepted variant that both of the following theorems use.\<close>

lemma variant_facts:
  assumes "apply_incompatible show doc spec = Inr (d, pid, n)"
  obtains i where "last_with_id pid (points_of doc) = Some i"
    and "\<And>k. named_point k d = at_position (points_of d) (last_with_id k (points_of doc))"
    and "points_of d = (points_of doc)[i := retype_point (spec_field spec ''value_type'') (spec_field spec ''initial'')
       (points_of doc ! i)]"
    and "\<not> unhashable (jget_or (points_of doc ! i) ''id'' JNull)"
    and "jget_or (points_of doc ! i) ''value_type'' JNull \<noteq> spec_field spec ''value_type''"
proof -
  obtain i where i: "last_with_id pid (points_of doc) = Some i" "pid = spec_field spec ''id''"
    and checks: "retype_checks (''incompatible retype of io point '' @ show pid) show (jget_or spec ''retype_io_point'' JNull)
       (points_of doc) = None"
    and ps: "points_of d = (points_of doc)[i := retype_point (spec_field spec ''value_type'') (spec_field spec ''initial'')
       (points_of doc ! i)]" and ok: "lint show d = Inr []"
    using apply_incompatible_Inr [OF assms] by metis
  note at_i = last_with_id_Some [OF i(1)]
  then have "length (points_of d) \<noteq> 0" using ps at_i(1) by (simp only: length_list_update)
  then have "is_list (jget_or d ''io_points'' JNull)"
    by (cases "jget_or d ''io_points'' JNull") (simp_all add: points_of_def)
  moreover have "points_of d ! i \<in> set (points_of d)" using ps at_i(1) by (metis length_list_update nth_mem)
  ultimately have "\<not> unhashable (jget_or (points_of doc ! i) ''id'' JNull)"
    using lint_hashable [OF ok, of "points_of d ! i"] ps at_i(1) by simp
  moreover have "last_with_id k (points_of d) = last_with_id k (points_of doc)" for k
    unfolding ps by (rule last_with_id_update) (use at_i in simp_all)
  ultimately show thesis
    using that [OF i(1)] ps retype_checks_None(2) [OF checks] i by (simp add: at_position_def named_point_def)
qed

text \<open>
  When the rewire target is another point, the accepted variant retypes the point, no end of a
  connection names it any more, and every end that did now names an internal point of the old kind;
  the derived document passes the structural check.
\<close>

lemma incompatible_rewires:
  assumes "apply_incompatible show doc spec = Inr (d, pid, n)"
    and "\<not> py_eq (spec_field spec ''rewire_to'') pid"
  shows "jget_or (named_point pid d) ''value_type'' JNull = spec_field spec ''value_type''
    \<and> connections_of d = map (rewire pid (spec_field spec ''rewire_to'')) (connections_of doc)
    \<and> (\<forall>c \<in> set (connections_of d). \<not> names_point pid c ''from'' \<and> \<not> names_point pid c ''to'')
    \<and> py_eq (jget_or (named_point (spec_field spec ''rewire_to'') d) ''value_type'' JNull)
        (jget_or (named_point pid doc) ''value_type'' JNull)
    \<and> \<not> has_field (named_point (spec_field spec ''rewire_to'') d) ''channel'' \<and> lint show d = Inr []"
proof -
  let ?other = "spec_field spec ''rewire_to''"
  obtain i where i: "last_with_id pid (points_of doc) = Some i"
    and named: "\<And>k. named_point k d = at_position (points_of d) (last_with_id k (points_of doc))"
    and ps: "points_of d = (points_of doc)[i := retype_point (spec_field spec ''value_type'') (spec_field spec ''initial'')
       (points_of doc ! i)]"
    and hashable: "\<not> unhashable (jget_or (points_of doc ! i) ''id'' JNull)"
    using variant_facts [OF assms(1)] by metis
  have pid: "pid = spec_field spec ''id''"
    and checks: "retype_checks (''incompatible retype of io point '' @ show pid) show (jget_or spec ''retype_io_point'' JNull)
       (points_of doc) = None"
    and conns: "connections_of d = map (rewire pid ?other) (connections_of doc)" and ok: "lint show d = Inr []"
    using apply_incompatible_Inr [OF assms(1)] by metis+
  note at_i = last_with_id_Some [OF i] and checked = retype_checks_None [OF checks, folded pid]
  obtain j where j: "last_with_id ?other (points_of doc) = Some j" using checked(5) by auto
  have "j \<noteq> i" using last_with_id_Some(3) [OF j] at_i(3) hash_eq [OF hashable] assms(2) by blast
  then have "named_point ?other d = named_point ?other doc"
    using j by (simp add: named named_point_def [of _ doc] at_position_def ps)
  moreover have "jget_or (named_point pid d) ''value_type'' JNull = spec_field spec ''value_type''"
    using i at_i(1) by (simp add: named named_point_def [of _ doc] at_position_def ps)
  moreover have "\<not> names_point pid (rewire pid ?other c) e" if "e \<in> {''from'', ''to''}" for c e
    using rewire_ends [OF that, of pid ?other c] assms(2)
    by (auto simp: names_point_def end_of_def split: if_splits)
  ultimately show ?thesis
    using conns ok checked by (auto simp: named_point_def)
qed

text \<open>
  C40: nothing refuses a specification that rewires the point to itself: the accepted variant retypes
  the point and leaves every end of a connection that named it on it, although the ends are said to keep
  their matched types.
\<close>

theorem self_rewire_keeps_ends:
  assumes "apply_incompatible show doc spec = Inr (d, pid, n)" and "spec_field spec ''rewire_to'' = pid"
  shows "jget_or (named_point pid d) ''value_type'' JNull \<noteq> jget_or (named_point pid doc) ''value_type'' JNull
    \<and> connections_of d = map (rewire pid pid) (connections_of doc)
    \<and> (\<forall>c \<in> set (connections_of doc). \<forall>e \<in> {''from'', ''to''}. names_point pid c e \<longrightarrow> names_point pid (rewire pid pid c) e)"
proof -
  obtain i where i: "last_with_id pid (points_of doc) = Some i"
    and named: "\<And>k. named_point k d = at_position (points_of d) (last_with_id k (points_of doc))"
    and ps: "points_of d = (points_of doc)[i := retype_point (spec_field spec ''value_type'') (spec_field spec ''initial'')
       (points_of doc ! i)]"
    and hashable: "\<not> unhashable (jget_or (points_of doc ! i) ''id'' JNull)"
    and kinds: "jget_or (points_of doc ! i) ''value_type'' JNull \<noteq> spec_field spec ''value_type''"
    using variant_facts [OF assms(1)] by metis
  have conns: "connections_of d = map (rewire pid pid) (connections_of doc)"
    using apply_incompatible_Inr [OF assms(1)] assms(2) by metis
  have "py_eq pid pid" using hash_eq_refl [OF hashable] last_with_id_Some(3) [OF i] by simp
  then have "names_point pid (rewire pid pid c) e" if "names_point pid c e" "e \<in> {''from'', ''to''}" for c e
    using rewire_ends [OF that(2), of pid pid c] that(1) by (auto simp: names_point_def end_of_def)
  then show ?thesis
    using i last_with_id_Some(1) [OF i] conns kinds by (simp add: named named_point_def [of _ doc] at_position_def ps)
qed

subsection \<open>A channel of its own\<close>

lemma candidate_name_inj: "candidate_name t a = candidate_name t b \<longleftrightarrow> a = b"
  by (auto simp: candidate_name_def)

text \<open>Of as many different names as there are in use, and one more, one is free.\<close>

lemma free_channel_None:
  "free_channel used t fuel n = None \<Longrightarrow> \<forall>i \<in> {n..<n + fuel}. used (candidate_name t i)"
proof (induction fuel arbitrary: n)
  case (Suc fuel)
  then have "used (candidate_name t n)" "\<forall>i \<in> {Suc n..<Suc n + fuel}. used (candidate_name t i)"
    by (auto split: if_splits)
  then show ?case by (auto simp: Suc_le_eq dest: le_neq_implies_less)
qed simp

lemma free_channel_Some: "free_channel used t fuel n = Some x \<Longrightarrow> \<not> used x"
  by (induction fuel arbitrary: n) (auto split: if_splits)

lemma derived_channel_free: "\<not> name_used channels bound k (derived_channel k channels bound t)"
proof -
  let ?used = "name_used channels bound k" and ?fuel = "Suc (length (fields_of channels) + length bound)"
  let ?names = "map fst (fields_of channels) @ map (str_of \<circ> snd) bound"
  have used: "x \<in> set ?names" if "?used x" for x
    using that by (force simp: name_used_def binds_def keys_of_def list_ex_iff)
  have "free_channel ?used t ?fuel 1 \<noteq> None"
  proof
    assume "free_channel ?used t ?fuel 1 = None"
    then have "candidate_name t ` {1..<1 + ?fuel} \<subseteq> set ?names"
      using free_channel_None used by blast
    then have "card {1..<1 + ?fuel} \<le> card (set ?names)"
      using card_inj_on_le [of "candidate_name t" "{1..<1 + ?fuel}"] by (simp add: inj_on_def candidate_name_inj)
    also have "\<dots> \<le> length ?names" by (rule card_length)
    finally show False by simp
  qed
  then obtain x where x: "free_channel ?used t ?fuel 1 = Some x" by auto
  then have "derived_channel k channels bound t = x" unfolding derived_channel_def by (simp only: option.sel)
  then show ?thesis using free_channel_Some [OF x] by simp
qed

lemma choose_channel_free:
  assumes "choose_channel k d bound t = Inr (n, kind, added)"
  shows "\<not> binds bound k n" and "added \<or> is_obj (jget_or (field_or_empty d ''channels'') n JNull)
      \<and> jget_or (jget_or (field_or_empty d ''channels'') n JNull) ''direction'' JNull = JStr ''in''
      \<and> jget_or (jget_or (field_or_empty d ''channels'') n JNull) ''value_type'' JNull = kind"
  using assms derived_channel_free [of "field_or_empty d ''channels''" bound k t]
  by (auto simp: choose_channel_def Let_def res_bind_Inr_iff demand_def name_used_def get_of_def split: if_splits)

lemma device_Inr:
  assumes "device show doc k = Inr d"
  obtains i where "device_position k (devices_of doc) = Some i" and "i < length (devices_of doc)"
    and "d = devices_of doc ! i" and "is_obj d" and "py_eq (jget_or d ''id'' JNull) k"
proof -
  obtain i where i: "device_position k (devices_of doc) = Some i" "d = devices_of doc ! i"
    using assms by (auto simp: device_def split: option.splits)
  then have "i \<in> set [0..<length (devices_of doc)] \<and> is_obj (devices_of doc ! i)
      \<and> py_eq (jget_or (devices_of doc ! i) ''id'' JNull) k"
    by (auto simp: device_position_def find_Some_iff)
  then show thesis using that i by simp
qed

text \<open>A device that is written back under its id is found again, and nothing else of the document changes.\<close>

lemma find_same: "(\<And>x. x \<in> set xs \<Longrightarrow> P x = Q x) \<Longrightarrow> List.find P xs = List.find Q xs"
  by (induction xs) auto

lemma device_set_device:
  assumes "device show doc k = Inr d" and "is_obj d1" and "jget_or d1 ''id'' JNull = jget_or d ''id'' JNull"
  shows "device show (set_device k d1 doc) k = Inr d1"
    and "points_of (set_device k d1 doc) = points_of doc" and "signals_of (set_device k d1 doc) = signals_of doc"
proof -
  obtain i where i: "device_position k (devices_of doc) = Some i" "i < length (devices_of doc)" "d = devices_of doc ! i"
    "is_obj d"
    using device_Inr [OF assms(1)] by metis
  have devices: "devices_of (set_device k d1 doc) = (devices_of doc)[i := d1]"
    using i(1) by (simp add: set_device_def devices_of_def)
  have "device_position k ((devices_of doc)[i := d1]) = device_position k (devices_of doc)"
    unfolding device_position_def length_list_update
    by (rule find_same) (use assms i in \<open>auto simp: nth_list_update\<close>)
  then show "device show (set_device k d1 doc) k = Inr d1"
    using i by (simp add: device_def devices)
  show "points_of (set_device k d1 doc) = points_of doc" "signals_of (set_device k d1 doc) = signals_of doc"
    using i(1) by (simp_all add: set_device_def points_of_def signals_of_def)
qed

lemma device_extend_section:
  "k' \<noteq> ''devices'' \<Longrightarrow> device show (extend_section k' new doc) k = device show doc k"
  by (simp add: device_def split: option.split)

lemma add_channel_Inr:
  assumes "add_channel n kind d = Inr d1"
  shows "is_obj d1" and "jget_or d1 ''id'' JNull = jget_or d ''id'' JNull"
    and "jget_or d1 ''channels'' JNull = jset n (input_channel kind) (jget_or d ''channels'' JNull)"
    and "is_obj (jget_or d ''channels'' JNull)" and "k \<noteq> ''channels'' \<Longrightarrow> jget_or d1 k JNull = jget_or d k JNull"
  using assms by (auto simp: add_channel_def res_bind_Inr_iff jitem_Inr jget_or_def split: if_splits)

lemma binding_bound_point:
  assumes "\<not> unhashable k"
  shows "binding (JObj (bound_point pid kind k n @ more_fields)) = Inr [(k, JStr n)]"
  using assms
  by (simp add: binding_def field_or_empty_def or_empty_def bound_point_def jget_or_def jget_def get_of_def unhashable_def)

lemma gather_append: "gather f (xs @ ys) = res_bind (gather f xs) (\<lambda>as. res_bind (gather f ys) (\<lambda>bs. Inr (as @ bs)))"
  by (induction xs) (auto simp: res_bind_def split: sum.split)

lemma demand_Inr: "demand b m = Inr u \<longleftrightarrow> b"
  by (simp add: demand_def)

lemma input_channel_simps [simp]:
  "jget_or (input_channel kind) ''direction'' j = JStr ''in''" "jget_or (input_channel kind) ''value_type'' j = kind"
  by (simp_all add: input_channel_def jget_or_def jget_def)

text \<open>The document a writable field point is derived from, with the channel it rides.\<close>

lemma writable_field_point_Inr:
  assumes "writable_field_point show doc k t point_id signal_id given = Inr r"
  obtains d0 bound n kind added pid sid signal_name doc1 d where
    "device show doc k = Inr d0" "bound_channels (points_of doc) = Inr bound"
    "choose_channel k d0 bound t = Inr (n, kind, added)" "str_in kind value_kinds"
    "pid = (case point_id of Some i \<Rightarrow> i | None \<Rightarrow> max_id (points_of doc) + 1)"
    "with_channel show added k n kind doc = Inr doc1" "d = writable_doc k n kind pid sid signal_name doc1"
    "lint show d = Inr []" "map_of r ''document'' = Some d"
  using assms
  by (auto simp: writable_field_point_def Let_def res_bind_Inr_iff demand_Inr dest!: linted_Inr)

lemma with_channel_Inr:
  assumes "with_channel show added k n kind doc = Inr doc1" and "device show doc k = Inr d0"
    and "choose_channel k d0 bound t = Inr (n, kind, added)"
  shows "points_of doc1 = points_of doc"
    and "\<exists>dev. device show doc1 k = Inr dev
      \<and> jget_or (jget_or (field_or_empty dev ''channels'') n JNull) ''direction'' JNull = JStr ''in''
      \<and> jget_or (jget_or (field_or_empty dev ''channels'') n JNull) ''value_type'' JNull = kind"
proof -
  have "points_of doc1 = points_of doc \<and> (\<exists>dev. device show doc1 k = Inr dev
      \<and> jget_or (jget_or (field_or_empty dev ''channels'') n JNull) ''direction'' JNull = JStr ''in''
      \<and> jget_or (jget_or (field_or_empty dev ''channels'') n JNull) ''value_type'' JNull = kind)"
  proof (cases added)
    case False
    then show ?thesis using assms choose_channel_free(2) [OF assms(3)] by (simp add: with_channel_def)
  next
    case True
    then obtain d1 where d1: "add_channel n kind d0 = Inr d1" "doc1 = set_device k d1 doc"
      using assms(1,2) by (auto simp: with_channel_def res_bind_Inr_iff)
    note a = add_channel_Inr [OF d1(1)]
    have "truthy (jset n (input_channel kind) (jget_or d0 ''channels'' JNull))"
      by (simp add: jset_def update_nonempty)
    then have "field_or_empty d1 ''channels'' = jset n (input_channel kind) (jget_or d0 ''channels'' JNull)"
      by (simp add: field_or_empty_def or_empty_def a(3))
    then show ?thesis
      using device_set_device [OF assms(2) a(1,2)] d1(2) by simp
  qed
  then show "points_of doc1 = points_of doc"
    "\<exists>dev. device show doc1 k = Inr dev
      \<and> jget_or (jget_or (field_or_empty dev ''channels'') n JNull) ''direction'' JNull = JStr ''in''
      \<and> jget_or (jget_or (field_or_empty dev ''channels'') n JNull) ''value_type'' JNull = kind"
    by blast+
qed

text \<open>
  C21: a derived writable field point binds an input channel of the device that no point of the mounted
  model binds, declared there with the kind of the point, so the driver still binds each channel once;
  it is the only point added, writable and an input, and the document passes the structural check.
\<close>

theorem writable_point_unshared:
  assumes "writable_field_point show doc k t point_id signal_id given = Inr r" and "\<not> unhashable k"
  shows "\<exists>d bound n kind p dev. map_of r ''document'' = Some d \<and> lint show d = Inr []
    \<and> bound_channels (points_of doc) = Inr bound \<and> \<not> binds bound k n
    \<and> bound_channels (points_of d) = Inr (bound @ [(k, JStr n)])
    \<and> points_of d = points_of doc @ [p] \<and> jget_or p ''direction'' JNull = JStr ''in''
    \<and> jget_or p ''writable'' JNull = JBool True \<and> jget_or p ''value_type'' JNull = kind \<and> str_in kind value_kinds
    \<and> device show d k = Inr dev \<and> jget_or (jget_or (field_or_empty dev ''channels'') n JNull) ''direction'' JNull = JStr ''in''
    \<and> jget_or (jget_or (field_or_empty dev ''channels'') n JNull) ''value_type'' JNull = kind"
proof -
  obtain d0 bound n kind added pid sid signal_name doc1 d where w: "device show doc k = Inr d0"
    "bound_channels (points_of doc) = Inr bound" "choose_channel k d0 bound t = Inr (n, kind, added)"
    "str_in kind value_kinds" "with_channel show added k n kind doc = Inr doc1"
    "d = writable_doc k n kind pid sid signal_name doc1" "lint show d = Inr []" "map_of r ''document'' = Some d"
    using writable_field_point_Inr [OF assms(1)] by metis
  define p where "p = JObj (bound_point pid kind k n @ [(''writable'', JBool True)])"
  note rode = with_channel_Inr [OF w(5,1,3)]
  have points: "points_of d = points_of doc @ [p]" using rode(1) by (simp add: w(6) writable_doc_def p_def)
  have "bound_channels (points_of d) = Inr (bound @ [(k, JStr n)])"
    using w(2) binding_bound_point [OF assms(2), of pid kind n "[(''writable'', JBool True)]"]
    by (simp add: bound_channels_def points gather_append p_def)
  moreover have "device show d k = device show doc1 k"
    by (simp add: w(6) writable_doc_def device_extend_section)
  moreover have "jget_or p ''direction'' JNull = JStr ''in''" "jget_or p ''writable'' JNull = JBool True"
    "jget_or p ''value_type'' JNull = kind"
    by (simp_all add: p_def bound_point_def jget_or_def jget_def)
  ultimately show ?thesis
    using w choose_channel_free(1) [OF w(3)] points rode(2) by metis
qed

subsection \<open>A second station\<close>

definition station_map :: "json \<Rightarrow> json" where
  "station_map dev = or_empty (jget_or (field_or_empty dev ''parameters'') ''stations'' JNull)"

lemma next_register_fresh: "next_register rs \<notin> set rs"
proof
  assume in_rs: "next_register rs \<in> set rs"
  then have "rs \<noteq> []" by auto
  then have "next_register rs = Max (set rs) + 1" by (simp add: next_register_def)
  then show False using Max_ge [OF _ in_rs] by simp
qed

lemma two_station_Inr:
  assumes "two_station_cyclic show doc k = Inr r"
  obtains d0 d1 rs d where "device show doc k = Inr d0" "truthy (station_map d0)"
    "contains derived_station (station_map d0) = Inr False"
    "contains extra_cyclic_channel (field_or_empty d0 ''channels'') = Inr False"
    "add_channel extra_cyclic_channel (JStr ''bool'') d0 = Inr d1" "registers_of (station_map d0) = Inr rs"
    "d = two_station_doc k (add_station (next_register rs) (station_map d0) d1) doc"
    "lint show d = Inr []" "map_of r ''document'' = Some d"
  using assms
  by (auto simp: two_station_cyclic_def station_gates_def get_of_def station_map_def Let_def res_bind_Inr_iff demand_Inr
      split: if_splits dest!: linted_Inr)

text \<open>
  The derived station answers a register no station of the device uses, the stations the mounted
  model declares keep their maps, the only point added is the input bound to the new channel, and the
  document passes the structural check.
\<close>

lemma second_station_apart:
  assumes "two_station_cyclic show doc k = Inr r"
  shows "\<exists>d d0 dev rs reg p. map_of r ''document'' = Some d \<and> lint show d = Inr []
    \<and> device show doc k = Inr d0 \<and> device show d k = Inr dev
    \<and> registers_of (station_map d0) = Inr rs \<and> reg \<notin> set rs
    \<and> jget (station_map d0) derived_station = None
    \<and> station_map dev = jset derived_station (JObj [(extra_cyclic_channel, JInt reg)]) (station_map d0)
    \<and> points_of d = points_of doc @ [p]
    \<and> jget_or p ''channel'' JNull = JObj [(''device'', k), (''name'', JStr extra_cyclic_channel)]
    \<and> jget_or (field_or_empty d0 ''channels'') extra_cyclic_channel JNull = JNull"
proof -
  obtain d0 d1 rs d where t: "device show doc k = Inr d0" "truthy (station_map d0)"
    "contains derived_station (station_map d0) = Inr False"
    "contains extra_cyclic_channel (field_or_empty d0 ''channels'') = Inr False"
    "add_channel extra_cyclic_channel (JStr ''bool'') d0 = Inr d1" "registers_of (station_map d0) = Inr rs"
    "d = two_station_doc k (add_station (next_register rs) (station_map d0) d1) doc"
    "lint show d = Inr []" "map_of r ''document'' = Some d"
    using two_station_Inr [OF assms] by metis
  note a = add_channel_Inr [OF t(5)]
  let ?dev = "add_station (next_register rs) (station_map d0) d1"
  have "is_obj ?dev" "jget_or ?dev ''id'' JNull = jget_or d0 ''id'' JNull"
    by (simp_all add: add_station_def a(2))
  note written = device_set_device [OF t(1) this]
  have dev: "device show d k = Inr ?dev"
    using written(1) by (simp add: t(7) two_station_doc_def Let_def device_extend_section)
  have parameters: "jget_or ?dev ''parameters'' JNull = jset ''stations''
      (jset derived_station (JObj [(extra_cyclic_channel, JInt (next_register rs))]) (station_map d0))
      (jget_or d1 ''parameters'' JNull)"
    by (simp add: add_station_def)
  have "truthy (jset a v j)" for a v j by (simp add: jset_def update_nonempty)
  then have stations: "station_map ?dev = jset derived_station (JObj [(extra_cyclic_channel, JInt (next_register rs))]) (station_map d0)"
    using parameters by (simp add: station_map_def [of ?dev] field_or_empty_def or_empty_def)
  have "is_obj (station_map d0)" using t(6) by (auto simp: registers_of_def values_of_def res_bind_Inr_iff split: if_splits)
  then have "jget (station_map d0) derived_station = None"
    using t(3) by (cases "station_map d0") (auto simp: contains_def jget_def map_of_eq_None_iff)
  moreover have "points_of d = points_of doc @ [JObj (bound_point (max_id (points_of doc) + 1) (JStr ''bool'') k extra_cyclic_channel)]"
    using written(2) by (simp add: t(7) two_station_doc_def Let_def)
  moreover have "jget_or (JObj (bound_point pid kind k n)) ''channel'' JNull = JObj [(''device'', k), (''name'', JStr n)]" for pid kind n
    by (simp add: bound_point_def jget_or_def jget_def)
  moreover have "jget_or (field_or_empty d0 ''channels'') extra_cyclic_channel JNull = JNull"
    using t(4) by (auto simp: contains_def jget_or_def jget_def split: json.splits option.split
        dest!: map_of_SomeD intro: rev_image_eqI)
  ultimately show ?thesis
    using t(1,6,8,9) dev stations next_register_fresh [of rs] by blast
qed

lemma Max_snoc: "ys \<noteq> [] \<Longrightarrow> Max (set (ys @ [y])) = max (Max (set ys)) y"
  by (simp add: max.commute)

lemma max_id_append:
  assumes "is_obj p" and "jget_or p ''id'' JNull = JInt (max_id xs + 1)"
  shows "max_id (xs @ [p]) = max_id xs + 1"
proof -
  let ?ids = "\<lambda>ys. map int_of (filter isinstance_int (map (\<lambda>e. jget_or e ''id'' JNull) (filter is_obj ys)))"
  have snoc: "?ids (xs @ [p]) = ?ids xs @ [max_id xs + 1]" using assms by simp
  show ?thesis
  proof (cases "?ids xs = []")
    case True
    then show ?thesis unfolding max_id_def Let_def snoc by (simp add: max_id_def Let_def)
  next
    case False
    then have m: "max_id xs = Max (set (?ids xs))" by (simp only: max_id_def Let_def if_False)
    have "max_id (xs @ [p]) = Max (set (?ids xs @ [max_id xs + 1]))"
      unfolding max_id_def [of "xs @ [p]"] Let_def snoc by simp
    also have "\<dots> = max (Max (set (?ids xs))) (max_id xs + 1)"
      using Max_snoc [OF False] .
    finally show ?thesis using m by simp
  qed
qed

text \<open>
  Every derived point gets an id one above the largest one declared, so the largest declared id,
  above which the assembly allocates the ids of synthesized links, moves, although it is said to stay.
\<close>

lemma derived_ids_shift_base:
  assumes "two_station_cyclic show doc k = Inr r \<or> writable_field_point show doc k t None signal_id given = Inr r"
  shows "\<exists>d. map_of r ''document'' = Some d \<and> max_id (points_of d) = max_id (points_of doc) + 1"
proof -
  have added: "max_id (points_of doc @ [JObj (bound_point (max_id (points_of doc) + 1) kind k n @ rest)])
      = max_id (points_of doc) + 1" for kind n rest
    by (rule max_id_append) (simp_all add: bound_point_def jget_or_def jget_def)
  from assms show ?thesis
  proof
    assume "two_station_cyclic show doc k = Inr r"
    then obtain d0 d1 rs d where t: "device show doc k = Inr d0"
      "add_channel extra_cyclic_channel (JStr ''bool'') d0 = Inr d1"
      "d = two_station_doc k (add_station (next_register rs) (station_map d0) d1) doc" "map_of r ''document'' = Some d"
      by (rule two_station_Inr)
    have "is_obj (add_station (next_register rs) (station_map d0) d1)"
      "jget_or (add_station (next_register rs) (station_map d0) d1) ''id'' JNull = jget_or d0 ''id'' JNull"
      by (simp_all add: add_station_def add_channel_Inr(2) [OF t(2)])
    from device_set_device(2) [OF t(1) this] show ?thesis
      using t(3,4) added [of "JStr ''bool''" extra_cyclic_channel "[]"] by (simp add: two_station_doc_def Let_def)
  next
    assume "writable_field_point show doc k t None signal_id given = Inr r"
    then obtain d0 bound n kind added_one sid signal_name doc1 d where w: "device show doc k = Inr d0"
      "choose_channel k d0 bound t = Inr (n, kind, added_one)" "with_channel show added_one k n kind doc = Inr doc1"
      "d = writable_doc k n kind (max_id (points_of doc) + 1) sid signal_name doc1" "map_of r ''document'' = Some d"
      using writable_field_point_Inr [where point_id = None] by (metis option.simps(4))
    show ?thesis
      using w(4,5) with_channel_Inr(1) [OF w(3,1,2)] added [of kind n] by (simp add: writable_doc_def)
  qed
qed

subsection \<open>A small model\<close>

definition channel_doc :: "string \<Rightarrow> json" where
  "channel_doc n = JObj [(''device'', JInt 1), (''name'', JStr n)]"

definition internal_point :: "int \<Rightarrow> json" where
  "internal_point pid = JObj [(''id'', JInt pid), (''direction'', JStr ''in''), (''value_type'', JStr ''bool''),
     (''initial'', JObj [(''bool'', JBool False)]), (''writable'', JBool True)]"

definition small_model :: json where
  "small_model = JObj
     [(''version'', JInt 1),
      (''devices'', JList [JObj [(''id'', JInt 1), (''kind'', JStr ''sim-cyclic''),
         (''parameters'', JObj [(''stations'', JObj [(''750-354'', JObj [(''di1'', JInt 0), (''di2'', JInt 1)])])]),
         (''channels'', JObj [(''di1'', input_channel (JStr ''bool'')), (''di2'', input_channel (JStr ''bool''))])]]),
      (''io_points'', JList [JObj (bound_point 10 (JStr ''bool'') (JInt 1) ''di1''), internal_point 20, internal_point 21]),
      (''signals'', JList [JObj [(''id'', JInt 5), (''name'', JStr ''level''), (''source'', JInt 10)]]),
      (''components'', JList []),
      (''connections'', JList [JObj [(''from'', JObj [(''point'', JInt 20)]), (''to'', JObj [(''port'', JStr ''a'')])]])]"

definition small_recipe :: json where
  "small_recipe = JObj
     [(''add_io_points'', JList [internal_point 900]),
      (''add_signals'', JList [JObj [(''id'', JInt 901), (''name'', JStr ''marker''), (''source'', JInt 900)]])]"

definition retype_spec :: "int \<Rightarrow> json" where
  "retype_spec other = JObj [(''retype_io_point'', JObj [(''id'', JInt 20), (''value_type'', JStr ''int''),
     (''initial'', JObj [(''int'', JInt 0)]), (''rewire_to'', JInt other)])]"

definition nothing_shown :: "json \<Rightarrow> string" where "nothing_shown _ = []"

lemma small_derive:
  "case derive nothing_shown small_model small_recipe of Inl e \<Rightarrow> False | Inr d \<Rightarrow> length (points_of d) = 4"
  by code_simp

lemma small_incompatible:
  "case apply_incompatible nothing_shown small_model (retype_spec 21) of
     Inl e \<Rightarrow> False | Inr (d, pid, n) \<Rightarrow> pid = JInt 20 \<and> n = 1"
  by code_simp

lemma small_self_rewire:
  "case apply_incompatible nothing_shown small_model (retype_spec 20) of
     Inl e \<Rightarrow> False | Inr (d, pid, n) \<Rightarrow> pid = JInt 20 \<and> n = 1"
  by code_simp

lemma small_writable:
  "case writable_field_point nothing_shown small_model (JInt 1) ''di1'' None None None of Inl e \<Rightarrow> False | Inr r \<Rightarrow> True"
  by code_simp

lemma small_stations:
  "case two_station_cyclic nothing_shown small_model (JInt 1) of Inl e \<Rightarrow> False | Inr r \<Rightarrow> True"
  by code_simp

theorem derive_additive_witness:
  "\<exists>d. derive nothing_shown small_model small_recipe = Inr d
     \<and> filter (\<lambda>p. has_field p ''channel'') (points_of d) = [JObj (bound_point 10 (JStr ''bool'') (JInt 1) ''di1'')]
     \<and> jget d ''devices'' = jget small_model ''devices''"
proof -
  obtain d where d: "derive nothing_shown small_model small_recipe = Inr d"
    using small_derive by (auto split: sum.splits)
  have "filter (\<lambda>p. has_field p ''channel'') (points_of small_model) = [JObj (bound_point 10 (JStr ''bool'') (JInt 1) ''di1'')]"
    by (simp add: points_of_def small_model_def jget_or_def jget_def has_field_def bound_point_def internal_point_def)
  moreover have "filter (\<lambda>p. has_field p ''channel'') (points_of d) = filter (\<lambda>p. has_field p ''channel'') (points_of small_model)"
    and "\<forall>k. k \<noteq> ''io_points'' \<longrightarrow> k \<noteq> ''signals'' \<longrightarrow> jget d k = jget small_model k"
    using derive_additive [OF d] by metis+
  ultimately show ?thesis using d by simp
qed

theorem self_rewire_keeps_ends_witness:
  "\<exists>d n. apply_incompatible nothing_shown small_model (retype_spec 20) = Inr (d, JInt 20, n)
     \<and> jget_or (named_point (JInt 20) d) ''value_type'' JNull \<noteq> JStr ''bool''
     \<and> (\<exists>c \<in> set (connections_of d). names_point (JInt 20) c ''from'')"
proof -
  obtain d n where d: "apply_incompatible nothing_shown small_model (retype_spec 20) = Inr (d, JInt 20, n)"
    using small_self_rewire by (auto split: sum.splits)
  have "spec_field (retype_spec 20) ''rewire_to'' = JInt 20"
    by (simp add: spec_field_def retype_spec_def jget_or_def jget_def)
  moreover have "jget_or (named_point (JInt 20) small_model) ''value_type'' JNull = JStr ''bool''"
    "\<exists>c \<in> set (connections_of small_model). names_point (JInt 20) c ''from''" by code_simp+
  ultimately show ?thesis using self_rewire_keeps_ends [OF d] d by auto
qed

theorem writable_point_unshared_witness:
  "\<exists>r d n. writable_field_point nothing_shown small_model (JInt 1) ''di1'' None None None = Inr r
     \<and> map_of r ''document'' = Some d
     \<and> bound_channels (points_of d) = Inr [(JInt 1, JStr ''di1''), (JNull, JNull), (JNull, JNull), (JInt 1, JStr n)] \<and> n \<noteq> ''di1''"
proof -
  obtain r where r: "writable_field_point nothing_shown small_model (JInt 1) ''di1'' None None None = Inr r"
    using small_writable by (auto split: sum.splits)
  have "bound_channels (points_of small_model) = Inr [(JInt 1, JStr ''di1''), (JNull, JNull), (JNull, JNull)]" by code_simp
  then show ?thesis using writable_point_unshared [OF r] r by (auto simp: unhashable_def binds_def)
qed

end
