(* ===== verification/QaShip.thy ===== *)
theory QaShip
  imports QaRevision
begin

text \<open>
  qa_lane/ship.py: the contract that records which binaries the lane's image build produces and which
  image ships which of them, its checks, and the comparison of the deployed copy with the contract of the
  revision under test. A \<open>ShipError\<close> is a \<open>ValueError\<close>; the texts of errors that print a value leave it out.
\<close>

subsection \<open>The shape of a contract\<close>

definition contract_keys :: "string list" where
  "contract_keys = [''description'', ''compile_groups'', ''images'', ''host_tools'']"

definition needed_keys :: "string list" where
  "needed_keys = [''compile_groups'', ''images'', ''host_tools'']"

definition group_keys :: "string list" where "group_keys = [''cargo'', ''produces'']"
definition image_keys :: "string list" where "image_keys = [''name'', ''tag'', ''entrypoint'', ''ships'']"
definition image_names :: "string list" where "image_names = [''controller'', ''plant'']"
definition install_prefix :: string where "install_prefix = ''/usr/local/bin/''"

definition binary_char :: "char \<Rightarrow> bool" where
  "binary_char c \<longleftrightarrow> is_lower_az c \<or> is_dig c \<or> c \<in> set ''-_.''"

definition binary_ok :: "json \<Rightarrow> bool" where
  "binary_ok n \<longleftrightarrow> (case n of
     JStr t \<Rightarrow> t \<noteq> [] \<and> list_all binary_char t \<and> hd t \<notin> set ''-_.''
   | _ \<Rightarrow> False)"

definition binary_name :: "json \<Rightarrow> string \<Rightarrow> check" where
  "binary_name n place = ensure (binary_ok n) (ValueError (place @ '' names no usable binary''))"

definition text_ok :: "json \<Rightarrow> bool" where
  "text_ok j \<longleftrightarrow> is_str j \<and> \<not> blank (str_of j)"

definition filled_list :: "json \<Rightarrow> bool" where
  "filled_list j \<longleftrightarrow> is_list j \<and> items_of j \<noteq> []"

definition check_group_entry :: "nat \<Rightarrow> json \<Rightarrow> check" where
  "check_group_entry i g =
     (let place = ''compile_groups['' @ str_nat i @ '']''; f = (\<lambda>k. jget_or g k JNull) in first_exn
       [ensure (fields_between g group_keys group_keys) (ValueError (place @ '' must declare exactly cargo and produces'')),
        ensure (text_ok (f ''cargo'')) (ValueError (place @ '' cargo must be a non-empty argument list'')),
        ensure (filled_list (f ''produces'')) (ValueError (place @ '' produces must name at least one binary'')),
        check_all (\<lambda>n. binary_name n (place @ '' produces'')) (items_of (f ''produces'')),
        ensure (distinct (items_of (f ''produces''))) (ValueError (place @ '' produces names a binary twice''))])"

definition check_image_entry :: "nat \<Rightarrow> json list \<Rightarrow> json list \<Rightarrow> json \<Rightarrow> check" where
  "check_image_entry i seen_names seen_entries img =
     (let place = ''images['' @ str_nat i @ '']''; f = (\<lambda>k. jget_or img k JNull) in first_exn
       [ensure (fields_between img image_keys image_keys)
          (ValueError (place @ '' must declare exactly name, tag, entrypoint, and ships'')),
        ensure (\<not> unhashable (f ''name'')) hash_error,
        ensure (str_in (f ''name'') image_names) (ValueError (place @ '' names unknown image'')),
        ensure (f ''name'' \<notin> set seen_names) (ValueError ''shipped-binary contract names an image twice''),
        ensure (text_ok (f ''tag'')) (ValueError (place @ '' tag must be a non-empty string'')),
        binary_name (f ''entrypoint'') place,
        ensure (f ''entrypoint'' \<notin> set seen_entries)
          (ValueError ''shipped-binary contract gives an image the entrypoint another image already serves''),
        ensure (is_list (f ''ships''))
          (ValueError (place @ '' ships must be a list of the extra binaries beside the entrypoint'')),
        check_all (\<lambda>n. binary_name n (place @ '' ships'')) (items_of (f ''ships'')),
        ensure (distinct (items_of (f ''ships'')) \<and> f ''entrypoint'' \<notin> set (items_of (f ''ships'')))
          (ValueError (place @ '' ships a binary twice or its own entrypoint''))])"

text \<open>The loop over the images, with the names and the entrypoints seen so far.\<close>

fun check_images :: "nat \<Rightarrow> json list \<Rightarrow> json list \<Rightarrow> json list \<Rightarrow> check" where
  "check_images i seen_names seen_entries [] =
     ensure (set (map JStr image_names) \<subseteq> set seen_names) (ValueError ''shipped-binary contract records no image for a name'')"
| "check_images i seen_names seen_entries (img # images) =
     (case check_image_entry i seen_names seen_entries img of
        Some e \<Rightarrow> Some e
      | None \<Rightarrow> check_images (Suc i) (jget_or img ''name'' JNull # seen_names)
                  (jget_or img ''entrypoint'' JNull # seen_entries) images)"

definition check_contract :: "json \<Rightarrow> check" where
  "check_contract contract =
     (let f = (\<lambda>k. jget_or contract k JNull) in first_exn
       [ensure (fields_between contract needed_keys contract_keys)
          (ValueError ''shipped-binary contract keys must declare compile_groups, images, and host_tools''),
        ensure (filled_list (f ''compile_groups''))
          (ValueError ''shipped-binary contract compile_groups must be a non-empty list''),
        check_all (\<lambda>(i, g). check_group_entry i g) (List.enumerate 0 (items_of (f ''compile_groups''))),
        ensure (filled_list (f ''images'')) (ValueError ''shipped-binary contract images must be a non-empty list''),
        check_images 0 [] [] (items_of (f ''images'')),
        ensure (is_list (f ''host_tools'')) (ValueError ''shipped-binary contract host_tools must be a list''),
        check_all (\<lambda>n. binary_name n ''host_tools'') (items_of (f ''host_tools'')),
        ensure (distinct (items_of (f ''host_tools''))) (ValueError ''shipped-binary contract names a host tool twice'')])"

text \<open>A missing document is an error only where one is required; a null counts as none.\<close>

definition read_contract :: "'w os \<Rightarrow> string \<Rightarrow> bool \<Rightarrow> ('w, json option) prog" where
  "read_contract X path needed =
     doing (ask (is_file X path)) (\<lambda>there.
       if \<not> there
       then (if needed then raise (ValueError (''cannot read shipped-binary contract '' @ path)) else ret None)
       else doing (read_json X ''shipped-binary contract'' path) (\<lambda>j. ret (if j = JNull then None else Some j)))"

definition load_contract :: "'w os \<Rightarrow> string \<Rightarrow> ('w, json) prog" where
  "load_contract X path =
     doing (read_contract X path True) (\<lambda>found.
       case found of
         None \<Rightarrow> raise (ValueError ''shipped-binary contract keys must declare compile_groups, images, and host_tools'')
       | Some contract \<Rightarrow> (case check_contract contract of Some e \<Rightarrow> raise e | None \<Rightarrow> ret contract))"

subsection \<open>What is built and what is shipped\<close>

text \<open>These read a contract whose shape was checked.\<close>

definition groups_of :: "json \<Rightarrow> json list" where
  "groups_of contract = items_of (jget_or contract ''compile_groups'' JNull)"

definition images_of :: "json \<Rightarrow> json list" where
  "images_of contract = items_of (jget_or contract ''images'' JNull)"

definition tools_of :: "json \<Rightarrow> json list" where
  "tools_of contract = items_of (jget_or contract ''host_tools'' JNull)"

definition compile_command :: "json \<Rightarrow> string" where
  "compile_command contract =
     join '' && '' (map (\<lambda>g. ''cargo build --release --locked '' @ fstr ''cargo'' g) (groups_of contract))"

definition compiled :: "json \<Rightarrow> json list" where
  "compiled contract = concat (map (\<lambda>g. items_of (jget_or g ''produces'' JNull)) (groups_of contract))"

definition carried_binaries :: "json \<Rightarrow> json list" where
  "carried_binaries img = jget_or img ''entrypoint'' JNull # items_of (jget_or img ''ships'' JNull)"

definition payload :: "json \<Rightarrow> (string \<times> json list) list" where
  "payload contract =
     fold (\<lambda>img. AList.update (fstr ''name'' img) (carried_binaries img)) (images_of contract) []"

definition ship_gaps :: "json \<Rightarrow> string list" where
  "ship_gaps contract =
     concat (map (\<lambda>(n, bs). map (\<lambda>b. n @ '' carries '' @ str_of b) (filter (\<lambda>b. b \<notin> set (compiled contract)) bs))
       (sort_key fst (payload contract)))
     @ map (\<lambda>b. ''host tool '' @ str_of b) (filter (\<lambda>b. b \<notin> set (compiled contract)) (tools_of contract))"

definition assert_complete :: "json \<Rightarrow> check" where
  "assert_complete contract =
     ensure (ship_gaps contract = []) (ValueError (''no recorded compile target produces '' @ join ''; '' (ship_gaps contract)))"

definition copy_line :: "string \<Rightarrow> string" where
  "copy_line n = ''COPY '' @ n @ '' '' @ install_prefix @ n"

definition assert_staged :: "'w os \<Rightarrow> string \<Rightarrow> json \<Rightarrow> ('w, unit) prog" where
  "assert_staged X context_dir img =
     doing (look (listdir X context_dir)) (\<lambda>entries.
     doing (ask (\<lambda>w. filter (\<lambda>n. is_file X (slash context_dir n) w) entries)) (\<lambda>staged.
     doing (look (read_text X (slash context_dir ''Dockerfile''))) (\<lambda>dockerfile.
       let missing = filter (\<lambda>n. n \<notin> set staged \<or> \<not> in_text (copy_line n) dockerfile) (map str_of (carried_binaries img)) in
       if missing = [] then ret ()
       else raise (ValueError (fstr ''name'' img @ '' image stages no '' @ join '', '' missing)))))"

subsection \<open>The contract of the revision under test\<close>

definition revision_contract :: "'w os \<Rightarrow> string option \<Rightarrow> ('w, json option) prog" where
  "revision_contract X src =
     (case src of None \<Rightarrow> ret None | Some dir \<Rightarrow> read_contract X (slash dir ''qa_lane/ship.json'') False)"

text \<open>The recorded contract is not checked: what it lacks raises where it is read.\<close>

definition lane_gap :: "string \<Rightarrow> json list \<Rightarrow> json \<Rightarrow> string list res" where
  "lane_gap n have_bins b =
     (if in_set b have_bins then Inr []
      else if is_str b then Inr [n @ '' ships no '' @ str_of b] else Inl (TypeError ''can only concatenate str''))"

definition image_gaps :: "(string \<times> json list) list \<Rightarrow> json \<Rightarrow> string list res" where
  "image_gaps deployed img =
     res_bind (jitem img ''name'') (\<lambda>n.
       if unhashable n then Inl hash_error
       else case (if is_str n then map_of deployed (str_of n) else None) of
         None \<Rightarrow> if is_str n then Inr [''no '' @ str_of n @ '' image''] else Inl (TypeError ''can only concatenate str'')
       | Some have_bins \<Rightarrow>
           res_bind (jitem img ''entrypoint'') (\<lambda>entry.
           res_bind (jitem img ''ships'') (\<lambda>ships.
           res_bind (elements ships) (\<lambda>bs. gather (lane_gap (str_of n) have_bins) (entry # bs)))))"

definition behind :: "(string \<times> json list) list \<Rightarrow> json \<Rightarrow> string list res" where
  "behind deployed recorded =
     res_bind (jitem recorded ''images'') (\<lambda>images.
     res_bind (elements images) (gather (image_gaps deployed)))"

definition check_lane_copy :: "'w os \<Rightarrow> string option \<Rightarrow> json \<Rightarrow> ('w, unit) prog" where
  "check_lane_copy X src contract =
     doing (revision_contract X src) (\<lambda>found.
       case found of
         None \<Rightarrow> ret ()
       | Some recorded \<Rightarrow>
           doing (of_res (behind (payload contract) recorded)) (\<lambda>gaps.
             if gaps = [] then ret ()
             else raise (ValueError (''the deployed qa_lane copy predates the shipped-binary contract the revision under test ''
               @ ''records: '' @ join ''; '' gaps))))"

subsection \<open>What an accepted contract guarantees\<close>

definition image_name :: "json \<Rightarrow> string" where "image_name img = fstr ''name'' img"

definition image_sound :: "json \<Rightarrow> bool" where
  "image_sound img \<longleftrightarrow> is_obj img \<and> jget img ''name'' = Some (JStr (image_name img)) \<and> image_name img \<in> set image_names
     \<and> has_field img ''entrypoint'' \<and> is_list (jget_or img ''ships'' JNull) \<and> has_field img ''ships''
     \<and> distinct (carried_binaries img) \<and> list_all binary_ok (carried_binaries img)"

lemma fields_between_has: "fields_between j need allowed \<Longrightarrow> k \<in> set need \<Longrightarrow> has_field j k"
  by (auto simp: fields_between_def has_field_def jget_def subset_iff weak_map_of_SomeI map_of_eq_None_iff)

lemma has_field_str: "has_field j k \<Longrightarrow> is_str (jget_or j k JNull) \<Longrightarrow> jget j k = Some (JStr (fstr k j))"
  by (auto simp: has_field_def jget_or_def fstr_def split: option.splits) (metis is_str.elims(2) str_of.simps(1))

lemma check_image_entry_None:
  assumes "check_image_entry i seen_names seen_entries img = None"
  shows "image_sound img" and "JStr (image_name img) \<notin> set seen_names"
    and "jget_or img ''entrypoint'' JNull \<notin> set seen_entries" and "jget_or img ''name'' JNull = JStr (image_name img)"
proof -
  have c: "fields_between img image_keys image_keys" "str_in (jget_or img ''name'' JNull) image_names"
    "jget_or img ''name'' JNull \<notin> set seen_names" "jget_or img ''entrypoint'' JNull \<notin> set seen_entries"
    "binary_ok (jget_or img ''entrypoint'' JNull)" "is_list (jget_or img ''ships'' JNull)"
    "list_all binary_ok (items_of (jget_or img ''ships'' JNull))"
    "distinct (items_of (jget_or img ''ships'' JNull))"
    "jget_or img ''entrypoint'' JNull \<notin> set (items_of (jget_or img ''ships'' JNull))"
    using assms
    by (simp_all add: check_image_entry_def Let_def first_exn_None_iff binary_name_def check_all_def list_all_iff)
  have "is_str (jget_or img ''name'' JNull)" "image_name img \<in> set image_names"
    using c(2) by (simp_all add: str_in_def image_name_def fstr_def)
  note named = has_field_str [OF fields_between_has [OF c(1)] this(1)] this(2)
  then have n: "jget img ''name'' = Some (JStr (image_name img))" by (simp add: image_keys_def image_name_def)
  then show "jget_or img ''name'' JNull = JStr (image_name img)" by (simp add: jget_or_def)
  then show "JStr (image_name img) \<notin> set seen_names" "jget_or img ''entrypoint'' JNull \<notin> set seen_entries"
    using c by simp_all
  have "has_field img ''entrypoint''" "has_field img ''ships''"
    using fields_between_has [OF c(1)] by (simp_all add: image_keys_def)
  moreover have "is_obj img" using c(1) by (simp add: fields_between_def)
  ultimately show "image_sound img"
    using n named(2) c by (simp add: image_sound_def carried_binaries_def)
qed

lemma check_images_None:
  assumes "check_images i seen_names seen_entries imgs = None"
  shows "list_all image_sound imgs \<and> distinct (map image_name imgs)
    \<and> (\<forall>img \<in> set imgs. JStr (image_name img) \<notin> set seen_names)
    \<and> JStr ` set image_names \<subseteq> set seen_names \<union> JStr ` image_name ` set imgs
    \<and> distinct (map (\<lambda>img. jget_or img ''entrypoint'' JNull) imgs)
    \<and> (\<forall>img \<in> set imgs. jget_or img ''entrypoint'' JNull \<notin> set seen_entries)"
  using assms
proof (induction imgs arbitrary: i seen_names seen_entries)
  case (Cons img imgs)
  then have ok: "check_image_entry i seen_names seen_entries img = None"
    and rest: "check_images (Suc i) (jget_or img ''name'' JNull # seen_names) (jget_or img ''entrypoint'' JNull # seen_entries) imgs = None"
    by (auto split: option.splits)
  note one = check_image_entry_None [OF ok]
  show ?case using Cons.IH [OF rest] one unfolding one(4) by auto
qed simp

lemma update_absent: "k \<notin> fst ` set al \<Longrightarrow> AList.update k v al = al @ [(k, v)]"
  by (induction al) auto

lemma payload_distinct:
  assumes "distinct (map image_name (images_of contract))"
  shows "payload contract = map (\<lambda>img. (image_name img, carried_binaries img)) (images_of contract)"
proof -
  have "fold (\<lambda>img. AList.update (image_name img) (carried_binaries img)) imgs acc
      = acc @ map (\<lambda>img. (image_name img, carried_binaries img)) imgs"
    if "distinct (map image_name imgs)" "image_name ` set imgs \<inter> fst ` set acc = {}" for imgs acc
    using that
  proof (induction imgs arbitrary: acc)
    case (Cons img imgs)
    then have "AList.update (image_name img) (carried_binaries img) acc = acc @ [(image_name img, carried_binaries img)]"
      by (intro update_absent) auto
    then show ?case using Cons.IH [of "acc @ [(image_name img, carried_binaries img)]"] Cons.prems by auto
  qed simp
  from this [OF assms, of "[]"] show ?thesis by (simp add: payload_def image_name_def)
qed

lemma contract_images:
  assumes "check_contract contract = None"
  shows "list_all image_sound (images_of contract)" and "distinct (map image_name (images_of contract))"
    and "image_name ` set (images_of contract) = set image_names"
    and "is_obj contract" and "jget contract ''images'' = Some (JList (images_of contract))"
proof -
  have c: "check_images 0 [] [] (images_of contract) = None" "fields_between contract needed_keys contract_keys"
    "filled_list (jget_or contract ''images'' JNull)"
    using assms by (simp_all add: check_contract_def Let_def first_exn_None_iff images_of_def)
  note i = check_images_None [OF c(1)]
  show "list_all image_sound (images_of contract)" "distinct (map image_name (images_of contract))" using i by simp_all
  then have "image_name img \<in> set image_names" if "img \<in> set (images_of contract)" for img
    using that by (simp add: list_all_iff image_sound_def)
  then show "image_name ` set (images_of contract) = set image_names" using i by auto
  show "is_obj contract" using c(2) by (simp add: fields_between_def)
  show "jget contract ''images'' = Some (JList (images_of contract))"
    using c(3) by (auto simp: filled_list_def images_of_def jget_or_def split: option.splits)
      (metis is_list.elims(2) items_of.simps(1))
qed

lemma in_set_binary: "binary_ok b \<Longrightarrow> in_set b xs \<longleftrightarrow> b \<in> set xs"
  by (auto simp: binary_ok_def in_set_def list_ex_iff split: json.splits)

lemma lane_gaps:
  assumes "list_all binary_ok bs"
  shows "\<exists>gaps. gather (lane_gap n have_bins) bs = Inr gaps \<and> (gaps = [] \<longleftrightarrow> set bs \<subseteq> set have_bins)"
  using assms
proof (induction bs)
  case (Cons b bs)
  then obtain gaps where "gather (lane_gap n have_bins) bs = Inr gaps" "gaps = [] \<longleftrightarrow> set bs \<subseteq> set have_bins" by auto
  moreover have "is_str b" using Cons.prems by (simp add: binary_ok_def split: json.splits)
  then have "lane_gap n have_bins b = Inr (if b \<in> set have_bins then [] else [n @ '' ships no '' @ str_of b])"
    using Cons.prems in_set_binary [of b have_bins] by (simp add: lane_gap_def)
  ultimately show ?case by auto
qed simp

lemma image_gaps_sound:
  assumes "image_sound img"
  shows "\<exists>gaps. image_gaps deployed img = Inr gaps \<and> (gaps = [] \<longleftrightarrow>
    (\<exists>bs. map_of deployed (image_name img) = Some bs \<and> set (carried_binaries img) \<subseteq> set bs))"
proof -
  have img: "jitem img ''name'' = Inr (JStr (image_name img))" "jitem img ''entrypoint'' = Inr (jget_or img ''entrypoint'' JNull)"
    "jitem img ''ships'' = Inr (jget_or img ''ships'' JNull)"
    "elements (jget_or img ''ships'' JNull) = Inr (items_of (jget_or img ''ships'' JNull))"
    using assms
    by (auto simp: image_sound_def jitem_def jget_def jget_or_def has_field_def elements_def split: json.splits option.splits)
  show ?thesis
  proof (cases "map_of deployed (image_name img)")
    case None
    then show ?thesis by (simp add: image_gaps_def img(1) unhashable_def)
  next
    case (Some have_bins)
    then show ?thesis
      using lane_gaps [of "carried_binaries img" "image_name img" have_bins] assms
      by (simp add: image_gaps_def img unhashable_def image_sound_def carried_binaries_def del: gather.simps)
  qed
qed

lemma behind_sound:
  assumes "list_all image_sound imgs"
  shows "\<exists>gaps. gather (image_gaps deployed) imgs = Inr gaps \<and> (gaps = [] \<longleftrightarrow>
    (\<forall>img \<in> set imgs. \<exists>bs. map_of deployed (image_name img) = Some bs \<and> set (carried_binaries img) \<subseteq> set bs))"
  using assms
proof (induction imgs)
  case (Cons img imgs)
  then obtain gaps where "gather (image_gaps deployed) imgs = Inr gaps" "gaps = [] \<longleftrightarrow>
    (\<forall>img \<in> set imgs. \<exists>bs. map_of deployed (image_name img) = Some bs \<and> set (carried_binaries img) \<subseteq> set bs)" by auto
  with image_gaps_sound [of img deployed] Cons.prems show ?case by auto
qed simp

text \<open>
  C20: for a deployed copy whose contract is well formed and complete, the comparison with a well-formed
  recorded contract never raises on the way, finds nothing exactly when every image the revision records
  carries no binary the deployed image of that name lacks, and every binary of a deployed image is built by
  one of the compile groups; the images are exactly the controller's and the plant's.
\<close>

theorem lane_copy_covers:
  assumes "check_contract deployed = None" and "assert_complete deployed = None" and "check_contract recorded = None"
  shows "(\<exists>gaps. behind (payload deployed) recorded = Inr gaps \<and> (gaps = [] \<longleftrightarrow>
        (\<forall>(n, bs) \<in> set (payload recorded). \<exists>have_bins. map_of (payload deployed) n = Some have_bins \<and> set bs \<subseteq> set have_bins)))
    \<and> (\<forall>(n, bs) \<in> set (payload deployed). set bs \<subseteq> set (compiled deployed) \<and> distinct bs)
    \<and> set (map fst (payload deployed)) = {''controller'', ''plant''}"
proof -
  note d = contract_images [OF assms(1)] and r = contract_images [OF assms(3)]
  have "elements (JList (images_of recorded)) = Inr (images_of recorded)" by (simp add: elements_def)
  then have "behind (payload deployed) recorded = gather (image_gaps (payload deployed)) (images_of recorded)"
    using r(4,5) by (cases recorded) (simp_all add: behind_def jitem_def jget_def)
  moreover have "ship_gaps deployed = []" using assms(2) by (simp add: assert_complete_def)
  then have "set bs \<subseteq> set (compiled deployed)" if "(n, bs) \<in> set (payload deployed)" for n bs
    using that by (fastforce simp: ship_gaps_def filter_empty_conv)
  moreover have "distinct bs" if "(n, bs) \<in> set (payload deployed)" for n bs
    using that d(1) by (auto simp: payload_distinct [OF d(2)] list_all_iff image_sound_def)
  moreover have "set (map fst (payload deployed)) = {''controller'', ''plant''}"
    using d(3) by (simp add: payload_distinct [OF d(2)] image_image image_names_def)
  ultimately show ?thesis
    using behind_sound [OF r(1), of "payload deployed"] by (auto simp: payload_distinct [OF r(2)])
qed

definition demo_contract :: "string list \<Rightarrow> json" where
  "demo_contract extra = JObj
     [(''compile_groups'', JList [JObj [(''cargo'', JStr ''-p dcs''),
         (''produces'', JList (map JStr [''dcs-controller'', ''dcs-plant-server'', ''dcs-ctl'']))]]),
      (''images'', JList
         [JObj [(''name'', JStr ''controller''), (''tag'', JStr ''c''), (''entrypoint'', JStr ''dcs-controller''),
            (''ships'', JList (map JStr extra))],
          JObj [(''name'', JStr ''plant''), (''tag'', JStr ''p''), (''entrypoint'', JStr ''dcs-plant-server''), (''ships'', JList [])]]),
      (''host_tools'', JList [])]"

lemma demo_contracts_ok:
  "check_contract (demo_contract []) = None"
  "check_contract (demo_contract [''dcs-ctl'']) = None"
  "assert_complete (demo_contract []) = None"
  by code_simp+

theorem lane_copy_covers_witness:
  "\<exists>gaps. behind (payload (demo_contract [])) (demo_contract [''dcs-ctl'']) = Inr gaps \<and> gaps \<noteq> []"
proof -
  have "(''controller'', map JStr [''dcs-controller'', ''dcs-ctl'']) \<in> set (payload (demo_contract [''dcs-ctl'']))"
    "map_of (payload (demo_contract [])) ''controller'' = Some [JStr ''dcs-controller'']"
    by code_simp+
  then show ?thesis
    using lane_copy_covers [OF demo_contracts_ok(1,3,2)] by fastforce
qed

end
