(* ===== verification/QaRelay.thy ===== *)
theory QaRelay
  imports QaRunner QaReportProps QaShip
begin

text \<open>
  qa_lane/relay.py: the reports of the QA lane on their way to the public page. A report is validated,
  stripped of paths, addresses and the user's name, validated again and pushed as one document, then the
  summary of the latest run. Parameters: the parsing of timestamps, the rendering of a moment, and
  \<open>send\<close>, the ssh command that stores one document (it raises when its exit code is not 0).
\<close>

subsection \<open>Redaction\<close>

definition any_of :: "string \<Rightarrow> rx" where "any_of cs = Rep (Chr (\<lambda>c. c \<in> set cs)) 0 None"

definition path_stop :: "char \<Rightarrow> bool" where
  "path_stop c \<longleftrightarrow> is_space c \<or> c \<in> set [CHR 0x22, CHR 0x27, CHR 0x60, CHR '','', CHR '')'', CHR '']'']"

definition path_rx :: rx where
  "path_rx = seqs [lit ''/'', alts [lit ''srv'', lit ''home'', lit ''etc'', lit ''var'', lit ''root'', lit ''tmp'', lit ''mnt''],
     Rep (Chr (\<lambda>c. \<not> path_stop c)) 0 None]"

definition octet :: rx where "octet = Rep (Chr is_dig) 1 (Some 3)"

definition lan_rx :: rx where
  "lan_rx = seqs [WordB, lit ''192.168.'', octet, lit ''.'', octet, WordB]"

definition user_rx :: rx where "user_rx = lit ''jan-kaspar''"

definition redactions :: "(rx \<times> string) list" where
  "redactions = [(path_rx, ''<path>''), (lan_rx, ''<lan-ip>''), (user_rx, ''<user>'')]"

definition scrub_text :: "string \<Rightarrow> string" where
  "scrub_text t = fold (\<lambda>(r, s). re_sub r (\<lambda>_. s)) redactions t"

fun scrub :: "json \<Rightarrow> json" where
  "scrub (JStr t) = JStr (scrub_text t)"
| "scrub (JList xs) = JList (map scrub xs)"
| "scrub (JObj kvs) = JObj (map (\<lambda>(k, v). (k, scrub v)) kvs)"
| "scrub v = v"

subsection \<open>The published documents\<close>

definition reduce_host :: "json \<Rightarrow> json res" where
  "reduce_host doc =
     (case jget doc ''host'' of
        None \<Rightarrow> Inr doc
      | Some host \<Rightarrow>
          if is_obj host
          then Inr (jset ''host'' (JObj [(''name'', JStr ''lenovo''), (''os'', jget_or host ''os'' (JStr []))]) doc)
          else Inl (AttributeError ''get''))"

definition sanitize :: "iso \<Rightarrow> (rat \<Rightarrow> string) \<Rightarrow> string \<Rightarrow> json res" where
  "sanitize parse rf t =
     res_bind (validate_qa_report parse None None t) (\<lambda>data.
     res_bind (reduce_host (scrub data)) (\<lambda>d.
       validate_qa_report parse None None (dumps_std rf d)))"

text \<open>These read a validated report.\<close>

definition report_list :: "json \<Rightarrow> string \<Rightarrow> json list" where
  "report_list doc k = items_of (given_or_empty doc k)"

definition outcome_map :: "string \<Rightarrow> json list \<Rightarrow> json" where
  "outcome_map k xs = fold (\<lambda>x. jset (fstr k x) (jget_or x ''outcome'' JNull)) xs (JObj [])"

definition keys_in :: "json \<Rightarrow> string \<Rightarrow> json" where
  "keys_in doc k = JList (map (\<lambda>x. jget_or x ''key'' JNull) (report_list doc k))"

definition run_summary :: "time \<Rightarrow> json \<Rightarrow> json" where
  "run_summary now doc =
     (let f = (\<lambda>k. (k, jget_or doc k JNull)) in JObj
       [(''schema'', JStr ''qa-summary''), (''schema_version'', JInt 1), f ''run_id'', f ''attempted_sha'',
        f ''completed_sha'', f ''outcome'', (''attempt'', jget_or doc ''attempt'' (JInt 1)), f ''started_at'',
        f ''finished_at'', (''scenarios'', outcome_map ''key'' (report_list doc ''scenarios'')),
        (''verifications'', outcome_map ''finding_key'' (report_list doc ''verifications'')),
        (''capability_limitations'', keys_in doc ''capability_limitations''),
        (''infrastructure_failures'', keys_in doc ''infrastructure_failures''), (''published_at'', JStr (iso_utc now))])"

definition failed_count :: "json \<Rightarrow> nat" where
  "failed_count doc =
     length (filter (\<lambda>s. jget_or s ''outcome'' JNull = JStr ''failed'') (report_list doc ''scenarios''))"

definition summary_text :: "json \<Rightarrow> string" where
  "summary_text doc =
     (let n = length (report_list doc ''scenarios''); result = fstr ''outcome'' doc in
      if result = ''passed'' then ''all '' @ str_nat n @ '' scenarios passed''
      else if result = ''failed'' then str_nat (failed_count doc) @ '' of '' @ str_nat n @ '' scenarios failed''
      else if result = ''interrupted'' then ''runner interrupted; see infrastructure_failures''
      else if result = ''blocked'' then ''run blocked before the assessment started''
      else ''assessment inconclusive'')"

definition index_entry :: "json \<Rightarrow> json" where
  "index_entry doc =
     (let f = (\<lambda>k. jget_or doc k JNull) in JObj
       [(''run_id'', f ''run_id''), (''doc'', JStr (''run-'' @ fstr ''run_id'' doc)), (''status'', f ''outcome''),
        (''mode'', JStr ''simulation''), (''attempted_sha'', f ''attempted_sha''), (''assessed_sha'', f ''completed_sha''),
        (''finished_at'', f ''finished_at''), (''summary'', JStr (summary_text doc))])"

text \<open>A file that cannot be read or is not a valid report is skipped; another exception ends the index.\<close>

fun index_entries :: "iso \<Rightarrow> 'w os \<Rightarrow> string \<Rightarrow> 'w \<Rightarrow> string list \<Rightarrow> json list res" where
  "index_entries parse X dir w [] = Inr []"
| "index_entries parse X dir w (n # ns) =
     (case res_bind (read_text X (slash dir n) w) (validate_qa_report parse None None) of
        Inl e \<Rightarrow> if quarantined e then index_entries parse X dir w ns else Inl e
      | Inr doc \<Rightarrow> res_bind (index_entries parse X dir w ns) (\<lambda>es. Inr (index_entry (scrub doc) # es)))"

definition report_files :: "'w os \<Rightarrow> string \<Rightarrow> 'w \<Rightarrow> string list" where
  "report_files X dir w = (case listdir X dir w of Inl e \<Rightarrow> [] | Inr ns \<Rightarrow> sort (filter (ends_with ''.json'') ns))"

definition newest_first :: "json list \<Rightarrow> json list" where
  "newest_first es = sorted_desc (fstr ''finished_at'') es"

definition reports_index :: "iso \<Rightarrow> 'w os \<Rightarrow> string \<Rightarrow> ('w, json) prog" where
  "reports_index parse X dir =
     doing (look (\<lambda>w. index_entries parse X dir w (report_files X dir w))) (\<lambda>es.
     doing (ask (clock X)) (\<lambda>now.
       ret (JObj [(''schema'', JStr ''dcs-qa-index/1''), (''updated_at'', JStr (iso_utc now)),
                  (''runs'', JList (newest_first es))])))"

text \<open>What the lane is doing now, from the parsed output of its status command.\<close>

definition running_row :: "(json \<Rightarrow> json res) \<Rightarrow> json \<Rightarrow> json list res" where
  "running_row moment entry =
     (if \<not> is_obj entry then Inr [JObj [(''run_id'', entry)]]
      else res_bind (jitem entry ''run_id'') (\<lambda>rid.
        let row = [(''run_id'', rid), (''attempted_sha'', jget_or entry ''attempted_sha'' JNull)];
            t = jget_or entry ''started'' JNull in
        if truthy t then res_bind (moment t) (\<lambda>s. Inr [JObj (row @ [(''started_at'', s)])]) else Inr [JObj row]))"

definition length_of :: "json \<Rightarrow> nat res" where
  "length_of j = (case j of JList xs \<Rightarrow> Inr (length xs) | JStr t \<Rightarrow> Inr (length t) | JObj kvs \<Rightarrow> Inr (length kvs)
     | _ \<Rightarrow> Inl (TypeError ''object has no len()''))"

definition or_list :: "json \<Rightarrow> json" where "or_list j = (if truthy j then j else JList [])"

definition activity :: "(json \<Rightarrow> json res) \<Rightarrow> time \<Rightarrow> json \<Rightarrow> json res" where
  "activity moment now status =
     (if \<not> is_obj status then Inl (AttributeError ''get'')
      else
        res_bind (elements (or_list (jget_or status ''running'' JNull))) (\<lambda>entries.
        res_bind (gather (running_row moment) entries) (\<lambda>running.
        res_bind (length_of (or_list (jget_or status ''queued'' JNull))) (\<lambda>queued.
          Inr (scrub (JObj ([(''schema'', JStr ''qa-activity/1''), (''generated_at'', JStr (iso_utc now)),
              (''running'', JList running), (''queued'', JInt (int queued)),
              (''last_attempted_sha'', jget_or status ''last_attempted_sha'' JNull)]
            @ (if jget_or status ''pending_verifications'' JNull = JNull then []
               else [(''pending_verifications'', jget_or status ''pending_verifications'' JNull)]))))))))"

subsection \<open>Publishing\<close>

definition doc_name_ok :: "string \<Rightarrow> bool" where
  "doc_name_ok n \<longleftrightarrow> re_match (key_rx 79) n \<noteq> None"

definition push :: "(rat \<Rightarrow> string) \<Rightarrow> (string \<Rightarrow> string \<Rightarrow> ('w, unit) prog) \<Rightarrow> string \<Rightarrow> json \<Rightarrow> ('w, unit) prog" where
  "push rf send n doc =
     (if \<not> doc_name_ok n then raise (ValueError (''invalid doc name: '' @ n))
      else if 1024 * 1024 < length (dumps_std rf doc)
      then raise (ValueError ''document exceeds the 1 MiB receiver bound'')
      else send n (dumps_std rf doc))"

definition publish ::
  "iso \<Rightarrow> 'w os \<Rightarrow> (string \<Rightarrow> string \<Rightarrow> ('w, unit) prog) \<Rightarrow> string \<Rightarrow> ('w, json) prog" where
  "publish parse X send path =
     doing (look (read_text X path)) (\<lambda>t.
     doing (of_res (sanitize parse (float_text X) t)) (\<lambda>doc.
     doing (push (float_text X) send (''run-'' @ fstr ''run_id'' doc) doc) (\<lambda>_.
     doing (ask (clock X)) (\<lambda>now.
     doing (push (float_text X) send ''latest'' (run_summary now doc)) (\<lambda>_.
       ret (jget_or doc ''run_id'' JNull))))))"

subsection \<open>The index\<close>

definition report_at :: "iso \<Rightarrow> 'w os \<Rightarrow> string \<Rightarrow> 'w \<Rightarrow> string \<Rightarrow> json res" where
  "report_at parse X dir w n = res_bind (read_text X (slash dir n) w) (validate_qa_report parse None None)"

definition valid_reports :: "iso \<Rightarrow> 'w os \<Rightarrow> string \<Rightarrow> 'w \<Rightarrow> string list \<Rightarrow> json list" where
  "valid_reports parse X dir w ns =
     List.map_filter (\<lambda>n. case report_at parse X dir w n of Inl e \<Rightarrow> None | Inr doc \<Rightarrow> Some doc) ns"

lemma index_entries_Inr:
  "index_entries parse X dir w ns = Inr es \<Longrightarrow> es = map (index_entry \<circ> scrub) (valid_reports parse X dir w ns)"
  by (induction ns arbitrary: es)
    (auto simp: valid_reports_def report_at_def map_filter_simps res_bind_Inr_iff split: sum.splits if_splits)

lemma index_entries_Inl:
  "index_entries parse X dir w ns = Inl e \<Longrightarrow> \<exists>n \<in> set ns. report_at parse X dir w n = Inl e \<and> \<not> quarantined e"
  by (induction ns) (auto simp: report_at_def res_bind_def split: sum.splits if_splits)

lemma value_error_quarantined: "value_error e \<Longrightarrow> quarantined e"
  by (auto simp: value_error_def quarantined_def)

text \<open>
  An index that is built lists exactly the valid reports of the directory, redacted and newest
  first; the only file that can end it is a well-formed document whose two timestamps differ in carrying an
  offset, which stops the index of all the others although one corrupt report must not blank it.
\<close>

lemma index_lists_or_stops:
  assumes "\<And>n e. read_text X (slash dir n) w = Inl e \<Longrightarrow> quarantined e"
  shows "case fst (reports_index parse X dir w) of
      Inr j \<Rightarrow> jget j ''runs'' = Some (JList (newest_first
        (map (index_entry \<circ> scrub) (valid_reports parse X dir w (report_files X dir w)))))
    | Inl e \<Rightarrow> \<exists>n \<in> set (report_files X dir w). \<exists>t data. read_text X (slash dir n) w = Inr t
        \<and> validate_qa_report parse None None t = Inl e \<and> loads t = Some data \<and> mixed_offsets parse data"
proof (cases "index_entries parse X dir w (report_files X dir w)")
  case (Inl e)
  then obtain n where n: "n \<in> set (report_files X dir w)" "report_at parse X dir w n = Inl e" "\<not> quarantined e"
    using index_entries_Inl [OF Inl] by (elim bexE conjE)
  then obtain t where t: "read_text X (slash dir n) w = Inr t" "validate_qa_report parse None None t = Inl e"
    using assms by (auto simp: report_at_def res_bind_def split: sum.splits)
  moreover have "\<exists>data. loads t = Some data \<and> mixed_offsets parse data"
    using rejected_report [OF t(2)] n(3) value_error_quarantined by blast
  ultimately show ?thesis using Inl n(1) by (auto simp: reports_index_def doing_def look_def)
next
  case (Inr es)
  then show ?thesis using index_entries_Inr [OF Inr] by (simp add: reports_index_def doing_def look_def jget_def)
qed

subsection \<open>What is published\<close>

text \<open>
  The documents that may leave: a report the validator accepts, whose host carries only the public name
  and the operating system, and the summary of such a report.
\<close>

definition public_host :: "json \<Rightarrow> bool" where
  "public_host doc \<longleftrightarrow> (case jget doc ''host'' of None \<Rightarrow> True
     | Some h \<Rightarrow> \<exists>v. h = JObj [(''name'', JStr ''lenovo''), (''os'', v)])"

definition scrubbed :: "json \<Rightarrow> bool" where
  "scrubbed doc \<longleftrightarrow> (\<exists>raw. doc = scrub raw \<or> (\<exists>h. doc = jset ''host'' h (scrub raw)))"

definition may_leave :: "iso \<Rightarrow> (rat \<Rightarrow> string) \<Rightarrow> string \<Rightarrow> string \<Rightarrow> bool" where
  "may_leave parse rf n b \<longleftrightarrow> length b \<le> 1024 * 1024 \<and> doc_name_ok n \<and>
     (\<exists>d doc. scrubbed d \<and> public_host d \<and> validate_qa_report parse None None (dumps_std rf d) = Inr doc
        \<and> (n = ''run-'' @ fstr ''run_id'' doc \<and> b = dumps_std rf doc
           \<or> n = ''latest'' \<and> (\<exists>now. b = dumps_std rf (run_summary now doc))))"

lemma reduce_host_Inr:
  "reduce_host doc = Inr d \<Longrightarrow> public_host d \<and> (d = doc \<or> (\<exists>h. d = jset ''host'' h doc))"
  by (auto simp: reduce_host_def public_host_def split: option.splits if_splits)

lemma sanitize_Inr:
  assumes "sanitize parse rf t = Inr doc"
  shows "\<exists>d. scrubbed d \<and> public_host d \<and> validate_qa_report parse None None (dumps_std rf d) = Inr doc"
proof -
  obtain data d where d: "reduce_host (scrub data) = Inr d" "validate_qa_report parse None None (dumps_std rf d) = Inr doc"
    using assms by (auto simp: sanitize_def res_bind_Inr_iff)
  have "scrubbed d" "public_host d" using reduce_host_Inr [OF d(1)] unfolding scrubbed_def by blast+
  with d(2) show ?thesis by (intro exI conjI)
qed

lemma keeps_push:
  assumes "length (dumps_std rf doc) \<le> 1024 * 1024 \<Longrightarrow> doc_name_ok n \<Longrightarrow> keeps P (send n (dumps_std rf doc))"
  shows "keeps P (push rf send n doc)"
  using assms by (auto simp: push_def not_less intro!: keeps_intros)


text \<open>
  One pass of the redaction can leave a LAN address: an address directly behind the user's name is
  no word of its own until the name was replaced, which comes last, and a second pass would remove it.
\<close>

lemma scrub_leaves_address:
  "scrub_text ''jan-kaspar192.168.178.81'' = ''<user>192.168.178.81''
   \<and> re_search lan_rx (scrub_text ''jan-kaspar192.168.178.81'') \<noteq> None
   \<and> scrub_text (scrub_text ''jan-kaspar192.168.178.81'') = ''<user><lan-ip>''"
  by (intro conjI) code_simp+

subsection \<open>A host that logs what is sent\<close>

definition relay_os :: "(string \<times> string) list os" where
  "relay_os = \<lparr>clock = (\<lambda>_. 0), exec = (\<lambda>_ _ w. (Inl (OSError ''exec''), w)), popen = (\<lambda>_ w. (Inr 1, w)),
     kill = (\<lambda>_ _ w. (Inr (), w)), exists_path = (\<lambda>_ _. True), is_file = (\<lambda>_ _. True), is_dir = (\<lambda>_ _. True),
     resolve = (\<lambda>p _. p), listdir = (\<lambda>_ _. Inr [''notes.txt'', ''qa-1.json'']),
     read_text = (\<lambda>_ _. Inr (demo_text ''t0'' ''failed'' 21 [])), write_text = (\<lambda>_ _ w. (Inr (), w)),
     mkdir = (\<lambda>_ w. (Inr (), w)), rename = (\<lambda>_ _ w. (Inr (), w)), sleep = (\<lambda>_ w. (Inr (), w)),
     uuid_hex = (\<lambda>w. (Inr [], w)), jitter = (\<lambda>_ _. 0), float_text = (\<lambda>_. []), session_row = (\<lambda>_ _. None)\<rparr>"

definition log_send :: "string \<Rightarrow> string \<Rightarrow> ((string \<times> string) list, unit) prog" where
  "log_send n b sent = (Inr (), sent @ [(n, b)])"

lemma relay_os_simps [simp]:
  "read_text relay_os p w = Inr (demo_text ''t0'' ''failed'' 21 [])" "listdir relay_os p w = Inr [''notes.txt'', ''qa-1.json'']"
  "float_text relay_os = (\<lambda>_. [])"
  by (simp_all add: relay_os_def)


end
