(* ===== verification/Spec2Isabelle.thy ===== *)
theory Spec2Isabelle
  imports RetryBudget LaneProps ConfigProps Watchdog MergeFlow QaLaneProps QaDerived QaShip QaRelay
begin

text \<open>
  Verification of the autonomous part of the repository: the agent pool (src/agent_pool), which turns
  GitHub issues into merged pull requests with a bounded pool of worker processes, and the QA lane
  (src/qa_lane), which assesses revisions of the product on a confined rig and reports back to the pool.

  The program. A supervisor process repeats a pass (agent_pool/supervisor.py, factory.py). A pass
  reconciles finished workers, recovers interrupted launches, publishes finished jobs, merges pull
  requests, retries blocked jobs, dispatches ready issues, runs the planner and the reviewer, and ends
  with the findings lane. All state is durable: the scheduler's tables (state.py) and the ledger of
  inference leases (admission.py) share one SQLite database, an invocation leaves a receipt in its clone
  (runtime.py), and GitHub is reached through its command line (github.py). On another host the QA lane's
  cycle (qa_lane/runner.py) works on a second database (qa_lane/state.py): it closes runs whose process
  died, removes what they left, frees old files and images, checks the firewall rules (netpolicy.py) and
  dispatches one run: a fix verification (verify.py), an assessment (runner.py) or an exploration
  (explorer.py). A run ends in a report (report.py), which the pool's findings lane (findings.py) reads
  from its inbox; merged fixes go back to the QA lane as a queue of verifications.
\<close>

subsection \<open>How the program is modelled\<close>

text \<open>
  Values. Python's integers are \<open>int\<close>; floats are rationals, without rounding and without NaN; a string is
  a list of characters of one byte (code points up to 255); a JSON value is the datatype \<open>json\<close> of Json,
  with an object as the list of its fields in insertion order. PyText and PyRegex hold the string methods
  and the part of \<open>re\<close> the sources use, Json the printer and the parser.

  State. A table is the list of its rows in insertion order, a database the record of its tables
  (\<open>db\<close> of SchedState, \<open>qa_db\<close> of QaState); an operation takes the database and the clock reading it uses
  and returns the new one, and one that raises leaves it as it was, since each runs in one transaction.

  Effects. A program is a function from a state to a result and the next state, where the result is a
  value or an exception (Effects: \<open>prog\<close>, with \<open>doing\<close>, \<open>and_then\<close>, \<open>steps\<close>, \<open>except_if\<close>, \<open>finally_do\<close>),
  so writes made before an exception survive it, as in the source. The outside world is a type variable;
  what the source asks of it (clock, subprocesses, files, random draws) are the fields of the record \<open>os\<close>,
  about which nothing is assumed but what a theorem names. The QA lane's host calls beyond it are the
  record \<open>rig\<close> of QaRunner.

  Loops. Retry loops and walks over lists are structural; searches that end by counting (a free run id, a
  greedy match, the reader of JSON) take as fuel the number of rows or characters, and lemmas show that it
  is enough: the fresh id is never taken, and every printed value without floats is read back. The walk
  over a process snapshot may not end, so it is a partial function with the value \<open>None\<close> for not returning.
\<close>

subsection \<open>Theories and sources\<close>

text \<open>
  Shared: Prelude (exceptions, results, checks), PyText, PyRegex, Json, Effects.

  agent_pool: SchedState and SchedLanes (state.py; SchedInvariant has its invariant), Classify and Admission
  (admission.py; AdmissionProps), Areas (areas.py), Planning (planning.py), Scheduling (scheduling.py),
  MergeResolution (merge_resolution.py), MergeFlow (merge_flow.py), GitHub (github.py), Runtime and Watchdog
  (runtime.py), Supervisor, Recovery, Requeue, Handlers, Lanes, PlannerLane and ReviewLane (supervisor.py),
  Review (review.py), Factory (factory.py and the loop of supervisor.py), Findings and FindingsLane
  (findings.py), Config (config.py).

  qa_lane: QaReport (report.py), QaState (state.py), Netpolicy (netpolicy.py), QaRunner, QaRuns and QaCycle
  (runner.py), QaVerify (verify.py), QaExplorer (explorer.py), QaCommands (__main__.py), QaRevision (revision.py),
  QaRigModel (rig_model.py; QaDerived has the properties of both), QaShip (ship.py) and QaRelay (relay.py).
  QaSim holds a concrete host for the witnesses.

  Definitions carry the names of the functions they model; a long function is split along its early
  returns and its handlers of exceptions, with the parts named after what they do.
\<close>

subsection \<open>What is shown\<close>

text \<open>
  The scheduler (SchedInvariant): the tables keep their invariant in every reachable database, a done job
  stays done, and a reservation succeeds exactly under its guards. Admission (AdmissionProps): leases stay
  within the bound and unique, targets between the configured bounds, a lease is granted exactly when
  every covering group admits it.

  The supervisor. PoolSteps is the abstract specification: sixteen steps on the database. PoolRefinement
  proves once, inside the locale \<open>pool_invariant\<close>, that whatever property of the database those steps keep is
  kept by every program of the supervisor, with all its exceptions; the interpretation \<open>reached\<close> of PoolProps
  takes being reached by the steps as that property, so a round refines the specification, and the invariants
  of the scheduler and of the ledger hold of the running pool. RetryBudget bounds the automatic retries of an
  issue and the leases of a launch; ConfigProps shows that a loaded configuration satisfies what those
  theorems ask of one; GitHub that a merge fails closed; Watchdog that a run is killed in time.

  Plans and merges: dependency order, the round trip of an issue's metadata comment, the agreement of the
  explanation with admission; MergeResolution proves the facts of keyed regions inside the locale
  \<open>keyed_region\<close>, interpreted for both registered documents; MergeFlow that the ledger replays the status.

  The findings lane (QaReportProps, LaneProps): what an accepted report guarantees, which errors the inbox
  quarantines, and that a finding counts as verified only with the evidence of a run on a revision that
  contains the fix.

  The QA lane. The locale \<open>lane_law\<close> of QaLaneInv states what a property of the lane's database must survive
  for the operations of a run, \<open>lane_begin\<close> and \<open>lane_queue\<close> add the start and the queueing of runs and
  \<open>lane_full\<close> joins them; the programs of the lane are proved to keep such a property once. The interpretation
  \<open>whole\<close> is the well-formed table with its pins, \<open>busy\<close> adds that one run executes at a time; both together
  give the invariant of a whole cycle. QaCommands and QaLaneProps show that dispatched ranges leave no
  revision out, that the evidence of a pending verification outlives retention, that nothing is built
  without a proof that the fix is contained, and which run is queued. Netpolicy shows what the installed
  rules do to a packet and that installing them is idempotent.

  The documents around a run: QaDerived shows that a derived plant model only adds to the mounted one and
  that a driver still binds each channel once (the search of a free name has as fuel one more than the names
  in use, which a counting argument shows to be enough), QaShip that the comparison of two shipped-binary
  contracts misses no binary, QaRelay that only redacted, validated documents are sent.

  Some theorems state a behaviour the code's own comments deny (a park missing from the merge-flow report, a
  published comment that cannot be read back, a report that stalls the lane, a walk that never returns, a
  lost range of revisions, a released manual pin, stranded runs, a point rewired to itself, an address that
  survives the redaction); the manifest lists them as findings.
\<close>

subsection \<open>Not modelled\<close>

text \<open>
  Log lines and the prose of prompts (the prompts are parameters); the texts of Python's own type and JSON
  errors, abbreviated; SQLite, git, gh, docker and iptables themselves, which are calls of other programs;
  schema migrations; argument parsing and printing; the runner's signal plumbing; time zones. The long
  dashes of some messages are written as hyphens. The configured capabilities of the lane are taken to be
  objects with a key, and directory entries are ordered by their characters. The iteration order of a Python
  set, where it decides only which of several errors is named, is the order of the set's literal.

  Of qa_lane/runner.py the building of images and the driving of the rig are parameters, as are the replays
  of cases and the scenarios (qa_lane/scenarios), which are test scripts against a running plant. The ssh
  command of relay.py is a parameter. The checks of src/reference-plant/ci and the developer scripts drive
  built binaries.
\<close>

end
